(* ===== verification/Prelude.thy ===== *)
theory Prelude
  imports Main "HOL-Library.Char_ord" "HOL-Library.List_Lexorder" "HOL-Library.Sublist"
    "HOL-Library.Code_Target_Nat"
begin

text \<open>
  Shared vocabulary of the development: results with an error value, the tree of
  Go errors that \<open>errors.Join\<close> and \<open>%w\<close> build, 64 bit integers, the string functions of
  Go's standard library that the sources call, decimal formatting and parsing, and UTF-8
  decoding to runes.  A Go string is a list of bytes, here \<^typ>\<open>string\<close>.
\<close>

named_theorems result_simps \<open>unfolding of sequenced fallible operations\<close>
named_theorems ok_simps \<open>when a chain of early returns succeeds\<close>
named_theorems bound_intros \<open>bounds on lengths and integers\<close>

section \<open>Results\<close>

type_synonym ('e, 'a) result = "'e + 'a"

definition bindr :: "'e + 'a \<Rightarrow> ('a \<Rightarrow> 'e + 'b) \<Rightarrow> 'e + 'b" where
  "bindr r f = (case r of Inl e \<Rightarrow> Inl e | Inr x \<Rightarrow> f x)"

lemma bindr_Inl [simp]: "bindr (Inl e) f = Inl e"
  by (simp add: bindr_def)

lemma bindr_Inr [simp]: "bindr (Inr x) f = f x"
  by (simp add: bindr_def)

lemma bindr_eq_Inr [result_simps]: "bindr r f = Inr y \<longleftrightarrow> (\<exists>x. r = Inr x \<and> f x = Inr y)"
  by (cases r) simp_all

lemma bindr_eq_Inl [result_simps]:
  "bindr r f = Inl e \<longleftrightarrow> r = Inl e \<or> (\<exists>x. r = Inr x \<and> f x = Inl e)"
  by (cases r) simp_all

text \<open>A Go function that only returns an error is a \<open>unit\<close> result; \<open>guardr\<close> is the
  early return of an error.\<close>

definition guardr :: "bool \<Rightarrow> 'e \<Rightarrow> 'e + unit" where
  "guardr b e = (if b then Inr () else Inl e)"

lemma guardr_eq_Inr [result_simps]: "guardr b e = Inr u \<longleftrightarrow> b"
  by (simp add: guardr_def)

lemma guardr_eq_Inl [result_simps]: "guardr b e = Inl e' \<longleftrightarrow> \<not> b \<and> e = e'"
  by (auto simp: guardr_def)

lemma guardr_simps [simp]: "guardr True e = Inr ()" "guardr False e = Inl e"
  by (simp_all add: guardr_def)

definition is_ok :: "'e + 'a \<Rightarrow> bool" where
  "is_ok r = (case r of Inl _ \<Rightarrow> False | Inr _ \<Rightarrow> True)"

lemma is_ok_simps [simp]: "is_ok (Inl e) = False" "is_ok (Inr x) = True"
  by (simp_all add: is_ok_def)

lemma is_ok_iff: "is_ok r \<longleftrightarrow> (\<exists>x. r = Inr x)"
  by (cases r) simp_all

lemma case_sum_eq_Inr [ok_simps]:
  "(case r of Inl e \<Rightarrow> Inl (g e) | Inr x \<Rightarrow> f x) = Inr y \<longleftrightarrow> (\<exists>x. r = Inr x \<and> f x = Inr y)"
  by (cases r) simp_all

lemma case_need_eq_Inr [ok_simps]:
  "(case r of None \<Rightarrow> Inl e | Some x \<Rightarrow> f x) = Inr y \<longleftrightarrow> (\<exists>x. r = Some x \<and> f x = Inr y)"
  by (cases r) simp_all

lemma case_refuse_eq_Inr [ok_simps]:
  "(case r of None \<Rightarrow> f | Some x \<Rightarrow> Inl (g x)) = Inr y \<longleftrightarrow> r = None \<and> f = Inr y"
  by (cases r) simp_all

lemma if_refuse_eq_Inr [ok_simps]: "(if b then Inl e else f) = Inr y \<longleftrightarrow> \<not> b \<and> f = Inr y"
  by simp

lemma if_accept_eq_Inr [ok_simps]: "(if b then f else Inl e) = Inr y \<longleftrightarrow> b \<and> f = Inr y"
  by simp

lemmas [ok_simps] = bindr_eq_Inr guardr_eq_Inr

text \<open>A loop over a slice that stops at the first error.\<close>

fun each :: "('a \<Rightarrow> 'e + unit) \<Rightarrow> 'a list \<Rightarrow> 'e + unit" where
  "each f [] = Inr ()"
| "each f (x # xs) = bindr (f x) (\<lambda>_. each f xs)"

fun mapr :: "('a \<Rightarrow> 'e + 'b) \<Rightarrow> 'a list \<Rightarrow> 'e + 'b list" where
  "mapr f [] = Inr []"
| "mapr f (x # xs) = bindr (f x) (\<lambda>y. bindr (mapr f xs) (\<lambda>ys. Inr (y # ys)))"

fun foldr_err :: "('s \<Rightarrow> 'a \<Rightarrow> 'e + 's) \<Rightarrow> 's \<Rightarrow> 'a list \<Rightarrow> 'e + 's" where
  "foldr_err f s [] = Inr s"
| "foldr_err f s (x # xs) = bindr (f s x) (\<lambda>s'. foldr_err f s' xs)"

lemma each_eq_Inr [result_simps]: "each f xs = Inr u \<longleftrightarrow> (\<forall>x \<in> set xs. f x = Inr ())"
  by (induction xs) (auto simp: bindr_eq_Inr)

lemma mapr_eq_Inr: "mapr f xs = Inr ys \<longleftrightarrow> list_all2 (\<lambda>x y. f x = Inr y) xs ys"
proof (induction xs arbitrary: ys)
  case Nil
  then show ?case by auto
next
  case (Cons x xs)
  then show ?case by (cases ys) (auto simp: bindr_eq_Inr)
qed

lemma mapr_length: "mapr f xs = Inr ys \<Longrightarrow> length ys = length xs"
  by (auto simp: mapr_eq_Inr dest: list_all2_lengthD)

lemma each_cong [fundef_cong]:
  "xs = ys \<Longrightarrow> (\<And>x. x \<in> set ys \<Longrightarrow> f x = g x) \<Longrightarrow> each f xs = each g ys"
  by (induction xs arbitrary: ys) auto

section \<open>Errors\<close>

text \<open>
  The errors that the runner distinguishes.  \<open>EPlain\<close> is any error made by \<open>errors.New\<close>,
  \<open>fmt.Errorf\<close> without \<open>%w\<close>, or by the library; \<open>EWrap\<close> is \<open>fmt.Errorf\<close> with \<open>%w\<close>;
  \<open>EJoin\<close> is \<open>errors.Join\<close>.
\<close>

datatype gerr =
    EPlain string
  | EMySQL nat string
  | EFailure string string
  | EUncertain
  | EWrap string gerr
  | EJoin "gerr list"

text \<open>The pre-order walk of \<open>errors.Is\<close> and \<open>errors.As\<close>.\<close>

fun err_tree :: "gerr \<Rightarrow> gerr list" where
  "err_tree (EWrap m e) = EWrap m e # err_tree e"
| "err_tree (EJoin es) = EJoin es # concat (map err_tree es)"
| "err_tree e = [e]"

fun first_some :: "('a \<Rightarrow> 'b option) \<Rightarrow> 'a list \<Rightarrow> 'b option" where
  "first_some f [] = None"
| "first_some f (x # xs) = (case f x of None \<Rightarrow> first_some f xs | Some y \<Rightarrow> Some y)"

definition as_failure :: "gerr \<Rightarrow> (string \<times> string) option" where
  "as_failure e = first_some (\<lambda>x. case x of EFailure c m \<Rightarrow> Some (c, m) | _ \<Rightarrow> None) (err_tree e)"

definition as_mysql :: "gerr \<Rightarrow> nat option" where
  "as_mysql e = first_some (\<lambda>x. case x of EMySQL n m \<Rightarrow> Some n | _ \<Rightarrow> None) (err_tree e)"

definition is_uncertain :: "gerr \<Rightarrow> bool" where
  "is_uncertain e = (EUncertain \<in> set (err_tree e))"

lemma first_some_None: "first_some f xs = None \<longleftrightarrow> (\<forall>x \<in> set xs. f x = None)"
  by (induction xs) (auto split: option.splits)

lemma first_some_SomeD: "first_some f xs = Some y \<Longrightarrow> \<exists>x \<in> set xs. f x = Some y"
  by (induction xs) (auto split: option.splits)

lemma as_mysql_simps [simp]:
  "as_mysql (EPlain m) = None" "as_mysql (EMySQL n m) = Some n" "as_mysql (EFailure c m) = None"
  "as_mysql EUncertain = None" "as_mysql (EWrap m e) = as_mysql e"
  by (simp_all add: as_mysql_def)

lemma is_uncertain_simps [simp]:
  "\<not> is_uncertain (EPlain m)" "\<not> is_uncertain (EMySQL n m)" "\<not> is_uncertain (EFailure c m)"
  "is_uncertain EUncertain" "is_uncertain (EWrap m e) = is_uncertain e"
  "is_uncertain (EJoin es) \<longleftrightarrow> (\<exists>e \<in> set es. is_uncertain e)"
  by (auto simp: is_uncertain_def)

section \<open>Integers\<close>

text \<open>Go's \<open>int64\<close> arithmetic wraps; \<open>wrap64\<close> is the value of an \<open>int64\<close> expression whose
  mathematical value is given.\<close>

definition wrap64 :: "int \<Rightarrow> int" where
  "wrap64 x = (x + 2 ^ 63) mod 2 ^ 64 - 2 ^ 63"

definition int64_range :: "int \<Rightarrow> bool" where
  "int64_range x \<longleftrightarrow> - (2 ^ 63) \<le> x \<and> x < 2 ^ 63"

definition uint64_range :: "int \<Rightarrow> bool" where
  "uint64_range x \<longleftrightarrow> 0 \<le> x \<and> x < 2 ^ 64"

lemma wrap64_id [simp]: "int64_range x \<Longrightarrow> wrap64 x = x"
  by (simp add: wrap64_def int64_range_def)

lemma wrap64_range [bound_intros]: "int64_range (wrap64 x)"
proof -
  have "0 \<le> (x + 2 ^ 63) mod 2 ^ 64" "(x + 2 ^ 63) mod 2 ^ 64 < 2 ^ 64" by simp_all
  then show ?thesis by (simp add: wrap64_def int64_range_def)
qed

definition wrap32 :: "int \<Rightarrow> int" where
  "wrap32 x = (x + 2 ^ 31) mod 2 ^ 32 - 2 ^ 31"

text \<open>Go's integer division truncates towards zero.\<close>

definition tdiv :: "int \<Rightarrow> int \<Rightarrow> int" where
  "tdiv a b = sgn a * sgn b * (\<bar>a\<bar> div \<bar>b\<bar>)"

definition int64_max :: int where
  "int64_max = 2 ^ 63 - 1"

definition int64_min :: int where
  "int64_min = - (2 ^ 63)"

text \<open>\<open>time.Time.Sub\<close> saturates.\<close>

definition sat64 :: "int \<Rightarrow> int" where
  "sat64 x = max int64_min (min int64_max x)"

end
