(* ===== verification/Go_Strings.thy ===== *)
theory Go_Strings
  imports Prelude
begin

text \<open>
  The functions of Go's \<open>strings\<close>, \<open>strconv\<close>, \<open>unicode/utf8\<close> and \<open>encoding/base64\<close>
  packages that the sources use, on strings as byte lists, with the round trips the
  components rely on: decimal printing and parsing, UTF-8 encoding and decoding, base64.
\<close>

section \<open>Slices and substrings\<close>

definition has_prefix :: "string \<Rightarrow> string \<Rightarrow> bool" where
  "has_prefix s p = (take (length p) s = p)"

definition has_suffix :: "string \<Rightarrow> string \<Rightarrow> bool" where
  "has_suffix s p = (length p \<le> length s \<and> drop (length s - length p) s = p)"

definition trim_suffix :: "string \<Rightarrow> string \<Rightarrow> string" where
  "trim_suffix s p = (if has_suffix s p then take (length s - length p) s else s)"

definition trim_prefix :: "string \<Rightarrow> string \<Rightarrow> string" where
  "trim_prefix s p = (if has_prefix s p then drop (length p) s else s)"

definition trim_left :: "string \<Rightarrow> char list \<Rightarrow> string" where
  "trim_left s cs = dropWhile (\<lambda>c. c \<in> set cs) s"

definition trim_right :: "string \<Rightarrow> char list \<Rightarrow> string" where
  "trim_right s cs = rev (dropWhile (\<lambda>c. c \<in> set cs) (rev s))"

definition trim_chars :: "string \<Rightarrow> char list \<Rightarrow> string" where
  "trim_chars s cs = trim_right (trim_left s cs) cs"

fun str_contains :: "string \<Rightarrow> string \<Rightarrow> bool" where
  "str_contains [] p = (p = [])"
| "str_contains (c # s) p = (has_prefix (c # s) p \<or> str_contains s p)"

fun str_join :: "string list \<Rightarrow> string \<Rightarrow> string" where
  "str_join [] sep = []"
| "str_join [x] sep = x"
| "str_join (x # y # ys) sep = x @ sep @ str_join (y # ys) sep"

definition str_repeat :: "string \<Rightarrow> nat \<Rightarrow> string" where
  "str_repeat s n = concat (replicate n s)"

text \<open>\<open>strings.Split\<close> on a one byte separator.\<close>

fun split_on :: "char \<Rightarrow> string \<Rightarrow> string list" where
  "split_on c [] = [[]]"
| "split_on c (x # xs) =
     (if x = c then [] # split_on c xs
      else (case split_on c xs of [] \<Rightarrow> [[x]] | w # ws \<Rightarrow> (x # w) # ws))"

lemma split_on_nonempty [simp]: "split_on c s \<noteq> []"
  by (induction s) (auto split: list.splits)

lemma str_join_split_on: "str_join (split_on c s) [c] = s"
proof (induction s)
  case Nil
  then show ?case by simp
next
  case (Cons x xs)
  obtain w ws where w: "split_on c xs = w # ws"
    by (cases "split_on c xs") simp_all
  then show ?case using Cons by (cases ws) auto
qed

lemma length_str_join:
  "xs \<noteq> [] \<Longrightarrow> length (str_join xs sep) = sum_list (map length xs) + (length xs - 1) * length sep"
  by (induction xs sep rule: str_join.induct) auto

lemma trim_suffix_length [bound_intros]: "length (trim_suffix s p) \<le> length s"
  by (simp add: trim_suffix_def)

lemma trim_left_length [bound_intros]: "length (trim_left s cs) \<le> length s"
  by (simp add: trim_left_def length_dropWhile_le)

lemma trim_right_length [bound_intros]: "length (trim_right s cs) \<le> length s"
  by (simp add: trim_right_def) (metis length_dropWhile_le length_rev)

lemma trim_right_last: "trim_right s cs \<noteq> [] \<Longrightarrow> last (trim_right s cs) \<notin> set cs"
  unfolding trim_right_def by (metis hd_dropWhile last_rev rev_is_Nil_conv)

section \<open>Bytes\<close>

definition byte_of :: "char \<Rightarrow> nat" where
  "byte_of c = of_char c"

definition chr :: "nat \<Rightarrow> char" where
  "chr n = char_of n"

lemma byte_of_chr [simp]: "n < 256 \<Longrightarrow> byte_of (chr n) = n"
  by (simp add: byte_of_def chr_def)

lemma chr_byte_of [simp]: "chr (byte_of c) = c"
  by (simp add: byte_of_def chr_def)

lemma byte_of_less [simp]: "byte_of c < 256"
  by (simp add: byte_of_def)

lemma byte_of_inject: "byte_of c = byte_of d \<longleftrightarrow> c = d"
  by (metis chr_byte_of)

definition is_digit_char :: "char \<Rightarrow> bool" where
  "is_digit_char c \<longleftrightarrow> 48 \<le> byte_of c \<and> byte_of c \<le> 57"

definition is_lower_char :: "char \<Rightarrow> bool" where
  "is_lower_char c \<longleftrightarrow> 97 \<le> byte_of c \<and> byte_of c \<le> 122"

definition is_upper_char :: "char \<Rightarrow> bool" where
  "is_upper_char c \<longleftrightarrow> 65 \<le> byte_of c \<and> byte_of c \<le> 90"

definition lower_char :: "char \<Rightarrow> char" where
  "lower_char c = (if is_upper_char c then chr (byte_of c + 32) else c)"

text \<open>\<open>strings.ToLower\<close> on ASCII strings, which is what the identifiers are.\<close>

definition ascii_lower :: "string \<Rightarrow> string" where
  "ascii_lower s = map lower_char s"

lemma ascii_lower_length [simp]: "length (ascii_lower s) = length s"
  by (simp add: ascii_lower_def)

section \<open>Decimal numbers\<close>

definition digit :: "nat \<Rightarrow> char" where
  "digit n = chr (48 + n)"

fun nat_dec :: "nat \<Rightarrow> string" where
  "nat_dec n = (if n < 10 then [digit n] else nat_dec (n div 10) @ [digit (n mod 10)])"

declare nat_dec.simps [simp del]

definition int_dec :: "int \<Rightarrow> string" where
  "int_dec i = (if i < 0 then CHR ''-'' # nat_dec (nat (- i)) else nat_dec (nat i))"

definition digits_val :: "string \<Rightarrow> nat" where
  "digits_val s = foldl (\<lambda>n c. 10 * n + (byte_of c - 48)) 0 s"

definition parse_nat :: "string \<Rightarrow> nat option" where
  "parse_nat s = (if s \<noteq> [] \<and> (\<forall>c \<in> set s. is_digit_char c) then Some (digits_val s) else None)"

text \<open>\<open>strconv.ParseUint (s, 10, 64)\<close> and \<open>strconv.ParseInt (s, 10, 64)\<close>; both error
  cases, syntax and range, are \<open>None\<close>.\<close>

definition parse_uint64 :: "string \<Rightarrow> int option" where
  "parse_uint64 s = (case parse_nat s of
     Some n \<Rightarrow> (if uint64_range (int n) then Some (int n) else None) | None \<Rightarrow> None)"

definition parse_int64 :: "string \<Rightarrow> int option" where
  "parse_int64 s =
     (case s of
        [] \<Rightarrow> None
      | c # t \<Rightarrow>
          (case parse_nat (if c = CHR ''-'' \<or> c = CHR ''+'' then t else s) of
             None \<Rightarrow> None
           | Some n \<Rightarrow>
               (let v = (if c = CHR ''-'' then - int n else int n)
                in if int64_range v then Some v else None)))"

lemma byte_of_digit [simp]: "n < 10 \<Longrightarrow> byte_of (digit n) = 48 + n"
  by (simp add: digit_def)

lemma is_digit_digit [simp]: "n < 10 \<Longrightarrow> is_digit_char (digit n)"
  by (simp add: is_digit_char_def)

lemma nat_dec_nonempty [simp]: "nat_dec n \<noteq> []"
  by (subst nat_dec.simps) simp

lemma nat_dec_digits: "c \<in> set (nat_dec n) \<Longrightarrow> is_digit_char c"
proof (induction n rule: nat_dec.induct)
  case (1 n)
  then show ?case by (subst (asm) (2) nat_dec.simps) (auto split: if_splits)
qed

lemma digits_val_append: "digits_val (s @ [c]) = 10 * digits_val s + (byte_of c - 48)"
  by (simp add: digits_val_def)

lemma digits_val_nat_dec [simp]: "digits_val (nat_dec n) = n"
proof (induction n rule: nat_dec.induct)
  case (1 n)
  show ?case
  proof (cases "n < 10")
    case True
    then show ?thesis by (subst nat_dec.simps) (simp add: digits_val_def)
  next
    case False
    then show ?thesis using 1 by (subst nat_dec.simps) (simp add: digits_val_append)
  qed
qed

lemma parse_nat_dec [simp]: "parse_nat (nat_dec n) = Some n"
  using nat_dec_digits by (simp add: parse_nat_def)

lemma digit_not_sign: "is_digit_char c \<Longrightarrow> c \<noteq> CHR ''-'' \<and> c \<noteq> CHR ''+''"
  by (auto simp: is_digit_char_def byte_of_def)

lemma nat_dec_Cons: "\<exists>c t. nat_dec n = c # t \<and> c \<noteq> CHR ''-'' \<and> c \<noteq> CHR ''+''"
proof -
  obtain c t where "nat_dec n = c # t" by (cases "nat_dec n") simp_all
  then show ?thesis using nat_dec_digits [of c n] digit_not_sign by auto
qed

lemma parse_int64_dec [simp]:
  assumes "int64_range i"
  shows "parse_int64 (int_dec i) = Some i"
proof (cases "i < 0")
  case True
  then show ?thesis using assms by (simp add: int_dec_def parse_int64_def)
next
  case False
  obtain c t where ct: "nat_dec (nat i) = c # t" "c \<noteq> CHR ''-''" "c \<noteq> CHR ''+''"
    using nat_dec_Cons by blast
  have "parse_nat (c # t) = Some (nat i)" using ct(1) parse_nat_dec by metis
  then show ?thesis using False assms ct by (simp add: int_dec_def parse_int64_def)
qed

lemma parse_uint64_dec [simp]: "uint64_range i \<Longrightarrow> parse_uint64 (int_dec i) = Some i"
  by (simp add: parse_uint64_def int_dec_def uint64_range_def)

lemma nat_dec_length_le: "n < 10 ^ k \<Longrightarrow> 0 < k \<Longrightarrow> length (nat_dec n) \<le> k"
proof (induction n arbitrary: k rule: nat_dec.induct)
  case (1 n)
  show ?case
  proof (cases "n < 10")
    case True
    then show ?thesis using 1(3) by (subst nat_dec.simps) simp
  next
    case False
    then have "k \<noteq> 0" "k \<noteq> 1" using 1(2,3) by auto
    then obtain j where j: "k = Suc j" "0 < j" by (cases k) auto
    then have "n div 10 < 10 ^ j" using 1(2) by (simp add: less_mult_imp_div_less)
    then show ?thesis using 1(1) [OF False, of j] j False by (subst nat_dec.simps) simp
  qed
qed

section \<open>UTF-8\<close>

text \<open>\<open>utf8.DecodeRune\<close> on a byte list: the rune and the width of a valid encoding.  An
  invalid first sequence is \<open>None\<close>, which Go reports as the rune U+FFFD of width one.\<close>

definition cont :: "nat \<Rightarrow> bool" where
  "cont b \<longleftrightarrow> 128 \<le> b \<and> b \<le> 191"

definition second_ok :: "nat \<Rightarrow> nat \<Rightarrow> bool" where
  "second_ok b0 b1 \<longleftrightarrow>
     (if b0 = 224 then 160 else if b0 = 240 then 144 else 128) \<le> b1 \<and>
     b1 \<le> (if b0 = 237 then 159 else if b0 = 244 then 143 else 191)"

fun decode_rune :: "nat list \<Rightarrow> (nat \<times> nat) option" where
  "decode_rune [] = None"
| "decode_rune (b0 # bs) =
     (if b0 < 128 then Some (b0, 1)
      else if 194 \<le> b0 \<and> b0 \<le> 223 then
        (case bs of
           b1 # _ \<Rightarrow> if cont b1 then Some ((b0 - 192) * 64 + (b1 - 128), 2) else None
         | _ \<Rightarrow> None)
      else if 224 \<le> b0 \<and> b0 \<le> 239 then
        (case bs of
           b1 # b2 # _ \<Rightarrow>
             if second_ok b0 b1 \<and> cont b2
             then Some ((b0 - 224) * 4096 + (b1 - 128) * 64 + (b2 - 128), 3) else None
         | _ \<Rightarrow> None)
      else if 240 \<le> b0 \<and> b0 \<le> 244 then
        (case bs of
           b1 # b2 # b3 # _ \<Rightarrow>
             if second_ok b0 b1 \<and> cont b2 \<and> cont b3
             then Some ((b0 - 240) * 262144 + (b1 - 128) * 4096 + (b2 - 128) * 64 + (b3 - 128), 4)
             else None
         | _ \<Rightarrow> None)
      else None)"

definition rune_error :: nat where
  "rune_error = 65533"

function (sequential) runes :: "nat list \<Rightarrow> nat list" where
  "runes [] = []"
| "runes (b # bs) =
     (case decode_rune (b # bs) of
        None \<Rightarrow> rune_error # runes bs
      | Some (r, w) \<Rightarrow> r # runes (drop (w - 1) bs))"
  by pat_completeness auto
termination by (relation "measure length") auto

function (sequential) valid_bytes :: "nat list \<Rightarrow> bool" where
  "valid_bytes [] = True"
| "valid_bytes (b # bs) =
     (case decode_rune (b # bs) of
        None \<Rightarrow> False
      | Some (r, w) \<Rightarrow> valid_bytes (drop (w - 1) bs))"
  by pat_completeness auto
termination by (relation "measure length") auto

text \<open>The code points a Go string can hold, and \<open>utf8.AppendRune\<close>.\<close>

definition scalar :: "nat \<Rightarrow> bool" where
  "scalar r \<longleftrightarrow> r < 55296 \<or> (57344 \<le> r \<and> r < 1114112)"

definition encode_scalar :: "nat \<Rightarrow> nat list" where
  "encode_scalar r =
     (if r < 128 then [r]
      else if r < 2048 then [192 + r div 64, 128 + r mod 64]
      else if r < 65536 then [224 + r div 4096, 128 + r div 64 mod 64, 128 + r mod 64]
      else [240 + r div 262144, 128 + r div 4096 mod 64, 128 + r div 64 mod 64, 128 + r mod 64])"

definition encode_rune :: "nat \<Rightarrow> nat list" where
  "encode_rune r = encode_scalar (if scalar r then r else rune_error)"

definition str_runes :: "string \<Rightarrow> nat list" where
  "str_runes s = runes (map byte_of s)"

definition rune_str :: "nat list \<Rightarrow> string" where
  "rune_str rs = map chr (concat (map encode_rune rs))"

definition valid_utf8 :: "string \<Rightarrow> bool" where
  "valid_utf8 s = valid_bytes (map byte_of s)"

definition rune_count :: "string \<Rightarrow> nat" where
  "rune_count s = length (str_runes s)"

text \<open>What \<open>encoding/json\<close> and the conversion \<open>string([]rune(s))\<close> make of a string.\<close>

definition to_valid :: "string \<Rightarrow> string" where
  "to_valid s = rune_str (str_runes s)"

lemma scalar_rune_error [simp]: "scalar rune_error"
  by (simp add: scalar_def rune_error_def)

lemma encode_rune_bytes: "b \<in> set (encode_rune r) \<Longrightarrow> b < 256"
  by (auto simp: encode_rune_def encode_scalar_def scalar_def rune_error_def split: if_splits)

lemma div_64_digits:
  fixes r :: nat
  shows "r div 4096 = r div 64 div 64" "r div 262144 = r div 64 div 64 div 64"
    "64 * (r div 64) + r mod 64 = r"
  by (simp_all flip: div_mult2_eq)

lemma decode_encode_scalar:
  assumes "scalar r"
  shows "decode_rune (encode_scalar r @ bs) = Some (r, length (encode_scalar r))"
proof -
  define q where "q = r div 64"
  define p where "p = q div 64"
  have r: "r = 64 * q + r mod 64" "r mod 64 < 64" by (simp_all add: q_def)
  have q: "q = 64 * p + q mod 64" "q mod 64 < 64" by (simp_all add: p_def)
  have p: "p = 64 * (p div 64) + p mod 64" "p mod 64 < 64" by simp_all
  have d: "r div 4096 = p" "r div 262144 = p div 64" "r div 64 = q"
    by (simp_all only: div_64_digits p_def q_def)
  have c: "cont (128 + q mod 64)" "cont (128 + r mod 64)"
    using r(2) q(2) unfolding cont_def by linarith+
  consider "r < 128" | "128 \<le> r" "r < 2048" | "2048 \<le> r" "r < 65536" | "65536 \<le> r" "r < 1114112"
    using assms by (auto simp: scalar_def) linarith+
  then show ?thesis
  proof cases
    case 1
    then show ?thesis by (simp add: encode_scalar_def)
  next
    case 2
    then have "2 \<le> q" "q < 32" using r by linarith+
    then show ?thesis using 2 r(1) unfolding encode_scalar_def d by (simp add: cont_def)
  next
    case 3
    have eq: "p * 4096 + q mod 64 * 64 + r mod 64 = r" using r q by linarith
    have lt: "p < 16" using 3 eq by linarith
    have "second_ok (224 + p) (128 + q mod 64)"
      using 3 assms eq r(2) q(2) unfolding second_ok_def scalar_def by (auto; linarith)
    then show ?thesis using 3 lt eq c unfolding encode_scalar_def d by simp
  next
    case 4
    have eq: "p div 64 * 262144 + p mod 64 * 4096 + q mod 64 * 64 + r mod 64 = r"
      using r q p by linarith
    have lt: "p div 64 < 5" using 4 eq by linarith
    have "second_ok (240 + p div 64) (128 + p mod 64)"
      using 4 eq r(2) q(2) p(2) unfolding second_ok_def by (auto; linarith)
    then show ?thesis using 4 lt eq c unfolding encode_scalar_def d by simp
  qed
qed

lemma digit_64:
  fixes q z :: nat
  assumes "r = 64 * q + z" "z < 64"
  shows "r div 64 = q" "r mod 64 = z"
  using assms by simp_all

lemma decode_runeD:
  assumes "decode_rune bs = Some (r, w)"
  shows "scalar r" "encode_scalar r = take w bs" "0 < w" "w \<le> length bs" "w \<le> 4"
proof -
  obtain b0 t where bs: "bs = b0 # t" using assms by (cases bs) auto
  consider "b0 < 128" | "194 \<le> b0" "b0 \<le> 223" | "224 \<le> b0" "b0 \<le> 239" | "240 \<le> b0" "b0 \<le> 244"
    using assms bs by (auto split: if_splits)
  then have "scalar r \<and> encode_scalar r = take w bs \<and> 0 < w \<and> w \<le> length bs \<and> w \<le> 4"
  proof cases
    case 1
    then show ?thesis using assms bs by (auto simp: scalar_def encode_scalar_def)
  next
    case 2
    then obtain b1 u where t: "t = b1 # u" "cont b1" "r = (b0 - 192) * 64 + (b1 - 128)" "w = 2"
      using assms bs by (auto split: list.splits if_splits)
    obtain x y where xy: "b0 = 192 + x" "b1 = 128 + y" "2 \<le> x" "x < 32" "y < 64"
      using 2 t(2) by (auto simp: cont_def le_iff_add)
    then show ?thesis using bs t by (simp add: scalar_def encode_scalar_def)
  next
    case 3
    then obtain b1 b2 u where t: "t = b1 # b2 # u" "second_ok b0 b1" "cont b2"
        "r = (b0 - 224) * 4096 + (b1 - 128) * 64 + (b2 - 128)" "w = 3"
      using assms bs by (auto split: list.splits if_splits)
    define x y z where "x = b0 - 224" "y = b1 - 128" "z = b2 - 128"
    note xyz = this
    have b: "b0 = 224 + x" "b1 = 128 + y" "b2 = 128 + z" "x < 16" "y < 64" "z < 64"
      using 3 t(2,3) xyz by (auto simp: cont_def second_ok_def split: if_splits)
    have r: "r = 64 * (64 * x + y) + z" using t(4) xyz by simp
    have lo: "x = 0 \<Longrightarrow> 32 \<le> y" "x = 13 \<Longrightarrow> y < 32"
      using t(2) b by (auto simp: second_ok_def)
    note d0 = digit_64 [OF r b(6)]
    then have d: "r div 4096 = x" "r div 64 mod 64 = y" "r mod 64 = z"
      using b(5) by (simp_all add: div_64_digits d0)
    have "2048 \<le> r" using r lo by (cases "x = 0") auto
    moreover have "r < 65536" using r b(4,5,6) by auto
    moreover have "scalar r"
      using r b lo unfolding scalar_def by (cases "x = 13") (auto; linarith)+
    ultimately show ?thesis using bs t(1,5) b d by (simp add: encode_scalar_def)
  next
    case 4
    then obtain b1 b2 b3 u where t: "t = b1 # b2 # b3 # u" "second_ok b0 b1" "cont b2" "cont b3"
        "r = (b0 - 240) * 262144 + (b1 - 128) * 4096 + (b2 - 128) * 64 + (b3 - 128)" "w = 4"
      using assms bs by (auto split: list.splits if_splits)
    define x y z v where "x = b0 - 240" "y = b1 - 128" "z = b2 - 128" "v = b3 - 128"
    note xyz = this
    have b: "b0 = 240 + x" "b1 = 128 + y" "b2 = 128 + z" "b3 = 128 + v"
        "x < 5" "y < 64" "z < 64" "v < 64"
      using 4 t(2,3,4) xyz by (auto simp: cont_def second_ok_def split: if_splits)
    have r: "r = 64 * (64 * (64 * x + y) + z) + v" using t(5) xyz by simp
    have lo: "x = 0 \<Longrightarrow> 16 \<le> y" "x = 4 \<Longrightarrow> y < 16"
      using t(2) b by (auto simp: second_ok_def)
    note d0 = digit_64 [OF r b(8)] digit_64 [OF refl b(7), of "64 * x + y"]
    then have d: "r div 262144 = x" "r div 4096 mod 64 = y" "r div 64 mod 64 = z" "r mod 64 = v"
      using b(6) by (simp_all add: div_64_digits d0)
    have "65536 \<le> r" using r lo by (cases "x = 0") auto
    moreover have "r < 1114112" using r b lo by (cases "x = 4") auto
    moreover note d
    ultimately show ?thesis using bs t(1,6) b by (simp add: encode_scalar_def scalar_def)
  qed
  then show "scalar r" "encode_scalar r = take w bs" "0 < w" "w \<le> length bs" "w \<le> 4" by auto
qed

declare decode_rune.simps(2) [simp del]

lemma runes_scalar: "r \<in> set (runes bs) \<Longrightarrow> scalar r"
  by (induction bs rule: runes.induct) (auto split: option.splits dest: decode_runeD(1))

lemma runes_encode: "scalar r \<Longrightarrow> runes (encode_scalar r @ bs) = r # runes bs"
proof -
  assume sc: "scalar r"
  obtain b t where bt: "encode_scalar r = b # t"
    by (cases "encode_scalar r") (auto simp: encode_scalar_def split: if_splits)
  have "decode_rune (b # t @ bs) = Some (r, Suc (length t))"
    using decode_encode_scalar [OF sc, of bs] bt by simp
  then show "runes (encode_scalar r @ bs) = r # runes bs" using bt by simp
qed

lemma runes_concat_encode: "\<forall>r \<in> set rs. scalar r \<Longrightarrow> runes (concat (map encode_rune rs)) = rs"
  by (induction rs) (auto simp: encode_rune_def runes_encode)

lemma str_runes_rune_str [simp]: "\<forall>r \<in> set rs. scalar r \<Longrightarrow> str_runes (rune_str rs) = rs"
proof -
  assume sc: "\<forall>r \<in> set rs. scalar r"
  have "map byte_of (rune_str rs) = concat (map encode_rune rs)"
    unfolding rune_str_def map_map by (rule map_idI) (use encode_rune_bytes in auto)
  then show ?thesis using sc by (simp add: str_runes_def runes_concat_encode)
qed

lemma str_runes_scalar: "r \<in> set (str_runes s) \<Longrightarrow> scalar r"
  by (simp add: str_runes_def runes_scalar)

lemma valid_bytes_runes: "valid_bytes bs \<Longrightarrow> concat (map encode_rune (runes bs)) = bs"
proof (induction bs rule: valid_bytes.induct)
  case (2 b bs)
  then obtain r w where d: "decode_rune (b # bs) = Some (r, w)" "valid_bytes (drop (w - 1) bs)"
    by (auto split: option.splits)
  note D = decode_runeD [OF d(1)]
  have "concat (map encode_rune (runes (b # bs))) =
      take w (b # bs) @ concat (map encode_rune (runes (drop (w - 1) bs)))"
    using d(1) D(1,2) by (simp add: encode_rune_def)
  also have "\<dots> = take w (b # bs) @ drop w (b # bs)"
    using 2(1) [OF d(1) refl d(2)] D(3) by (cases w) simp_all
  finally show ?case by simp
qed simp

lemma to_valid_id [simp]: "valid_utf8 s \<Longrightarrow> to_valid s = s"
  by (simp add: to_valid_def rune_str_def str_runes_def valid_utf8_def valid_bytes_runes comp_def)

lemma runes_length: "length (runes bs) \<le> length bs"
proof (induction bs rule: runes.induct)
  case (2 b bs)
  show ?case
  proof (cases "decode_rune (b # bs)")
    case None
    then show ?thesis using 2(1) by simp
  next
    case (Some rw)
    then show ?thesis using 2(2) by (cases rw) (fastforce intro: le_trans)
  qed
qed simp

lemma rune_count_le [bound_intros]: "rune_count s \<le> length s"
  using runes_length [of "map byte_of s"] by (simp add: rune_count_def str_runes_def)

section \<open>Base64\<close>

text \<open>\<open>base64.StdEncoding\<close>: padded, and decoding skips line breaks and ignores the unused
  low bits of the last group.\<close>

definition b64_char :: "nat \<Rightarrow> char" where
  "b64_char n = (if n < 26 then chr (65 + n) else if n < 52 then chr (71 + n)
     else if n < 62 then chr (n - 4) else if n = 62 then CHR ''+'' else CHR ''/'')"

definition b64_val :: "char \<Rightarrow> nat option" where
  "b64_val c =
     (let b = byte_of c in
      if 65 \<le> b \<and> b \<le> 90 then Some (b - 65)
      else if 97 \<le> b \<and> b \<le> 122 then Some (b - 71)
      else if 48 \<le> b \<and> b \<le> 57 then Some (b + 4)
      else if b = 43 then Some 62 else if b = 47 then Some 63 else None)"

fun b64_enc :: "nat list \<Rightarrow> string" where
  "b64_enc [] = []"
| "b64_enc [a] = [b64_char (a div 4), b64_char (a mod 4 * 16), CHR ''='', CHR ''='']"
| "b64_enc [a, b] =
     [b64_char (a div 4), b64_char (a mod 4 * 16 + b div 16), b64_char (b mod 16 * 4), CHR ''='']"
| "b64_enc (a # b # c # r) =
     b64_char (a div 4) # b64_char (a mod 4 * 16 + b div 16) #
     b64_char (b mod 16 * 4 + c div 64) # b64_char (c mod 64) # b64_enc r"

fun b64_dec :: "string \<Rightarrow> nat list option" where
  "b64_dec [] = Some []"
| "b64_dec (p # q # r # s # t) =
     (case (b64_val p, b64_val q) of
        (Some u, Some v) \<Rightarrow>
          (if r = CHR ''='' then
             (if s = CHR ''='' \<and> t = [] then Some [u * 4 + v div 16] else None)
           else (case b64_val r of
             None \<Rightarrow> None
           | Some w \<Rightarrow>
               (if s = CHR ''='' then
                  (if t = [] then Some [u * 4 + v div 16, v mod 16 * 16 + w div 4] else None)
                else (case (b64_val s, b64_dec t) of
                  (Some x, Some rest) \<Rightarrow>
                    Some ((u * 4 + v div 16) # (v mod 16 * 16 + w div 4) # (w mod 4 * 64 + x) # rest)
                | _ \<Rightarrow> None))))
      | _ \<Rightarrow> None)"
| "b64_dec _ = None"

definition b64_encode :: "string \<Rightarrow> string" where
  "b64_encode s = b64_enc (map byte_of s)"

definition b64_decode :: "string \<Rightarrow> string option" where
  "b64_decode s =
     map_option (map chr) (b64_dec (filter (\<lambda>c. byte_of c \<noteq> 10 \<and> byte_of c \<noteq> 13) s))"

lemma byte_of_b64_char:
  "n < 64 \<Longrightarrow> byte_of (b64_char n) =
     (if n < 26 then 65 + n else if n < 52 then 71 + n else if n < 62 then n - 4
      else if n = 62 then 43 else 47)"
  by (auto simp: b64_char_def) (simp_all add: byte_of_def)

lemma b64_val_char [simp]: "n < 64 \<Longrightarrow> b64_val (b64_char n) = Some n"
  by (auto simp: b64_val_def byte_of_b64_char Let_def)

lemma b64_char_not_pad [simp]: "n < 64 \<Longrightarrow> b64_char n \<noteq> CHR ''=''"
  using byte_of_b64_char [of n] by (auto simp: byte_of_def split: if_splits)

lemma b64_char_not_break: "n < 64 \<Longrightarrow> byte_of (b64_char n) \<noteq> 10 \<and> byte_of (b64_char n) \<noteq> 13"
  by (auto simp: byte_of_b64_char)

lemma b64_group:
  fixes a b c :: nat
  assumes "a < 256" "b < 256" "c < 256"
  shows "a div 4 < 64" "a mod 4 * 16 + b div 16 < 64" "b mod 16 * 4 + c div 64 < 64" "c mod 64 < 64"
    "a mod 4 * 16 < 64" "b mod 16 * 4 < 64"
proof -
  have "a div 4 < 64" "b div 16 < 16" "c div 64 < 4" using assms by auto
  moreover have "a mod 4 < 4" "b mod 16 < 16" "c mod 64 < 64" by simp_all
  ultimately show "a div 4 < 64" "a mod 4 * 16 + b div 16 < 64" "b mod 16 * 4 + c div 64 < 64"
    "c mod 64 < 64" "a mod 4 * 16 < 64" "b mod 16 * 4 < 64" by linarith+
qed

lemma b64_ungroup:
  fixes a b c :: nat
  assumes "a < 256" "b < 256" "c < 256"
  shows "a div 4 * 4 + (a mod 4 * 16 + b div 16) div 16 = a"
    "(a mod 4 * 16 + b div 16) mod 16 * 16 + (b mod 16 * 4 + c div 64) div 4 = b"
    "(b mod 16 * 4 + c div 64) mod 4 * 64 + c mod 64 = c"
proof -
  have b: "b div 16 < 16" "c div 64 < 4" using assms by auto
  have "(a mod 4 * 16 + b div 16) div 16 = a mod 4" "(a mod 4 * 16 + b div 16) mod 16 = b div 16"
    using b(1) by simp_all
  moreover have "(b mod 16 * 4 + c div 64) div 4 = b mod 16" "(b mod 16 * 4 + c div 64) mod 4 = c div 64"
    using b(2) by simp_all
  ultimately show "a div 4 * 4 + (a mod 4 * 16 + b div 16) div 16 = a"
    "(a mod 4 * 16 + b div 16) mod 16 * 16 + (b mod 16 * 4 + c div 64) div 4 = b"
    "(b mod 16 * 4 + c div 64) mod 4 * 64 + c mod 64 = c"
    by (simp_all add: algebra_simps)
qed

lemma b64_dec_group:
  assumes "p < 64" "q < 64" "r < 64" "s < 64" "b64_dec t = Some rest"
  shows "b64_dec (b64_char p # b64_char q # b64_char r # b64_char s # t) =
    Some ((p * 4 + q div 16) # (q mod 16 * 16 + r div 4) # (r mod 4 * 64 + s) # rest)"
  using assms by simp

lemma b64_dec_enc: "\<forall>b \<in> set bs. b < 256 \<Longrightarrow> b64_dec (b64_enc bs) = Some bs"
proof (induction bs rule: b64_enc.induct)
  case (2 a)
  then show ?case using b64_ungroup [of a 0 0] b64_group [of a 0 0] by simp
next
  case (3 a b)
  then show ?case using b64_ungroup [of a b 0] b64_group [of a b 0] by simp
next
  case (4 a b c r)
  then have lt: "a < 256" "b < 256" "c < 256" and IH: "b64_dec (b64_enc r) = Some r" by simp_all
  note g = b64_group [OF lt]
  show ?case
    unfolding b64_enc.simps(4) b64_dec_group [OF g(1-4) IH] b64_ungroup [OF lt] by (rule refl)
qed simp

lemma b64_enc_no_break:
  "\<forall>b \<in> set bs. b < 256 \<Longrightarrow> filter (\<lambda>c. byte_of c \<noteq> 10 \<and> byte_of c \<noteq> 13) (b64_enc bs) = b64_enc bs"
proof (induction bs rule: b64_enc.induct)
  case (2 a)
  then show ?case using b64_group [of a 0 0] by (simp add: b64_char_not_break) (simp add: byte_of_def)
next
  case (3 a b)
  then show ?case using b64_group [of a b 0] by (simp add: b64_char_not_break) (simp add: byte_of_def)
next
  case (4 a b c r)
  then show ?case using b64_group [of a b c] by (simp add: b64_char_not_break)
qed simp

lemma b64_roundtrip [simp]: "b64_decode (b64_encode s) = Some s"
  by (simp add: b64_decode_def b64_encode_def b64_enc_no_break b64_dec_enc comp_def)

section \<open>Hexadecimal\<close>

text \<open>\<open>hex.EncodeToString\<close>.\<close>

definition hex_digit :: "nat \<Rightarrow> char" where
  "hex_digit n = (if n < 10 then chr (48 + n) else chr (87 + n))"

definition hex_encode :: "string \<Rightarrow> string" where
  "hex_encode s = concat (map (\<lambda>c. [hex_digit (byte_of c div 16), hex_digit (byte_of c mod 16)]) s)"

definition is_hex_lower :: "char \<Rightarrow> bool" where
  "is_hex_lower c \<longleftrightarrow> is_digit_char c \<or> (97 \<le> byte_of c \<and> byte_of c \<le> 102)"

lemma hex_encode_length [simp]: "length (hex_encode s) = 2 * length s"
  by (induction s) (simp_all add: hex_encode_def)

lemma hex_encode_hex: "list_all is_hex_lower (hex_encode s)"
proof -
  have h: "is_hex_lower (hex_digit n)" if "n < 16" for n
    using that by (auto simp: hex_digit_def is_hex_lower_def is_digit_char_def)
  have "byte_of c div 16 < 16" for c
    using byte_of_less [of c] by (simp del: byte_of_less add: less_mult_imp_div_less)
  then show ?thesis by (induction s) (simp_all add: hex_encode_def h)
qed

end
