(* ===== verification/Checkpoint.thy ===== *)
theory Checkpoint
  imports Go_Strings
begin

text \<open>
  \<open>internal/runner/checkpoint/checkpoint.go\<close>: the table \<open>_pxc_anonymizer.progress\<close>, the
  operations on it and the typed encoding of cursors.  The SQL statements of the source are
  modelled as what they do to the table; \<open>None\<close> is the absent schema.  A JSON cell holds the
  list of type/data pairs that \<open>encoding/json\<close> writes, which coerces strings to valid UTF-8.
  Formatting and parsing of \<open>float64\<close> and of \<open>time.Time\<close> are parameters.
\<close>

section \<open>Values and keys\<close>

text \<open>What the driver hands over in an \<open>any\<close>: a \<open>float64\<close> is its bit pattern, a time its
  instant in nanoseconds; \<open>VOther\<close> is a value of any other dynamic type.\<close>

datatype anyval =
    VNil
  | VBytes string
  | VString string
  | VInt64 int
  | VUint64 int
  | VFloat64 nat
  | VBool bool
  | VTime int
  | VOther string

record codec =
  fmt_float :: "nat \<Rightarrow> string"
  parse_float :: "string \<Rightarrow> nat option"
  fmt_time :: "int \<Rightarrow> string"
  parse_time :: "string \<Rightarrow> int option"

record Key =
  RunUID :: string
  Kind :: string
  KDatabase :: string
  KName :: string
  PolicyHash :: string

record Progress =
  LastPK :: "anyval list"
  RowsDone :: int
  Done :: bool
  Exists :: bool

definition no_progress :: Progress where
  "no_progress = \<lparr>LastPK = [], RowsDone = 0, Done = False, Exists = False\<rparr>"

text \<open>The primary key \<open>(run_uid, kind, db, name)\<close> and the other columns of a row.\<close>

type_synonym pkey = "string \<times> string \<times> string \<times> string"

record prow =
  last_pk :: "(string \<times> string) list option"
  rows_done :: int
  done_flag :: bool
  policy_hash :: string

type_synonym progress_table = "(pkey \<rightharpoonup> prow) option"

definition pkey_of :: "Key \<Rightarrow> pkey" where
  "pkey_of k = (RunUID k, Kind k, KDatabase k, KName k)"

section \<open>Encoding of cursors\<close>

definition encode_value :: "codec \<Rightarrow> anyval \<Rightarrow> gerr + (string \<times> string)" where
  "encode_value c v =
     (case v of
        VBytes b \<Rightarrow> Inr (''bytes'', b64_encode b)
      | VString s \<Rightarrow> Inr (''string'', s)
      | VInt64 i \<Rightarrow> Inr (''int64'', int_dec i)
      | VUint64 i \<Rightarrow> Inr (''uint64'', int_dec i)
      | VFloat64 f \<Rightarrow> Inr (''float64'', fmt_float c f)
      | VBool b \<Rightarrow> Inr (''bool'', if b then ''true'' else ''false'')
      | VTime t \<Rightarrow> Inr (''time'', fmt_time c t)
      | _ \<Rightarrow> Inl (EPlain ''unsupported primary key type''))"

text \<open>\<open>json.Marshal\<close> replaces invalid UTF-8 in each string.\<close>

definition encode :: "codec \<Rightarrow> anyval list \<Rightarrow> gerr + (string \<times> string) list" where
  "encode c key = bindr (mapr (encode_value c) key) (\<lambda>vs. Inr (map (map_prod to_valid to_valid) vs))"

definition of_option :: "gerr \<Rightarrow> 'a option \<Rightarrow> gerr + 'a" where
  "of_option e x = (case x of None \<Rightarrow> Inl e | Some y \<Rightarrow> Inr y)"

definition parse_bool :: "string \<Rightarrow> bool option" where
  "parse_bool s =
     (if s \<in> set [''1'', ''t'', ''T'', ''TRUE'', ''true'', ''True''] then Some True
      else if s \<in> set [''0'', ''f'', ''F'', ''FALSE'', ''false'', ''False''] then Some False
      else None)"

definition decode_value :: "codec \<Rightarrow> string \<times> string \<Rightarrow> gerr + anyval" where
  "decode_value c v =
     (let (ty, data) = v; bad = EPlain ''invalid checkpoint value'' in
      if ty = ''bytes'' then bindr (of_option bad (b64_decode data)) (\<lambda>x. Inr (VBytes x))
      else if ty = ''string'' then Inr (VString data)
      else if ty = ''int64'' then bindr (of_option bad (parse_int64 data)) (\<lambda>x. Inr (VInt64 x))
      else if ty = ''uint64'' then bindr (of_option bad (parse_uint64 data)) (\<lambda>x. Inr (VUint64 x))
      else if ty = ''float64'' then bindr (of_option bad (parse_float c data)) (\<lambda>x. Inr (VFloat64 x))
      else if ty = ''bool'' then bindr (of_option bad (parse_bool data)) (\<lambda>x. Inr (VBool x))
      else if ty = ''time'' then bindr (of_option bad (parse_time c data)) (\<lambda>x. Inr (VTime x))
      else Inl (EPlain ''unsupported checkpoint primary key encoding''))"

definition decode :: "codec \<Rightarrow> (string \<times> string) list \<Rightarrow> gerr + anyval list" where
  "decode c values = mapr (decode_value c) values"

section \<open>Operations\<close>

definition validate :: "Key \<Rightarrow> gerr + unit" where
  "validate k =
     guardr (\<not> (RunUID k = [] \<or> length (RunUID k) > 128 \<or> KDatabase k = [] \<or> length (KDatabase k) > 64 \<or>
        KName k = [] \<or> length (KName k) > 128 \<or> PolicyHash k = [] \<or> length (PolicyHash k) > 80 \<or>
        (Kind k \<noteq> ''step'' \<and> Kind k \<noteq> ''table'')))
       (EPlain ''invalid checkpoint identity'')"

definition Ensure :: "progress_table \<Rightarrow> progress_table" where
  "Ensure t = (case t of None \<Rightarrow> Some Map.empty | Some m \<Rightarrow> Some m)"

definition Drop :: "progress_table \<Rightarrow> progress_table" where
  "Drop t = None"

definition no_such_table :: gerr where
  "no_such_table = EMySQL 1146 ''Table doesn't exist''"

definition Load :: "codec \<Rightarrow> Key \<Rightarrow> progress_table \<Rightarrow> gerr + Progress" where
  "Load c k t =
     bindr (validate k) (\<lambda>_.
       (case t of
          None \<Rightarrow> Inl no_such_table
        | Some m \<Rightarrow>
            (case m (pkey_of k) of
               None \<Rightarrow> Inr no_progress
             | Some r \<Rightarrow>
                 if policy_hash r \<noteq> PolicyHash k
                 then Inl (EPlain ''checkpoint policy hash differs from this run'')
                 else bindr (case last_pk r of None \<Rightarrow> Inr [] | Some w \<Rightarrow> decode c w) (\<lambda>pk.
                   Inr \<lparr>LastPK = pk, RowsDone = rows_done r, Done = done_flag r, Exists = True\<rparr>))))"

definition Save :: "codec \<Rightarrow> Key \<Rightarrow> Progress \<Rightarrow> progress_table \<Rightarrow> gerr + progress_table" where
  "Save c k p t =
     bindr (validate k) (\<lambda>_.
     bindr (guardr (RowsDone p \<ge> 0) (EPlain ''checkpoint row count cannot be negative'')) (\<lambda>_.
     bindr (encode c (LastPK p)) (\<lambda>cursor.
       (case t of
          None \<Rightarrow> Inl no_such_table
        | Some m \<Rightarrow>
            (let hash = (case m (pkey_of k) of None \<Rightarrow> PolicyHash k | Some r \<Rightarrow> policy_hash r)
             in Inr (Some (m(pkey_of k \<mapsto>
                  \<lparr>last_pk = Some cursor, rows_done = RowsDone p, done_flag = Done p,
                   policy_hash = hash\<rparr>))))))))"

section \<open>Round trips\<close>

text \<open>The cursors that survive the table, as a computable test, and the values for which the
  test holds when the codec of the Go library round-trips.\<close>

definition roundtrips :: "codec \<Rightarrow> anyval list \<Rightarrow> bool" where
  "roundtrips c pk = (bindr (encode c pk) (decode c) = Inr pk)"

definition storable :: "anyval \<Rightarrow> bool" where
  "storable v =
     (case v of
        VBytes b \<Rightarrow> True
      | VString s \<Rightarrow> valid_utf8 s
      | VInt64 i \<Rightarrow> int64_range i
      | VUint64 i \<Rightarrow> uint64_range i
      | VBool b \<Rightarrow> True
      | VFloat64 f \<Rightarrow> True
      | VTime t \<Rightarrow> True
      | _ \<Rightarrow> False)"

definition ascii :: "string \<Rightarrow> bool" where
  "ascii s \<longleftrightarrow> (\<forall>c \<in> set s. byte_of c < 128)"

text \<open>What the cursor relies on: the shortest formatting of a float and RFC 3339 formatting
  of a time are ASCII texts that parse back to the value.\<close>

definition codec_ok :: "codec \<Rightarrow> anyval list \<Rightarrow> bool" where
  "codec_ok c vs \<longleftrightarrow> (\<forall>v \<in> set vs.
     (\<forall>f. v = VFloat64 f \<longrightarrow> ascii (fmt_float c f) \<and> parse_float c (fmt_float c f) = Some f) \<and>
     (\<forall>t. v = VTime t \<longrightarrow> ascii (fmt_time c t) \<and> parse_time c (fmt_time c t) = Some t))"

lemma valid_bytes_ascii: "\<forall>b \<in> set bs. b < 128 \<Longrightarrow> valid_bytes bs"
  by (induction bs) (simp_all add: decode_rune.simps(2))

lemma to_valid_ascii: "ascii s \<Longrightarrow> to_valid s = s"
  by (rule to_valid_id) (auto simp: valid_utf8_def ascii_def intro!: valid_bytes_ascii)

lemma ascii_int_dec: "ascii (int_dec i)"
  using nat_dec_digits by (fastforce simp: ascii_def int_dec_def is_digit_char_def byte_of_def)

lemma b64_char_ascii: "n < 64 \<Longrightarrow> byte_of (b64_char n) < 128"
  by (auto simp: byte_of_b64_char)

lemma ascii_b64_enc: "\<forall>b \<in> set bs. b < 256 \<Longrightarrow> ascii (b64_enc bs)"
proof (induction bs rule: b64_enc.induct)
  case (2 a)
  then show ?case using b64_group [of a 0 0] by (simp add: ascii_def b64_char_ascii) (simp add: byte_of_def)
next
  case (3 a b)
  then show ?case using b64_group [of a b 0] by (simp add: ascii_def b64_char_ascii) (simp add: byte_of_def)
next
  case (4 a b c r)
  then show ?case using b64_group [of a b c] by (simp add: ascii_def b64_char_ascii)
qed (simp add: ascii_def)

lemma to_valid_texts [simp]: "to_valid (int_dec i) = int_dec i" "to_valid (b64_encode s) = b64_encode s"
  by (simp_all add: to_valid_ascii ascii_int_dec ascii_b64_enc b64_encode_def)

lemma to_valid_literals [simp]:
  "to_valid ''bytes'' = ''bytes''" "to_valid ''string'' = ''string''" "to_valid ''int64'' = ''int64''"
  "to_valid ''uint64'' = ''uint64''" "to_valid ''float64'' = ''float64''" "to_valid ''bool'' = ''bool''"
  "to_valid ''time'' = ''time''" "to_valid ''true'' = ''true''" "to_valid ''false'' = ''false''"
  by (rule to_valid_ascii; simp add: ascii_def byte_of_def)+

lemma value_roundtrip:
  assumes "storable v" "codec_ok c [v]"
  shows "\<exists>w. encode_value c v = Inr w \<and> decode_value c (map_prod to_valid to_valid w) = Inr v"
  using assms
  by (cases v) (auto simp: storable_def codec_ok_def encode_value_def decode_value_def of_option_def
      parse_bool_def to_valid_ascii)

lemma codec_ok_Cons: "codec_ok c (v # vs) \<longleftrightarrow> codec_ok c [v] \<and> codec_ok c vs"
  by (auto simp: codec_ok_def)

lemma storable_roundtrips:
  assumes "\<forall>v \<in> set pk. storable v" "codec_ok c pk"
  shows "roundtrips c pk"
  using assms
proof (induction pk)
  case Nil
  then show ?case by (simp add: roundtrips_def encode_def decode_def)
next
  case (Cons v vs)
  have ok: "codec_ok c [v]" "codec_ok c vs" using Cons.prems(2) codec_ok_Cons [of c v vs] by simp_all
  have "storable v" using Cons.prems(1) by simp
  then obtain w where w: "encode_value c v = Inr w"
      "decode_value c (map_prod to_valid to_valid w) = Inr v"
    using value_roundtrip [OF _ ok(1)] by blast
  have "roundtrips c vs" using Cons.IH Cons.prems(1) ok(2) by simp
  then obtain ws where "mapr (encode_value c) vs = Inr ws"
      "mapr (decode_value c) (map (map_prod to_valid to_valid) ws) = Inr vs"
    by (auto simp: roundtrips_def encode_def decode_def bindr_eq_Inr)
  then show ?case using w by (simp add: roundtrips_def encode_def decode_def)
qed

section \<open>The store as an interface\<close>

text \<open>What the pager and the SQL steps rely on.  A saved progress that the cursor encoding
  preserves is what the next load of the same key returns; loading is possible exactly where
  saving is; other keys are untouched.\<close>

locale checkpoint_store =
  fixes load :: "Key \<Rightarrow> 's \<Rightarrow> gerr + Progress"
    and save :: "Key \<Rightarrow> Progress \<Rightarrow> 's \<Rightarrow> gerr + 's"
    and keeps :: "anyval list \<Rightarrow> bool"
  assumes load_save:
      "save k p s = Inr s' \<Longrightarrow> is_ok (load k s) \<Longrightarrow> keeps (LastPK p) \<Longrightarrow>
         load k s' = Inr (p\<lparr>Exists := True\<rparr>)"
    and load_other: "save k p s = Inr s' \<Longrightarrow> pkey_of k' \<noteq> pkey_of k \<Longrightarrow> load k' s' = load k' s"
    and save_ok: "is_ok (load k s) \<Longrightarrow> keeps (LastPK p) \<Longrightarrow> 0 \<le> RowsDone p \<Longrightarrow> is_ok (save k p s)"
    and load_absent: "load k s = Inr p \<Longrightarrow> \<not> Exists p \<Longrightarrow> p = no_progress"
    and keeps_Nil: "keeps []"
begin

text \<open>A save makes the key exist, whatever was stored before.\<close>

lemma save_exists:
  assumes "save k p s = Inr s'" "is_ok (load k s)" "keeps (LastPK p)"
  obtains q where "load k s' = Inr q" "Exists q" "Done q = Done p" "RowsDone q = RowsDone p"
    "LastPK q = LastPK p"
  by (rule that [of "p\<lparr>Exists := True\<rparr>"]) (simp_all add: load_save [OF assms])

lemma save_save:
  assumes "save k p s = Inr s1" "is_ok (load k s)" "keeps (LastPK p)"
    and "save k q s1 = Inr s2" "keeps (LastPK q)"
  shows "load k s2 = Inr (q\<lparr>Exists := True\<rparr>)"
  by (rule load_save [OF assms(4) _ assms(5)]) (simp add: load_save [OF assms(1-3)])

end

lemma Load_Save:
  assumes "Save c k p t = Inr t'" "is_ok (Load c k t)" "roundtrips c (LastPK p)"
  shows "Load c k t' = Inr (p\<lparr>Exists := True\<rparr>)"
  using assms
  by (auto simp: Save_def Load_def roundtrips_def bindr_eq_Inr is_ok_iff Let_def
      split: option.splits if_splits)

lemma Load_Save_other:
  "Save c k p t = Inr t' \<Longrightarrow> pkey_of k' \<noteq> pkey_of k \<Longrightarrow> Load c k' t' = Load c k' t"
  by (auto simp: Save_def Load_def bindr_eq_Inr Let_def split: option.splits)

lemma Load_okD: "is_ok (Load c k t) \<Longrightarrow> validate k = Inr () \<and> (\<exists>m. t = Some m)"
  by (cases t) (auto simp: Load_def bindr_eq_Inr is_ok_iff)

lemma Save_ok:
  assumes "is_ok (Load c k t)" "roundtrips c (LastPK p)" "0 \<le> RowsDone p"
  shows "is_ok (Save c k p t)"
proof -
  obtain m where "validate k = Inr ()" "t = Some m" using Load_okD [OF assms(1)] by blast
  moreover obtain w where "encode c (LastPK p) = Inr w"
    using assms(2) by (auto simp: roundtrips_def bindr_eq_Inr)
  ultimately show ?thesis using assms(3) by (simp add: Save_def Let_def)
qed

lemma Load_absent: "Load c k t = Inr p \<Longrightarrow> \<not> Exists p \<Longrightarrow> p = no_progress"
  by (auto simp: Load_def bindr_eq_Inr split: option.splits if_splits)

interpretation cp: checkpoint_store "Load c" "Save c" "roundtrips c" for c
  by unfold_locales
    (auto simp: roundtrips_def encode_def decode_def intro: Load_Save Load_Save_other Save_ok dest: Load_absent)

section \<open>Properties\<close>

definition sample_codec :: codec where
  "sample_codec = \<lparr>fmt_float = (\<lambda>f. nat_dec f), parse_float = parse_nat,
     fmt_time = (\<lambda>t. int_dec t), parse_time = parse_int64\<rparr>"

definition sample_key :: Key where
  "sample_key = \<lparr>RunUID = ''uid-1'', Kind = ''table'', KDatabase = ''shop'', KName = ''users'',
     PolicyHash = ''sha256:aa''\<rparr>"

definition sample_progress :: Progress where
  "sample_progress = \<lparr>LastPK = [VInt64 (-7), VBytes ''k='', VString ''x'', VFloat64 3], RowsDone = 12,
     Done = False, Exists = False\<rparr>"

text \<open>C32 (roundtrip).  A cursor saved in the progress table is the cursor that is loaded:
  after \<open>Save\<close> of a progress whose key values are of the supported types (strings valid UTF-8,
  integers of their width), \<open>Load\<close> under the same key returns exactly that progress, marked as
  existing; every other key loads what it loaded before.\<close>

theorem checkpoint_roundtrip:
  assumes "Save c k p t = Inr t'" "is_ok (Load c k t)"
    and "\<forall>v \<in> set (LastPK p). storable v" "codec_ok c (LastPK p)"
  shows "Load c k t' = Inr (p\<lparr>Exists := True\<rparr>) \<and>
    (\<forall>k'. pkey_of k' \<noteq> pkey_of k \<longrightarrow> Load c k' t' = Load c k' t)"
  using cp.load_save [OF assms(1,2) storable_roundtrips [OF assms(3,4)]] cp.load_other [OF assms(1)]
  by blast

lemma Save_result: "is_ok r \<Longrightarrow> r = Inr (projr r)"
  by (cases r) simp_all

lemma sample_codec_ok: "codec_ok sample_codec (LastPK sample_progress)"
proof -
  have "ascii (nat_dec n)" for n using ascii_int_dec [of "int n"] by (simp add: int_dec_def)
  then show ?thesis by (simp add: codec_ok_def sample_codec_def sample_progress_def)
qed

lemma sample_storable: "\<forall>v \<in> set (LastPK sample_progress). storable v"
  by code_simp

theorem checkpoint_roundtrip_witness:
  "Load sample_codec sample_key (projr (Save sample_codec sample_key sample_progress (Some Map.empty)))
     = Inr (sample_progress\<lparr>Exists := True\<rparr>)"
proof -
  have l: "is_ok (Load sample_codec sample_key (Some Map.empty))" by code_simp
  moreover have "is_ok (Save sample_codec sample_key sample_progress (Some Map.empty))"
    by (rule cp.save_ok [OF l storable_roundtrips [OF sample_storable sample_codec_ok]])
      (simp add: sample_progress_def)
  ultimately show ?thesis
    using checkpoint_roundtrip [OF Save_result l sample_storable sample_codec_ok] by blast
qed

text \<open>A checkpoint is only ever resumed under the policy that made it: once a
  run has saved under one policy hash, a load of the same run, kind, database and name under
  another hash is an error, and no later save under any hash changes that.\<close>

theorem checkpoint_policy_guard:
  assumes "Save c k p (Some m) = Inr t1" "m (pkey_of k) = None"
    and "pkey_of k2 = pkey_of k" "PolicyHash k2 \<noteq> PolicyHash k"
    and "Save c k2 q t1 = Inr t2"
  shows "\<not> is_ok (Load c k2 t1) \<and> \<not> is_ok (Load c k2 t2)"
  using assms
  by (auto simp: Save_def Load_def bindr_eq_Inr is_ok_iff Let_def)

definition other_key :: Key where
  "other_key = sample_key\<lparr>PolicyHash := ''sha256:bb''\<rparr>"

theorem checkpoint_policy_guard_witness:
  "\<not> is_ok (Load sample_codec other_key
      (projr (Save sample_codec sample_key no_progress (Some Map.empty))))"
proof -
  define t1 where "t1 = projr (Save sample_codec sample_key no_progress (Some Map.empty))"
  define t2 where "t2 = projr (Save sample_codec other_key no_progress t1)"
  have "Save sample_codec sample_key no_progress (Some Map.empty) = Inr t1"
    unfolding t1_def by (rule Save_result) code_simp
  moreover have "is_ok (Save sample_codec other_key no_progress t1)" unfolding t1_def by code_simp
  then have "Save sample_codec other_key no_progress t1 = Inr t2" unfolding t2_def by (rule Save_result)
  moreover have "pkey_of other_key = pkey_of sample_key" "PolicyHash other_key \<noteq> PolicyHash sample_key"
    by (simp_all add: pkey_of_def other_key_def sample_key_def)
  ultimately show ?thesis
    using checkpoint_policy_guard [of sample_codec sample_key no_progress Map.empty t1 other_key no_progress t2]
    unfolding t1_def by simp
qed

end
