(* ===== verification/Database.thy ===== *)
theory Database
  imports Checkpoint
begin

text \<open>
  The part of a MySQL server that the runner's SQL reaches.  The state holds the progress
  table, the user tables and the log of the SQL step bodies that took effect.  What the
  server decides and the sources cannot, its collation order, the value of a policy's
  predicate text and its unique indexes, are fields of a \<open>server\<close> parameter; failures of
  single calls are fields of an environment that every operation takes.
\<close>

text \<open>A row of a user table, by column name.\<close>

type_synonym trow = "string \<Rightarrow> anyval"

type_synonym tname = "string \<times> string"

record db =
  Prog :: progress_table
  Tabs :: "tname \<Rightarrow> trow list"
  StepLog :: "(string \<times> string) list"

text \<open>
  \<open>rank\<close> is the position of a key tuple in the collation order of a table, so that \<open>ORDER BY\<close>,
  \<open>>\<close> and \<open>=\<close> on key tuples compare ranks.  \<open>pred_val\<close> is the three-valued result of a
  predicate text on a row, \<open>None\<close> being SQL's NULL.  \<open>unique_ok\<close> says whether a table state
  satisfies its unique indexes.
\<close>

record 'o server =
  rank :: "tname \<Rightarrow> anyval list \<Rightarrow> 'o"
  pred_val :: "string \<Rightarrow> trow \<Rightarrow> bool option"
  unique_ok :: "tname \<Rightarrow> trow list \<Rightarrow> bool"

text \<open>A commit that reports an error may have taken effect all the same.\<close>

definition commit :: "gerr option \<Rightarrow> bool \<Rightarrow> db \<Rightarrow> db \<Rightarrow> 'a \<Rightarrow> db \<times> (gerr + 'a)" where
  "commit err applied before after x =
     (case err of
        None \<Rightarrow> (after, Inr x)
      | Some e \<Rightarrow> (if applied then after else before, Inl e))"

lemma commit_cases:
  assumes "commit err applied before after x = (s, r)"
  obtains "s = after" "r = Inr x" | e where "s = before" "r = Inl e" | e where "s = after" "r = Inl e"
  using assms by (auto simp: commit_def split: option.splits if_splits)

definition call :: "gerr option \<Rightarrow> gerr + unit" where
  "call err = (case err of None \<Rightarrow> Inr () | Some e \<Rightarrow> Inl e)"

lemma call_eq_Inr [result_simps]: "call err = Inr u \<longleftrightarrow> err = None"
  by (simp add: call_def split: option.splits)

lemma call_simps [simp]: "call None = Inr ()" "call (Some e) = Inl e"
  by (simp_all add: call_def)

end
