(* ===== verification/Pager.thy ===== *)
theory Pager
  imports Database
begin

text \<open>
  \<open>internal/runner/pager/pager.go\<close>: one transaction reads a keyset page, rewrites its rows and
  stores the resume cursor.  The state machine of the pages of one table, with every failure
  and every ambiguous commit, transforms each selected row exactly once.
\<close>

section \<open>Tables, rows and SQL text\<close>

definition MaxUniqueAttempts :: nat where
  "MaxUniqueAttempts = 8"

record Table =
  TDatabase :: string
  TName :: string
  TPrimaryKey :: "string list"
  Columns :: "string list"
  IgnoreWhere :: string
  PageSize :: int

record Row =
  PrimaryKey :: "anyval list"
  Values :: "anyval list"
  Retry :: nat

definition identifier_char :: "char \<Rightarrow> bool" where
  "identifier_char c \<longleftrightarrow>
     is_lower_char c \<or> is_upper_char c \<or> is_digit_char c \<or> c = CHR ''_'' \<or> c = CHR ''$''"

definition identifier_ok :: "string \<Rightarrow> bool" where
  "identifier_ok s \<longleftrightarrow> 1 \<le> length s \<and> length s \<le> 64 \<and> list_all identifier_char s"

definition QuoteIdentifier :: "string \<Rightarrow> gerr + string" where
  "QuoteIdentifier name =
     (if \<not> identifier_ok name then Inl (EPlain ''invalid SQL identifier'')
      else Inr (''`'' @ name @ ''`''))"

definition Validate :: "Table \<Rightarrow> gerr + unit" where
  "Validate T =
     bindr (guardr (\<not> (TPrimaryKey T = [] \<or> Columns T = [] \<or> PageSize T < 0))
       (EPlain ''page requires primary key, policy columns and a nonnegative page size'')) (\<lambda>_.
     bindr (each (each (\<lambda>name. bindr (QuoteIdentifier name) (\<lambda>_. Inr ())))
       [[TDatabase T, TName T], TPrimaryKey T, Columns T]) (\<lambda>_.
     guardr (distinct (map ascii_lower (TPrimaryKey T @ Columns T)))
       (EPlain ''duplicate columns or primary key mutation are not supported'')))"

definition quoted :: "string list \<Rightarrow> string" where
  "quoted names = ''`'' @ str_join names ''`,`'' @ ''`''"

definition placeholders :: "nat \<Rightarrow> string" where
  "placeholders count = trim_suffix (str_repeat ''?,'' count) '',''"

definition selectSQL :: "Table \<Rightarrow> anyval list \<Rightarrow> string \<times> anyval list" where
  "selectSQL T cursor =
     (let query = ''SELECT '' @ quoted (TPrimaryKey T) @ '','' @ quoted (Columns T) @
            '' FROM '' @ quoted [TDatabase T] @ ''.'' @ quoted [TName T];
          predicates =
            (if cursor \<noteq> []
             then [''('' @ quoted (TPrimaryKey T) @ '') > ('' @ placeholders (length cursor) @ '')'']
             else []) @
            (if IgnoreWhere T \<noteq> [] then [''NOT ('' @ IgnoreWhere T @ '')''] else []);
          query' = query @ (if predicates \<noteq> [] then '' WHERE '' @ str_join predicates '' AND '' else [])
      in (query' @ '' ORDER BY '' @ quoted (TPrimaryKey T) @ '' LIMIT ?'',
          cursor @ [VInt64 (PageSize T)]))"

definition updateSQL :: "Table \<Rightarrow> string" where
  "updateSQL T =
     ''UPDATE `'' @ TDatabase T @ ''`.`'' @ TName T @ ''` SET '' @
     str_join (map (\<lambda>name. ''`'' @ name @ ''`=?'') (Columns T)) '','' @
     '' WHERE ('' @ quoted (TPrimaryKey T) @ '') = ('' @ placeholders (length (TPrimaryKey T)) @ '')''"

section \<open>What the statements do\<close>

definition tname_of :: "Table \<Rightarrow> tname" where
  "tname_of T = (TDatabase T, TName T)"

definition key_of :: "Table \<Rightarrow> trow \<Rightarrow> anyval list" where
  "key_of T r = map r (TPrimaryKey T)"

definition rk :: "'o server \<Rightarrow> Table \<Rightarrow> trow \<Rightarrow> 'o" where
  "rk sv T r = rank sv (tname_of T) (key_of T r)"

text \<open>\<open>NOT (predicate)\<close> keeps a row only where the predicate is false, not where it is NULL.\<close>

definition selected :: "'o server \<Rightarrow> Table \<Rightarrow> trow \<Rightarrow> bool" where
  "selected sv T r \<longleftrightarrow> IgnoreWhere T = [] \<or> pred_val sv (IgnoreWhere T) r = Some False"

definition beyond :: "('o::linorder) server \<Rightarrow> Table \<Rightarrow> anyval list \<Rightarrow> trow \<Rightarrow> bool" where
  "beyond sv T cursor r \<longleftrightarrow> cursor = [] \<or> rank sv (tname_of T) cursor < rk sv T r"

definition select_rows ::
  "('o::linorder) server \<Rightarrow> Table \<Rightarrow> anyval list \<Rightarrow> trow list \<Rightarrow> trow list" where
  "select_rows sv T cursor tab =
     take (nat (PageSize T))
       (sort_key (rk sv T) (filter (\<lambda>r. beyond sv T cursor r \<and> selected sv T r) tab))"

definition read_row :: "Table \<Rightarrow> trow \<Rightarrow> Row" where
  "read_row T r = \<lparr>PrimaryKey = key_of T r, Values = map r (Columns T), Retry = 0\<rparr>"

fun set_cols :: "string list \<Rightarrow> anyval list \<Rightarrow> trow \<Rightarrow> trow" where
  "set_cols (c # cs) (v # vs) r = set_cols cs vs (r(c := v))"
| "set_cols _ _ r = r"

definition update_rows ::
  "('o::linorder) server \<Rightarrow> Table \<Rightarrow> anyval list \<Rightarrow> anyval list \<Rightarrow> trow list \<Rightarrow> trow list" where
  "update_rows sv T values key tab =
     map (\<lambda>r. if rk sv T r = rank sv (tname_of T) key then set_cols (Columns T) values r else r) tab"

section \<open>One page\<close>

text \<open>The failures of the calls of one page; \<open>exec_err\<close> is asked for each row key and
  attempt.\<close>

record page_env =
  begin_err :: "gerr option"
  load_err :: "gerr option"
  select_err :: "gerr option"
  scan_err :: "gerr option"
  prepare_err :: "gerr option"
  exec_err :: "anyval list \<Rightarrow> nat \<Rightarrow> gerr option"
  save_err :: "gerr option"
  commit_err :: "gerr option"
  commit_applied :: bool

definition exec_update ::
  "('o::linorder) server \<Rightarrow> page_env \<Rightarrow> Table \<Rightarrow> anyval list \<Rightarrow> anyval list \<Rightarrow> nat \<Rightarrow> trow list \<Rightarrow>
     gerr + trow list" where
  "exec_update sv env T values key attempt tab =
     bindr (call (exec_err env key attempt)) (\<lambda>_.
       (let tab' = update_rows sv T values key tab
        in if unique_ok sv (tname_of T) tab' then Inr tab' else Inl (EMySQL 1062 ''Duplicate entry'')))"

fun update_attempts ::
  "('o::linorder) server \<Rightarrow> page_env \<Rightarrow> Table \<Rightarrow> (Row \<Rightarrow> gerr + anyval list) \<Rightarrow> Row \<Rightarrow> trow list \<Rightarrow>
     nat list \<Rightarrow> gerr + trow list" where
  "update_attempts sv env T transform row tab [] =
     Inl (EMySQL 1062 ''unique constraint retry limit reached'')"
| "update_attempts sv env T transform row tab (a # as) =
     bindr (transform (row\<lparr>Retry := a\<rparr>)) (\<lambda>values.
       if length values \<noteq> length (Columns T)
       then Inl (EPlain ''transform returned an incorrect number of columns'')
       else (case exec_update sv env T values (PrimaryKey row) a tab of
               Inr tab' \<Rightarrow> Inr tab'
             | Inl e \<Rightarrow>
                 if as_mysql e \<noteq> Some 1062 then Inl e
                 else update_attempts sv env T transform row tab as))"

definition updateRow ::
  "('o::linorder) server \<Rightarrow> page_env \<Rightarrow> Table \<Rightarrow> (Row \<Rightarrow> gerr + anyval list) \<Rightarrow> trow list \<Rightarrow> Row \<Rightarrow>
     gerr + trow list" where
  "updateRow sv env T transform tab row =
     update_attempts sv env T transform row tab [0..<MaxUniqueAttempts]"

definition readRows ::
  "('o::linorder) server \<Rightarrow> page_env \<Rightarrow> Table \<Rightarrow> anyval list \<Rightarrow> trow list \<Rightarrow> gerr + Row list" where
  "readRows sv env T cursor tab =
     bindr (call (scan_err env)) (\<lambda>_. Inr (map (read_row T) (select_rows sv T cursor tab)))"

definition update_page ::
  "('o::linorder) server \<Rightarrow> page_env \<Rightarrow> Table \<Rightarrow> (Row \<Rightarrow> gerr + anyval list) \<Rightarrow> Row list \<Rightarrow> trow list \<Rightarrow>
     gerr + trow list" where
  "update_page sv env T transform page tab =
     (if page = [] then Inr tab
      else bindr (call (prepare_err env)) (\<lambda>_. foldr_err (updateRow sv env T transform) tab page))"

text \<open>The body of the transaction, from \<open>Load\<close> to \<open>Save\<close>: \<open>None\<close> is the early return for a
  finished table, otherwise the new progress and the state to commit.\<close>

definition page_tx ::
  "codec \<Rightarrow> ('o::linorder) server \<Rightarrow> page_env \<Rightarrow> Table \<Rightarrow> Key \<Rightarrow> (Row \<Rightarrow> gerr + anyval list) \<Rightarrow> db \<Rightarrow>
     gerr + (Progress \<times> db option)" where
  "page_tx c sv env T key transform s =
     bindr (call (begin_err env)) (\<lambda>_.
     bindr (call (load_err env)) (\<lambda>_.
     bindr (Load c key (Prog s)) (\<lambda>progress.
     if Done progress then Inr (progress, None)
     else
       bindr (guardr (LastPK progress = [] \<or> length (LastPK progress) = length (TPrimaryKey T))
         (EPlain ''checkpoint primary key shape differs from this table'')) (\<lambda>_.
       bindr (call (select_err env)) (\<lambda>_.
       bindr (readRows sv env T (LastPK progress) (Tabs s (tname_of T))) (\<lambda>page.
       bindr (update_page sv env T transform page (Tabs s (tname_of T))) (\<lambda>tab'.
       (let moved = (if page = [] then progress
              else progress\<lparr>LastPK := PrimaryKey (last page),
                            RowsDone := wrap64 (RowsDone progress + int (length page))\<rparr>);
            progress' = moved\<lparr>Done := int (length page) < PageSize T\<rparr>
        in bindr (call (save_err env)) (\<lambda>_.
           bindr (Save c key progress' (Prog s)) (\<lambda>prog'.
             Inr (progress', Some (s\<lparr>Prog := prog', Tabs := (Tabs s)(tname_of T := tab')\<rparr>))))))))))))"

definition default_page_size :: "Table \<Rightarrow> Table" where
  "default_page_size T = (if PageSize T = 0 then T\<lparr>PageSize := 5000\<rparr> else T)"

definition ProcessPage ::
  "codec \<Rightarrow> ('o::linorder) server \<Rightarrow> page_env \<Rightarrow> Table \<Rightarrow> Key \<Rightarrow> (Row \<Rightarrow> gerr + anyval list) \<Rightarrow> db \<Rightarrow>
     db \<times> (gerr + Progress)" where
  "ProcessPage c sv env T key transform s =
     (case bindr (Validate T) (\<lambda>_.
           bindr (guardr (\<not> (Kind key \<noteq> ''table'' \<or> KDatabase key \<noteq> TDatabase T \<or> KName key \<noteq> TName T))
             (EPlain ''page identity or transform is invalid'')) (\<lambda>_.
             page_tx c sv env (default_page_size T) key transform s)) of
        Inl e \<Rightarrow> (s, Inl e)
      | Inr (progress, None) \<Rightarrow> (s, Inr progress)
      | Inr (progress, Some s') \<Rightarrow>
          commit (commit_err env) (commit_applied env) s s' (progress\<lparr>Exists := True\<rparr>))"

end
