(* ===== verification/Paging.thy ===== *)
theory Paging
  imports Pager
begin

text \<open>
  The state machine of the pages of one table: any sequence of calls of \<open>ProcessPage\<close>, each
  with its own failures, ambiguous commit and cancellation.  The invariant relates the table
  to its original contents: the selected rows up to the cursor have been rewritten once from
  their original values, every other row is untouched, and the row counter agrees.
\<close>

section \<open>Facts on lists and columns\<close>

lemma set_cols_other: "c \<notin> set cs \<Longrightarrow> set_cols cs vs r c = r c"
  by (induction cs vs r rule: set_cols.induct) auto

lemma set_cols_nth:
  "distinct cs \<Longrightarrow> length vs = length cs \<Longrightarrow> i < length cs \<Longrightarrow> set_cols cs vs r (cs ! i) = vs ! i"
proof (induction cs vs r arbitrary: i rule: set_cols.induct)
  case (1 c cs v vs r)
  then show ?case by (cases i) (simp_all add: set_cols_other fun_upd_def)
qed auto

lemma list_all2_filter_eq:
  assumes "list_all2 R xs ys" "\<And>x y. R x y \<Longrightarrow> P x = P y" "\<And>x y. R x y \<Longrightarrow> P x \<Longrightarrow> x = y"
  shows "filter P ys = filter P xs"
  using assms by (induction rule: list_all2_induct) auto

lemma sorted_take_last:
  fixes f :: "'a \<Rightarrow> 'o::linorder"
  assumes "sorted (map f xs)" "inj_on f (set xs)" "x \<in> set xs" "take n xs \<noteq> []"
  shows "x \<in> set (take n xs) \<longleftrightarrow> f x \<le> f (last (take n xs))"
proof -
  define m where "m = min n (length xs) - 1"
  have m: "m < length xs" "m < n" "last (take n xs) = xs ! m"
    using assms(4) by (auto simp: m_def last_conv_nth min_def)
  obtain i where i: "i < length xs" "x = xs ! i" using assms(3) by (auto simp: in_set_conv_nth)
  show ?thesis
  proof
    assume "x \<in> set (take n xs)"
    then obtain j where j: "j < n" "j < length xs" "x = xs ! j" by (auto simp: in_set_conv_nth)
    then have "j \<le> m" by (auto simp: m_def)
    then show "f x \<le> f (last (take n xs))" using assms(1) j m by (auto simp: sorted_map sorted_wrt_iff_nth_less le_less)
  next
    assume le: "f x \<le> f (last (take n xs))"
    show "x \<in> set (take n xs)"
    proof (cases "i \<le> m")
      case True
      then have "i < length (take n xs)" "take n xs ! i = x" using i m by auto
      then show ?thesis using nth_mem by metis
    next
      case False
      then have "f (xs ! m) \<le> f x" using assms(1) i by (auto simp: sorted_map sorted_wrt_iff_nth_less)
      then have "f x = f (xs ! m)" using le m by simp
      then have "x = xs ! m" using assms(2) i m by (auto dest: inj_onD)
      then show ?thesis using m by (metis i(1) last_in_set assms(4))
    qed
  qed
qed

lemma sort_key_sorted [simp]: "sorted (map f (sort_key f xs))"
  by simp

lemma set_sort_key [simp]: "set (sort_key f xs) = set xs"
  by simp

lemma length_filter_disjoint:
  "(\<And>x. x \<in> set xs \<Longrightarrow> P x \<Longrightarrow> \<not> Q x) \<Longrightarrow>
     length (filter (\<lambda>x. P x \<or> Q x) xs) = length (filter P xs) + length (filter Q xs)"
  by (induction xs) auto

lemma length_filter_subset:
  assumes "distinct xs" "distinct ys" "set ys \<subseteq> set xs"
  shows "length (filter (\<lambda>x. x \<in> set ys) xs) = length ys"
proof -
  have "length (filter (\<lambda>x. x \<in> set ys) xs) = card (set (filter (\<lambda>x. x \<in> set ys) xs))"
    using assms(1) by (intro distinct_card [symmetric] distinct_filter)
  also have "set (filter (\<lambda>x. x \<in> set ys) xs) = set ys" using assms(3) by auto
  finally show ?thesis using assms(2) by (simp add: distinct_card)
qed

section \<open>Validated tables\<close>

lemma Validate_ok:
  assumes "Validate T = Inr u"
  shows "TPrimaryKey T \<noteq> []" "Columns T \<noteq> []" "0 \<le> PageSize T"
    "distinct (TPrimaryKey T @ Columns T)" "set (TPrimaryKey T) \<inter> set (Columns T) = {}"
    "\<forall>n \<in> set (TDatabase T # TName T # TPrimaryKey T @ Columns T). identifier_ok n"
proof -
  have d: "distinct (map ascii_lower (TPrimaryKey T @ Columns T))" and
    n: "TPrimaryKey T \<noteq> []" "Columns T \<noteq> []" "0 \<le> PageSize T" and
    i: "\<forall>n \<in> set (TDatabase T # TName T # TPrimaryKey T @ Columns T). identifier_ok n"
    using assms
    by (auto simp: Validate_def bindr_eq_Inr guardr_eq_Inr each_eq_Inr QuoteIdentifier_def split: if_splits)
  then show "TPrimaryKey T \<noteq> []" "Columns T \<noteq> []" "0 \<le> PageSize T" by blast+
  show "distinct (TPrimaryKey T @ Columns T)" using d unfolding distinct_map by (rule conjunct1)
  then show "set (TPrimaryKey T) \<inter> set (Columns T) = {}" by simp
  show "\<forall>n \<in> set (TDatabase T # TName T # TPrimaryKey T @ Columns T). identifier_ok n" by (rule i)
qed

lemma default_page_size_simps [simp]:
  "TPrimaryKey (default_page_size T) = TPrimaryKey T" "Columns (default_page_size T) = Columns T"
  "tname_of (default_page_size T) = tname_of T" "key_of (default_page_size T) = key_of T"
  "rk sv (default_page_size T) = rk sv T" "selected sv (default_page_size T) = selected sv T"
  "beyond sv (default_page_size T) = beyond sv T" "read_row (default_page_size T) = read_row T"
  by (auto simp: default_page_size_def tname_of_def key_of_def rk_def selected_def beyond_def read_row_def fun_eq_iff)

lemma default_page_size_pos: "0 \<le> PageSize T \<Longrightarrow> 0 < PageSize (default_page_size T)"
  by (simp add: default_page_size_def)

lemma key_of_set_cols:
  "set (TPrimaryKey T) \<inter> set (Columns T) = {} \<Longrightarrow> key_of T (set_cols (Columns T) vs r) = key_of T r"
  unfolding key_of_def by (rule map_cong [OF refl set_cols_other]) auto

section \<open>What a page does to the table\<close>

text \<open>\<open>rewritten transform T r r'\<close>: the new row is the old one with its policy columns
  replaced by the transform of the old row, at one of the retry numbers.\<close>

definition rewritten :: "(Row \<Rightarrow> gerr + anyval list) \<Rightarrow> Table \<Rightarrow> trow \<Rightarrow> trow \<Rightarrow> bool" where
  "rewritten transform T r r' \<longleftrightarrow>
     (\<exists>a < MaxUniqueAttempts. \<exists>vs. transform ((read_row T r)\<lparr>Retry := a\<rparr>) = Inr vs \<and>
        length vs = length (Columns T) \<and> r' = set_cols (Columns T) vs r)"

text \<open>A cancelled call of the transform fails; otherwise it is the given function.\<close>

definition refines :: "(Row \<Rightarrow> gerr + anyval list) \<Rightarrow> (Row \<Rightarrow> gerr + anyval list) \<Rightarrow> bool" where
  "refines transform' transform \<longleftrightarrow>
     (\<forall>row vs. transform' row = Inr vs \<longrightarrow> transform row = Inr vs)"

lemma update_attempts_ok:
  assumes "update_attempts sv env T transform row tab as = Inr tab'"
  shows "\<exists>a \<in> set as. \<exists>vs. transform (row\<lparr>Retry := a\<rparr>) = Inr vs \<and> length vs = length (Columns T) \<and>
    tab' = update_rows sv T vs (PrimaryKey row) tab \<and> unique_ok sv (tname_of T) tab'"
  using assms
proof (induction as)
  case (Cons a as)
  then obtain vs where vs: "transform (row\<lparr>Retry := a\<rparr>) = Inr vs" "length vs = length (Columns T)"
    by (auto simp: bindr_eq_Inr split: if_splits)
  show ?case
  proof (cases "exec_update sv env T vs (PrimaryKey row) a tab")
    case (Inl e)
    then have "update_attempts sv env T transform row tab as = Inr tab'"
      using Cons.prems vs by (auto split: if_splits)
    then show ?thesis using Cons.IH by auto
  next
    case (Inr t)
    then have "t = tab'" using Cons.prems vs by simp
    then have "tab' = update_rows sv T vs (PrimaryKey row) tab" "unique_ok sv (tname_of T) tab'"
      using Inr by (auto simp: exec_update_def bindr_eq_Inr Let_def split: if_splits)
    then show ?thesis using vs by auto
  qed
qed simp

lemma updateRow_ok:
  assumes "updateRow sv env T transform tab (read_row T r) = Inr tab'"
    and "r \<in> set tab" "inj_on (rk sv T) (set tab)"
  shows "list_all2 (\<lambda>x x'. if x = r then rewritten transform T r x' else x' = x) tab tab'"
proof -
  obtain a vs where a: "a < MaxUniqueAttempts" "transform ((read_row T r)\<lparr>Retry := a\<rparr>) = Inr vs"
      "length vs = length (Columns T)" "tab' = update_rows sv T vs (key_of T r) tab"
    using update_attempts_ok [OF assms(1) [unfolded updateRow_def]] by (auto simp: read_row_def)
  have "rk sv T x = rank sv (tname_of T) (key_of T r) \<longleftrightarrow> x = r" if "x \<in> set tab" for x
    using that assms(2,3) by (auto simp: inj_on_def rk_def)
  then show ?thesis using a
    by (auto simp: update_rows_def rewritten_def list_all2_conv_all_nth)
qed

lemma rewritten_rk:
  assumes "rewritten transform T r r'" "set (TPrimaryKey T) \<inter> set (Columns T) = {}"
  shows "rk sv T r' = rk sv T r"
  using assms by (auto simp: rewritten_def rk_def key_of_set_cols)

lemma list_all2_mem: "list_all2 R xs ys \<Longrightarrow> y \<in> set ys \<Longrightarrow> \<exists>x \<in> set xs. R x y"
  by (induction rule: list_all2_induct) auto

lemma list_all2_keep_mem:
  "list_all2 (\<lambda>x x'. if P x then Q x x' else x' = x) xs ys \<Longrightarrow> x \<in> set xs \<Longrightarrow> \<not> P x \<Longrightarrow> x \<in> set ys"
  by (induction rule: list_all2_induct) auto

lemma map_rk_rewritten:
  assumes "list_all2 (\<lambda>x x'. if P x then rewritten transform T x x' else x' = x) tab tab'"
    and "set (TPrimaryKey T) \<inter> set (Columns T) = {}"
  shows "map (rk sv T) tab' = map (rk sv T) tab"
  using assms(1) rewritten_rk [OF _ assms(2)]
  by (induction rule: list_all2_induct) (auto split: if_splits)

text \<open>All rows of the page are rewritten, and only they.\<close>

lemma update_all_ok:
  assumes "foldr_err (updateRow sv env T transform) tab (map (read_row T) page) = Inr tab'"
    and "set page \<subseteq> set tab" "distinct page" "distinct (map (rk sv T) tab)"
    and "set (TPrimaryKey T) \<inter> set (Columns T) = {}"
  shows "list_all2 (\<lambda>x x'. if x \<in> set page then rewritten transform T x x' else x' = x) tab tab'"
  using assms
proof (induction page arbitrary: tab)
  case Nil
  then show ?case by (simp add: list_all2_same)
next
  case (Cons r page)
  then obtain tab1 where t1: "updateRow sv env T transform tab (read_row T r) = Inr tab1"
      "foldr_err (updateRow sv env T transform) tab1 (map (read_row T) page) = Inr tab'"
    by (auto simp: bindr_eq_Inr)
  have "inj_on (rk sv T) (set tab)" using Cons.prems(4) by (simp add: distinct_map)
  then have one: "list_all2 (\<lambda>x x'. if x = r then rewritten transform T x x' else x' = x) tab tab1"
    using updateRow_ok [OF t1(1)] Cons.prems(2) by (auto elim!: list_all2_mono split: if_splits)
  note rks = map_rk_rewritten [OF one Cons.prems(5), of sv]
  have "set page \<subseteq> set tab1"
    using list_all2_keep_mem [OF one] Cons.prems(2,3) by auto
  then have rest: "list_all2 (\<lambda>x x'. if x \<in> set page then rewritten transform T x x' else x' = x) tab1 tab'"
    using Cons.IH [OF t1(2)] Cons.prems(3,4,5) rks by auto
  have new: "x' \<notin> set page" if "rewritten transform T r x'" "x' \<in> set tab1" for x'
  proof
    assume p: "x' \<in> set page"
    then have "x' \<in> set tab" "r \<in> set tab" using Cons.prems(2) by auto
    then have "x' = r" using rewritten_rk [OF that(1) Cons.prems(5), of sv] Cons.prems(4)
      by (auto simp: distinct_map inj_on_def)
    then show False using p Cons.prems(3) by simp
  qed
  show ?case
  proof (rule list_all2_all_nthI)
    show "length tab = length tab'"
      using list_all2_lengthD [OF one] list_all2_lengthD [OF rest] by (rule trans)
  next
    fix i
    assume i: "i < length tab"
    then have "i < length tab1" using list_all2_lengthD [OF one] by simp
    then have mem: "tab1 ! i \<in> set tab1" by simp
    note a = list_all2_nthD [OF one i] and b = list_all2_nthD [OF rest \<open>i < length tab1\<close>]
    show "if tab ! i \<in> set (r # page) then rewritten transform T (tab ! i) (tab' ! i)
          else tab' ! i = tab ! i"
    proof (cases "tab ! i = r")
      case True
      then have "rewritten transform T r (tab1 ! i)" using a by simp
      then show ?thesis using True new [OF _ mem] b by simp
    next
      case False
      then show ?thesis using a b by (auto split: if_splits)
    qed
  qed
qed

section \<open>The invariant\<close>

text \<open>The rows that a progress accounts for.\<close>

definition passed :: "('o::linorder) server \<Rightarrow> Table \<Rightarrow> Progress \<Rightarrow> trow \<Rightarrow> bool" where
  "passed sv T p r \<longleftrightarrow> \<not> beyond sv T (LastPK p) r"

definition covered :: "('o::linorder) server \<Rightarrow> Table \<Rightarrow> Progress \<Rightarrow> trow \<Rightarrow> bool" where
  "covered sv T p r \<longleftrightarrow> passed sv T p r \<and> selected sv T r"

definition page_inv ::
  "('o::linorder) server \<Rightarrow> Table \<Rightarrow> (Row \<Rightarrow> gerr + anyval list) \<Rightarrow> trow list \<Rightarrow> trow list \<Rightarrow> Progress \<Rightarrow> bool"
  where
  "page_inv sv T transform orig cur p \<longleftrightarrow>
     list_all2 (\<lambda>r r'. if covered sv T p r then rewritten transform T r r' else r' = r) orig cur \<and>
     RowsDone p = int (length (filter (covered sv T p) orig)) \<and>
     (Done p \<longrightarrow> (\<forall>r \<in> set orig. selected sv T r \<longrightarrow> covered sv T p r)) \<and>
     (LastPK p = [] \<or> (\<exists>r \<in> set orig. LastPK p = key_of T r))"

text \<open>What a table must satisfy for the pages to be well defined: the paging key is unique,
  its values survive the checkpoint, and the rows can be counted.\<close>

definition table_ok :: "codec \<Rightarrow> ('o::linorder) server \<Rightarrow> Table \<Rightarrow> trow list \<Rightarrow> bool" where
  "table_ok c sv T orig \<longleftrightarrow>
     distinct (map (rk sv T) orig) \<and> (\<forall>r \<in> set orig. roundtrips c (key_of T r)) \<and>
     int (length orig) < 2 ^ 63"

lemma page_inv_init: "page_inv sv T transform orig orig no_progress"
  by (simp add: page_inv_def covered_def passed_def no_progress_def beyond_def list_all2_same)

lemma page_select:
  assumes inv: "page_inv sv T transform orig cur p"
    and disj: "set (TPrimaryKey T) \<inter> set (Columns T) = {}"
  shows "select_rows sv T (LastPK p) cur = select_rows sv T (LastPK p) orig"
proof -
  define f where "f = (\<lambda>r. beyond sv T (LastPK p) r \<and> selected sv T r)"
  have R: "f r = f r'" "f r \<Longrightarrow> r = r'"
    if "if covered sv T p r then rewritten transform T r r' else r' = r" for r r'
    using that rewritten_rk [OF _ disj, of transform r r' sv]
    by (auto simp: f_def covered_def passed_def beyond_def split: if_splits)
  have "list_all2 (\<lambda>r r'. if covered sv T p r then rewritten transform T r r' else r' = r) orig cur"
    using inv by (simp add: page_inv_def)
  then have "filter f cur = filter f orig" by (rule list_all2_filter_eq) (use R in blast)+
  then show ?thesis by (simp add: select_rows_def f_def)
qed

lemma select_rows_props:
  assumes "distinct (map (rk sv T) orig)"
  shows "set (select_rows sv T cur orig) \<subseteq> {r \<in> set orig. beyond sv T cur r \<and> selected sv T r}"
    and "distinct (select_rows sv T cur orig)"
proof -
  show "set (select_rows sv T cur orig) \<subseteq> {r \<in> set orig. beyond sv T cur r \<and> selected sv T r}"
    by (auto simp: select_rows_def dest!: in_set_takeD)
  have "distinct orig" using assms by (simp add: distinct_map)
  then show "distinct (select_rows sv T cur orig)" by (simp add: select_rows_def)
qed

lemma select_rows_last:
  assumes "distinct (map (rk sv T) orig)" "select_rows sv T cur orig \<noteq> []"
    and "r \<in> set orig" "beyond sv T cur r" "selected sv T r"
  shows "r \<in> set (select_rows sv T cur orig) \<longleftrightarrow> rk sv T r \<le> rk sv T (last (select_rows sv T cur orig))"
  unfolding select_rows_def
  by (rule sorted_take_last) (use assms in \<open>auto simp: distinct_map select_rows_def intro: inj_on_subset\<close>)

lemma select_rows_short:
  assumes "int (length (select_rows sv T cur orig)) < PageSize T"
    and "r \<in> set orig" "beyond sv T cur r" "selected sv T r"
  shows "r \<in> set (select_rows sv T cur orig)"
  using assms by (auto simp: select_rows_def)

text \<open>The progress that a page stores.\<close>

definition advance :: "Table \<Rightarrow> Progress \<Rightarrow> Row list \<Rightarrow> Progress" where
  "advance T p page =
     (let moved = (if page = [] then p
            else p\<lparr>LastPK := PrimaryKey (last page), RowsDone := wrap64 (RowsDone p + int (length page))\<rparr>)
      in moved\<lparr>Done := int (length page) < PageSize T\<rparr>)"

lemma covered_advance:
  assumes "distinct (map (rk sv T) orig)" "TPrimaryKey T \<noteq> []"
    and "LastPK p = [] \<or> (\<exists>r \<in> set orig. LastPK p = key_of T r)"
    and "page = select_rows sv T (LastPK p) orig" "r \<in> set orig"
  shows "covered sv T (advance T p (map (read_row T) page)) r \<longleftrightarrow> covered sv T p r \<or> r \<in> set page"
proof (cases "page = []")
  case True
  then show ?thesis by (simp add: covered_def passed_def advance_def)
next
  case False
  define l where "l = last page"
  have l: "l \<in> set page" using False by (simp add: l_def)
  then have lp: "l \<in> set orig" "beyond sv T (LastPK p) l" "selected sv T l"
    using select_rows_props(1) [OF assms(1), of "LastPK p"] assms(4) by auto
  have new: "LastPK (advance T p (map (read_row T) page)) = key_of T l"
    using False by (simp add: advance_def last_map l_def read_row_def)
  have ne: "key_of T l \<noteq> []" using assms(2) by (simp add: key_of_def)
  have le: "passed sv T (advance T p (map (read_row T) page)) r \<longleftrightarrow> rk sv T r \<le> rk sv T l"
    using ne by (simp add: passed_def beyond_def new not_less flip: rk_def)
  show ?thesis
  proof (cases "beyond sv T (LastPK p) r")
    case True
    then have "selected sv T r \<Longrightarrow> r \<in> set page \<longleftrightarrow> rk sv T r \<le> rk sv T l"
      using select_rows_last [OF assms(1) _ assms(5)] False assms(4) by (simp add: l_def)
    moreover have "r \<in> set page \<Longrightarrow> selected sv T r"
      using select_rows_props(1) [OF assms(1), of "LastPK p"] assms(4) by auto
    ultimately show ?thesis using True le by (auto simp: covered_def passed_def)
  next
    case old: False
    then have "rk sv T r \<le> rk sv T l"
      using lp(2) by (auto simp: beyond_def)
    moreover have "r \<notin> set page"
      using old select_rows_props(1) [OF assms(1), of "LastPK p"] assms(4) by auto
    ultimately show ?thesis using old le by (simp add: covered_def passed_def)
  qed
qed

lemma covered_count_advance:
  assumes "distinct (map (rk sv T) orig)" "TPrimaryKey T \<noteq> []"
    and "LastPK p = [] \<or> (\<exists>r \<in> set orig. LastPK p = key_of T r)"
    and "page = select_rows sv T (LastPK p) orig"
  shows "length (filter (covered sv T (advance T p (map (read_row T) page))) orig)
    = length (filter (covered sv T p) orig) + length page"
proof -
  have "filter (covered sv T (advance T p (map (read_row T) page))) orig
      = filter (\<lambda>r. covered sv T p r \<or> r \<in> set page) orig"
    by (rule filter_cong [OF refl]) (rule covered_advance [OF assms])
  also have "length \<dots> = length (filter (covered sv T p) orig) + length (filter (\<lambda>r. r \<in> set page) orig)"
    using select_rows_props(1) [OF assms(1), of "LastPK p"] assms(4)
    by (intro length_filter_disjoint) (auto simp: covered_def passed_def)
  also have "length (filter (\<lambda>r. r \<in> set page) orig) = length page"
    using select_rows_props [OF assms(1), of "LastPK p"] assms(1,4)
    by (intro length_filter_subset) (auto simp: distinct_map)
  finally show ?thesis .
qed

lemma RowsDone_advance:
  assumes "RowsDone p = int n" "int (n + length page) < 2 ^ 63"
  shows "RowsDone (advance T p page) = int (n + length page)"
  using assms by (simp add: advance_def Let_def int64_range_def)

lemma rewritten_refines: "refines tr' tr \<Longrightarrow> rewritten tr' T r r' \<Longrightarrow> rewritten tr T r r'"
  by (auto simp: refines_def rewritten_def)

lemma page_inv_rewrite:
  assumes inv: "page_inv sv T tr orig cur p" and ok: "distinct (map (rk sv T) orig)"
    and disj: "set (TPrimaryKey T) \<inter> set (Columns T) = {}" "TPrimaryKey T \<noteq> []"
    and page: "page = select_rows sv T (LastPK p) orig"
    and upd: "list_all2 (\<lambda>x x'. if x \<in> set page then rewritten tr T x x' else x' = x) cur cur'"
  shows "list_all2 (\<lambda>r r'. if covered sv T (advance T p (map (read_row T) page)) r
    then rewritten tr T r r' else r' = r) orig cur'"
proof (rule list_all2_all_nthI)
  have all: "list_all2 (\<lambda>r r'. if covered sv T p r then rewritten tr T r r' else r' = r) orig cur"
    and last: "LastPK p = [] \<or> (\<exists>r \<in> set orig. LastPK p = key_of T r)"
    using inv by (simp_all add: page_inv_def)
  show len: "length orig = length cur'" using list_all2_lengthD [OF all] list_all2_lengthD [OF upd] by simp
  fix i
  assume i: "i < length orig"
  note a = list_all2_nthD [OF all i]
  have "i < length cur" using i list_all2_lengthD [OF all] by simp
  note b = list_all2_nthD [OF upd this]
  have cov: "covered sv T (advance T p (map (read_row T) page)) (orig ! i)
      \<longleftrightarrow> covered sv T p (orig ! i) \<or> orig ! i \<in> set page"
    using covered_advance [OF ok disj(2) last page] i by simp
  have old: "cur ! i \<notin> set page" if c: "covered sv T p (orig ! i)"
  proof
    assume "cur ! i \<in> set page"
    then have "beyond sv T (LastPK p) (cur ! i)"
      using select_rows_props(1) [OF ok, of "LastPK p"] page by auto
    moreover have "rk sv T (cur ! i) = rk sv T (orig ! i)"
      using a c rewritten_rk [OF _ disj(1)] by simp
    ultimately show False using c by (simp add: covered_def passed_def beyond_def)
  qed
  show "if covered sv T (advance T p (map (read_row T) page)) (orig ! i)
        then rewritten tr T (orig ! i) (cur' ! i) else cur' ! i = orig ! i"
    using a b old unfolding cov by (cases "covered sv T p (orig ! i)") (auto split: if_splits)
qed

lemma page_inv_advance:
  assumes inv: "page_inv sv T tr orig cur p" and ok: "table_ok c sv T orig"
    and disj: "set (TPrimaryKey T) \<inter> set (Columns T) = {}" "TPrimaryKey T \<noteq> []"
    and page: "page = select_rows sv T (LastPK p) cur"
    and upd: "list_all2 (\<lambda>x x'. if x \<in> set page then rewritten tr T x x' else x' = x) cur cur'"
  shows "page_inv sv T tr orig cur' (advance T p (map (read_row T) page))"
proof -
  let ?q = "advance T p (map (read_row T) page)"
  have d: "distinct (map (rk sv T) orig)" using ok by (simp add: table_ok_def)
  have page': "page = select_rows sv T (LastPK p) orig" using page page_select [OF inv disj(1)] by simp
  have last: "LastPK p = [] \<or> (\<exists>r \<in> set orig. LastPK p = key_of T r)"
    using inv by (simp add: page_inv_def)
  note cnt = covered_count_advance [OF d disj(2) last page']
  have "length (filter (covered sv T ?q) orig) \<le> length orig" by simp
  then have "int (length (filter (covered sv T p) orig) + length page) < 2 ^ 63"
    using cnt ok by (simp add: table_ok_def)
  then have rows: "RowsDone ?q = int (length (filter (covered sv T ?q) orig))"
    using RowsDone_advance [of p "length (filter (covered sv T p) orig)" "map (read_row T) page" T] inv cnt
    by (simp add: page_inv_def)
  have mem: "set page \<subseteq> set orig" using select_rows_props(1) [OF d] page' by auto
  have fin: "covered sv T ?q r" if "Done ?q" "r \<in> set orig" "selected sv T r" for r
  proof -
    have "int (length page) < PageSize T" using that(1) by (simp add: advance_def Let_def)
    then show ?thesis
      using covered_advance [OF d disj(2) last page' that(2)] that(2,3)
        select_rows_short [of sv T "LastPK p" orig r] page' by (auto simp: covered_def passed_def)
  qed
  have "LastPK ?q = [] \<or> (\<exists>r \<in> set orig. LastPK ?q = key_of T r)"
  proof (cases "page = []")
    case True
    then show ?thesis using last by (simp add: advance_def)
  next
    case False
    then have "last page \<in> set orig" using mem by auto
    then show ?thesis using False by (auto simp: advance_def Let_def last_map read_row_def)
  qed
  then show ?thesis
    using page_inv_rewrite [OF inv d disj page' upd] rows fin unfolding page_inv_def by blast
qed

section \<open>The state machine\<close>

lemma page_tx_okD:
  assumes "page_tx c sv env T key tr s = Inr (q, Some s')"
  obtains p where "Load c key (Prog s) = Inr p" "\<not> Done p"
    "q = advance T p (map (read_row T) (select_rows sv T (LastPK p) (Tabs s (tname_of T))))"
    "foldr_err (updateRow sv env T tr) (Tabs s (tname_of T))
       (map (read_row T) (select_rows sv T (LastPK p) (Tabs s (tname_of T)))) = Inr (Tabs s' (tname_of T))"
    "Save c key q (Prog s) = Inr (Prog s')"
    "\<And>n. n \<noteq> tname_of T \<Longrightarrow> Tabs s' n = Tabs s n" "StepLog s' = StepLog s"
  using assms
  by (auto simp: page_tx_def readRows_def update_page_def advance_def Let_def bindr_eq_Inr split: if_splits)

lemma page_tx_done:
  "page_tx c sv env T key tr s = Inr (q, None) \<Longrightarrow> Load c key (Prog s) = Inr q \<and> Done q"
  by (auto simp: page_tx_def Let_def bindr_eq_Inr split: if_splits)

definition db_inv ::
  "codec \<Rightarrow> ('o::linorder) server \<Rightarrow> Table \<Rightarrow> Key \<Rightarrow> (Row \<Rightarrow> gerr + anyval list) \<Rightarrow> trow list \<Rightarrow> db \<Rightarrow> bool"
  where
  "db_inv c sv T key tr orig s \<longleftrightarrow>
     (\<exists>p. Load c key (Prog s) = Inr p \<and> page_inv sv T tr orig (Tabs s (tname_of T)) p)"

lemma roundtrips_LastPK:
  "table_ok c sv T orig \<Longrightarrow> page_inv sv T tr orig cur p \<Longrightarrow> roundtrips c (LastPK p)"
  using cp.keeps_Nil by (auto simp: table_ok_def page_inv_def)

lemma page_inv_Exists [simp]: "page_inv sv T tr orig cur (p\<lparr>Exists := b\<rparr>) = page_inv sv T tr orig cur p"
  by (simp add: page_inv_def covered_def [abs_def] passed_def [abs_def])

lemma page_tx_inv:
  assumes "page_tx c sv env T key tr' s = Inr (q, Some s')" "refines tr' tr"
    and "db_inv c sv T key tr orig s" "table_ok c sv T orig"
    and disj: "set (TPrimaryKey T) \<inter> set (Columns T) = {}" "TPrimaryKey T \<noteq> []"
  shows "page_inv sv T tr orig (Tabs s' (tname_of T)) q" "Load c key (Prog s') = Inr (q\<lparr>Exists := True\<rparr>)"
proof -
  obtain p where p: "Load c key (Prog s) = Inr p" "\<not> Done p"
    "q = advance T p (map (read_row T) (select_rows sv T (LastPK p) (Tabs s (tname_of T))))"
    "foldr_err (updateRow sv env T tr') (Tabs s (tname_of T))
       (map (read_row T) (select_rows sv T (LastPK p) (Tabs s (tname_of T)))) = Inr (Tabs s' (tname_of T))"
    "Save c key q (Prog s) = Inr (Prog s')"
    using page_tx_okD [OF assms(1)] by metis
  define page where "page = select_rows sv T (LastPK p) (Tabs s (tname_of T))"
  have inv: "page_inv sv T tr orig (Tabs s (tname_of T)) p"
    using assms(3) p(1) by (simp add: db_inv_def)
  have "map (rk sv T) (Tabs s (tname_of T)) = map (rk sv T) orig"
    using inv map_rk_rewritten [OF _ disj(1)] by (fastforce simp: page_inv_def)
  then have d: "distinct (map (rk sv T) (Tabs s (tname_of T)))" using assms(4) by (simp add: table_ok_def)
  have "list_all2 (\<lambda>x x'. if x \<in> set page then rewritten tr' T x x' else x' = x)
      (Tabs s (tname_of T)) (Tabs s' (tname_of T))"
    using update_all_ok [OF p(4)] select_rows_props [OF d, of "LastPK p"] d disj(1)
    unfolding page_def by blast
  then have upd: "list_all2 (\<lambda>x x'. if x \<in> set page then rewritten tr T x x' else x' = x)
      (Tabs s (tname_of T)) (Tabs s' (tname_of T))"
    by (rule list_all2_mono) (auto intro: rewritten_refines [OF assms(2)] split: if_splits)
  show q: "page_inv sv T tr orig (Tabs s' (tname_of T)) q"
    using page_inv_advance [OF inv assms(4) disj page_def upd] p(3) unfolding page_def by blast
  show "Load c key (Prog s') = Inr (q\<lparr>Exists := True\<rparr>)"
    using cp.load_save [OF p(5) _ roundtrips_LastPK [OF assms(4) q]] p(1) by simp
qed

lemma page_inv_default [simp]:
  "page_inv sv (default_page_size T) tr orig cur p = page_inv sv T tr orig cur p"
  "table_ok c sv (default_page_size T) orig = table_ok c sv T orig"
  "db_inv c sv (default_page_size T) key tr orig s = db_inv c sv T key tr orig s"
  by (simp_all add: page_inv_def covered_def [abs_def] passed_def [abs_def] rewritten_def table_ok_def db_inv_def)

lemma ProcessPage_inv:
  assumes "ProcessPage c sv env T key tr' s = (s', res)" "refines tr' tr"
    and "db_inv c sv T key tr orig s" "table_ok c sv T orig"
  shows "db_inv c sv T key tr orig s'"
    and "res = Inr q \<Longrightarrow> page_inv sv T tr orig (Tabs s' (tname_of T)) q \<and> Load c key (Prog s') = Inr q"
proof -
  let ?b = "bindr (Validate T) (\<lambda>_.
           bindr (guardr (\<not> (Kind key \<noteq> ''table'' \<or> KDatabase key \<noteq> TDatabase T \<or> KName key \<noteq> TName T))
             (EPlain ''page identity or transform is invalid'')) (\<lambda>_.
             page_tx c sv env (default_page_size T) key tr' s))"
  have "db_inv c sv T key tr orig s' \<and>
    (\<forall>q. res = Inr q \<longrightarrow> page_inv sv T tr orig (Tabs s' (tname_of T)) q \<and> Load c key (Prog s') = Inr q)"
  proof (cases "?b")
    case (Inl e)
    then show ?thesis using assms by (auto simp: ProcessPage_def)
  next
    case (Inr b)
    then have V: "Validate T = Inr ()" and tx: "page_tx c sv env (default_page_size T) key tr' s = Inr b"
      by (auto simp: bindr_eq_Inr)
    obtain q o' where b: "b = (q, o')" by (cases b)
    show ?thesis
    proof (cases o')
      case None
      then have "s' = s" "res = Inr q" using assms(1) Inr b by (auto simp: ProcessPage_def)
      then show ?thesis using assms(3) page_tx_done tx b None by (fastforce simp: db_inv_def)
    next
      case (Some s1)
      have tx': "page_tx c sv env (default_page_size T) key tr' s = Inr (q, Some s1)" using tx b Some by simp
      have p1: "page_inv sv T tr orig (Tabs s1 (tname_of T)) q"
        and l1: "Load c key (Prog s1) = Inr (q\<lparr>Exists := True\<rparr>)"
        using page_tx_inv [OF tx' assms(2), of orig] assms(3,4) Validate_ok(1,5) [OF V] by simp_all
      have "commit (commit_err env) (commit_applied env) s s1 (q\<lparr>Exists := True\<rparr>) = (s', res)"
        using assms(1) Inr b Some by (simp add: ProcessPage_def)
      then show ?thesis
        by (rule commit_cases) (use p1 l1 assms(3) in \<open>auto simp: db_inv_def\<close>)
    qed
  qed
  then show "db_inv c sv T key tr orig s'"
    "res = Inr q \<Longrightarrow> page_inv sv T tr orig (Tabs s' (tname_of T)) q \<and> Load c key (Prog s') = Inr q"
    by blast+
qed

lemma page_tx_progress:
  assumes "page_tx c sv env T key tr' s = Inr (q, Some s')" "refines tr' tr"
    and "db_inv c sv T key tr orig s" "table_ok c sv T orig" "Load c key (Prog s) = Inr p"
    and disj: "set (TPrimaryKey T) \<inter> set (Columns T) = {}" "TPrimaryKey T \<noteq> []" "0 < PageSize T"
  shows "RowsDone p \<le> RowsDone q" "\<not> Done q \<Longrightarrow> RowsDone p < RowsDone q"
proof -
  define page where "page = select_rows sv T (LastPK p) (Tabs s (tname_of T))"
  have q: "q = advance T p (map (read_row T) page)"
    using page_tx_okD [OF assms(1)] assms(5) unfolding page_def by (metis sum.inject(2))
  have inv: "page_inv sv T tr orig (Tabs s (tname_of T)) p"
    using assms(3,5) by (simp add: db_inv_def)
  have inv': "page_inv sv T tr orig (Tabs s' (tname_of T)) q"
    by (rule page_tx_inv(1) [OF assms(1-4) disj(1,2)])
  have d: "distinct (map (rk sv T) orig)" using assms(4) by (simp add: table_ok_def)
  have last: "LastPK p = [] \<or> (\<exists>r \<in> set orig. LastPK p = key_of T r)" using inv by (simp add: page_inv_def)
  have page': "page = select_rows sv T (LastPK p) orig"
    using page_select [OF inv disj(1)] by (simp add: page_def)
  have cnt: "RowsDone q = RowsDone p + int (length page)"
    using inv inv' covered_count_advance [OF d disj(2) last page'] by (simp add: page_inv_def q)
  then show "RowsDone p \<le> RowsDone q" by simp
  assume "\<not> Done q"
  then have "0 < length page" using disj(3) by (auto simp: q advance_def Let_def)
  then show "RowsDone p < RowsDone q" using cnt by simp
qed

lemma ProcessPage_progress:
  assumes "ProcessPage c sv env T key tr' s = (s', res)" "refines tr' tr"
    and "db_inv c sv T key tr orig s" "table_ok c sv T orig" "Load c key (Prog s) = Inr p"
  shows "\<exists>p'. Load c key (Prog s') = Inr p' \<and> RowsDone p \<le> RowsDone p' \<and>
    (\<forall>q. res = Inr q \<and> \<not> Done q \<longrightarrow> RowsDone p < RowsDone p')"
proof (cases "s' = s \<and> (\<forall>q. res = Inr q \<longrightarrow> Done q)")
  case True
  then show ?thesis using assms(5) by auto
next
  case False
  have "\<exists>q s1. Validate T = Inr () \<and> page_tx c sv env (default_page_size T) key tr' s = Inr (q, Some s1) \<and>
      commit (commit_err env) (commit_applied env) s s1 (q\<lparr>Exists := True\<rparr>) = (s', res)"
    using assms(1) False
    by (auto simp: ProcessPage_def bindr_eq_Inr dest: page_tx_done split: sum.splits option.splits)
  then obtain q s1 where V: "Validate T = Inr ()"
      and tx: "page_tx c sv env (default_page_size T) key tr' s = Inr (q, Some s1)"
      and cm: "commit (commit_err env) (commit_applied env) s s1 (q\<lparr>Exists := True\<rparr>) = (s', res)" by blast
  note v = Validate_ok [OF V]
  have l1: "Load c key (Prog s1) = Inr (q\<lparr>Exists := True\<rparr>)"
    using page_tx_inv(2) [OF tx assms(2), of orig] assms(3,4) v(1,5) by simp
  have pr: "RowsDone p \<le> RowsDone q" "\<not> Done q \<Longrightarrow> RowsDone p < RowsDone q"
    using page_tx_progress [OF tx assms(2), of orig p] assms(3,4,5) v(1,5) default_page_size_pos [OF v(3)] by simp_all
  from cm show ?thesis
    by (rule commit_cases) (use l1 pr assms(5) in auto)
qed

lemma page_inv_done:
  assumes "Done q" "page_inv sv T tr orig cur q"
  shows "list_all2 (\<lambda>r r'. if selected sv T r then rewritten tr T r r' else r' = r) orig cur"
proof -
  have "covered sv T q r \<longleftrightarrow> selected sv T r" if "r \<in> set orig" for r
    using that assms by (auto simp: page_inv_def covered_def)
  then show ?thesis using assms(2) by (auto simp: page_inv_def list_all2_conv_all_nth)
qed

text \<open>The states of a run over one table: pages of this table with any failure, and steps of
  the other workers, which touch neither its rows nor its checkpoint.\<close>

inductive pages ::
  "codec \<Rightarrow> ('o::linorder) server \<Rightarrow> Table \<Rightarrow> Key \<Rightarrow> (Row \<Rightarrow> gerr + anyval list) \<Rightarrow> trow list \<Rightarrow> db \<Rightarrow> bool"
  for c sv T key tr orig where
  init: "Load c key (Prog s) = Inr no_progress \<Longrightarrow> Tabs s (tname_of T) = orig \<Longrightarrow> pages c sv T key tr orig s"
| page: "pages c sv T key tr orig s \<Longrightarrow> refines tr' tr \<Longrightarrow>
    pages c sv T key tr orig (fst (ProcessPage c sv env T key tr' s))"
| others: "pages c sv T key tr orig s \<Longrightarrow> Tabs s' (tname_of T) = Tabs s (tname_of T) \<Longrightarrow>
    Load c key (Prog s') = Load c key (Prog s) \<Longrightarrow> pages c sv T key tr orig s'"

lemma pages_inv:
  assumes "pages c sv T key tr orig s" "table_ok c sv T orig"
  shows "db_inv c sv T key tr orig s"
  using assms(1)
proof (induction rule: pages.induct)
  case (init s)
  then show ?case by (auto simp: db_inv_def intro: page_inv_init)
next
  case (page s tr' env)
  then show ?case
    using ProcessPage_inv(1) [OF prod.collapse [symmetric] page.hyps(2) page.IH assms(2)] by blast
next
  case (others s s')
  then show ?case by (simp add: db_inv_def)
qed

section \<open>Properties\<close>

text \<open>C2 (invariant).  Paging is crash safe: in every state that any sequence of pages, page
  failures, cancelled transforms, ambiguous commits and steps of other workers can reach, each
  row of the table is either still the original row or a selected row whose policy columns were
  rewritten exactly once, from its original values; the rows rewritten are the selected rows up
  to the stored cursor and their number is the stored counter.\<close>

theorem paging_crash_safe:
  assumes "pages c sv T key tr orig s" "table_ok c sv T orig"
  shows "\<exists>p. Load c key (Prog s) = Inr p \<and>
    list_all2 (\<lambda>r r'. if covered sv T p r then rewritten tr T r r' else r' = r)
      orig (Tabs s (tname_of T)) \<and>
    RowsDone p = int (length (filter (covered sv T p) orig))"
  using pages_inv [OF assms] unfolding db_inv_def page_inv_def by blast

text \<open>C1 (functional).  When a page reports that its table is done, after any history of
  failures, every selected row has been rewritten exactly once from its original values, every
  other row is unchanged, and the reported row count is the number of selected rows.\<close>

theorem paging_exactly_once:
  assumes "pages c sv T key tr orig s" "table_ok c sv T orig" "refines tr' tr"
    and "ProcessPage c sv env T key tr' s = (s', Inr p)" "Done p"
  shows "list_all2 (\<lambda>r r'. if selected sv T r then rewritten tr T r r' else r' = r)
      orig (Tabs s' (tname_of T))
    \<and> RowsDone p = int (length (filter (selected sv T) orig))"
proof -
  have inv: "page_inv sv T tr orig (Tabs s' (tname_of T)) p"
    using ProcessPage_inv(2) [OF assms(4,3) pages_inv [OF assms(1,2)] assms(2)] by simp
  then have "filter (covered sv T p) orig = filter (selected sv T) orig"
    using assms(5) by (intro filter_cong [OF refl]) (auto simp: page_inv_def covered_def)
  then show ?thesis using inv page_inv_done [OF assms(5) inv] by (simp add: page_inv_def)
qed

subsection \<open>A concrete run\<close>

definition demo_server :: "int server" where
  "demo_server = \<lparr>rank = (\<lambda>_ ks. case ks of [VInt64 i] \<Rightarrow> i | _ \<Rightarrow> 0),
     pred_val = (\<lambda>_ r. case r ''email'' of VNil \<Rightarrow> None | v \<Rightarrow> Some (v = VBytes ''keep'')),
     unique_ok = (\<lambda>_ rs. distinct (map (\<lambda>r. r ''email'') rs))\<rparr>"

definition demo_table :: Table where
  "demo_table = \<lparr>TDatabase = ''shop'', TName = ''users'', TPrimaryKey = [''id''], Columns = [''email''],
     IgnoreWhere = ''email = kept'', PageSize = 1\<rparr>"

definition demo_row :: "int \<Rightarrow> anyval \<Rightarrow> trow" where
  "demo_row i e = (\<lambda>c. if c = ''id'' then VInt64 i else if c = ''email'' then e else VNil)"

definition demo_rows :: "trow list" where
  "demo_rows = [demo_row 2 (VBytes ''b''), demo_row 1 (VBytes ''keep''), demo_row 3 VNil]"

definition demo_db :: db where
  "demo_db = \<lparr>Prog = Some Map.empty, Tabs = (\<lambda>_. demo_rows), StepLog = []\<rparr>"

definition demo_transform :: "Row \<Rightarrow> gerr + anyval list" where
  "demo_transform row = (if Retry row = 0 then Inr [VBytes ''keep''] else Inr [VBytes ''new''])"

definition calm :: page_env where
  "calm = \<lparr>begin_err = None, load_err = None, select_err = None, scan_err = None, prepare_err = None,
     exec_err = (\<lambda>_ _. None), save_err = None, commit_err = None, commit_applied = True\<rparr>"

definition lost_commit :: page_env where
  "lost_commit = calm\<lparr>commit_err := Some (EPlain ''invalid connection'')\<rparr>"

lemma demo_ok: "table_ok sample_codec demo_server demo_table demo_rows"
proof -
  have "distinct (map (rk demo_server demo_table) demo_rows)" by code_simp
  moreover have "\<forall>r \<in> set demo_rows. roundtrips sample_codec (key_of demo_table r)"
    by (auto simp: demo_rows_def demo_row_def key_of_def demo_table_def intro!: storable_roundtrips)
      (simp_all add: storable_def codec_ok_def int64_range_def)
  ultimately show ?thesis by (simp add: table_ok_def demo_rows_def)
qed

lemma demo_init: "pages sample_codec demo_server demo_table sample_key demo_transform demo_rows demo_db"
proof (rule pages.init)
  show "Load sample_codec sample_key (Prog demo_db) = Inr no_progress"
    by (simp add: demo_db_def Load_def validate_def sample_key_def)
qed (simp add: demo_db_def)

definition demo_lost :: db where
  "demo_lost = fst (ProcessPage sample_codec demo_server lost_commit demo_table sample_key demo_transform demo_db)"

lemma refines_refl [simp]: "refines tr tr"
  by (simp add: refines_def)

lemma demo_lost_reach: "pages sample_codec demo_server demo_table sample_key demo_transform demo_rows demo_lost"
  unfolding demo_lost_def by (rule pages.page [OF demo_init refines_refl])

theorem paging_crash_safe_witness:
  "\<exists>p. Load sample_codec sample_key (Prog demo_lost) = Inr p \<and>
    list_all2 (\<lambda>r r'. if covered demo_server demo_table p r
        then rewritten demo_transform demo_table r r' else r' = r)
      demo_rows (Tabs demo_lost (tname_of demo_table)) \<and>
    RowsDone p = int (length (filter (covered demo_server demo_table p) demo_rows))"
  by (rule paging_crash_safe [OF demo_lost_reach demo_ok])

text \<open>The first commit is ambiguous and took effect; the next page resumes after it and ends
  the table with one rewritten row, at retry one.\<close>

definition demo_end :: "db \<times> (gerr + Progress)" where
  "demo_end = ProcessPage sample_codec demo_server calm demo_table sample_key demo_transform demo_lost"

lemma demo_end_done: "is_ok (snd demo_end) \<and> Done (projr (snd demo_end))"
  unfolding demo_end_def demo_lost_def by code_simp

theorem paging_exactly_once_witness:
  "list_all2 (\<lambda>r r'. if selected demo_server demo_table r
        then rewritten demo_transform demo_table r r' else r' = r)
      demo_rows (Tabs (fst demo_end) (tname_of demo_table))
    \<and> RowsDone (projr (snd demo_end)) = int (length (filter (selected demo_server demo_table) demo_rows))"
proof -
  have "ProcessPage sample_codec demo_server calm demo_table sample_key demo_transform demo_lost
      = (fst demo_end, Inr (projr (snd demo_end)))"
    using demo_end_done Save_result [of "snd demo_end"] by (simp add: demo_end_def [symmetric] prod_eq_iff)
  then show ?thesis
    using paging_exactly_once [OF demo_lost_reach demo_ok refines_refl] demo_end_done by blast
qed

text \<open>Rows whose ignore predicate is NULL are left as they are: the documented rule
  is that matching rows are excluded, but a row on which the predicate is neither true nor false
  is excluded as well, and keeps its original values when its table is reported done.\<close>

theorem null_predicate_rows_kept:
  assumes "pages c sv T key tr orig s" "table_ok c sv T orig" "refines tr' tr"
    and "ProcessPage c sv env T key tr' s = (s', Inr p)" "Done p"
    and "i < length orig" "IgnoreWhere T \<noteq> []" "pred_val sv (IgnoreWhere T) (orig ! i) = None"
  shows "Tabs s' (tname_of T) ! i = orig ! i"
proof -
  have inv: "page_inv sv T tr orig (Tabs s' (tname_of T)) p"
    using ProcessPage_inv(2) [OF assms(4,3) pages_inv [OF assms(1,2)] assms(2)] by simp
  have "\<not> selected sv T (orig ! i)" using assms(7,8) by (simp add: selected_def)
  then show ?thesis using list_all2_nthD [OF page_inv_done [OF assms(5) inv] assms(6)] by simp
qed

theorem null_predicate_rows_kept_witness:
  "Tabs (fst demo_end) (tname_of demo_table) ! 2 = demo_row 3 VNil"
proof -
  have "ProcessPage sample_codec demo_server calm demo_table sample_key demo_transform demo_lost
      = (fst demo_end, Inr (projr (snd demo_end)))"
    using demo_end_done Save_result [of "snd demo_end"] by (simp add: demo_end_def [symmetric] prod_eq_iff)
  from null_predicate_rows_kept [OF demo_lost_reach demo_ok refines_refl this, of 2] demo_end_done
  show ?thesis by (simp add: demo_rows_def demo_table_def demo_server_def demo_row_def)
qed

end
