(* ===== verification/Report.thy ===== *)
theory Report
  imports Go_Strings
begin

text \<open>
  \<open>internal/runner/report/report.go\<close>: the classification of errors, the exit code of the
  runner and the termination report it writes for the controller.  The report's JSON text is
  modelled byte by byte, with Go's escaping; the formatting of a \<open>float64\<close> is a parameter.
\<close>

section \<open>Classes and reports\<close>

abbreviation (input) "ResultOK \<equiv> ''ok''"
abbreviation (input) "ResultError \<equiv> ''error''"
abbreviation (input) "Transient \<equiv> ''transient''"
abbreviation (input) "Policy_class \<equiv> ''policy''"
abbreviation (input) "Schema \<equiv> ''schema''"
abbreviation (input) "Permission \<equiv> ''permission''"
abbreviation (input) "Unique \<equiv> ''unique''"

definition known_classes :: "string list" where
  "known_classes = [Transient, Policy_class, Schema, Permission, Unique]"

record 'f report =
  Result :: string
  rClass :: string
  Message :: string
  TablesDone :: int
  TablesTotal :: int
  RowsDoneR :: int
  StepsDone :: int
  DurationSeconds :: 'f
  rPolicyHash :: string

definition Fail :: "string \<Rightarrow> string \<Rightarrow> gerr" where
  "Fail c safeMessage = EFailure c safeMessage"

definition mysql_class :: "nat \<Rightarrow> string" where
  "mysql_class n =
     (if n \<in> set [1044, 1045, 1142, 1227] then Permission
      else if n \<in> set [1146, 1054] then Schema
      else if n = 1062 then Unique
      else Transient)"

definition Classify :: "gerr \<Rightarrow> string \<times> string" where
  "Classify err =
     (case as_failure err of
        Some (c, m) \<Rightarrow> (c, m)
      | None \<Rightarrow>
          (case as_mysql err of
             Some n \<Rightarrow>
               (let c = mysql_class n;
                    c' = (if c = Transient \<and> is_uncertain err then Policy_class else c)
                in (c', ''database operation failed (MySQL '' @ nat_dec n @ '')''))
           | None \<Rightarrow>
               (if is_uncertain err
                then (Policy_class, ''SQL step outcome is uncertain; explicit recovery is required'')
                else (Transient, ''database or I/O operation failed''))))"

definition ExitCode :: "'f report \<Rightarrow> int" where
  "ExitCode r =
     (if Result r = ResultOK then 0
      else if rClass r = Policy_class then 10
      else if rClass r = Schema then 11
      else if rClass r = Permission then 12
      else if rClass r = Unique then 13
      else 1)"

section \<open>The JSON text of a report\<close>

definition u_escape :: "nat \<Rightarrow> string" where
  "u_escape r = CHR 0x5C # CHR ''u'' #
     [hex_digit (r div 4096 mod 16), hex_digit (r div 256 mod 16), hex_digit (r div 16 mod 16),
      hex_digit (r mod 16)]"

text \<open>One rune of a JSON string as \<open>encoding/json\<close> writes it with HTML escaping on.\<close>

definition json_rune :: "nat \<Rightarrow> string" where
  "json_rune r =
     (if r = 34 \<or> r = 92 then [CHR 0x5C, chr r]
      else if r = 8 then [CHR 0x5C, CHR ''b'']
      else if r = 12 then [CHR 0x5C, CHR ''f'']
      else if r = 10 then [CHR 0x5C, CHR ''n'']
      else if r = 13 then [CHR 0x5C, CHR ''r'']
      else if r = 9 then [CHR 0x5C, CHR ''t'']
      else if r < 32 \<or> r = 60 \<or> r = 62 \<or> r = 38 \<or> r = 8232 \<or> r = 8233 then u_escape r
      else map chr (encode_rune r))"

function (sequential) json_bytes :: "nat list \<Rightarrow> string" where
  "json_bytes [] = []"
| "json_bytes (b # bs) =
     (case decode_rune (b # bs) of
        None \<Rightarrow> u_escape rune_error @ json_bytes bs
      | Some (r, w) \<Rightarrow> json_rune r @ json_bytes (drop (w - 1) bs))"
  by pat_completeness auto
termination by (relation "measure length") auto

definition json_string :: "string \<Rightarrow> string" where
  "json_string s = [CHR 0x22] @ json_bytes (map byte_of s) @ [CHR 0x22]"

definition json_member :: "string \<Rightarrow> string \<Rightarrow> string" where
  "json_member name v = [CHR 0x22] @ name @ [CHR 0x22, CHR '':''] @ v"

text \<open>\<open>json.Marshal\<close> of the struct, in field order; \<open>omitempty\<close> drops an empty class.  The
  parameter \<open>ff\<close> formats the duration and is \<open>None\<close> where Go refuses it (NaN, infinities).\<close>

definition report_members :: "string \<Rightarrow> 'f report \<Rightarrow> string list" where
  "report_members d r =
     [json_member ''result'' (json_string (Result r))] @
     (if rClass r = [] then [] else [json_member ''class'' (json_string (rClass r))]) @
     [json_member ''message'' (json_string (Message r)),
      json_member ''tablesDone'' (int_dec (TablesDone r)),
      json_member ''tablesTotal'' (int_dec (TablesTotal r)),
      json_member ''rowsDone'' (int_dec (RowsDoneR r)),
      json_member ''stepsDone'' (int_dec (StepsDone r)),
      json_member ''durationSeconds'' d,
      json_member ''policyHash'' (json_string (rPolicyHash r))]"

definition marshal_report :: "('f \<Rightarrow> string option) \<Rightarrow> 'f report \<Rightarrow> gerr + string" where
  "marshal_report ff r =
     (case ff (DurationSeconds r) of
        None \<Rightarrow> Inl (EPlain ''json: unsupported value'')
      | Some d \<Rightarrow> Inr (''{'' @ str_join (report_members d r) '','' @ ''}''))"

definition report_message :: "string \<Rightarrow> string" where
  "report_message m =
     (let m' = (if valid_utf8 m then m else ''operation failed'')
      in rune_str (take 512 (str_runes m')))"

text \<open>The bytes handed to the writer, or the error that \<open>Write\<close> returns before it.\<close>

definition Write :: "('f \<Rightarrow> string option) \<Rightarrow> 'f report \<Rightarrow> gerr + string" where
  "Write ff r =
     (let r' = r\<lparr>Message := report_message (Message r)\<rparr>
      in bindr (marshal_report ff r') (\<lambda>data.
           if length data + 1 > 4096 then Inl (EPlain ''termination report exceeds 4 KiB'')
           else Inr (data @ [CHR 0x0A])))"

section \<open>Sizes\<close>

lemma json_rune_length [bound_intros]: "length (json_rune r) \<le> 6"
  by (simp add: json_rune_def u_escape_def encode_rune_def encode_scalar_def)

lemma json_bytes_length: "length (json_bytes bs) \<le> 6 * length (runes bs)"
proof (induction bs rule: json_bytes.induct)
  case (2 b bs)
  show ?case
  proof (cases "decode_rune (b # bs)")
    case None
    then show ?thesis using 2(1) by (simp add: u_escape_def)
  next
    case (Some rw)
    then show ?thesis using 2(2) json_rune_length [of "fst rw"] by (cases rw) fastforce
  qed
qed simp

lemma json_string_length: "length (json_string s) \<le> 6 * rune_count s + 2"
  using json_bytes_length [of "map byte_of s"] by (simp add: json_string_def rune_count_def str_runes_def)

lemma json_string_length': "length s \<le> n \<Longrightarrow> length (json_string s) \<le> 6 * n + 2"
  using json_string_length [of s] rune_count_le [of s] by linarith

lemma report_message_runes: "rune_count (report_message m) \<le> 512"
  unfolding report_message_def rune_count_def Let_def
  by (subst str_runes_rune_str) (auto dest: in_set_takeD str_runes_scalar)

lemma int_dec_length: "int64_range i \<Longrightarrow> length (int_dec i) \<le> 20"
proof -
  assume r: "int64_range i"
  have "abs i < 10 ^ 19" using r by (auto simp: int64_range_def)
  then have "nat (abs i) < 10 ^ 19" by (simp add: nat_less_iff)
  then have "length (nat_dec (nat (abs i))) \<le> 19" by (intro nat_dec_length_le) simp_all
  then show ?thesis by (auto simp: int_dec_def abs_if split: if_splits)
qed

lemma known_class_length: "c \<in> set known_classes \<Longrightarrow> length c \<le> 10"
  by (auto simp: known_classes_def)

lemma mysql_class_known: "mysql_class n \<in> set known_classes"
  by (simp add: mysql_class_def known_classes_def)

lemma str_join_le: "sum_list (map length xs) + length xs \<le> n \<Longrightarrow> length (str_join xs '','') \<le> n"
  by (cases "xs = []") (simp_all add: length_str_join)

lemma json_member_length [simp]: "length (json_member name v) = length name + length v + 3"
  by (simp add: json_member_def)

lemma marshal_report_length:
  assumes "Result r = ResultOK \<or> Result r = ResultError"
    and "rClass r = [] \<or> rClass r \<in> set known_classes"
    and "rune_count (Message r) \<le> 512"
    and "length (rPolicyHash r) \<le> 80"
    and "int64_range (TablesDone r)" "int64_range (TablesTotal r)"
        "int64_range (RowsDoneR r)" "int64_range (StepsDone r)"
    and "ff (DurationSeconds r) = Some d" "length d \<le> 32"
  shows "\<exists>data. marshal_report ff r = Inr data \<and> length data \<le> 3881"
proof -
  have "length (json_string (Result r)) \<le> 32"
    using assms(1) by (auto intro: json_string_length' [where n = 5, simplified])
  moreover have "length (rClass r) \<le> 10"
    using assms(2) known_class_length by auto
  then have "length (json_string (rClass r)) \<le> 62"
    using json_string_length' [where n = 10] by fastforce
  moreover have "length (json_string (Message r)) \<le> 3074"
    using json_string_length [of "Message r"] assms(3) by linarith
  moreover have "length (json_string (rPolicyHash r)) \<le> 482"
    using json_string_length' [OF assms(4)] by simp
  moreover note int_dec_length [OF assms(5)] int_dec_length [OF assms(6)]
    int_dec_length [OF assms(7)] int_dec_length [OF assms(8)]
  ultimately have "sum_list (map length (report_members d r)) + length (report_members d r) \<le> 3879"
    using assms(10) by (simp add: report_members_def)
  then show ?thesis using str_join_le by (fastforce simp: marshal_report_def assms(9))
qed

section \<open>Properties\<close>

text \<open>The error tree without the texts of its plain, wrapped and database errors.\<close>

fun scrub :: "gerr \<Rightarrow> gerr" where
  "scrub (EPlain m) = EPlain []"
| "scrub (EMySQL n m) = EMySQL n []"
| "scrub (EFailure c m) = EFailure c m"
| "scrub EUncertain = EUncertain"
| "scrub (EWrap m e) = EWrap [] (scrub e)"
| "scrub (EJoin es) = EJoin (map scrub es)"

lemma err_tree_scrub: "err_tree (scrub e) = map scrub (err_tree e)"
  by (induction e) (simp_all add: map_concat comp_def cong: map_cong)

lemma first_some_map: "first_some f (map g xs) = first_some (\<lambda>x. f (g x)) xs"
  by (induction xs) (simp_all split: option.splits)

lemma first_some_cong: "(\<And>x. f x = g x) \<Longrightarrow> first_some f xs = first_some g xs"
  by presburger

lemma as_failure_scrub: "as_failure (scrub e) = as_failure e"
  unfolding as_failure_def err_tree_scrub first_some_map
  by (rule first_some_cong) (case_tac x; simp)

lemma as_mysql_scrub: "as_mysql (scrub e) = as_mysql e"
  unfolding as_mysql_def err_tree_scrub first_some_map
  by (rule first_some_cong) (case_tac x; simp)

lemma scrub_eq_EUncertain: "scrub e = EUncertain \<longleftrightarrow> e = EUncertain"
  by (cases e) simp_all

lemma is_uncertain_scrub: "is_uncertain (scrub e) = is_uncertain e"
  unfolding is_uncertain_def err_tree_scrub set_map
  by (metis (no_types, lifting) image_iff scrub.simps(4) scrub_eq_EUncertain)

lemma Classify_scrub: "Classify (scrub e) = Classify e"
  by (simp add: Classify_def as_failure_scrub as_mysql_scrub is_uncertain_scrub cong: option.case_cong)

lemma Classify_uncertain_not_transient:
  "as_failure e = None \<Longrightarrow> is_uncertain e \<Longrightarrow> fst (Classify e) \<noteq> Transient"
  by (auto simp: Classify_def Let_def split: option.splits)

text \<open>C33 (safety).  Classification never leaks a database text: the class and the message of
  an error do not depend on the text of any plain, wrapped or MySQL error in it, so only
  constant texts, the texts given to \<open>Fail\<close> and the MySQL error number can be reported.\<close>

theorem Classify_leaks_no_text:
  assumes "scrub e1 = scrub e2"
  shows "Classify e1 = Classify e2"
  using Classify_scrub [of e1] Classify_scrub [of e2] assms by simp

theorem Classify_leaks_no_text_witness:
  "Classify (EJoin [EUncertain, EMySQL 1213 ''row secret''])
     = (Policy_class, ''database operation failed (MySQL 1213)'') \<and>
   Classify (EJoin [EUncertain, EMySQL 1213 ''other'']) = Classify (EJoin [EUncertain, EMySQL 1213 ''row secret''])"
proof
  show "Classify (EJoin [EUncertain, EMySQL 1213 ''row secret''])
     = (Policy_class, ''database operation failed (MySQL 1213)'')" by code_simp
  show "Classify (EJoin [EUncertain, EMySQL 1213 ''other'']) = Classify (EJoin [EUncertain, EMySQL 1213 ''row secret''])"
    by (rule Classify_leaks_no_text) simp
qed

text \<open>The termination report always fits: for every report the runner builds
  (a result of \<open>ok\<close> or \<open>error\<close>, a class of the package or none, a policy hash that a checkpoint
  accepts, counters of their width, any message whatever) \<open>Write\<close> does not hit its 4 KiB
  limit, and what it writes ends in a line break.  The text of a duration is at most 32 bytes.\<close>

lemma Write_fits:
  assumes "Result r = ResultOK \<or> Result r = ResultError"
    and "rClass r = [] \<or> rClass r \<in> set known_classes"
    and "length (rPolicyHash r) \<le> 80"
    and "int64_range (TablesDone r)" "int64_range (TablesTotal r)"
        "int64_range (RowsDoneR r)" "int64_range (StepsDone r)"
    and "ff (DurationSeconds r) = Some d" "length d \<le> 32"
  shows "\<exists>data. Write ff r = Inr (data @ [CHR 0x0A]) \<and> length data + 1 \<le> 4096"
proof -
  define r' where "r' = r\<lparr>Message := report_message (Message r)\<rparr>"
  have "\<exists>data. marshal_report ff r' = Inr data \<and> length data \<le> 3881"
    by (rule marshal_report_length) (use assms in \<open>simp_all add: r'_def report_message_runes\<close>)
  then show ?thesis by (auto simp: Write_def Let_def r'_def)
qed

end
