(* ===== verification/Api_Types.thy ===== *)
theory Api_Types
  imports Go_Strings
begin

text \<open>
  The data of \<open>api/v1alpha1/strategies.go\<close> and \<open>api/v1alpha1/anonymizationpolicy_types.go\<close>.
  Optional pointers are options; the string types (\<open>Strategy\<close>, \<open>ValueHandling\<close>, \<open>TableAction\<close>)
  are strings, as in the source, with their constants as abbreviations.
\<close>

abbreviation (input) "StrategyDate \<equiv> ''date''"
abbreviation (input) "StrategyEmail \<equiv> ''email''"
abbreviation (input) "StrategyPhone \<equiv> ''phone''"
abbreviation (input) "StrategyAddress \<equiv> ''address''"
abbreviation (input) "StrategyVATID \<equiv> ''vatId''"
abbreviation (input) "StrategyIBAN \<equiv> ''iban''"
abbreviation (input) "StrategyIPv4Public \<equiv> ''ipv4Public''"
abbreviation (input) "StrategyUUID \<equiv> ''uuid''"
abbreviation (input) "StrategyAlphanumeric \<equiv> ''alphanumeric''"
abbreviation (input) "StrategyDigits \<equiv> ''digits''"
abbreviation (input) "StrategyNumber \<equiv> ''number''"
abbreviation (input) "StrategyText \<equiv> ''text''"
abbreviation (input) "StrategyConstant \<equiv> ''constant''"
abbreviation (input) "StrategyHash \<equiv> ''hash''"
abbreviation (input) "StrategyMask \<equiv> ''mask''"
abbreviation (input) "StrategyNull \<equiv> ''null''"
abbreviation (input) "ValueHandlingKeep \<equiv> ''Keep''"
abbreviation (input) "ValueHandlingGenerate \<equiv> ''Generate''"
abbreviation (input) "TableActionAnonymize \<equiv> ''Anonymize''"
abbreviation (input) "TableActionTruncate \<equiv> ''Truncate''"

text \<open>A reference to a key of a Secret or ConfigMap: its name and its key.\<close>

record KeySelector =
  sel_Name :: string
  sel_Key :: string
  sel_Optional :: "bool option"

record StrategyParams =
  Locale :: string
  Domain :: string
  ASCII :: "bool option"
  Digits :: "int option"
  From :: string
  To :: string
  Format :: string
  Country :: string
  Length :: "int option"
  Case :: string
  UniqueP :: bool
  Min :: "int option"
  Max :: "int option"
  MaxLength :: "int option"
  Sentences :: "int option"
  ValueP :: "string option"
  ValueFrom :: "KeySelector option"
  Encoding :: string
  KeepPrefix :: "int option"
  KeepSuffix :: "int option"
  MaskChar :: string

record ColumnRule =
  cr_Name :: string
  cr_Strategy :: string
  cr_Params :: "StrategyParams option"
  cr_Consistent :: "bool option"
  cr_OnNull :: string
  cr_OnEmpty :: string

record PolicyDefaults =
  pd_PageSize :: int
  pd_OnNull :: string
  pd_OnEmpty :: string
  pd_Locale :: string
  pd_EmailDomain :: string

record TablePolicy =
  tp_Name :: string
  tp_Action :: string
  tp_Optional :: bool
  tp_PrimaryKey :: "string list"
  tp_Ignore :: "string option"
  tp_Columns :: "ColumnRule list"
  tp_PageSize :: "int option"

record SQLStep =
  st_Name :: string
  st_ConfigMapKeyRef :: "KeySelector option"
  st_SecretKeyRef :: "KeySelector option"
  st_ContinueOnError :: bool

record DatabasePolicy =
  dp_Name :: string
  dp_NamePattern :: string
  dp_Optional :: bool
  dp_Pre :: "string list"
  dp_Post :: "string list"
  dp_Tables :: "TablePolicy list"

record PolicySpec =
  ps_Mode :: string
  ps_SeedSecretRef :: "KeySelector option"
  ps_Defaults :: "PolicyDefaults option"
  ps_Steps :: "SQLStep list"
  ps_Databases :: "DatabasePolicy list"

definition no_params :: StrategyParams where
  "no_params = \<lparr>Locale = [], Domain = [], ASCII = None, Digits = None, From = [], To = [], Format = [],
     Country = [], Length = None, Case = [], UniqueP = False, Min = None, Max = None, MaxLength = None,
     Sentences = None, ValueP = None, ValueFrom = None, Encoding = [], KeepPrefix = None,
     KeepSuffix = None, MaskChar = []\<rparr>"

definition no_defaults :: PolicyDefaults where
  "no_defaults = \<lparr>pd_PageSize = 0, pd_OnNull = [], pd_OnEmpty = [], pd_Locale = [], pd_EmailDomain = []\<rparr>"

section \<open>Dates\<close>

text \<open>\<open>time.Parse(time.DateOnly, s)\<close>: the instant in nanoseconds since year 1, Go's zero time.\<close>

definition leap :: "nat \<Rightarrow> bool" where
  "leap y \<longleftrightarrow> y mod 4 = 0 \<and> (y mod 100 \<noteq> 0 \<or> y mod 400 = 0)"

definition month_days :: "nat \<Rightarrow> nat \<Rightarrow> nat" where
  "month_days y m = (if m = 2 then (if leap y then 29 else 28)
     else if m \<in> set [4, 6, 9, 11] then 30 else 31)"

definition days_before :: "int \<Rightarrow> int" where
  "days_before y = 365 * (y - 1) + (y - 1) div 4 - (y - 1) div 100 + (y - 1) div 400"

definition day_ns :: int where
  "day_ns = 86400000000000"

definition date_ns :: "nat \<Rightarrow> nat \<Rightarrow> nat \<Rightarrow> int" where
  "date_ns y m d =
     day_ns * (days_before (int y) + int (sum_list (map (month_days y) [1..<m])) + int d - 1)"

definition parse_date :: "string \<Rightarrow> int option" where
  "parse_date s =
     (if length s = 10 \<and> s ! 4 = CHR ''-'' \<and> s ! 7 = CHR ''-''
      then (case (parse_nat (take 4 s), parse_nat (take 2 (drop 5 s)), parse_nat (drop 8 s)) of
              (Some y, Some m, Some d) \<Rightarrow>
                if 1 \<le> m \<and> m \<le> 12 \<and> 1 \<le> d \<and> d \<le> month_days y m then Some (date_ns y m d) else None
            | _ \<Rightarrow> None)
      else None)"

text \<open>\<open>t.UTC().Truncate(24 * time.Hour)\<close>.\<close>

definition truncate_day :: "int \<Rightarrow> int" where
  "truncate_day t = t - t mod day_ns"

lemma truncate_day_le: "truncate_day t \<le> t" "t < truncate_day t + day_ns"
  by (simp_all add: truncate_day_def day_ns_def)

end
