(* ===== verification/Strategy.thy ===== *)
theory Strategy
  imports Report Checkpoint Api_Types
begin

text \<open>
  \<open>internal/runner/strategy\<close>: the registry of strategies (\<open>registry.go\<close>), the compilation of a
  column rule (\<open>params.go\<close>) and the generation of replacement values (\<open>generate.go\<close>).  A Go
  panic (a nil pointer, a slice out of range, a negative repeat count) is an error of its own,
  so that its absence can be stated.
\<close>

section \<open>Library parameters\<close>

text \<open>
  \<open>hmac\<close> is HMAC-SHA256; \<open>fake\<close> is a gofakeit method on a faker freshly seeded with 16 bytes,
  after the methods listed before it; \<open>fake_date\<close> is \<open>DateRange\<close>; \<open>intn\<close> and \<open>u32\<close> are the i-th
  draw of a PCG generator with that seed; \<open>nfc\<close> and \<open>to_lower\<close> are Unicode normalisation and
  lower-casing; the texts format floats and times; \<open>parse_addr\<close> is the address that
  \<open>mail.ParseAddress\<close> finds.
\<close>

record lib =
  hmac :: "string \<Rightarrow> string \<Rightarrow> string"
  fake :: "string \<Rightarrow> string list \<Rightarrow> string \<Rightarrow> string"
  fake_date :: "string \<Rightarrow> int \<Rightarrow> int \<Rightarrow> int"
  intn :: "string \<Rightarrow> nat \<Rightarrow> nat \<Rightarrow> nat"
  u32 :: "string \<Rightarrow> nat \<Rightarrow> nat"
  nfc :: "string \<Rightarrow> string"
  to_lower :: "string \<Rightarrow> string"
  float_text :: "nat \<Rightarrow> string"
  time_text :: "int \<Rightarrow> string"
  date_text :: "int \<Rightarrow> string"
  datetime_text :: "int \<Rightarrow> string"
  parse_addr :: "string \<Rightarrow> string option"

text \<open>What the strategies rely on: a digest has 32 bytes, draws are in range, a date has ten
  characters and a date with time nineteen, a UUID thirty-six, and an email has an \<open>@\<close>.\<close>

definition lib_ok :: "lib \<Rightarrow> bool" where
  "lib_ok L \<longleftrightarrow>
     (\<forall>k m. length (hmac L k m) = 32) \<and>
     (\<forall>s i n. 0 < n \<longrightarrow> intn L s i n < n) \<and>
     (\<forall>s i. u32 L s i < 2 ^ 32) \<and>
     (\<forall>t. length (date_text L t) = 10) \<and> (\<forall>t. length (datetime_text L t) = 19) \<and>
     (\<forall>s h. length (fake L s h ''UUID'') = 36) \<and> (\<forall>s h. CHR ''@'' \<in> set (fake L s h ''Email''))"

section \<open>Panics\<close>

definition panic :: "string \<Rightarrow> gerr" where
  "panic m = EFailure ''panic'' m"

definition is_panic :: "gerr + 'a \<Rightarrow> bool" where
  "is_panic r = (case r of Inl (EFailure c m) \<Rightarrow> c = ''panic'' | _ \<Rightarrow> False)"

definition deref :: "'a option \<Rightarrow> gerr + 'a" where
  "deref p = (case p of None \<Rightarrow> Inl (panic ''nil pointer'') | Some x \<Rightarrow> Inr x)"

definition slice_to :: "'a list \<Rightarrow> int \<Rightarrow> gerr + 'a list" where
  "slice_to xs n = (if n < 0 \<or> int (length xs) < n then Inl (panic ''slice bounds'') else Inr (take (nat n) xs))"

definition go_repeat :: "string \<Rightarrow> int \<Rightarrow> gerr + string" where
  "go_repeat s n = (if n < 0 then Inl (panic ''negative Repeat count'') else Inr (str_repeat s (nat n)))"

lemma deref_simps [simp]: "deref (Some x) = Inr x" "deref None = Inl (panic ''nil pointer'')"
  by (simp_all add: deref_def)

lemma deref_eq_Inr [result_simps]: "deref p = Inr x \<longleftrightarrow> p = Some x"
  by (simp add: deref_def split: option.splits)

lemma slice_to_eq_Inr [result_simps]: "slice_to xs n = Inr ys \<longleftrightarrow> 0 \<le> n \<and> n \<le> int (length xs) \<and> ys = take (nat n) xs"
  by (auto simp: slice_to_def)

lemma go_repeat_eq_Inr [result_simps]: "go_repeat s n = Inr r \<longleftrightarrow> 0 \<le> n \<and> r = str_repeat s (nat n)"
  by (auto simp: go_repeat_def)

section \<open>Registry\<close>

definition strategy_names :: "string list" where
  "strategy_names =
     [''firstName'', ''lastName'', ''fullName'', ''jobTitle'', ''email'', ''phone'', ''date'', ''address'',
      ''streetAddress'', ''streetSuffix'', ''city'', ''postalCode'', ''state'', ''country'', ''company'',
      ''companySuffix'', ''vatId'', ''iban'', ''ipv4Public'', ''url'', ''uuid'', ''alphanumeric'', ''digits'',
      ''number'', ''text'', ''constant'', ''hash'', ''mask'', ''null'']"

definition legacy :: "(string \<times> string) list" where
  "legacy =
     [(''first_name'', ''firstName''), (''last_name'', ''lastName''),
      (''name'', ''fullName''), (''job'', ''jobTitle''),
      (''ascii_email'', ''email''), (''email'', ''email''),
      (''phone_number'', ''phone''), (''date'', ''date''),
      (''address'', ''address''), (''street_address'', ''streetAddress''),
      (''street_suffix_long'', ''streetSuffix''), (''city'', ''city''),
      (''postalcode'', ''postalCode''), (''state'', ''state''),
      (''country'', ''country''), (''company'', ''company''),
      (''company_suffix'', ''companySuffix''), (''vat_id'', ''vatId''),
      (''ipv4_public'', ''ipv4Public''), (''url'', ''url''),
      (''uuid'', ''uuid''), (''uuid4'', ''uuid''),
      (''alphanumeric'', ''alphanumeric''), (''alphanumeric_upper_case'', ''alphanumeric''),
      (''random_number'', ''digits''), (''null'', ''null'')]"

definition Names :: "string list" where
  "Names = sort strategy_names"

definition unknown :: "string \<Rightarrow> gerr" where
  "unknown name = EPlain (''unknown strategy '' @ name @ ''; valid strategies: '' @ str_join Names '', '')"

definition ident_start :: "char \<Rightarrow> bool" where
  "ident_start c \<longleftrightarrow> is_lower_char c \<or> is_upper_char c \<or> c = CHR ''_''"

definition ident_part :: "char \<Rightarrow> bool" where
  "ident_part c \<longleftrightarrow> ident_start c \<or> is_digit_char c"

text \<open>The sub-matches of \<open>^([A-Za-z_][A-Za-z0-9_]*)(?:\(([0-9]+)\))?$\<close>; an absent argument is
  the empty string.\<close>

definition callPattern :: "string \<Rightarrow> (string \<times> string) option" where
  "callPattern s =
     (let name = takeWhile ident_part s; rest = dropWhile ident_part s in
      if name = [] \<or> \<not> ident_start (hd name) then None
      else if rest = [] then Some (name, [])
      else (let arg = butlast (tl rest) in
            if length rest \<ge> 3 \<and> hd rest = CHR ''('' \<and> last rest = CHR '')'' \<and> list_all is_digit_char arg
            then Some (name, arg) else None))"

definition Parse :: "string \<Rightarrow> gerr + (string \<times> StrategyParams)" where
  "Parse expression =
     (case callPattern expression of
        None \<Rightarrow> Inl (unknown expression)
      | Some (part1, part2) \<Rightarrow>
          (let name = (case map_of legacy part1 of Some resolved \<Rightarrow> resolved | None \<Rightarrow> part1) in
           if name \<notin> set strategy_names then Inl (unknown expression)
           else
             (let params = (if part1 = ''alphanumeric_upper_case'' then no_params\<lparr>Case := ''Upper''\<rparr> else no_params) in
              if part2 = [] then Inr (name, params)
              else if name \<noteq> StrategyAlphanumeric \<and> name \<noteq> StrategyDigits
              then Inl (EPlain ''strategy does not accept a positional length'')
              else (case parse_int64 part2 of
                      Some n \<Rightarrow>
                        if n \<ge> 2 ^ 31 \<or> n < 1 \<or> n > 4096
                        then Inl (EPlain ''strategy length must be between 1 and 4096'')
                        else Inr (name, params\<lparr>Length := Some n\<rparr>)
                    | None \<Rightarrow> Inl (EPlain ''strategy length must be between 1 and 4096'')))))"

definition consistentDefault :: "string \<Rightarrow> bool" where
  "consistentDefault name =
     (name \<notin> set [StrategyAlphanumeric, StrategyDigits, StrategyNumber, StrategyText, StrategyConstant,
        StrategyMask, StrategyNull])"

section \<open>Compilation\<close>

record Column =
  rule :: ColumnRule
  params :: StrategyParams
  consistent :: bool
  onNull :: string
  onEmpty :: string
  constantV :: "string option"

definition OutputLength :: "Column \<Rightarrow> gerr + int option" where
  "OutputLength c =
     (let s = cr_Strategy (rule c); p = params c in
      if s \<in> set [StrategyHash, StrategyDigits, StrategyAlphanumeric]
      then bindr (deref (Length p)) (\<lambda>n. Inr (Some n))
      else if s = StrategyPhone then bindr (deref (Digits p)) (\<lambda>n. Inr (Some n))
      else if s = StrategyDate then Inr (Some (if Format p = ''datetime'' then 19 else 10))
      else if s = StrategyUUID then Inr (Some 36)
      else if s = StrategyVATID then Inr (Some (int (length (Country p)) + 9))
      else if s = StrategyIBAN then Inr (Some 22)
      else Inr None)"

definition prepareLength :: "StrategyParams \<Rightarrow> gerr + StrategyParams" where
  "prepareLength p =
     (if Length p = None then Inl (EPlain ''strategy requires length'')
      else if Case p \<noteq> [] \<and> Case p \<noteq> ''Mixed'' \<and> Case p \<noteq> ''Upper'' \<and> Case p \<noteq> ''Lower''
      then Inl (EPlain ''case must be Mixed, Upper or Lower'')
      else Inr p)"

definition or_default :: "'a option \<Rightarrow> 'a \<Rightarrow> 'a" where
  "or_default x d = (case x of Some y \<Rightarrow> y | None \<Rightarrow> d)"

definition preparePhone :: "StrategyParams \<Rightarrow> gerr + StrategyParams" where
  "preparePhone p =
     (let n = or_default (Digits p) 15 in
      if n < 1 \<or> n > 15 then Inl (EPlain ''phone digits must be between 1 and 15'')
      else Inr (p\<lparr>Digits := Some n\<rparr>))"

definition prepareEmail :: "lib \<Rightarrow> StrategyParams \<Rightarrow> gerr + StrategyParams" where
  "prepareEmail L p =
     (if Domain p = [] then Inr p
      else if (ASCII p = None \<or> ASCII p = Some True) \<and> (\<exists>r \<in> set (str_runes (Domain p)). r > 127)
      then Inl (EPlain ''ASCII email requires an ASCII domain'')
      else if parse_addr L (''anonymous@'' @ Domain p) \<noteq> Some (''anonymous@'' @ Domain p) \<or>
        (\<exists>ch \<in> set (Domain p). ch \<in> set [CHR 0x0D, CHR 0x0A, CHR '' '', CHR ''/'', CHR ''@''])
      then Inl (EPlain ''email domain is invalid'')
      else Inr p)"

definition prepareDate :: "StrategyParams \<Rightarrow> gerr + StrategyParams" where
  "prepareDate p =
     (let p = (if From p = [] then p\<lparr>From := ''1950-01-01''\<rparr> else p) in
      case parse_date (From p) of
        None \<Rightarrow> Inl (EPlain ''date from must use YYYY-MM-DD'')
      | Some from \<Rightarrow>
          if To p \<noteq> [] \<and> (case parse_date (To p) of None \<Rightarrow> True | Some to \<Rightarrow> to < from)
          then Inl (EPlain ''date to must use YYYY-MM-DD and not precede from'')
          else if Format p \<noteq> [] \<and> Format p \<noteq> ''date'' \<and> Format p \<noteq> ''datetime''
          then Inl (EPlain ''date format must be date or datetime'')
          else Inr p)"

definition prepareCountry :: "StrategyParams \<Rightarrow> gerr + StrategyParams" where
  "prepareCountry p =
     (let p = (if Country p = [] then p\<lparr>Country := ''DE''\<rparr> else p) in
      if Country p \<noteq> ''DE'' then Inl (EPlain ''vatId and iban currently support country DE'') else Inr p)"

definition prepareNumber :: "StrategyParams \<Rightarrow> gerr + StrategyParams" where
  "prepareNumber p =
     (let lo = or_default (Min p) 0; hi = or_default (Max p) 100 in
      if lo > hi then Inl (EPlain ''number min must not exceed max'')
      else Inr (p\<lparr>Min := Some lo, Max := Some hi\<rparr>))"

definition prepareText :: "StrategyParams \<Rightarrow> gerr + StrategyParams" where
  "prepareText p =
     (let n = or_default (MaxLength p) 255; k = or_default (Sentences p) 1 in
      if n < 1 \<or> n > 4096 \<or> k < 1 \<or> k > 100
      then Inl (EPlain ''text maxLength must be 1..4096 and sentences 1..100'')
      else Inr (p\<lparr>MaxLength := Some n, Sentences := Some k\<rparr>))"

definition prepareConstant :: "string option \<Rightarrow> StrategyParams \<Rightarrow> gerr + string option" where
  "prepareConstant resolved p =
     (if (ValueP p = None) = (ValueFrom p = None)
      then Inl (EPlain ''constant requires exactly one value or valueFrom'')
      else if (case ValueFrom p of None \<Rightarrow> False | Some f \<Rightarrow> sel_Name f = [] \<or> sel_Key f = [])
      then Inl (EPlain ''constant valueFrom requires Secret name and key'')
      else Inr (case ValueP p of Some v \<Rightarrow> Some v | None \<Rightarrow> resolved))"

definition prepareHash :: "StrategyParams \<Rightarrow> gerr + StrategyParams" where
  "prepareHash p =
     (let p = (if Encoding p = [] then p\<lparr>Encoding := ''hex''\<rparr> else p) in
      if Encoding p \<noteq> ''base64'' \<and> Encoding p \<noteq> ''hex''
      then Inl (EPlain ''hash encoding must be hex or base64'')
      else (let limit = (if Encoding p = ''base64'' then 44 else 64); n = or_default (Length p) limit in
            if n > limit then Inl (EPlain ''hash length exceeds output length'')
            else Inr (p\<lparr>Length := Some n\<rparr>)))"

definition prepareMask :: "StrategyParams \<Rightarrow> gerr + StrategyParams" where
  "prepareMask p =
     (let a = or_default (KeepPrefix p) 0; b = or_default (KeepSuffix p) 0;
          m = (if MaskChar p = [] then ''*'' else MaskChar p) in
      if a < 0 \<or> b < 0 \<or> a > 4096 \<or> b > 4096
      then Inl (EPlain ''mask prefix and suffix must be between 0 and 4096'')
      else if \<not> valid_utf8 m \<or> rune_count m \<noteq> 1
      then Inl (EPlain ''maskChar must be one Unicode character'')
      else Inr (p\<lparr>KeepPrefix := Some a, KeepSuffix := Some b, MaskChar := m\<rparr>))"

definition prepareParams :: "lib \<Rightarrow> string option \<Rightarrow> Column \<Rightarrow> gerr + Column" where
  "prepareParams L resolved c =
     (let s = cr_Strategy (rule c); p = params c;
          upd = (\<lambda>r. bindr r (\<lambda>p'. Inr (c\<lparr>params := p'\<rparr>))) in
      if s = StrategyAlphanumeric \<or> s = StrategyDigits then upd (prepareLength p)
      else if s = StrategyPhone then upd (preparePhone p)
      else if s = StrategyEmail then upd (prepareEmail L p)
      else if s = StrategyDate then upd (prepareDate p)
      else if s = StrategyVATID \<or> s = StrategyIBAN then upd (prepareCountry p)
      else if s = StrategyNumber then upd (prepareNumber p)
      else if s = StrategyText then upd (prepareText p)
      else if s = StrategyConstant
      then bindr (prepareConstant resolved p) (\<lambda>k. Inr (c\<lparr>constantV := (case k of None \<Rightarrow> constantV c | Some v \<Rightarrow> Some v)\<rparr>))
      else if s = StrategyHash then upd (prepareHash p)
      else if s = StrategyMask then upd (prepareMask p)
      else Inr c)"

definition english_only :: "string list" where
  "english_only =
     [''firstName'', ''lastName'', ''fullName'', ''jobTitle'', ''address'', ''streetAddress'', ''streetSuffix'',
      ''city'', ''postalCode'', ''state'', ''country'']"

definition first_nonempty :: "string \<Rightarrow> string \<Rightarrow> string" where
  "first_nonempty a b = (if a = [] then b else a)"

definition Compile :: "lib \<Rightarrow> ColumnRule \<Rightarrow> PolicyDefaults \<Rightarrow> string option \<Rightarrow> gerr + Column" where
  "Compile L r defaults resolved =
     (let s = cr_Strategy r in
      if s \<notin> set strategy_names then Inl (unknown s)
      else if cr_Consistent r \<noteq> None \<and> s \<in> set [StrategyNull, StrategyMask, StrategyConstant]
      then Inl (EPlain ''strategy does not accept consistent'')
      else
        (let p0 = (case cr_Params r of Some p \<Rightarrow> p | None \<Rightarrow> no_params);
             c = \<lparr>rule = r, params = p0,
                  consistent = (case cr_Consistent r of Some b \<Rightarrow> b | None \<Rightarrow> consistentDefault s),
                  onNull = first_nonempty (cr_OnNull r) (pd_OnNull defaults),
                  onEmpty = first_nonempty (cr_OnEmpty r) (pd_OnEmpty defaults), constantV = None\<rparr> in
         bindr (each (\<lambda>h. guardr (h \<in> set [[], ValueHandlingKeep, ValueHandlingGenerate])
             (EPlain ''value handling must be Keep or Generate'')) [onNull c, onEmpty c]) (\<lambda>_.
         (let locale' = first_nonempty (first_nonempty (Locale p0) (pd_Locale defaults)) ''en'';
              p = p0\<lparr>Locale := locale', Domain := first_nonempty (Domain p0) (pd_EmailDomain defaults)\<rparr> in
          if s \<in> set english_only \<and> locale' \<noteq> ''en'' then Inl (EPlain ''this strategy supports locale en'')
          else if (case Length p of None \<Rightarrow> False | Some n \<Rightarrow> n < 1 \<or> n > 4096)
          then Inl (EPlain ''length must be between 1 and 4096'')
          else prepareParams L resolved (c\<lparr>params := p\<rparr>)))))"

definition Validate_rule :: "lib \<Rightarrow> ColumnRule \<Rightarrow> PolicyDefaults \<Rightarrow> gerr + unit" where
  "Validate_rule L r defaults = bindr (Compile L r defaults None) (\<lambda>_. Inr ())"

section \<open>Generation\<close>

record GRow =
  g_Database :: string
  g_Table :: string
  g_PrimaryKey :: string
  g_Column :: string

record Generator =
  g_key :: string
  g_today :: int

definition policyHashPattern :: "string \<Rightarrow> bool" where
  "policyHashPattern s \<longleftrightarrow> has_prefix s ''sha256:'' \<and> length s = 71 \<and> list_all is_hex_lower (drop 7 s)"

definition New :: "lib \<Rightarrow> string \<Rightarrow> string \<Rightarrow> int \<Rightarrow> gerr + Generator" where
  "New L seed policyHash today =
     (if length seed < 32 then Inl (EPlain ''determinism seed must contain at least 32 bytes'')
      else if \<not> policyHashPattern policyHash then Inl (EPlain ''policy hash must be a SHA-256 digest'')
      else if today = 0 then Inl (EPlain ''date reference time is required'')
      else Inr \<lparr>g_key = hmac L seed (''pxc-anonymizer/v1/'' @ policyHash), g_today = truncate_day today\<rparr>)"

text \<open>\<open>inputString\<close>; \<open>VOther\<close> carries what \<open>fmt.Sprint\<close> prints.\<close>

definition inputString :: "lib \<Rightarrow> anyval \<Rightarrow> string" where
  "inputString L v =
     (case v of
        VNil \<Rightarrow> [] | VBytes b \<Rightarrow> b | VString s \<Rightarrow> s | VTime t \<Rightarrow> time_text L t
      | VInt64 i \<Rightarrow> int_dec i | VUint64 i \<Rightarrow> int_dec i | VFloat64 f \<Rightarrow> float_text L f
      | VBool b \<Rightarrow> (if b then ''true'' else ''false'') | VOther s \<Rightarrow> s)"

definition be_val :: "string \<Rightarrow> nat" where
  "be_val h = foldl (\<lambda>n c. 256 * n + byte_of c) 0 h"

definition decimal :: "string \<Rightarrow> int \<Rightarrow> gerr + string" where
  "decimal h n =
     (let result = nat_dec (be_val h mod 10 ^ nat n)
      in bindr (go_repeat ''0'' (n - int (length result))) (\<lambda>z. Inr (z @ result)))"

text \<open>\<open>strings.TrimSpace\<close>: the string as its UTF-8 segments, without the white space at both ends.\<close>

function (sequential) segments :: "string \<Rightarrow> string list" where
  "segments [] = []"
| "segments (c # s) =
     (case decode_rune (map byte_of (c # s)) of
        None \<Rightarrow> [c] # segments s
      | Some (r, w) \<Rightarrow> (c # take (w - 1) s) # segments (drop (w - 1) s))"
  by pat_completeness auto
termination by (relation "measure length") auto

definition is_space :: "nat \<Rightarrow> bool" where
  "is_space r \<longleftrightarrow> r \<in> set [9, 10, 11, 12, 13, 32, 133, 160, 5760, 8232, 8233, 8239, 8287, 12288] \<or>
     (8192 \<le> r \<and> r \<le> 8202)"

definition space_segment :: "string \<Rightarrow> bool" where
  "space_segment s = (case decode_rune (map byte_of s) of Some (r, _) \<Rightarrow> is_space r | None \<Rightarrow> False)"

definition TrimSpace :: "string \<Rightarrow> string" where
  "TrimSpace s =
     concat (rev (dropWhile space_segment (rev (dropWhile space_segment (segments s)))))"

definition json_strings :: "string list \<Rightarrow> string" where
  "json_strings xs = ''['' @ str_join (map json_string xs) '','' @ '']''"

definition valueHash :: "lib \<Rightarrow> Generator \<Rightarrow> Column \<Rightarrow> string \<Rightarrow> GRow \<Rightarrow> nat \<Rightarrow> gerr + string" where
  "valueHash L g c value row retry =
     bindr
       (if consistent c then
          (let v = nfc L (TrimSpace value);
               v' = (if cr_Strategy (rule c) = StrategyEmail then to_lower L v else v)
           in Inr (cr_Strategy (rule c) @ [CHR 0x1F] @ v'))
        else if g_Database row = [] \<or> g_Table row = [] \<or> g_PrimaryKey row = [] \<or> g_Column row = []
        then Inl (EPlain ''non-consistent generation requires database, table, primary key and column'')
        else Inr (json_strings [g_Database row, g_Table row, g_PrimaryKey row, g_Column row]))
       (\<lambda>payload.
          (let h = hmac L (g_key g) payload in
           Inr (if retry > 0
                then hmac L (g_key g) (''pxc-anonymizer/unique-retry/'' @ h @ [chr retry])
                else h)))"

definition fakerStrategies :: "(string \<times> string) list" where
  "fakerStrategies =
     [(''firstName'', ''FirstName''), (''lastName'', ''LastName''), (''fullName'', ''Name''),
      (''jobTitle'', ''JobTitle''), (''streetAddress'', ''Street''), (''streetSuffix'', ''StreetSuffix''),
      (''city'', ''City''), (''postalCode'', ''Zip''), (''state'', ''State''), (''country'', ''Country''),
      (''company'', ''Company''), (''companySuffix'', ''CompanySuffix''), (''url'', ''URL''), (''uuid'', ''UUID'')]"

definition split_at :: "string \<Rightarrow> string \<times> string option" where
  "split_at s = (takeWhile (\<lambda>c. c \<noteq> CHR ''@'') s,
     (case dropWhile (\<lambda>c. c \<noteq> CHR ''@'') s of [] \<Rightarrow> None | _ # d \<Rightarrow> Some d))"

definition email_keep :: "nat \<Rightarrow> bool" where
  "email_keep r \<longleftrightarrow> (97 \<le> r \<and> r \<le> 122) \<or> (65 \<le> r \<and> r \<le> 90) \<or> (48 \<le> r \<and> r \<le> 57) \<or> r \<in> set [46, 45, 95]"

definition email_local :: "string \<Rightarrow> string" where
  "email_local s =
     (let l = map (\<lambda>r. lower_char (chr r)) (filter email_keep (str_runes s));
          l' = trim_chars l ''.''
      in if l' = [] then ''anonymous'' else l')"

definition gen_email :: "lib \<Rightarrow> string \<Rightarrow> StrategyParams \<Rightarrow> string \<Rightarrow> gerr + string" where
  "gen_email L seed p h =
     (let (part0, part1) = split_at (fake L seed [] ''Email'') in
      bindr (if Domain p = [] then deref part1 else Inr (Domain p)) (\<lambda>domain.
        (let local = email_local part0
         in Inr (take (min (length local) 51) local @ ''-'' @ hex_encode (take 6 (drop 16 h)) @ ''@'' @ domain))))"

definition gen_date :: "lib \<Rightarrow> Generator \<Rightarrow> string \<Rightarrow> StrategyParams \<Rightarrow> gerr + string" where
  "gen_date L g seed p =
     (let from = or_default (parse_date (From p)) 0;
          to = (if To p = [] then g_today g else or_default (parse_date (To p)) 0) in
      if to < from then Inl (EPlain ''date range ends before it starts'')
      else (let d = fake_date L seed from to in
            Inr (if Format p = ''datetime'' then datetime_text L d else date_text L d)))"

definition pad2 :: "nat \<Rightarrow> string" where
  "pad2 n = (if n < 10 then ''0'' @ nat_dec n else nat_dec n)"

definition gen_iban :: "string \<Rightarrow> gerr + string" where
  "gen_iban h =
     bindr (decimal h 18) (\<lambda>bban.
       (let check = 98 - digits_val (bban @ ''131400'') mod 97
        in Inr (''DE'' @ pad2 check @ bban)))"

definition reservedIPv4 :: "(nat \<times> nat \<times> nat \<times> nat \<times> nat) list" where
  "reservedIPv4 =
     [(0, 0, 0, 0, 8), (10, 0, 0, 0, 8), (100, 64, 0, 0, 10), (127, 0, 0, 0, 8), (169, 254, 0, 0, 16),
      (172, 16, 0, 0, 12), (192, 0, 0, 0, 24), (192, 0, 2, 0, 24), (192, 88, 99, 0, 24),
      (192, 168, 0, 0, 16), (198, 18, 0, 0, 15), (198, 51, 100, 0, 24), (203, 0, 113, 0, 24),
      (224, 0, 0, 0, 4), (240, 0, 0, 0, 4)]"

definition prefix_contains :: "nat \<times> nat \<times> nat \<times> nat \<times> nat \<Rightarrow> nat \<Rightarrow> bool" where
  "prefix_contains p a =
     (case p of (b3, b2, b1, b0, len) \<Rightarrow>
        a div 2 ^ (32 - len) = (b3 * 2 ^ 24 + b2 * 2 ^ 16 + b1 * 2 ^ 8 + b0) div 2 ^ (32 - len))"

definition ip_text :: "nat \<Rightarrow> string" where
  "ip_text a = str_join (map nat_dec [a div 2 ^ 24 mod 256, a div 2 ^ 16 mod 256, a div 2 ^ 8 mod 256, a mod 256]) ''.''"

fun publicIPv4_loop :: "(nat \<Rightarrow> nat) \<Rightarrow> nat list \<Rightarrow> gerr + nat" where
  "publicIPv4_loop draw [] = Inl (EPlain ''public IPv4 generation exhausted its bound'')"
| "publicIPv4_loop draw (i # is) =
     (if list_ex (\<lambda>p. prefix_contains p (draw i)) reservedIPv4 then publicIPv4_loop draw is else Inr (draw i))"

definition publicIPv4 :: "(nat \<Rightarrow> nat) \<Rightarrow> gerr + string" where
  "publicIPv4 draw = bindr (publicIPv4_loop draw [0..<128]) (\<lambda>a. Inr (ip_text a))"

definition alphabet_of :: "string \<Rightarrow> string" where
  "alphabet_of cs =
     (if cs = ''Upper'' then ''ABCDEFGHIJKLMNOPQRSTUVWXYZ0123456789''
      else if cs = ''Lower'' then ''abcdefghijklmnopqrstuvwxyz0123456789''
      else ''abcdefghijklmnopqrstuvwxyzABCDEFGHIJKLMNOPQRSTUVWXYZ0123456789'')"

definition gen_number :: "string \<Rightarrow> int \<Rightarrow> int \<Rightarrow> int" where
  "gen_number h lo hi = wrap64 (int (be_val h) mod (hi - lo + 1) + lo)"

definition draws :: "int \<Rightarrow> gerr + nat list" where
  "draws n = (if n < 0 then Inl (panic ''makeslice: len out of range'') else Inr [0..<nat n])"

definition gen_alphanumeric :: "lib \<Rightarrow> string \<Rightarrow> StrategyParams \<Rightarrow> gerr + string" where
  "gen_alphanumeric L seed p =
     (let al = alphabet_of (Case p) in
      bindr (deref (Length p)) (\<lambda>n. bindr (draws n) (\<lambda>is.
        Inr (map (\<lambda>i. al ! intn L seed i (length al)) is))))"

definition gen_text :: "lib \<Rightarrow> string \<Rightarrow> StrategyParams \<Rightarrow> gerr + string" where
  "gen_text L seed p =
     bindr (deref (Sentences p)) (\<lambda>k. bindr (draws k) (\<lambda>is.
     bindr (deref (MaxLength p)) (\<lambda>m.
       (let rs = str_runes (str_join (map (\<lambda>i. fake L seed (replicate i ''Sentence'') ''Sentence'') is) '' '')
        in bindr (slice_to rs (min (int (length rs)) m)) (\<lambda>t. Inr (rune_str t))))))"

definition gen_hash :: "StrategyParams \<Rightarrow> string \<Rightarrow> gerr + string" where
  "gen_hash p h =
     (let result = (if Encoding p = ''base64'' then b64_encode h else hex_encode h) in
      bindr (deref (Length p)) (\<lambda>n. slice_to result n))"

definition text_val :: "gerr + string \<Rightarrow> gerr + anyval" where
  "text_val r = bindr r (\<lambda>s. Inr (VString s))"

definition generate :: "lib \<Rightarrow> Generator \<Rightarrow> StrategyParams \<Rightarrow> string \<Rightarrow> string \<Rightarrow> gerr + anyval" where
  "generate L g p name h =
     (let seed = take 16 h in
      case map_of fakerStrategies name of
        Some method \<Rightarrow> Inr (VString (fake L seed [] method))
      | None \<Rightarrow>
          if name = StrategyEmail then text_val (gen_email L seed p h)
          else if name = StrategyPhone then text_val (bindr (deref (Digits p)) (\<lambda>n. decimal h n))
          else if name = StrategyDate then text_val (gen_date L g seed p)
          else if name = StrategyAddress
          then Inr (VString (fake L seed [] ''Street'' @ '', '' @ fake L seed [''Street''] ''City'' @ '', '' @
                 fake L seed [''Street'', ''City''] ''State'' @ '' '' @ fake L seed [''Street'', ''City'', ''State''] ''Zip''))
          else if name = StrategyVATID
          then text_val (bindr (decimal h 9) (\<lambda>d. Inr (Country p @ d)))
          else if name = StrategyIBAN then text_val (gen_iban h)
          else if name = StrategyIPv4Public then text_val (publicIPv4 (u32 L seed))
          else if name = StrategyAlphanumeric then text_val (gen_alphanumeric L seed p)
          else if name = StrategyDigits then text_val (bindr (deref (Length p)) (\<lambda>n. decimal h n))
          else if name = StrategyNumber
          then bindr (deref (Min p)) (\<lambda>lo. bindr (deref (Max p)) (\<lambda>hi. Inr (VInt64 (gen_number h lo hi))))
          else if name = StrategyText then text_val (gen_text L seed p)
          else if name = StrategyHash then text_val (gen_hash p h)
          else Inl (unknown name))"

definition gen_mask :: "StrategyParams \<Rightarrow> string \<Rightarrow> gerr + string" where
  "gen_mask p value =
     (let rs = str_runes value; n = int (length rs) in
      bindr (deref (KeepPrefix p)) (\<lambda>kp. bindr (deref (KeepSuffix p)) (\<lambda>ks.
        (let prefix = min kp n; suffix = min ks n in
         if prefix + suffix \<ge> n then Inr value
         else bindr (slice_to rs prefix) (\<lambda>head.
              bindr (go_repeat (MaskChar p) (n - prefix - suffix)) (\<lambda>stars.
              bindr (slice_to (rev rs) suffix) (\<lambda>tail.
                Inr (rune_str head @ stars @ rune_str (rev tail)))))))))"

definition Generate ::
  "lib \<Rightarrow> Generator \<Rightarrow> Column \<Rightarrow> anyval \<Rightarrow> GRow \<Rightarrow> nat \<Rightarrow> gerr + anyval" where
  "Generate L g c input row retry =
     (if retry \<ge> 8 then Inl (EPlain ''UNIQUE retry counter exceeds eight attempts'')
      else if input = VNil \<and> onNull c \<noteq> ValueHandlingGenerate then Inr VNil
      else
        (let value = inputString L input; name = cr_Strategy (rule c); p = params c in
         if input \<noteq> VNil \<and> value = [] \<and> onEmpty c \<noteq> ValueHandlingGenerate then Inr (VString [])
         else if name = StrategyNull then Inr VNil
         else if name = StrategyConstant then
           (case constantV c of
              None \<Rightarrow> Inl (EPlain ''constant Secret value has not been resolved from its projected file'')
            | Some v \<Rightarrow> Inr (VString v))
         else if name = StrategyMask then text_val (gen_mask p value)
         else bindr (valueHash L g c value row retry) (\<lambda>h. generate L g p name h)))"

section \<open>Facts on the generators\<close>

lemma be_val_less: "be_val h < 256 ^ length h"
proof (induction h rule: rev_induct)
  case (snoc c h)
  have "be_val (h @ [c]) = 256 * be_val h + byte_of c" by (simp add: be_val_def)
  also have "\<dots> < 256 * (be_val h + 1)" by simp
  also have "\<dots> \<le> 256 ^ length (h @ [c])" using snoc by simp
  finally show ?case .
qed (simp add: be_val_def)

lemma length_str_repeat [simp]: "length (str_repeat s n) = n * length s"
  by (induction n) (simp_all add: str_repeat_def)

lemma decimal_ok:
  assumes "0 < n"
  shows "\<exists>s. decimal h n = Inr s \<and> int (length s) = n \<and> (\<forall>c \<in> set s. is_digit_char c) \<and>
    digits_val s = be_val h mod 10 ^ nat n"
proof -
  define r where "r = nat_dec (be_val h mod 10 ^ nat n)"
  have len: "length r \<le> nat n" unfolding r_def by (rule nat_dec_length_le) (use assms in simp_all)
  define z where "z = str_repeat ''0'' (nat (n - int (length r)))"
  have d: "decimal h n = Inr (z @ r)"
    using len assms by (simp add: decimal_def r_def [symmetric] z_def go_repeat_def)
  have zz: "z = replicate (nat (n - int (length r))) (CHR ''0'')"
    unfolding z_def str_repeat_def by (induction "nat (n - int (length r))") auto
  have "int (length (z @ r)) = n" using len assms by (simp add: zz nat_diff_distrib)
  moreover have "\<forall>c \<in> set (z @ r). is_digit_char c"
    using nat_dec_digits by (auto simp: zz r_def is_digit_char_def byte_of_def)
  moreover have "digits_val (replicate k (CHR ''0'') @ r) = digits_val r" for k
    by (induction k) (simp_all add: digits_val_def byte_of_def)
  then have "digits_val (z @ r) = be_val h mod 10 ^ nat n" by (simp add: zz r_def)
  ultimately show ?thesis using d by blast
qed

lemma digits_val_append_gen: "digits_val (s @ t) = digits_val s * 10 ^ length t + digits_val t"
  by (induction t rule: rev_induct) (simp_all add: digits_val_def algebra_simps flip: append_assoc)

lemma b64_enc_length: "length (b64_enc bs) = (length bs + 2) div 3 * 4"
proof (induction bs rule: b64_enc.induct)
  case (4 a b c r)
  have "(5 + length r) div 3 = 1 + Suc (Suc (length r)) div 3" by presburger
  then show ?case using 4 by simp
qed simp_all

lemma b64_encode_length [simp]: "length (b64_encode s) = (length s + 2) div 3 * 4"
  by (simp add: b64_encode_def b64_enc_length)

end
