(* ===== verification/Strategy_Safety.thy ===== *)
theory Strategy_Safety
  imports Strategy
begin

text \<open>
  What a compiled column guarantees and what the generated values satisfy: no panic, exact
  output lengths, valid IBAN check digits, addresses outside the reserved ranges, numbers in
  range, masks, and which inputs a value can depend on.
\<close>

section \<open>Compiled columns\<close>

definition column_ok :: "Column \<Rightarrow> bool" where
  "column_ok c \<longleftrightarrow>
     (let s = cr_Strategy (rule c); p = params c in
      s \<in> set strategy_names \<and>
      (s \<in> set [StrategyAlphanumeric, StrategyDigits] \<longrightarrow> (\<exists>n. Length p = Some n \<and> 1 \<le> n \<and> n \<le> 4096)) \<and>
      (s = StrategyPhone \<longrightarrow> (\<exists>n. Digits p = Some n \<and> 1 \<le> n \<and> n \<le> 15)) \<and>
      (s = StrategyDate \<longrightarrow> (\<exists>t. parse_date (From p) = Some t \<and>
         (To p \<noteq> [] \<longrightarrow> (\<exists>u. parse_date (To p) = Some u \<and> t \<le> u)))) \<and>
      (s \<in> set [StrategyVATID, StrategyIBAN] \<longrightarrow> Country p = ''DE'') \<and>
      (s = StrategyNumber \<longrightarrow> (\<exists>lo hi. Min p = Some lo \<and> Max p = Some hi \<and> lo \<le> hi)) \<and>
      (s = StrategyText \<longrightarrow> (\<exists>n k. MaxLength p = Some n \<and> Sentences p = Some k \<and> 1 \<le> n \<and> n \<le> 4096 \<and> 1 \<le> k)) \<and>
      (s = StrategyHash \<longrightarrow> (\<exists>n. Length p = Some n \<and> 1 \<le> n \<and>
         n \<le> (if Encoding p = ''base64'' then 44 else 64))) \<and>
      (s = StrategyMask \<longrightarrow> (\<exists>a b. KeepPrefix p = Some a \<and> KeepSuffix p = Some b \<and> 0 \<le> a \<and> 0 \<le> b \<and>
         valid_utf8 (MaskChar p) \<and> rune_count (MaskChar p) = 1)))"

lemmas prepare_defs = prepareLength_def preparePhone_def prepareEmail_def prepareDate_def prepareCountry_def
  prepareNumber_def prepareText_def prepareHash_def prepareMask_def or_default_def

lemma prepareParams_rule: "prepareParams L res c = Inr c' \<Longrightarrow> rule c' = rule c"
  by (auto simp: prepareParams_def Let_def bindr_eq_Inr split: if_splits)

lemma prepare_lemmas:
  "prepareLength p = Inr p' \<Longrightarrow> p' = p \<and> Length p \<noteq> None"
  "preparePhone p = Inr p' \<Longrightarrow> \<exists>n. Digits p' = Some n \<and> 1 \<le> n \<and> n \<le> 15"
  "prepareDate p = Inr p' \<Longrightarrow> \<exists>t. parse_date (From p') = Some t \<and>
     (To p' \<noteq> [] \<longrightarrow> (\<exists>u. parse_date (To p') = Some u \<and> t \<le> u))"
  "prepareCountry p = Inr p' \<Longrightarrow> Country p' = ''DE''"
  "prepareNumber p = Inr p' \<Longrightarrow> \<exists>lo hi. Min p' = Some lo \<and> Max p' = Some hi \<and> lo \<le> hi"
  "prepareText p = Inr p' \<Longrightarrow> \<exists>n k. MaxLength p' = Some n \<and> Sentences p' = Some k \<and> 1 \<le> n \<and> n \<le> 4096 \<and> 1 \<le> k"
  "prepareMask p = Inr p' \<Longrightarrow> \<exists>a b. KeepPrefix p' = Some a \<and> KeepSuffix p' = Some b \<and> 0 \<le> a \<and> 0 \<le> b \<and>
     valid_utf8 (MaskChar p') \<and> rune_count (MaskChar p') = 1"
  by (auto simp: prepare_defs Let_def split: if_splits option.splits)

lemma prepareHash_ok:
  "prepareHash p = Inr p' \<Longrightarrow> (\<forall>n. Length p = Some n \<longrightarrow> 1 \<le> n) \<Longrightarrow>
     \<exists>n. Length p' = Some n \<and> 1 \<le> n \<and> n \<le> (if Encoding p' = ''base64'' then 44 else 64)"
  by (auto simp: prepare_defs Let_def split: if_splits option.splits)

lemma prepareParams_ok:
  assumes "prepareParams L res c = Inr c'" "cr_Strategy (rule c) \<in> set strategy_names"
    and "\<forall>n. Length (params c) = Some n \<longrightarrow> 1 \<le> n \<and> n \<le> 4096"
  shows "column_ok c'"
proof -
  define s where "s = cr_Strategy (rule c)"
  have s: "cr_Strategy (rule c') = s" using prepareParams_rule [OF assms(1)] by (simp add: s_def)
  note P = assms(1) [unfolded prepareParams_def Let_def s_def [symmetric]]
  show ?thesis
    unfolding column_ok_def Let_def s
  proof (intro conjI impI)
    show "s \<in> set strategy_names" using assms(2) by (simp add: s_def)
  next
    assume "s \<in> set [StrategyAlphanumeric, StrategyDigits]"
    then show "\<exists>n. Length (params c') = Some n \<and> 1 \<le> n \<and> n \<le> 4096"
      using P assms(3) by (auto simp: bindr_eq_Inr dest!: prepare_lemmas(1))
  next
    assume "s = StrategyPhone"
    then show "\<exists>n. Digits (params c') = Some n \<and> 1 \<le> n \<and> n \<le> 15"
      using P prepare_lemmas(2) by (auto simp: bindr_eq_Inr)
  next
    assume "s = StrategyDate"
    then show "\<exists>t. parse_date (From (params c')) = Some t \<and>
         (To (params c') \<noteq> [] \<longrightarrow> (\<exists>u. parse_date (To (params c')) = Some u \<and> t \<le> u))"
      using P prepare_lemmas(3) by (auto simp: bindr_eq_Inr)
  next
    assume "s \<in> set [StrategyVATID, StrategyIBAN]"
    then show "Country (params c') = ''DE''" using P prepare_lemmas(4) by (auto simp: bindr_eq_Inr)
  next
    assume "s = StrategyNumber"
    then show "\<exists>lo hi. Min (params c') = Some lo \<and> Max (params c') = Some hi \<and> lo \<le> hi"
      using P prepare_lemmas(5) by (auto simp: bindr_eq_Inr)
  next
    assume "s = StrategyText"
    then show "\<exists>n k. MaxLength (params c') = Some n \<and> Sentences (params c') = Some k \<and> 1 \<le> n \<and> n \<le> 4096 \<and> 1 \<le> k"
      using P prepare_lemmas(6) by (auto simp: bindr_eq_Inr)
  next
    assume "s = StrategyHash"
    then obtain x where "prepareHash (params c) = Inr x" "params c' = x"
      using P by (auto simp: bindr_eq_Inr)
    then show "\<exists>n. Length (params c') = Some n \<and> 1 \<le> n \<and>
         n \<le> (if Encoding (params c') = ''base64'' then 44 else 64)"
      using prepareHash_ok [of "params c" x] assms(3) by blast
  next
    assume "s = StrategyMask"
    then show "\<exists>a b. KeepPrefix (params c') = Some a \<and> KeepSuffix (params c') = Some b \<and> 0 \<le> a \<and> 0 \<le> b \<and>
         valid_utf8 (MaskChar (params c')) \<and> rune_count (MaskChar (params c')) = 1"
      using P prepare_lemmas(7) by (auto simp: bindr_eq_Inr)
  qed
qed

lemma Compile_column_ok:
  assumes "Compile L r d res = Inr c"
  shows "column_ok c" "rule c = r"
proof -
  obtain c0 where c0: "prepareParams L res c0 = Inr c" "rule c0 = r" "cr_Strategy r \<in> set strategy_names"
      "\<forall>n. Length (params c0) = Some n \<longrightarrow> 1 \<le> n \<and> n \<le> 4096"
    using assms by (force simp: Compile_def Let_def bindr_eq_Inr split: if_splits option.splits)
  show "column_ok c" by (rule prepareParams_ok [OF c0(1)]) (use c0 in simp_all)
  show "rule c = r" using prepareParams_rule [OF c0(1)] c0(2) by simp
qed

section \<open>Generated values\<close>

lemma is_panic_simps [simp]:
  "\<not> is_panic (Inr x)" "\<not> is_panic (Inl (EPlain m))" "is_panic (Inl (panic m))"
  "is_panic (text_val r) = is_panic r" "\<not> is_panic (Inl (unknown m))"
  by (auto simp: is_panic_def panic_def text_val_def bindr_def unknown_def split: sum.splits)

lemma if_no_panic:
  "(b \<Longrightarrow> \<not> is_panic x) \<Longrightarrow> (\<not> b \<Longrightarrow> \<not> is_panic y) \<Longrightarrow> \<not> is_panic (if b then x else y)"
  by simp

lemma is_panic_bindr: "is_panic (bindr r f) \<longleftrightarrow> is_panic r \<or> (\<exists>x. r = Inr x \<and> is_panic (f x))"
  by (cases r) (auto simp: is_panic_def)

lemma lib_okD:
  assumes "lib_ok L"
  shows "length (hmac L k m) = 32" "0 < n \<Longrightarrow> intn L s i n < n" "u32 L s i < 2 ^ 32"
    "length (date_text L t) = 10" "length (datetime_text L t) = 19" "length (fake L s hs ''UUID'') = 36"
    "CHR ''@'' \<in> set (fake L s hs ''Email'')"
  using assms by (simp_all add: lib_ok_def)

lemma decimal_no_panic: "0 < n \<Longrightarrow> \<not> is_panic (decimal h n)"
  using decimal_ok [of n h] by auto

lemma publicIPv4_no_panic: "\<not> is_panic (publicIPv4 draw)"
proof -
  have "\<not> is_panic (publicIPv4_loop draw is)" for "is" by (induction "is") auto
  then show ?thesis by (simp add: publicIPv4_def is_panic_bindr)
qed

lemma gen_iban_no_panic: "\<not> is_panic (gen_iban h)"
  using decimal_no_panic [of 18 h] by (simp add: gen_iban_def is_panic_bindr Let_def)

lemma gen_email_no_panic: "lib_ok L \<Longrightarrow> \<not> is_panic (gen_email L seed p h)"
  using lib_okD(7) [of L seed "[]"] dropWhile_eq_Nil_conv [of "\<lambda>c. c \<noteq> CHR ''@''" "fake L seed [] ''Email''"]
  by (auto simp: gen_email_def is_panic_bindr Let_def split_at_def split: list.splits)

lemma gen_mask_no_panic:
  "KeepPrefix p = Some a \<Longrightarrow> KeepSuffix p = Some b \<Longrightarrow> 0 \<le> a \<Longrightarrow> 0 \<le> b \<Longrightarrow> \<not> is_panic (gen_mask p v)"
  by (auto simp: gen_mask_def Let_def is_panic_bindr slice_to_def go_repeat_def)

lemma valueHash_no_panic: "\<not> is_panic (valueHash L g c v row retry)"
  by (simp add: valueHash_def is_panic_bindr Let_def)

lemma valueHash_length: "lib_ok L \<Longrightarrow> valueHash L g c v row retry = Inr h \<Longrightarrow> length h = 32"
  using lib_okD(1) by (auto simp: valueHash_def bindr_eq_Inr Let_def)

lemma gen_alphanumeric_ok:
  "Length p = Some n \<Longrightarrow> 1 \<le> n \<Longrightarrow> \<exists>s. gen_alphanumeric L seed p = Inr s \<and> int (length s) = n"
  by (simp add: gen_alphanumeric_def draws_def Let_def)

lemma gen_hash_ok:
  assumes "Length p = Some n" "1 \<le> n" "n \<le> (if Encoding p = ''base64'' then 44 else 64)" "length h = 32"
  shows "\<exists>s. gen_hash p h = Inr s \<and> int (length s) = n"
  using assms by (auto simp: gen_hash_def slice_to_def Let_def)

lemma gen_text_ok:
  assumes "MaxLength p = Some n" "Sentences p = Some k" "1 \<le> n" "1 \<le> k"
  shows "\<exists>s. gen_text L seed p = Inr s \<and> int (rune_count s) \<le> n"
proof -
  have sc: "\<forall>r \<in> set (take m (str_runes t)). scalar r" for m t
    by (auto dest!: in_set_takeD intro: str_runes_scalar)
  show ?thesis using assms sc
    by (auto simp: gen_text_def draws_def slice_to_def Let_def rune_count_def)
qed

lemma gen_date_no_panic: "\<not> is_panic (gen_date L g seed p)"
  by (simp add: gen_date_def Let_def)

lemma generate_no_panic:
  assumes "lib_ok L" "column_ok c" "length h = 32"
  shows "\<not> is_panic (generate L g (params c) (cr_Strategy (rule c)) h)"
proof -
  define p seed s where "p = params c" "seed = take 16 h" "s = cr_Strategy (rule c)"
  note co = assms(2) [unfolded column_ok_def Let_def p_seed_s_def(1,3) [symmetric]]
  have f1: "s = StrategyPhone \<Longrightarrow> \<not> is_panic (bindr (deref (Digits p)) (\<lambda>n. decimal h n))"
    using co by (auto simp: decimal_no_panic)
  have f2: "s = StrategyDigits \<Longrightarrow> \<not> is_panic (bindr (deref (Length p)) (\<lambda>n. decimal h n))"
    using co by (auto simp: decimal_no_panic)
  have f3: "\<not> is_panic (bindr (decimal h 9) (\<lambda>d. Inr (Country p @ d)))"
    using decimal_no_panic [of 9 h] by (simp add: is_panic_bindr)
  have f4: "s = StrategyAlphanumeric \<Longrightarrow> \<not> is_panic (gen_alphanumeric L seed p)"
    using co gen_alphanumeric_ok [of p _ L seed] by force
  have f5: "s = StrategyNumber \<Longrightarrow>
      \<not> is_panic (bindr (deref (Min p)) (\<lambda>lo. bindr (deref (Max p)) (\<lambda>hi. Inr (VInt64 (gen_number h lo hi)))))"
    using co by auto
  have f6: "s = StrategyText \<Longrightarrow> \<not> is_panic (gen_text L seed p)"
    using co gen_text_ok [of p _ _ L seed] by force
  have f7: "s = StrategyHash \<Longrightarrow> \<not> is_panic (gen_hash p h)"
    using co gen_hash_ok [of p _ h] assms(3) by force
  note f = f1 f2 f3 f4 f5 f6 f7 gen_email_no_panic [OF assms(1), of seed p h] gen_iban_no_panic [of h]
      publicIPv4_no_panic [of "u32 L seed"] gen_date_no_panic [of L g seed p]
  show ?thesis
  proof (cases "map_of fakerStrategies s")
    case None
    then show ?thesis
      unfolding p_seed_s_def [symmetric] generate_def Let_def
      by (simp only: option.case, intro if_no_panic) (simp_all only: is_panic_simps f simp_thms)
  next
    case (Some m)
    then show ?thesis
      unfolding p_seed_s_def [symmetric] generate_def Let_def by (simp only: option.case is_panic_simps simp_thms)
  qed
qed

section \<open>Properties\<close>

definition sample_lib :: lib where
  "sample_lib = \<lparr>hmac = (\<lambda>k m. replicate 32 (chr (length m mod 256))), fake = (\<lambda>s h m. if m = ''UUID'' then replicate 36 (CHR ''0'') else ''Jane.Doe@example.org''),
     fake_date = (\<lambda>s a b. a), intn = (\<lambda>s i n. 0), u32 = (\<lambda>s i. 134744072), nfc = (\<lambda>s. s),
     to_lower = ascii_lower, float_text = nat_dec, time_text = int_dec,
     date_text = (\<lambda>t. ''2020-01-01''), datetime_text = (\<lambda>t. ''2020-01-01 00:00:00''),
     parse_addr = Some\<rparr>"

lemma sample_lib_ok: "lib_ok sample_lib"
  by (simp add: lib_ok_def sample_lib_def)

definition sample_rule :: "string \<Rightarrow> StrategyParams \<Rightarrow> ColumnRule" where
  "sample_rule s p = \<lparr>cr_Name = ''c'', cr_Strategy = s, cr_Params = Some p, cr_Consistent = None,
     cr_OnNull = [], cr_OnEmpty = []\<rparr>"

definition sample_row :: GRow where
  "sample_row = \<lparr>g_Database = ''shop'', g_Table = ''users'', g_PrimaryKey = ''[1]'', g_Column = ''c''\<rparr>"

definition sample_gen :: Generator where
  "sample_gen = \<lparr>g_key = replicate 32 (CHR ''k''), g_today = 63713433600000000000\<rparr>"

definition compiled :: "string \<Rightarrow> StrategyParams \<Rightarrow> Column" where
  "compiled s p = projr (Compile sample_lib (sample_rule s p) no_defaults None)"

lemma compiled_ok: "is_ok (Compile sample_lib (sample_rule s p) no_defaults None) \<Longrightarrow>
  Compile sample_lib (sample_rule s p) no_defaults None = Inr (compiled s p)"
  unfolding compiled_def by (rule Save_result)

text \<open>C29 (safety).  Generation never panics: for every column that \<open>Compile\<close> accepts, on every
  input value, row and retry, \<open>Generate\<close> returns a value or an ordinary error; no nil parameter
  is dereferenced, no slice or repeat count is out of range.\<close>

theorem Generate_never_panics:
  assumes "Compile L r d res = Inr c" "lib_ok L"
  shows "\<not> is_panic (Generate L g c input row retry)"
proof -
  have co: "column_ok c" by (rule Compile_column_ok [OF assms(1)])
  have "cr_Strategy (rule c) = StrategyMask \<Longrightarrow> \<not> is_panic (gen_mask (params c) v)" for v
    using co gen_mask_no_panic by (auto simp: column_ok_def Let_def)
  moreover have "\<not> is_panic (bindr (valueHash L g c v row retry)
      (\<lambda>h. generate L g (params c) (cr_Strategy (rule c)) h))" for v
    using valueHash_no_panic generate_no_panic [OF assms(2) co] valueHash_length [OF assms(2)]
    by (auto simp: is_panic_bindr)
  ultimately show ?thesis
    unfolding Generate_def Let_def by (intro if_no_panic) (simp_all split: option.splits)
qed

theorem Generate_never_panics_witness:
  "\<not> is_panic (Generate sample_lib sample_gen (compiled StrategyHash (no_params\<lparr>Length := Some 44, Encoding := ''base64''\<rparr>))
     (VString ''x'') sample_row 3)"
  by (rule Generate_never_panics [OF compiled_ok sample_lib_ok]) code_simp

definition kept_input :: "lib \<Rightarrow> Column \<Rightarrow> anyval \<Rightarrow> bool" where
  "kept_input L c input \<longleftrightarrow>
     (input = VNil \<and> onNull c \<noteq> ValueHandlingGenerate) \<or>
     (input \<noteq> VNil \<and> inputString L input = [] \<and> onEmpty c \<noteq> ValueHandlingGenerate)"

lemma Generate_fresh:
  assumes "Generate L g c input row retry = Inr v" "\<not> kept_input L c input"
    and "cr_Strategy (rule c) \<notin> {StrategyNull, StrategyConstant, StrategyMask}"
  obtains h where "valueHash L g c (inputString L input) row retry = Inr h"
    "generate L g (params c) (cr_Strategy (rule c)) h = Inr v"
  using assms by (auto simp: Generate_def kept_input_def Let_def bindr_eq_Inr split: if_splits)

lemma text_val_eq_Inr [result_simps]: "text_val r = Inr v \<longleftrightarrow> (\<exists>s. r = Inr s \<and> v = VString s)"
  by (auto simp: text_val_def bindr_eq_Inr)

lemma generate_simps:
  "generate L g p StrategyHash h = text_val (gen_hash p h)"
  "generate L g p StrategyDigits h = text_val (bindr (deref (Length p)) (\<lambda>n. decimal h n))"
  "generate L g p StrategyAlphanumeric h = text_val (gen_alphanumeric L (take 16 h) p)"
  "generate L g p StrategyPhone h = text_val (bindr (deref (Digits p)) (\<lambda>n. decimal h n))"
  "generate L g p StrategyDate h = text_val (gen_date L g (take 16 h) p)"
  "generate L g p StrategyUUID h = Inr (VString (fake L (take 16 h) [] ''UUID''))"
  "generate L g p StrategyVATID h = text_val (bindr (decimal h 9) (\<lambda>d. Inr (Country p @ d)))"
  "generate L g p StrategyIBAN h = text_val (gen_iban h)"
  "generate L g p StrategyIPv4Public h = text_val (publicIPv4 (u32 L (take 16 h)))"
  "generate L g p StrategyNumber h =
     bindr (deref (Min p)) (\<lambda>lo. bindr (deref (Max p)) (\<lambda>hi. Inr (VInt64 (gen_number h lo hi))))"
  by (simp_all add: generate_def fakerStrategies_def Let_def)

text \<open>An IBAN is valid when the number made of its account part, the letters of its country
  as digits and its check digits is 1 modulo 97.\<close>

definition iban_valid :: "string \<Rightarrow> bool" where
  "iban_valid s \<longleftrightarrow> length s = 22 \<and> take 2 s = ''DE'' \<and> list_all is_digit_char (drop 2 s) \<and>
     digits_val (drop 4 s @ ''1314'' @ take 2 (drop 2 s)) mod 97 = 1"

lemma pad2_ok: "n < 100 \<Longrightarrow> length (pad2 n) = 2 \<and> list_all is_digit_char (pad2 n) \<and> digits_val (pad2 n) = n"
proof -
  assume n: "n < 100"
  show ?thesis
  proof (cases "n < 10")
    case True
    then show ?thesis
      by (simp add: pad2_def nat_dec.simps [of n] digits_val_def is_digit_char_def) (simp add: byte_of_def)
  next
    case False
    then have "n div 10 < 10" using n by simp
    then show ?thesis using False
      by (simp add: pad2_def nat_dec.simps [of n] nat_dec.simps [of "n div 10"] digits_val_def)
  qed
qed

lemma gen_iban_valid: "\<exists>s. gen_iban h = Inr s \<and> iban_valid s"
proof -
  obtain b where b: "decimal h 18 = Inr b" "int (length b) = 18" "\<forall>c \<in> set b. is_digit_char c"
    using decimal_ok [of 18 h] by auto
  define v where "v = digits_val (b @ ''131400'')"
  define k where "k = 98 - v mod 97"
  have k: "k < 100" by (simp add: k_def)
  note pk = pad2_ok [OF k]
  have len: "length b = 18" using b(2) by simp
  have lits: "digits_val ''1314'' = 1314" "digits_val ''131400'' = 131400" by code_simp+
  have d: "digits_val (b @ (''1314'' @ pad2 k)) = v + k"
    unfolding v_def digits_val_append_gen lits using pk by simp
  have "v = 97 * (v div 97) + v mod 97" "v mod 97 < 97" by simp_all
  then have "v + k = 97 * (v div 97) + 98" unfolding k_def by linarith
  then have "(v + k) mod 97 = 1" by simp
  then have "iban_valid (''DE'' @ pad2 k @ b)"
    using pk len b(3) d by (auto simp: iban_valid_def list_all_iff)
  then show ?thesis using b(1) by (simp add: gen_iban_def v_def k_def)
qed

text \<open>C30 (bounds).  The announced output length is exact: where \<open>OutputLength\<close> of a compiled
  column reports a length, every value generated from an input that is not kept has exactly that
  many bytes, so the column capacity check made before a run is sound.\<close>

theorem OutputLength_exact:
  assumes "Compile L r d res = Inr c" "lib_ok L" "\<not> kept_input L c input"
    and "OutputLength c = Inr (Some n)" "Generate L g c input row retry = Inr v"
  shows "\<exists>s. v = VString s \<and> int (length s) = n"
proof -
  define s where "s = cr_Strategy (rule c)"
  have co: "column_ok c" by (rule Compile_column_ok [OF assms(1)])
  have "s \<in> {StrategyHash, StrategyDigits, StrategyAlphanumeric, StrategyPhone, StrategyDate, StrategyUUID,
      StrategyVATID, StrategyIBAN}"
    using assms(4) by (auto simp: OutputLength_def Let_def s_def split: if_splits)
  then have cases: "s = StrategyHash \<or> s = StrategyDigits \<or> s = StrategyAlphanumeric \<or> s = StrategyPhone \<or>
      s = StrategyDate \<or> s = StrategyUUID \<or> s = StrategyVATID \<or> s = StrategyIBAN" by simp
  then have "cr_Strategy (rule c) \<notin> {StrategyNull, StrategyConstant, StrategyMask}" by (auto simp: s_def)
  then obtain h where h: "valueHash L g c (inputString L input) row retry = Inr h"
      "generate L g (params c) s h = Inr v"
    using Generate_fresh [OF assms(5,3)] by (auto simp: s_def)
  have len: "length h = 32" by (rule valueHash_length [OF assms(2) h(1)])
  note co' = co [unfolded column_ok_def Let_def s_def [symmetric]]
  note ol = assms(4) [unfolded OutputLength_def Let_def s_def [symmetric]]
  from cases show ?thesis
  proof (elim disjE)
    assume e: "s = StrategyHash"
    then obtain m where "Length (params c) = Some m" "1 \<le> m"
        "m \<le> (if Encoding (params c) = ''base64'' then 44 else 64)" using co' by auto
    then show ?thesis using gen_hash_ok [of "params c" m h] len h(2) ol e
      by (auto simp: generate_simps text_val_eq_Inr)
  next
    assume e: "s = StrategyDigits"
    then obtain m where m: "Length (params c) = Some m" "1 \<le> m" using co' by auto
    then show ?thesis using decimal_ok [of m h] h(2) ol e by (auto simp: generate_simps text_val_eq_Inr)
  next
    assume e: "s = StrategyAlphanumeric"
    then obtain m where m: "Length (params c) = Some m" "1 \<le> m" using co' by auto
    then show ?thesis using gen_alphanumeric_ok [OF m, of L "take 16 h"] h(2) ol e
      by (auto simp: generate_simps text_val_eq_Inr)
  next
    assume e: "s = StrategyPhone"
    then obtain m where m: "Digits (params c) = Some m" "1 \<le> m" using co' by auto
    then show ?thesis using decimal_ok [of m h] h(2) ol e by (auto simp: generate_simps text_val_eq_Inr)
  next
    assume e: "s = StrategyDate"
    then show ?thesis using h(2) ol lib_okD(4,5) [OF assms(2)]
      by (auto simp: generate_simps text_val_eq_Inr gen_date_def Let_def split: if_splits)
  next
    assume e: "s = StrategyUUID"
    then show ?thesis using h(2) ol lib_okD(6) [OF assms(2)] by (auto simp: generate_simps)
  next
    assume e: "s = StrategyVATID"
    then show ?thesis using decimal_ok [of 9 h] h(2) ol
      by (auto simp: generate_simps text_val_eq_Inr bindr_eq_Inr)
  next
    assume e: "s = StrategyIBAN"
    then show ?thesis using gen_iban_valid [of h] h(2) ol
      by (auto simp: generate_simps text_val_eq_Inr iban_valid_def)
  qed
qed

theorem OutputLength_exact_witness:
  "\<exists>v s. Generate sample_lib sample_gen (compiled StrategyPhone no_params) (VString ''x'') sample_row 0 = Inr v \<and>
     v = VString s \<and> int (length s) = 15"
proof -
  let ?c = "compiled StrategyPhone no_params"
  let ?r = "Generate sample_lib sample_gen ?c (VString ''x'') sample_row 0"
  have f: "Digits (params ?c) = Some 15" "cr_Strategy (rule ?c) = StrategyPhone" "consistent ?c" by code_simp+
  have "is_ok ?r"
    using decimal_ok [of 15] by (auto simp: Generate_def valueHash_def Let_def f inputString_def generate_simps text_val_def is_ok_iff bindr_eq_Inr)
  then have g: "?r = Inr (projr ?r)" by (rule Save_result)
  have c: "Compile sample_lib (sample_rule StrategyPhone no_params) no_defaults None = Inr ?c"
    by (rule compiled_ok) code_simp
  have "\<not> kept_input sample_lib ?c (VString ''x'')" "OutputLength ?c = Inr (Some 15)" by code_simp+
  then show ?thesis using OutputLength_exact [OF c sample_lib_ok _ _ g] g by blast
qed

text \<open>Every generated IBAN is a well formed German IBAN: 22 characters, the
  country letters, twenty digits, and check digits that satisfy the modulus 97 rule.\<close>

theorem generated_iban_valid:
  assumes "cr_Strategy (rule c) = StrategyIBAN" "\<not> kept_input L c input"
    and "Generate L g c input row retry = Inr v"
  shows "\<exists>s. v = VString s \<and> iban_valid s"
proof -
  have "cr_Strategy (rule c) \<notin> {StrategyNull, StrategyConstant, StrategyMask}" using assms(1) by simp
  then obtain h where "generate L g (params c) StrategyIBAN h = Inr v"
    using Generate_fresh [OF assms(3,2)] assms(1) by metis
  then show ?thesis using gen_iban_valid [of h] by (auto simp: generate_simps text_val_eq_Inr)
qed

lemma sample_iban_ok:
  "is_ok (Generate sample_lib sample_gen (compiled StrategyIBAN no_params) (VInt64 7) sample_row 1)"
proof -
  have f: "cr_Strategy (rule (compiled StrategyIBAN no_params)) = StrategyIBAN"
    "consistent (compiled StrategyIBAN no_params)" "int_dec 7 \<noteq> []" by code_simp+
  show ?thesis using gen_iban_valid
    by (auto simp: Generate_def valueHash_def Let_def f inputString_def generate_simps text_val_def is_ok_iff bindr_eq_Inr)
qed

theorem generated_iban_valid_witness:
  "\<exists>s. projr (Generate sample_lib sample_gen (compiled StrategyIBAN no_params) (VInt64 7) sample_row 1) = VString s \<and>
     iban_valid s"
proof (rule generated_iban_valid [OF _ _ Save_result [OF sample_iban_ok]])
  show "cr_Strategy (rule (compiled StrategyIBAN no_params)) = StrategyIBAN" by code_simp
  show "\<not> kept_input sample_lib (compiled StrategyIBAN no_params) (VInt64 7)" by code_simp
qed

lemma publicIPv4_loop_ok:
  "publicIPv4_loop draw is = Inr a \<Longrightarrow> (\<exists>i \<in> set is. a = draw i) \<and> \<not> list_ex (\<lambda>p. prefix_contains p a) reservedIPv4"
  by (induction "is") (auto split: if_splits)

text \<open>A generated public address is the text of one of the first 128 draws and lies in
  none of the reserved prefixes; it is never a private, loopback, link-local, documentation,
  multicast or otherwise reserved address.\<close>

theorem generated_ipv4_public:
  assumes "cr_Strategy (rule c) = StrategyIPv4Public" "\<not> kept_input L c input"
    and "Generate L g c input row retry = Inr v"
  shows "\<exists>seed i. i < 128 \<and> v = VString (ip_text (u32 L seed i)) \<and>
    (\<forall>p \<in> set reservedIPv4. \<not> prefix_contains p (u32 L seed i))"
proof -
  have "cr_Strategy (rule c) \<notin> {StrategyNull, StrategyConstant, StrategyMask}" using assms(1) by simp
  then obtain h where "generate L g (params c) StrategyIPv4Public h = Inr v"
    using Generate_fresh [OF assms(3,2)] assms(1) by metis
  then obtain a where a: "publicIPv4_loop (u32 L (take 16 h)) [0..<128] = Inr a" "v = VString (ip_text a)"
    by (auto simp: generate_simps text_val_eq_Inr publicIPv4_def bindr_eq_Inr)
  then obtain i where "i < 128" "a = u32 L (take 16 h) i" "\<forall>p \<in> set reservedIPv4. \<not> prefix_contains p a"
    using publicIPv4_loop_ok [OF a(1)] by (auto simp: list_ex_iff)
  then show ?thesis using a(2) by blast
qed

lemma sample_ipv4_ok:
  "is_ok (Generate sample_lib sample_gen (compiled StrategyIPv4Public no_params) (VInt64 7) sample_row 0)"
proof -
  have f: "cr_Strategy (rule (compiled StrategyIPv4Public no_params)) = StrategyIPv4Public"
    "consistent (compiled StrategyIPv4Public no_params)" "int_dec 7 \<noteq> []" by code_simp+
  have "is_ok (publicIPv4 (\<lambda>_. 134744072))" by code_simp
  then show ?thesis
    by (auto simp: Generate_def valueHash_def Let_def f inputString_def generate_simps text_val_def is_ok_iff
        bindr_eq_Inr sample_lib_def)
qed

theorem generated_ipv4_public_witness:
  "\<exists>seed i. i < 128 \<and> projr (Generate sample_lib sample_gen (compiled StrategyIPv4Public no_params) (VInt64 7) sample_row 0) =
      VString (ip_text (u32 sample_lib seed i)) \<and>
    list_all (\<lambda>p. \<not> prefix_contains p (u32 sample_lib seed i)) reservedIPv4"
proof -
  have "cr_Strategy (rule (compiled StrategyIPv4Public no_params)) = StrategyIPv4Public"
    "\<not> kept_input sample_lib (compiled StrategyIPv4Public no_params) (VInt64 7)" by code_simp+
  from generated_ipv4_public [OF this Save_result [OF sample_ipv4_ok]]
  show ?thesis unfolding list_all_iff by blast
qed

lemma gen_number_bounds:
  assumes "lo \<le> hi" "int64_range lo" "int64_range hi"
  shows "lo \<le> gen_number h lo hi \<and> gen_number h lo hi \<le> hi"
proof -
  define m where "m = int (be_val h) mod (hi - lo + 1)"
  have "0 < hi - lo + 1" using assms(1) by simp
  then have "0 \<le> m" "m < hi - lo + 1"
    unfolding m_def by (rule pos_mod_sign, rule pos_mod_bound)
  moreover from this have "int64_range (m + lo)" using assms by (simp add: int64_range_def)
  ultimately show ?thesis by (simp add: gen_number_def m_def [symmetric])
qed

text \<open>A generated number lies between the minimum and the maximum of its column,
  both included, for every pair of 64 bit bounds, also where their difference does not fit in
  64 bits; no bound makes it wrap around.\<close>

theorem generated_number_in_range:
  assumes "Compile L r d res = Inr c" "cr_Strategy r = StrategyNumber" "\<not> kept_input L c input"
    and "Generate L g c input row retry = Inr v"
    and "Min (params c) = Some lo" "Max (params c) = Some hi" "int64_range lo" "int64_range hi"
  shows "\<exists>i. v = VInt64 i \<and> lo \<le> i \<and> i \<le> hi"
proof -
  have e: "cr_Strategy (rule c) = StrategyNumber" using Compile_column_ok(2) [OF assms(1)] assms(2) by simp
  have le: "lo \<le> hi"
    using Compile_column_ok(1) [OF assms(1)] e assms(5,6) by (simp add: column_ok_def)
  have "cr_Strategy (rule c) \<notin> {StrategyNull, StrategyConstant, StrategyMask}" using e by simp
  then obtain h where "generate L g (params c) StrategyNumber h = Inr v"
    using Generate_fresh [OF assms(4,3)] e by metis
  then show ?thesis using gen_number_bounds [OF le assms(7,8)] assms(5,6) by (auto simp: generate_simps)
qed

theorem generated_number_in_range_witness:
  "\<exists>i. projr (Generate sample_lib sample_gen (compiled StrategyNumber (no_params\<lparr>Min := Some int64_min, Max := Some int64_max\<rparr>))
      (VInt64 7) sample_row 0) = VInt64 i \<and> int64_min \<le> i \<and> i \<le> int64_max"
proof (rule generated_number_in_range [OF compiled_ok _ _ Save_result])
  let ?p = "no_params\<lparr>Min := Some int64_min, Max := Some int64_max\<rparr>"
  show "is_ok (Compile sample_lib (sample_rule StrategyNumber ?p) no_defaults None)" by code_simp
  show "cr_Strategy (sample_rule StrategyNumber ?p) = StrategyNumber" by (simp add: sample_rule_def)
  show "\<not> kept_input sample_lib (compiled StrategyNumber ?p) (VInt64 7)" by code_simp
  have f: "cr_Strategy (rule (compiled StrategyNumber ?p)) = StrategyNumber" "\<not> consistent (compiled StrategyNumber ?p)"
    "Min (params (compiled StrategyNumber ?p)) = Some int64_min" "Max (params (compiled StrategyNumber ?p)) = Some int64_max"
    "int_dec 7 \<noteq> []" by code_simp+
  then show "is_ok (Generate sample_lib sample_gen (compiled StrategyNumber ?p) (VInt64 7) sample_row 0)"
    by (simp add: Generate_def valueHash_def Let_def inputString_def generate_simps sample_row_def)
  show "Min (params (compiled StrategyNumber ?p)) = Some int64_min" by code_simp
  show "Max (params (compiled StrategyNumber ?p)) = Some int64_max" by code_simp
qed (simp_all add: int64_range_def int64_min_def int64_max_def)

text \<open>A consistent column gives equal inputs equal replacements: its value depends
  on the strategy, the key, the retry and the trimmed and normalised input only, not on the
  database, table, row or column, so that equal values stay joinable across tables.\<close>

theorem consistent_row_independent:
  assumes "consistent c"
    and "nfc L (TrimSpace (inputString L input)) = nfc L (TrimSpace (inputString L input'))"
    and "\<not> kept_input L c input" "\<not> kept_input L c input'"
    and "cr_Strategy (rule c) \<noteq> StrategyMask"
  shows "Generate L g c input row retry = Generate L g c input' row' retry"
  using assms by (auto simp: Generate_def kept_input_def valueHash_def Let_def)

theorem consistent_row_independent_witness:
  "Generate sample_lib sample_gen (compiled ''city'' no_params) (VString '' Rome'') sample_row 2 =
   Generate sample_lib sample_gen (compiled ''city'' no_params) (VBytes ''Rome '') (sample_row\<lparr>g_Table := ''orders''\<rparr>) 2"
proof (rule consistent_row_independent)
  show "consistent (compiled ''city'' no_params)" by code_simp
  show "nfc sample_lib (TrimSpace (inputString sample_lib (VString '' Rome''))) =
    nfc sample_lib (TrimSpace (inputString sample_lib (VBytes ''Rome '')))" by code_simp
  show "\<not> kept_input sample_lib (compiled ''city'' no_params) (VString '' Rome'')" by code_simp
  show "\<not> kept_input sample_lib (compiled ''city'' no_params) (VBytes ''Rome '')" by code_simp
  show "cr_Strategy (rule (compiled ''city'' no_params)) \<noteq> StrategyMask" by code_simp
qed



lemma take_drop_rev: "rev (take k (rev xs)) = drop (length xs - k) xs"
  by (simp add: take_rev)

lemma str_runes_append_valid:
  assumes "\<forall>r \<in> set a. scalar r" "\<forall>r \<in> set b. scalar r" "\<forall>r \<in> set m. scalar r"
  shows "str_runes (rune_str a @ rune_str m @ rune_str b) = a @ m @ b"
proof -
  have "rune_str a @ rune_str m @ rune_str b = rune_str (a @ m @ b)" by (simp add: rune_str_def)
  moreover have "\<forall>r \<in> set (a @ m @ b). scalar r" using assms by auto
  ultimately show ?thesis using str_runes_rune_str [of "a @ m @ b"] by (simp only:)
qed

lemma str_repeat_runes:
  assumes "valid_utf8 m" "str_runes m = [r]"
  shows "str_repeat m k = rune_str (replicate k r)"
proof -
  have "m = rune_str [r]" using to_valid_id [OF assms(1)] assms(2) by (simp add: to_valid_def)
  then show ?thesis by (induction k) (simp_all add: str_repeat_def rune_str_def)
qed

lemma length_one: "length xs = 1 \<Longrightarrow> \<exists>x. xs = [x]"
  by (cases xs) auto

text \<open>A mask keeps the number of characters; where the kept prefix and suffix do
  not cover the input, its characters are the prefix, one mask character for each character in
  between, and the suffix, and where they cover it the input is returned unchanged.\<close>

theorem mask_characters:
  assumes "prepareMask p0 = Inr p" "KeepPrefix p = Some a" "KeepSuffix p = Some b"
  shows "\<exists>s r. gen_mask p value = Inr s \<and> str_runes (MaskChar p) = [r] \<and> rune_count s = rune_count value \<and>
    (if a + b < int (rune_count value)
     then str_runes s = take (nat a) (str_runes value) @
       replicate (rune_count value - nat a - nat b) r @ drop (rune_count value - nat b) (str_runes value)
     else s = value)"
proof -
  define rs n where "rs = str_runes value" "n = length rs"
  have m: "valid_utf8 (MaskChar p)" "rune_count (MaskChar p) = 1" and ab: "0 \<le> a" "0 \<le> b"
    using prepare_lemmas(7) [OF assms(1)] assms(2,3) by auto
  obtain r where r: "str_runes (MaskChar p) = [r]"
    using m(2) length_one by (auto simp: rune_count_def)
  have sc: "\<forall>x \<in> set rs. scalar x" by (auto simp: rs_n_def intro: str_runes_scalar)
  have scr: "scalar r" using str_runes_scalar [of r "MaskChar p"] r by simp
  show ?thesis
  proof (cases "a + b < int n")
    case False
    then have "min a (int n) + min b (int n) \<ge> int n" using ab by linarith
    then have "gen_mask p value = Inr value"
      by (simp add: gen_mask_def assms(2,3) rs_n_def [symmetric] Let_def)
    then show ?thesis using False r by (simp add: rune_count_def rs_n_def)
  next
    case True
    then have mn: "min a (int n) = a" "min b (int n) = b" using ab by auto
    have "gen_mask p value = Inr (rune_str (take (nat a) rs) @
        rune_str (replicate (nat (int n - a - b)) r) @ rune_str (drop (n - nat b) rs))"
      using True ab by (simp add: gen_mask_def assms(2,3) rs_n_def(1) [symmetric] rs_n_def(2) [symmetric] Let_def mn
        slice_to_def go_repeat_def str_repeat_runes [OF m(1) r] take_drop_rev)
    moreover have "nat (int n - a - b) = n - nat a - nat b" using ab by linarith
    moreover have "str_runes (rune_str (take (nat a) rs) @
        rune_str (replicate (n - nat a - nat b) r) @ rune_str (drop (n - nat b) rs))
      = take (nat a) rs @ replicate (n - nat a - nat b) r @ drop (n - nat b) rs"
      using sc scr by (intro str_runes_append_valid) (auto dest: in_set_takeD in_set_dropD)
    moreover have "length (take (nat a) rs @ replicate (n - nat a - nat b) r @ drop (n - nat b) rs) = n"
      using True ab by (simp add: rs_n_def(2) [symmetric])
    ultimately show ?thesis using True r by (simp add: rune_count_def rs_n_def)
  qed
qed

theorem mask_characters_witness:
  "\<exists>s r. gen_mask (projr (prepareMask (no_params\<lparr>KeepPrefix := Some 1\<rparr>))) ''secret'' = Inr s \<and>
    str_runes (MaskChar (projr (prepareMask (no_params\<lparr>KeepPrefix := Some 1\<rparr>)))) = [r] \<and>
    rune_count s = rune_count ''secret'' \<and>
    (if 1 + 0 < int (rune_count ''secret'')
     then str_runes s = take (nat 1) (str_runes ''secret'') @
       replicate (rune_count ''secret'' - nat 1 - nat 0) r @ drop (rune_count ''secret'' - nat 0) (str_runes ''secret'')
     else s = ''secret'')"
proof (rule mask_characters [where ?p0.0 = "no_params\<lparr>KeepPrefix := Some 1\<rparr>"])
  show "prepareMask (no_params\<lparr>KeepPrefix := Some 1\<rparr>) = Inr (projr (prepareMask (no_params\<lparr>KeepPrefix := Some 1\<rparr>)))"
    by (rule Save_result) code_simp
qed code_simp+

end
