(* ===== verification/Policy.thy ===== *)
theory Policy
  imports Strategy_Safety
begin

text \<open>
  \<open>internal/runner/policy/snapshot.go\<close>: offline validation of a policy, its snapshot and its
  hash.  SHA-256, the JSON encoder and decoder of the policy type and RE2 compilation are
  parameters.  Validation is equivalent to a declarative description of a well-formed policy.
\<close>

section \<open>Operations\<close>

definition ErrPatternInvalid :: gerr where
  "ErrPatternInvalid = EPlain ''invalid database pattern''"

definition ErrStepRefMissing :: gerr where
  "ErrStepRefMissing = EPlain ''missing policy reference''"

definition selector_incomplete :: "KeySelector option \<Rightarrow> bool" where
  "selector_incomplete r = (case r of None \<Rightarrow> False | Some f \<Rightarrow> sel_Name f = [] \<or> sel_Key f = [])"

definition validateStep :: "string list \<Rightarrow> SQLStep \<Rightarrow> gerr + string list" where
  "validateStep steps step =
     (if st_Name step = [] then Inl (EWrap ''SQL step name is empty'' ErrStepRefMissing)
      else if st_Name step \<in> set steps then Inl (EPlain ''duplicate SQL step'')
      else if (st_ConfigMapKeyRef step = None) = (st_SecretKeyRef step = None)
      then Inl (EWrap ''step requires exactly one source'' ErrStepRefMissing)
      else if selector_incomplete (st_ConfigMapKeyRef step)
      then Inl (EWrap ''step requires a ConfigMap name and key'' ErrStepRefMissing)
      else if selector_incomplete (st_SecretKeyRef step)
      then Inl (EWrap ''step requires a Secret name and key'' ErrStepRefMissing)
      else Inr (steps @ [st_Name step]))"

definition validateSteps :: "SQLStep list \<Rightarrow> gerr + string list" where
  "validateSteps definitions = foldr_err validateStep [] definitions"

definition validateColumn :: "lib \<Rightarrow> PolicyDefaults \<Rightarrow> string list \<Rightarrow> ColumnRule \<Rightarrow> gerr + string list" where
  "validateColumn L defaults columns column =
     (if cr_Name column = [] then Inl (EPlain ''column name is required'')
      else if cr_Name column \<in> set columns then Inl (EPlain ''duplicate column'')
      else if (case cr_Params column of None \<Rightarrow> False | Some p \<Rightarrow> selector_incomplete (ValueFrom p))
      then Inl (EWrap ''constant requires a Secret name and key'' ErrStepRefMissing)
      else (case Validate_rule L column defaults of
              Inl e \<Rightarrow> Inl (EWrap ''column'' e)
            | Inr _ \<Rightarrow> Inr (columns @ [cr_Name column])))"

definition validateTable :: "lib \<Rightarrow> PolicyDefaults \<Rightarrow> TablePolicy \<Rightarrow> gerr + unit" where
  "validateTable L defaults table =
     (if (case tp_PageSize table of None \<Rightarrow> False | Some n \<Rightarrow> n < 1 \<or> n > 50000)
      then Inl (EPlain ''table pageSize must be between 1 and 50000'')
      else if (case tp_Ignore table of None \<Rightarrow> False
               | Some w \<Rightarrow> TrimSpace w = [] \<or> str_contains w '';'' \<or> length w > 4096)
      then Inl (EPlain ''ignore.where requires an expression without statement delimiters'')
      else if tp_Action table = TableActionTruncate then
        (if tp_Columns table \<noteq> [] then Inl (EPlain ''truncate action takes no column rules'') else Inr ())
      else if tp_Action table \<noteq> [] \<and> tp_Action table \<noteq> TableActionAnonymize
      then Inl (EPlain ''table action must be Anonymize or Truncate'')
      else if tp_Columns table = [] then Inl (EPlain ''anonymize action requires column rules'')
      else bindr (foldr_err (validateColumn L defaults) [] (tp_Columns table)) (\<lambda>_. Inr ()))"

definition validateTables :: "lib \<Rightarrow> PolicyDefaults \<Rightarrow> string list \<Rightarrow> TablePolicy \<Rightarrow> gerr + string list" where
  "validateTables L defaults tables table =
     (if tp_Name table = [] then Inl (EPlain ''table name is required'')
      else if tp_Name table \<in> set tables then Inl (EPlain ''duplicate table'')
      else bindr (validateTable L defaults table) (\<lambda>_. Inr (tables @ [tp_Name table])))"

text \<open>The parameter \<open>re_ok\<close> says whether an expression compiles as RE2.\<close>

definition anchored :: "string \<Rightarrow> string" where
  "anchored pattern = ''^(?:'' @ pattern @ '')$''"

definition validateDatabase ::
  "lib \<Rightarrow> (string \<Rightarrow> bool) \<Rightarrow> string list \<Rightarrow> PolicyDefaults \<Rightarrow> DatabasePolicy \<Rightarrow> gerr + unit" where
  "validateDatabase L re_ok steps defaults database =
     (if (dp_Name database = []) = (dp_NamePattern database = [])
      then Inl (EPlain ''database requires exactly one name or namePattern'')
      else if dp_NamePattern database \<noteq> [] \<and> \<not> re_ok (anchored (dp_NamePattern database))
      then Inl (EWrap ''cannot compile RE2 expression'' ErrPatternInvalid)
      else bindr (each (each (\<lambda>ref. guardr (ref \<in> set steps)
             (EWrap ''SQL step is not defined'' ErrStepRefMissing))) [dp_Pre database, dp_Post database]) (\<lambda>_.
           bindr (foldr_err (validateTables L defaults) [] (dp_Tables database)) (\<lambda>_. Inr ())))"

definition spec_defaults :: "PolicySpec \<Rightarrow> PolicyDefaults" where
  "spec_defaults spec = (case ps_Defaults spec of Some d \<Rightarrow> d | None \<Rightarrow> no_defaults)"

definition Validate_policy :: "lib \<Rightarrow> (string \<Rightarrow> bool) \<Rightarrow> PolicySpec \<Rightarrow> gerr + unit" where
  "Validate_policy L re_ok spec =
     (let defaults = spec_defaults spec in
      if ps_Databases spec = [] then Inl (EPlain ''policy requires at least one database'')
      else if ps_Mode spec \<noteq> [] \<and> ps_Mode spec \<noteq> ''PerRun'' \<and> ps_Mode spec \<noteq> ''Fixed''
      then Inl (EPlain ''determinism mode must be PerRun or Fixed'')
      else if ps_Mode spec = ''Fixed'' \<and> (ps_SeedSecretRef spec = None \<or> selector_incomplete (ps_SeedSecretRef spec))
      then Inl (EWrap ''Fixed determinism requires a seed Secret key'' ErrStepRefMissing)
      else if pd_PageSize defaults < 0 \<or> pd_PageSize defaults > 50000
      then Inl (EPlain ''default pageSize must be between 1 and 50000 when set'')
      else bindr (validateSteps (ps_Steps spec)) (\<lambda>steps.
             each (validateDatabase L re_ok steps defaults) (ps_Databases spec)))"

text \<open>\<open>marshal\<close> and \<open>unmarshal\<close> encode and decode the policy type, unknown fields refused;
  \<open>single\<close> says that no second document follows; \<open>sha\<close> is SHA-256.\<close>

record wire =
  marshal :: "PolicySpec \<Rightarrow> gerr + string"
  unmarshal :: "string \<Rightarrow> gerr + PolicySpec"
  single :: "string \<Rightarrow> bool"
  sha :: "string \<Rightarrow> string"

definition hash_text :: "wire \<Rightarrow> string \<Rightarrow> string" where
  "hash_text wr data = ''sha256:'' @ hex_encode (sha wr data)"

definition Hash :: "wire \<Rightarrow> PolicySpec \<Rightarrow> gerr + string" where
  "Hash wr spec =
     (case marshal wr spec of
        Inl e \<Rightarrow> Inl (EWrap ''encode policy'' e)
      | Inr data \<Rightarrow> Inr (hash_text wr data))"

definition Snapshot :: "lib \<Rightarrow> (string \<Rightarrow> bool) \<Rightarrow> wire \<Rightarrow> PolicySpec \<Rightarrow> gerr + (string \<times> string)" where
  "Snapshot L re_ok wr spec =
     bindr (Validate_policy L re_ok spec) (\<lambda>_.
       (case marshal wr spec of
          Inl e \<Rightarrow> Inl (EWrap ''encode policy'' e)
        | Inr data \<Rightarrow> Inr (data, hash_text wr data)))"

definition Decode :: "lib \<Rightarrow> (string \<Rightarrow> bool) \<Rightarrow> wire \<Rightarrow> string \<Rightarrow> gerr + (PolicySpec \<times> string)" where
  "Decode L re_ok wr data =
     (if length data > 2 ^ 20 then Inl (EPlain ''policy exceeds 1 MiB'')
      else (case unmarshal wr data of
              Inl e \<Rightarrow> Inl (EWrap ''decode policy'' e)
            | Inr spec \<Rightarrow>
                if \<not> single wr data then Inl (EPlain ''policy must contain one JSON document'')
                else bindr (Snapshot L re_ok wr spec) (\<lambda>(_, value). Inr (spec, value))))"

section \<open>Well-formed policies\<close>

definition step_wf :: "SQLStep \<Rightarrow> bool" where
  "step_wf step \<longleftrightarrow> st_Name step \<noteq> [] \<and>
     (case (st_ConfigMapKeyRef step, st_SecretKeyRef step) of
        (Some r, None) \<Rightarrow> sel_Name r \<noteq> [] \<and> sel_Key r \<noteq> []
      | (None, Some r) \<Rightarrow> sel_Name r \<noteq> [] \<and> sel_Key r \<noteq> []
      | _ \<Rightarrow> False)"

definition column_wf :: "lib \<Rightarrow> PolicyDefaults \<Rightarrow> ColumnRule \<Rightarrow> bool" where
  "column_wf L d r \<longleftrightarrow> cr_Name r \<noteq> [] \<and> is_ok (Compile L r d None) \<and>
     (case cr_Params r of None \<Rightarrow> True | Some p \<Rightarrow> \<not> selector_incomplete (ValueFrom p))"

definition table_wf :: "lib \<Rightarrow> PolicyDefaults \<Rightarrow> TablePolicy \<Rightarrow> bool" where
  "table_wf L d t \<longleftrightarrow>
     (case tp_PageSize t of None \<Rightarrow> True | Some n \<Rightarrow> 1 \<le> n \<and> n \<le> 50000) \<and>
     (case tp_Ignore t of None \<Rightarrow> True
      | Some w \<Rightarrow> TrimSpace w \<noteq> [] \<and> CHR '';'' \<notin> set w \<and> length w \<le> 4096) \<and>
     (if tp_Action t = TableActionTruncate then tp_Columns t = []
      else tp_Action t \<in> {[], TableActionAnonymize} \<and> tp_Columns t \<noteq> [] \<and>
        distinct (map cr_Name (tp_Columns t)) \<and> (\<forall>r \<in> set (tp_Columns t). column_wf L d r))"

definition database_wf ::
  "lib \<Rightarrow> (string \<Rightarrow> bool) \<Rightarrow> string list \<Rightarrow> PolicyDefaults \<Rightarrow> DatabasePolicy \<Rightarrow> bool" where
  "database_wf L re_ok steps d db \<longleftrightarrow>
     (dp_Name db = [] \<longleftrightarrow> dp_NamePattern db \<noteq> []) \<and>
     (dp_NamePattern db \<noteq> [] \<longrightarrow> re_ok (anchored (dp_NamePattern db))) \<and>
     set (dp_Pre db) \<union> set (dp_Post db) \<subseteq> set steps \<and>
     distinct (map tp_Name (dp_Tables db)) \<and>
     (\<forall>t \<in> set (dp_Tables db). tp_Name t \<noteq> [] \<and> table_wf L d t)"

definition policy_wf :: "lib \<Rightarrow> (string \<Rightarrow> bool) \<Rightarrow> PolicySpec \<Rightarrow> bool" where
  "policy_wf L re_ok spec \<longleftrightarrow>
     ps_Databases spec \<noteq> [] \<and> ps_Mode spec \<in> {[], ''PerRun'', ''Fixed''} \<and>
     (ps_Mode spec = ''Fixed'' \<longrightarrow> (\<exists>r. ps_SeedSecretRef spec = Some r \<and> sel_Name r \<noteq> [] \<and> sel_Key r \<noteq> [])) \<and>
     0 \<le> pd_PageSize (spec_defaults spec) \<and> pd_PageSize (spec_defaults spec) \<le> 50000 \<and>
     distinct (map st_Name (ps_Steps spec)) \<and> (\<forall>s \<in> set (ps_Steps spec). step_wf s) \<and>
     (\<forall>db \<in> set (ps_Databases spec).
        database_wf L re_ok (map st_Name (ps_Steps spec)) (spec_defaults spec) db)"

text \<open>A loop that refuses repeated names and collects them.\<close>

lemma foldr_err_names:
  assumes step: "\<And>seen x. is_ok (f seen x) \<longleftrightarrow> nm x \<notin> set seen \<and> P x"
    and out: "\<And>seen x s. f seen x = Inr s \<Longrightarrow> s = seen @ [nm x]"
  shows "distinct seen \<Longrightarrow> foldr_err f seen xs = Inr r \<longleftrightarrow>
    r = seen @ map nm xs \<and> distinct (seen @ map nm xs) \<and> (\<forall>x \<in> set xs. P x)"
proof (induction xs arbitrary: seen)
  case Nil
  then show ?case by auto
next
  case (Cons x xs)
  show ?case
  proof (cases "f seen x")
    case (Inl e)
    then show ?thesis using step [of seen x] by (auto simp: Inl)
  next
    case (Inr s)
    then have s: "s = seen @ [nm x]" "nm x \<notin> set seen" "P x"
      using out [OF Inr] step [of seen x] by auto
    then show ?thesis using Cons.IH [of s] Cons.prems Inr by auto
  qed
qed

lemma selector_incomplete_simps [simp]:
  "\<not> selector_incomplete None" "selector_incomplete (Some f) \<longleftrightarrow> sel_Name f = [] \<or> sel_Key f = []"
  by (simp_all add: selector_incomplete_def)

lemma validateStep_ok: "is_ok (validateStep seen s) \<longleftrightarrow> st_Name s \<notin> set seen \<and> step_wf s"
  by (auto simp: validateStep_def step_wf_def split: option.splits)

lemma validateStep_out: "validateStep seen s = Inr r \<Longrightarrow> r = seen @ [st_Name s]"
  by (auto simp: validateStep_def split: if_splits)

lemma validateColumn_ok: "is_ok (validateColumn L d seen r) \<longleftrightarrow> cr_Name r \<notin> set seen \<and> column_wf L d r"
  by (cases "Compile L r d None")
    (auto simp: validateColumn_def column_wf_def Validate_rule_def split: option.splits)

lemma validateColumn_out: "validateColumn L d seen r = Inr s \<Longrightarrow> s = seen @ [cr_Name r]"
  by (auto simp: validateColumn_def split: if_splits sum.splits)

lemma str_contains_char: "str_contains s [c] \<longleftrightarrow> c \<in> set s"
  by (induction s) (auto simp: has_prefix_def)

lemma validateTable_ok: "validateTable L d t = Inr () \<longleftrightarrow> table_wf L d t"
proof -
  have cols: "is_ok (foldr_err (validateColumn L d) [] (tp_Columns t)) \<longleftrightarrow>
      distinct (map cr_Name (tp_Columns t)) \<and> (\<forall>r \<in> set (tp_Columns t). column_wf L d r)"
    using foldr_err_names [of "validateColumn L d" cr_Name "column_wf L d" "[]" "tp_Columns t",
        OF validateColumn_ok validateColumn_out] by (auto simp: is_ok_iff)
  have fin: "bindr r (\<lambda>_. Inr ()) = Inr () \<longleftrightarrow> is_ok r" for r :: "gerr + string list"
    by (cases r) simp_all
  show ?thesis
    unfolding validateTable_def table_wf_def
    by (auto simp: fin cols str_contains_char split: option.splits)
qed

lemma validateTables_ok: "is_ok (validateTables L d seen t) \<longleftrightarrow> tp_Name t \<notin> set seen \<and> tp_Name t \<noteq> [] \<and> table_wf L d t"
  unfolding validateTables_def validateTable_ok [symmetric] by (auto simp: is_ok_iff bindr_eq_Inr)

lemma validateTables_out: "validateTables L d seen t = Inr s \<Longrightarrow> s = seen @ [tp_Name t]"
  by (auto simp: validateTables_def bindr_eq_Inr split: if_splits)

lemma validateDatabase_ok: "validateDatabase L re_ok steps d db = Inr () \<longleftrightarrow> database_wf L re_ok steps d db"
proof -
  have tabs: "foldr_err (validateTables L d) [] (dp_Tables db) = Inr r \<longleftrightarrow> r = map tp_Name (dp_Tables db) \<and>
      distinct (map tp_Name (dp_Tables db)) \<and> (\<forall>t \<in> set (dp_Tables db). tp_Name t \<noteq> [] \<and> table_wf L d t)" for r
    using foldr_err_names [of "validateTables L d" tp_Name "\<lambda>t. tp_Name t \<noteq> [] \<and> table_wf L d t" "[]" "dp_Tables db",
        OF validateTables_ok validateTables_out] by simp
  show ?thesis
    unfolding validateDatabase_def database_wf_def
    by (auto simp: tabs bindr_eq_Inr each_eq_Inr guardr_eq_Inr)
qed

lemma Validate_policy_ok: "Validate_policy L re_ok spec = Inr () \<longleftrightarrow> policy_wf L re_ok spec"
proof -
  have steps: "validateSteps (ps_Steps spec) = Inr r \<longleftrightarrow> r = map st_Name (ps_Steps spec) \<and>
      distinct (map st_Name (ps_Steps spec)) \<and> (\<forall>s \<in> set (ps_Steps spec). step_wf s)" for r
    using foldr_err_names [of validateStep st_Name step_wf "[]" "ps_Steps spec", OF validateStep_ok validateStep_out]
    by (simp add: validateSteps_def)
  show ?thesis
    unfolding Validate_policy_def policy_wf_def Let_def
    by (auto simp: bindr_eq_Inr steps each_eq_Inr validateDatabase_ok split: option.splits)
qed

section \<open>Properties\<close>

text \<open>C27 (equivalence).  Validation accepts exactly the well-formed policies: at least one
  database, a seed reference for fixed determinism, bounded page sizes, distinct complete steps,
  step references that are defined, distinct tables and columns, predicates without a statement
  delimiter, and column rules that compile.\<close>

theorem Validate_policy_iff_wf:
  "is_ok (Validate_policy L re_ok spec) = policy_wf L re_ok spec"
  unfolding Validate_policy_ok [symmetric] by (simp add: is_ok_iff)

text \<open>A decoded policy is a validated one and its hash is the hash of its
  canonical snapshot: whatever bytes the decoder accepts, the policy is well formed, taking its
  snapshot again gives the same hash, and the hash has the form that the generator requires.\<close>

theorem Decode_canonical:
  assumes "Decode L re_ok wr data = Inr (spec, h)" "\<forall>x. length (sha wr x) = 32"
  shows "policy_wf L re_ok spec \<and> Hash wr spec = Inr h \<and> map_sum id snd (Snapshot L re_ok wr spec) = Inr h \<and>
    policyHashPattern h"
proof -
  obtain d where s: "Snapshot L re_ok wr spec = Inr (d, h)"
    using assms(1) by (auto simp: Decode_def bindr_eq_Inr split: if_splits sum.splits)
  then have v: "Validate_policy L re_ok spec = Inr ()" and e: "marshal wr spec = Inr d" "h = hash_text wr d"
    by (auto simp: Snapshot_def bindr_eq_Inr split: sum.splits)
  have "policyHashPattern h"
    using assms(2) hex_encode_hex by (simp add: e(2) hash_text_def policyHashPattern_def has_prefix_def)
  then show ?thesis using s v e Validate_policy_ok by (simp add: Hash_def)
qed

definition demo_spec :: PolicySpec where
  "demo_spec = \<lparr>ps_Mode = ''PerRun'', ps_SeedSecretRef = None, ps_Defaults = None, ps_Steps = [],
     ps_Databases = [\<lparr>dp_Name = ''shop'', dp_NamePattern = [], dp_Optional = False, dp_Pre = [], dp_Post = [],
       dp_Tables = [\<lparr>tp_Name = ''users'', tp_Action = ''Anonymize'', tp_Optional = False, tp_PrimaryKey = [],
         tp_Ignore = Some ''id < 3'', tp_Columns = [sample_rule ''email'' no_params], tp_PageSize = Some 10\<rparr>]\<rparr>]\<rparr>"

definition demo_wire :: wire where
  "demo_wire = \<lparr>marshal = (\<lambda>_. Inr ''{}''), unmarshal = (\<lambda>_. Inr demo_spec), single = (\<lambda>_. True),
     sha = (\<lambda>x. replicate 32 (CHR ''a''))\<rparr>"

theorem Decode_canonical_witness:
  "policy_wf sample_lib (\<lambda>_. True) demo_spec \<and> policyHashPattern (hash_text demo_wire ''{}'')"
proof -
  have "Validate_policy sample_lib (\<lambda>_. True) demo_spec = Inr ()" by code_simp
  then have "Decode sample_lib (\<lambda>_. True) demo_wire ''{}'' = Inr (demo_spec, hash_text demo_wire ''{}'')"
    by (simp add: Decode_def Snapshot_def demo_wire_def)
  from Decode_canonical [OF this] show ?thesis by (simp add: demo_wire_def)
qed

end
