(* ===== verification/Preflight.thy ===== *)
theory Preflight
  imports Paging Policy
begin

text \<open>
  \<open>internal/runner/engine/values.go\<close>, \<open>files.go\<close> and \<open>preflight.go\<close>: the check of a replacement
  against its column, the projected files, and the plan of a run made from the policy and the
  server's \<open>information_schema\<close>.  The rows of the metadata queries, the file system and the
  parsing of floats are parameters.
\<close>

section \<open>Values\<close>

record columnInfo =
  ci_name :: string
  ci_kind :: string
  ci_fullType :: string
  ci_length :: "int option"
  ci_nullable :: bool
  ci_generated :: bool

text \<open>The parse of a float with 32 or 64 bits: \<open>None\<close> on error, otherwise whether it is NaN,
  infinite, negative.\<close>

type_synonym parse_flt = "nat \<Rightarrow> string \<Rightarrow> (bool \<times> bool \<times> bool) option"

definition int_bits :: "string \<Rightarrow> nat" where
  "int_bits kind =
     (if kind = ''tinyint'' then 8 else if kind = ''smallint'' then 16 else if kind = ''mediumint'' then 24
      else if kind = ''int'' then 32 else if kind = ''bigint'' then 64 else 0)"

text \<open>\<open>big.Int.SetString(s, 10)\<close>.\<close>

definition parse_big :: "string \<Rightarrow> int option" where
  "parse_big s =
     (case s of
        [] \<Rightarrow> None
      | ch # t \<Rightarrow>
          if ch = CHR ''-'' then map_option (\<lambda>n. - int n) (parse_nat t)
          else if ch = CHR ''+'' then map_option int (parse_nat t)
          else map_option int (parse_nat s))"

definition decimalPattern :: "string \<Rightarrow> bool" where
  "decimalPattern s =
     (let t = (case s of ch # r \<Rightarrow> if ch = CHR ''+'' \<or> ch = CHR ''-'' then r else s | [] \<Rightarrow> []);
          whole = takeWhile is_digit_char t; rest = dropWhile is_digit_char t in
      whole \<noteq> [] \<and> (rest = [] \<or>
        (hd rest = CHR ''.'' \<and> tl rest \<noteq> [] \<and> list_all is_digit_char (tl rest))))"

text \<open>\<open>fmt.Sscanf(fullType, "decimal(%d,%d)", ...)\<close> on the type texts that the server prints.\<close>

definition scan_decimal :: "string \<Rightarrow> (nat \<times> nat) option" where
  "scan_decimal s =
     (if \<not> has_prefix s ''decimal('' then None
      else (let a = drop 8 s; p = takeWhile is_digit_char a; b = dropWhile is_digit_char a in
            if p = [] \<or> b = [] \<or> hd b \<noteq> CHR '','' then None
            else (let q = takeWhile is_digit_char (tl b); d = dropWhile is_digit_char (tl b) in
                  if q = [] \<or> d = [] \<or> hd d \<noteq> CHR '')'' then None
                  else Some (digits_val p, digits_val q))))"

definition unsigned :: "columnInfo \<Rightarrow> bool" where
  "unsigned column = str_contains (ci_fullType column) ''unsigned''"

definition schema_fail :: "string \<Rightarrow> gerr" where
  "schema_fail message = Fail Schema message"

definition integer_check :: "string \<Rightarrow> columnInfo \<Rightarrow> gerr + unit" where
  "integer_check value column =
     (let bits = int_bits (ci_kind column) in
      if bits = 0 then Inr ()
      else (case parse_big value of
              None \<Rightarrow> Inl (schema_fail ''replacement is not an integer'')
            | Some i \<Rightarrow>
                if length value > 21 then Inl (schema_fail ''replacement is not an integer'')
                else (let maximum = (if unsigned column then 2 ^ bits else 2 ^ (bits - 1)) - 1;
                          minimum = (if unsigned column then 0 else - (2 ^ (bits - 1))) in
                      guardr (\<not> (i < minimum \<or> i > maximum)) (schema_fail ''replacement exceeds integer column range''))))"

definition decimal_check :: "string \<Rightarrow> columnInfo \<Rightarrow> gerr + unit" where
  "decimal_check value column =
     (if ci_kind column \<noteq> ''decimal'' then Inr ()
      else if length value > 128 \<or> \<not> decimalPattern value
      then Inl (schema_fail ''replacement is not a bounded decimal'')
      else (case scan_decimal (ci_fullType column) of
              None \<Rightarrow> Inl (schema_fail ''decimal column definition is unsupported'')
            | Some (precision, scale) \<Rightarrow>
                (let parts = split_on (CHR ''.'') (trim_left value ''+-'');
                     integerDigits = length (trim_left (hd parts) ''0'') in
                 guardr (\<not> (int integerDigits > int precision - int scale \<or>
                     (length parts = 2 \<and> length (parts ! 1) > scale) \<or>
                     (unsigned column \<and> has_prefix value ''-'')))
                   (schema_fail ''replacement exceeds decimal precision or scale''))))"

definition float_check :: "parse_flt \<Rightarrow> string \<Rightarrow> columnInfo \<Rightarrow> gerr + unit" where
  "float_check pf value column =
     (if ci_kind column \<noteq> ''float'' \<and> ci_kind column \<noteq> ''double'' then Inr ()
      else (case pf (if ci_kind column = ''float'' then 32 else 64) value of
              None \<Rightarrow> Inl (schema_fail ''replacement exceeds floating-point column range'')
            | Some (isNaN, isInf, neg) \<Rightarrow>
                guardr (\<not> (isNaN \<or> isInf \<or> (unsigned column \<and> neg)))
                  (schema_fail ''replacement exceeds floating-point column range'')))"

definition numericValue :: "parse_flt \<Rightarrow> string \<Rightarrow> columnInfo \<Rightarrow> gerr + unit" where
  "numericValue pf value column =
     bindr (integer_check value column) (\<lambda>_.
     bindr (decimal_check value column) (\<lambda>_. float_check pf value column))"

text \<open>Whether \<open>time.Parse(time.DateTime, s)\<close> accepts: an hour of one or two digits, and an
  optional fraction after the seconds.\<close>

definition clock_ok :: "string \<Rightarrow> bool" where
  "clock_ok s =
     (let h = takeWhile is_digit_char s; r = dropWhile is_digit_char s in
      1 \<le> length h \<and> length h \<le> 2 \<and> digits_val h < 24 \<and> length r \<ge> 6 \<and> r ! 0 = CHR '':'' \<and> r ! 3 = CHR '':'' \<and>
      list_all is_digit_char [r ! 1, r ! 2, r ! 4, r ! 5] \<and>
      digits_val [r ! 1, r ! 2] < 60 \<and> digits_val [r ! 4, r ! 5] < 60 \<and>
      (length r = 6 \<or> (length r \<ge> 8 \<and> (r ! 6 = CHR ''.'' \<or> r ! 6 = CHR '','') \<and> list_all is_digit_char (drop 7 r))))"

definition parse_datetime_ok :: "string \<Rightarrow> bool" where
  "parse_datetime_ok s \<longleftrightarrow> length s > 11 \<and> parse_date (take 10 s) \<noteq> None \<and> s ! 10 = CHR '' '' \<and> clock_ok (drop 11 s)"

definition validateValue :: "lib \<Rightarrow> parse_flt \<Rightarrow> anyval \<Rightarrow> columnInfo \<Rightarrow> gerr + unit" where
  "validateValue L pf value column =
     (if value = VNil
      then guardr (ci_nullable column) (schema_fail ''replacement is null for a non-null column'')
      else
        (let text = inputString L value;
             n = (if str_contains (ci_kind column) ''binary'' \<or> str_contains (ci_kind column) ''blob''
                  then length text else rune_count text) in
         bindr (guardr (case ci_length column of None \<Rightarrow> True | Some m \<Rightarrow> int n \<le> m)
           (schema_fail ''replacement exceeds column capacity'')) (\<lambda>_.
         bindr (numericValue pf text column) (\<lambda>_.
           guardr (\<not> (ci_kind column \<in> set [''date'', ''datetime'', ''timestamp''] \<and>
               parse_date text = None \<and> (ci_kind column = ''date'' \<or> \<not> parse_datetime_ok text)))
             (schema_fail ''replacement does not match the temporal column type'')))))"

section \<open>Projected files\<close>

datatype projected = NoFile | NotRegular | ReadFailure | FileData string

definition component_char :: "char \<Rightarrow> bool" where
  "component_char ch \<longleftrightarrow> is_lower_char ch \<or> is_upper_char ch \<or> is_digit_char ch \<or>
     ch = CHR ''.'' \<or> ch = CHR ''_'' \<or> ch = CHR ''-''"

definition component_ok :: "string \<Rightarrow> bool" where
  "component_ok s \<longleftrightarrow> 1 \<le> length s \<and> length s \<le> 253 \<and> list_all component_char s"

text \<open>\<open>filepath.Join\<close> of a clean root and validated components.\<close>

definition projectedPath :: "string \<Rightarrow> string list \<Rightarrow> gerr + string" where
  "projectedPath root parts =
     (if root = [] then Inl (EPlain ''projected directory is required'')
      else bindr (each (\<lambda>part. guardr (\<not> (part = ''.'' \<or> part = ''..'' \<or> \<not> component_ok part))
             (EPlain ''invalid projected path component'')) parts) (\<lambda>_.
           Inr (str_join (root # parts) ''/'')))"

definition ReadFile :: "(string \<Rightarrow> projected) \<Rightarrow> string \<Rightarrow> int \<Rightarrow> gerr + string" where
  "ReadFile fs path maximum =
     (case fs path of
        NoFile \<Rightarrow> Inl (EPlain ''required input file cannot be opened'')
      | NotRegular \<Rightarrow> Inl (EPlain ''required input is not a regular file'')
      | ReadFailure \<Rightarrow> Inl (EPlain ''required input file cannot be read within its size limit'')
      | FileData d \<Rightarrow>
          if int (length d) > maximum
          then Inl (EPlain ''required input file cannot be read within its size limit'') else Inr d)"

definition constantValue :: "(string \<Rightarrow> projected) \<Rightarrow> ColumnRule \<Rightarrow> string \<Rightarrow> gerr + string option" where
  "constantValue fs rl root =
     (case cr_Params rl of
        None \<Rightarrow> Inr None
      | Some p \<Rightarrow>
          (case ValueFrom p of
             None \<Rightarrow> Inr None
           | Some ref \<Rightarrow>
               bindr (projectedPath root [sel_Name ref, sel_Key ref]) (\<lambda>path.
               bindr (ReadFile fs path (2 ^ 20)) (\<lambda>data. Inr (Some data)))))"

section \<open>The plan\<close>

record tablePlan =
  pl_page :: Table
  pl_action :: string
  pl_columns :: "Column list"
  pl_metadata :: "columnInfo list"

record databasePlan =
  dpl_name :: string
  dpl_policy :: DatabasePolicy
  dpl_tables :: "tablePlan list"

record executionPlan =
  ep_databases :: "databasePlan list"
  ep_steps :: "string \<Rightarrow> string"
  ep_total :: nat

record indexInfo =
  ix_names :: "string list"
  ix_unique :: bool
  ix_full :: bool

record Options =
  o_PolicyJSON :: string
  o_Seed :: string
  o_RunUID :: string
  o_ReferenceTime :: int
  o_Workers :: int
  o_PageSize :: int
  o_DisableBinlog :: bool
  o_DryRun :: bool
  o_StepsDir :: string
  o_ConstantsDir :: string

text \<open>The rows of the metadata queries, each of which can fail.\<close>

record raw_column =
  rc_name :: string
  rc_data_type :: string
  rc_column_type :: string
  rc_length :: "int option"
  rc_is_nullable :: string
  rc_extra :: string

record raw_index =
  ri_name :: string
  ri_non_unique :: int
  ri_column :: "string option"
  ri_sub_part :: "int option"

record catalog =
  q_schemata :: "gerr + string list"
  q_table :: "string \<Rightarrow> string \<Rightarrow> gerr + (string \<times> string option) option"
  q_columns :: "string \<Rightarrow> string \<Rightarrow> gerr + raw_column list"
  q_indexes :: "string \<Rightarrow> string \<Rightarrow> gerr + raw_index list"

definition column_info :: "raw_column \<Rightarrow> columnInfo" where
  "column_info r = \<lparr>ci_name = rc_name r, ci_kind = rc_data_type r, ci_fullType = rc_column_type r,
     ci_length = rc_length r, ci_nullable = (rc_is_nullable r = ''YES''),
     ci_generated = (str_contains (rc_extra r) ''VIRTUAL GENERATED'' \<or> str_contains (rc_extra r) ''STORED GENERATED'')\<rparr>"

definition readColumns :: "catalog \<Rightarrow> string \<Rightarrow> string \<Rightarrow> gerr + (string \<rightharpoonup> columnInfo)" where
  "readColumns cat database table =
     bindr (q_columns cat database table) (\<lambda>rows.
       Inr (foldl (\<lambda>m r. m(ascii_lower (rc_name r) \<mapsto> column_info r)) Map.empty rows))"

fun put_index :: "(string \<times> indexInfo) list \<Rightarrow> string \<Rightarrow> indexInfo \<Rightarrow> (string \<times> indexInfo) list" where
  "put_index [] name ix = [(name, ix)]"
| "put_index ((n, i) # rest) name ix =
     (if n = name then (n, ix) # rest else (n, i) # put_index rest name ix)"

definition add_index :: "(string \<times> indexInfo) list \<Rightarrow> raw_index \<Rightarrow> (string \<times> indexInfo) list" where
  "add_index m r =
     (let ix = (case map_of m (ri_name r) of Some i \<Rightarrow> i | None \<Rightarrow> \<lparr>ix_names = [], ix_unique = False, ix_full = True\<rparr>)
      in put_index m (ri_name r)
           \<lparr>ix_names = ix_names ix @ [(case ri_column r of Some c \<Rightarrow> c | None \<Rightarrow> [])],
            ix_unique = (ri_non_unique r = 0),
            ix_full = (ix_full ix \<and> ri_column r \<noteq> None \<and> ri_sub_part r = None)\<rparr>)"

definition readIndexes :: "catalog \<Rightarrow> string \<Rightarrow> string \<Rightarrow> gerr + (string \<times> indexInfo) list" where
  "readIndexes cat database table = bindr (q_indexes cat database table) (\<lambda>rows. Inr (foldl add_index [] rows))"

definition key_column :: "(string \<rightharpoonup> columnInfo) \<Rightarrow> string \<Rightarrow> gerr + string" where
  "key_column columns name =
     (case columns (ascii_lower name) of
        None \<Rightarrow> Inl (schema_fail ''paging key must contain existing non-null columns'')
      | Some column \<Rightarrow>
          if ci_nullable column then Inl (schema_fail ''paging key must contain existing non-null columns'')
          else Inr (ci_name column))"

definition primaryKey ::
  "string list \<Rightarrow> (string \<rightharpoonup> columnInfo) \<Rightarrow> (string \<times> indexInfo) list \<Rightarrow> gerr + string list" where
  "primaryKey override columns indexes =
     (let key0 = (if override \<noteq> [] then override
        else (case map_of indexes ''PRIMARY'' of Some ix \<Rightarrow> ix_names ix | None \<Rightarrow> [])) in
      if key0 = []
      then Inl (schema_fail ''TableWithoutPrimaryKey: table requires a primary or declared unique key'')
      else bindr (mapr (key_column columns) key0) (\<lambda>key.
        if list_ex (\<lambda>(_, ix). ix_unique ix \<and> ix_full ix \<and> ix_names ix = key) indexes then Inr key
        else Inl (schema_fail ''paging key must match a complete unique index'')))"

definition text_kinds :: "string list" where
  "text_kinds = [''char'', ''varchar'', ''tinytext'', ''text'', ''mediumtext'', ''longtext'', ''binary'', ''varbinary'',
     ''tinyblob'', ''blob'', ''mediumblob'', ''longblob'']"

definition numeric_kinds :: "string list" where
  "numeric_kinds = [''tinyint'', ''smallint'', ''mediumint'', ''int'', ''bigint'', ''decimal'', ''float'', ''double'']"

definition temporal_kinds :: "string list" where
  "temporal_kinds = [''date'', ''datetime'', ''timestamp'']"

definition kind_check :: "ColumnRule \<Rightarrow> columnInfo \<Rightarrow> int \<Rightarrow> gerr + unit" where
  "kind_check rl column reference =
     (let k = ci_kind column; is_text = (k \<in> set text_kinds) in
      if cr_Strategy rl = StrategyDate then
        bindr (guardr (is_text \<or> k \<in> set temporal_kinds)
          (schema_fail ''date strategy requires a date, datetime or text column'')) (\<lambda>_.
          guardr (\<not> (case cr_Params rl of None \<Rightarrow> False
              | Some p \<Rightarrow> To p = [] \<and> From p \<noteq> [] \<and>
                  (case parse_date (From p) of None \<Rightarrow> True | Some from \<Rightarrow> from > truncate_day reference)))
            (Fail Policy_class ''date range starts after the fixed reference date''))
      else if cr_Strategy rl = StrategyNumber then
        guardr (is_text \<or> k \<in> set numeric_kinds) (schema_fail ''number strategy requires a numeric or text column'')
      else if cr_Strategy rl = StrategyConstant then
        guardr (is_text \<or> k \<in> set numeric_kinds \<or> k \<in> set temporal_kinds)
          (schema_fail ''strategy is incompatible with the column type'')
      else guardr is_text (schema_fail ''text strategy requires a text or binary column''))"

definition compatible :: "ColumnRule \<Rightarrow> columnInfo \<Rightarrow> int \<Rightarrow> gerr + unit" where
  "compatible rl column reference =
     (if cr_Strategy rl = StrategyNull
      then guardr (ci_nullable column) (schema_fail ''null strategy requires a nullable column'')
      else bindr (kind_check rl column reference) (\<lambda>_.
        (case ci_length column of
           None \<Rightarrow> Inr ()
         | Some capacity \<Rightarrow>
             (let minimum = (case cr_Params rl of
                  Some p \<Rightarrow> (case Length p of Some n \<Rightarrow> n
                    | None \<Rightarrow> if cr_Strategy rl = StrategyEmail then 32 else 1)
                | None \<Rightarrow> if cr_Strategy rl = StrategyEmail then 32 else 1) in
              guardr (\<not> capacity < minimum) (schema_fail ''column capacity is below strategy minimum'')))))"

definition validateKnownValues ::
  "lib \<Rightarrow> parse_flt \<Rightarrow> ColumnRule \<Rightarrow> string option \<Rightarrow> columnInfo \<Rightarrow> gerr + unit" where
  "validateKnownValues L pf rl resolved column =
     (if cr_Strategy rl = StrategyConstant then
        (let k = (case cr_Params rl of Some p \<Rightarrow> (case ValueP p of Some v \<Rightarrow> Some v | None \<Rightarrow> resolved)
                  | None \<Rightarrow> resolved) in
         case k of Some v \<Rightarrow> validateValue L pf (VString v) column | None \<Rightarrow> Inr ())
      else if cr_Strategy rl = StrategyNumber then
        (let p = (case cr_Params rl of Some p \<Rightarrow> p | None \<Rightarrow> no_params) in
         bindr (validateValue L pf (VInt64 (or_default (Min p) 0)) column) (\<lambda>_.
           validateValue L pf (VInt64 (or_default (Max p) 100)) column))
      else Inr ())"

definition planColumn ::
  "lib \<Rightarrow> parse_flt \<Rightarrow> (string \<Rightarrow> projected) \<Rightarrow> Options \<Rightarrow> PolicyDefaults \<Rightarrow> (string \<rightharpoonup> columnInfo) \<Rightarrow> ColumnRule \<Rightarrow>
     gerr + (Column \<times> columnInfo)" where
  "planColumn L pf fs opts defaults metadata column =
     (case metadata (ascii_lower (cr_Name column)) of
        None \<Rightarrow> Inl (schema_fail ''policy column is missing or generated'')
      | Some info \<Rightarrow>
          if ci_generated info then Inl (schema_fail ''policy column is missing or generated'')
          else bindr (compatible column info (o_ReferenceTime opts)) (\<lambda>_.
            (case constantValue fs column (o_ConstantsDir opts) of
               Inl _ \<Rightarrow> Inl (Fail Policy_class ''constant projected file cannot be resolved'')
             | Inr k \<Rightarrow>
                 (case Compile L column defaults k of
                    Inl _ \<Rightarrow> Inl (Fail Policy_class ''strategy parameters are invalid'')
                  | Inr col \<Rightarrow>
                      bindr (OutputLength col) (\<lambda>known.
                      bindr (guardr (case (known, ci_length info) of (Some n, Some m) \<Rightarrow> n \<le> m | _ \<Rightarrow> True)
                        (schema_fail ''column capacity is below the strategy output length'')) (\<lambda>_.
                      bindr (validateKnownValues L pf column k info) (\<lambda>_. Inr (col, info))))))))"

definition plan_page_size :: "Options \<Rightarrow> PolicyDefaults option \<Rightarrow> TablePolicy \<Rightarrow> int" where
  "plan_page_size opts defaults rl =
     (case tp_PageSize rl of
        Some n \<Rightarrow> n
      | None \<Rightarrow> (case defaults of
            Some d \<Rightarrow> if pd_PageSize d > 0 then pd_PageSize d else o_PageSize opts
          | None \<Rightarrow> o_PageSize opts))"

definition planTable ::
  "lib \<Rightarrow> parse_flt \<Rightarrow> (string \<Rightarrow> projected) \<Rightarrow> catalog \<Rightarrow> Options \<Rightarrow> string \<Rightarrow> PolicyDefaults option \<Rightarrow> TablePolicy \<Rightarrow>
     gerr + tablePlan" where
  "planTable L pf fs cat opts database defaults rl =
     (let bare = \<lparr>TDatabase = database, TName = tp_Name rl, TPrimaryKey = [], Columns = [], IgnoreWhere = [],
            PageSize = o_PageSize opts\<rparr> in
      if \<not> is_ok (QuoteIdentifier (tp_Name rl))
      then Inl (schema_fail ''table name is not a supported SQL identifier'')
      else if tp_Action rl = TableActionTruncate
      then Inr \<lparr>pl_page = bare, pl_action = tp_Action rl, pl_columns = [], pl_metadata = []\<rparr>
      else
        bindr (readColumns cat database (tp_Name rl)) (\<lambda>metadata.
        bindr (readIndexes cat database (tp_Name rl)) (\<lambda>indexes.
        bindr (primaryKey (tp_PrimaryKey rl) metadata indexes) (\<lambda>key.
        bindr (mapr (planColumn L pf fs opts (case defaults of Some d \<Rightarrow> d | None \<Rightarrow> no_defaults) metadata)
            (tp_Columns rl)) (\<lambda>cols.
          (let page = bare\<lparr>TPrimaryKey := key, Columns := map (ci_name \<circ> snd) cols,
                 IgnoreWhere := (case tp_Ignore rl of Some w \<Rightarrow> w | None \<Rightarrow> []),
                 PageSize := plan_page_size opts defaults rl\<rparr> in
           if \<not> is_ok (Validate page)
           then Inl (schema_fail ''primary key mutation or invalid column identifiers'')
           else Inr \<lparr>pl_page = page, pl_action = tp_Action rl, pl_columns = map fst cols,
                  pl_metadata = map snd cols\<rparr>))))))"

definition planDatabase ::
  "lib \<Rightarrow> parse_flt \<Rightarrow> (string \<Rightarrow> projected) \<Rightarrow> catalog \<Rightarrow> Options \<Rightarrow> PolicyDefaults option \<Rightarrow> string \<Rightarrow> DatabasePolicy \<Rightarrow>
     gerr + databasePlan" where
  "planDatabase L pf fs cat opts defaults name rl =
     (if \<not> is_ok (QuoteIdentifier name)
      then Inl (schema_fail ''database name is not a supported SQL identifier'')
      else bindr (foldr_err (\<lambda>tables table.
          bindr (q_table cat name (tp_Name table)) (\<lambda>found.
            (case found of
               None \<Rightarrow> if tp_Optional table then Inr tables else Inl (schema_fail ''required table does not exist'')
             | Some (kind, engine) \<Rightarrow>
                 if kind \<noteq> ''BASE TABLE'' then Inl (schema_fail ''policy target is not a base table'')
                 else if tp_Action table \<noteq> TableActionTruncate \<and> engine \<noteq> Some ''InnoDB''
                 then Inl (schema_fail ''anonymization requires InnoDB for atomic page checkpoints'')
                 else bindr (planTable L pf fs cat opts name defaults table) (\<lambda>item. Inr (tables @ [item])))))
          [] (dp_Tables rl)) (\<lambda>tables.
        Inr \<lparr>dpl_name = name, dpl_policy = rl, dpl_tables = tables\<rparr>))"

text \<open>The parameter \<open>re_match\<close> is a match of an anchored expression; it is false where the
  expression does not compile.\<close>

definition matchesDatabase :: "(string \<Rightarrow> string \<Rightarrow> bool) \<Rightarrow> DatabasePolicy \<Rightarrow> string \<Rightarrow> bool" where
  "matchesDatabase re_match rl name =
     (if dp_Name rl \<noteq> [] then dp_Name rl = name else re_match (anchored (dp_NamePattern rl)) name)"

definition readSteps :: "(string \<Rightarrow> projected) \<Rightarrow> string \<Rightarrow> SQLStep list \<Rightarrow> gerr + (string \<times> string) list" where
  "readSteps fs dir steps =
     mapr (\<lambda>step.
       (case projectedPath dir [st_Name step @ ''.sql''] of
          Inl _ \<Rightarrow> Inl (Fail Policy_class ''invalid SQL step file path'')
        | Inr path \<Rightarrow>
            (case ReadFile fs path (2 ^ 20) of
               Inl _ \<Rightarrow> Inl (Fail Policy_class ''SQL step file is missing, empty or too large'')
             | Inr data \<Rightarrow>
                 if data = [] then Inl (Fail Policy_class ''SQL step file is missing, empty or too large'')
                 else Inr (st_Name step, data)))) steps"

text \<open>The planned databases of one rule, in the order of the matched names.\<close>

fun planMatches ::
  "lib \<Rightarrow> parse_flt \<Rightarrow> (string \<Rightarrow> projected) \<Rightarrow> catalog \<Rightarrow> Options \<Rightarrow> PolicyDefaults option \<Rightarrow> DatabasePolicy \<Rightarrow>
     string list \<times> databasePlan list \<Rightarrow> string list \<Rightarrow> gerr + (string list \<times> databasePlan list)" where
  "planMatches L pf fs cat opts defaults rl acc [] = Inr acc"
| "planMatches L pf fs cat opts defaults rl (seen, plans) (name # names) =
     (if name \<in> set seen \<or> name = ''_pxc_anonymizer''
      then Inl (Fail Policy_class ''overlapping or reserved database policy'')
      else bindr (planDatabase L pf fs cat opts defaults name rl) (\<lambda>item.
        planMatches L pf fs cat opts defaults rl (seen @ [name], plans @ [item]) names))"

definition preflight ::
  "lib \<Rightarrow> parse_flt \<Rightarrow> (string \<Rightarrow> string \<Rightarrow> bool) \<Rightarrow> (string \<Rightarrow> projected) \<Rightarrow> catalog \<Rightarrow> PolicySpec \<Rightarrow> Options \<Rightarrow>
     gerr + executionPlan" where
  "preflight L pf re_match fs cat spec opts =
     bindr (readSteps fs (o_StepsDir opts) (ps_Steps spec)) (\<lambda>steps.
     bindr (q_schemata cat) (\<lambda>names.
     bindr (foldr_err (\<lambda>acc rl.
         (let matched = filter (matchesDatabase re_match rl) names in
          if matched = [] \<and> \<not> dp_Optional rl
          then Inl (schema_fail ''required database or database pattern has no match'')
          else planMatches L pf fs cat opts (ps_Defaults spec) rl acc matched)) ([], []) (ps_Databases spec)) (\<lambda>(seen, plans).
       Inr \<lparr>ep_databases = plans,
            ep_steps = (\<lambda>n. case map_of (rev steps) n of Some body \<Rightarrow> body | None \<Rightarrow> []),
            ep_total = sum_list (map (length \<circ> dpl_tables) plans)\<rparr>)))"

section \<open>What a plan guarantees\<close>

lemma mapr_list_all: "mapr f xs = Inr ys \<Longrightarrow> (\<And>x y. f x = Inr y \<Longrightarrow> P y) \<Longrightarrow> list_all P ys"
proof (induction xs arbitrary: ys)
  case (Cons x xs)
  then show ?case by (auto simp: bindr_eq_Inr)
qed simp

lemma planColumn_ok:
  assumes "planColumn L pf fs opts d metadata r = Inr (c, info)"
  shows "column_ok c" "rule c = r" "metadata (ascii_lower (cr_Name r)) = Some info" "\<not> ci_generated info"
    "compatible r info (o_ReferenceTime opts) = Inr ()"
proof -
  obtain k where "Compile L r d k = Inr c"
    using assms by (auto simp: planColumn_def bindr_eq_Inr split: option.splits if_splits sum.splits)
  then show "column_ok c" "rule c = r" using Compile_column_ok by blast+
  show "metadata (ascii_lower (cr_Name r)) = Some info" "\<not> ci_generated info"
    "compatible r info (o_ReferenceTime opts) = Inr ()"
    using assms by (auto simp: planColumn_def bindr_eq_Inr split: option.splits if_splits sum.splits)
qed

lemma primaryKey_ok:
  assumes "primaryKey over columns indexes = Inr key"
  shows "key \<noteq> []" "\<exists>n ix. (n, ix) \<in> set indexes \<and> ix_unique ix \<and> ix_full ix \<and> ix_names ix = key"
    "\<forall>k \<in> set key. \<exists>n info. columns (ascii_lower n) = Some info \<and> ci_name info = k \<and> \<not> ci_nullable info"
proof -
  obtain key0 where k: "key0 \<noteq> []" "mapr (key_column columns) key0 = Inr key"
      "list_ex (\<lambda>(_, ix). ix_unique ix \<and> ix_full ix \<and> ix_names ix = key) indexes"
    using assms by (auto simp: primaryKey_def Let_def bindr_eq_Inr split: if_splits option.splits)
  show "key \<noteq> []" using k mapr_length [OF k(2)] by auto
  show "\<exists>n ix. (n, ix) \<in> set indexes \<and> ix_unique ix \<and> ix_full ix \<and> ix_names ix = key"
    using k(3) by (auto simp: list_ex_iff)
  have "list_all (\<lambda>x. \<exists>n info. columns (ascii_lower n) = Some info \<and> ci_name info = x \<and> \<not> ci_nullable info) key"
    using k(2) by (rule mapr_list_all) (auto simp: key_column_def split: option.splits if_splits)
  then show "\<forall>k \<in> set key. \<exists>n info. columns (ascii_lower n) = Some info \<and> ci_name info = k \<and> \<not> ci_nullable info"
    by (simp add: list_all_iff)
qed

section \<open>Properties\<close>


definition demo_catalog :: catalog where
  "demo_catalog = \<lparr>q_schemata = Inr [''shop''], q_table = (\<lambda>_ _. Inr (Some (''BASE TABLE'', Some ''InnoDB''))),
     q_columns = (\<lambda>_ _. Inr [
       \<lparr>rc_name = ''id'', rc_data_type = ''int'', rc_column_type = ''int'', rc_length = None, rc_is_nullable = ''NO'', rc_extra = []\<rparr>,
       \<lparr>rc_name = ''Email'', rc_data_type = ''varchar'', rc_column_type = ''varchar(80)'', rc_length = Some 80,
        rc_is_nullable = ''YES'', rc_extra = []\<rparr>]),
     q_indexes = (\<lambda>_ _. Inr [\<lparr>ri_name = ''PRIMARY'', ri_non_unique = 0, ri_column = Some ''id'', ri_sub_part = None\<rparr>])\<rparr>"

definition demo_options :: Options where
  "demo_options = \<lparr>o_PolicyJSON = [], o_Seed = replicate 32 (CHR ''s''), o_RunUID = ''uid-1'',
     o_ReferenceTime = 63713433600000000000, o_Workers = 4, o_PageSize = 5000, o_DisableBinlog = False,
     o_DryRun = False, o_StepsDir = ''/steps'', o_ConstantsDir = ''/constants''\<rparr>"

definition demo_rule :: TablePolicy where
  "demo_rule = \<lparr>tp_Name = ''users'', tp_Action = ''Anonymize'', tp_Optional = False, tp_PrimaryKey = [],
     tp_Ignore = None, tp_Columns = [(sample_rule ''email'' no_params)\<lparr>cr_Name := ''email''\<rparr>], tp_PageSize = Some 10\<rparr>"

definition demo_plan :: tablePlan where
  "demo_plan = projr (planTable sample_lib (\<lambda>_ _. None) (\<lambda>_. NoFile) demo_catalog demo_options ''shop'' None demo_rule)"


lemma parse_big_dec: "parse_big (int_dec i) = Some i"
proof (cases "i < 0")
  case False
  obtain c t where ct: "nat_dec (nat i) = c # t" "c \<noteq> CHR ''-''" "c \<noteq> CHR ''+''"
    using nat_dec_Cons by blast
  have "parse_nat (c # t) = Some (nat i)" using ct(1) parse_nat_dec by metis
  then show ?thesis using False ct by (simp add: int_dec_def parse_big_def)
qed (simp add: int_dec_def parse_big_def)

definition column_range :: "columnInfo \<Rightarrow> int \<times> int" where
  "column_range column =
     (let bits = int_bits (ci_kind column) in
      if unsigned column then (0, 2 ^ bits - 1) else (- (2 ^ (bits - 1)), 2 ^ (bits - 1) - 1))"

lemma integer_check_iff:
  assumes "int_bits (ci_kind column) \<noteq> 0"
  shows "integer_check value column = Inr () \<longleftrightarrow>
    (\<exists>i. parse_big value = Some i \<and> length value \<le> 21 \<and> fst (column_range column) \<le> i \<and> i \<le> snd (column_range column))"
  using assms by (auto simp: integer_check_def column_range_def Let_def guardr_def split: option.splits)

lemma other_checks: "int_bits k \<noteq> 0 \<Longrightarrow> k \<noteq> ''decimal'' \<and> k \<noteq> ''float'' \<and> k \<noteq> ''double'' \<and> k \<notin> set [''date'', ''datetime'', ''timestamp'']"
  by (auto simp: int_bits_def)

lemma numericValue_integer:
  "int_bits (ci_kind column) \<noteq> 0 \<Longrightarrow> numericValue pf value column = integer_check value column"
  using other_checks [of "ci_kind column"]
  by (cases "integer_check value column") (simp_all add: numericValue_def decimal_check_def float_check_def)

text \<open>A number column that passes the plan never fails a row: where the smallest and the
  largest number of a rule are accepted for an integer column, every number between them is
  accepted as a replacement, and lies in the range of the column's type and sign.\<close>

theorem number_rule_fits_column:
  assumes "validateKnownValues L pf r k column = Inr ()" "cr_Strategy r = StrategyNumber"
    and "cr_Params r = Some p" "Min p = Some lo" "Max p = Some hi"
    and "int_bits (ci_kind column) \<noteq> 0" "ci_length column = None" "int64_range i" "lo \<le> i" "i \<le> hi"
  shows "validateValue L pf (VInt64 i) column = Inr () \<and>
    fst (column_range column) \<le> i \<and> i \<le> snd (column_range column)"
proof -
  have val: "validateValue L pf (VInt64 x) column = integer_check (int_dec x) column" for x
    using assms(6,7) other_checks [OF assms(6)]
    by (cases "integer_check (int_dec x) column")
      (simp_all add: validateValue_def inputString_def Let_def numericValue_integer)
  have "integer_check (int_dec lo) column = Inr ()" "integer_check (int_dec hi) column = Inr ()"
    using assms(1-5) by (simp_all add: validateKnownValues_def or_default_def bindr_eq_Inr val)
  then have "fst (column_range column) \<le> lo" "hi \<le> snd (column_range column)"
    by (auto simp: integer_check_iff [OF assms(6)] parse_big_dec)
  then have r: "fst (column_range column) \<le> i" "i \<le> snd (column_range column)" using assms(9,10) by linarith+
  moreover have "length (int_dec i) \<le> 21" using int_dec_length [OF assms(8)] by simp
  ultimately show ?thesis unfolding val by (simp add: integer_check_iff [OF assms(6)] parse_big_dec)
qed

definition tiny :: columnInfo where
  "tiny = \<lparr>ci_name = ''n'', ci_kind = ''tinyint'', ci_fullType = ''tinyint unsigned'', ci_length = None,
     ci_nullable = False, ci_generated = False\<rparr>"

theorem number_rule_fits_column_witness:
  "validateValue sample_lib (\<lambda>_ _. None) (VInt64 77) tiny = Inr () \<and> 77 \<le> snd (column_range tiny)"
proof -
  let ?p = "no_params\<lparr>Min := Some 0, Max := Some 255\<rparr>"
  have "validateKnownValues sample_lib (\<lambda>_ _. None) (sample_rule StrategyNumber ?p) None tiny = Inr ()" by code_simp
  from number_rule_fits_column [OF this, of ?p 0 255 77] show ?thesis
    by (simp add: sample_rule_def tiny_def int_bits_def int64_range_def)
qed

end
