(* ===== verification/Sqlstep.thy ===== *)
theory Sqlstep
  imports Pager
begin

text \<open>
  \<open>internal/runner/sqlstep/sqlstep.go\<close>: SQL steps run at most once.  A durable intent is
  committed before the body is sent, so that a step whose outcome is unknown is refused on the
  next attempt instead of being replayed.  Every call of the database can fail, every commit can
  be ambiguous, and a body that fails may have changed the tables in any way.
\<close>

section \<open>Sending a body\<close>

text \<open>One result set: the error of \<open>Columns\<close>, the outcome of each \<open>Scan\<close>, the error that
  \<open>Err\<close> reports after the last row.\<close>

record result_set =
  columns_err :: "gerr option"
  scan_errs :: "gerr option list"
  rows_err :: "gerr option"

record step_env =
  sbegin_err :: "gerr option"
  sload_err :: "gerr option"
  ssave_err :: "gerr option"
  scommit_err :: "gerr option"
  scommit_applied :: bool
  use_err :: "gerr option"
  query_err :: "gerr option"
  first_set :: result_set
  more_sets :: "result_set list"
  end_err :: "gerr option"
  close_err :: "gerr option"
  body_effect :: "(tname \<Rightarrow> trow list) \<Rightarrow> (tname \<Rightarrow> trow list)"
  cbegin_err :: "gerr option"
  csave_err :: "gerr option"
  ccommit_err :: "gerr option"
  ccommit_applied :: bool

fun drain :: "result_set \<Rightarrow> result_set list \<Rightarrow> gerr option \<Rightarrow> gerr option \<Rightarrow> gerr + unit" where
  "drain rs sets e_end e_close =
     bindr (call (columns_err rs)) (\<lambda>_.
     bindr (each call (scan_errs rs)) (\<lambda>_.
     bindr (call (rows_err rs)) (\<lambda>_.
       (case sets of
          [] \<Rightarrow> bindr (call e_end) (\<lambda>_. call e_close)
        | r # sets' \<Rightarrow> drain r sets' e_end e_close))))"

declare drain.simps [simp del]

text \<open>The checks of \<open>Execute\<close> before anything is sent.\<close>

definition execute_checks :: "string \<Rightarrow> string \<Rightarrow> gerr + unit" where
  "execute_checks database body =
     bindr (QuoteIdentifier database) (\<lambda>_. guardr (body \<noteq> []) (EPlain ''SQL step body is empty''))"

definition Execute :: "step_env \<Rightarrow> string \<Rightarrow> string \<Rightarrow> bool \<Rightarrow> db \<Rightarrow> db \<times> (gerr + unit)" where
  "Execute env database body dryRun s =
     (case execute_checks database body of
        Inl e \<Rightarrow> (s, Inl e)
      | Inr _ \<Rightarrow>
          if dryRun then (s, Inr ())
          else (case call (use_err env) of
                  Inl e \<Rightarrow> (s, Inl e)
                | Inr _ \<Rightarrow>
                    (s\<lparr>Tabs := body_effect env (Tabs s), StepLog := StepLog s @ [(database, body)]\<rparr>,
                     bindr (call (query_err env)) (\<lambda>_.
                       drain (first_set env) (more_sets env) (end_err env) (close_err env)))))"

section \<open>Running a step\<close>

text \<open>The transaction that records the intent: \<open>None\<close> where the step is already done.\<close>

definition intent_tx :: "codec \<Rightarrow> step_env \<Rightarrow> Key \<Rightarrow> db \<Rightarrow> gerr + db option" where
  "intent_tx c env key s =
     bindr (call (sbegin_err env)) (\<lambda>_.
     bindr (call (sload_err env)) (\<lambda>_.
     bindr (Load c key (Prog s)) (\<lambda>progress.
       if Exists progress then (if Done progress then Inr None else Inl EUncertain)
       else bindr (call (ssave_err env)) (\<lambda>_.
            bindr (Save c key no_progress (Prog s)) (\<lambda>prog'. Inr (Some (s\<lparr>Prog := prog'\<rparr>)))))))"

definition complete_tx :: "codec \<Rightarrow> step_env \<Rightarrow> Key \<Rightarrow> db \<Rightarrow> gerr + db" where
  "complete_tx c env key s =
     bindr (call (cbegin_err env)) (\<lambda>_.
     bindr (call (csave_err env)) (\<lambda>_.
     bindr (Save c key (no_progress\<lparr>Done := True\<rparr>) (Prog s)) (\<lambda>prog'. Inr (s\<lparr>Prog := prog'\<rparr>))))"

definition complete :: "codec \<Rightarrow> step_env \<Rightarrow> Key \<Rightarrow> db \<Rightarrow> db \<times> (gerr + bool)" where
  "complete c env key s =
     (case complete_tx c env key s of
        Inl e \<Rightarrow> (s, Inl (EJoin [EUncertain, e]))
      | Inr s' \<Rightarrow>
          (case commit (ccommit_err env) (ccommit_applied env) s s' True of
             (s'', Inl e) \<Rightarrow> (s'', Inl (EJoin [EUncertain, e]))
           | (s'', Inr b) \<Rightarrow> (s'', Inr b)))"

definition Run :: "codec \<Rightarrow> step_env \<Rightarrow> string \<Rightarrow> string \<Rightarrow> Key \<Rightarrow> bool \<Rightarrow> db \<Rightarrow> db \<times> (gerr + bool)" where
  "Run c env database body key dryRun s =
     (if Kind key \<noteq> ''step'' \<or> KDatabase key \<noteq> database
      then (s, Inl (EPlain ''SQL step checkpoint identity is invalid''))
      else if dryRun
      then (case Execute env database body True s of (s', r) \<Rightarrow> (s', bindr r (\<lambda>_. Inr False)))
      else (case intent_tx c env key s of
              Inl e \<Rightarrow> (s, Inl e)
            | Inr None \<Rightarrow> (s, Inr False)
            | Inr (Some s1) \<Rightarrow>
                (case commit (scommit_err env) (scommit_applied env) s s1 () of
                   (s2, Inl e) \<Rightarrow> (s2, Inl e)
                 | (s2, Inr _) \<Rightarrow>
                     (case Execute env database body False s2 of
                        (s3, Inl e) \<Rightarrow> (s3, Inl (EJoin [EUncertain, e]))
                      | (s3, Inr _) \<Rightarrow> complete c env key s3))))"

section \<open>Truncation outside a step\<close>

text \<open>The session state of a pooled connection.\<close>

record conn =
  fk_checks :: bool
  bad_conn :: bool

record truncate_env =
  off_err :: "gerr option"
  truncate_err :: "gerr option"
  reset_err :: "gerr option"

text \<open>The deferred reset of the constraint checks, shared with the engine: on failure the
  connection is given up.\<close>

definition reset_checks :: "gerr option \<Rightarrow> conn \<Rightarrow> gerr + 'a \<Rightarrow> conn \<times> (gerr + 'a)" where
  "reset_checks err cn r =
     (case err of
        None \<Rightarrow> (cn\<lparr>fk_checks := True\<rparr>, r)
      | Some e \<Rightarrow> (cn\<lparr>bad_conn := True\<rparr>,
          Inl (EJoin (case r of Inl e0 \<Rightarrow> [e0, e] | Inr _ \<Rightarrow> [e]))))"

definition Truncate ::
  "truncate_env \<Rightarrow> string \<Rightarrow> string \<Rightarrow> bool \<Rightarrow> conn \<times> (tname \<Rightarrow> trow list) \<Rightarrow>
     (conn \<times> (tname \<Rightarrow> trow list)) \<times> (gerr + unit)" where
  "Truncate env database table dryRun st =
     (case bindr (QuoteIdentifier database) (\<lambda>_. QuoteIdentifier table) of
        Inl e \<Rightarrow> (st, Inl e)
      | Inr _ \<Rightarrow>
          if dryRun then (st, Inr ())
          else (case off_err env of
                  Some e \<Rightarrow> (st, Inl e)
                | None \<Rightarrow>
                    (let cn = (fst st)\<lparr>fk_checks := False\<rparr>;
                         tabs = (if truncate_err env = None then (snd st)((database, table) := []) else snd st);
                         (cn', r) = reset_checks (reset_err env) cn (call (truncate_err env))
                     in ((cn', tabs), r))))"

section \<open>At most once\<close>

definition step_state :: "codec \<Rightarrow> Key \<Rightarrow> db \<Rightarrow> gerr + Progress" where
  "step_state c key s = Load c key (Prog s)"

lemma Execute_effect:
  assumes "Execute env database body False s = (s', r)"
  shows "Prog s' = Prog s" "StepLog s' = StepLog s \<or> StepLog s' = StepLog s @ [(database, body)]"
    "r = Inr u \<Longrightarrow> StepLog s' = StepLog s @ [(database, body)]"
  using assms by (auto simp: Execute_def call_def split: sum.splits option.splits if_splits)

lemma intent_tx_Some:
  assumes "intent_tx c env key s = Inr (Some s1)"
  shows "Load c key (Prog s) = Inr no_progress" "Load c key (Prog s1) = Inr (no_progress\<lparr>Exists := True\<rparr>)"
    "StepLog s1 = StepLog s" "Tabs s1 = Tabs s"
proof -
  obtain p q where p: "Load c key (Prog s) = Inr p" "\<not> Exists p" "Save c key no_progress (Prog s) = Inr q"
      "s1 = s\<lparr>Prog := q\<rparr>"
    using assms by (auto simp: intent_tx_def bindr_eq_Inr split: if_splits)
  then show "Load c key (Prog s) = Inr no_progress" using cp.load_absent by blast
  then show "Load c key (Prog s1) = Inr (no_progress\<lparr>Exists := True\<rparr>)"
    using cp.load_save [OF p(3)] cp.keeps_Nil p(4) by (simp add: no_progress_def)
  show "StepLog s1 = StepLog s" "Tabs s1 = Tabs s" using p(4) by simp_all
qed

lemma intent_tx_None:
  "intent_tx c env key s = Inr None \<Longrightarrow> \<exists>p. Load c key (Prog s) = Inr p \<and> Exists p \<and> Done p"
  by (auto simp: intent_tx_def bindr_eq_Inr split: if_splits)

lemma complete_effect:
  assumes "complete c env key s = (s', r)" "Load c key (Prog s) = Inr (no_progress\<lparr>Exists := True\<rparr>)"
  shows "StepLog s' = StepLog s"
    "Load c key (Prog s') = Inr (no_progress\<lparr>Exists := True\<rparr>) \<or>
     Load c key (Prog s') = Inr (no_progress\<lparr>Exists := True, Done := True\<rparr>)"
    "r = Inr b \<Longrightarrow> b \<and> Load c key (Prog s') = Inr (no_progress\<lparr>Exists := True, Done := True\<rparr>)"
    "r = Inl e \<Longrightarrow> is_uncertain e"
proof -
  have sv: "Load c key (Prog s1) = Inr (no_progress\<lparr>Exists := True, Done := True\<rparr>) \<and> StepLog s1 = StepLog s"
    if "complete_tx c env key s = Inr s1" for s1
    using that cp.load_save [of c key "no_progress\<lparr>Done := True\<rparr>" "Prog s"] assms(2) cp.keeps_Nil
    by (auto simp: complete_tx_def bindr_eq_Inr no_progress_def)
  show "StepLog s' = StepLog s"
    "Load c key (Prog s') = Inr (no_progress\<lparr>Exists := True\<rparr>) \<or>
     Load c key (Prog s') = Inr (no_progress\<lparr>Exists := True, Done := True\<rparr>)"
    "r = Inr b \<Longrightarrow> b \<and> Load c key (Prog s') = Inr (no_progress\<lparr>Exists := True, Done := True\<rparr>)"
    "r = Inl e \<Longrightarrow> is_uncertain e"
    using assms sv by (auto simp: complete_def commit_def split: sum.splits option.splits if_splits)
qed

text \<open>The histories of one step: \<open>step_runs c database body key s n\<close> says that state \<open>s\<close> can be
  reached with the body sent \<open>n\<close> times.\<close>

inductive step_runs :: "codec \<Rightarrow> string \<Rightarrow> string \<Rightarrow> Key \<Rightarrow> db \<Rightarrow> nat \<Rightarrow> bool"
  for c database body key where
  start: "step_state c key s = Inr no_progress \<Longrightarrow> step_runs c database body key s 0"
| run: "step_runs c database body key s n \<Longrightarrow> Run c env database body key dryRun s = (s', r) \<Longrightarrow>
    step_runs c database body key s' (n + (length (StepLog s') - length (StepLog s)))"
| others: "step_runs c database body key s n \<Longrightarrow> step_state c key s' = step_state c key s \<Longrightarrow>
    step_runs c database body key s' n"

definition step_inv :: "codec \<Rightarrow> Key \<Rightarrow> db \<Rightarrow> nat \<Rightarrow> bool" where
  "step_inv c key s n \<longleftrightarrow>
     step_state c key s = Inr no_progress \<and> n = 0 \<or>
     step_state c key s = Inr (no_progress\<lparr>Exists := True\<rparr>) \<and> n \<le> 1 \<or>
     step_state c key s = Inr (no_progress\<lparr>Exists := True, Done := True\<rparr>) \<and> n = 1"

lemma no_progress_neq [simp]:
  "no_progress\<lparr>Exists := True\<rparr> \<noteq> no_progress" "no_progress \<noteq> no_progress\<lparr>Exists := True\<rparr>"
  "no_progress\<lparr>Exists := True, Done := True\<rparr> \<noteq> no_progress"
  "no_progress \<noteq> no_progress\<lparr>Exists := True, Done := True\<rparr>"
  "no_progress\<lparr>Exists := True, Done := True\<rparr> \<noteq> no_progress\<lparr>Exists := True\<rparr>"
  "\<not> Exists no_progress" "\<not> Done no_progress" "RowsDone no_progress = 0" "LastPK no_progress = []"
  by (simp_all add: no_progress_def)

text \<open>What one run does, by the state it starts in.\<close>

lemma Run_absent:
  assumes "Run c env database body key False s = (s', r)" "step_state c key s = Inr no_progress"
  shows "step_inv c key s' (length (StepLog s') - length (StepLog s))"
    and "r = Inr b \<Longrightarrow> step_state c key s' = Inr (no_progress\<lparr>Exists := True, Done := True\<rparr>)"
proof -
  let ?P = "step_inv c key s' (length (StepLog s') - length (StepLog s)) \<and>
    (\<forall>b. r = Inr b \<longrightarrow> step_state c key s' = Inr (no_progress\<lparr>Exists := True, Done := True\<rparr>))"
  have ?P
  proof (cases "Kind key \<noteq> ''step'' \<or> KDatabase key \<noteq> database \<or> (\<forall>s1. intent_tx c env key s \<noteq> Inr (Some s1))")
    case True
    have "s' = s \<and> \<not> is_ok r"
      using assms True intent_tx_None [of c env key s]
      by (auto simp: Run_def step_state_def split: sum.splits option.splits if_splits)
    then show ?thesis using assms(2) by (auto simp: step_inv_def)
  next
    case False
    then obtain s1 where i: "intent_tx c env key s = Inr (Some s1)" by blast
    note i1 = intent_tx_Some [OF i]
    obtain s2 r2 where c2: "commit (scommit_err env) (scommit_applied env) s s1 () = (s2, r2)" by fastforce
    show ?thesis
    proof (cases r2)
      case (Inl e)
      then show ?thesis using assms False i c2 i1
        by (auto simp: Run_def commit_def step_inv_def step_state_def split: option.splits if_splits)
    next
      case (Inr u)
      then have s2: "s2 = s1" using c2 by (auto simp: commit_def split: option.splits if_splits)
      obtain s3 r3 where e: "Execute env database body False s1 = (s3, r3)" by fastforce
      note e1 = Execute_effect [OF e]
      have l3: "Load c key (Prog s3) = Inr (no_progress\<lparr>Exists := True\<rparr>)" using e1(1) i1(2) by simp
      show ?thesis
      proof (cases r3)
        case (Inl e')
        then have "s' = s3" "r = Inl (EJoin [EUncertain, e'])"
          using assms(1) False i c2 \<open>r2 = Inr u\<close> s2 e by (auto simp: Run_def)
        then show ?thesis using l3 e1(2) i1(3) by (auto simp: step_inv_def step_state_def)
      next
        case (Inr u')
        then have cm: "complete c env key s3 = (s', r)"
          using assms(1) False i c2 \<open>r2 = Inr u\<close> s2 e by (auto simp: Run_def)
        have "length (StepLog s') - length (StepLog s) = 1"
          using complete_effect(1) [OF cm l3] e1(3) Inr i1(3) by simp
        then show ?thesis
          using complete_effect(2,3) [OF cm l3] by (auto simp: step_inv_def step_state_def)
      qed
    qed
  qed
  then show "step_inv c key s' (length (StepLog s') - length (StepLog s))"
    "r = Inr b \<Longrightarrow> step_state c key s' = Inr (no_progress\<lparr>Exists := True, Done := True\<rparr>)" by blast+
qed

lemma Run_present:
  assumes "Run c env database body key False s = (s', r)" "step_state c key s = Inr p" "Exists p"
  shows "s' = s" "r = Inr b \<Longrightarrow> Done p"
  using assms by (auto simp: Run_def step_state_def intent_tx_def bindr_eq_Inr split: sum.splits option.splits if_splits)

lemma Run_dry:
  assumes "Run c env database body key True s = (s', r)"
  shows "s' = s"
  using assms by (auto simp: Run_def Execute_def split: sum.splits if_splits)

lemma step_runs_inv: "step_runs c database body key s n \<Longrightarrow> step_inv c key s n"
proof (induction rule: step_runs.induct)
  case (start s)
  then show ?case by (simp add: step_inv_def)
next
  case (run s n env dryRun s' r)
  show ?case
  proof (cases dryRun)
    case True
    then have "s' = s" using run.hyps(2) by (auto dest: Run_dry)
    then show ?thesis using run.IH by simp
  next
    case False
    then have R: "Run c env database body key False s = (s', r)" using run.hyps(2) by simp
    show ?thesis
    proof (cases "step_state c key s = Inr no_progress")
      case True
      then show ?thesis using Run_absent(1) [OF R True] run.IH by (auto simp: step_inv_def)
    next
      case False
      then obtain p where "step_state c key s = Inr p" "Exists p"
        using run.IH by (auto simp: step_inv_def)
      then show ?thesis using Run_present(1) [OF R] run.IH by simp
    qed
  qed
next
  case (others s n s')
  then show ?case by (simp add: step_inv_def)
qed

section \<open>Properties\<close>

text \<open>C5 (safety).  A SQL step is sent to the server at most once over its whole history, whatever
  calls fail, whichever commits are ambiguous and however often the runner is restarted; and
  when a run reports success, now or because an earlier run finished it, the body has been sent
  exactly once.\<close>

theorem sqlstep_at_most_once:
  assumes "step_runs c database body key s n"
  shows "n \<le> 1 \<and>
    (\<forall>env s' b. Run c env database body key False s = (s', Inr b) \<longrightarrow>
       n + (length (StepLog s') - length (StepLog s)) = 1)"
proof (intro conjI allI impI)
  note inv = step_runs_inv [OF assms]
  show "n \<le> 1" using inv by (auto simp: step_inv_def)
  fix env s' b
  assume R: "Run c env database body key False s = (s', Inr b)"
  show "n + (length (StepLog s') - length (StepLog s)) = 1"
  proof (cases "step_state c key s = Inr no_progress")
    case True
    then show ?thesis using Run_absent [OF R True] inv by (auto simp: step_inv_def)
  next
    case False
    then obtain p where p: "step_state c key s = Inr p" "Exists p" using inv by (auto simp: step_inv_def)
    then show ?thesis using Run_present [OF R p] inv by (auto simp: step_inv_def)
  qed
qed

text \<open>C13 (safety).  An interrupted step is never replayed: once the intent is stored and not
  completed, a run sends nothing, changes nothing and fails, with the error of uncertain outcome
  whenever the database can be read.\<close>

theorem sqlstep_uncertain_refused:
  assumes "step_state c key s = Inr p" "Exists p" "\<not> Done p"
    and "Kind key = ''step''" "KDatabase key = database"
  shows "\<exists>e. Run c env database body key False s = (s, Inl e) \<and>
    (sbegin_err env = None \<and> sload_err env = None \<longrightarrow> e = EUncertain)"
  using assms
  by (cases "sbegin_err env"; cases "sload_err env") (auto simp: Run_def step_state_def intent_tx_def)

definition step_key :: Key where
  "step_key = \<lparr>RunUID = ''uid-1'', Kind = ''step'', KDatabase = ''shop'', KName = ''pre:0:clean'',
     PolicyHash = ''sha256:aa''\<rparr>"

definition quiet :: step_env where
  "quiet = \<lparr>sbegin_err = None, sload_err = None, ssave_err = None, scommit_err = None,
     scommit_applied = True, use_err = None, query_err = None,
     first_set = \<lparr>columns_err = None, scan_errs = [None], rows_err = None\<rparr>, more_sets = [],
     end_err = None, close_err = None, body_effect = (\<lambda>t. t),
     cbegin_err = None, csave_err = None, ccommit_err = None, ccommit_applied = True\<rparr>"

definition empty_db :: db where
  "empty_db = \<lparr>Prog = Some Map.empty, Tabs = (\<lambda>_. []), StepLog = []\<rparr>"

definition crashed :: db where
  "crashed = fst (Run sample_codec (quiet\<lparr>cbegin_err := Some (EPlain ''gone'')\<rparr>) ''shop'' ''DELETE FROM t''
     step_key False empty_db)"

lemma empty_db_start: "step_state sample_codec step_key empty_db = Inr no_progress"
  by (simp add: step_state_def empty_db_def Load_def validate_def step_key_def)

lemma crashed_state:
  "step_state sample_codec step_key crashed = Inr (no_progress\<lparr>Exists := True\<rparr>)" "length (StepLog crashed) = 1"
  by code_simp+

definition finished :: "db \<times> (gerr + bool)" where
  "finished = Run sample_codec quiet ''shop'' ''DELETE FROM t'' step_key False empty_db"

lemma finished_ok: "snd finished = Inr True"
  by code_simp

theorem sqlstep_at_most_once_witness:
  "snd finished = Inr True \<and> 0 + (length (StepLog (fst finished)) - length (StepLog empty_db)) = 1"
proof -
  have r: "step_runs sample_codec ''shop'' ''DELETE FROM t'' step_key empty_db 0"
    by (rule step_runs.start [OF empty_db_start])
  have "Run sample_codec quiet ''shop'' ''DELETE FROM t'' step_key False empty_db = (fst finished, Inr True)"
    using finished_ok by (simp add: finished_def [symmetric] prod_eq_iff)
  then show ?thesis using sqlstep_at_most_once [OF r] finished_ok by blast
qed

theorem sqlstep_uncertain_refused_witness:
  "Run sample_codec quiet ''shop'' ''DELETE FROM t'' step_key False crashed = (crashed, Inl EUncertain)"
  using sqlstep_uncertain_refused [OF crashed_state(1), of "''shop''" quiet "''DELETE FROM t''"]
  by (simp add: step_key_def quiet_def)

text \<open>A pooled connection never keeps its constraint checks disabled: after
  \<open>Truncate\<close>, on every path, either foreign key checks are on or the connection is given up.\<close>

theorem Truncate_restores_checks:
  assumes "Truncate env database table dryRun (cn, tabs) = ((cn', tabs'), r)" "fk_checks cn"
  shows "(fk_checks cn' \<or> bad_conn cn') \<and>
    (r = Inr () \<and> \<not> dryRun \<longrightarrow> fk_checks cn' \<and> tabs' = tabs((database, table) := []))"
  using assms
  by (auto simp: Truncate_def reset_checks_def Let_def call_def split: sum.splits option.splits if_splits prod.splits)

theorem Truncate_restores_checks_witness:
  "(let ((cn', tabs'), r) = Truncate \<lparr>off_err = None, truncate_err = None, reset_err = Some (EPlain ''gone'')\<rparr>
      ''shop'' ''users'' False (\<lparr>fk_checks = True, bad_conn = False\<rparr>, \<lambda>_. [])
    in fk_checks cn' \<or> bad_conn cn')"
proof -
  obtain cn' tabs' r where t: "Truncate \<lparr>off_err = None, truncate_err = None, reset_err = Some (EPlain ''gone'')\<rparr>
      ''shop'' ''users'' False (\<lparr>fk_checks = True, bad_conn = False\<rparr>, \<lambda>_. []) = ((cn', tabs'), r)"
    by (metis prod.exhaust)
  show ?thesis unfolding t using Truncate_restores_checks [OF t] by simp
qed

end
