(* ===== verification/Engine.thy ===== *)
theory Engine
  imports Preflight Sqlstep
begin

text \<open>
  \<open>internal/runner/engine/engine.go\<close>: a run connects, plans, records its checkpoints, runs the
  SQL steps and the tables of every planned database, and drops the checkpoints at the end.
  Each call of the outside world can fail; the environment gives the outcome of each.  The
  workers of one database are run one after another here; the interleaving of their
  transactions is part of the state machine of \<open>Paging\<close>, whose histories contain the steps of
  other workers.
\<close>

section \<open>Environment and state\<close>

record engine_env =
  ev_ping :: "nat \<Rightarrow> gerr option"
  ev_control :: "gerr option"
  ev_ensure :: "gerr option"
  ev_drop :: "gerr option"
  ev_step :: "Key \<Rightarrow> step_env"
  ev_conn :: "tname \<Rightarrow> nat \<Rightarrow> gerr option"
  ev_page :: "tname \<Rightarrow> nat \<Rightarrow> page_env"
  ev_ctx :: "tname \<Rightarrow> nat \<Rightarrow> Row \<Rightarrow> gerr option"
  ev_pause :: "tname \<Rightarrow> nat \<Rightarrow> gerr option"
  ev_reset :: "tname \<Rightarrow> gerr option"

record execution =
  ex_db :: db
  ex_tables :: int
  ex_total :: int
  ex_rows :: int
  ex_steps :: int
  ex_seen :: "string \<Rightarrow> int"
  ex_hash :: string
  ex_message :: string

text \<open>Fixed arguments of a run.\<close>

record 'o setting =
  s_codec :: codec
  s_server :: "'o server"
  s_lib :: lib
  s_pf :: parse_flt
  s_options :: Options
  s_gen :: Generator

definition engine_key :: "Options \<Rightarrow> string \<Rightarrow> string \<Rightarrow> string \<Rightarrow> string \<Rightarrow> Key" where
  "engine_key opts hash database name kind =
     \<lparr>RunUID = o_RunUID opts, Kind = kind, KDatabase = database, KName = name, PolicyHash = hash\<rparr>"

section \<open>Connecting\<close>

text \<open>\<open>connect\<close> with its deadline of 300 seconds: the pause of a delay fails once the deadline
  would pass, and the delay doubles up to ten seconds.\<close>

definition deadline_exceeded :: gerr where
  "deadline_exceeded = EPlain ''context deadline exceeded''"

function connect_loop :: "(nat \<Rightarrow> gerr option) \<Rightarrow> nat \<Rightarrow> nat \<Rightarrow> nat \<Rightarrow> gerr + unit" where
  "connect_loop ping i elapsed delay =
     (case ping i of
        None \<Rightarrow> Inr ()
      | Some e \<Rightarrow>
          if fst (Classify e) \<noteq> Transient then Inl e
          else if delay = 0 \<or> elapsed + delay > 300 then Inl deadline_exceeded
          else connect_loop ping (i + 1) (elapsed + delay) (min (delay * 2) 10))"
  by pat_completeness auto
termination by (relation "measure (\<lambda>(_, _, elapsed, _). 301 - elapsed)") auto

declare connect_loop.simps [simp del]

definition connect :: "(nat \<Rightarrow> gerr option) \<Rightarrow> gerr + unit" where
  "connect ping = connect_loop ping 0 0 1"

section \<open>One table\<close>

text \<open>\<open>json.Marshal\<close> of a key value; the error case is a float that JSON cannot hold.\<close>

definition json_value :: "lib \<Rightarrow> anyval \<Rightarrow> string" where
  "json_value L v =
     (case v of
        VNil \<Rightarrow> ''null'' | VBytes b \<Rightarrow> [CHR 0x22] @ b64_encode b @ [CHR 0x22] | VString s \<Rightarrow> json_string s
      | VInt64 i \<Rightarrow> int_dec i | VUint64 i \<Rightarrow> int_dec i | VFloat64 f \<Rightarrow> float_text L f
      | VBool b \<Rightarrow> (if b then ''true'' else ''false'') | VTime t \<Rightarrow> json_string (time_text L t) | VOther s \<Rightarrow> s)"

definition json_key :: "lib \<Rightarrow> anyval list \<Rightarrow> string" where
  "json_key L vs = ''['' @ str_join (map (json_value L) vs) '','' @ '']''"

fun transform_columns ::
  "lib \<Rightarrow> parse_flt \<Rightarrow> Generator \<Rightarrow> Table \<Rightarrow> string \<Rightarrow> nat \<Rightarrow> Column list \<Rightarrow> columnInfo list \<Rightarrow> string list \<Rightarrow>
     anyval list \<Rightarrow> gerr + anyval list" where
  "transform_columns L pf g T pk retry (c # cs) (info # infos) (name # names) (v # vs) =
     (case Generate L g c v \<lparr>g_Database = TDatabase T, g_Table = TName T, g_PrimaryKey = pk, g_Column = name\<rparr> retry of
        Inl _ \<Rightarrow> Inl (Fail Policy_class ''strategy generation failed'')
      | Inr x \<Rightarrow>
          bindr (validateValue L pf x info) (\<lambda>_.
          bindr (transform_columns L pf g T pk retry cs infos names vs) (\<lambda>xs. Inr (x # xs))))"
| "transform_columns L pf g T pk retry _ _ _ _ = Inr []"

definition transform :: "'o setting \<Rightarrow> tablePlan \<Rightarrow> Row \<Rightarrow> gerr + anyval list" where
  "transform st plan row =
     transform_columns (s_lib st) (s_pf st) (s_gen st) (pl_page plan) (json_key (s_lib st) (PrimaryKey row))
       (Retry row) (pl_columns plan) (pl_metadata plan) (Columns (pl_page plan)) (Values row)"

text \<open>The closure first asks whether its context was cancelled.\<close>

definition with_ctx :: "(Row \<Rightarrow> gerr option) \<Rightarrow> (Row \<Rightarrow> gerr + anyval list) \<Rightarrow> Row \<Rightarrow> gerr + anyval list" where
  "with_ctx cancelled tr row = (case cancelled row of Some e \<Rightarrow> Inl e | None \<Rightarrow> tr row)"

definition progress :: "tablePlan \<Rightarrow> Progress \<Rightarrow> execution \<Rightarrow> execution" where
  "progress plan p ex =
     (let key = TDatabase (pl_page plan) @ ''.'' @ TName (pl_page plan) in
      ex\<lparr>ex_rows := wrap64 (ex_rows ex + (RowsDone p - ex_seen ex key)),
         ex_seen := (ex_seen ex)(key := RowsDone p),
         ex_tables := (if Done p then ex_tables ex + 1 else ex_tables ex)\<rparr>)"

definition table_key :: "'o setting \<Rightarrow> string \<Rightarrow> tablePlan \<Rightarrow> Key" where
  "table_key st hash plan =
     engine_key (s_options st) hash (TDatabase (pl_page plan)) (TName (pl_page plan)) ''table''"

text \<open>The page loop: the number of the iteration \<open>i\<close> selects its environment, \<open>attempt\<close> counts the
  transient failures in a row and \<open>open_conn\<close> says whether a connection is held.  \<open>None\<close> is a
  loop cut off by its fuel.\<close>

fun table_loop ::
  "nat \<Rightarrow> ('o::linorder) setting \<Rightarrow> engine_env \<Rightarrow> tablePlan \<Rightarrow> nat \<Rightarrow> nat \<Rightarrow> bool \<Rightarrow> execution \<Rightarrow>
     (execution \<times> (gerr + unit)) option" where
  "table_loop 0 st env plan i attempt open_conn ex = None"
| "table_loop (Suc fuel) st env plan i attempt open_conn ex =
     (let tn = tname_of (pl_page plan);
          conn_err = (if open_conn then None else ev_conn env tn i);
          (s', res) = (case conn_err of
             Some e \<Rightarrow> (ex_db ex, Inl e)
           | None \<Rightarrow> ProcessPage (s_codec st) (s_server st) (ev_page env tn i) (pl_page plan)
                       (table_key st (ex_hash ex) plan) (with_ctx (ev_ctx env tn i) (transform st plan)) (ex_db ex));
          ex' = ex\<lparr>ex_db := s'\<rparr>
      in case res of
           Inr p \<Rightarrow>
             (let ex'' = progress plan p ex'
              in if Done p then Some (ex'', Inr ()) else table_loop fuel st env plan (i + 1) 0 True ex'')
         | Inl e \<Rightarrow>
             if fst (Classify e) \<noteq> Transient \<or> attempt = 3 then Some (ex', Inl e)
             else (case ev_pause env tn i of
                     Some e' \<Rightarrow> Some (ex', Inl e')
                   | None \<Rightarrow> table_loop fuel st env plan (i + 1) (attempt + 1) False ex'))"

declare table_loop.simps(2) [simp del]

text \<open>Truncation runs as a SQL step whose session change is undone whatever happens.\<close>

definition truncate_body :: "Table \<Rightarrow> string" where
  "truncate_body T =
     (let q = (\<lambda>n. case QuoteIdentifier n of Inr s \<Rightarrow> s | Inl _ \<Rightarrow> []) in
      ''SET FOREIGN_KEY_CHECKS=0; TRUNCATE TABLE '' @ q (TDatabase T) @ ''.'' @ q (TName T) @ ''; SET FOREIGN_KEY_CHECKS=1'')"

definition truncate_key :: "'o setting \<Rightarrow> string \<Rightarrow> tablePlan \<Rightarrow> Key" where
  "truncate_key st hash plan =
     engine_key (s_options st) hash (TDatabase (pl_page plan)) (''truncate:'' @ TName (pl_page plan)) ''step''"

definition truncate_table :: "'o setting \<Rightarrow> engine_env \<Rightarrow> tablePlan \<Rightarrow> conn \<Rightarrow> execution \<Rightarrow> (conn \<times> execution) \<times> (gerr + unit)" where
  "truncate_table st env plan cn ex =
     (let key = truncate_key st (ex_hash ex) plan;
          (s', r) = Run (s_codec st) (ev_step env key) (TDatabase (pl_page plan)) (truncate_body (pl_page plan)) key False (ex_db ex);
          (cn', r') = reset_checks (ev_reset env (tname_of (pl_page plan))) cn (bindr r (\<lambda>_. Inr ()))
      in ((cn', ex\<lparr>ex_db := s'\<rparr>), r'))"

definition table ::
  "nat \<Rightarrow> ('o::linorder) setting \<Rightarrow> engine_env \<Rightarrow> tablePlan \<Rightarrow> execution \<Rightarrow> (execution \<times> (gerr + unit)) option" where
  "table fuel st env plan ex =
     (if pl_action plan = TableActionTruncate then
        (case ev_conn env (tname_of (pl_page plan)) 0 of
           Some e \<Rightarrow> Some (ex, Inl e)
         | None \<Rightarrow>
             (let ((cn', ex'), r) = truncate_table st env plan \<lparr>fk_checks = True, bad_conn = False\<rparr> ex in
              case r of
                Inl e \<Rightarrow> Some (ex', Inl e)
              | Inr _ \<Rightarrow> Some (progress plan (no_progress\<lparr>Done := True\<rparr>) ex', Inr ())))
      else table_loop fuel st env plan 0 0 False ex)"

section \<open>Steps and databases\<close>

definition continue_on_error :: "SQLStep list \<Rightarrow> string \<Rightarrow> bool" where
  "continue_on_error definitions name =
     (case map_of (rev (map (\<lambda>s. (st_Name s, s)) definitions)) name of
        Some s \<Rightarrow> st_ContinueOnError s | None \<Rightarrow> False)"

definition step_key_of :: "'o setting \<Rightarrow> string \<Rightarrow> string \<Rightarrow> string \<Rightarrow> nat \<Rightarrow> string \<Rightarrow> Key" where
  "step_key_of st hash database phase i name =
     engine_key (s_options st) hash database (phase @ '':'' @ nat_dec i @ '':'' @ name) ''step''"

fun steps ::
  "'o setting \<Rightarrow> engine_env \<Rightarrow> SQLStep list \<Rightarrow> (string \<Rightarrow> string) \<Rightarrow> string \<Rightarrow> string \<Rightarrow> nat \<Rightarrow> string list \<Rightarrow> execution \<Rightarrow>
     execution \<times> (gerr + unit)" where
  "steps st env definitions bodies database phase i [] ex = (ex, Inr ())"
| "steps st env definitions bodies database phase i (ref # refs) ex =
     (let key = step_key_of st (ex_hash ex) database phase i ref;
          (s', r) = Run (s_codec st) (ev_step env key) database (bodies ref) key False (ex_db ex);
          ex' = ex\<lparr>ex_db := s'\<rparr>
      in case r of
           Inl e \<Rightarrow>
             if is_uncertain e \<or> \<not> continue_on_error definitions ref then (ex', Inl e)
             else steps st env definitions bodies database phase (i + 1) refs ex'
         | Inr executed \<Rightarrow>
             steps st env definitions bodies database phase (i + 1) refs (ex'\<lparr>ex_steps := ex_steps ex' + 1\<rparr>))"

fun tables ::
  "nat \<Rightarrow> ('o::linorder) setting \<Rightarrow> engine_env \<Rightarrow> tablePlan list \<Rightarrow> execution \<Rightarrow> (execution \<times> (gerr + unit)) option" where
  "tables fuel st env [] ex = Some (ex, Inr ())"
| "tables fuel st env (p # ps) ex =
     (case table fuel st env p ex of
        None \<Rightarrow> None
      | Some (ex', Inl e) \<Rightarrow> Some (ex', Inl e)
      | Some (ex', Inr _) \<Rightarrow> tables fuel st env ps ex')"

fun databases ::
  "nat \<Rightarrow> ('o::linorder) setting \<Rightarrow> engine_env \<Rightarrow> SQLStep list \<Rightarrow> (string \<Rightarrow> string) \<Rightarrow> databasePlan list \<Rightarrow> execution \<Rightarrow>
     (execution \<times> (gerr + unit)) option" where
  "databases fuel st env definitions bodies [] ex = Some (ex, Inr ())"
| "databases fuel st env definitions bodies (d # ds) ex =
     (case steps st env definitions bodies (dpl_name d) ''pre'' 0 (dp_Pre (dpl_policy d)) ex of
        (ex1, Inl e) \<Rightarrow> Some (ex1, Inl e)
      | (ex1, Inr _) \<Rightarrow>
          (case tables fuel st env (dpl_tables d) ex1 of
             None \<Rightarrow> None
           | Some (ex2, Inl e) \<Rightarrow> Some (ex2, Inl e)
           | Some (ex2, Inr _) \<Rightarrow>
               (case steps st env definitions bodies (dpl_name d) ''post'' 0 (dp_Post (dpl_policy d)) ex2 of
                  (ex3, Inl e) \<Rightarrow> Some (ex3, Inl e)
                | (ex3, Inr _) \<Rightarrow> databases fuel st env definitions bodies ds ex3)))"

section \<open>A run\<close>

record outside =
  w_catalog :: catalog
  w_fs :: "string \<Rightarrow> projected"
  w_re_ok :: "string \<Rightarrow> bool"
  w_re_match :: "string \<Rightarrow> string \<Rightarrow> bool"
  w_wire :: wire

definition defaulted :: "Options \<Rightarrow> Options" where
  "defaulted opts =
     opts\<lparr>o_Workers := (if o_Workers opts = 0 then 4 else o_Workers opts),
          o_PageSize := (if o_PageSize opts = 0 then 5000 else o_PageSize opts)\<rparr>"

definition options_ok :: "Options \<Rightarrow> bool" where
  "options_ok opts \<longleftrightarrow> 1 \<le> o_Workers opts \<and> o_Workers opts \<le> 32 \<and> 1 \<le> o_PageSize opts \<and> o_PageSize opts \<le> 50000"

text \<open>Everything before the first write: the policy hash, which is recorded as soon as it is known,
  and the checked options, policy, generator and plan.\<close>

definition prepare_run ::
  "lib \<Rightarrow> parse_flt \<Rightarrow> outside \<Rightarrow> engine_env \<Rightarrow> Options \<Rightarrow>
     string \<times> (gerr + (Options \<times> PolicySpec \<times> Generator \<times> executionPlan))" where
  "prepare_run L pf w env opts0 =
     (let opts = defaulted opts0 in
      if o_RunUID opts = [] \<or> length (o_RunUID opts) > 128 \<or> o_ReferenceTime opts = 0
      then ([], Inl (Fail Policy_class ''database, Run UID and fixed reference time are required''))
      else if \<not> options_ok opts
      then ([], Inl (Fail Policy_class ''workers must be 1..32 and page size 1..50000''))
      else (case Decode L (w_re_ok w) (w_wire w) (o_PolicyJSON opts) of
              Inl _ \<Rightarrow> ([], Inl (Fail Policy_class ''policy snapshot validation failed''))
            | Inr (spec, hash) \<Rightarrow>
                (hash, case New L (o_Seed opts) hash (o_ReferenceTime opts) of
                   Inl _ \<Rightarrow> Inl (Fail Policy_class ''determinism seed or reference time is invalid'')
                 | Inr g \<Rightarrow>
                     bindr (connect (ev_ping env)) (\<lambda>_.
                     bindr (preflight L pf (w_re_match w) (w_fs w) (w_catalog w) spec opts) (\<lambda>plan.
                       Inr (opts, spec, g, plan))))))"

definition start_execution :: "db \<Rightarrow> execution" where
  "start_execution s = \<lparr>ex_db = s, ex_tables = 0, ex_total = 0, ex_rows = 0, ex_steps = 0, ex_seen = (\<lambda>_. 0),
     ex_hash = [], ex_message = ''anonymization completed''\<rparr>"

definition run ::
  "nat \<Rightarrow> codec \<Rightarrow> ('o::linorder) server \<Rightarrow> lib \<Rightarrow> parse_flt \<Rightarrow> outside \<Rightarrow> engine_env \<Rightarrow> Options \<Rightarrow> db \<Rightarrow>
     (execution \<times> (gerr + unit)) option" where
  "run fuel c sv L pf w env opts0 s =
     (case prepare_run L pf w env opts0 of
        (hash, Inl e) \<Rightarrow> Some ((start_execution s)\<lparr>ex_hash := hash\<rparr>, Inl e)
      | (hash, Inr (opts, spec, g, plan)) \<Rightarrow>
          (let ex = (start_execution s)\<lparr>ex_hash := hash, ex_total := int (ep_total plan)\<rparr>;
               st = \<lparr>s_codec = c, s_server = sv, s_lib = L, s_pf = pf, s_options = opts, s_gen = g\<rparr> in
           if o_DryRun opts
           then Some (ex\<lparr>ex_message := ''dry-run preflight completed without writes''\<rparr>, Inr ())
           else (case ev_control env of
                   Some e \<Rightarrow> Some (ex, Inl e)
                 | None \<Rightarrow>
                     (case ev_ensure env of
                        Some e \<Rightarrow> Some (ex, Inl e)
                      | None \<Rightarrow>
                          (let ex0 = ex\<lparr>ex_db := s\<lparr>Prog := Ensure (Prog s)\<rparr>\<rparr> in
                           case databases fuel st env (ps_Steps spec) (ep_steps plan) (ep_databases plan) ex0 of
                             None \<Rightarrow> None
                           | Some (ex1, Inl e) \<Rightarrow> Some (ex1, Inl e)
                           | Some (ex1, Inr _) \<Rightarrow>
                               (case ev_drop env of
                                  Some e \<Rightarrow> Some (ex1, Inl (Fail Policy_class
                                    ''checkpoint cleanup outcome is uncertain; automatic retry is unsafe''))
                                | None \<Rightarrow>
                                    Some (ex1\<lparr>ex_db := (ex_db ex1)\<lparr>Prog := Drop (Prog (ex_db ex1))\<rparr>\<rparr>, Inr ())))))))"

definition run_report :: "'f \<Rightarrow> execution \<times> (gerr + unit) \<Rightarrow> 'f report" where
  "run_report duration r =
     (case r of (ex, res) \<Rightarrow>
       (let base = \<lparr>Result = ResultOK, rClass = [], Message = ex_message ex, TablesDone = ex_tables ex,
              TablesTotal = ex_total ex, RowsDoneR = ex_rows ex, StepsDone = ex_steps ex,
              DurationSeconds = duration, rPolicyHash = ex_hash ex\<rparr>
        in case res of
             Inr _ \<Rightarrow> base
           | Inl e \<Rightarrow> base\<lparr>Result := ResultError, rClass := fst (Classify e), Message := snd (Classify e)\<rparr>))"

end
