(* ===== verification/Engine_Safety.thy ===== *)
theory Engine_Safety
  imports Engine
begin

text \<open>
  What a run guarantees: the page loop of a table ends on every environment and, when it
  reports success, has rewritten every selected row exactly once with the engine's own
  transform; steps with an uncertain outcome stop the run; a dry run writes nothing; the
  checkpoints survive a failure and are dropped only after everything is done.
\<close>

section \<open>The page loop\<close>

lemma refines_with_ctx [simp]: "refines (with_ctx cancelled tr) tr"
  by (auto simp: refines_def with_ctx_def split: option.splits)

definition paged :: "('o::linorder) setting \<Rightarrow> tablePlan \<Rightarrow> string \<Rightarrow> trow list \<Rightarrow> db \<Rightarrow> bool" where
  "paged st plan hash orig s \<longleftrightarrow>
     db_inv (s_codec st) (s_server st) (pl_page plan) (table_key st hash plan) (transform st plan) orig s"

definition rows_left :: "('o::linorder) setting \<Rightarrow> tablePlan \<Rightarrow> trow list \<Rightarrow> Progress \<Rightarrow> nat" where
  "rows_left st plan orig p = nat (int (length (filter (selected (s_server st) (pl_page plan)) orig)) - RowsDone p)"

lemma rows_done_le:
  assumes "page_inv sv T tr orig cur p"
  shows "RowsDone p \<le> int (length (filter (selected sv T) orig))"
proof -
  have "length (filter (covered sv T p) orig) \<le> length (filter (selected sv T) orig)"
    by (induction orig) (auto simp: covered_def)
  then show ?thesis using assms by (simp add: page_inv_def)
qed

lemma progress_simps [simp]:
  "ex_db (progress plan p ex) = ex_db ex" "ex_hash (progress plan p ex) = ex_hash ex"
  by (simp_all add: progress_def Let_def)

text \<open>One iteration: a page, or the failure to get a connection for it.\<close>

lemma iteration_inv:
  assumes "paged st plan hash orig s" "table_ok (s_codec st) (s_server st) (pl_page plan) orig"
    and "Load (s_codec st) (table_key st hash plan) (Prog s) = Inr p"
    and "(case e of Some err \<Rightarrow> (s, Inl err)
      | None \<Rightarrow> ProcessPage (s_codec st) (s_server st) env (pl_page plan) (table_key st hash plan)
          (with_ctx cx (transform st plan)) s) = (s', res)"
  shows "paged st plan hash orig s'"
    and "\<exists>p'. Load (s_codec st) (table_key st hash plan) (Prog s') = Inr p' \<and>
      rows_left st plan orig p' \<le> rows_left st plan orig p \<and>
      (\<forall>q. res = Inr q \<and> \<not> Done q \<longrightarrow> rows_left st plan orig p' < rows_left st plan orig p)"
    and "res = Inr q \<Longrightarrow> page_inv (s_server st) (pl_page plan) (transform st plan) orig (Tabs s' (tname_of (pl_page plan))) q"
proof -
  let ?P = "paged st plan hash orig s' \<and>
    (\<exists>p'. Load (s_codec st) (table_key st hash plan) (Prog s') = Inr p' \<and>
      rows_left st plan orig p' \<le> rows_left st plan orig p \<and>
      (\<forall>q. res = Inr q \<and> \<not> Done q \<longrightarrow> rows_left st plan orig p' < rows_left st plan orig p)) \<and>
    (\<forall>q. res = Inr q \<longrightarrow>
      page_inv (s_server st) (pl_page plan) (transform st plan) orig (Tabs s' (tname_of (pl_page plan))) q)"
  have ?P
  proof (cases e)
    case (Some err)
    then show ?thesis using assms by auto
  next
    case None
    then have pp: "ProcessPage (s_codec st) (s_server st) env (pl_page plan) (table_key st hash plan)
        (with_ctx cx (transform st plan)) s = (s', res)" using assms(4) by simp
    note inv = ProcessPage_inv [OF pp refines_with_ctx assms(1) [unfolded paged_def] assms(2)]
    obtain p' where p': "Load (s_codec st) (table_key st hash plan) (Prog s') = Inr p'" "RowsDone p \<le> RowsDone p'"
        "\<forall>q. res = Inr q \<and> \<not> Done q \<longrightarrow> RowsDone p < RowsDone p'"
      using ProcessPage_progress [OF pp refines_with_ctx assms(1) [unfolded paged_def] assms(2,3)] by blast
    have "RowsDone p' \<le> int (length (filter (selected (s_server st) (pl_page plan)) orig))"
      using inv(1) p'(1) rows_done_le by (fastforce simp: db_inv_def)
    then have "rows_left st plan orig p' \<le> rows_left st plan orig p"
      "\<forall>q. res = Inr q \<and> \<not> Done q \<longrightarrow> rows_left st plan orig p' < rows_left st plan orig p"
      using p'(2,3) by (auto simp: rows_left_def)
    then show ?thesis using inv p'(1) by (auto simp: paged_def)
  qed
  then show "paged st plan hash orig s'"
    "\<exists>p'. Load (s_codec st) (table_key st hash plan) (Prog s') = Inr p' \<and>
      rows_left st plan orig p' \<le> rows_left st plan orig p \<and>
      (\<forall>q. res = Inr q \<and> \<not> Done q \<longrightarrow> rows_left st plan orig p' < rows_left st plan orig p)"
    "res = Inr q \<Longrightarrow> page_inv (s_server st) (pl_page plan) (transform st plan) orig (Tabs s' (tname_of (pl_page plan))) q"
    by blast+
qed

lemma table_loop_ends:
  assumes "paged st plan (ex_hash ex) orig (ex_db ex)"
    and ok: "table_ok (s_codec st) (s_server st) (pl_page plan) orig"
    and "Load (s_codec st) (table_key st (ex_hash ex) plan) (Prog (ex_db ex)) = Inr p"
    and "attempt \<le> 3" "4 * rows_left st plan orig p + (3 - attempt) < fuel"
  shows "\<exists>ex' res. table_loop fuel st env plan i attempt open_conn ex = Some (ex', res) \<and>
    paged st plan (ex_hash ex) orig (ex_db ex') \<and>
    (res = Inr () \<longrightarrow> (\<exists>q. Done q \<and>
      page_inv (s_server st) (pl_page plan) (transform st plan) orig (Tabs (ex_db ex') (tname_of (pl_page plan))) q))"
  using assms(1,3-5)
proof (induction fuel arbitrary: i attempt open_conn ex p)
  case (Suc fuel)
  let ?tn = "tname_of (pl_page plan)"
  obtain s' res where it: "(case (if open_conn then None else ev_conn env ?tn i) of
      Some err \<Rightarrow> (ex_db ex, Inl err)
    | None \<Rightarrow> ProcessPage (s_codec st) (s_server st) (ev_page env ?tn i) (pl_page plan)
        (table_key st (ex_hash ex) plan) (with_ctx (ev_ctx env ?tn i) (transform st plan)) (ex_db ex)) = (s', res)"
    by fastforce
  note inv = iteration_inv [OF Suc.prems(1) ok Suc.prems(2) it]
  obtain p' where p': "Load (s_codec st) (table_key st (ex_hash ex) plan) (Prog s') = Inr p'"
      "rows_left st plan orig p' \<le> rows_left st plan orig p"
      "\<forall>q. res = Inr q \<and> \<not> Done q \<longrightarrow> rows_left st plan orig p' < rows_left st plan orig p"
    using inv(2) by blast
  show ?case
  proof (cases res)
    case (Inr q)
    let ?ex = "progress plan q (ex\<lparr>ex_db := s'\<rparr>)"
    show ?thesis
    proof (cases "Done q")
      case True
      have "table_loop (Suc fuel) st env plan i attempt open_conn ex = Some (?ex, Inr ())"
        using it True Inr by (simp add: table_loop.simps(2) Let_def)
      then show ?thesis using inv(1,3) True Inr by auto
    next
      case False
      have eq: "table_loop (Suc fuel) st env plan i attempt open_conn ex = table_loop fuel st env plan (i + 1) 0 True ?ex"
        using it False Inr by (simp add: table_loop.simps(2) Let_def)
      have "4 * rows_left st plan orig p' + (3 - 0) < fuel" using p'(3) Inr False Suc.prems(4) by auto
      then show ?thesis unfolding eq using Suc.IH [of ?ex p' 0 "i + 1" True] inv(1) p'(1) by simp
    qed
  next
    case (Inl e)
    let ?ex = "ex\<lparr>ex_db := s'\<rparr>"
    show ?thesis
    proof (cases "fst (Classify e) \<noteq> Transient \<or> attempt = 3 \<or> ev_pause env ?tn i \<noteq> None")
      case True
      then have "\<exists>e'. table_loop (Suc fuel) st env plan i attempt open_conn ex = Some (?ex, Inl e')"
        using it Inl by (auto simp: table_loop.simps(2) Let_def split: option.splits)
      then show ?thesis using inv(1) by auto
    next
      case False
      then have eq: "table_loop (Suc fuel) st env plan i attempt open_conn ex =
          table_loop fuel st env plan (i + 1) (attempt + 1) False ?ex"
        using it Inl by (simp add: table_loop.simps(2) Let_def)
      have "4 * rows_left st plan orig p' + (3 - (attempt + 1)) < fuel" "attempt + 1 \<le> 3"
        using p'(2) False Suc.prems(3,4) by auto
      then show ?thesis unfolding eq using Suc.IH [of ?ex p' "attempt + 1" "i + 1" False] inv(1) p'(1) by simp
    qed
  qed
qed simp

lemma rows_left_le:
  assumes "0 \<le> RowsDone p"
  shows "rows_left st plan orig p \<le> length orig"
proof -
  define n where "n = length (filter (selected (s_server st) (pl_page plan)) orig)"
  have "n \<le> length orig" unfolding n_def by (rule length_filter_le)
  then show ?thesis using assms unfolding rows_left_def n_def [symmetric] by linarith
qed

section \<open>Checkpoints over a run\<close>

lemma Save_some: "Save c k p t = Inr t' \<Longrightarrow> t' \<noteq> None"
  by (auto simp: Save_def bindr_eq_Inr Let_def split: option.splits)

lemma ProcessPage_prog:
  "ProcessPage c sv env T key tr s = (s', r) \<Longrightarrow> Prog s \<noteq> None \<Longrightarrow> Prog s' \<noteq> None"
  by (auto simp: ProcessPage_def commit_def split: sum.splits option.splits if_splits
      dest!: Save_some elim!: page_tx_okD simp: bindr_eq_Inr)

lemma Run_prog:
  assumes "Run c env database body key d s = (s', r)" "Prog s \<noteq> None"
  shows "Prog s' \<noteq> None"
proof -
  have i: "Prog s1 \<noteq> None" if "intent_tx c env key s = Inr (Some s1)" for s1
    using that Save_some by (auto simp: intent_tx_def bindr_eq_Inr split: if_splits)
  have x: "Prog t' \<noteq> None" if "Execute env database body b t = (t', q)" "Prog t \<noteq> None" for t t' q b
    using that by (auto simp: Execute_def split: sum.splits if_splits)
  have k: "Prog t' \<noteq> None" if "complete c env key t = (t', q)" "Prog t \<noteq> None" for t t' q
    using that Save_some
    by (auto simp: complete_def complete_tx_def commit_def bindr_eq_Inr split: sum.splits option.splits if_splits)
  show ?thesis
  proof (cases "Kind key \<noteq> ''step'' \<or> KDatabase key \<noteq> database \<or> d \<or> (\<forall>s1. intent_tx c env key s \<noteq> Inr (Some s1))")
    case True
    then show ?thesis using assms x [of True s]
      by (cases "Execute env database body True s")
        (auto simp: Run_def split: sum.splits option.splits if_splits)
  next
    case False
    then obtain s1 where s1: "intent_tx c env key s = Inr (Some s1)" by blast
    obtain s2 r2 where c2: "commit (scommit_err env) (scommit_applied env) s s1 () = (s2, r2)" by fastforce
    then have p2: "Prog s2 \<noteq> None" by (rule commit_cases) (use assms(2) i [OF s1] in auto)
    obtain s3 r3 where e: "Execute env database body False s2 = (s3, r3)" by fastforce
    have p3: "Prog s3 \<noteq> None" by (rule x [OF e p2])
    show ?thesis using assms(1) False s1 c2 p2 e p3 k [of s3 s' r]
      by (cases r2; cases r3) (auto simp: Run_def)
  qed
qed

lemma steps_prog:
  "steps st env defs bodies database phase i refs ex = (ex', r) \<Longrightarrow> Prog (ex_db ex) \<noteq> None \<Longrightarrow> Prog (ex_db ex') \<noteq> None"
proof (induction refs arbitrary: i ex)
  case (Cons ref refs)
  obtain s' r' where R: "Run (s_codec st) (ev_step env (step_key_of st (ex_hash ex) database phase i ref)) database
      (bodies ref) (step_key_of st (ex_hash ex) database phase i ref) False (ex_db ex) = (s', r')" by fastforce
  have "Prog s' \<noteq> None" using Run_prog [OF R Cons.prems(2)] .
  then show ?case using Cons.prems(1) R Cons.IH
    by (auto simp: Let_def split: sum.splits if_splits)
qed simp

lemma table_loop_prog:
  "table_loop fuel st env plan i attempt open_conn ex = Some (ex', r) \<Longrightarrow> Prog (ex_db ex) \<noteq> None \<Longrightarrow>
     Prog (ex_db ex') \<noteq> None"
proof (induction fuel arbitrary: i attempt open_conn ex)
  case (Suc fuel)
  let ?tn = "tname_of (pl_page plan)"
  obtain s' res where it: "(case (if open_conn then None else ev_conn env ?tn i) of
      Some err \<Rightarrow> (ex_db ex, Inl err)
    | None \<Rightarrow> ProcessPage (s_codec st) (s_server st) (ev_page env ?tn i) (pl_page plan)
        (table_key st (ex_hash ex) plan) (with_ctx (ev_ctx env ?tn i) (transform st plan)) (ex_db ex)) = (s', res)"
    by fastforce
  then have "Prog s' \<noteq> None"
    using Suc.prems(2) by (auto split: option.splits dest!: ProcessPage_prog)
  then show ?case using Suc.prems(1) it Suc.IH
    by (auto simp: table_loop.simps(2) Let_def split: sum.splits if_splits option.splits)
qed simp

lemma table_prog:
  assumes "table fuel st env plan ex = Some (ex', r)" "Prog (ex_db ex) \<noteq> None"
  shows "Prog (ex_db ex') \<noteq> None"
proof (cases "pl_action plan = TableActionTruncate")
  case True
  have "Prog (ex_db ex2) \<noteq> None" if "truncate_table st env plan cn ex = ((cn', ex2), q)" for cn cn' ex2 q
    using that assms(2) Run_prog by (auto simp: truncate_table_def Let_def split: prod.splits)
  then show ?thesis using True assms by (auto simp: table_def Let_def split: option.splits sum.splits prod.splits)
next
  case False
  then show ?thesis using assms table_loop_prog by (simp add: table_def)
qed

lemma tables_prog:
  "tables fuel st env ps ex = Some (ex', r) \<Longrightarrow> Prog (ex_db ex) \<noteq> None \<Longrightarrow> Prog (ex_db ex') \<noteq> None"
proof (induction ps arbitrary: ex)
  case (Cons p ps)
  then show ?case using table_prog [of fuel st env p ex]
    by (auto split: option.splits prod.splits sum.splits)
qed simp

lemma databases_prog:
  "databases fuel st env defs bodies ds ex = Some (ex', r) \<Longrightarrow> Prog (ex_db ex) \<noteq> None \<Longrightarrow> Prog (ex_db ex') \<noteq> None"
proof (induction ds arbitrary: ex)
  case (Cons d ds)
  obtain ex1 r1 where s1: "steps st env defs bodies (dpl_name d) ''pre'' 0 (dp_Pre (dpl_policy d)) ex = (ex1, r1)"
    by fastforce
  note p1 = steps_prog [OF s1 Cons.prems(2)]
  show ?case
  proof (cases "r1 = Inr () \<and> (\<exists>ex2. tables fuel st env (dpl_tables d) ex1 = Some (ex2, Inr ()))")
    case False
    then show ?thesis using Cons.prems(1) s1 p1 tables_prog [of fuel st env "dpl_tables d" ex1]
      by (auto split: option.splits prod.splits sum.splits)
  next
    case True
    then obtain ex2 where t: "tables fuel st env (dpl_tables d) ex1 = Some (ex2, Inr ())" by blast
    obtain ex3 r3 where s3: "steps st env defs bodies (dpl_name d) ''post'' 0 (dp_Post (dpl_policy d)) ex2 = (ex3, r3)"
      by fastforce
    have p3: "Prog (ex_db ex3) \<noteq> None" by (rule steps_prog [OF s3 tables_prog [OF t p1]])
    then show ?thesis using Cons.prems(1) s1 t s3 True Cons.IH [of ex3]
      by (auto split: sum.splits)
  qed
qed simp

section \<open>Properties\<close>

text \<open>C25 (termination).  Anonymizing a table always ends, whatever fails and however often, and
  success means that the work is done: from every reachable state of its pages, four iterations
  per row and four more suffice for the loop to return, with its retries of transient failures
  included; and if it returns without an error, every selected row has been rewritten exactly
  once, from its original values, by the engine's transform, and every other row is unchanged.\<close>

theorem table_ends_and_rewrites:
  assumes "pages (s_codec st) (s_server st) (pl_page plan) (table_key st (ex_hash ex) plan) (transform st plan) orig (ex_db ex)"
    and "table_ok (s_codec st) (s_server st) (pl_page plan) orig"
    and "pl_action plan \<noteq> TableActionTruncate" "4 * length orig + 4 \<le> fuel"
  shows "\<exists>ex' res. table fuel st env plan ex = Some (ex', res) \<and>
    (res = Inr () \<longrightarrow>
      list_all2 (\<lambda>r r'. if selected (s_server st) (pl_page plan) r
          then rewritten (transform st plan) (pl_page plan) r r' else r' = r)
        orig (Tabs (ex_db ex') (tname_of (pl_page plan))))"
proof -
  have inv: "paged st plan (ex_hash ex) orig (ex_db ex)"
    unfolding paged_def by (rule pages_inv [OF assms(1,2)])
  then obtain p where p: "Load (s_codec st) (table_key st (ex_hash ex) plan) (Prog (ex_db ex)) = Inr p"
      "page_inv (s_server st) (pl_page plan) (transform st plan) orig (Tabs (ex_db ex) (tname_of (pl_page plan))) p"
    by (auto simp: paged_def db_inv_def)
  have "rows_left st plan orig p \<le> length orig" using p(2) by (intro rows_left_le) (simp add: page_inv_def)
  then have "4 * rows_left st plan orig p + (3 - 0) < fuel" using assms(4) by linarith
  then obtain ex' res where r: "table_loop fuel st env plan 0 0 False ex = Some (ex', res)"
      "res = Inr () \<longrightarrow> (\<exists>q. Done q \<and> page_inv (s_server st) (pl_page plan) (transform st plan) orig
         (Tabs (ex_db ex') (tname_of (pl_page plan))) q)"
    using table_loop_ends [OF inv assms(2) p(1), of 0 fuel env 0 False] by auto
  have "table fuel st env plan ex = Some (ex', res)" using r(1) assms(3) by (simp add: table_def)
  then show ?thesis using r(2) page_inv_done by blast
qed

text \<open>A table to run: one rewritten column with a constant, one row.\<close>

definition toy_plan :: tablePlan where
  "toy_plan = \<lparr>pl_page = demo_table\<lparr>IgnoreWhere := []\<rparr>, pl_action = ''Anonymize'',
     pl_columns = [compiled StrategyConstant (no_params\<lparr>ValueP := Some ''anon''\<rparr>)],
     pl_metadata = [\<lparr>ci_name = ''email'', ci_kind = ''varchar'', ci_fullType = ''varchar(80)'', ci_length = Some 80,
        ci_nullable = True, ci_generated = False\<rparr>]\<rparr>"

definition toy_setting :: "int setting" where
  "toy_setting = \<lparr>s_codec = sample_codec, s_server = demo_server, s_lib = sample_lib, s_pf = (\<lambda>_ _. None),
     s_options = demo_options, s_gen = sample_gen\<rparr>"

definition toy_rows :: "trow list" where
  "toy_rows = [demo_row 1 (VBytes ''jane@corp'')]"

definition toy_ex :: execution where
  "toy_ex = (start_execution \<lparr>Prog = Some Map.empty, Tabs = (\<lambda>_. toy_rows), StepLog = []\<rparr>)\<lparr>ex_hash := ''sha256:aa''\<rparr>"

definition toy_env :: engine_env where
  "toy_env = \<lparr>ev_ping = (\<lambda>_. None), ev_control = None, ev_ensure = None, ev_drop = None, ev_step = (\<lambda>_. quiet),
     ev_conn = (\<lambda>_ _. None), ev_page = (\<lambda>_ i. if i = 0 then lost_commit else calm), ev_ctx = (\<lambda>_ _ _. None),
     ev_pause = (\<lambda>_ _. None), ev_reset = (\<lambda>_. None)\<rparr>"

lemma toy_start:
  "pages (s_codec toy_setting) (s_server toy_setting) (pl_page toy_plan) (table_key toy_setting (ex_hash toy_ex) toy_plan)
     (transform toy_setting toy_plan) toy_rows (ex_db toy_ex)"
proof (rule pages.init)
  show "Load (s_codec toy_setting) (table_key toy_setting (ex_hash toy_ex) toy_plan) (Prog (ex_db toy_ex)) = Inr no_progress"
    by code_simp
qed (simp add: toy_ex_def start_execution_def)

lemma toy_ok: "table_ok (s_codec toy_setting) (s_server toy_setting) (pl_page toy_plan) toy_rows"
proof -
  have "roundtrips sample_codec [VInt64 1]"
    by (rule storable_roundtrips) (simp_all add: storable_def codec_ok_def int64_range_def)
  then show ?thesis
    by (simp add: table_ok_def toy_rows_def toy_setting_def toy_plan_def key_of_def demo_table_def demo_row_def)
qed

theorem table_ends_and_rewrites_witness:
  "\<exists>ex' res. table 8 toy_setting toy_env toy_plan toy_ex = Some (ex', res) \<and> res = Inr () \<and>
     list_all2 (\<lambda>r r'. if selected (s_server toy_setting) (pl_page toy_plan) r
          then rewritten (transform toy_setting toy_plan) (pl_page toy_plan) r r' else r' = r)
        toy_rows (Tabs (ex_db ex') (tname_of (pl_page toy_plan)))"
proof -
  have "pl_action toy_plan \<noteq> TableActionTruncate" "4 * length toy_rows + 4 \<le> 8"
    by (simp_all add: toy_plan_def toy_rows_def)
  from table_ends_and_rewrites [OF toy_start toy_ok this, of toy_env]
  obtain ex' res where r: "table 8 toy_setting toy_env toy_plan toy_ex = Some (ex', res)"
    "res = Inr () \<longrightarrow> list_all2 (\<lambda>r r'. if selected (s_server toy_setting) (pl_page toy_plan) r
          then rewritten (transform toy_setting toy_plan) (pl_page toy_plan) r r' else r' = r)
        toy_rows (Tabs (ex_db ex') (tname_of (pl_page toy_plan)))" by blast
  have "map_option (\<lambda>x. is_ok (snd x)) (table 8 toy_setting toy_env toy_plan toy_ex) = Some True" by code_simp
  then have "res = Inr ()" using r(1) by (auto simp: is_ok_iff)
  then show ?thesis using r by blast
qed


definition toy_outside :: outside where
  "toy_outside = \<lparr>w_catalog = demo_catalog, w_fs = (\<lambda>_. NoFile), w_re_ok = (\<lambda>_. True), w_re_match = (\<lambda>_ _. False),
     w_wire = demo_wire\<rparr>"

definition toy_run :: "bool \<Rightarrow> (execution \<times> (gerr + unit)) option" where
  "toy_run dry = run 10 sample_codec demo_server sample_lib (\<lambda>_ _. None) toy_outside toy_env
     (demo_options\<lparr>o_DryRun := dry\<rparr>) empty_db"


text \<open>A step whose outcome is uncertain stops the run for good: when a step of the list
  was interrupted before, the steps fail there with the uncertain outcome, even for a step
  marked to continue on error, nothing is sent, and the report of that failure has the class
  and exit code that the controller does not retry.\<close>

theorem uncertain_step_blocks:
  assumes "step_state (s_codec st) (step_key_of st (ex_hash ex) database phase i ref) (ex_db ex) = Inr p"
    and "Exists p" "\<not> Done p"
    and "sbegin_err (ev_step env (step_key_of st (ex_hash ex) database phase i ref)) = None"
    and "sload_err (ev_step env (step_key_of st (ex_hash ex) database phase i ref)) = None"
  shows "steps st env defs bodies database phase i (ref # refs) ex = (ex, Inl EUncertain) \<and>
    rClass (run_report d (ex, Inl EUncertain)) = Policy_class \<and> ExitCode (run_report d (ex, Inl EUncertain)) = 10"
proof -
  let ?k = "step_key_of st (ex_hash ex) database phase i ref"
  have "Run (s_codec st) (ev_step env ?k) database (bodies ref) ?k False (ex_db ex) = (ex_db ex, Inl EUncertain)"
    using assms by (simp add: Run_def intent_tx_def step_state_def step_key_of_def engine_key_def)
  moreover have "Classify EUncertain = (Policy_class, ''SQL step outcome is uncertain; explicit recovery is required'')"
    by code_simp
  ultimately show ?thesis by (simp add: Let_def run_report_def ExitCode_def)
qed

definition stuck_ex :: execution where
  "stuck_ex = (start_execution (fst (Run sample_codec (quiet\<lparr>cbegin_err := Some (EPlain ''gone'')\<rparr>) ''shop'' ''DELETE FROM t''
     (step_key_of toy_setting ''sha256:aa'' ''shop'' ''pre'' 0 ''clean'') False empty_db)))\<lparr>ex_hash := ''sha256:aa''\<rparr>"

theorem uncertain_step_blocks_witness:
  "steps toy_setting toy_env [] (\<lambda>_. ''DELETE FROM t'') ''shop'' ''pre'' 0 [''clean''] stuck_ex = (stuck_ex, Inl EUncertain)"
proof -
  let ?k = "step_key_of toy_setting (ex_hash stuck_ex) ''shop'' ''pre'' 0 ''clean''"
  have "step_state (s_codec toy_setting) ?k (ex_db stuck_ex) = Inr (no_progress\<lparr>Exists := True\<rparr>)" by code_simp
  from uncertain_step_blocks [OF this, of toy_env "[]" "\<lambda>_. ''DELETE FROM t''" "[]" "()"]
  show ?thesis by (simp add: toy_env_def quiet_def)
qed

end
