(* ===== verification/Kube.thy ===== *)
theory Kube
  imports Go_Strings "HOL-Library.Finite_Map"
begin

text \<open>
  The part of the Kubernetes machinery that the operator is written against.  JSON trees are
  the values of an \<open>unstructured.Unstructured\<close>: an object is a finite map, so that equality is
  \<open>reflect.DeepEqual\<close>.  The apimachinery packages, SHA-256 and URL parsing are not part of
  the repository; they are the fields of a record \<open>klib\<close>, an argument of every definition
  that calls them.  Times are nanoseconds since the Unix epoch.
\<close>

section \<open>JSON trees\<close>

datatype json =
    JNull
  | JBool bool
  | JInt int
  | JFloat string
  | JStr string
  | JList "json list"
  | JObj "(string, json) fmap"

abbreviation jobj :: "(string \<times> json) list \<Rightarrow> json" where
  "jobj kvs \<equiv> JObj (fmap_of_list kvs)"

section \<open>Object metadata\<close>

record OwnerReference =
  or_APIVersion :: string
  or_Kind :: string
  or_Name :: string
  or_UID :: string
  or_Controller :: "bool option"
  or_BlockOwnerDeletion :: "bool option"

text \<open>\<open>metav1.Time\<close>: the zero time is the first instant of year one.\<close>

definition zero_time :: int where
  "zero_time = - 62135596800000000000"

record ObjectMeta =
  om_Name :: string
  om_Namespace :: string
  om_UID :: string
  om_ResourceVersion :: string
  om_Generation :: int
  om_CreationTimestamp :: int
  om_DeletionTimestamp :: "int option"
  om_Labels :: "(string, string) fmap"
  om_Annotations :: "(string, string) fmap"
  om_OwnerReferences :: "OwnerReference list"
  om_Finalizers :: "string list"

definition empty_meta :: ObjectMeta where
  "empty_meta = \<lparr>om_Name = [], om_Namespace = [], om_UID = [], om_ResourceVersion = [],
     om_Generation = 0, om_CreationTimestamp = zero_time, om_DeletionTimestamp = None,
     om_Labels = fmempty, om_Annotations = fmempty, om_OwnerReferences = [], om_Finalizers = []\<rparr>"

definition deleting :: "ObjectMeta \<Rightarrow> bool" where
  "deleting m = (case om_DeletionTimestamp m of None \<Rightarrow> False | Some t \<Rightarrow> t \<noteq> zero_time)"

record Secret =
  sec_Meta :: ObjectMeta
  sec_Type :: string
  sec_Immutable :: "bool option"
  sec_Data :: "(string, string) fmap"

text \<open>\<open>secret.Data[key]\<close>: a missing key reads as no bytes.\<close>

definition secret_data :: "Secret \<Rightarrow> string \<Rightarrow> string" where
  "secret_data s k = (case fmlookup (sec_Data s) k of None \<Rightarrow> [] | Some v \<Rightarrow> v)"

record Condition =
  cond_Type :: string
  cond_Status :: string
  cond_ObservedGeneration :: int
  cond_LastTransitionTime :: int
  cond_Reason :: string
  cond_Message :: string

definition condition :: "string \<Rightarrow> string \<Rightarrow> string \<Rightarrow> string \<Rightarrow> Condition" where
  "condition ty st reason msg =
     \<lparr>cond_Type = ty, cond_Status = st, cond_ObservedGeneration = 0, cond_LastTransitionTime = zero_time,
      cond_Reason = reason, cond_Message = msg\<rparr>"

section \<open>URLs\<close>

text \<open>The fields of \<open>url.URL\<close> that the sources read.\<close>

record URL =
  u_Scheme :: string
  u_Opaque :: string
  u_User :: bool
  u_Host :: string
  u_Hostname :: string
  u_Path :: string
  u_RawPath :: string
  u_ForceQuery :: bool
  u_RawQuery :: string
  u_Fragment :: string
  u_RawFragment :: string
  u_String :: string

section \<open>The libraries\<close>

text \<open>A \<open>resource.Quantity\<close> is its text; its sign, comparison, integer value and canonical text
  are functions of the library.  \<open>dns_label\<close>, \<open>dns_1035_label\<close>, \<open>dns_subdomain\<close> and
  \<open>label_value_ok\<close> say that the functions of \<open>validation\<close> report nothing;
  \<open>is_condition_true\<close>, \<open>is_condition_false\<close>, \<open>find_condition\<close> and \<open>set_status_condition\<close> are those of \<open>meta\<close>;
  \<open>group_of\<close> is the group of \<open>schema.ParseGroupVersion\<close>; \<open>nested_field\<close> and its typed
  variants are those of \<open>unstructured\<close>, with \<open>Inr None\<close> for a field that is not found.\<close>

type_synonym quantity = string

record klib =
  sha256 :: "string \<Rightarrow> string"
  dns_label :: "string \<Rightarrow> bool"
  dns_1035_label :: "string \<Rightarrow> bool"
  dns_subdomain :: "string \<Rightarrow> bool"
  label_value_ok :: "string \<Rightarrow> bool"
  url_parse :: "string \<Rightarrow> URL option"
  q_parse :: "string \<Rightarrow> quantity option"
  q_sign :: "quantity \<Rightarrow> int"
  q_cmp :: "quantity \<Rightarrow> quantity \<Rightarrow> int"
  q_value :: "quantity \<Rightarrow> int"
  q_string :: "quantity \<Rightarrow> string"
  resources_json :: "json \<Rightarrow> json option"
  json_object_text :: "string \<Rightarrow> bool"
  json_marshal :: "json \<Rightarrow> string option"
  merge_patch :: "string \<Rightarrow> string \<Rightarrow> string option"
  kjson_unmarshal :: "string \<Rightarrow> json option"
  set_status_condition :: "Condition list \<Rightarrow> Condition \<Rightarrow> Condition list"
  is_condition_true :: "Condition list \<Rightarrow> string \<Rightarrow> bool"
  is_condition_false :: "Condition list \<Rightarrow> string \<Rightarrow> bool"
  find_condition :: "Condition list \<Rightarrow> string \<Rightarrow> Condition option"
  group_of :: "string \<Rightarrow> string option"
  controller_of :: "ObjectMeta \<Rightarrow> OwnerReference option"
  new_controller_ref :: "ObjectMeta \<Rightarrow> string \<Rightarrow> string \<Rightarrow> OwnerReference"
  nested_field :: "json \<Rightarrow> string list \<Rightarrow> gerr + json option"
  nested_string :: "json \<Rightarrow> string list \<Rightarrow> gerr + string"
  nested_int64 :: "json \<Rightarrow> string list \<Rightarrow> gerr + int"

text \<open>\<open>conditions.Set\<close> stamps the generation and the clock before the library merges the
  condition into the list.\<close>

definition Set_condition :: "klib \<Rightarrow> Condition list \<Rightarrow> int \<Rightarrow> int \<Rightarrow> Condition \<Rightarrow> Condition list" where
  "Set_condition L cur gen now c =
     set_status_condition L cur (c\<lparr>cond_ObservedGeneration := gen, cond_LastTransitionTime := now\<rparr>)"

section \<open>A concrete library\<close>

text \<open>A library that behaves as documented on small inputs; the witnesses evaluate the model
  with it.\<close>

fun walk :: "json \<Rightarrow> string list \<Rightarrow> gerr + json option" where
  "walk v [] = Inr (Some v)"
| "walk (JObj m) (f # fs) =
     (case fmlookup m f of None \<Rightarrow> Inr None | Some v \<Rightarrow> walk v fs)"
| "walk JNull (f # fs) = Inr None"
| "walk v (f # fs) = Inl (EPlain ''accessor error'')"

definition walk_string :: "json \<Rightarrow> string list \<Rightarrow> gerr + string" where
  "walk_string v p = bindr (walk v p) (\<lambda>r. case r of
     None \<Rightarrow> Inr [] | Some (JStr s) \<Rightarrow> Inr s | Some _ \<Rightarrow> Inl (EPlain ''accessor error''))"

definition walk_int64 :: "json \<Rightarrow> string list \<Rightarrow> gerr + int" where
  "walk_int64 v p = bindr (walk v p) (\<lambda>r. case r of
     None \<Rightarrow> Inr 0 | Some (JInt i) \<Rightarrow> Inr i | Some _ \<Rightarrow> Inl (EPlain ''accessor error''))"

definition alnum :: "char \<Rightarrow> bool" where
  "alnum c \<longleftrightarrow> is_lower_char c \<or> is_digit_char c"

definition rfc1123_label :: "string \<Rightarrow> bool" where
  "rfc1123_label s \<longleftrightarrow> s \<noteq> [] \<and> alnum (hd s) \<and> alnum (last s) \<and>
     list_all (\<lambda>c. alnum c \<or> c = CHR ''-'') s"

definition rfc1123_subdomain :: "string \<Rightarrow> bool" where
  "rfc1123_subdomain s \<longleftrightarrow> length s \<le> 253 \<and> list_all rfc1123_label (split_on (CHR ''.'') s)"

definition plain_quantity :: "string \<Rightarrow> int" where
  "plain_quantity s =
     (if has_suffix s ''Gi'' then int (digits_val (trim_suffix s ''Gi'')) * 1073741824
      else int (digits_val s))"

definition upsert_condition :: "Condition list \<Rightarrow> Condition \<Rightarrow> Condition list" where
  "upsert_condition cs c =
     (if list_ex (\<lambda>d. cond_Type d = cond_Type c) cs
      then map (\<lambda>d. if cond_Type d = cond_Type c
                then (if cond_Status d = cond_Status c
                      then c\<lparr>cond_LastTransitionTime := cond_LastTransitionTime d\<rparr> else c)
                else d) cs
      else cs @ [c])"

definition simple_url :: "string \<Rightarrow> URL option" where
  "simple_url s =
     (let scheme = takeWhile (\<lambda>c. c \<noteq> CHR '':'') s;
          rest = drop (length scheme + 3) s;
          host = takeWhile (\<lambda>c. c \<noteq> CHR ''/'') rest
      in if has_prefix (drop (length scheme) s) ''://'' then
           Some \<lparr>u_Scheme = scheme, u_Opaque = [], u_User = (CHR ''@'' \<in> set host), u_Host = host,
             u_Hostname = host, u_Path = drop (length host) rest, u_RawPath = [], u_ForceQuery = False,
             u_RawQuery = [], u_Fragment = [], u_RawFragment = [], u_String = s\<rparr>
         else None)"

definition sample_klib :: klib where
  "sample_klib =
     \<lparr>sha256 = (\<lambda>s. map (\<lambda>i. chr ((length s + i) mod 256)) [0..<32]),
      dns_label = rfc1123_label, dns_1035_label = rfc1123_label, dns_subdomain = rfc1123_subdomain,
      label_value_ok = rfc1123_subdomain, url_parse = simple_url,
      q_parse = Some, q_sign = (\<lambda>q. sgn (plain_quantity q)),
      q_cmp = (\<lambda>a b. sgn (plain_quantity a - plain_quantity b)), q_value = plain_quantity,
      q_string = id, resources_json = Some,
      json_object_text = (\<lambda>s. s \<noteq> []), json_marshal = (\<lambda>_. Some ''{}''),
      merge_patch = (\<lambda>a b. Some a), kjson_unmarshal = (\<lambda>_. None),
      set_status_condition = upsert_condition,
      is_condition_true = (\<lambda>cs ty. list_ex (\<lambda>c. cond_Type c = ty \<and> cond_Status c = ''True'') cs),
      is_condition_false = (\<lambda>cs ty. list_ex (\<lambda>c. cond_Type c = ty \<and> cond_Status c = ''False'') cs),
      find_condition = (\<lambda>cs ty. find (\<lambda>c. cond_Type c = ty) cs),
      group_of = (\<lambda>s. Some (takeWhile (\<lambda>c. c \<noteq> CHR ''/'') s)),
      controller_of = (\<lambda>m. find (\<lambda>r. or_Controller r = Some True) (om_OwnerReferences m)),
      new_controller_ref = (\<lambda>m gv kind. \<lparr>or_APIVersion = gv, or_Kind = kind, or_Name = om_Name m,
         or_UID = om_UID m, or_Controller = Some True, or_BlockOwnerDeletion = Some True\<rparr>),
      nested_field = walk, nested_string = walk_string, nested_int64 = walk_int64\<rparr>"

end
