(* ===== verification/Api_Run.thy ===== *)
theory Api_Run
  imports Kube Api_Types
begin

text \<open>
  The data of \<open>api/v1alpha1/common_types.go\<close>, \<open>anonymizationrun_types.go\<close>,
  \<open>backuppointer_types.go\<close> and \<open>anonymizationschedule_types.go\<close>.  Pointers are options, a
  slice whose nil value the code tells from the empty one is an option of a list, phases and
  policies are strings as in the source, and the core Kubernetes types that are only passed
  on (resources, affinity, tolerations) are JSON trees.
\<close>

abbreviation (input) "GroupVersion_String \<equiv> ''pxc-anonymizer.io/v1alpha1''"
abbreviation (input) "GroupVersion_Group \<equiv> ''pxc-anonymizer.io''"

section \<open>Object storage and pointers\<close>

record ObjectStorageSecretKeys =
  ok_AccessKeyID :: string
  ok_SecretAccessKey :: string
  ok_EndpointURL :: string
  ok_PublicEndpointURL :: string

record ObjectStorageTLS =
  ot_InsecureSkipVerify :: bool
  ot_CASecretRef :: "KeySelector option"

record ObjectStorageSpec =
  os_Bucket :: string
  os_Prefix :: string
  os_EndpointURL :: string
  os_Region :: string
  os_CredentialsSecretRef :: "string option"
  os_Keys :: "ObjectStorageSecretKeys option"
  os_PathStyle :: "bool option"
  os_TLS :: "ObjectStorageTLS option"

record PointerTarget =
  pt_ObjectStorage :: ObjectStorageSpec
  pt_Key :: string
  pt_PublicURL :: string

record HTTPPointerSource =
  hp_URL :: string
  hp_AllowInsecure :: bool
  hp_CASecretRef :: "KeySelector option"
  hp_Timeout :: "int option"
  hp_MaxBytes :: int

record S3PointerSource =
  sp_ObjectStorage :: ObjectStorageSpec
  sp_Key :: string

record PointerSource =
  ps_HTTP :: "HTTPPointerSource option"
  ps_S3 :: "S3PointerSource option"

record RestoreS3Credentials =
  rc_CredentialsSecret :: string
  rc_EndpointURL :: string
  rc_Region :: string
  rc_VerifyTLS :: "bool option"

record XtrabackupContainerOptions =
  co_Xbcloud :: "string list option"
  co_Xbstream :: "string list option"
  co_Xtrabackup :: "string list option"

record RunnerPodSpec =
  rp_Image :: string
  rp_Resources :: json
  rp_NodeSelector :: "(string, string) fmap"
  rp_Tolerations :: "json list"
  rp_Affinity :: "json option"

record ResolvedSource =
  rs_BackupName :: string
  rs_Destination :: string
  rs_SourceCluster :: string
  rs_PointerPublishedAt :: "int option"
  rs_PointerSchemaVersion :: int

record PublishedBackup =
  pb_BackupName :: string
  pb_Destination :: string
  pb_StorageName :: string
  pb_CompletedAt :: "int option"
  pb_PublishedAt :: "int option"
  pb_ETag :: string
  pb_SchemaVersion :: int

section \<open>Runs\<close>

abbreviation (input) "RunPhasePending \<equiv> ''Pending''"
abbreviation (input) "RunPhaseResolvingSource \<equiv> ''ResolvingSource''"
abbreviation (input) "RunPhaseProvisioning \<equiv> ''Provisioning''"
abbreviation (input) "RunPhaseRestoring \<equiv> ''Restoring''"
abbreviation (input) "RunPhaseAnonymizing \<equiv> ''Anonymizing''"
abbreviation (input) "RunPhaseBackingUp \<equiv> ''BackingUp''"
abbreviation (input) "RunPhasePublishing \<equiv> ''Publishing''"
abbreviation (input) "RunPhasePruning \<equiv> ''Pruning''"
abbreviation (input) "RunPhaseCleaningUp \<equiv> ''CleaningUp''"
abbreviation (input) "RunPhaseCompleted \<equiv> ''Completed''"
abbreviation (input) "RunPhaseFailed \<equiv> ''Failed''"

record RunSource =
  rn_BackupPointerRef :: "string option"
  rn_Pointer :: "PointerSource option"
  rn_BackupRef :: "string option"
  rn_Destination :: string
  rn_Restore :: RestoreS3Credentials

record TempClusterStorage =
  ts_StorageClassName :: string
  ts_Size :: quantity

record TempClusterSpec =
  tc_NamePrefix :: string
  tc_CRVersion :: string
  tc_Image :: string
  tc_BackupImage :: string
  tc_Size :: int
  tc_Storage :: TempClusterStorage
  tc_Resources :: json
  tc_SystemUsersSecretRef :: "string option"
  tc_HAProxy :: "bool option"
  tc_Configuration :: string
  tc_Overrides :: "string option"
  tc_Annotations :: "(string, string) fmap"
  tc_Labels :: "(string, string) fmap"

record OutputRetention =
  re_KeepSucceeded :: int
  re_DeleteFailedAfter :: int

record OutputSpec =
  out_ObjectStorage :: ObjectStorageSpec
  out_BackupNamePrefix :: string
  out_ContainerOptions :: "XtrabackupContainerOptions option"
  out_Pointer :: "PointerTarget option"
  out_Retention :: OutputRetention

record RunnerSpec =
  ru_PodSpec :: RunnerPodSpec
  ru_Workers :: int
  ru_PageSize :: "int option"
  ru_DisableBinlog :: "bool option"
  ru_DryRun :: bool

record RunTimeouts =
  tm_ClusterReady :: int
  tm_Restore :: int
  tm_Anonymize :: int
  tm_Backup :: int
  tm_Publish :: int
  tm_Cleanup :: int

record CleanupSpec =
  cl_OnFailure :: string
  cl_HoldTempClusterFor :: int

record AnonymizationRunSpec =
  rspec_Source :: RunSource
  rspec_PolicyRef :: string
  rspec_TempCluster :: TempClusterSpec
  rspec_Output :: OutputSpec
  rspec_Runner :: RunnerSpec
  rspec_Timeouts :: RunTimeouts
  rspec_Cleanup :: CleanupSpec
  rspec_BackoffLimit :: int
  rspec_TTLSecondsAfterFinished :: "int option"

record TempClusterStatus =
  tcs_Name :: string
  tcs_UID :: string
  tcs_SecretName :: string
  tcs_CreatedAt :: "int option"
  tcs_ReadyAt :: "int option"
  tcs_DeletedAt :: "int option"

record AnonymizeProgress =
  ap_TablesTotal :: int
  ap_TablesDone :: int
  ap_RowsTotal :: int
  ap_RowsDone :: int
  ap_CurrentTable :: string
  ap_StepsDone :: int
  ap_StepsTotal :: int

record AnonymizeResult =
  ar_Class :: string
  ar_Message :: string

record AnonymizeStatus =
  as_JobName :: string
  as_Attempts :: int
  as_StartedAt :: "int option"
  as_CompletedAt :: "int option"
  as_Progress :: "AnonymizeProgress option"
  as_LastResult :: "AnonymizeResult option"

record AnonymizationRunStatus =
  rst_ObservedGeneration :: int
  rst_Phase :: string
  rst_Conditions :: "Condition list"
  rst_Source :: "ResolvedSource option"
  rst_PolicyHash :: string
  rst_TempCluster :: "TempClusterStatus option"
  rst_RestoreName :: string
  rst_Anonymize :: "AnonymizeStatus option"
  rst_Output :: "PublishedBackup option"
  rst_PrunedBackups :: "string list"
  rst_StartedAt :: "int option"
  rst_CompletedAt :: "int option"

record AnonymizationRun =
  run_Meta :: ObjectMeta
  run_Spec :: AnonymizationRunSpec
  run_Status :: AnonymizationRunStatus

definition empty_run_status :: AnonymizationRunStatus where
  "empty_run_status =
     \<lparr>rst_ObservedGeneration = 0, rst_Phase = [], rst_Conditions = [], rst_Source = None,
      rst_PolicyHash = [], rst_TempCluster = None, rst_RestoreName = [], rst_Anonymize = None,
      rst_Output = None, rst_PrunedBackups = [], rst_StartedAt = None, rst_CompletedAt = None\<rparr>"

section \<open>Schedules\<close>

abbreviation (input) "ConcurrencyPolicyForbid \<equiv> ''Forbid''"
abbreviation (input) "ConcurrencyPolicyAllow \<equiv> ''Allow''"
abbreviation (input) "ConcurrencyPolicyReplace \<equiv> ''Replace''"

record RunTemplateMetadata =
  rtm_Labels :: "(string, string) fmap"
  rtm_Annotations :: "(string, string) fmap"

record AnonymizationRunTemplate =
  rt_Metadata :: RunTemplateMetadata
  rt_Spec :: AnonymizationRunSpec

record AnonymizationScheduleSpec =
  ss_Schedule :: string
  ss_TimeZone :: "string option"
  ss_Suspend :: bool
  ss_ConcurrencyPolicy :: string
  ss_StartingDeadlineSeconds :: "int option"
  ss_SuccessfulRunsHistoryLimit :: int
  ss_FailedRunsHistoryLimit :: int
  ss_Template :: AnonymizationRunTemplate

record AnonymizationScheduleStatus =
  sst_ObservedGeneration :: int
  sst_Conditions :: "Condition list"
  sst_Active :: "string list"
  sst_ActiveCount :: int
  sst_LastScheduleTime :: "int option"
  sst_LastSuccessfulTime :: "int option"
  sst_NextScheduleTime :: "int option"
  sst_LastRunName :: string
  sst_LastRunPhase :: string

record AnonymizationSchedule =
  sch_Meta :: ObjectMeta
  sch_Spec :: AnonymizationScheduleSpec
  sch_Status :: AnonymizationScheduleStatus

section \<open>Backup pointers and policies\<close>

abbreviation (input) "BackupPointerPhasePending \<equiv> ''Pending''"
abbreviation (input) "BackupPointerPhasePublished \<equiv> ''Published''"
abbreviation (input) "BackupPointerPhaseNoCandidate \<equiv> ''NoCandidate''"
abbreviation (input) "BackupPointerPhaseStale \<equiv> ''Stale''"
abbreviation (input) "BackupPointerPhaseDangling \<equiv> ''Dangling''"
abbreviation (input) "BackupPointerPhaseError \<equiv> ''Error''"
abbreviation (input) "BackupPointerPhaseSuspended \<equiv> ''Suspended''"

text \<open>A label selector is the tree that the library turns into a predicate on labels.\<close>

record BackupPointerSource =
  bps_PXCCluster :: string
  bps_StorageNames :: "string list"
  bps_Selector :: "json option"

record BackupPointerSpec =
  bpp_Source :: BackupPointerSource
  bpp_Target :: PointerTarget
  bpp_StaleAfter :: "int option"
  bpp_VerifyInterval :: "int option"
  bpp_Suspend :: bool

record BackupCounts =
  bc_Succeeded :: int
  bc_Failed :: int
  bc_Running :: int
  bc_Starting :: int

record BackupPointerStatus =
  bpt_ObservedGeneration :: int
  bpt_Phase :: string
  bpt_Conditions :: "Condition list"
  bpt_Current :: "PublishedBackup option"
  bpt_Previous :: "PublishedBackup option"
  bpt_Backups :: BackupCounts
  bpt_NextVerifyTime :: "int option"

record BackupPointer =
  bp_Meta :: ObjectMeta
  bp_Spec :: BackupPointerSpec
  bp_Status :: BackupPointerStatus

record AnonymizationPolicyStatus =
  apt_Hash :: string
  apt_Conditions :: "Condition list"

record AnonymizationPolicy =
  apo_Meta :: ObjectMeta
  apo_Spec :: PolicySpec
  apo_Status :: AnonymizationPolicyStatus

section \<open>A sample run\<close>

definition sample_storage :: ObjectStorageSpec where
  "sample_storage = \<lparr>os_Bucket = ''backups'', os_Prefix = ''shop'', os_EndpointURL = ''https://s3.example'',
     os_Region = [], os_CredentialsSecretRef = Some ''s3-creds'', os_Keys = None, os_PathStyle = Some True,
     os_TLS = Some \<lparr>ot_InsecureSkipVerify = False,
       ot_CASecretRef = Some \<lparr>sel_Name = ''ca'', sel_Key = ''bundle'', sel_Optional = None\<rparr>\<rparr>\<rparr>"

definition sample_run_spec :: AnonymizationRunSpec where
  "sample_run_spec =
     \<lparr>rspec_Source = \<lparr>rn_BackupPointerRef = None, rn_Pointer = None, rn_BackupRef = None,
        rn_Destination = ''s3://backups/full'',
        rn_Restore = \<lparr>rc_CredentialsSecret = ''s3-creds'', rc_EndpointURL = [], rc_Region = [],
          rc_VerifyTLS = None\<rparr>\<rparr>,
      rspec_PolicyRef = ''shop'',
      rspec_TempCluster = \<lparr>tc_NamePrefix = ''anon'', tc_CRVersion = ''1.20.0'', tc_Image = ''pxc:8'',
        tc_BackupImage = ''pxb:8'', tc_Size = 0,
        tc_Storage = \<lparr>ts_StorageClassName = ''fast'', ts_Size = ''10Gi''\<rparr>, tc_Resources = jobj [],
        tc_SystemUsersSecretRef = Some ''shop-users'', tc_HAProxy = None, tc_Configuration = [],
        tc_Overrides = None, tc_Annotations = fmempty, tc_Labels = fmempty\<rparr>,
      rspec_Output = \<lparr>out_ObjectStorage = sample_storage, out_BackupNamePrefix = [],
        out_ContainerOptions = None, out_Pointer = None,
        out_Retention = \<lparr>re_KeepSucceeded = 2, re_DeleteFailedAfter = 86400000000000\<rparr>\<rparr>,
      rspec_Runner = \<lparr>ru_PodSpec = \<lparr>rp_Image = [], rp_Resources = jobj [], rp_NodeSelector = fmempty,
        rp_Tolerations = [], rp_Affinity = None\<rparr>, ru_Workers = 4, ru_PageSize = Some 5000,
        ru_DisableBinlog = Some True, ru_DryRun = False\<rparr>,
      rspec_Timeouts = \<lparr>tm_ClusterReady = 0, tm_Restore = 0, tm_Anonymize = 0, tm_Backup = 0,
        tm_Publish = 0, tm_Cleanup = 0\<rparr>,
      rspec_Cleanup = \<lparr>cl_OnFailure = ''Delete'', cl_HoldTempClusterFor = 0\<rparr>,
      rspec_BackoffLimit = 2, rspec_TTLSecondsAfterFinished = None\<rparr>"

definition sample_run :: AnonymizationRun where
  "sample_run = \<lparr>run_Meta = empty_meta\<lparr>om_Name := ''nightly'', om_Namespace := ''shop'', om_UID := ''uid-1''\<rparr>,
     run_Spec = sample_run_spec, run_Status = empty_run_status\<rparr>"

end
