(* ===== verification/Objectstore.thy ===== *)
theory Objectstore
  imports Api_Run
begin

text \<open>
  \<open>internal/objectstore\<close>: endpoint and URL checks, the resolution of an object storage from
  the API type and the Secrets of the namespace, and the JSON objects that the operator puts,
  gets and checks.  The S3 client (minio) and the certificate pool are parameters.
\<close>

section \<open>Errors\<close>

text \<open>The error of an API call, and the tree of errors that \<open>%w\<close> builds over it.\<close>

datatype kerr = KNotFound | KConflict | KAlreadyExists | KOther string

datatype serr =
    SText string
  | SNotFound
  | SCredentialsInvalid
  | SEndpointUnreachable
  | SKube kerr
  | SMinio string
  | SNetwork string
  | SWrap string "serr list"

fun serr_tree :: "serr \<Rightarrow> serr list" where
  "serr_tree (SWrap m es) = SWrap m es # concat (map serr_tree es)"
| "serr_tree e = [e]"

definition serr_is :: "serr \<Rightarrow> serr \<Rightarrow> bool" where
  "serr_is t e = (t \<in> set (serr_tree e))"

lemma serr_is_wrap [simp]:
  "serr_is t (SWrap m es) \<longleftrightarrow> t = SWrap m es \<or> (\<exists>e \<in> set es. serr_is t e)"
  by (auto simp: serr_is_def)

lemma serr_is_leaf [simp]:
  "serr_is t (SText s) \<longleftrightarrow> t = SText s" "serr_is t SNotFound \<longleftrightarrow> t = SNotFound"
  "serr_is t SCredentialsInvalid \<longleftrightarrow> t = SCredentialsInvalid"
  "serr_is t SEndpointUnreachable \<longleftrightarrow> t = SEndpointUnreachable"
  "serr_is t (SKube k) \<longleftrightarrow> t = SKube k" "serr_is t (SMinio c) \<longleftrightarrow> t = SMinio c"
  "serr_is t (SNetwork s) \<longleftrightarrow> t = SNetwork s"
  by (auto simp: serr_is_def)

definition minio_code :: "serr \<Rightarrow> string option" where
  "minio_code e = first_some (\<lambda>x. case x of SMinio c \<Rightarrow> Some c | _ \<Rightarrow> None) (serr_tree e)"

definition is_network :: "serr \<Rightarrow> bool" where
  "is_network e = list_ex (\<lambda>x. case x of SNetwork _ \<Rightarrow> True | _ \<Rightarrow> False) (serr_tree e)"

text \<open>The third-party response is inspected first, then the transport.\<close>

definition operationError :: "string \<Rightarrow> serr \<Rightarrow> serr" where
  "operationError op e =
     (let fallback = (if is_network e then SWrap (op @ '' object'') [SEndpointUnreachable, e]
                      else SWrap (op @ '' object'') [e])
      in case minio_code e of
           None \<Rightarrow> fallback
         | Some c \<Rightarrow>
             if c \<in> {''NoSuchKey'', ''NoSuchObject'', ''NotFound''} then SNotFound
             else if c \<in> {''AccessDenied'', ''InvalidAccessKeyId'', ''SignatureDoesNotMatch'',
                          ''InvalidToken'', ''ExpiredToken''}
                  then SWrap (op @ '' object'') [SCredentialsInvalid, e]
             else fallback)"

section \<open>URLs\<close>

definition ParseURL :: "klib \<Rightarrow> string \<Rightarrow> bool \<Rightarrow> serr + URL" where
  "ParseURL L raw allowInsecure =
     (case url_parse L raw of
        None \<Rightarrow> Inl (SText ''invalid URL'')
      | Some u \<Rightarrow>
          if u_Hostname u = [] \<or> u_User u \<or> u_Opaque u \<noteq> [] \<or> u_RawQuery u \<noteq> [] \<or> u_ForceQuery u \<or>
             u_Fragment u \<noteq> [] \<or> u_RawFragment u \<noteq> []
          then Inl (SText ''invalid URL'')
          else if u_Scheme u \<noteq> ''https'' \<and> (\<not> allowInsecure \<or> u_Scheme u \<noteq> ''http'')
          then Inl (SText ''URL must use https, or explicitly allow http'')
          else Inr u)"

definition ParseEndpoint :: "klib \<Rightarrow> string \<Rightarrow> serr + URL" where
  "ParseEndpoint L endpoint =
     (case ParseURL L endpoint True of
        Inl _ \<Rightarrow> Inl (SText ''endpoint must be an absolute http or https URL without userinfo, query or fragment'')
      | Inr u \<Rightarrow>
          if u_Path u \<noteq> [] \<or> u_RawPath u \<noteq> [] then Inl (SText ''endpoint must not carry a path'')
          else Inr u)"

lemma ParseURL_ok:
  "ParseURL L raw a = Inr u \<longleftrightarrow>
     url_parse L raw = Some u \<and> u_Hostname u \<noteq> [] \<and> \<not> u_User u \<and> u_Opaque u = [] \<and>
     u_RawQuery u = [] \<and> \<not> u_ForceQuery u \<and> u_Fragment u = [] \<and> u_RawFragment u = [] \<and>
     (u_Scheme u = ''https'' \<or> a \<and> u_Scheme u = ''http'')"
  unfolding ParseURL_def by (auto split: option.splits if_splits)

lemma ParseEndpoint_ok:
  "ParseEndpoint L s = Inr u \<longleftrightarrow> ParseURL L s True = Inr u \<and> u_Path u = [] \<and> u_RawPath u = []"
  unfolding ParseEndpoint_def by (auto split: sum.splits if_splits)

section \<open>Transport\<close>

text \<open>The reader of Secrets; \<open>None\<close> is a nil reader.\<close>

type_synonym reader = "(string \<Rightarrow> string \<Rightarrow> kerr + Secret) option"

record TLSConfig =
  tls_InsecureSkipVerify :: bool
  tls_RootCAs :: "string option"

text \<open>What the transport takes from the environment: whether the default transport can be
  cloned, whether the system pool loads, and whether a text holds a PEM certificate.\<close>

record certlib =
  default_transport_ok :: bool
  system_cert_pool :: "serr + unit"
  append_certs :: "string \<Rightarrow> bool"

definition Transport :: "certlib \<Rightarrow> reader \<Rightarrow> string \<Rightarrow> KeySelector option \<Rightarrow> bool \<Rightarrow> serr + TLSConfig" where
  "Transport C rd namespace ca insecure =
     (if \<not> default_transport_ok C then Inl (SText ''default HTTP transport must support cloning'')
      else case ca of
        None \<Rightarrow> Inr \<lparr>tls_InsecureSkipVerify = insecure, tls_RootCAs = None\<rparr>
      | Some sel \<Rightarrow>
          (case rd of
             None \<Rightarrow> Inl (SText ''custom CA requires a reader, namespace, Secret name and key'')
           | Some get \<Rightarrow>
               if namespace = [] \<or> sel_Name sel = [] \<or> sel_Key sel = []
               then Inl (SText ''custom CA requires a reader, namespace, Secret name and key'')
               else case get namespace (sel_Name sel) of
                 Inl e \<Rightarrow> Inl (SWrap ''read CA Secret'' [SKube e])
               | Inr secret \<Rightarrow>
                   if secret_data secret (sel_Key sel) = []
                   then Inl (SText ''CA Secret key must contain a PEM certificate bundle'')
                   else case system_cert_pool C of
                     Inl e \<Rightarrow> Inl (SWrap ''load system CA certificates'' [e])
                   | Inr _ \<Rightarrow>
                       if \<not> append_certs C (secret_data secret (sel_Key sel))
                       then Inl (SText ''CA Secret key contains no PEM certificates'')
                       else Inr \<lparr>tls_InsecureSkipVerify = insecure,
                                 tls_RootCAs = Some (secret_data secret (sel_Key sel))\<rparr>))"

section \<open>Resolve\<close>

datatype bucket_lookup = BucketLookupAuto | BucketLookupPath | BucketLookupDNS

record MinioOptions =
  mo_Host :: string
  mo_AccessKey :: string
  mo_SecretKey :: string
  mo_Secure :: bool
  mo_Region :: string
  mo_BucketLookup :: bucket_lookup
  mo_Transport :: TLSConfig

record Client =
  c_S3 :: MinioOptions
  c_Bucket :: string
  c_Prefix :: string
  c_EndpointURL :: string
  c_Region :: string
  c_PublicEndpointURL :: string

definition or_default :: "string \<Rightarrow> string \<Rightarrow> string" where
  "or_default s d = (if s = [] then d else s)"

definition default_keys :: ObjectStorageSecretKeys where
  "default_keys = \<lparr>ok_AccessKeyID = ''AWS_ACCESS_KEY_ID'', ok_SecretAccessKey = ''AWS_SECRET_ACCESS_KEY'',
     ok_EndpointURL = ''S3_ENDPOINT_URL'', ok_PublicEndpointURL = ''S3_PUBLIC_ENDPOINT_URL''\<rparr>"

definition resolve_keys :: "ObjectStorageSecretKeys option \<Rightarrow> ObjectStorageSecretKeys" where
  "resolve_keys ks = (case ks of None \<Rightarrow> default_keys | Some k \<Rightarrow>
     \<lparr>ok_AccessKeyID = or_default (ok_AccessKeyID k) (ok_AccessKeyID default_keys),
      ok_SecretAccessKey = or_default (ok_SecretAccessKey k) (ok_SecretAccessKey default_keys),
      ok_EndpointURL = or_default (ok_EndpointURL k) (ok_EndpointURL default_keys),
      ok_PublicEndpointURL = or_default (ok_PublicEndpointURL k) (ok_PublicEndpointURL default_keys)\<rparr>)"

record Resolved =
  rv_Endpoint :: string
  rv_AccessKey :: string
  rv_SecretKey :: string
  rv_PublicEndpoint :: string

text \<open>The credentials and endpoints, from the spec and the referenced Secret.\<close>

definition resolve_credentials :: "reader \<Rightarrow> string \<Rightarrow> ObjectStorageSpec \<Rightarrow> serr + Resolved" where
  "resolve_credentials rd namespace spec =
     (let keys = resolve_keys (os_Keys spec) in
      case os_CredentialsSecretRef spec of
        None \<Rightarrow> Inr \<lparr>rv_Endpoint = os_EndpointURL spec, rv_AccessKey = [], rv_SecretKey = [],
                  rv_PublicEndpoint = []\<rparr>
      | Some name \<Rightarrow>
          (case rd of
             None \<Rightarrow> Inl (SText ''credentials require a reader, namespace and Secret name'')
           | Some get \<Rightarrow>
               if namespace = [] \<or> name = []
               then Inl (SText ''credentials require a reader, namespace and Secret name'')
               else case get namespace name of
                 Inl e \<Rightarrow> Inl (SWrap ''read credentials Secret'' [SKube e])
               | Inr secret \<Rightarrow>
                   (let ak = secret_data secret (ok_AccessKeyID keys);
                        sk = secret_data secret (ok_SecretAccessKey keys)
                    in if ak = [] \<or> sk = []
                       then Inl (SWrap ''Secret must contain nonempty access and secret keys'' [SCredentialsInvalid])
                       else Inr \<lparr>rv_Endpoint = or_default (os_EndpointURL spec) (secret_data secret (ok_EndpointURL keys)),
                              rv_AccessKey = ak, rv_SecretKey = sk,
                              rv_PublicEndpoint = secret_data secret (ok_PublicEndpointURL keys)\<rparr>)))"

text \<open>\<open>minio_new\<close> is the constructor of the S3 client, which may refuse its options.\<close>

definition Resolve ::
  "klib \<Rightarrow> certlib \<Rightarrow> (MinioOptions \<Rightarrow> serr option) \<Rightarrow> reader \<Rightarrow> string \<Rightarrow> ObjectStorageSpec \<Rightarrow> serr + Client" where
  "Resolve L C minio_new rd namespace spec =
     (if os_Bucket spec = [] then Inl (SText ''bucket is required'')
      else if has_prefix (os_Prefix spec) ''/'' then Inl (SText ''prefix must not start with /'')
      else bindr (resolve_credentials rd namespace spec) (\<lambda>rv.
        case ParseEndpoint L (rv_Endpoint rv) of
          Inl e \<Rightarrow> Inl (SWrap [] [SEndpointUnreachable, e])
        | Inr u \<Rightarrow>
            if rv_PublicEndpoint rv \<noteq> [] \<and> \<not> is_ok (ParseURL L (rv_PublicEndpoint rv) True)
            then Inl (SText ''invalid public endpoint URL'')
            else
              (let region = or_default (os_Region spec) ''auto'';
                   lookup = (case os_PathStyle spec of None \<Rightarrow> BucketLookupAuto
                     | Some True \<Rightarrow> BucketLookupPath | Some False \<Rightarrow> BucketLookupDNS);
                   ca = (case os_TLS spec of None \<Rightarrow> None | Some t \<Rightarrow> ot_CASecretRef t);
                   insecure = (case os_TLS spec of None \<Rightarrow> False | Some t \<Rightarrow> ot_InsecureSkipVerify t)
               in case Transport C rd namespace ca insecure of
                    Inl e \<Rightarrow> Inl (SWrap [] [SEndpointUnreachable, e])
                  | Inr tr \<Rightarrow>
                      (let opts = \<lparr>mo_Host = u_Host u, mo_AccessKey = rv_AccessKey rv, mo_SecretKey = rv_SecretKey rv,
                             mo_Secure = (u_Scheme u = ''https''), mo_Region = region,
                             mo_BucketLookup = lookup, mo_Transport = tr\<rparr>
                       in case minio_new opts of
                            Some e \<Rightarrow> Inl (SWrap ''create client'' [SEndpointUnreachable, e])
                          | None \<Rightarrow> Inr \<lparr>c_S3 = opts, c_Bucket = os_Bucket spec, c_Prefix = os_Prefix spec,
                              c_EndpointURL = u_String u, c_Region = region,
                              c_PublicEndpointURL = rv_PublicEndpoint rv\<rparr>))))"

lemma Resolve_ok:
  assumes "Resolve L C mk rd ns spec = Inr c"
  shows "os_Bucket spec \<noteq> []" "\<not> has_prefix (os_Prefix spec) ''/''"
    "c_Bucket c = os_Bucket spec" "c_Prefix c = os_Prefix spec"
    "\<exists>rv u. resolve_credentials rd ns spec = Inr rv \<and> ParseEndpoint L (rv_Endpoint rv) = Inr u \<and>
       mo_Host (c_S3 c) = u_Host u \<and> mo_Secure (c_S3 c) = (u_Scheme u = ''https'') \<and>
       mo_AccessKey (c_S3 c) = rv_AccessKey rv \<and> mo_SecretKey (c_S3 c) = rv_SecretKey rv \<and>
       c_EndpointURL c = u_String u"
  using assms unfolding Resolve_def
  by (auto simp: ok_simps Let_def)

section \<open>Objects\<close>

definition MaxJSONBytes :: nat where
  "MaxJSONBytes = 65536"

record Metadata =
  md_ETag :: string
  md_Found :: bool
  md_ContentType :: string
  md_CacheControl :: string
  md_Size :: int

record PutOptions =
  po_ContentType :: string
  po_CacheControl :: string
  po_UserMetadata :: "(string, string) fmap"

text \<open>The S3 service over a state \<open>'w\<close>: an upload returns the ETag; a download gives the
  bytes that can be read and the error, if any, that ends them; a stat gives the metadata.\<close>

record 'w s3lib =
  s3_put :: "MinioOptions \<Rightarrow> string \<Rightarrow> string \<Rightarrow> string \<Rightarrow> PutOptions \<Rightarrow> 'w \<Rightarrow> (serr + string) \<times> 'w"
  s3_get :: "MinioOptions \<Rightarrow> string \<Rightarrow> string \<Rightarrow> 'w \<Rightarrow> serr + (string \<times> serr option)"
  s3_stat :: "MinioOptions \<Rightarrow> string \<Rightarrow> string \<Rightarrow> 'w \<Rightarrow> serr + Metadata"

definition objectKey :: "Client \<Rightarrow> string \<Rightarrow> serr + string" where
  "objectKey c key =
     (if key = [] then Inl (SText ''object key is required'')
      else if c_Prefix c = [] then Inr key
      else Inr (trim_suffix (c_Prefix c) ''/'' @ ''/'' @ key))"

text \<open>\<open>io.ReadAll(io.LimitReader(r, n))\<close>.\<close>

definition read_limited :: "nat \<Rightarrow> string \<times> serr option \<Rightarrow> serr + string" where
  "read_limited n body =
     (if n \<le> length (fst body) then Inr (take n (fst body))
      else case snd body of Some e \<Rightarrow> Inl e | None \<Rightarrow> Inr (fst body))"

text \<open>\<open>marshalled\<close> is the outcome of \<open>json.Marshal\<close> on the value; \<open>backup\<close> is the backup name
  of a value that has one.\<close>

definition PutJSON ::
  "'w s3lib \<Rightarrow> Client \<Rightarrow> string \<Rightarrow> serr + string \<Rightarrow> string option \<Rightarrow> 'w \<Rightarrow> (serr + string) \<times> 'w" where
  "PutJSON S c key marshalled backup w =
     (case objectKey c key of
        Inl e \<Rightarrow> (Inl e, w)
      | Inr k \<Rightarrow>
          (case marshalled of
             Inl e \<Rightarrow> (Inl (SWrap ''encode object JSON'' [e]), w)
           | Inr data \<Rightarrow>
               if length data > MaxJSONBytes then (Inl (SText ''object JSON exceeds 65536 bytes''), w)
               else
                 (let opts = \<lparr>po_ContentType = ''application/json'', po_CacheControl = ''no-cache'',
                        po_UserMetadata = (case backup of None \<Rightarrow> fmempty
                          | Some b \<Rightarrow> fmap_of_list [(''pxc-anonymizer-backup'', b)])\<rparr>
                  in case s3_put S (c_S3 c) (c_Bucket c) k data opts w of
                       (Inl e, w') \<Rightarrow> (Inl (operationError ''put'' e), w')
                     | (Inr etag, w') \<Rightarrow> (Inr etag, w'))))"

definition GetJSON :: "'w s3lib \<Rightarrow> (string \<Rightarrow> serr + 'a) \<Rightarrow> Client \<Rightarrow> string \<Rightarrow> 'w \<Rightarrow> serr + 'a" where
  "GetJSON S unmarshal_value c key w =
     bindr (objectKey c key) (\<lambda>k.
       case s3_get S (c_S3 c) (c_Bucket c) k w of
         Inl e \<Rightarrow> Inl (operationError ''get'' e)
       | Inr body \<Rightarrow>
           (case read_limited (MaxJSONBytes + 1) body of
              Inl e \<Rightarrow> Inl (operationError ''get'' e)
            | Inr data \<Rightarrow>
                if length data > MaxJSONBytes then Inl (SText ''object JSON exceeds 65536 bytes'')
                else case unmarshal_value data of
                       Inl e \<Rightarrow> Inl (SWrap ''decode object JSON'' [e])
                     | Inr v \<Rightarrow> Inr v))"

definition empty_metadata :: Metadata where
  "empty_metadata = \<lparr>md_ETag = [], md_Found = False, md_ContentType = [], md_CacheControl = [], md_Size = 0\<rparr>"

definition Head :: "'w s3lib \<Rightarrow> Client \<Rightarrow> string \<Rightarrow> 'w \<Rightarrow> serr + Metadata" where
  "Head S c key w =
     bindr (objectKey c key) (\<lambda>k.
       case s3_stat S (c_S3 c) (c_Bucket c) k w of
         Inl e \<Rightarrow> (let e' = operationError ''head'' e in
            if serr_is SNotFound e' then Inr empty_metadata else Inl e')
       | Inr m \<Rightarrow> Inr (m\<lparr>md_Found := True\<rparr>))"

lemma objectKey_scoped:
  assumes "objectKey c key = Inr k"
  shows "\<exists>p. k = p @ key \<and> (c_Prefix c = [] \<and> p = [] \<or> p = trim_suffix (c_Prefix c) ''/'' @ ''/'')"
  using assms unfolding objectKey_def by (auto split: if_splits)

lemma objectKey_inj: "objectKey c k1 = Inr k \<Longrightarrow> objectKey c k2 = Inr k \<Longrightarrow> k1 = k2"
  unfolding objectKey_def by (auto split: if_splits)

lemma GetJSON_bounded:
  "GetJSON S um c key w = Inr v \<Longrightarrow> \<exists>data. length data \<le> MaxJSONBytes \<and> um data = Inr v"
  unfolding GetJSON_def by (auto simp: ok_simps not_less)

lemma PutJSON_ok:
  "PutJSON S c key mr b w = (Inr etag, w') \<Longrightarrow>
     \<exists>k data opts. objectKey c key = Inr k \<and> mr = Inr data \<and> length data \<le> MaxJSONBytes \<and>
       s3_put S (c_S3 c) (c_Bucket c) k data opts w = (Inr etag, w')"
  unfolding PutJSON_def Let_def by (auto split: sum.splits if_splits prod.splits)

text \<open>Read after write, the documented consistency of the service.\<close>

definition s3_read_after_write :: "'w s3lib \<Rightarrow> bool" where
  "s3_read_after_write S \<longleftrightarrow>
     (\<forall>mo b k d opts w t w'. s3_put S mo b k d opts w = (Inr t, w') \<longrightarrow> s3_get S mo b k w' = Inr (d, None))"

lemma Put_then_Get:
  assumes "s3_read_after_write S" "PutJSON S c key (Inr data) b w = (Inr etag, w')" "um data = Inr v"
  shows "GetJSON S um c key w' = Inr v"
proof -
  obtain k opts where k: "objectKey c key = Inr k" "length data \<le> MaxJSONBytes"
    "s3_put S (c_S3 c) (c_Bucket c) k data opts w = (Inr etag, w')"
    using PutJSON_ok [OF assms(2)] by auto
  then have "s3_get S (c_S3 c) (c_Bucket c) k w' = Inr (data, None)"
    using assms(1) unfolding s3_read_after_write_def by blast
  then show ?thesis using k assms(3) by (simp add: GetJSON_def read_limited_def)
qed

lemma operationError_not_found:
  "serr_is SNotFound (operationError op e) \<longleftrightarrow>
     minio_code e \<in> {Some ''NoSuchKey'', Some ''NoSuchObject'', Some ''NotFound''} \<or>
     serr_is SNotFound e \<and>
     minio_code e \<notin> {Some ''NoSuchKey'', Some ''NoSuchObject'', Some ''NotFound''}"
  unfolding operationError_def Let_def by (auto split: option.splits)

text \<open>Inputs for the witnesses: an in-memory bucket.\<close>

definition memory_s3 :: "((string \<times> string) \<times> string) list s3lib" where
  "memory_s3 =
     \<lparr>s3_put = (\<lambda>mo b k d opts w. (Inr ''etag'', ((b, k), d) # w)),
      s3_get = (\<lambda>mo b k w. case map_of w (b, k) of None \<Rightarrow> Inl (SMinio ''NoSuchKey'') | Some d \<Rightarrow> Inr (d, None)),
      s3_stat = (\<lambda>mo b k w. case map_of w (b, k) of None \<Rightarrow> Inl (SMinio ''NoSuchKey'')
         | Some d \<Rightarrow> Inr (empty_metadata\<lparr>md_ETag := ''etag'', md_Size := int (length d)\<rparr>))\<rparr>"

lemma memory_s3_read_after_write: "s3_read_after_write memory_s3"
  by (simp add: s3_read_after_write_def memory_s3_def)

definition sample_certlib :: certlib where
  "sample_certlib = \<lparr>default_transport_ok = True, system_cert_pool = Inr (), append_certs = (\<lambda>s. s \<noteq> [])\<rparr>"

definition sample_reader :: reader where
  "sample_reader = Some (\<lambda>ns name.
     if ns = ''shop'' \<and> name \<in> {''s3-creds'', ''ca''}
     then Inr \<lparr>sec_Meta = empty_meta\<lparr>om_Name := name, om_Namespace := ns\<rparr>, sec_Type = ''Opaque'',
       sec_Immutable = None,
       sec_Data = fmap_of_list [(''AWS_ACCESS_KEY_ID'', ''ak''), (''AWS_SECRET_ACCESS_KEY'', ''sk''), (''bundle'', ''pem'')]\<rparr>
     else Inl KNotFound)"

definition sample_client :: Client where
  "sample_client = \<lparr>c_S3 = \<lparr>mo_Host = ''s3.example'', mo_AccessKey = ''ak'', mo_SecretKey = ''sk'',
       mo_Secure = True, mo_Region = ''auto'', mo_BucketLookup = BucketLookupPath,
       mo_Transport = \<lparr>tls_InsecureSkipVerify = False, tls_RootCAs = Some ''pem''\<rparr>\<rparr>,
     c_Bucket = ''backups'', c_Prefix = ''shop'', c_EndpointURL = ''https://s3.example'',
     c_Region = ''auto'', c_PublicEndpointURL = []\<rparr>"

lemma Resolve_sample:
  "Resolve sample_klib sample_certlib (\<lambda>_. None) sample_reader ''shop'' sample_storage = Inr sample_client"
  by (simp add: sample_client_def Resolve_def sample_storage_def resolve_credentials_def has_prefix_def
      sample_reader_def resolve_keys_def default_keys_def secret_data_def or_default_def sample_klib_def
      simple_url_def ParseEndpoint_def ParseURL_def Transport_def sample_certlib_def Let_def)

end
