(* ===== verification/Pointer.thy ===== *)
theory Pointer
  imports Objectstore
begin

text \<open>
  \<open>internal/pointer\<close>: the pointer document, its validation and its JSON codec, and the
  fetcher that reads a document over HTTP or from object storage.  The JSON codec of the plain
  struct and the HTTP exchange of one request are parameters; redirects, limits and validation
  are the code's.
\<close>

section \<open>The document\<close>

definition SchemaVersion :: int where
  "SchemaVersion = 2"

record Publisher =
  pu_Kind :: string
  pu_Namespace :: string
  pu_Name :: string
  pu_UID :: string

record SourceCluster =
  sc_Name :: string
  sc_Namespace :: string
  sc_CRVersion :: string

record Backup =
  bk_StorageName :: string
  bk_CompletedAt :: "int option"
  bk_State :: string

record S3 =
  s3_Bucket :: string
  s3_EndpointURL :: string
  s3_Region :: string

record Anonymized =
  an_Run :: string
  an_Policy :: string
  an_PolicyHash :: string

record Document =
  d_Name :: string
  d_Destination :: string
  d_SchemaVersion :: int
  d_PublishedAt :: "int option"
  d_PublishedBy :: "Publisher option"
  d_SourceCluster :: "SourceCluster option"
  d_Backup :: "Backup option"
  d_S3 :: "S3 option"
  d_Anonymized :: "Anonymized option"
  d_PublicURL :: string

definition empty_document :: Document where
  "empty_document = \<lparr>d_Name = [], d_Destination = [], d_SchemaVersion = 0, d_PublishedAt = None,
     d_PublishedBy = None, d_SourceCluster = None, d_Backup = None, d_S3 = None, d_Anonymized = None,
     d_PublicURL = []\<rparr>"

text \<open>The pattern \<open>^s3://[^/]+/.+\<close>: the bucket ends at the first slash, and a dot does not
  match a newline.\<close>

definition destinationPattern :: "string \<Rightarrow> bool" where
  "destinationPattern s \<longleftrightarrow>
     has_prefix s ''s3://'' \<and>
     (let rest = drop 5 s; bucket = takeWhile (\<lambda>c. c \<noteq> CHR ''/'') rest in
      bucket \<noteq> [] \<and>
      (case drop (length bucket) rest of
         _ # c # _ \<Rightarrow> c \<noteq> CHR 0x0A
       | _ \<Rightarrow> False))"

definition Validate_document :: "klib \<Rightarrow> Document \<Rightarrow> serr + unit" where
  "Validate_document L d =
     bindr (guardr (d_Name d \<noteq> []) (SText ''pointer name is required'')) (\<lambda>_.
     bindr (guardr (case url_parse L (d_Destination d) of
              None \<Rightarrow> False
            | Some u \<Rightarrow> destinationPattern (d_Destination d) \<and> \<not> u_User u \<and> u_RawQuery u = [] \<and>
                \<not> u_ForceQuery u \<and> u_Fragment u = [])
         (SText ''pointer destination must identify an s3 bucket and object'')) (\<lambda>_.
     bindr (guardr (1 \<le> d_SchemaVersion d) (SText ''pointer schemaVersion must be positive'')) (\<lambda>_.
     bindr (case d_S3 d of
              None \<Rightarrow> Inr ()
            | Some s \<Rightarrow> guardr (s3_EndpointURL s = [] \<or> is_ok (ParseEndpoint L (s3_EndpointURL s)))
                (SText ''pointer S3 endpoint URL is invalid'')) (\<lambda>_.
     guardr (d_PublicURL d = [] \<or> is_ok (ParseURL L (d_PublicURL d) True))
       (SText ''pointer public URL is invalid'')))))"

section \<open>The codec\<close>

text \<open>\<open>json.Marshal\<close> and \<open>json.Unmarshal\<close> of the plain struct; decoding starts from a value
  whose fields stay where the text does not name them.\<close>

record docwire =
  wire_marshal :: "Document \<Rightarrow> serr + string"
  wire_unmarshal :: "string \<Rightarrow> Document \<Rightarrow> serr + Document"

definition MarshalJSON :: "klib \<Rightarrow> docwire \<Rightarrow> Document \<Rightarrow> serr + string" where
  "MarshalJSON L W d =
     (let d' = d\<lparr>d_SchemaVersion := SchemaVersion\<rparr>
      in bindr (Validate_document L d') (\<lambda>_. wire_marshal W d'))"

definition UnmarshalJSON :: "klib \<Rightarrow> docwire \<Rightarrow> string \<Rightarrow> serr + Document" where
  "UnmarshalJSON L W data =
     bindr (wire_unmarshal W data (empty_document\<lparr>d_SchemaVersion := 1\<rparr>)) (\<lambda>d.
     bindr (Validate_document L d) (\<lambda>_. Inr d))"

definition Encode :: "klib \<Rightarrow> docwire \<Rightarrow> Document \<Rightarrow> serr + string" where
  "Encode L W d = MarshalJSON L W d"

definition Decode_document :: "klib \<Rightarrow> docwire \<Rightarrow> string \<Rightarrow> serr + Document" where
  "Decode_document L W data = UnmarshalJSON L W data"

text \<open>Decoding what was encoded over any initial value gives the encoded struct: every field
  is written, or omitted only where it is empty in the initial value too.\<close>

definition wire_faithful :: "docwire \<Rightarrow> bool" where
  "wire_faithful W \<longleftrightarrow> (\<forall>d data. 1 \<le> d_SchemaVersion d \<longrightarrow> wire_marshal W d = Inr data \<longrightarrow>
     wire_unmarshal W data (empty_document\<lparr>d_SchemaVersion := 1\<rparr>) = Inr d)"

lemma Decode_valid: "Decode_document L W data = Inr d \<Longrightarrow> Validate_document L d = Inr ()"
  by (auto simp: Decode_document_def UnmarshalJSON_def bindr_eq_Inr)

lemma Encode_Decode:
  assumes "wire_faithful W" "Encode L W d = Inr data"
  shows "Decode_document L W data = Inr (d\<lparr>d_SchemaVersion := 2\<rparr>)"
proof -
  let ?d = "d\<lparr>d_SchemaVersion := 2\<rparr>"
  have "Validate_document L ?d = Inr ()" "wire_marshal W ?d = Inr data"
    using assms(2) by (auto simp: Encode_def MarshalJSON_def SchemaVersion_def bindr_eq_Inr Let_def)
  moreover from this(2) have "wire_unmarshal W data (empty_document\<lparr>d_SchemaVersion := 1\<rparr>) = Inr ?d"
    using assms(1) by (simp add: wire_faithful_def)
  ultimately show ?thesis by (simp add: Decode_document_def UnmarshalJSON_def)
qed

section \<open>Fetching\<close>

text \<open>One HTTP exchange: a redirect to an absolute URL, a final response with its status and
  body, or an error of the transport.\<close>

datatype http_reply =
    HRedirect string
  | HResponse int string "serr option"
  | HError serr

type_synonym http_get = "TLSConfig \<Rightarrow> int \<Rightarrow> string \<Rightarrow> http_reply"

text \<open>\<open>CheckRedirect\<close>: called with the number of requests made so far.\<close>

definition check_redirect :: "klib \<Rightarrow> bool \<Rightarrow> string \<Rightarrow> nat \<Rightarrow> serr + unit" where
  "check_redirect L allow url previous =
     (if 10 \<le> previous then Inl (SText ''too many pointer redirects'')
      else bindr (ParseURL L url allow) (\<lambda>_. Inr ()))"

text \<open>\<open>http.Client.Do\<close>: requests until a reply is not a redirect; \<open>previous\<close> is the list of
  the URLs requested so far, newest first, and is returned with the outcome.\<close>

function http_do ::
  "klib \<Rightarrow> http_get \<Rightarrow> TLSConfig \<Rightarrow> int \<Rightarrow> bool \<Rightarrow> string list \<Rightarrow> string \<Rightarrow>
     (serr + (int \<times> string \<times> serr option)) \<times> string list" where
  "http_do L get tls timeout allow previous url =
     (case get tls timeout url of
        HError e \<Rightarrow> (Inl e, url # previous)
      | HResponse st body e \<Rightarrow> (Inr (st, body, e), url # previous)
      | HRedirect target \<Rightarrow>
          (case check_redirect L allow target (length (url # previous)) of
             Inl e \<Rightarrow> (Inl e, url # previous)
           | Inr _ \<Rightarrow> http_do L get tls timeout allow (url # previous) target))"
  by pat_completeness auto
termination
proof (relation "measure (\<lambda>(L, get, tls, timeout, allow, previous, url). 11 - length previous)")
  fix L allow url target x2 and previous :: "string list"
  assume "check_redirect L allow target (length (url # previous)) = Inr x2"
  then have "length (url # previous) < 10"
    by (auto simp: check_redirect_def split: if_splits)
  then show "((L, get, tls, timeout, allow, url # previous, target), (L, get, tls, timeout, allow, previous, url))
     \<in> measure (\<lambda>(L, get, tls, timeout, allow, previous, url). 11 - length previous)" for get tls timeout
    by simp
qed simp

declare http_do.simps [simp del]

lemma http_do_requests:
  assumes "length previous \<le> 9" "list_all (\<lambda>u. is_ok (ParseURL L u allow)) (tl (rev (url # previous)))"
  shows "length (snd (http_do L get tls timeout allow previous url)) \<le> 10 \<and>
    list_all (\<lambda>u. is_ok (ParseURL L u allow)) (tl (rev (snd (http_do L get tls timeout allow previous url))))"
  using assms
proof (induction L get tls timeout allow previous url rule: http_do.induct)
  case (1 L get tls timeout allow previous url)
  show ?case
  proof (cases "get tls timeout url")
    case (HRedirect target)
    show ?thesis
    proof (cases "check_redirect L allow target (length (url # previous))")
      case (Inr u)
      then have "length (url # previous) \<le> 9" "is_ok (ParseURL L target allow)"
        by (auto simp: check_redirect_def ok_simps is_ok_iff)
      then show ?thesis using 1 HRedirect Inr
        by (subst (1 2) http_do.simps) (simp add: tl_append split: list.splits)
    qed (use 1 HRedirect in \<open>subst (1 2) http_do.simps, simp\<close>)
  qed (use 1 in \<open>subst (1 2) http_do.simps, simp\<close>)+
qed
text \<open>The checks before the request: the URL, the timeout and the size limit.\<close>

definition fetch_settings :: "klib \<Rightarrow> HTTPPointerSource \<Rightarrow> serr + (URL \<times> int \<times> int)" where
  "fetch_settings L source =
     bindr (ParseURL L (hp_URL source) (hp_AllowInsecure source)) (\<lambda>u.
       let timeout = (case hp_Timeout source of None \<Rightarrow> 30000000000 | Some t \<Rightarrow> t);
           maxBytes = (if hp_MaxBytes source = 0 then int MaxJSONBytes else hp_MaxBytes source)
       in if timeout \<le> 0 then Inl (SText ''HTTP pointer timeout must be positive'')
          else if maxBytes < 1 \<or> maxBytes = int64_max
          then Inl (SText ''HTTP pointer maxBytes must be positive and leave room for an overflow byte'')
          else Inr (u, timeout, maxBytes))"

text \<open>The response: a missing object is its own category, another status is an error, and
  the body is read up to one byte past the limit.\<close>

definition read_response :: "klib \<Rightarrow> docwire \<Rightarrow> int \<Rightarrow> int \<times> string \<times> serr option \<Rightarrow> serr + Document" where
  "read_response L W maxBytes resp =
     (case resp of (status, body) \<Rightarrow>
        if status = 404 then Inl SNotFound
        else if status \<noteq> 200 then Inl (SText ''fetch HTTP pointer: status'')
        else case read_limited (nat (maxBytes + 1)) body of
               Inl e \<Rightarrow> Inl (SWrap ''read HTTP pointer'' [e])
             | Inr data \<Rightarrow>
                 if int (length data) > maxBytes then Inl (SText ''HTTP pointer exceeds maxBytes'')
                 else Decode_document L W data)"

definition fetchHTTP ::
  "klib \<Rightarrow> docwire \<Rightarrow> certlib \<Rightarrow> http_get \<Rightarrow> reader \<Rightarrow> string \<Rightarrow> HTTPPointerSource \<Rightarrow>
     (serr + Document) \<times> string list" where
  "fetchHTTP L W C get rd namespace source =
     (case fetch_settings L source of
        Inl e \<Rightarrow> (Inl e, [])
      | Inr (u, timeout, maxBytes) \<Rightarrow>
          (case Transport C rd namespace (hp_CASecretRef source) False of
             Inl e \<Rightarrow> (Inl e, [])
           | Inr tls \<Rightarrow>
               if url_parse L (u_String u) = None then (Inl (SText ''invalid HTTP pointer request''), [])
               else case http_do L get tls timeout (hp_AllowInsecure source) [] (u_String u) of
                      (Inl e, urls) \<Rightarrow> (Inl (SWrap ''fetch HTTP pointer'' [e]), urls)
                    | (Inr resp, urls) \<Rightarrow> (read_response L W maxBytes resp, urls)))"

text \<open>The result of a fetch and the URLs it requested, newest first.\<close>

definition Fetch ::
  "klib \<Rightarrow> docwire \<Rightarrow> certlib \<Rightarrow> (MinioOptions \<Rightarrow> serr option) \<Rightarrow> http_get \<Rightarrow> 'w s3lib \<Rightarrow> 'w \<Rightarrow>
     reader \<Rightarrow> string \<Rightarrow> PointerSource \<Rightarrow> (serr + Document) \<times> string list" where
  "Fetch L W C mk get S w rd namespace source =
     (case (ps_HTTP source, ps_S3 source) of
        (Some h, None) \<Rightarrow> fetchHTTP L W C get rd namespace h
      | (None, Some s) \<Rightarrow>
          (bindr (Resolve L C mk rd namespace (sp_ObjectStorage s)) (\<lambda>store.
             GetJSON S (UnmarshalJSON L W) store (sp_Key s) w), [])
      | _ \<Rightarrow> (Inl (SText ''set exactly one of http or s3''), []))"

text \<open>Requests and size of an HTTP fetch.  \<open>url_prints\<close> says that an accepted URL
  prints to a text that is accepted again, which holds for the URLs of \<open>net/url\<close>.\<close>

definition url_prints :: "klib \<Rightarrow> bool" where
  "url_prints L \<longleftrightarrow> (\<forall>raw a u. ParseURL L raw a = Inr u \<longrightarrow> is_ok (ParseURL L (u_String u) a))"

lemma fetchHTTP_requests:
  assumes "url_prints L"
  shows "length (snd (fetchHTTP L W C get rd ns src)) \<le> 10 \<and>
    list_all (\<lambda>u. is_ok (ParseURL L u (hp_AllowInsecure src))) (snd (fetchHTTP L W C get rd ns src))"
proof (cases "fetch_settings L src")
  case (Inr r)
  obtain u t m where r: "r = (u, t, m)" by (cases r)
  then have first: "is_ok (ParseURL L (u_String u) (hp_AllowInsecure src))"
    using Inr assms by (auto simp: fetch_settings_def ok_simps Let_def url_prints_def split: if_splits)
  define out where "out = (\<lambda>tls. http_do L get tls t (hp_AllowInsecure src) [] (u_String u))"
  have bound: "length (snd (out tls)) \<le> 10"
    "list_all (\<lambda>u. is_ok (ParseURL L u (hp_AllowInsecure src))) (tl (rev (snd (out tls))))" for tls
    using http_do_requests [of "[]" L "hp_AllowInsecure src" "u_String u" get tls t] by (simp_all add: out_def)
  have ends: "snd (out tls) \<noteq> [] \<and> last (snd (out tls)) = u_String u" for tls
  proof -
    have "snd (http_do L get tls t a prev v) \<noteq> [] \<and>
       last (snd (http_do L get tls t a prev v)) = last (v # prev)" for a prev v
      by (induction L get tls t a prev v rule: http_do.induct)
         (subst (1 2) http_do.simps, auto split: http_reply.splits sum.splits)
    from this [of "hp_AllowInsecure src" "[]" "u_String u"] show ?thesis by (simp add: out_def)
  qed
  have all: "list_all (\<lambda>u. is_ok (ParseURL L u (hp_AllowInsecure src))) (snd (out tls))" for tls
  proof -
    have "rev (snd (out tls)) = u_String u # tl (rev (snd (out tls)))"
      using ends [of tls] by (metis hd_Cons_tl hd_rev rev_is_Nil_conv)
    then have "list_all (\<lambda>u. is_ok (ParseURL L u (hp_AllowInsecure src))) (rev (snd (out tls)))"
      using first bound(2) [of tls] by (metis list.pred_inject(2))
    then show ?thesis by (simp add: list_all_iff)
  qed
  show ?thesis
    using bound(1) all unfolding fetchHTTP_def out_def
    by (auto simp: Inr r split: sum.splits prod.splits) (metis snd_conv)+
qed (simp add: fetchHTTP_def)

lemma fetchHTTP_ok:
  assumes "fst (fetchHTTP L W C get rd ns src) = Inr d"
  shows "Validate_document L d = Inr ()"
    "\<exists>data. int (length data) \<le> (if hp_MaxBytes src = 0 then 65536 else hp_MaxBytes src) \<and>
       Decode_document L W data = Inr d"
proof -
  obtain u t m where s: "fetch_settings L src = Inr (u, t, m)"
    using assms by (auto simp: fetchHTTP_def split: sum.splits prod.splits)
  then obtain resp where "read_response L W m resp = Inr d"
    using assms by (auto simp: fetchHTTP_def split: sum.splits prod.splits if_splits)
  then obtain data where data: "int (length data) \<le> m" "Decode_document L W data = Inr d"
    by (auto simp: read_response_def ok_simps not_less split: prod.splits)
  then show "Validate_document L d = Inr ()" by (simp add: Decode_valid)
  have "m = (if hp_MaxBytes src = 0 then 65536 else hp_MaxBytes src)"
    using s by (auto simp: fetch_settings_def ok_simps Let_def MaxJSONBytes_def split: if_splits)
  then show "\<exists>data. int (length data) \<le> (if hp_MaxBytes src = 0 then 65536 else hp_MaxBytes src) \<and>
       Decode_document L W data = Inr d"
    using data by auto
qed

lemma Fetch_valid:
  assumes "fst (Fetch L W C mk get S w rd ns src) = Inr d"
  shows "Validate_document L d = Inr ()"
proof (cases "ps_HTTP src")
  case None
  then obtain s :: S3PointerSource and store where "GetJSON S (UnmarshalJSON L W) store (sp_Key s) w = Inr d"
    using assms by (auto simp: Fetch_def bindr_eq_Inr split: option.splits)
  then show ?thesis using GetJSON_bounded Decode_valid unfolding Decode_document_def by metis
next
  case (Some h)
  then have "fst (fetchHTTP L W C get rd ns h) = Inr d"
    using assms by (auto simp: Fetch_def split: option.splits)
  then show ?thesis by (rule fetchHTTP_ok(1))
qed

section \<open>Inputs for the witnesses\<close>

text \<open>A codec for documents that have only the three fields every pointer has.\<close>

definition tiny_wire :: docwire where
  "tiny_wire =
     \<lparr>wire_marshal = (\<lambda>d. if d = empty_document\<lparr>d_Name := d_Name d, d_Destination := d_Destination d,
           d_SchemaVersion := d_SchemaVersion d\<rparr> \<and> CHR 0x0A \<notin> set (d_Name d)
         then Inr (int_dec (d_SchemaVersion d) @ [CHR '' ''] @ d_Name d @ [CHR 0x0A] @ d_Destination d)
         else Inl (SText ''unsupported'')),
      wire_unmarshal = (\<lambda>s d.
         let v = takeWhile (\<lambda>c. c \<noteq> CHR '' '') s;
             r = drop (Suc (length v)) s;
             n = takeWhile (\<lambda>c. c \<noteq> CHR 0x0A) r
         in if CHR '' '' \<in> set s \<and> CHR 0x0A \<in> set s
            then Inr (d\<lparr>d_SchemaVersion := int (digits_val v), d_Name := n,
                       d_Destination := drop (Suc (length n)) r\<rparr>)
            else Inl (SText ''syntax''))\<rparr>"

lemma nat_dec_no_break: "c \<in> set (nat_dec n) \<Longrightarrow> c \<noteq> CHR '' '' \<and> c \<noteq> CHR 0x0A"
  using nat_dec_digits [of c n] by (auto simp: is_digit_char_def byte_of_def)

lemma takeWhile_stop: "(\<And>c. c \<in> set xs \<Longrightarrow> c \<noteq> b) \<Longrightarrow> takeWhile (\<lambda>c. c \<noteq> b) (xs @ b # ys) = xs"
  by (induction xs) auto

lemma tiny_wire_faithful: "wire_faithful tiny_wire"
  unfolding wire_faithful_def
proof (intro allI impI)
  fix d data
  assume v: "1 \<le> d_SchemaVersion d" and m: "wire_marshal tiny_wire d = Inr data"
  let ?v = "nat_dec (nat (d_SchemaVersion d))"
  have d: "d = empty_document\<lparr>d_Name := d_Name d, d_Destination := d_Destination d,
           d_SchemaVersion := d_SchemaVersion d\<rparr>" "CHR 0x0A \<notin> set (d_Name d)"
    using m by (auto simp: tiny_wire_def split: if_splits)
  have e: "data = ?v @ CHR '' '' # d_Name d @ CHR 0x0A # d_Destination d"
    using m v by (auto simp: tiny_wire_def int_dec_def split: if_splits)
  have t: "takeWhile (\<lambda>c. c \<noteq> CHR '' '') data = ?v"
    unfolding e by (rule takeWhile_stop) (use nat_dec_no_break in blast)
  have n: "takeWhile (\<lambda>c. c \<noteq> CHR 0x0A) (d_Name d @ CHR 0x0A # d_Destination d) = d_Name d"
    by (rule takeWhile_stop) (use d(2) in auto)
  have "wire_unmarshal tiny_wire data (empty_document\<lparr>d_SchemaVersion := 1\<rparr>) =
     Inr (empty_document\<lparr>d_Name := d_Name d, d_Destination := d_Destination d,
           d_SchemaVersion := d_SchemaVersion d\<rparr>)"
    using v by (simp add: tiny_wire_def Let_def t) (simp add: e n)
  then show "wire_unmarshal tiny_wire data (empty_document\<lparr>d_SchemaVersion := 1\<rparr>) = Inr d"
    using d(1) by simp
qed

definition sample_document :: Document where
  "sample_document = empty_document\<lparr>d_Name := ''b1'', d_Destination := ''s3://backups/full''\<rparr>"

lemma sample_prints: "url_prints sample_klib"
  by (auto simp: url_prints_def ParseURL_ok sample_klib_def simple_url_def Let_def is_ok_iff
      split: if_splits)

section \<open>Properties\<close>

text \<open>C34 (roundtrip).  A document that was put into object storage is read back by the fetcher's
  codec as the same document with schema version two, under the same key, whatever its optional
  parts; the codec of the plain struct and the service are assumed faithful.\<close>

theorem pointer_publish_roundtrip:
  assumes "wire_faithful W" "s3_read_after_write S"
    and "PutJSON S c key (Encode L W d) (Some (d_Name d)) w = (Inr etag, w')"
  shows "GetJSON S (UnmarshalJSON L W) c key w' = Inr (d\<lparr>d_SchemaVersion := 2\<rparr>)"
proof -
  obtain data where e: "Encode L W d = Inr data" using PutJSON_ok [OF assms(3)] by blast
  then have "UnmarshalJSON L W data = Inr (d\<lparr>d_SchemaVersion := 2\<rparr>)"
    using Encode_Decode [OF assms(1)] by (simp add: Decode_document_def)
  then show ?thesis using Put_then_Get [OF assms(2)] assms(3) e by metis
qed

theorem pointer_publish_roundtrip_witness:
  "GetJSON memory_s3 (UnmarshalJSON sample_klib tiny_wire) sample_client ''latest.json''
     [((''backups'', ''shop/latest.json''), ''2 b1'' @ [CHR 0x0A] @ ''s3://backups/full'')]
   = Inr (sample_document\<lparr>d_SchemaVersion := 2\<rparr>)"
proof -
  have "Encode sample_klib tiny_wire sample_document = Inr (''2 b1'' @ [CHR 0x0A] @ ''s3://backups/full'')"
    by code_simp
  then have "PutJSON memory_s3 sample_client ''latest.json'' (Encode sample_klib tiny_wire sample_document)
     (Some (d_Name sample_document)) [] = (Inr ''etag'',
     [((''backups'', ''shop/latest.json''), ''2 b1'' @ [CHR 0x0A] @ ''s3://backups/full'')])"
    by (simp add: PutJSON_def objectKey_def sample_client_def trim_suffix_def has_suffix_def
        MaxJSONBytes_def memory_s3_def)
  from pointer_publish_roundtrip [OF tiny_wire_faithful memory_s3_read_after_write this]
  show ?thesis .
qed

text \<open>C35 (safety).  A fetch over HTTP makes at most ten requests, and every one of them, redirects
  included, goes to a URL that passed the checks of the source, so that an HTTPS source is never
  downgraded to plain HTTP; a document it returns is valid and was decoded from at most the
  configured number of bytes.\<close>

theorem fetchHTTP_confined:
  assumes "url_prints L"
  shows "length (snd (fetchHTTP L W C get rd ns src)) \<le> 10
    \<and> list_all (\<lambda>url. \<exists>u. url_parse L url = Some u \<and> \<not> u_User u \<and> u_RawQuery u = [] \<and>
         (u_Scheme u = ''https'' \<or> hp_AllowInsecure src \<and> u_Scheme u = ''http''))
        (snd (fetchHTTP L W C get rd ns src))
    \<and> (case fst (fetchHTTP L W C get rd ns src) of
         Inl _ \<Rightarrow> True
       | Inr d \<Rightarrow> Validate_document L d = Inr () \<and>
           (\<exists>data. int (length data) \<le> (if hp_MaxBytes src = 0 then 65536 else hp_MaxBytes src) \<and>
              Decode_document L W data = Inr d))"
proof (intro conjI)
  show "length (snd (fetchHTTP L W C get rd ns src)) \<le> 10"
    using fetchHTTP_requests [OF assms] by blast
  show "list_all (\<lambda>url. \<exists>u. url_parse L url = Some u \<and> \<not> u_User u \<and> u_RawQuery u = [] \<and>
         (u_Scheme u = ''https'' \<or> hp_AllowInsecure src \<and> u_Scheme u = ''http''))
        (snd (fetchHTTP L W C get rd ns src))"
    using fetchHTTP_requests [OF assms, of W C get rd ns src]
    by (auto simp: list_all_iff is_ok_iff ParseURL_ok)
  show "case fst (fetchHTTP L W C get rd ns src) of
         Inl _ \<Rightarrow> True
       | Inr d \<Rightarrow> Validate_document L d = Inr () \<and>
           (\<exists>data. int (length data) \<le> (if hp_MaxBytes src = 0 then 65536 else hp_MaxBytes src) \<and>
              Decode_document L W data = Inr d)"
  proof (cases "fst (fetchHTTP L W C get rd ns src)")
    case (Inr d)
    then show ?thesis using fetchHTTP_ok [OF Inr] by simp
  qed simp
qed

definition sample_get :: http_get where
  "sample_get tls timeout url =
     (if url = ''https://a.example/p'' then HRedirect ''https://b.example/p''
      else if url = ''https://b.example/p'' then HRedirect ''http://c.example/p''
      else HError (SNetwork ''refused''))"

definition sample_http :: HTTPPointerSource where
  "sample_http = \<lparr>hp_URL = ''https://a.example/p'', hp_AllowInsecure = False, hp_CASecretRef = None,
     hp_Timeout = None, hp_MaxBytes = 0\<rparr>"

theorem fetchHTTP_confined_witness:
  "snd (fetchHTTP sample_klib tiny_wire sample_certlib sample_get None ''shop'' sample_http) =
     [''https://b.example/p'', ''https://a.example/p''] \<and>
   list_all (\<lambda>url. \<exists>u. url_parse sample_klib url = Some u \<and> \<not> u_User u \<and> u_RawQuery u = [] \<and>
         (u_Scheme u = ''https'' \<or> hp_AllowInsecure sample_http \<and> u_Scheme u = ''http''))
        (snd (fetchHTTP sample_klib tiny_wire sample_certlib sample_get None ''shop'' sample_http))"
proof -
  have "snd (fetchHTTP sample_klib tiny_wire sample_certlib sample_get None ''shop'' sample_http) =
     [''https://b.example/p'', ''https://a.example/p'']"
    by code_simp
  with fetchHTTP_confined [OF sample_prints, of tiny_wire sample_certlib sample_get None "''shop''" sample_http]
  show ?thesis by blast
qed

end
