(* ===== verification/Ranking.thy ===== *)
theory Ranking
  imports Prelude "HOL-Library.Multiset"
begin

text \<open>
  The operator picks the newest backup and prunes the oldest runs and backups with small
  comparison functions.  The interface of such a function is the locale \<open>ranking\<close>, a strict
  weak order; \<open>pick\<close> is the loop that keeps the best candidate and \<open>sort_by\<close> is a stable
  sort.  The clients get what they need from the locale: the pick is a maximum and does not
  depend on the order of the candidates, and a sorted prefix holds the worst candidates.
\<close>

definition better_of :: "('a \<Rightarrow> 'a \<Rightarrow> bool) \<Rightarrow> 'a option \<Rightarrow> 'a \<Rightarrow> 'a option" where
  "better_of newer cur x = (case cur of None \<Rightarrow> Some x | Some c \<Rightarrow> if newer x c then Some x else cur)"

definition pick :: "('a \<Rightarrow> 'a \<Rightarrow> bool) \<Rightarrow> 'a list \<Rightarrow> 'a option" where
  "pick newer xs = foldl (better_of newer) None xs"

text \<open>\<open>slices.SortStableFunc\<close> with a comparison whose "less" is \<open>lt\<close>.\<close>

fun insert_by :: "('a \<Rightarrow> 'a \<Rightarrow> bool) \<Rightarrow> 'a \<Rightarrow> 'a list \<Rightarrow> 'a list" where
  "insert_by lt x [] = [x]"
| "insert_by lt x (y # ys) = (if lt y x then y # insert_by lt x ys else x # y # ys)"

definition sort_by :: "('a \<Rightarrow> 'a \<Rightarrow> bool) \<Rightarrow> 'a list \<Rightarrow> 'a list" where
  "sort_by lt xs = foldr (insert_by lt) xs []"

lemma pick_Nil [simp]: "pick newer [] = None"
  by (simp add: pick_def)

lemma pick_snoc: "pick newer (xs @ [x]) = better_of newer (pick newer xs) x"
  by (simp add: pick_def)

lemma mset_insert_by [simp]: "mset (insert_by lt x ys) = add_mset x (mset ys)"
  by (induction ys) auto

lemma mset_sort_by [simp]: "mset (sort_by lt xs) = mset xs"
  by (induction xs) (simp_all add: sort_by_def)

lemma set_sort_by [simp]: "set (sort_by lt xs) = set xs"
  by (metis mset_sort_by set_mset_mset)

lemma length_sort_by [simp]: "length (sort_by lt xs) = length xs"
  by (metis mset_sort_by size_mset)

lemma set_insert_by [simp]: "set (insert_by lt x ys) = insert x (set ys)"
  by (metis mset_insert_by set_mset_add_mset_insert set_mset_mset)

locale ranking =
  fixes newer :: "'a \<Rightarrow> 'a \<Rightarrow> bool"
  assumes newer_asym: "newer x y \<Longrightarrow> \<not> newer y x"
    and newer_cotrans: "newer x z \<Longrightarrow> newer x y \<or> newer y z"
begin

lemma newer_irrefl: "\<not> newer x x"
  using newer_asym by blast

lemma newer_trans: "newer x y \<Longrightarrow> newer y z \<Longrightarrow> newer x z"
  by (meson newer_asym newer_cotrans)

lemma pick_max: "pick newer xs = Some m \<Longrightarrow> m \<in> set xs \<and> (\<forall>x \<in> set xs. \<not> newer x m)"
proof (induction xs arbitrary: m rule: rev_induct)
  case (snoc x xs)
  show ?case
  proof (cases "pick newer xs")
    case None
    then have "xs = []"
      by (cases xs rule: rev_cases) (auto simp: pick_snoc better_of_def split: option.splits if_splits)
    then show ?thesis using snoc.prems by (auto simp: pick_def better_of_def newer_irrefl)
  next
    case (Some c)
    then show ?thesis using snoc.prems snoc.IH [OF Some] newer_irrefl newer_cotrans newer_asym
      by (auto simp: pick_snoc better_of_def split: if_splits) blast+
  qed
qed simp

lemma pick_None: "pick newer xs = None \<longleftrightarrow> xs = []"
  by (cases xs rule: rev_cases) (auto simp: pick_snoc better_of_def split: option.splits)

lemma pick_order_free:
  assumes "set xs = set ys"
    and tie: "\<And>x y. x \<in> set xs \<Longrightarrow> y \<in> set xs \<Longrightarrow> \<not> newer x y \<Longrightarrow> \<not> newer y x \<Longrightarrow> x = y"
  shows "pick newer xs = pick newer ys"
proof (cases "pick newer xs")
  case None
  then show ?thesis using assms(1) by (metis pick_None set_empty)
next
  case (Some m)
  then have "ys \<noteq> []" using assms(1) pick_max by fastforce
  then obtain n where "pick newer ys = Some n" using pick_None by (metis not_None_eq)
  then show ?thesis using Some assms pick_max by metis
qed

text \<open>Sorting with the older candidates first.\<close>

lemma sort_by_sorted: "sorted_wrt (\<lambda>x y. \<not> newer x y) (sort_by (\<lambda>x y. newer y x) xs)"
proof (induction xs)
  case (Cons x xs)
  have "sorted_wrt (\<lambda>x y. \<not> newer x y) ys \<Longrightarrow>
      sorted_wrt (\<lambda>x y. \<not> newer x y) (insert_by (\<lambda>x y. newer y x) x ys)" for ys
  proof (induction ys)
    case (Cons y ys)
    then show ?case using newer_asym newer_cotrans by auto blast
  qed simp
  then show ?case using Cons by (simp add: sort_by_def)
qed (simp add: sort_by_def)

lemma sort_by_prefix_oldest:
  assumes "x \<in> set (take n (sort_by (\<lambda>x y. newer y x) xs))"
    and "y \<in> set (drop n (sort_by (\<lambda>x y. newer y x) xs))"
  shows "\<not> newer x y"
proof -
  let ?s = "sort_by (\<lambda>x y. newer y x) xs"
  have "sorted_wrt (\<lambda>x y. \<not> newer x y) (take n ?s @ drop n ?s)"
    using sort_by_sorted by simp
  then show ?thesis using assms unfolding sorted_wrt_append by blast
qed

end

end
