(* ===== verification/Pxc.thy ===== *)
theory Pxc
  imports Pointer Ranking
begin

text \<open>
  \<open>internal/pxc\<close>: the views of the Percona resources and their states, the selection of the
  newest backup, label values and restore names that fit the limits of Kubernetes and of the
  Percona operator, and the rendering of backups, restores and the temporary cluster with its
  users Secret.
\<close>

section \<open>Views and states\<close>

abbreviation (input) "GroupName \<equiv> ''pxc.percona.com''"

text \<open>A group, version and kind.\<close>

type_synonym gvk = "string \<times> string \<times> string"

definition BackupGVK :: gvk where "BackupGVK = (GroupName, ''v1'', ''PerconaXtraDBClusterBackup'')"

definition ClusterGVK :: gvk where "ClusterGVK = (GroupName, ''v1'', ''PerconaXtraDBCluster'')"

definition RestoreGVK :: gvk where "RestoreGVK = (GroupName, ''v1'', ''PerconaXtraDBClusterRestore'')"

abbreviation (input) "BackupNew \<equiv> ([] :: string)"
abbreviation (input) "BackupSuspended \<equiv> ''Suspended''"
abbreviation (input) "BackupStarting \<equiv> ''Starting''"
abbreviation (input) "BackupRunning \<equiv> ''Running''"
abbreviation (input) "BackupFailed \<equiv> ''Failed''"
abbreviation (input) "BackupSucceeded \<equiv> ''Succeeded''"
abbreviation (input) "RestoreFailed \<equiv> ''Failed''"
abbreviation (input) "RestoreSucceeded \<equiv> ''Succeeded''"
abbreviation (input) "ClusterReady \<equiv> ''ready''"
abbreviation (input) "ClusterError \<equiv> ''error''"

record BackupSpec =
  bs_PXCCluster :: string
  bs_StorageName :: string

record BackupS3 =
  b3_Bucket :: string
  b3_EndpointURL :: string
  b3_Region :: string

record BackupStatus =
  bst_State :: string
  bst_Destination :: string
  bst_CompletedAt :: "int option"
  bst_Error :: string
  bst_StorageName :: string
  bst_S3 :: "BackupS3 option"

record BackupView =
  bv_Meta :: ObjectMeta
  bv_Spec :: BackupSpec
  bv_Status :: BackupStatus

record ClusterSpec =
  cs_CRVersion :: string
  cs_Pause :: bool
  cs_PXCSize :: int

record ClusterStatus =
  cst_State :: string
  cst_PXCState :: string
  cst_PXCSize :: int
  cst_PXCReady :: int

record ClusterView =
  cv_Meta :: ObjectMeta
  cv_Spec :: ClusterSpec
  cv_Status :: ClusterStatus

record RestoreSpec =
  res_PXCCluster :: string
  res_BackupName :: string
  res_BackupSource :: "BackupStatus option"

record RestoreStatus =
  rest_State :: string
  rest_Comments :: string
  rest_CompletedAt :: "int option"

record RestoreView =
  rv_Meta :: ObjectMeta
  rv_Spec :: RestoreSpec
  rv_Status :: RestoreStatus

definition Backup_Succeeded :: "BackupView \<Rightarrow> bool" where
  "Backup_Succeeded b = (bst_State (bv_Status b) = BackupSucceeded)"

definition Backup_IsTerminal :: "BackupView \<Rightarrow> bool" where
  "Backup_IsTerminal b \<longleftrightarrow> bst_State (bv_Status b) = BackupSucceeded \<or> bst_State (bv_Status b) = BackupFailed"

definition Restore_Succeeded :: "RestoreView \<Rightarrow> bool" where
  "Restore_Succeeded r = (rest_State (rv_Status r) = RestoreSucceeded)"

definition Restore_IsTerminal :: "RestoreView \<Rightarrow> bool" where
  "Restore_IsTerminal r \<longleftrightarrow>
     rest_State (rv_Status r) = RestoreSucceeded \<or> rest_State (rv_Status r) = RestoreFailed"

definition Cluster_Ready :: "ClusterView \<Rightarrow> bool" where
  "Cluster_Ready c \<longleftrightarrow>
     \<not> cs_Pause (cv_Spec c) \<and> cst_State (cv_Status c) = ClusterReady \<and> cs_PXCSize (cv_Spec c) > 0 \<and>
     cst_PXCReady (cv_Status c) = cs_PXCSize (cv_Spec c)"

text \<open>\<open>decodeView\<close>: the object is its group, version and kind and its tree; the converter of the
  library fills the view.\<close>

definition decodeView :: "(gvk \<times> json) option \<Rightarrow> gvk \<Rightarrow> (json \<Rightarrow> serr + 'v) \<Rightarrow> serr + 'v" where
  "decodeView obj expected from_unstructured =
     (case obj of
        None \<Rightarrow> Inl (SText ''decode: object is nil'')
      | Some (kind, tree) \<Rightarrow>
          if kind \<noteq> expected then Inl (SText ''decode: unexpected group/version/kind'')
          else case from_unstructured tree of
                 Inl e \<Rightarrow> Inl (SWrap ''decode'' [e])
               | Inr v \<Rightarrow> Inr v)"

definition DecodeBackup :: "(json \<Rightarrow> serr + BackupView) \<Rightarrow> (gvk \<times> json) option \<Rightarrow> serr + BackupView" where
  "DecodeBackup conv obj = decodeView obj BackupGVK conv"

definition DecodeCluster :: "(json \<Rightarrow> serr + ClusterView) \<Rightarrow> (gvk \<times> json) option \<Rightarrow> serr + ClusterView" where
  "DecodeCluster conv obj = decodeView obj ClusterGVK conv"

definition DecodeRestore :: "(json \<Rightarrow> serr + RestoreView) \<Rightarrow> (gvk \<times> json) option \<Rightarrow> serr + RestoreView" where
  "DecodeRestore conv obj = decodeView obj RestoreGVK conv"

section \<open>Selecting the newest backup\<close>

record BackupSelection =
  sel_Backup :: "BackupView option"
  sel_Succeeded :: nat
  sel_MissingCompletion :: nat

text \<open>Comparison of two candidates; the loop only passes backups with a completion time, which
  \<open>completed_at\<close> reads.\<close>

definition completed_at :: "BackupView \<Rightarrow> int" where
  "completed_at b = (case bst_CompletedAt (bv_Status b) of None \<Rightarrow> zero_time | Some t \<Rightarrow> t)"

definition newerBackup :: "BackupView \<Rightarrow> BackupView \<Rightarrow> bool" where
  "newerBackup a b =
     (if completed_at a \<noteq> completed_at b then completed_at a > completed_at b
      else if om_CreationTimestamp (bv_Meta a) \<noteq> om_CreationTimestamp (bv_Meta b)
      then om_CreationTimestamp (bv_Meta a) > om_CreationTimestamp (bv_Meta b)
      else om_Name (bv_Meta a) < om_Name (bv_Meta b))"

definition select_step :: "BackupSelection \<Rightarrow> BackupView \<Rightarrow> BackupSelection" where
  "select_step s c =
     (if \<not> Backup_Succeeded c then s
      else
        (let s = s\<lparr>sel_Succeeded := sel_Succeeded s + 1\<rparr> in
         if completed_at c = zero_time then s\<lparr>sel_MissingCompletion := sel_MissingCompletion s + 1\<rparr>
         else case sel_Backup s of
                None \<Rightarrow> s\<lparr>sel_Backup := Some c\<rparr>
              | Some cur \<Rightarrow> if newerBackup c cur then s\<lparr>sel_Backup := Some c\<rparr> else s))"

definition LatestSucceeded :: "BackupView list \<Rightarrow> BackupSelection" where
  "LatestSucceeded bs =
     foldl select_step \<lparr>sel_Backup = None, sel_Succeeded = 0, sel_MissingCompletion = 0\<rparr> bs"

definition candidate :: "BackupView \<Rightarrow> bool" where
  "candidate b \<longleftrightarrow> Backup_Succeeded b \<and> completed_at b \<noteq> zero_time"

interpretation backup_rank: ranking newerBackup
proof
  show "newerBackup x y \<Longrightarrow> \<not> newerBackup y x" for x y
    by (auto simp: newerBackup_def split: if_splits)
  show "newerBackup x z \<Longrightarrow> newerBackup x y \<or> newerBackup y z" for x y z
    using linorder_cases by (fastforce simp: newerBackup_def split: if_splits)
qed

lemma LatestSucceeded_pick:
  "LatestSucceeded bs =
     \<lparr>sel_Backup = pick newerBackup (filter candidate bs),
      sel_Succeeded = length (filter Backup_Succeeded bs),
      sel_MissingCompletion = length (filter (\<lambda>b. Backup_Succeeded b \<and> completed_at b = zero_time) bs)\<rparr>"
  by (induction bs rule: rev_induct)
    (auto simp: LatestSucceeded_def select_step_def candidate_def pick_snoc better_of_def Let_def
      split: option.splits)

section \<open>Names\<close>

definition LabelValue :: "klib \<Rightarrow> string \<Rightarrow> string" where
  "LabelValue L name =
     (if length name \<le> 63 then name else take 46 name @ ''-'' @ hex_encode (take 8 (sha256 L name)))"

definition restoreJobNameOverhead :: nat where
  "restoreJobNameOverhead = 13"

definition RestoreName :: "klib \<Rightarrow> string \<Rightarrow> string \<Rightarrow> serr + string" where
  "RestoreName L cand clusterName =
     (if length clusterName > 22 \<or> \<not> dns_subdomain L clusterName
      then Inl (SText ''restore clusterName must be a valid DNS subdomain of at most 22 bytes'')
      else if \<not> dns_subdomain L cand then Inl (SText ''restore name must be a valid DNS subdomain'')
      else
        (let limit = 63 - restoreJobNameOverhead - length clusterName in
         if length cand \<le> limit then Inr cand
         else Inr (trim_right (take (limit - 17) cand) ''-.'' @ ''-'' @ hex_encode (take 8 (sha256 L cand)))))"

text \<open>The loop over the two names meets them in no fixed order; only the text of the error
  depends on it.\<close>

definition validateRenderIdentity :: "klib \<Rightarrow> string \<Rightarrow> string \<Rightarrow> string \<Rightarrow> serr + unit" where
  "validateRenderIdentity L namespace name clusterName =
     bindr (guardr (dns_label L namespace) (SText ''namespace must be a valid DNS label'')) (\<lambda>_.
     bindr (guardr (length clusterName \<le> 22) (SText ''PXC clusterName must not exceed 22 characters'')) (\<lambda>_.
     bindr (guardr (dns_subdomain L name) (SText ''name must be a valid DNS subdomain'')) (\<lambda>_.
     guardr (dns_subdomain L clusterName) (SText ''clusterName must be a valid DNS subdomain''))))"

lemma validateRenderIdentity_ok:
  "validateRenderIdentity L ns name cl = Inr () \<longleftrightarrow>
     dns_label L ns \<and> length cl \<le> 22 \<and> dns_subdomain L name \<and> dns_subdomain L cl"
  by (auto simp: validateRenderIdentity_def ok_simps)

section \<open>Rendered objects\<close>

record Rendered =
  re_GVK :: gvk
  re_Meta :: ObjectMeta
  re_Spec :: json

abbreviation (input) "LabelRun \<equiv> ''pxc-anonymizer.io/run''"
abbreviation (input) "LabelOutputGroup \<equiv> ''pxc-anonymizer.io/output-group''"
abbreviation (input) "LabelOutput \<equiv> ''pxc-anonymizer.io/output''"
abbreviation (input) "outputStorageName \<equiv> ''anonymized''"
abbreviation (input) "FinalizerDeleteSSL \<equiv> ''percona.com/delete-ssl''"
abbreviation (input) "FinalizerDeleteProxysqlPvc \<equiv> ''percona.com/delete-proxysql-pvc''"
abbreviation (input) "FinalizerDeletePxcPvc \<equiv> ''percona.com/delete-pxc-pvc''"
abbreviation (input) "FinalizerDeleteBackup \<equiv> ''percona.com/delete-backup''"
abbreviation (input) "defaultHAProxyImage \<equiv> ''percona/haproxy:2.8.18-1''"

definition opt_args :: "string \<Rightarrow> string list option \<Rightarrow> (string, json) fmap \<Rightarrow> (string, json) fmap" where
  "opt_args name vs m = (case vs of None \<Rightarrow> m | Some xs \<Rightarrow> fmupd name (JList (map JStr xs)) m)"

definition renderContainerOptions :: "XtrabackupContainerOptions option \<Rightarrow> bool \<Rightarrow> json" where
  "renderContainerOptions options restoreDefaults =
     (let args = (if restoreDefaults then fmap_of_list [(''xbcloud'', JList [JStr ''--parallel=256''])] else fmempty);
          args = (case options of None \<Rightarrow> args
            | Some o' \<Rightarrow> opt_args ''xbcloud'' (co_Xbcloud o') (opt_args ''xbstream'' (co_Xbstream o')
                (opt_args ''xtrabackup'' (co_Xtrabackup o') args)))
      in jobj [(''args'', JObj args)])"

definition RenderOutputBackup ::
  "klib \<Rightarrow> AnonymizationRun option \<Rightarrow> string \<Rightarrow> string \<Rightarrow> string \<Rightarrow> serr + Rendered" where
  "RenderOutputBackup L run clusterName name outputGroup =
     (case run of None \<Rightarrow> Inl (SText ''run is required'') | Some r \<Rightarrow>
      bindr (validateRenderIdentity L (om_Namespace (run_Meta r)) name clusterName) (\<lambda>_.
        let runLabel = LabelValue L (om_Name (run_Meta r));
            group = LabelValue L (if outputGroup = [] then om_Name (run_Meta r) else outputGroup);
            options = out_ContainerOptions (rspec_Output (run_Spec r));
            base = fmap_of_list [(''pxcCluster'', JStr clusterName), (''storageName'', JStr outputStorageName)]
        in if \<not> list_all (\<lambda>v. v \<noteq> [] \<and> label_value_ok L v) [runLabel, group]
           then Inl (SText ''run and output group must be valid nonempty label values'')
           else Inr \<lparr>re_GVK = BackupGVK,
             re_Meta = empty_meta\<lparr>om_Name := name, om_Namespace := om_Namespace (run_Meta r),
               om_Finalizers := [FinalizerDeleteBackup],
               om_Labels := fmap_of_list [(LabelRun, runLabel), (LabelOutputGroup, group),
                 (LabelOutput, ''anonymized'')]\<rparr>,
             re_Spec = JObj (if options \<noteq> None
               then fmupd ''containerOptions'' (renderContainerOptions options False) base else base)\<rparr>))"

record RestoreRenderOptions =
  ro_Namespace :: string
  ro_Name :: string
  ro_ClusterName :: string
  ro_Destination :: string
  ro_Credentials :: RestoreS3Credentials
  ro_ContainerOptions :: "XtrabackupContainerOptions option"
  ro_Owner :: OwnerReference

definition restore_owner_ok :: "OwnerReference \<Rightarrow> bool" where
  "restore_owner_ok o' \<longleftrightarrow> or_APIVersion o' = GroupVersion_String \<and>
     (or_Kind o' = ''AnonymizationRun'' \<or> or_Kind o' = ''Bootstrap'') \<and> or_Name o' \<noteq> [] \<and> or_UID o' \<noteq> [] \<and>
     or_Controller o' = Some True \<and> or_BlockOwnerDeletion o' = Some True"

definition opt_upd :: "bool \<Rightarrow> string \<Rightarrow> json \<Rightarrow> (string, json) fmap \<Rightarrow> (string, json) fmap" where
  "opt_upd b k v m = (if b then fmupd k v m else m)"

definition RenderRestore :: "klib \<Rightarrow> RestoreRenderOptions \<Rightarrow> serr + Rendered" where
  "RenderRestore L o' =
     bindr (validateRenderIdentity L (ro_Namespace o') (ro_Name o') (ro_ClusterName o')) (\<lambda>_.
     bindr (guardr (length (ro_Name o') + length (ro_ClusterName o') + restoreJobNameOverhead \<le> 63)
       (SText ''restore name exceeds the Percona Job label budget'')) (\<lambda>_.
     bindr (guardr (restore_owner_ok (ro_Owner o'))
       (SText ''restore requires a Run or Bootstrap controller owner reference'')) (\<lambda>_.
     bindr (guardr (is_ok (Validate_document L (empty_document\<lparr>d_Name := ''restore'',
           d_Destination := ro_Destination o', d_SchemaVersion := SchemaVersion\<rparr>)))
       (SText ''restore destination must identify an S3 backup prefix'')) (\<lambda>_.
     let cr = ro_Credentials o' in
     bindr (guardr (dns_subdomain L (rc_CredentialsSecret cr))
       (SText ''restore credentialsSecret must name a same-namespace Secret'')) (\<lambda>_.
     bindr (guardr (rc_EndpointURL cr = [] \<or> is_ok (ParseEndpoint L (rc_EndpointURL cr)))
       (SText ''restore endpoint must be a valid HTTP or HTTPS endpoint'')) (\<lambda>_.
     let s3 = opt_upd (rc_EndpointURL cr \<noteq> []) ''endpointUrl'' (JStr (rc_EndpointURL cr)) (fmap_of_list
            [(''bucket'', JStr (takeWhile (\<lambda>c. c \<noteq> CHR ''/'') (trim_prefix (ro_Destination o') ''s3://''))),
             (''credentialsSecret'', JStr (rc_CredentialsSecret cr)),
             (''region'', JStr (or_default (rc_Region cr) ''auto''))]);
         source = opt_upd (rc_VerifyTLS cr \<noteq> None) ''verifyTLS'' (JBool (rc_VerifyTLS cr = Some True))
            (fmap_of_list [(''destination'', JStr (ro_Destination o')), (''s3'', JObj s3)])
     in Inr \<lparr>re_GVK = RestoreGVK,
          re_Meta = empty_meta\<lparr>om_Name := ro_Name o', om_Namespace := ro_Namespace o',
            om_OwnerReferences := [ro_Owner o']\<rparr>,
          re_Spec = jobj [(''pxcCluster'', JStr (ro_ClusterName o')), (''backupSource'', JObj source),
            (''containerOptions'', renderContainerOptions (ro_ContainerOptions o') True)]\<rparr>))))))"

section \<open>The temporary cluster\<close>

definition validRenderImage :: "string \<Rightarrow> bool" where
  "validRenderImage img \<longleftrightarrow>
     img \<noteq> [] \<and> \<not> list_ex (\<lambda>c. c \<in> set [CHR '' '', CHR 0x09, CHR 0x0D, CHR 0x0A]) img"

text \<open>\<open>resource.MustParse\<close> panics on a text that is not a quantity.\<close>

definition validateStorageBudget :: "klib \<Rightarrow> int \<Rightarrow> quantity \<Rightarrow> serr + unit" where
  "validateStorageBudget L sz q =
     (case q_parse L ''20Gi'' of
        None \<Rightarrow> Inl (SText ''panic: cannot parse 20Gi'')
      | Some limit \<Rightarrow>
          if sz < 1 \<or> q_sign L q \<le> 0 \<or> q_cmp L q limit > 0 \<or> q_value L q > q_value L limit div sz
          then Inl (SText ''temporary PXC data storage must be positive and total at most 20Gi'')
          else Inr ())"

definition storage_keys_ok :: "ObjectStorageSecretKeys option \<Rightarrow> bool" where
  "storage_keys_ok ks = (case ks of None \<Rightarrow> True | Some k \<Rightarrow>
     (ok_AccessKeyID k = [] \<or> ok_AccessKeyID k = ''AWS_ACCESS_KEY_ID'') \<and>
     (ok_SecretAccessKey k = [] \<or> ok_SecretAccessKey k = ''AWS_SECRET_ACCESS_KEY''))"

definition renderOutputStorage ::
  "klib \<Rightarrow> ObjectStorageSpec \<Rightarrow> XtrabackupContainerOptions option \<Rightarrow> serr + json" where
  "renderOutputStorage L spec options =
     (case os_CredentialsSecretRef spec of
        None \<Rightarrow> Inl (SText ''output storage requires a bucket, relative prefix and same-namespace credentials Secret'')
      | Some creds \<Rightarrow>
     bindr (guardr (os_Bucket spec \<noteq> [] \<and> \<not> has_prefix (os_Prefix spec) ''/'' \<and> dns_subdomain L creds)
       (SText ''output storage requires a bucket, relative prefix and same-namespace credentials Secret'')) (\<lambda>_.
     bindr (guardr (storage_keys_ok (os_Keys spec))
       (SText ''backup credentials require standard AWS_ACCESS_KEY_ID and AWS_SECRET_ACCESS_KEY keys'')) (\<lambda>_.
     bindr (guardr (os_EndpointURL spec = [] \<or> is_ok (ParseEndpoint L (os_EndpointURL spec)))
       (SText ''output storage endpoint is invalid'')) (\<lambda>_.
     let s3 = opt_upd (os_PathStyle spec \<noteq> None) ''forcePathStyle'' (JBool (os_PathStyle spec = Some True))
           (opt_upd (os_EndpointURL spec \<noteq> []) ''endpointUrl'' (JStr (os_EndpointURL spec))
             (fmap_of_list [(''bucket'', JStr (os_Bucket spec)), (''prefix'', JStr (os_Prefix spec)),
               (''credentialsSecret'', JStr creds), (''region'', JStr (or_default (os_Region spec) ''auto''))]))
     in bindr (case os_TLS spec of
            None \<Rightarrow> Inr (s3, fmempty)
          | Some t \<Rightarrow>
              (let verify = fmap_of_list [(''verifyTLS'', JBool (\<not> ot_InsecureSkipVerify t))] in
               case ot_CASecretRef t of
                 None \<Rightarrow> Inr (s3, verify)
               | Some ca \<Rightarrow>
                   if \<not> dns_subdomain L (sel_Name ca) \<or> sel_Key ca = []
                   then Inl (SText ''output storage CA must reference a same-namespace Secret key'')
                   else Inr (fmupd ''caBundle'' (jobj [(''name'', JStr (sel_Name ca)), (''key'', JStr (sel_Key ca))]) s3,
                             verify))) (\<lambda>(s3', tls).
        Inr (JObj (opt_upd (options \<noteq> None) ''containerOptions'' (renderContainerOptions options False)
          (fmupd ''s3'' (JObj s3') (fmupd ''type'' (JStr ''s3'') tls)))))))))"

definition protected_paths :: "string list list" where
  "protected_paths =
     [[''crVersion''], [''secretsName''], [''tls''], [''unsafeFlags''], [''upgradeOptions'', ''apply''],
      [''pxc'', ''image''], [''pxc'', ''volumeSpec'', ''persistentVolumeClaim'', ''storageClassName''],
      [''haproxy'', ''enabled''], [''proxysql'', ''enabled''], [''logcollector'', ''enabled''], [''pmm'', ''enabled''],
      [''backup'', ''image''], [''backup'', ''runningDeadlineSeconds''], [''backup'', ''pitr''],
      [''backup'', ''schedule''], [''backup'', ''storages'', outputStorageName]]"

text \<open>A field that is missing or cannot be reached reads as nil before the patch.\<close>

definition field_or_nil :: "gerr + json option \<Rightarrow> json" where
  "field_or_nil r = (case r of Inr (Some v) \<Rightarrow> v | _ \<Rightarrow> JNull)"

definition protected_same :: "klib \<Rightarrow> json \<Rightarrow> json \<Rightarrow> string list \<Rightarrow> serr + unit" where
  "protected_same L spec result path =
     guardr (nested_field L result path = Inr (Some (field_or_nil (nested_field L spec path))))
       (SText (''temp cluster overrides cannot change '' @ str_join path ''.''))"

definition pvc_only :: "klib \<Rightarrow> json \<Rightarrow> string \<Rightarrow> serr + unit" where
  "pvc_only L result field =
     (case nested_field L result [''pxc'', ''volumeSpec'', field] of
        Inr (Some _) \<Rightarrow> Inl (SText ''temp cluster overrides must retain PVC-only data storage'')
      | _ \<Rightarrow> Inr ())"

definition storage_request_path :: "string list" where
  "storage_request_path =
     [''pxc'', ''volumeSpec'', ''persistentVolumeClaim'', ''resources'', ''requests'', ''storage'']"

definition applyClusterOverrides :: "klib \<Rightarrow> json \<Rightarrow> string \<Rightarrow> serr + json" where
  "applyClusterOverrides L spec patch =
     bindr (guardr (json_object_text L patch) (SText ''temp cluster overrides must be a JSON object'')) (\<lambda>_.
     case json_marshal L spec of
       None \<Rightarrow> Inl (SText ''encode temp cluster spec'')
     | Some original \<Rightarrow>
     (case merge_patch L original patch of
        None \<Rightarrow> Inl (SText ''temp cluster overrides are not a valid JSON merge patch'')
      | Some merged \<Rightarrow>
     (case kjson_unmarshal L merged of
        None \<Rightarrow> Inl (SText ''decode temp cluster overrides'')
      | Some result \<Rightarrow>
     bindr (each (protected_same L spec result) protected_paths) (\<lambda>_.
     bindr (each (pvc_only L result) [''emptyDir'', ''hostPath'']) (\<lambda>_.
     case nested_int64 L result [''pxc'', ''size''] of
       Inl _ \<Rightarrow> Inl (SText ''temp cluster pxc.size must be an integer'')
     | Inr sz \<Rightarrow>
     (case nested_string L result storage_request_path of
        Inl _ \<Rightarrow> Inl (SText ''temp cluster PVC storage request must be a quantity'')
      | Inr text \<Rightarrow>
     (case q_parse L text of
        None \<Rightarrow> Inl (SText ''temp cluster PVC storage request must be a quantity'')
      | Some q \<Rightarrow>
     bindr (validateStorageBudget L sz q) (\<lambda>_.
     case nested_string L result [''haproxy'', ''image''] of
       Inl _ \<Rightarrow> Inl (SText ''temp cluster HAProxy image must be valid and nonempty'')
     | Inr img \<Rightarrow>
         if validRenderImage img then Inr result
         else Inl (SText ''temp cluster HAProxy image must be valid and nonempty'')))))))))"

definition temp_cluster_spec ::
  "klib \<Rightarrow> TempClusterSpec \<Rightarrow> string \<Rightarrow> int \<Rightarrow> json \<Rightarrow> json \<Rightarrow> int \<Rightarrow> json" where
  "temp_cluster_spec L t name sz storage resources backupTimeout =
     (let none = jobj [(''antiAffinityTopologyKey'', JStr ''none'')];
          off = jobj [(''enabled'', JBool False)]
      in jobj
       [(''crVersion'', JStr (tc_CRVersion t)), (''secretsName'', JStr (name @ ''-secrets'')),
        (''tls'', off),
        (''unsafeFlags'', jobj [(''pxcSize'', JBool True), (''proxySize'', JBool True), (''tls'', JBool True)]),
        (''upgradeOptions'', jobj [(''apply'', JStr ''disabled'')]),
        (''pxc'', jobj
          [(''size'', JInt sz), (''image'', JStr (tc_Image t)), (''resources'', resources),
           (''configuration'', JStr (tc_Configuration t)), (''affinity'', none),
           (''volumeSpec'', jobj [(''persistentVolumeClaim'', jobj
             [(''accessModes'', JList [JStr ''ReadWriteOnce'']),
              (''storageClassName'', JStr (ts_StorageClassName (tc_Storage t))),
              (''resources'', jobj [(''requests'', jobj
                 [(''storage'', JStr (q_string L (ts_Size (tc_Storage t))))])])])])]),
        (''haproxy'', jobj
          [(''enabled'', JBool (tc_HAProxy t \<noteq> Some False)), (''size'', JInt 1),
           (''image'', JStr defaultHAProxyImage), (''affinity'', none)]),
        (''proxysql'', off), (''logcollector'', off), (''pmm'', off),
        (''backup'', jobj
          [(''image'', JStr (tc_BackupImage t)), (''runningDeadlineSeconds'', JInt (backupTimeout div 1000000000)),
           (''pitr'', off), (''schedule'', JList []), (''storages'', jobj [(outputStorageName, storage)])])])"

definition RenderTempCluster :: "klib \<Rightarrow> AnonymizationRun option \<Rightarrow> string \<Rightarrow> serr + Rendered" where
  "RenderTempCluster L run name =
     (case run of None \<Rightarrow> Inl (SText ''a persisted Run is required'') | Some r \<Rightarrow>
     bindr (guardr (om_UID (run_Meta r) \<noteq> []) (SText ''a persisted Run is required'')) (\<lambda>_.
     bindr (validateRenderIdentity L (om_Namespace (run_Meta r)) name name) (\<lambda>_.
     let t = rspec_TempCluster (run_Spec r); out = rspec_Output (run_Spec r) in
     bindr (guardr (case tc_SystemUsersSecretRef t of None \<Rightarrow> False | Some s \<Rightarrow> dns_subdomain L s)
       (SText ''tempCluster.systemUsersSecretRef must name the source system-users Secret'')) (\<lambda>_.
     bindr (guardr (tc_CRVersion t = ''1.20.0'' \<and> validRenderImage (tc_Image t) \<and> validRenderImage (tc_BackupImage t))
       (SText ''temp cluster requires crVersion 1.20.0 and valid PXC and backup images'')) (\<lambda>_.
     bindr (guardr (ts_StorageClassName (tc_Storage t) \<noteq> [] \<and> dns_subdomain L (ts_StorageClassName (tc_Storage t)))
       (SText ''temp cluster storageClassName must be explicitly set'')) (\<lambda>_.
     let sz = (if tc_Size t = 0 then 1 else tc_Size t) in
     bindr (validateStorageBudget L sz (ts_Size (tc_Storage t))) (\<lambda>_.
     bindr (renderOutputStorage L (out_ObjectStorage out) (out_ContainerOptions out)) (\<lambda>storage.
     case resources_json L (tc_Resources t) of
       None \<Rightarrow> Inl (SText ''render PXC resources'')
     | Some resources \<Rightarrow>
     (let timeout = (if tm_Backup (rspec_Timeouts (run_Spec r)) = 0 then 10800000000000
                     else tm_Backup (rspec_Timeouts (run_Spec r))) in
     bindr (guardr (1000000000 \<le> timeout) (SText ''backup timeout must be at least one second'')) (\<lambda>_.
     let spec = temp_cluster_spec L t name sz storage resources timeout in
     bindr (case tc_Overrides t of None \<Rightarrow> Inr spec | Some patch \<Rightarrow> applyClusterOverrides L spec patch) (\<lambda>final.
     Inr \<lparr>re_GVK = ClusterGVK,
          re_Meta = empty_meta\<lparr>om_Name := name, om_Namespace := om_Namespace (run_Meta r),
            om_Labels := tc_Labels t,
            om_Annotations := fmap_of_list [(''argocd.argoproj.io/compare-options'', ''IgnoreExtraneous'')] ++\<^sub>f
              tc_Annotations t,
            om_OwnerReferences := [new_controller_ref L (run_Meta r) GroupVersion_String ''AnonymizationRun''],
            om_Finalizers := [FinalizerDeletePxcPvc, FinalizerDeleteSSL, FinalizerDeleteProxysqlPvc]\<rparr>,
          re_Spec = final\<rparr>)))))))))))"

section \<open>The users Secret\<close>

definition system_user_keys :: "string list" where
  "system_user_keys = [''root'', ''xtrabackup'', ''monitor'', ''proxyadmin'', ''operator'', ''replication'']"

definition copy_key :: "Secret \<Rightarrow> (string, string) fmap \<Rightarrow> string \<Rightarrow> serr + (string, string) fmap" where
  "copy_key source m key =
     (if secret_data source key = []
      then Inl (SText (''source system-users Secret is missing key '' @ key))
      else Inr (fmupd key (secret_data source key) m))"

definition RenderSystemUsersSecret ::
  "klib \<Rightarrow> AnonymizationRun option \<Rightarrow> string \<Rightarrow> Secret option \<Rightarrow> serr + Secret" where
  "RenderSystemUsersSecret L run clusterName source =
     (case (run, source) of
        (Some r, Some src) \<Rightarrow>
     bindr (guardr (om_UID (run_Meta r) \<noteq> [])
       (SText ''a persisted Run and resolved source system-users Secret are required'')) (\<lambda>_.
     bindr (validateRenderIdentity L (om_Namespace (run_Meta r)) (clusterName @ ''-secrets'') clusterName) (\<lambda>_.
     bindr (guardr (case tc_SystemUsersSecretRef (rspec_TempCluster (run_Spec r)) of None \<Rightarrow> False
         | Some ref \<Rightarrow> ref \<noteq> [] \<and> om_Name (sec_Meta src) = ref \<and>
             om_Namespace (sec_Meta src) = om_Namespace (run_Meta r))
       (SText ''source system-users Secret must match the explicit same-namespace reference'')) (\<lambda>_.
     bindr (foldr_err (copy_key src) fmempty system_user_keys) (\<lambda>m.
     let psk = secret_data src ''xtrabackup-aes256-psk'' in
     Inr \<lparr>sec_Meta = empty_meta\<lparr>om_Name := clusterName @ ''-secrets'', om_Namespace := om_Namespace (run_Meta r),
            om_OwnerReferences := [new_controller_ref L (run_Meta r) GroupVersion_String ''AnonymizationRun'']\<rparr>,
          sec_Type = ''Opaque'', sec_Immutable = None,
          sec_Data = (if psk \<noteq> [] then fmupd ''xtrabackup-aes256-psk'' psk m else m)\<rparr>))))
      | _ \<Rightarrow> Inl (SText ''a persisted Run and resolved source system-users Secret are required''))"

end
