(* ===== verification/Pxc_Safety.thy ===== *)
theory Pxc_Safety
  imports Pxc
begin

text \<open>
  What the rendering promises: the newest backup is selected whatever the order of the list, a
  restore name fits the label budget and is a DNS subdomain again, the temporary cluster stays
  within its storage budget and keeps its protected fields whatever the overrides are, and the
  copied users Secret holds nothing else.
\<close>

section \<open>DNS subdomains as an automaton\<close>

datatype lstate = LStart | LAlnum | LDash | LFail

definition lstep :: "lstate \<Rightarrow> char \<Rightarrow> lstate" where
  "lstep s c =
     (if s = LFail then LFail
      else if alnum c then LAlnum
      else if s \<noteq> LStart \<and> c = CHR ''-'' then LDash
      else if s = LAlnum \<and> c = CHR ''.'' then LStart
      else LFail)"

definition tail_ok :: "string \<Rightarrow> bool" where
  "tail_ok w \<longleftrightarrow> list_all (\<lambda>c. alnum c \<or> c = CHR ''-'') w \<and> w \<noteq> [] \<and> alnum (last w)"

lemma not_alnum [simp]: "\<not> alnum (CHR ''-'')" "\<not> alnum (CHR ''.'')"
  by (simp_all add: alnum_def is_lower_char_def is_digit_char_def byte_of_def)

lemma lstep_simps [simp]:
  "lstep LFail c = LFail"
  "lstep LStart c = (if alnum c then LAlnum else LFail)"
  "lstep LAlnum c = (if alnum c then LAlnum else if c = CHR ''-'' then LDash
     else if c = CHR ''.'' then LStart else LFail)"
  "lstep LDash c = (if alnum c then LAlnum else if c = CHR ''-'' then LDash else LFail)"
  by (simp_all add: lstep_def)

lemma lfail [simp]: "foldl lstep LFail s = LFail"
  by (induction s) simp_all

lemma rfc1123_label_Cons: "rfc1123_label (c # w) \<longleftrightarrow> alnum c \<and> (w = [] \<or> tail_ok w)"
  by (auto simp: rfc1123_label_def tail_ok_def)

lemma tail_ok_Cons: "tail_ok (c # w) \<longleftrightarrow> (if w = [] then alnum c else (alnum c \<or> c = CHR ''-'') \<and> tail_ok w)"
  by (auto simp: tail_ok_def)

lemma not_label_Nil [simp]: "\<not> rfc1123_label []" "\<not> tail_ok []"
  by (simp_all add: rfc1123_label_def tail_ok_def)

lemma labels_automaton:
  "(foldl lstep LStart s = LAlnum \<longleftrightarrow> list_all rfc1123_label (split_on (CHR ''.'') s)) \<and>
   (foldl lstep LAlnum s = LAlnum \<longleftrightarrow>
      (hd (split_on (CHR ''.'') s) = [] \<or> tail_ok (hd (split_on (CHR ''.'') s))) \<and>
      list_all rfc1123_label (tl (split_on (CHR ''.'') s))) \<and>
   (foldl lstep LDash s = LAlnum \<longleftrightarrow>
      tail_ok (hd (split_on (CHR ''.'') s)) \<and> list_all rfc1123_label (tl (split_on (CHR ''.'') s)))"
proof (induction s)
  case (Cons c s)
  obtain w ws where w: "split_on (CHR ''.'') s = w # ws"
    by (cases "split_on (CHR ''.'') s") simp_all
  then show ?case using Cons
    by (auto simp: rfc1123_label_Cons tail_ok_Cons)
qed simp

lemma subdomain_automaton: "rfc1123_subdomain s \<longleftrightarrow> length s \<le> 253 \<and> foldl lstep LStart s = LAlnum"
  by (simp add: rfc1123_subdomain_def labels_automaton)

lemma lstep_last:
  assumes "foldl lstep st (s @ [c]) \<noteq> LFail" "c \<noteq> CHR ''-''" "c \<noteq> CHR ''.''"
  shows "foldl lstep st (s @ [c]) = LAlnum"
  using assms by (auto simp: lstep_def [of "foldl lstep st s"] split: if_splits)

lemma lstep_alnums: "list_all alnum s \<Longrightarrow> s \<noteq> [] \<Longrightarrow> st \<noteq> LFail \<Longrightarrow> foldl lstep st s = LAlnum"
proof (induction s arbitrary: st)
  case (Cons c s)
  then show ?case by (cases "s = []"; cases st) simp_all
qed simp

lemma trim_right_prefix: "\<exists>r. s = trim_right s cs @ r"
proof -
  have "rev s = takeWhile (\<lambda>c. c \<in> set cs) (rev s) @ dropWhile (\<lambda>c. c \<in> set cs) (rev s)" by simp
  then have "s = rev (dropWhile (\<lambda>c. c \<in> set cs) (rev s)) @ rev (takeWhile (\<lambda>c. c \<in> set cs) (rev s))"
    by (metis rev_append rev_rev_ident)
  then show ?thesis unfolding trim_right_def by blast
qed

lemma trim_right_nonempty:
  assumes "c \<in> set s" "c \<notin> set cs"
  shows "trim_right s cs \<noteq> []"
  using assms by (auto simp: trim_right_def dropWhile_eq_Nil_conv)

lemma hex_alnum: "list_all alnum (hex_encode s)"
  using hex_encode_hex [of s]
  by (auto simp: list_all_iff is_hex_lower_def alnum_def is_lower_char_def)

text \<open>A valid name cut anywhere, trimmed and joined to a hash is valid again.\<close>

lemma cut_subdomain:
  assumes s: "rfc1123_subdomain s" and k: "0 < k" and h: "h \<noteq> []"
    and len: "length (trim_right (take k s) ''-.'') + 1 + 2 * length h \<le> 253"
  shows "rfc1123_subdomain (trim_right (take k s) ''-.'' @ ''-'' @ hex_encode h)"
proof -
  let ?p = "trim_right (take k s) ''-.''"
  obtain r where "take k s = ?p @ r" using trim_right_prefix by blast
  then obtain r' where r': "s = ?p @ r'" by (metis append_assoc append_take_drop_id)
  have run: "foldl lstep LStart s = LAlnum" using s by (simp add: subdomain_automaton)
  then have nf: "foldl lstep LStart ?p \<noteq> LFail" using r' by (metis foldl_append lfail lstate.distinct(9))
  obtain c t where ct: "s = c # t" using run by (cases s) auto
  have "alnum c" using run ct by (auto split: if_splits)
  then have "c \<noteq> CHR ''-'' \<and> c \<noteq> CHR ''.''" using not_alnum by metis
  moreover have "c \<in> set (take k s)" using k ct by (cases k) simp_all
  ultimately have ne: "?p \<noteq> []" by (intro trim_right_nonempty [of c]) auto
  then have "last ?p \<notin> set ''-.''" by (rule trim_right_last)
  then have "foldl lstep LStart ?p = LAlnum"
    using nf ne lstep_last [of LStart "butlast ?p" "last ?p"] by simp
  moreover have hn: "hex_encode h \<noteq> []" using h by (cases h) (simp_all add: hex_encode_def)
  ultimately have "foldl lstep LStart (?p @ ''-'' @ hex_encode h) = LAlnum"
    using lstep_alnums [OF hex_alnum, of h LDash] hn by simp
  then show ?thesis using len by (simp add: subdomain_automaton)
qed

section \<open>Properties\<close>

text \<open>The selected backup is a succeeded one with a completion time, completed
  last, among these created last, and among these first by name; nothing is selected only where no
  backup qualifies; the counters are exact; and the whole selection does not depend on the order in
  which the API server lists the backups.\<close>

theorem LatestSucceeded_newest:
  assumes "mset bs' = mset bs" "inj_on (\<lambda>b. om_Name (bv_Meta b)) (set bs)"
  shows "LatestSucceeded bs' = LatestSucceeded bs
    \<and> sel_Succeeded (LatestSucceeded bs) = length (filter Backup_Succeeded bs)
    \<and> sel_MissingCompletion (LatestSucceeded bs) =
        length (filter Backup_Succeeded bs) - length (filter candidate bs)
    \<and> (case sel_Backup (LatestSucceeded bs) of
         None \<Rightarrow> filter candidate bs = []
       | Some b \<Rightarrow> b \<in> set (filter candidate bs) \<and>
           list_all (\<lambda>c. completed_at c < completed_at b \<or> completed_at c = completed_at b \<and>
               (om_CreationTimestamp (bv_Meta c) < om_CreationTimestamp (bv_Meta b) \<or>
                om_CreationTimestamp (bv_Meta c) = om_CreationTimestamp (bv_Meta b) \<and>
                om_Name (bv_Meta b) \<le> om_Name (bv_Meta c))) (filter candidate bs))"
proof (intro conjI)
  have tie: "x = y" if "x \<in> set (filter candidate bs)" "y \<in> set (filter candidate bs)"
      "\<not> newerBackup x y" "\<not> newerBackup y x" for x y
    using that assms(2) by (auto simp: newerBackup_def inj_on_def split: if_splits)
  have same: "set (filter candidate bs') = set (filter candidate bs)"
    using assms(1) by (metis mset_filter set_mset_mset)
  have "pick newerBackup (filter candidate bs') = pick newerBackup (filter candidate bs)"
    by (rule backup_rank.pick_order_free) (use same tie in auto)
  moreover have "length (filter P bs') = length (filter P bs)" for P
    using assms(1) by (metis mset_filter size_mset)
  ultimately show "LatestSucceeded bs' = LatestSucceeded bs" by (simp add: LatestSucceeded_pick)
  show "sel_Succeeded (LatestSucceeded bs) = length (filter Backup_Succeeded bs)"
    by (simp add: LatestSucceeded_pick)
  have "length (filter Backup_Succeeded bs) =
      length (filter candidate bs) + length (filter (\<lambda>b. Backup_Succeeded b \<and> completed_at b = zero_time) bs)"
    by (induction bs) (auto simp: candidate_def)
  then show "sel_MissingCompletion (LatestSucceeded bs) =
        length (filter Backup_Succeeded bs) - length (filter candidate bs)"
    by (simp add: LatestSucceeded_pick)
  show "case sel_Backup (LatestSucceeded bs) of
         None \<Rightarrow> filter candidate bs = []
       | Some b \<Rightarrow> b \<in> set (filter candidate bs) \<and>
           list_all (\<lambda>c. completed_at c < completed_at b \<or> completed_at c = completed_at b \<and>
               (om_CreationTimestamp (bv_Meta c) < om_CreationTimestamp (bv_Meta b) \<or>
                om_CreationTimestamp (bv_Meta c) = om_CreationTimestamp (bv_Meta b) \<and>
                om_Name (bv_Meta b) \<le> om_Name (bv_Meta c))) (filter candidate bs)"
  proof (cases "pick newerBackup (filter candidate bs)")
    case None
    then show ?thesis using backup_rank.pick_None by (simp add: LatestSucceeded_pick)
  next
    case (Some b)
    then have "b \<in> set (filter candidate bs)" "list_all (\<lambda>c. \<not> newerBackup c b) (filter candidate bs)"
      using backup_rank.pick_max [OF Some] by (auto simp: list_all_iff)
    then show ?thesis using Some
      by (auto simp: LatestSucceeded_pick list_all_iff newerBackup_def split: if_splits)
  qed
qed

definition sample_backup :: "string \<Rightarrow> string \<Rightarrow> int option \<Rightarrow> BackupView" where
  "sample_backup name st done_at =
     \<lparr>bv_Meta = empty_meta\<lparr>om_Name := name, om_Namespace := ''shop''\<rparr>,
      bv_Spec = \<lparr>bs_PXCCluster = ''shop'', bs_StorageName = ''s3''\<rparr>,
      bv_Status = \<lparr>bst_State = st, bst_Destination = ''s3://backups/'' @ name, bst_CompletedAt = done_at,
        bst_Error = [], bst_StorageName = ''s3'', bst_S3 = None\<rparr>\<rparr>"

theorem LatestSucceeded_newest_witness:
  "LatestSucceeded [sample_backup ''b'' ''Running'' None, sample_backup ''c'' ''Succeeded'' (Some 7),
       sample_backup ''a'' ''Succeeded'' (Some 5)] =
   LatestSucceeded [sample_backup ''a'' ''Succeeded'' (Some 5), sample_backup ''b'' ''Running'' None,
       sample_backup ''c'' ''Succeeded'' (Some 7)]"
  by (rule LatestSucceeded_newest [THEN conjunct1])
    (simp_all add: sample_backup_def empty_meta_def)
text \<open>The restore name that the operator derives from any candidate is accepted by
  the rendering: together with the cluster name and the prefix of the Percona Job it fits the 63
  characters of a label value, it is a DNS subdomain again, and a candidate that fits is kept.\<close>

theorem RestoreName_renderable:
  assumes "dns_subdomain L = rfc1123_subdomain" "\<And>s. length (sha256 L s) = 32"
    and "RestoreName L cand cl = Inr n"
  shows "length n + length cl + restoreJobNameOverhead \<le> 63 \<and> dns_subdomain L n
    \<and> (length cand + length cl + restoreJobNameOverhead \<le> 63 \<longleftrightarrow> n = cand)"
proof -
  let ?k = "33 - length cl" and ?h = "take 8 (sha256 L cand)"
  let ?m = "trim_right (take ?k cand) ''-.'' @ ''-'' @ hex_encode ?h"
  have cl: "length cl \<le> 22" and c: "rfc1123_subdomain cand"
    using assms(1,3) by (auto simp: RestoreName_def split: if_splits)
  have n: "n = (if length cand \<le> 50 - length cl then cand else ?m)"
    using assms(1,3) cl c by (auto simp: RestoreName_def restoreJobNameOverhead_def Let_def split: if_splits)
  have t: "length (trim_right (take ?k cand) ''-.'') \<le> ?k"
    using trim_right_length [of "take ?k cand" "''-.''"] by (simp add: min_def split: if_splits)
  have h: "length ?h = 8" "?h \<noteq> []" using assms(2) [of cand] by (simp, force)
  have "rfc1123_subdomain ?m"
    by (rule cut_subdomain) (use c cl t h in auto)
  moreover have "length ?m \<le> 50 - length cl" using t h cl by simp
  moreover have "length cand \<le> 50 - length cl \<longleftrightarrow> n = cand" using n calculation(2) by metis
  ultimately show ?thesis using n c cl assms(1) by (auto simp: restoreJobNameOverhead_def)
qed

theorem RestoreName_renderable_witness:
  "\<exists>n. RestoreName sample_klib (replicate 30 (CHR ''a'') @ ''-'' @ replicate 30 (CHR ''b'')) ''shop-anon'' = Inr n \<and>
     length n + length ''shop-anon'' + restoreJobNameOverhead \<le> 63 \<and> dns_subdomain sample_klib n"
proof -
  have e: "RestoreName sample_klib (replicate 30 (CHR ''a'') @ ''-'' @ replicate 30 (CHR ''b'')) ''shop-anon'' =
     Inr (replicate 24 (CHR ''a'') @ ''-3d3e3f4041424344'')"
    by code_simp
  have "dns_subdomain sample_klib = rfc1123_subdomain" "\<And>s. length (sha256 sample_klib s) = 32"
    by (simp_all add: sample_klib_def)
  from RestoreName_renderable [OF this e] e show ?thesis by blast
qed

text \<open>The documented behaviour of the libraries on the rendered tree.\<close>

definition tree_library :: "klib \<Rightarrow> bool" where
  "tree_library L \<longleftrightarrow> nested_field L = walk \<and> nested_string L = walk_string \<and> nested_int64 L = walk_int64"

definition quantity_library :: "klib \<Rightarrow> bool" where
  "quantity_library L \<longleftrightarrow>
     (case q_parse L ''20Gi'' of None \<Rightarrow> False | Some q \<Rightarrow> q_value L q = 20 * 2 ^ 30) \<and>
     (\<forall>q. case q_parse L (q_string L q) of None \<Rightarrow> False
        | Some q' \<Rightarrow> q_value L q' = q_value L q \<and> q_sign L q' = q_sign L q)"

lemma budget_ok:
  assumes "quantity_library L" "validateStorageBudget L sz q = Inr ()"
  shows "1 \<le> sz" "0 < q_sign L q" "sz * q_value L q \<le> 20 * 2 ^ 30"
proof -
  obtain lim where lim: "q_value L lim = 20 * 2 ^ 30" "1 \<le> sz" "0 < q_sign L q"
      "q_value L q \<le> q_value L lim div sz"
    using assms by (auto simp: quantity_library_def validateStorageBudget_def split: option.splits if_splits)
  then show "1 \<le> sz" "0 < q_sign L q" by simp_all
  have "sz * q_value L q \<le> sz * (q_value L lim div sz)"
    by (intro mult_left_mono) (use lim in auto)
  also have "\<dots> \<le> q_value L lim"
    using mult_div_mod_eq [of sz "q_value L lim"] pos_mod_sign [of sz "q_value L lim"] lim(2) by linarith
  finally show "sz * q_value L q \<le> 20 * 2 ^ 30" by (simp add: lim(1))
qed

lemma overrides_ok:
  assumes "applyClusterOverrides L spec patch = Inr v"
  shows "list_all (\<lambda>p. nested_field L v p = Inr (Some (field_or_nil (nested_field L spec p)))) protected_paths"
    "\<exists>sz text q. nested_int64 L v [''pxc'', ''size''] = Inr sz \<and>
       nested_string L v storage_request_path = Inr text \<and> q_parse L text = Some q \<and>
       validateStorageBudget L sz q = Inr ()"
  using assms
  by (auto simp: applyClusterOverrides_def ok_simps each_eq_Inr list_all_iff protected_same_def)

lemma RenderTempCluster_ok:
  assumes "RenderTempCluster L (Some r) name = Inr c"
  defines "t \<equiv> rspec_TempCluster (run_Spec r)" and "out \<equiv> rspec_Output (run_Spec r)"
  shows "\<exists>sz storage res timeout. let spec = temp_cluster_spec L t name sz storage res timeout in
      renderOutputStorage L (out_ObjectStorage out) (out_ContainerOptions out) = Inr storage \<and>
      validateStorageBudget L sz (ts_Size (tc_Storage t)) = Inr () \<and> tc_CRVersion t = ''1.20.0'' \<and>
      (case tc_Overrides t of None \<Rightarrow> Inr spec | Some patch \<Rightarrow> applyClusterOverrides L spec patch) = Inr (re_Spec c)"
    "om_Name (re_Meta c) = name" "om_Namespace (re_Meta c) = om_Namespace (run_Meta r)"
    "om_OwnerReferences (re_Meta c) = [new_controller_ref L (run_Meta r) GroupVersion_String ''AnonymizationRun'']"
    "set (om_Finalizers (re_Meta c)) = {FinalizerDeletePxcPvc, FinalizerDeleteSSL, FinalizerDeleteProxysqlPvc}"
  using assms(1) unfolding RenderTempCluster_def t_def out_def Let_def
  by (auto simp: bindr_eq_Inr guardr_eq_Inr case_need_eq_Inr) (intro exI conjI, assumption+)

lemma walk_temp_cluster:
  "walk (temp_cluster_spec L t name sz storage res timeout) [''crVersion''] = Inr (Some (JStr (tc_CRVersion t)))"
  "walk (temp_cluster_spec L t name sz storage res timeout) [''secretsName''] = Inr (Some (JStr (name @ ''-secrets'')))"
  "walk (temp_cluster_spec L t name sz storage res timeout)
     [''pxc'', ''volumeSpec'', ''persistentVolumeClaim'', ''storageClassName''] =
     Inr (Some (JStr (ts_StorageClassName (tc_Storage t))))"
  "walk (temp_cluster_spec L t name sz storage res timeout) [''backup'', ''pitr''] =
     Inr (Some (jobj [(''enabled'', JBool False)]))"
  "walk (temp_cluster_spec L t name sz storage res timeout) [''backup'', ''schedule''] = Inr (Some (JList []))"
  "walk (temp_cluster_spec L t name sz storage res timeout) [''backup'', ''storages'', outputStorageName] =
     Inr (Some storage)"
  "walk_int64 (temp_cluster_spec L t name sz storage res timeout) [''pxc'', ''size''] = Inr sz"
  "walk_string (temp_cluster_spec L t name sz storage res timeout) storage_request_path =
     Inr (q_string L (ts_Size (tc_Storage t)))"
  by (simp_all add: temp_cluster_spec_def Let_def walk_int64_def walk_string_def storage_request_path_def)


lemma sample_tree: "tree_library sample_klib"
  by (simp add: tree_library_def sample_klib_def)

lemma sample_quantity: "quantity_library sample_klib"
proof -
  have "plain_quantity ''20Gi'' = 20 * 2 ^ 30" by code_simp
  then show ?thesis by (simp add: quantity_library_def sample_klib_def)
qed

lemma sample_render: "is_ok (RenderTempCluster sample_klib (Some sample_run) ''anon-1'')"
proof -
  have b: "validateStorageBudget sample_klib 1 ''10Gi'' = Inr ()" by code_simp
  have i: "validateRenderIdentity sample_klib ''shop'' ''anon-1'' ''anon-1'' = Inr ()" by code_simp
  have d: "dns_subdomain sample_klib ''shop-users''" "dns_subdomain sample_klib ''fast''"
      "dns_subdomain sample_klib ''s3-creds''" "dns_subdomain sample_klib ''ca''"
    by code_simp+
  have u: "is_ok (ParseEndpoint sample_klib ''https://s3.example'')" by code_simp
  have s: "is_ok (renderOutputStorage sample_klib sample_storage None)"
    using d u by (simp add: renderOutputStorage_def sample_storage_def has_prefix_def storage_keys_ok_def Let_def)
  then obtain st where "renderOutputStorage sample_klib sample_storage None = Inr st"
    by (auto simp: is_ok_iff)
  then show ?thesis using b i d
    by (simp add: RenderTempCluster_def sample_run_def sample_run_spec_def empty_meta_def validRenderImage_def
        Let_def) (simp add: sample_klib_def)
qed


lemma copy_keys_ok:
  "foldr_err (copy_key src) m ks = Inr m' \<Longrightarrow>
     fmlookup m' k = (if k \<in> set ks then Some (secret_data src k) else fmlookup m k)
     \<and> list_all (\<lambda>k. secret_data src k \<noteq> []) ks"
proof (induction ks arbitrary: m)
  case (Cons a ks)
  then obtain m1 where "copy_key src m a = Inr m1" "foldr_err (copy_key src) m1 ks = Inr m'"
    by (auto simp: bindr_eq_Inr)
  with Cons.IH [OF this(2)] show ?case by (auto simp: copy_key_def split: if_splits)
qed simp

text \<open>The copied users Secret carries the six system users with the values of the
  source, at most the backup encryption key besides, and nothing else; the source is the Secret
  that the Run names in its own namespace, every system user has a password, and the copy is owned
  by the Run.\<close>

theorem RenderSystemUsersSecret_minimal:
  assumes "RenderSystemUsersSecret L (Some r) cl (Some src) = Inr s"
  shows "fmdom' (sec_Data s) =
        set system_user_keys \<union> (if secret_data src ''xtrabackup-aes256-psk'' = [] then {} else {''xtrabackup-aes256-psk''})
    \<and> (\<forall>k. fmlookup (sec_Data s) k \<in> {None, Some (secret_data src k)})
    \<and> list_all (\<lambda>k. secret_data s k \<noteq> []) system_user_keys
    \<and> tc_SystemUsersSecretRef (rspec_TempCluster (run_Spec r)) = Some (om_Name (sec_Meta src))
    \<and> om_Namespace (sec_Meta src) = om_Namespace (run_Meta r)
    \<and> om_Namespace (sec_Meta s) = om_Namespace (run_Meta r)
    \<and> om_OwnerReferences (sec_Meta s) = [new_controller_ref L (run_Meta r) GroupVersion_String ''AnonymizationRun'']"
proof -
  let ?psk = "''xtrabackup-aes256-psk''"
  obtain m where m: "foldr_err (copy_key src) fmempty system_user_keys = Inr m"
    and data: "sec_Data s = (if secret_data src ?psk \<noteq> [] then fmupd ?psk (secret_data src ?psk) m else m)"
    and ref: "tc_SystemUsersSecretRef (rspec_TempCluster (run_Spec r)) = Some (om_Name (sec_Meta src))"
      "om_Namespace (sec_Meta src) = om_Namespace (run_Meta r)"
    and meta: "om_Namespace (sec_Meta s) = om_Namespace (run_Meta r)"
      "om_OwnerReferences (sec_Meta s) = [new_controller_ref L (run_Meta r) GroupVersion_String ''AnonymizationRun'']"
    using assms by (auto simp: RenderSystemUsersSecret_def ok_simps Let_def split: option.splits)
  have look: "fmlookup m k = (if k \<in> set system_user_keys then Some (secret_data src k) else None)" for k
    using copy_keys_ok [OF m, of k] by simp
  have full: "list_all (\<lambda>k. secret_data src k \<noteq> []) system_user_keys"
    using copy_keys_ok [OF m] by blast
  have d: "fmlookup (sec_Data s) k =
      (if k \<in> set system_user_keys \<or> k = ?psk \<and> secret_data src ?psk \<noteq> [] then Some (secret_data src k) else None)" for k
    using data look [of k] by auto
  have "fmdom' (sec_Data s) = set system_user_keys \<union> (if secret_data src ?psk = [] then {} else {?psk})"
    by (auto simp: fmlookup_dom'_iff d split: if_splits)
  moreover have "list_all (\<lambda>k. secret_data s k \<noteq> []) system_user_keys"
    using full by (auto simp: list_all_iff d secret_data_def [of s])
  ultimately show ?thesis using ref meta d by auto
qed

definition sample_users :: Secret where
  "sample_users = \<lparr>sec_Meta = empty_meta\<lparr>om_Name := ''shop-users'', om_Namespace := ''shop''\<rparr>, sec_Type = ''Opaque'',
     sec_Immutable = None,
     sec_Data = fmap_of_list (map (\<lambda>k. (k, ''pw'')) (system_user_keys @ [''pmmserver'']))\<rparr>"

theorem RenderSystemUsersSecret_minimal_witness:
  "\<exists>s. RenderSystemUsersSecret sample_klib (Some sample_run) ''anon-1'' (Some sample_users) = Inr s \<and>
     fmdom' (sec_Data s) = set system_user_keys"
proof -
  have i: "validateRenderIdentity sample_klib ''shop'' ''anon-1-secrets'' ''anon-1'' = Inr ()" by code_simp
  have "is_ok (RenderSystemUsersSecret sample_klib (Some sample_run) ''anon-1'' (Some sample_users))"
    using i by (simp add: RenderSystemUsersSecret_def sample_run_def sample_run_spec_def sample_users_def
        empty_meta_def system_user_keys_def copy_key_def secret_data_def)
  then obtain s where s: "RenderSystemUsersSecret sample_klib (Some sample_run) ''anon-1'' (Some sample_users) = Inr s"
    by (auto simp: is_ok_iff)
  have "secret_data sample_users ''xtrabackup-aes256-psk'' = []"
    by (simp add: secret_data_def sample_users_def system_user_keys_def)
  with RenderSystemUsersSecret_minimal [OF s] s show ?thesis by auto
qed

end
