(* ===== verification/Effects.thy ===== *)
theory Effects
  imports Prelude
begin

text \<open>
  The reconcilers call the API server.  Its behaviour is a parameter: every call is a function
  on a state \<open>'w\<close> that the model never looks into, so that what is proved holds for every server,
  with every failure and every concurrent change.  What the operator does is the list of the
  requests it sends that change something, kept in the field \<open>log\<close>.  A computation returns an
  error or a value with the state; \<open>runs\<close> relates the requests it sends to its outcome and has
  one rule per combinator.
\<close>

record ('w, 'r) sys =
  world :: 'w
  log :: "'r list"

type_synonym ('w, 'r, 'e, 'a) eff = "('w, 'r) sys \<Rightarrow> ('e + 'a) \<times> ('w, 'r) sys"

definition ret :: "'a \<Rightarrow> ('w, 'r, 'e, 'a) eff" where
  "ret x s = (Inr x, s)"

definition fail :: "'e \<Rightarrow> ('w, 'r, 'e, 'a) eff" where
  "fail e s = (Inl e, s)"

definition andthen :: "('w, 'r, 'e, 'a) eff \<Rightarrow> ('a \<Rightarrow> ('w, 'r, 'e, 'b) eff) \<Rightarrow> ('w, 'r, 'e, 'b) eff" where
  "andthen m f s = (case m s of (Inl e, s') \<Rightarrow> (Inl e, s') | (Inr x, s') \<Rightarrow> f x s')"

text \<open>The outcome of a call is inspected, errors included.\<close>

definition attempt :: "('w, 'r, 'e, 'a) eff \<Rightarrow> ('e + 'a \<Rightarrow> ('w, 'r, 'e, 'b) eff) \<Rightarrow> ('w, 'r, 'e, 'b) eff" where
  "attempt m f s = (case m s of (x, s') \<Rightarrow> f x s')"

text \<open>A request that may change something is recorded before it is sent; a read is not.\<close>

definition request :: "'r \<Rightarrow> ('w \<Rightarrow> ('e + 'a) \<times> 'w) \<Rightarrow> ('w, 'r, 'e, 'a) eff" where
  "request r f s = (case f (world s) of (x, w) \<Rightarrow> (x, s\<lparr>world := w, log := log s @ [r]\<rparr>))"

definition query :: "('w \<Rightarrow> ('e + 'a) \<times> 'w) \<Rightarrow> ('w, 'r, 'e, 'a) eff" where
  "query f s = (case f (world s) of (x, w) \<Rightarrow> (x, s\<lparr>world := w\<rparr>))"

fun foreach :: "('a \<Rightarrow> ('w, 'r, 'e, unit) eff) \<Rightarrow> 'a list \<Rightarrow> ('w, 'r, 'e, unit) eff" where
  "foreach f [] = ret ()"
| "foreach f (x # xs) = andthen (f x) (\<lambda>_. foreach f xs)"

definition lift :: "'e + 'a \<Rightarrow> ('w, 'r, 'e, 'a) eff" where
  "lift r = (case r of Inl e \<Rightarrow> fail e | Inr x \<Rightarrow> ret x)"

definition runs :: "('w, 'r, 'e, 'a) eff \<Rightarrow> ('r list \<Rightarrow> 'e + 'a \<Rightarrow> bool) \<Rightarrow> bool" where
  "runs m Q \<longleftrightarrow> (\<forall>s. \<exists>l. log (snd (m s)) = log s @ l \<and> Q l (fst (m s)))"

lemma runs_conseq: "runs m Q \<Longrightarrow> (\<And>l r. Q l r \<Longrightarrow> Q' l r) \<Longrightarrow> runs m Q'"
  unfolding runs_def by blast

lemma runs_conj:
  assumes "runs m P" "runs m Q"
  shows "runs m (\<lambda>l r. P l r \<and> Q l r)"
  unfolding runs_def
proof
  fix s
  obtain l where "log (snd (m s)) = log s @ l \<and> P l (fst (m s))" using assms(1) unfolding runs_def by blast
  moreover obtain l' where "log (snd (m s)) = log s @ l' \<and> Q l' (fst (m s))"
    using assms(2) unfolding runs_def by blast
  ultimately show "\<exists>l. log (snd (m s)) = log s @ l \<and> P l (fst (m s)) \<and> Q l (fst (m s))"
    by (metis same_append_eq)
qed

lemma runs_ret: "Q [] (Inr x) \<Longrightarrow> runs (ret x) Q"
  by (simp add: runs_def ret_def)

lemma runs_fail: "Q [] (Inl e) \<Longrightarrow> runs (fail e) Q"
  by (simp add: runs_def fail_def)

lemma runs_andthen:
  assumes m: "runs m P"
    and err: "\<And>l e. P l (Inl e) \<Longrightarrow> Q l (Inl e)"
    and ok: "\<And>l x. P l (Inr x) \<Longrightarrow> runs (f x) (\<lambda>l' r. Q (l @ l') r)"
  shows "runs (andthen m f) Q"
  unfolding runs_def
proof
  fix s
  obtain l where l: "log (snd (m s)) = log s @ l" "P l (fst (m s))" using m unfolding runs_def by blast
  show "\<exists>l. log (snd (andthen m f s)) = log s @ l \<and> Q l (fst (andthen m f s))"
  proof (cases "fst (m s)")
    case (Inl e)
    then show ?thesis using l err by (auto simp: andthen_def split: prod.splits)
  next
    case (Inr x)
    then obtain l' where "log (snd (f x (snd (m s)))) = log (snd (m s)) @ l'" "Q (l @ l') (fst (f x (snd (m s))))"
      using ok [of l x] l unfolding runs_def by metis
    then show ?thesis using l Inr
      by (intro exI [of _ "l @ l'"]) (auto simp: andthen_def split: prod.splits)
  qed
qed

lemma runs_attempt:
  assumes "runs m P" and "\<And>l x. P l x \<Longrightarrow> runs (f x) (\<lambda>l' r. Q (l @ l') r)"
  shows "runs (attempt m f) Q"
  unfolding runs_def
proof
  fix s
  obtain l where l: "log (snd (m s)) = log s @ l" "P l (fst (m s))" using assms(1) unfolding runs_def by blast
  obtain l' where "log (snd (f (fst (m s)) (snd (m s)))) = log (snd (m s)) @ l'"
      "Q (l @ l') (fst (f (fst (m s)) (snd (m s))))"
    using assms(2) [OF l(2)] unfolding runs_def by metis
  then show "\<exists>l. log (snd (attempt m f s)) = log s @ l \<and> Q l (fst (attempt m f s))"
    using l by (intro exI [of _ "l @ l'"]) (auto simp: attempt_def split: prod.splits)
qed

lemma runs_request: "(\<And>x. Q [r] x) \<Longrightarrow> runs (request r f) Q"
  by (auto simp: runs_def request_def split: prod.splits)

lemma runs_query: "(\<And>x. Q [] x) \<Longrightarrow> runs (query f) Q"
  by (auto simp: runs_def query_def split: prod.splits)

lemma runs_query_result: "runs (query f) (\<lambda>l r. l = [] \<and> (\<exists>w. r = fst (f w)))"
  by (auto simp: runs_def query_def split: prod.splits) (metis fst_conv)

lemma runs_lift: "Q [] r \<Longrightarrow> runs (lift r) Q"
  by (auto simp: lift_def intro: runs_ret runs_fail split: sum.splits)

text \<open>A loop over requests sends those of a prefix of its items, of all of them where it succeeds.\<close>

lemma runs_foreach:
  fixes f :: "'a \<Rightarrow> ('w, 'r, 'e, unit) eff"
  assumes "\<And>x. x \<in> set xs \<Longrightarrow> runs (f x) (\<lambda>l r. set l \<subseteq> set (g x) \<and> (is_ok r \<longrightarrow> l = g x))"
  shows "runs (foreach f xs) (\<lambda>l r. set l \<subseteq> set (concat (map g xs)) \<and> (is_ok r \<longrightarrow> l = concat (map g xs)))"
  using assms
proof (induction xs)
  case Nil
  then show ?case by (auto intro: runs_ret)
next
  case (Cons x xs)
  have "runs (f x) (\<lambda>l r. set l \<subseteq> set (g x) \<and> (is_ok r \<longrightarrow> l = g x))" using Cons.prems by simp
  then show ?case unfolding foreach.simps
  proof (rule runs_andthen)
    fix l u assume "set l \<subseteq> set (g x) \<and> (is_ok (Inr u :: 'e + unit) \<longrightarrow> l = g x)"
    then have l: "l = g x" by simp
    show "runs (foreach f xs) (\<lambda>l' r. set (l @ l') \<subseteq> set (concat (map g (x # xs))) \<and>
        (is_ok r \<longrightarrow> l @ l' = concat (map g (x # xs))))"
      by (rule runs_conseq [OF Cons.IH]) (use Cons.prems l in auto)
  qed auto
qed

lemma runs_trace:
  "runs m Q \<Longrightarrow> m \<lparr>world = w, log = []\<rparr> = (r, s') \<Longrightarrow> Q (log s') r"
  unfolding runs_def by (metis append_Nil fst_conv sys.select_convs(2) snd_conv)

end
