(* ===== verification/Controller.thy ===== *)
theory Controller
  imports Pxc Effects
begin

text \<open>
  What the reconcilers share: the errors that an API call or a step returns, the result of a
  reconcile, and a calculus for the requests a computation sends.  \<open>emits m P R\<close> says that
  whatever the API server answers, every request of \<open>m\<close> satisfies \<open>P\<close> and a value it returns
  satisfies \<open>R\<close>; its rules follow the shape of the code, so that a handler's proof is the
  list of its requests with the conditions under which the code sends them.
\<close>

section \<open>Errors and results\<close>

text \<open>An error of the API server, an error made with \<open>errors.New\<close> or \<open>fmt.Errorf\<close>, an error
  of the packages below, or a \<open>runValidationError\<close> with its condition, reason and message.\<close>

datatype cerr = CKube kerr | CText string | CStore serr | CInvalid string string string

definition is_conflict :: "cerr \<Rightarrow> bool" where
  "is_conflict e = (e = CKube KConflict)"

record Result =
  Requeue :: bool
  RequeueAfter :: int

definition no_result :: Result where
  "no_result = \<lparr>Requeue = False, RequeueAfter = 0\<rparr>"

definition after :: "int \<Rightarrow> Result" where
  "after d = no_result\<lparr>RequeueAfter := d\<rparr>"

text \<open>A loop that carries a value.\<close>

fun foldm :: "('s \<Rightarrow> 'a \<Rightarrow> ('w, 'r, 'e, 's) eff) \<Rightarrow> 's \<Rightarrow> 'a list \<Rightarrow> ('w, 'r, 'e, 's) eff" where
  "foldm f s [] = ret s"
| "foldm f s (x # xs) = andthen (f s x) (\<lambda>s'. foldm f s' xs)"

section \<open>Requests\<close>

definition emits :: "('w, 'r, 'e, 'a) eff \<Rightarrow> ('r \<Rightarrow> bool) \<Rightarrow> ('a \<Rightarrow> bool) \<Rightarrow> bool" where
  "emits m P R \<longleftrightarrow> runs m (\<lambda>l r. list_all P l \<and> (\<forall>x. r = Inr x \<longrightarrow> R x))"

named_theorems emits_rules \<open>one rule per combinator\<close>

lemma emits_conseq: "emits m P R \<Longrightarrow> (\<And>x. R x \<Longrightarrow> R' x) \<Longrightarrow> emits m P R'"
  unfolding emits_def by (erule runs_conseq) simp

lemma emits_mono: "emits m P R \<Longrightarrow> (\<And>q. P q \<Longrightarrow> P' q) \<Longrightarrow> (\<And>x. R x \<Longrightarrow> R' x) \<Longrightarrow> emits m P' R'"
  unfolding emits_def by (erule runs_conseq) (auto simp: list_all_iff)

lemma emits_ret [emits_rules]: "R x \<Longrightarrow> emits (ret x) P R"
  by (simp add: emits_def runs_ret)

lemma emits_fail [emits_rules]: "emits (fail e) P R"
  by (simp add: emits_def runs_fail)

lemma emits_andthen:
  "emits m P R' \<Longrightarrow> (\<And>x. R' x \<Longrightarrow> emits (f x) P R) \<Longrightarrow> emits (andthen m f) P R"
  unfolding emits_def by (erule runs_andthen) (auto elim: runs_conseq)

lemma emits_attempt:
  fixes m :: "('w, 'r, 'e, 'a) eff"
  assumes m: "emits m P R'" and ok: "\<And>x. R' x \<Longrightarrow> emits (f (Inr x)) P R" and err: "\<And>e. emits (f (Inl e)) P R"
  shows "emits (attempt m f) P R"
  unfolding emits_def
proof (rule runs_attempt [OF m [unfolded emits_def]])
  fix l and r :: "'e + 'a" assume l: "list_all P l \<and> (\<forall>x. r = Inr x \<longrightarrow> R' x)"
  then have "emits (f r) P R" using ok err by (cases r) auto
  then show "runs (f r) (\<lambda>l' r. list_all P (l @ l') \<and> (\<forall>x. r = Inr x \<longrightarrow> R x))"
    unfolding emits_def by (rule runs_conseq) (use l in auto)
qed

lemma emits_query: "(\<And>w x. fst (f w) = Inr x \<Longrightarrow> R x) \<Longrightarrow> emits (query f) P R"
  unfolding emits_def by (rule runs_conseq [OF runs_query_result]) auto

lemma emits_andthen_query [emits_rules]:
  assumes "\<And>w x. fst (f w) = Inr x \<Longrightarrow> emits (g x) P R"
  shows "emits (andthen (query f) g) P R"
  by (rule emits_andthen [OF emits_query [where R = "\<lambda>x. \<exists>w. fst (f w) = Inr x"]]) (use assms in blast)+

lemma emits_attempt_query [emits_rules]:
  assumes "\<And>w x. fst (f w) = x \<Longrightarrow> emits (g x) P R"
  shows "emits (attempt (query f) g) P R"
  unfolding emits_def
  by (rule runs_attempt [OF runs_query_result]) (use assms in \<open>auto simp: emits_def\<close>)

lemma runs_request_result: "runs (request r f) (\<lambda>l x. l = [r] \<and> (\<exists>w. x = fst (f w)))"
  by (auto simp: runs_def request_def split: prod.splits) (metis fst_conv)

lemma emits_request [emits_rules]:
  "P r \<Longrightarrow> (\<And>w x. fst (f w) = Inr x \<Longrightarrow> R x) \<Longrightarrow> emits (request r f) P R"
  unfolding emits_def by (rule runs_conseq [OF runs_request_result]) auto

lemma emits_andthen_request [emits_rules]:
  assumes "P r" "\<And>w x. fst (f w) = Inr x \<Longrightarrow> emits (g x) P R"
  shows "emits (andthen (request r f) g) P R"
  by (rule emits_andthen [OF emits_request [where R = "\<lambda>x. \<exists>w. fst (f w) = Inr x"]]) (use assms in blast)+

lemma emits_attempt_request [emits_rules]:
  assumes "P r" "\<And>w x. fst (f w) = x \<Longrightarrow> emits (g x) P R"
  shows "emits (attempt (request r f) g) P R"
  unfolding emits_def
  by (rule runs_attempt [OF runs_request_result])
    (use assms in \<open>auto simp: emits_def elim!: runs_conseq [rotated]\<close>)

lemma emits_lift [emits_rules]: "(\<And>x. r = Inr x \<Longrightarrow> R x) \<Longrightarrow> emits (lift r) P R"
  by (cases r) (auto simp: lift_def intro: emits_rules)

lemma emits_andthen_lift [emits_rules]:
  "(\<And>x. r = Inr x \<Longrightarrow> emits (g x) P R) \<Longrightarrow> emits (andthen (lift r) g) P R"
  by (rule emits_andthen [OF emits_lift [where R = "\<lambda>x. r = Inr x"]]) auto

lemma emits_attempt_lift [emits_rules]:
  "emits (g r) P R \<Longrightarrow> emits (attempt (lift r) g) P R"
  by (cases r) (auto simp: lift_def emits_def runs_def attempt_def ret_def fail_def)

lemma emits_attempt_map [emits_rules]:
  fixes f :: "'w \<Rightarrow> ('e + 'a) \<times> 'w" and g :: "'a \<Rightarrow> 'b"
  assumes "\<And>w e. fst (f w) = Inl e \<Longrightarrow> emits (h (Inl e)) P R"
    and "\<And>w x. fst (f w) = Inr x \<Longrightarrow> emits (h (Inr (g x))) P R"
  shows "emits (attempt (andthen (query f) (\<lambda>x. ret (g x))) h) P R"
proof -
  have "attempt (andthen (query f) (\<lambda>x. ret (g x))) h = attempt (query f) (\<lambda>r. h (map_sum id g r))"
    by (rule ext) (auto simp: attempt_def andthen_def ret_def split: prod.splits sum.splits)
  moreover have "emits (h (map_sum id g r)) P R" if "fst (f w) = r" for w r
    using assms that by (cases r) auto
  ultimately show ?thesis by (simp add: emits_attempt_query)
qed

lemma emits_attempt_ret [emits_rules]: "emits (h (Inr x)) P R \<Longrightarrow> emits (attempt (ret x) h) P R"
  by (simp add: emits_def runs_def attempt_def ret_def)

lemma emits_attempt_fail [emits_rules]: "emits (h (Inl e)) P R \<Longrightarrow> emits (attempt (fail e) h) P R"
  by (simp add: emits_def runs_def attempt_def fail_def)

lemma emits_if [emits_rules]:
  "(b \<Longrightarrow> emits m P R) \<Longrightarrow> (\<not> b \<Longrightarrow> emits n P R) \<Longrightarrow> emits (if b then m else n) P R"
  by simp

lemma emits_option [emits_rules]:
  "(x = None \<Longrightarrow> emits m P R) \<Longrightarrow> (\<And>y. x = Some y \<Longrightarrow> emits (n y) P R) \<Longrightarrow>
     emits (case x of None \<Rightarrow> m | Some y \<Rightarrow> n y) P R"
  by (cases x) auto

lemma emits_sum [emits_rules]:
  "(\<And>e. x = Inl e \<Longrightarrow> emits (m e) P R) \<Longrightarrow> (\<And>y. x = Inr y \<Longrightarrow> emits (n y) P R) \<Longrightarrow>
     emits (case x of Inl e \<Rightarrow> m e | Inr y \<Rightarrow> n y) P R"
  by (cases x) auto

lemma emits_prod [emits_rules]:
  "(\<And>a b. x = (a, b) \<Longrightarrow> emits (m a b) P R) \<Longrightarrow> emits (case x of (a, b) \<Rightarrow> m a b) P R"
  by (cases x) auto

lemma emits_let [emits_rules]: "(\<And>x. x = e \<Longrightarrow> emits (m x) P R) \<Longrightarrow> emits (let x = e in m x) P R"
  by (simp add: Let_def)

lemma emits_foreach:
  "(\<And>x. x \<in> set xs \<Longrightarrow> emits (f x) P (\<lambda>_. True)) \<Longrightarrow> R () \<Longrightarrow> emits (foreach f xs) P R"
  by (induction xs) (auto intro!: emits_ret emits_andthen)

lemma emits_foldm:
  assumes "I s" "\<And>s x. x \<in> set xs \<Longrightarrow> I s \<Longrightarrow> emits (f s x) P I"
  shows "emits (foldm f s xs) P I"
  using assms
proof (induction xs arbitrary: s)
  case (Cons x xs)
  then show ?case by (auto intro!: emits_andthen [where R' = I])
qed (auto intro: emits_ret)

lemma emits_trace:
  "emits m P R \<Longrightarrow> m \<lparr>world = w, log = []\<rparr> = (r, s') \<Longrightarrow> q \<in> set (log s') \<Longrightarrow> P q"
  unfolding emits_def by (drule (1) runs_trace) (auto simp: list_all_iff)

end
