(* ===== verification/Schedule.thy ===== *)
theory Schedule
  imports Controller
begin

text \<open>
  \<open>internal/controller/anonymizationschedule_controller.go\<close>: one reconcile of an
  AnonymizationSchedule.  The API server is the record \<open>sched_api\<close> over an arbitrary state; the
  cron parser, the time zone database, time formatting and \<open>SetControllerReference\<close> are the
  record \<open>cronlib\<close>.  A computation that changes the schedule in memory returns the changed one.
\<close>

abbreviation (input) "scheduleNameLabel \<equiv> ''pxc-anonymizer.io/schedule''"
abbreviation (input) "scheduleRunNowAnnotation \<equiv> ''pxc-anonymizer.io/run-now''"
abbreviation (input) "scheduleRunNowHashAnnotation \<equiv> ''pxc-anonymizer.io/run-now-token-hash''"
abbreviation (input) "scheduleValidConditionType \<equiv> ''ScheduleValid''"
abbreviation (input) "scheduleReadyConditionType \<equiv> ''Ready''"
abbreviation (input) "anonymizationScheduleKind \<equiv> ''AnonymizationSchedule''"

definition scheduleMaxMissedTicks :: nat where "scheduleMaxMissedTicks = 100"

definition scheduleMaxNameLength :: nat where "scheduleMaxNameLength = 253"

definition scheduleShortHashLength :: nat where "scheduleShortHashLength = 6"

definition scheduleDeletionRequeue :: int where "scheduleDeletionRequeue = 10000000000"

section \<open>The environment\<close>

text \<open>The next activation of a parsed schedule after an instant, in a location; the zero time
  where there is none.\<close>

type_synonym cron = "string \<Rightarrow> int \<Rightarrow> int"

record cronlib =
  load_location :: "string \<Rightarrow> string + string"
  cron_parse :: "string \<Rightarrow> string + cron"
  run_time_layout :: "int \<Rightarrow> string"
  rfc3339 :: "int \<Rightarrow> string"
  set_controller_reference :: "ObjectMeta \<Rightarrow> ObjectMeta \<Rightarrow> string + ObjectMeta"

datatype request =
    RCreateRun AnonymizationRun
  | RDeleteRun AnonymizationRun string
  | RPatchStatus AnonymizationSchedule
  | RClearToken AnonymizationSchedule
  | REvent string

record 'w sched_api =
  get_schedule :: "string \<Rightarrow> string \<Rightarrow> 'w \<Rightarrow> (cerr + AnonymizationSchedule) \<times> 'w"
  get_run :: "string \<Rightarrow> string \<Rightarrow> 'w \<Rightarrow> (cerr + AnonymizationRun) \<times> 'w"
  list_runs :: "string \<Rightarrow> 'w \<Rightarrow> (cerr + AnonymizationRun list) \<times> 'w"
  create_run :: "AnonymizationRun \<Rightarrow> 'w \<Rightarrow> (cerr + AnonymizationRun) \<times> 'w"
  delete_run :: "AnonymizationRun \<Rightarrow> string \<Rightarrow> 'w \<Rightarrow> (cerr + unit) \<times> 'w"
  patch_status :: "AnonymizationSchedule \<Rightarrow> 'w \<Rightarrow> (cerr + AnonymizationSchedule) \<times> 'w"
  patch_schedule :: "AnonymizationSchedule \<Rightarrow> 'w \<Rightarrow> (cerr + AnonymizationSchedule) \<times> 'w"

type_synonym ('w, 'a) act = "('w, request, cerr, 'a) eff"

section \<open>Pure helpers\<close>

text \<open>\<open>strings.TrimSpace\<close>, on the runes of a string.\<close>

definition is_space :: "nat \<Rightarrow> bool" where
  "is_space r \<longleftrightarrow> (9 \<le> r \<and> r \<le> 13) \<or> r = 32 \<or> r = 133 \<or> r = 160 \<or> r = 5760 \<or> (8192 \<le> r \<and> r \<le> 8202) \<or>
     r = 8232 \<or> r = 8233 \<or> r = 8239 \<or> r = 8287 \<or> r = 12288"

definition trim_space :: "string \<Rightarrow> string" where
  "trim_space s = rune_str (rev (dropWhile is_space (rev (dropWhile is_space (str_runes s)))))"

definition upper_char :: "char \<Rightarrow> char" where
  "upper_char c = (if is_lower_char c then chr (byte_of c - 32) else c)"

definition quote :: "string \<Rightarrow> string" where
  "quote s = [CHR 0x22] @ s @ [CHR 0x22]"

definition parseScheduleSpec :: "cronlib \<Rightarrow> AnonymizationSchedule \<Rightarrow> string + cron \<times> string" where
  "parseScheduleSpec K sched =
     (let spec = trim_space (ss_Schedule (sch_Spec sched));
          upper = map upper_char spec
      in if spec = [] then Inl ''spec.schedule is empty''
         else if has_prefix upper ''TZ='' \<or> has_prefix upper ''CRON_TZ=''
         then Inl ''embedded TZ= or CRON_TZ= prefixes are rejected; use spec.timeZone''
         else if has_prefix (ascii_lower spec) ''@every''
         then Inl ''@every intervals are not supported; use five-field cron or a calendar descriptor''
         else
           (let zone = (case ss_TimeZone (sch_Spec sched) of None \<Rightarrow> ''UTC''
                  | Some z \<Rightarrow> if trim_space z = [] then ''UTC'' else trim_space z)
            in case load_location K zone of
                 Inl e \<Rightarrow> Inl (''invalid spec.timeZone '' @ quote zone @ '': '' @ e)
               | Inr loc \<Rightarrow>
                   (case cron_parse K spec of
                      Inl e \<Rightarrow> Inl (''invalid spec.schedule '' @ quote spec @ '': '' @ e)
                    | Inr c \<Rightarrow> Inr (c, loc))))"

text \<open>The walk over the missed ticks, from the next one; it stops at the 101st.\<close>

function latest_missed :: "(int \<Rightarrow> int) \<Rightarrow> int \<Rightarrow> int \<Rightarrow> nat \<Rightarrow> int \<Rightarrow> int option \<times> nat \<times> bool" where
  "latest_missed nxt now latest cnt tick =
     (if tick = zero_time \<or> tick > now
      then (if cnt = 0 then (None, 0, False) else (Some latest, cnt, False))
      else if cnt + 1 > scheduleMaxMissedTicks then (None, cnt + 1, True)
      else latest_missed nxt now tick (cnt + 1) (nxt tick))"
  by pat_completeness auto
termination
  by (relation "measure (\<lambda>(nxt, now, latest, cnt, tick). 101 - cnt)")
    (auto simp: scheduleMaxMissedTicks_def)

declare latest_missed.simps [simp del]

definition scheduleLatestMissedTick :: "(int \<Rightarrow> int) \<Rightarrow> int \<Rightarrow> int \<Rightarrow> int option \<times> nat \<times> bool" where
  "scheduleLatestMissedTick nxt earliest now = latest_missed nxt now zero_time 0 (nxt earliest)"

definition scheduleRunSettled :: "klib \<Rightarrow> AnonymizationRun \<Rightarrow> bool" where
  "scheduleRunSettled L run \<longleftrightarrow>
     \<not> deleting (run_Meta run) \<and>
     (rst_Phase (run_Status run) = RunPhaseCompleted \<or> rst_Phase (run_Status run) = RunPhaseFailed) \<and>
     (is_condition_true L (rst_Conditions (run_Status run)) ''CleanedUp'' \<or>
      is_condition_true L (rst_Conditions (run_Status run)) ''Retained'')"

definition scheduleActiveRuns :: "klib \<Rightarrow> AnonymizationRun list \<Rightarrow> AnonymizationRun list" where
  "scheduleActiveRuns L owned = filter (\<lambda>r. \<not> scheduleRunSettled L r) owned"

definition ownedBySchedule :: "klib \<Rightarrow> AnonymizationRun \<Rightarrow> AnonymizationSchedule \<Rightarrow> bool" where
  "ownedBySchedule L run sched =
     (case controller_of L (run_Meta run) of
        None \<Rightarrow> False
      | Some ref \<Rightarrow>
          om_Namespace (run_Meta run) = om_Namespace (sch_Meta sched) \<and> om_UID (sch_Meta sched) \<noteq> [] \<and>
          or_UID ref = om_UID (sch_Meta sched) \<and> or_Name ref = om_Name (sch_Meta sched) \<and>
          or_Kind ref = anonymizationScheduleKind \<and>
          group_of L (or_APIVersion ref) = Some GroupVersion_Group)"

definition run_name :: "AnonymizationRun \<Rightarrow> string" where
  "run_name r = om_Name (run_Meta r)"

definition latest_success :: "int option \<Rightarrow> AnonymizationRun \<Rightarrow> int option" where
  "latest_success cur run =
     (if rst_Phase (run_Status run) \<noteq> RunPhaseCompleted then cur
      else case rst_CompletedAt (run_Status run) of
             None \<Rightarrow> cur
           | Some t \<Rightarrow> (case cur of None \<Rightarrow> Some t | Some c \<Rightarrow> if c < t then Some t else cur))"

definition applyScheduleRunStatus ::
  "AnonymizationScheduleStatus \<Rightarrow> AnonymizationRun list \<Rightarrow> AnonymizationRun list \<Rightarrow> AnonymizationScheduleStatus" where
  "applyScheduleRunStatus st owned active =
     (let names = map run_name active;
          st = st\<lparr>sst_Active := sort names, sst_ActiveCount := wrap32 (int (length names))\<rparr>;
          st = (if owned = [] then st
                else st\<lparr>sst_LastRunName := run_name (last owned),
                        sst_LastRunPhase := rst_Phase (run_Status (last owned))\<rparr>)
      in case foldl latest_success None owned of
           None \<Rightarrow> st
         | Some t \<Rightarrow>
             (case sst_LastSuccessfulTime st of
                None \<Rightarrow> st\<lparr>sst_LastSuccessfulTime := Some t\<rparr>
              | Some old \<Rightarrow> if old < t then st\<lparr>sst_LastSuccessfulTime := Some t\<rparr> else st))"

definition recordScheduledRun :: "klib \<Rightarrow> AnonymizationSchedule \<Rightarrow> AnonymizationRun \<Rightarrow> AnonymizationSchedule" where
  "recordScheduledRun L sched run =
     (let st = (sch_Status sched)\<lparr>sst_LastRunName := run_name run,
                 sst_LastRunPhase := rst_Phase (run_Status run)\<rparr>
      in sched\<lparr>sch_Status :=
           if scheduleRunSettled L run \<or> run_name run \<in> set (sst_Active st) then st
           else (let act = sort (sst_Active st @ [run_name run])
                 in st\<lparr>sst_Active := act, sst_ActiveCount := wrap32 (int (length act))\<rparr>)\<rparr>)"

definition findScheduleRun :: "AnonymizationRun list \<Rightarrow> string \<Rightarrow> AnonymizationRun option" where
  "findScheduleRun runs_list name = find (\<lambda>r. run_name r = name) runs_list"

definition scheduleManualToken :: "AnonymizationSchedule \<Rightarrow> string option" where
  "scheduleManualToken sched = fmlookup (om_Annotations (sch_Meta sched)) scheduleRunNowAnnotation"

definition scheduleTokenHash :: "klib \<Rightarrow> string \<Rightarrow> string" where
  "scheduleTokenHash L token = hex_encode (sha256 L token)"

definition scheduleChildName :: "klib \<Rightarrow> string \<Rightarrow> string \<Rightarrow> string" where
  "scheduleChildName L scheduleName suf =
     (let name = scheduleName @ ''-'' @ suf in
      if length name \<le> scheduleMaxNameLength then name
      else
        (let digest = take 8 (scheduleTokenHash L scheduleName);
             keep = scheduleMaxNameLength - length suf - length digest - 2
         in trim_right (take keep scheduleName) ''-'' @ ''-'' @ digest @ ''-'' @ suf))"

definition scheduleRunCompletionTime :: "AnonymizationRun \<Rightarrow> int" where
  "scheduleRunCompletionTime run =
     (case rst_CompletedAt (run_Status run) of Some t \<Rightarrow> t | None \<Rightarrow> om_CreationTimestamp (run_Meta run))"

text \<open>\<open>scheduleRunCompletionOrder\<close> is negative where the first run completed earlier.\<close>

definition scheduleRunCompletionOrder :: "AnonymizationRun \<Rightarrow> AnonymizationRun \<Rightarrow> bool" where
  "scheduleRunCompletionOrder a b =
     (if scheduleRunCompletionTime a \<noteq> scheduleRunCompletionTime b
      then scheduleRunCompletionTime a < scheduleRunCompletionTime b
      else run_name a < run_name b)"

definition setScheduleReady ::
  "klib \<Rightarrow> AnonymizationSchedule \<Rightarrow> int \<Rightarrow> string \<Rightarrow> string \<Rightarrow> string \<Rightarrow> AnonymizationSchedule" where
  "setScheduleReady L sched now st reason msg =
     sched\<lparr>sch_Status := (sch_Status sched)\<lparr>sst_Conditions :=
       Set_condition L (sst_Conditions (sch_Status sched)) (om_Generation (sch_Meta sched)) now
         (condition scheduleReadyConditionType st reason msg)\<rparr>\<rparr>"

definition setLastScheduleTime :: "AnonymizationSchedule \<Rightarrow> int \<Rightarrow> AnonymizationSchedule" where
  "setLastScheduleTime sched t =
     sched\<lparr>sch_Status := (sch_Status sched)\<lparr>sst_LastScheduleTime := Some t\<rparr>\<rparr>"

definition scheduleRequeueDelay :: "int \<Rightarrow> int \<Rightarrow> int" where
  "scheduleRequeueDelay now nxt = (if sat64 (nxt - now) > 0 then sat64 (nxt - now) else 1)"

definition scheduleRequeueOnConflict :: "cerr \<Rightarrow> cerr + Result" where
  "scheduleRequeueOnConflict e = (if is_conflict e then Inr (no_result\<lparr>Requeue := True\<rparr>) else Inl e)"

section \<open>Calls\<close>

definition deleteRun :: "'w sched_api \<Rightarrow> AnonymizationRun \<Rightarrow> ('w, unit) act" where
  "deleteRun A run =
     (if deleting (run_Meta run) then ret ()
      else attempt (request (RDeleteRun run (om_UID (run_Meta run))) (delete_run A run (om_UID (run_Meta run))))
        (\<lambda>r. case r of
           Inr _ \<Rightarrow> ret ()
         | Inl e \<Rightarrow> if e = CKube KNotFound then ret () else fail e))"

definition deleteRuns :: "'w sched_api \<Rightarrow> AnonymizationRun list \<Rightarrow> ('w, unit) act" where
  "deleteRuns A rs = foreach (deleteRun A) rs"

text \<open>Oldest first, by creation and name.\<close>

definition created_before :: "AnonymizationRun \<Rightarrow> AnonymizationRun \<Rightarrow> bool" where
  "created_before a b =
     (if om_CreationTimestamp (run_Meta a) \<noteq> om_CreationTimestamp (run_Meta b)
      then om_CreationTimestamp (run_Meta a) < om_CreationTimestamp (run_Meta b)
      else run_name a < run_name b)"

definition ownedRuns :: "klib \<Rightarrow> 'w sched_api \<Rightarrow> AnonymizationSchedule \<Rightarrow> ('w, AnonymizationRun list) act" where
  "ownedRuns L A sched =
     andthen (query (list_runs A (om_Namespace (sch_Meta sched)))) (\<lambda>items.
       ret (sort_by created_before (filter (\<lambda>r. ownedBySchedule L r sched) items)))"

definition desiredRun ::
  "klib \<Rightarrow> cronlib \<Rightarrow> AnonymizationSchedule \<Rightarrow> string \<Rightarrow> (string, string) fmap \<Rightarrow> cerr + AnonymizationRun" where
  "desiredRun L K sched name extra =
     (let tm = rt_Metadata (ss_Template (sch_Spec sched));
          label = LabelValue L (om_Name (sch_Meta sched));
          om = empty_meta\<lparr>om_Name := name, om_Namespace := om_Namespace (sch_Meta sched),
                 om_Labels := fmupd LabelOutputGroup label (fmupd scheduleNameLabel label (rtm_Labels tm)),
                 om_Annotations := rtm_Annotations tm ++\<^sub>f extra\<rparr>
      in case set_controller_reference K (sch_Meta sched) om of
           Inl e \<Rightarrow> Inl (CText e)
         | Inr om' \<Rightarrow> Inr \<lparr>run_Meta = om', run_Spec = rt_Spec (ss_Template (sch_Spec sched)),
                       run_Status = empty_run_status\<rparr>)"

definition annotation :: "ObjectMeta \<Rightarrow> string \<Rightarrow> string" where
  "annotation om k = (case fmlookup (om_Annotations om) k of None \<Rightarrow> [] | Some v \<Rightarrow> v)"

definition createRun ::
  "klib \<Rightarrow> 'w sched_api \<Rightarrow> AnonymizationSchedule \<Rightarrow> AnonymizationRun \<Rightarrow> ('w, AnonymizationRun) act" where
  "createRun L A sched desired =
     attempt (request (RCreateRun desired) (create_run A desired)) (\<lambda>r. case r of
        Inr created \<Rightarrow> ret created
      | Inl e \<Rightarrow>
          if e \<noteq> CKube KAlreadyExists then fail e
          else andthen (query (get_run A (om_Namespace (run_Meta desired)) (run_name desired))) (\<lambda>existing.
            if \<not> ownedBySchedule L existing sched
            then fail (CText ''run already exists and is not controlled by this schedule'')
            else if deleting (run_Meta existing)
            then fail (CText ''owned run is being deleted; refusing to reuse its name'')
            else if annotation (run_Meta desired) scheduleRunNowHashAnnotation \<noteq> [] \<and>
                    annotation (run_Meta existing) scheduleRunNowHashAnnotation \<noteq>
                    annotation (run_Meta desired) scheduleRunNowHashAnnotation
            then fail (CText ''run carries a different run-now token hash; refusing to reuse the name'')
            else ret existing))"

definition pruneGroup :: "'w sched_api \<Rightarrow> AnonymizationRun list \<Rightarrow> int \<Rightarrow> ('w, unit) act" where
  "pruneGroup A rs limit =
     (let lim = nat limit in
      if length rs \<le> lim then ret ()
      else foreach (deleteRun A) (take (length rs - lim) (sort_by scheduleRunCompletionOrder rs)))"

definition settled_in :: "klib \<Rightarrow> string \<Rightarrow> AnonymizationRun list \<Rightarrow> AnonymizationRun list" where
  "settled_in L ph owned = filter (\<lambda>r. scheduleRunSettled L r \<and> rst_Phase (run_Status r) = ph) owned"

definition pruneHistory ::
  "klib \<Rightarrow> 'w sched_api \<Rightarrow> AnonymizationSchedule \<Rightarrow> AnonymizationRun list \<Rightarrow> ('w, unit) act" where
  "pruneHistory L A sched owned =
     andthen (pruneGroup A (settled_in L RunPhaseCompleted owned) (ss_SuccessfulRunsHistoryLimit (sch_Spec sched)))
       (\<lambda>_. pruneGroup A (settled_in L RunPhaseFailed owned) (ss_FailedRunsHistoryLimit (sch_Spec sched)))"

text \<open>The patch returns the object as the server stored it, which replaces the one in memory.\<close>

definition persistStatus ::
  "'w sched_api \<Rightarrow> AnonymizationSchedule \<Rightarrow> AnonymizationScheduleStatus \<Rightarrow> ('w, AnonymizationSchedule) act" where
  "persistStatus A sched saved =
     (if saved = sch_Status sched then ret sched
      else request (RPatchStatus sched) (patch_status A sched))"

definition clearRunNowAnnotation ::
  "'w sched_api \<Rightarrow> AnonymizationSchedule \<Rightarrow> string \<Rightarrow> ('w, unit) act" where
  "clearRunNowAnnotation A sched token =
     (if fmlookup (om_Annotations (sch_Meta sched)) scheduleRunNowAnnotation \<noteq> Some token then ret ()
      else
        (let cleared = sched\<lparr>sch_Meta := (sch_Meta sched)\<lparr>om_Annotations :=
               fmdrop scheduleRunNowAnnotation (om_Annotations (sch_Meta sched))\<rparr>\<rparr>
         in andthen (request (RClearToken cleared) (patch_schedule A cleared)) (\<lambda>_. ret ())))"

section \<open>Triggers\<close>

text \<open>\<open>None\<close> is a trigger that may create its run; otherwise the schedule with its condition set
  and the delay before the next look.\<close>

definition concurrency ::
  "klib \<Rightarrow> 'w sched_api \<Rightarrow> AnonymizationSchedule \<Rightarrow> AnonymizationRun list \<Rightarrow> int \<Rightarrow> string \<Rightarrow> string \<Rightarrow>
     ('w, (AnonymizationSchedule \<times> int) option) act" where
  "concurrency L A sched active now replacing deferred =
     (let policy = ss_ConcurrencyPolicy (sch_Spec sched) in
      if policy = ConcurrencyPolicyAllow \<or> active = [] then ret None
      else if policy = ConcurrencyPolicyReplace
      then andthen (deleteRuns A active) (\<lambda>_.
             ret (Some (setScheduleReady L sched now ''False'' ''Blocked'' replacing, scheduleDeletionRequeue)))
      else ret (Some (setScheduleReady L sched now ''False'' ''Blocked'' deferred, 0)))"

definition handleManualTrigger ::
  "klib \<Rightarrow> cronlib \<Rightarrow> 'w sched_api \<Rightarrow> AnonymizationSchedule \<Rightarrow> string \<Rightarrow> AnonymizationRun list \<Rightarrow>
     AnonymizationRun list \<Rightarrow> int \<Rightarrow> ('w, bool \<times> int \<times> AnonymizationSchedule) act" where
  "handleManualTrigger L K A sched token owned active now =
     (let fullHash = scheduleTokenHash L token;
          name = scheduleChildName L (om_Name (sch_Meta sched))
            (''manual-'' @ take scheduleShortHashLength fullHash);
          n = nat_dec (length active)
      in case findScheduleRun owned name of
           Some existing \<Rightarrow>
             if annotation (run_Meta existing) scheduleRunNowHashAnnotation \<noteq> fullHash
             then fail (CText ''run exists for a different run-now token; refusing to reuse the name'')
             else if deleting (run_Meta existing)
             then ret (False, scheduleDeletionRequeue, setScheduleReady L sched now ''False'' ''Blocked''
                    (''waiting for run '' @ quote name @ '' to finish deleting before the manual run''))
             else ret (True, 0, setScheduleReady L sched now ''True'' ''Scheduled''
                    (''manual run '' @ quote name @ '' already exists''))
         | None \<Rightarrow>
             andthen (concurrency L A sched active now
                 (''replacing '' @ n @ '' active run(s) before the manual run'')
                 (''manual run deferred while '' @ n @ '' run(s) are active'')) (\<lambda>blocked.
               case blocked of
                 Some (sched', wait) \<Rightarrow> ret (False, wait, sched')
               | None \<Rightarrow>
                   andthen (lift (desiredRun L K sched name
                     (fmap_of_list [(scheduleRunNowHashAnnotation, fullHash)]))) (\<lambda>desired.
                   andthen (createRun L A sched desired) (\<lambda>created.
                   ret (True, 0, setScheduleReady L (recordScheduledRun L sched created) now ''True'' ''Scheduled''
                     (''created manual run '' @ quote (run_name created)))))))"

text \<open>Where the walk over missed ticks starts: never before the schedule existed, never at a tick
  that was recorded, and not before the starting deadline.\<close>

definition cron_earliest :: "AnonymizationSchedule \<Rightarrow> int \<Rightarrow> int" where
  "cron_earliest sched now =
     (let base = (case sst_LastScheduleTime (sch_Status sched) of
            Some t \<Rightarrow> t | None \<Rightarrow> om_CreationTimestamp (sch_Meta sched))
      in case ss_StartingDeadlineSeconds (sch_Spec sched) of
           None \<Rightarrow> base
         | Some d \<Rightarrow> if d \<le> tdiv (sat64 (now - base)) 1000000000
                     then now + wrap64 (wrap64 (- d) * 1000000000) else base)"

definition handleCronTick ::
  "klib \<Rightarrow> cronlib \<Rightarrow> 'w sched_api \<Rightarrow> AnonymizationSchedule \<Rightarrow> (int \<Rightarrow> int) \<Rightarrow> AnonymizationRun list \<Rightarrow>
     AnonymizationRun list \<Rightarrow> int \<Rightarrow> ('w, int \<times> AnonymizationSchedule) act" where
  "handleCronTick L K A sched nxt owned active now =
     (let earliest = cron_earliest sched now in
      if earliest > now
      then ret (0, setScheduleReady L sched now ''True'' ''Scheduled'' ''waiting for the next schedule'')
      else case scheduleLatestMissedTick nxt earliest now of
        (_, _, True) \<Rightarrow>
          andthen (request (REvent ''TooManyMissedTimes'') (\<lambda>w. (Inr (), w))) (\<lambda>_.
          ret (0, setScheduleReady L (setLastScheduleTime sched now) now ''True'' ''Scheduled''
            ''skipped more than 100 missed schedules and reset lastScheduleTime''))
      | (None, _, False) \<Rightarrow>
          ret (0, setScheduleReady L sched now ''True'' ''Scheduled'' ''no schedule is due'')
      | (Some tick, _, False) \<Rightarrow>
          (let name = scheduleChildName L (om_Name (sch_Meta sched)) (run_time_layout K tick);
               n = nat_dec (length active); at = rfc3339 K tick
           in case findScheduleRun owned name of
                Some existing \<Rightarrow>
                  if deleting (run_Meta existing)
                  then ret (scheduleDeletionRequeue, setScheduleReady L sched now ''False'' ''Blocked''
                         (''waiting for run '' @ quote name @ '' to finish deleting before reusing its schedule time''))
                  else ret (0, setScheduleReady L (setLastScheduleTime (recordScheduledRun L sched existing) tick) now
                         ''True'' ''Scheduled''
                         (''run '' @ quote name @ '' already exists for schedule time '' @ at))
              | None \<Rightarrow>
                  andthen (concurrency L A sched active now
                      (''replacing '' @ n @ '' active run(s) before the run due at '' @ at)
                      (''run due at '' @ at @ '' deferred while '' @ n @ '' run(s) are active'')) (\<lambda>blocked.
                    case blocked of
                      Some (sched', wait) \<Rightarrow> ret (wait, sched')
                    | None \<Rightarrow>
                        andthen (lift (desiredRun L K sched name fmempty)) (\<lambda>desired.
                        andthen (createRun L A sched desired) (\<lambda>created.
                        ret (0, setScheduleReady L (setLastScheduleTime (recordScheduledRun L sched created) tick)
                          now ''True'' ''Scheduled''
                          (''created run '' @ quote (run_name created) @ '' for schedule time '' @ at)))))))"

section \<open>Reconcile\<close>

definition setScheduleValid :: "klib \<Rightarrow> AnonymizationSchedule \<Rightarrow> int \<Rightarrow> string \<Rightarrow> string \<Rightarrow> string \<Rightarrow> AnonymizationSchedule" where
  "setScheduleValid L sched now st reason msg =
     sched\<lparr>sch_Status := (sch_Status sched)\<lparr>sst_Conditions :=
       Set_condition L (sst_Conditions (sch_Status sched)) (om_Generation (sch_Meta sched)) now
         (condition scheduleValidConditionType st reason msg)\<rparr>\<rparr>"

definition setNextScheduleTime :: "AnonymizationSchedule \<Rightarrow> int option \<Rightarrow> AnonymizationSchedule" where
  "setNextScheduleTime sched t =
     sched\<lparr>sch_Status := (sch_Status sched)\<lparr>sst_NextScheduleTime := t\<rparr>\<rparr>"

text \<open>A failed write of the status or of the token is retried when it is a conflict.\<close>

definition or_conflict :: "('w, 'a) act \<Rightarrow> ('a \<Rightarrow> ('w, Result) act) \<Rightarrow> ('w, Result) act" where
  "or_conflict m f = attempt m (\<lambda>r. case r of Inl e \<Rightarrow> lift (scheduleRequeueOnConflict e) | Inr x \<Rightarrow> f x)"

definition reconcile_invalid ::
  "klib \<Rightarrow> 'w sched_api \<Rightarrow> AnonymizationSchedule \<Rightarrow> AnonymizationScheduleStatus \<Rightarrow> AnonymizationRun list \<Rightarrow>
     int \<Rightarrow> string \<Rightarrow> ('w, Result) act" where
  "reconcile_invalid L A sched saved owned now msg =
     (let s1 = setScheduleValid L sched now ''False'' ''InvalidCron'' msg;
          s2 = setScheduleReady L s1 now ''False'' ''InvalidCron''
                 ''no run is created until spec.schedule and spec.timeZone are valid'';
          s3 = setNextScheduleTime s2 None
      in andthen (pruneHistory L A s3 owned) (\<lambda>_.
         or_conflict (persistStatus A s3 saved) (\<lambda>_. ret no_result)))"

definition trigger ::
  "klib \<Rightarrow> cronlib \<Rightarrow> 'w sched_api \<Rightarrow> AnonymizationSchedule \<Rightarrow> (int \<Rightarrow> int) \<Rightarrow> AnonymizationRun list \<Rightarrow>
     AnonymizationRun list \<Rightarrow> int \<Rightarrow> ('w, bool \<times> int \<times> AnonymizationSchedule) act" where
  "trigger L K A sched nxt owned active now =
     (if ss_Suspend (sch_Spec sched)
      then ret (False, 0, setScheduleReady L sched now ''False'' ''Suspended''
             ''schedule is suspended; any run-now token stays pending'')
      else case scheduleManualToken sched of
             Some token \<Rightarrow> handleManualTrigger L K A sched token owned active now
           | None \<Rightarrow> andthen (handleCronTick L K A sched nxt owned active now)
               (\<lambda>(wait, sched'). ret (False, wait, sched')))"

definition requeue_result :: "int \<Rightarrow> int \<Rightarrow> int \<Rightarrow> Result" where
  "requeue_result now nxt wait =
     (let after = (if nxt \<noteq> zero_time then scheduleRequeueDelay now nxt else 0)
      in no_result\<lparr>RequeueAfter := if wait > 0 \<and> (after = 0 \<or> wait < after) then wait else after\<rparr>)"

definition reconcile_valid ::
  "klib \<Rightarrow> cronlib \<Rightarrow> 'w sched_api \<Rightarrow> AnonymizationSchedule \<Rightarrow> AnonymizationScheduleStatus \<Rightarrow> AnonymizationRun list \<Rightarrow>
     AnonymizationRun list \<Rightarrow> int \<Rightarrow> cron \<Rightarrow> string \<Rightarrow> ('w, Result) act" where
  "reconcile_valid L K A sched saved owned active now cr loc =
     (let s1 = setScheduleValid L sched now ''True'' ''Parsed''
            (''cron '' @ quote (trim_space (ss_Schedule (sch_Spec sched))) @ '' parsed in time zone '' @ loc);
          nxt = cr loc now;
          s2 = setNextScheduleTime s1 (if nxt = zero_time then None else Some nxt)
      in andthen (trigger L K A s2 (cr loc) owned active now) (\<lambda>(clearToken, wait, s3).
         andthen (pruneHistory L A s3 owned) (\<lambda>_.
         or_conflict (persistStatus A s3 saved) (\<lambda>s4.
         or_conflict (if clearToken then clearRunNowAnnotation A s4 (the (scheduleManualToken s2)) else ret ()) (\<lambda>_.
         ret (requeue_result now nxt wait))))))"

definition reconcileSchedule ::
  "klib \<Rightarrow> cronlib \<Rightarrow> 'w sched_api \<Rightarrow> int \<Rightarrow> string \<Rightarrow> string \<Rightarrow> ('w, Result) act" where
  "reconcileSchedule L K A now namespace name =
     attempt (query (get_schedule A namespace name)) (\<lambda>r. case r of
        Inl e \<Rightarrow> if e = CKube KNotFound then ret no_result else fail e
      | Inr sched \<Rightarrow>
          if deleting (sch_Meta sched) then ret no_result
          else andthen (ownedRuns L A sched) (\<lambda>owned.
            let active = scheduleActiveRuns L owned;
                s1 = sched\<lparr>sch_Status := applyScheduleRunStatus
                   ((sch_Status sched)\<lparr>sst_ObservedGeneration := om_Generation (sch_Meta sched)\<rparr>) owned active\<rparr>
            in case parseScheduleSpec K s1 of
                 Inl msg \<Rightarrow> reconcile_invalid L A s1 (sch_Status sched) owned now msg
               | Inr (cr, loc) \<Rightarrow> reconcile_valid L K A s1 (sch_Status sched) owned active now cr loc))"

definition Reconcile_schedule ::
  "klib \<Rightarrow> cronlib \<Rightarrow> 'w sched_api \<Rightarrow> int \<Rightarrow> string \<Rightarrow> string \<Rightarrow> ('w, Result) act" where
  "Reconcile_schedule L K A now namespace name =
     attempt (reconcileSchedule L K A now namespace name) (\<lambda>r. case r of
        Inl e \<Rightarrow> if is_conflict e then lift (scheduleRequeueOnConflict e) else fail e
      | Inr x \<Rightarrow> ret x)"

end
