(* ===== verification/Schedule_Safety.thy ===== *)
theory Schedule_Safety
  imports Schedule
begin

text \<open>
  What a reconcile of a schedule may do, whatever the API server answers: at most one run is
  created, never beside an active one unless the policy allows it, only for the newest due tick
  and never twice for the same tick; only runs of the schedule are deleted, under their UID; and
  pruning keeps the newest runs.  The walk over missed ticks is refined to the set of ticks it
  stands for.
\<close>

section \<open>Traces\<close>

definition creates :: "request list \<Rightarrow> AnonymizationRun list" where
  "creates l = concat (map (\<lambda>r. case r of RCreateRun d \<Rightarrow> [d] | _ \<Rightarrow> []) l)"

definition deletes :: "request list \<Rightarrow> (AnonymizationRun \<times> string) list" where
  "deletes l = concat (map (\<lambda>r. case r of RDeleteRun d u \<Rightarrow> [(d, u)] | _ \<Rightarrow> []) l)"

lemma trace_simps [simp]:
  "creates [] = []" "deletes [] = []" "creates (a @ b) = creates a @ creates b"
  "deletes (a @ b) = deletes a @ deletes b" "creates [RCreateRun d] = [d]" "deletes [RCreateRun d] = []"
  "creates [RDeleteRun d u] = []" "deletes [RDeleteRun d u] = [(d, u)]"
  "creates [RPatchStatus s] = []" "deletes [RPatchStatus s] = []" "creates [RClearToken s] = []"
  "deletes [RClearToken s] = []" "creates [REvent m] = []" "deletes [REvent m] = []"
  by (simp_all add: creates_def deletes_def)

text \<open>Nothing is created and only runs of a given set are deleted, under their UID.\<close>

definition only_deletes :: "AnonymizationRun set \<Rightarrow> request list \<Rightarrow> bool" where
  "only_deletes R l \<longleftrightarrow> creates l = [] \<and> set (deletes l) \<subseteq> (\<lambda>r. (r, om_UID (run_Meta r))) ` R"

lemma only_deletes_simps [simp]:
  "only_deletes R []" "only_deletes R (a @ b) \<longleftrightarrow> only_deletes R a \<and> only_deletes R b"
  "only_deletes R [RPatchStatus s]" "only_deletes R [RClearToken s]" "only_deletes R [REvent m]"
  by (auto simp: only_deletes_def)

lemma only_deletes_mono: "only_deletes R l \<Longrightarrow> R \<subseteq> R' \<Longrightarrow> only_deletes R' l"
  unfolding only_deletes_def by blast

definition same_object :: "AnonymizationSchedule \<Rightarrow> AnonymizationSchedule \<Rightarrow> bool" where
  "same_object a b \<longleftrightarrow> sch_Meta a = sch_Meta b \<and> sch_Spec a = sch_Spec b"

lemma same_object_simps [simp]:
  "same_object (setScheduleReady L s now st re msg) s' \<longleftrightarrow> same_object s s'"
  "same_object (setScheduleValid L s now st re msg) s' \<longleftrightarrow> same_object s s'"
  "same_object (setLastScheduleTime s t) s' \<longleftrightarrow> same_object s s'"
  "same_object (setNextScheduleTime s u) s' \<longleftrightarrow> same_object s s'"
  "same_object (recordScheduledRun L s r) s' \<longleftrightarrow> same_object s s'"
  "same_object (s\<lparr>sch_Status := z\<rparr>) s' \<longleftrightarrow> same_object s s'"
  "same_object s s"
  by (simp_all add: same_object_def setScheduleReady_def setScheduleValid_def setLastScheduleTime_def
      setNextScheduleTime_def recordScheduledRun_def Let_def)

lemma desiredRun_same: "same_object s s' \<Longrightarrow> desiredRun L K s = desiredRun L K s'"
  by (intro ext) (simp add: desiredRun_def same_object_def cong: sum.case_cong)

section \<open>Requests of each operation\<close>

lemma runs_deleteRun: "runs (deleteRun A run) (\<lambda>l r. only_deletes {run} l)"
  unfolding deleteRun_def
  by (auto intro!: runs_ret runs_attempt [where P = "\<lambda>l r. only_deletes {run} l"] runs_request runs_fail
      split: sum.split simp: only_deletes_def)

lemma runs_delete_all: "runs (foreach (deleteRun A) rs) (\<lambda>l r. only_deletes (set rs) l)"
proof (induction rs)
  case (Cons a rs)
  show ?case unfolding foreach.simps
    by (rule runs_andthen [OF runs_deleteRun])
      (auto intro!: runs_conseq [OF Cons] elim: only_deletes_mono)
qed (auto intro: runs_ret)

lemma runs_pruneGroup: "runs (pruneGroup A rs n) (\<lambda>l r. only_deletes (set rs) l)"
  unfolding pruneGroup_def Let_def
  by (auto intro!: runs_ret runs_conseq [OF runs_delete_all] elim!: only_deletes_mono dest: in_set_takeD)

lemma runs_pruneHistory: "runs (pruneHistory L A s owned) (\<lambda>l r. only_deletes (set owned) l)"
proof -
  have *: "runs (pruneGroup A (settled_in L ph owned) n) (\<lambda>l r. only_deletes (set owned) l)" for ph n
    by (rule runs_conseq [OF runs_pruneGroup]) (auto simp: settled_in_def elim!: only_deletes_mono)
  show ?thesis unfolding pruneHistory_def
    by (rule runs_andthen [OF *]) (auto intro!: runs_conseq [OF *])
qed

lemma runs_persistStatus: "runs (persistStatus A s saved) (\<lambda>l r. only_deletes {} l)"
  unfolding persistStatus_def by (auto intro!: runs_ret runs_request)

lemma runs_clear: "runs (clearRunNowAnnotation A s tok) (\<lambda>l r. only_deletes {} l)"
  unfolding clearRunNowAnnotation_def Let_def
  by (auto intro!: runs_ret runs_andthen [where P = "\<lambda>l r. only_deletes {} l"] runs_request)

lemma runs_createRun: "runs (createRun L A s d) (\<lambda>l r. l = [RCreateRun d])"
  unfolding createRun_def
  by (rule runs_attempt [where P = "\<lambda>l r. l = [RCreateRun d]"])
    (auto intro!: runs_request runs_ret runs_fail runs_andthen [where P = "\<lambda>l r. l = []"] runs_query
      split: sum.split)

text \<open>When a trigger may go on: the policy allows overlap or nothing is active.\<close>

definition may_start :: "AnonymizationSchedule \<Rightarrow> AnonymizationRun list \<Rightarrow> bool" where
  "may_start s active \<longleftrightarrow> ss_ConcurrencyPolicy (sch_Spec s) = ConcurrencyPolicyAllow \<or> active = []"

lemma runs_concurrency:
  "runs (concurrency L A s active now a b)
     (\<lambda>l r. only_deletes (set active) l \<and> (r = Inr None \<longrightarrow> may_start s active \<and> l = []) \<and>
        (\<forall>s' w. r = Inr (Some (s', w)) \<longrightarrow> same_object s' s))"
  unfolding concurrency_def Let_def deleteRuns_def
  by (auto intro!: runs_ret runs_andthen [OF runs_delete_all] simp: may_start_def)

text \<open>The trace of a trigger: deletions of active runs, or exactly one creation that was allowed.\<close>

definition trigger_trace ::
  "klib \<Rightarrow> cronlib \<Rightarrow> AnonymizationSchedule \<Rightarrow> AnonymizationRun list \<Rightarrow> AnonymizationRun list \<Rightarrow> request list \<Rightarrow> bool" where
  "trigger_trace L K s owned active l \<longleftrightarrow>
     only_deletes (set active) l \<or>
     may_start s active \<and> (\<exists>name extra d. findScheduleRun owned name = None \<and>
       desiredRun L K s name extra = Inr d \<and> l = [RCreateRun d])"

lemma trigger_created:
  "may_start s active \<Longrightarrow> findScheduleRun owned name = None \<Longrightarrow> desiredRun L K s name extra = Inr d \<Longrightarrow>
     trigger_trace L K s owned active [RCreateRun d]"
  unfolding trigger_trace_def by blast

lemma trigger_quiet: "only_deletes (set active) l \<Longrightarrow> trigger_trace L K s owned active l \<and> creates l = []"
  by (simp add: trigger_trace_def only_deletes_def)

lemma runs_start:
  assumes "findScheduleRun owned name = None"
    and "\<And>s' w. same_object s' s \<Longrightarrow> R (g s' w)" "\<And>c. R (h c)" "\<And>c. R' (h c)"
  shows "runs (andthen (concurrency L A s active now a b) (\<lambda>blocked. case blocked of
            Some (s', w) \<Rightarrow> ret (g s' w)
          | None \<Rightarrow> andthen (lift (desiredRun L K s name extra)) (\<lambda>d.
              andthen (createRun L A s d) (\<lambda>c. ret (h c)))))
     (\<lambda>l r. trigger_trace L K s owned active l \<and>
        (creates l \<noteq> [] \<longrightarrow> (\<exists>d. desiredRun L K s name extra = Inr d \<and> creates l = [d])) \<and>
        (\<forall>x. r = Inr x \<longrightarrow> R x \<and> (creates l \<noteq> [] \<longrightarrow> R' x)))"
proof (rule runs_andthen [OF runs_concurrency], goal_cases)
  case (1 l e)
  then show ?case using trigger_quiet by auto
next
  case (2 l x)
  show ?case
  proof (cases x)
    case None
    then have l: "l = []" "may_start s active" using 2 by auto
    show ?thesis unfolding None option.case l(1)
      by (rule runs_andthen [OF runs_lift [where Q = "\<lambda>l r. l = [] \<and> desiredRun L K s name extra = r"]])
        (use l(2) assms trigger_quiet in \<open>auto intro!: runs_andthen [OF runs_createRun] runs_ret
          intro: trigger_created\<close>)
  next
    case (Some p)
    then show ?thesis using 2
      using trigger_quiet assms(2) by (auto intro!: runs_ret split: prod.splits)
  qed
qed
lemma runs_manual:
  "runs (handleManualTrigger L K A s tok owned active now)
     (\<lambda>l r. trigger_trace L K s owned active l \<and> (\<forall>c w s'. r = Inr (c, w, s') \<longrightarrow> same_object s' s))"
proof -
  let ?name = "scheduleChildName L (om_Name (sch_Meta s)) (''manual-'' @ take scheduleShortHashLength (scheduleTokenHash L tok))"
  show ?thesis
  proof (cases "findScheduleRun owned ?name")
    case None
    show ?thesis unfolding handleManualTrigger_def Let_def None option.case
      by (rule runs_conseq, rule runs_start [OF None, where R = "\<lambda>(c, w, s'). same_object s' s" and R' = "\<lambda>_. True"]) auto
  next
    case (Some e)
    show ?thesis unfolding handleManualTrigger_def Let_def Some option.case
      by (auto intro!: runs_ret runs_fail simp: trigger_trace_def)
  qed
qed

lemma last_time_simps:
  "sst_LastScheduleTime (sch_Status (setScheduleReady L s now st re msg)) = sst_LastScheduleTime (sch_Status s)"
  "sst_LastScheduleTime (sch_Status (setLastScheduleTime s t)) = Some t"
  by (simp_all add: setScheduleReady_def setLastScheduleTime_def)

text \<open>The name of the run of a tick, and what a cron trigger does with the newest due tick.\<close>

definition tick_name :: "klib \<Rightarrow> cronlib \<Rightarrow> AnonymizationSchedule \<Rightarrow> int \<Rightarrow> string" where
  "tick_name L K s tick = scheduleChildName L (om_Name (sch_Meta s)) (run_time_layout K tick)"

lemma runs_cron:
  "runs (handleCronTick L K A s nxt owned active now)
     (\<lambda>l r. trigger_trace L K s owned active l \<and>
        (creates l \<noteq> [] \<longrightarrow> (\<exists>tick cnt d. cron_earliest s now \<le> now \<and>
           scheduleLatestMissedTick nxt (cron_earliest s now) now = (Some tick, cnt, False) \<and>
           findScheduleRun owned (tick_name L K s tick) = None \<and>
           desiredRun L K s (tick_name L K s tick) fmempty = Inr d \<and> creates l = [d] \<and>
           (\<forall>w s'. r = Inr (w, s') \<longrightarrow> sst_LastScheduleTime (sch_Status s') = Some tick))) \<and>
        (\<forall>w s'. r = Inr (w, s') \<longrightarrow> same_object s' s))"
proof (cases "now < cron_earliest s now")
  case True
  then show ?thesis unfolding handleCronTick_def Let_def
    by (auto intro!: runs_ret simp: trigger_trace_def)
next
  case False
  obtain t c m where e: "scheduleLatestMissedTick nxt (cron_earliest s now) now = (t, c, m)"
    by (metis prod_cases3)
  show ?thesis
  proof (cases "m \<or> t = None")
    case True
    then show ?thesis using False unfolding handleCronTick_def Let_def e
      by (cases m; cases t)
        (auto intro!: runs_ret runs_andthen [OF runs_request [where Q = "\<lambda>l r. l = [REvent ''TooManyMissedTimes'']"]]
          simp: trigger_trace_def)
  next
    case due: False
    then obtain tick where t: "t = Some tick" "m = False" by auto
    show ?thesis
    proof (cases "findScheduleRun owned (tick_name L K s tick)")
      case None
      then have n: "findScheduleRun owned (scheduleChildName L (om_Name (sch_Meta s)) (run_time_layout K tick)) = None"
        by (simp add: tick_name_def)
      show ?thesis using False
        unfolding handleCronTick_def Let_def e t prod.case option.case bool.case n if_False not_less
        by (simp only: if_not_P not_less [symmetric] not_not simp_thms)
          (rule runs_conseq, rule runs_start [OF n, where R = "\<lambda>(w, s'). same_object s' s"
              and R' = "\<lambda>(w, s'). sst_LastScheduleTime (sch_Status s') = Some tick"],
            auto simp: tick_name_def n last_time_simps)
    next
      case (Some ex)
      then have n: "findScheduleRun owned (scheduleChildName L (om_Name (sch_Meta s)) (run_time_layout K tick)) = Some ex"
        by (simp add: tick_name_def)
      show ?thesis using False
        unfolding handleCronTick_def Let_def e t prod.case option.case bool.case n
        by (auto intro!: runs_ret simp: trigger_trace_def)
    qed
  qed
qed

section \<open>A whole reconcile\<close>

definition reads_schedule :: "'w sched_api \<Rightarrow> string \<Rightarrow> string \<Rightarrow> AnonymizationSchedule \<Rightarrow> bool" where
  "reads_schedule A ns name s \<longleftrightarrow> (\<forall>w x. fst (get_schedule A ns name w) = Inr x \<longrightarrow> x = s)"

definition lists_runs :: "'w sched_api \<Rightarrow> string \<Rightarrow> AnonymizationRun list \<Rightarrow> bool" where
  "lists_runs A ns rs \<longleftrightarrow> (\<forall>w x. fst (list_runs A ns w) = Inr x \<longrightarrow> x = rs)"

definition owned_of :: "klib \<Rightarrow> AnonymizationSchedule \<Rightarrow> AnonymizationRun list \<Rightarrow> AnonymizationRun list" where
  "owned_of L s rs = sort_by created_before (filter (\<lambda>r. ownedBySchedule L r s) rs)"

definition reconcile_trace ::
  "klib \<Rightarrow> cronlib \<Rightarrow> AnonymizationSchedule \<Rightarrow> AnonymizationRun list \<Rightarrow> request list \<Rightarrow> bool" where
  "reconcile_trace L K s owned l \<longleftrightarrow>
     length (creates l) \<le> 1 \<and> (creates l \<noteq> [] \<longrightarrow> may_start s (scheduleActiveRuns L owned)) \<and>
     list_all (\<lambda>d. \<exists>name extra. findScheduleRun owned name = None \<and> desiredRun L K s name extra = Inr d) (creates l) \<and>
     set (deletes l) \<subseteq> (\<lambda>r. (r, om_UID (run_Meta r))) ` set owned"

lemma reconcile_trace_trigger:
  assumes "trigger_trace L K s owned (scheduleActiveRuns L owned) l"
  shows "reconcile_trace L K s owned l"
proof -
  consider "only_deletes (set (scheduleActiveRuns L owned)) l"
    | name extra d where "may_start s (scheduleActiveRuns L owned)" "findScheduleRun owned name = None"
      "desiredRun L K s name extra = Inr d" "l = [RCreateRun d]"
    using assms unfolding trigger_trace_def by blast
  then show ?thesis
  proof cases
    case 1
    then show ?thesis by (auto simp: reconcile_trace_def only_deletes_def scheduleActiveRuns_def)
  next
    case 2
    then show ?thesis unfolding reconcile_trace_def by simp blast
  qed
qed

lemma reconcile_trace_append:
  "reconcile_trace L K s owned a \<Longrightarrow> only_deletes (set owned) b \<Longrightarrow> reconcile_trace L K s owned (a @ b)"
  by (auto simp: reconcile_trace_def only_deletes_def)

lemma reconcile_trace_quiet: "only_deletes (set owned) l \<Longrightarrow> reconcile_trace L K s owned l"
  by (auto simp: reconcile_trace_def only_deletes_def)

lemma runs_or_conflict:
  assumes m: "runs m P"
    and err: "\<And>l e. P l (Inl e) \<Longrightarrow> Q l"
    and ok: "\<And>l x. P l (Inr x) \<Longrightarrow> runs (f x) (\<lambda>l' r. Q (l @ l'))"
  shows "runs (or_conflict m f) (\<lambda>l r. Q l)"
  unfolding or_conflict_def
  by (rule runs_attempt [OF m]) (use err ok in \<open>auto intro!: runs_lift split: sum.split\<close>)

lemma runs_trigger:
  "runs (trigger L K A s nxt owned active now)
     (\<lambda>l r. trigger_trace L K s owned active l \<and> (\<forall>c w s'. r = Inr (c, w, s') \<longrightarrow> same_object s' s))"
  unfolding trigger_def
  by (auto intro!: runs_ret runs_manual runs_andthen [OF runs_cron] 
      simp: trigger_trace_def [of L K s owned active "[]"] split: option.split)

lemma runs_invalid:
  "runs (reconcile_invalid L A s saved owned now msg) (\<lambda>l r. only_deletes (set owned) l)"
  unfolding reconcile_invalid_def Let_def
  by (rule runs_andthen [OF runs_pruneHistory])
    (auto intro!: runs_or_conflict [OF runs_persistStatus] runs_ret elim: only_deletes_mono)

lemma trigger_trace_same:
  assumes "same_object s' s" "trigger_trace L K s' owned active l"
  shows "trigger_trace L K s owned active l"
  using assms desiredRun_same [OF assms(1)]
  by (auto simp: trigger_trace_def may_start_def same_object_def)

lemma runs_valid:
  assumes "active = scheduleActiveRuns L owned" "same_object s1 s"
  shows "runs (reconcile_valid L K A s1 saved owned active now cr loc) (\<lambda>l r. reconcile_trace L K s owned l)"
  unfolding reconcile_valid_def Let_def
proof (rule runs_andthen [OF runs_trigger], goal_cases)
  case (1 l e)
  then show ?case using assms by (intro reconcile_trace_trigger) (auto elim!: trigger_trace_same [rotated])
next
  case (2 l x)
  obtain c w s3 where x: "x = (c, w, s3)" by (cases x)
  have tr: "reconcile_trace L K s owned l" 
    using 2 assms by (intro reconcile_trace_trigger) (auto elim!: trigger_trace_same [rotated])
  show ?case unfolding x prod.case
    by (rule runs_andthen [OF runs_pruneHistory])
      (auto intro!: runs_or_conflict [OF runs_persistStatus]
        runs_or_conflict [where P = "\<lambda>l r. only_deletes {} l"] runs_clear runs_ret
        reconcile_trace_append [OF tr] elim: only_deletes_mono)
qed

lemma runs_reconcile:
  assumes "reads_schedule A ns name s" "lists_runs A (om_Namespace (sch_Meta s)) rs"
  shows "runs (Reconcile_schedule L K A now ns name) (\<lambda>l r. reconcile_trace L K s (owned_of L s rs) l)"
proof -
  have quiet: "reconcile_trace L K s (owned_of L s rs) []" by (rule reconcile_trace_quiet) simp
  have owned: "runs (ownedRuns L A s) (\<lambda>l r. l = [] \<and> (\<forall>x. r = Inr x \<longrightarrow> x = owned_of L s rs))"
    unfolding ownedRuns_def
    by (rule runs_andthen [OF runs_query_result])
      (use assms(2) in \<open>auto intro!: runs_ret simp: lists_runs_def owned_of_def dest: sym\<close>)
  have body: "runs (andthen (ownedRuns L A s) (\<lambda>owned.
            let active = scheduleActiveRuns L owned;
                s1 = s\<lparr>sch_Status := applyScheduleRunStatus
                   ((sch_Status s)\<lparr>sst_ObservedGeneration := om_Generation (sch_Meta s)\<rparr>) owned active\<rparr>
            in case parseScheduleSpec K s1 of
                 Inl msg \<Rightarrow> reconcile_invalid L A s1 (sch_Status s) owned now msg
               | Inr (cr, loc) \<Rightarrow> reconcile_valid L K A s1 (sch_Status s) owned active now cr loc))
      (\<lambda>l r. reconcile_trace L K s (owned_of L s rs) l)"
    by (rule runs_andthen [OF owned])
      (auto simp: quiet Let_def intro!: runs_valid runs_conseq [OF runs_invalid] reconcile_trace_quiet
        split: sum.split)
  have "runs (reconcileSchedule L K A now ns name) (\<lambda>l r. reconcile_trace L K s (owned_of L s rs) l)"
    unfolding reconcileSchedule_def
    by (rule runs_attempt [OF runs_query_result])
      (use assms(1) body in \<open>auto simp: quiet reads_schedule_def dest: sym intro!: runs_ret runs_fail split: sum.split\<close>)
  then show ?thesis unfolding Reconcile_schedule_def
    by (rule runs_attempt) (auto intro!: runs_ret runs_fail runs_lift split: sum.split)
qed

section \<open>The newest missed tick\<close>

text \<open>\<open>T\<close> is the set of activation times of a parsed schedule: the library returns the least one
  after the given time, or the zero time where there is none.\<close>

definition cron_law :: "int set \<Rightarrow> (int \<Rightarrow> int) \<Rightarrow> bool" where
  "cron_law T nxt \<longleftrightarrow> zero_time \<notin> T \<and>
     (\<forall>t. if nxt t = zero_time then \<forall>x \<in> T. x \<le> t
          else nxt t \<in> T \<and> t < nxt t \<and> (\<forall>x \<in> T. t < x \<longrightarrow> nxt t \<le> x))"

definition due :: "int set \<Rightarrow> int \<Rightarrow> int \<Rightarrow> int set" where
  "due T earliest now = {x \<in> T. earliest < x \<and> x \<le> now}"

abbreviation newest :: "int set \<Rightarrow> int" where
  "newest \<equiv> Lattices_Big.linorder_class.Max"

definition missed_spec :: "int set \<Rightarrow> int option \<times> nat \<times> bool" where
  "missed_spec M =
     (if \<not> finite M \<or> card M > 100 then (None, 101, True)
      else if M = {} then (None, 0, False)
      else (Some (newest M), card M, False))"

lemma due_step:
  assumes "cron_law T nxt" "e \<le> b" "nxt b \<noteq> zero_time"
  shows "due T e (nxt b) = insert (nxt b) (due T e b)" "nxt b \<notin> due T e b" "b < nxt b"
  using assms by (fastforce simp: cron_law_def due_def split: if_splits)+

lemma latest_missed_spec:
  assumes "cron_law T nxt" "e \<le> b" "finite (due T e b)" "card (due T e b) = cnt" "cnt \<le> 100"
    "due T e b \<subseteq> due T e now" "cnt \<noteq> 0 \<Longrightarrow> latest = newest (due T e b)"
  shows "latest_missed nxt now latest cnt (nxt b) = missed_spec (due T e now)"
  using assms
proof (induction nxt now latest cnt "nxt b" arbitrary: b rule: latest_missed.induct)
  case (1 nxt now latest cnt)
  show ?case
  proof (cases "nxt b = zero_time \<or> nxt b > now")
    case True
    then have "due T e now = due T e b"
      using 1(2,7) by (force simp: cron_law_def due_def split: if_splits)
    then show ?thesis using 1(4-6,8) True
      by (subst latest_missed.simps) (auto simp: missed_spec_def)
  next
    case False
    have step: "due T e (nxt b) = insert (nxt b) (due T e b)" "nxt b \<notin> due T e b" "b < nxt b"
      using due_step [OF 1(2,3)] False by auto
    have sub: "due T e (nxt b) \<subseteq> due T e now" using False by (auto simp: due_def)
    have c: "card (due T e (nxt b)) = cnt + 1" using step 1(4,5) by simp
    show ?thesis
    proof (cases "cnt + 1 > 100")
      case True
      then have "\<not> finite (due T e now) \<or> card (due T e now) > 100"
        using card_mono [OF _ sub] c by force
      moreover have "cnt + 1 = 101" using True 1(6) by simp
      ultimately show ?thesis using False True
        by (subst latest_missed.simps) (auto simp: missed_spec_def scheduleMaxMissedTicks_def)
    next
      case few: False
      have mx: "nxt b = newest (due T e (nxt b))"
        by (rule Max_eqI [symmetric]) (use step 1(4) in \<open>auto simp: due_def\<close>)
      have "latest_missed nxt now (nxt b) (cnt + 1) (nxt (nxt b)) = missed_spec (due T e now)"
        by (rule 1(1)) (use False few step sub c mx 1(2-4) in \<open>auto simp: scheduleMaxMissedTicks_def\<close>)
      then show ?thesis using False few
        by (subst latest_missed.simps) (simp add: scheduleMaxMissedTicks_def)
    qed
  qed
qed

section \<open>Ordering of runs\<close>

interpretation completion_rank: ranking "\<lambda>a b. scheduleRunCompletionOrder b a"
proof
  show "scheduleRunCompletionOrder y x \<Longrightarrow> \<not> scheduleRunCompletionOrder x y" for x y
    by (auto simp: scheduleRunCompletionOrder_def split: if_splits)
  show "scheduleRunCompletionOrder z x \<Longrightarrow> scheduleRunCompletionOrder y x \<or> scheduleRunCompletionOrder z y" for x y z
    using linorder_cases by (fastforce simp: scheduleRunCompletionOrder_def split: if_splits)
qed

lemma cron_earliest_after:
  assumes "case ss_StartingDeadlineSeconds (sch_Spec s) of None \<Rightarrow> True | Some d \<Rightarrow> 0 \<le> d"
  defines "base \<equiv> (case sst_LastScheduleTime (sch_Status s) of Some t \<Rightarrow> t | None \<Rightarrow> om_CreationTimestamp (sch_Meta s))"
  shows "base \<le> cron_earliest s now \<or> now \<le> cron_earliest s now"
proof (cases "ss_StartingDeadlineSeconds (sch_Spec s)")
  case None
  then show ?thesis by (simp add: cron_earliest_def base_def)
next
  case (Some d)
  then have d: "0 \<le> d" using assms(1) by simp
  show ?thesis
  proof (cases "d \<le> tdiv (sat64 (now - base)) 1000000000")
    case False
    then show ?thesis by (simp add: cron_earliest_def base_def Some Let_def)
  next
    case True
    let ?x = "sat64 (now - base)"
    have rx: "- (2 ^ 63) \<le> ?x" "?x \<le> 2 ^ 63 - 1"
      by (simp_all add: sat64_def int64_min_def int64_max_def)
    have dx: "d * 1000000000 \<le> max ?x 0"
      using True d by (auto simp: tdiv_def sgn_if split: if_splits)
    then have "wrap64 (wrap64 (- d) * 1000000000) = - (d * 1000000000)"
      using d rx by (simp add: int64_range_def)
    then have e: "cron_earliest s now = now - d * 1000000000"
      using True by (simp add: cron_earliest_def base_def Some Let_def)
    show ?thesis
    proof (cases "0 < ?x")
      case True
      then have "?x \<le> now - base" by (auto simp: sat64_def int64_min_def int64_max_def)
      then show ?thesis using e dx True by simp
    next
      case False
      then show ?thesis using e dx d by simp
    qed
  qed
qed

section \<open>Inputs for the witnesses\<close>

definition sample_cronlib :: cronlib where
  "sample_cronlib =
     \<lparr>load_location = Inr, cron_parse = (\<lambda>_. Inr (\<lambda>_ t. (t div 10 + 1) * 10)),
      run_time_layout = (\<lambda>t. let d = nat_dec (nat t) in replicate (12 - length d) (CHR ''0'') @ d),
      rfc3339 = (\<lambda>t. nat_dec (nat t)),
      set_controller_reference = (\<lambda>o' m. Inr (m\<lparr>om_OwnerReferences :=
        [\<lparr>or_APIVersion = GroupVersion_String, or_Kind = anonymizationScheduleKind, or_Name = om_Name o',
          or_UID = om_UID o', or_Controller = Some True, or_BlockOwnerDeletion = Some True\<rparr>]\<rparr>))\<rparr>"

definition sample_schedule :: AnonymizationSchedule where
  "sample_schedule =
     \<lparr>sch_Meta = empty_meta\<lparr>om_Name := ''nightly'', om_Namespace := ''shop'', om_UID := ''u1'',
        om_CreationTimestamp := 5\<rparr>,
      sch_Spec = \<lparr>ss_Schedule = ''@hourly'', ss_TimeZone = None, ss_Suspend = False,
        ss_ConcurrencyPolicy = ''Forbid'', ss_StartingDeadlineSeconds = None,
        ss_SuccessfulRunsHistoryLimit = 1, ss_FailedRunsHistoryLimit = 1,
        ss_Template = \<lparr>rt_Metadata = \<lparr>rtm_Labels = fmempty, rtm_Annotations = fmempty\<rparr>,
          rt_Spec = sample_run_spec\<rparr>\<rparr>,
      sch_Status = \<lparr>sst_ObservedGeneration = 0, sst_Conditions = [], sst_Active = [], sst_ActiveCount = 0,
        sst_LastScheduleTime = None, sst_LastSuccessfulTime = None, sst_NextScheduleTime = None,
        sst_LastRunName = [], sst_LastRunPhase = []\<rparr>\<rparr>"

definition sample_sched_api :: "nat sched_api" where
  "sample_sched_api =
     \<lparr>get_schedule = (\<lambda>ns name w. (Inr sample_schedule, w)),
      get_run = (\<lambda>ns name w. (Inl (CKube KNotFound), w)),
      list_runs = (\<lambda>ns w. (Inr [], w)),
      create_run = (\<lambda>d w. (Inr d, w + 1)),
      delete_run = (\<lambda>d u w. (Inr (), w + 1)),
      patch_status = (\<lambda>s w. (Inr s, w + 1)),
      patch_schedule = (\<lambda>s w. (Inr s, w + 1))\<rparr>"

lemma sample_api_reads:
  "reads_schedule sample_sched_api ns name sample_schedule" "lists_runs sample_sched_api ns []"
  by (simp_all add: reads_schedule_def lists_runs_def sample_sched_api_def)

lemma sample_status_settled:
  "sample_schedule\<lparr>sch_Status := applyScheduleRunStatus ((sch_Status sample_schedule)\<lparr>sst_ObservedGeneration :=
     om_Generation (sch_Meta sample_schedule)\<rparr>) [] []\<rparr> = sample_schedule"
  by (simp add: sample_schedule_def applyScheduleRunStatus_def wrap32_def empty_meta_def)

lemma sample_parse: "parseScheduleSpec sample_cronlib sample_schedule = Inr (\<lambda>_ t. (t div 10 + 1) * 10, ''UTC'')"
proof -
  have "trim_space ''@hourly'' = ''@hourly''" by code_simp
  then show ?thesis by (simp add: parseScheduleSpec_def sample_schedule_def sample_cronlib_def has_prefix_def
     upper_char_def is_lower_char_def byte_of_def chr_def ascii_lower_def lower_char_def is_upper_char_def)
qed

lemma sample_reconcile:
  "reconcileSchedule sample_klib sample_cronlib sample_sched_api now ''shop'' ''nightly'' s =
   reconcile_valid sample_klib sample_cronlib sample_sched_api sample_schedule (sch_Status sample_schedule) [] [] now
     (\<lambda>_ t. (t div 10 + 1) * 10) ''UTC'' s"
proof -
  have "\<not> deleting (sch_Meta sample_schedule)" by (simp add: deleting_def sample_schedule_def empty_meta_def)
  then show ?thesis
    using sample_status_settled sample_parse
    by (simp add: reconcileSchedule_def attempt_def query_def sample_sched_api_def andthen_def ownedRuns_def ret_def
        scheduleActiveRuns_def sort_by_def)
qed

lemma log_Reconcile:
  "log (snd (Reconcile_schedule L K A now ns n s)) = log (snd (reconcileSchedule L K A now ns n s))"
  by (auto simp: Reconcile_schedule_def attempt_def ret_def fail_def lift_def split: sum.split prod.split)

definition ten_ticks :: "int \<Rightarrow> int" where
  "ten_ticks t = (if t < 0 then 10 else (t div 10 + 1) * 10)"

lemma ten_ticks_law: "cron_law {x. 10 dvd x \<and> 0 < x} ten_ticks"
proof -
  have a: "t < (t div 10 + 1) * 10" for t :: int by presburger
  have b: "(t div 10 + 1) * 10 \<le> x" if "10 dvd x" "t < x" for t x :: int
    using that by presburger
  have c: "10 \<le> x" if "10 dvd x" "0 < x" for x :: int using that by presburger
  have d: "0 < (t div 10 + 1) * 10" if "0 \<le> t" for t :: int using that by presburger
  show ?thesis using a b c d unfolding cron_law_def ten_ticks_def zero_time_def
    by (auto simp: not_less)
qed

section \<open>Properties\<close>

text \<open>C37 (safety).  One reconcile of a schedule, against every behaviour of the API server and with
  every failure: at most one run is created; a run is created only if the policy is Allow or every
  run of the schedule that the server listed has settled, and never under the name of a listed run;
  and whatever is deleted is a run that this very schedule controls, under its UID.\<close>

theorem reconcile_never_overlaps:
  assumes "reads_schedule A ns name s" "lists_runs A (om_Namespace (sch_Meta s)) rs"
    and "Reconcile_schedule L K A now ns name \<lparr>world = w, log = []\<rparr> = (r, s')"
  shows "length (creates (log s')) \<le> 1
    \<and> (creates (log s') = [] \<or> ss_ConcurrencyPolicy (sch_Spec s) = ConcurrencyPolicyAllow
        \<or> (\<forall>x \<in> set rs. ownedBySchedule L x s \<longrightarrow> scheduleRunSettled L x))
    \<and> (\<forall>d \<in> set (creates (log s')). \<exists>nm extra. desiredRun L K s nm extra = Inr d \<and>
        (\<forall>x \<in> set rs. ownedBySchedule L x s \<longrightarrow> run_name x \<noteq> nm))
    \<and> (\<forall>(x, u) \<in> set (deletes (log s')). x \<in> set rs \<and> ownedBySchedule L x s \<and> u = om_UID (run_Meta x))"
proof -
  have "reconcile_trace L K s (owned_of L s rs) (log s')"
    by (rule runs_trace [OF runs_reconcile [OF assms(1,2)] assms(3)])
  then show ?thesis
    unfolding reconcile_trace_def owned_of_def may_start_def scheduleActiveRuns_def
    by (auto simp: list_all_iff findScheduleRun_def find_None_iff filter_empty_conv) blast+
qed

theorem reconcile_never_overlaps_witness:
  "map run_name (creates (log (snd (Reconcile_schedule sample_klib sample_cronlib sample_sched_api 25 ''shop'' ''nightly''
     \<lparr>world = 0, log = []\<rparr>)))) = [''nightly-000000000020'']
   \<and> length (creates (log (snd (Reconcile_schedule sample_klib sample_cronlib sample_sched_api 25 ''shop'' ''nightly''
     \<lparr>world = 0, log = []\<rparr>)))) \<le> 1"
proof -
  obtain r s' where e: "Reconcile_schedule sample_klib sample_cronlib sample_sched_api 25 ''shop'' ''nightly''
     \<lparr>world = 0, log = []\<rparr> = (r, s')" by fastforce
  have "map run_name (creates (log (snd (reconcile_valid sample_klib sample_cronlib sample_sched_api sample_schedule
     (sch_Status sample_schedule) [] [] 25 (\<lambda>_ t. (t div 10 + 1) * 10) ''UTC'' \<lparr>world = 0, log = []\<rparr>)))) =
     [''nightly-000000000020'']"
    by code_simp
  then have "map run_name (creates (log s')) = [''nightly-000000000020'']"
    using e by (metis log_Reconcile sample_reconcile snd_conv)
  then show ?thesis using reconcile_never_overlaps [OF sample_api_reads e] unfolding e snd_conv by blast
qed


lemma latest_tick:
  "cron_law T nxt \<Longrightarrow> scheduleLatestMissedTick nxt e now = missed_spec (due T e now)"
  unfolding scheduleLatestMissedTick_def by (rule latest_missed_spec) (auto simp: due_def)

text \<open>The walk over missed ticks implements its set specification: for a parsed
  schedule with activation times \<open>T\<close> it returns the newest activation after the start and not after
  now, with their number, and reports a backlog exactly where there are more than one hundred of
  them; it looks at no more than one hundred and one of them.\<close>

theorem missed_tick_refinement:
  assumes "cron_law T nxt"
  shows "scheduleLatestMissedTick nxt earliest now = missed_spec (due T earliest now)"
  by (rule latest_tick [OF assms])

theorem missed_tick_refinement_witness:
  "scheduleLatestMissedTick ten_ticks 5 25 = (Some 20, 2, False) \<and>
   missed_spec (due {x. 10 dvd x \<and> 0 < x} 5 25) = (Some 20, 2, False) \<and>
   scheduleLatestMissedTick ten_ticks 5 2000 = (None, 101, True)"
proof -
  have "scheduleLatestMissedTick ten_ticks 5 25 = (Some 20, 2, False)" by code_simp
  moreover have "scheduleLatestMissedTick ten_ticks 5 2000 = (None, 101, True)" by code_simp
  ultimately show ?thesis using missed_tick_refinement [OF ten_ticks_law, of 5 25] by simp
qed

text \<open>What \<open>SetControllerReference\<close> leaves alone.\<close>

definition keeps_name :: "cronlib \<Rightarrow> bool" where
  "keeps_name K \<longleftrightarrow> (\<forall>o' m m'. set_controller_reference K o' m = Inr m' \<longrightarrow>
     om_Name m' = om_Name m \<and> om_Namespace m' = om_Namespace m)"

lemma desiredRun_name:
  "keeps_name K \<Longrightarrow> desiredRun L K s name extra = Inr d \<Longrightarrow>
     run_name d = name \<and> om_Namespace (run_Meta d) = om_Namespace (sch_Meta s)"
  by (auto simp: desiredRun_def keeps_name_def run_name_def ok_simps Let_def)

lemma missed_spec_Some:
  assumes "missed_spec M = (Some t, c, b)"
  shows "t \<in> M" "x \<in> M \<Longrightarrow> x \<le> t"
  using assms by (auto simp: missed_spec_def intro!: Max_in split: if_splits)

text \<open>C38 (functional).  A run that a cron trigger creates belongs to one activation: an activation
  of the schedule after the recorded one (or after the creation of the schedule) and not after now,
  the newest of these, under the name of that activation, which no run of the schedule has; and if
  the trigger succeeds that activation is recorded, so that it is never used again.\<close>

theorem cron_tick_once:
  assumes "cron_law T nxt" "keeps_name K"
    and "case ss_StartingDeadlineSeconds (sch_Spec s) of None \<Rightarrow> True | Some d \<Rightarrow> 0 \<le> d"
    and "handleCronTick L K A s nxt owned active now \<lparr>world = w, log = []\<rparr> = (r, s')"
    and "d \<in> set (creates (log s'))"
  shows "\<exists>tick \<in> T. (case sst_LastScheduleTime (sch_Status s) of Some t \<Rightarrow> t
           | None \<Rightarrow> om_CreationTimestamp (sch_Meta s)) < tick \<and> tick \<le> now
      \<and> (\<forall>x \<in> T. x \<le> now \<longrightarrow> x \<le> tick)
      \<and> run_name d = tick_name L K s tick \<and> om_Namespace (run_Meta d) = om_Namespace (sch_Meta s)
      \<and> (\<forall>x \<in> set owned. run_name x \<noteq> tick_name L K s tick)
      \<and> (\<forall>wait s2. r = Inr (wait, s2) \<longrightarrow> sst_LastScheduleTime (sch_Status s2) = Some tick)"
proof -
  let ?e = "cron_earliest s now"
  obtain tick cnt d' where t: "?e \<le> now" "scheduleLatestMissedTick nxt ?e now = (Some tick, cnt, False)"
      "findScheduleRun owned (tick_name L K s tick) = None"
      "desiredRun L K s (tick_name L K s tick) fmempty = Inr d'" "creates (log s') = [d']"
      "\<forall>wait s2. r = Inr (wait, s2) \<longrightarrow> sst_LastScheduleTime (sch_Status s2) = Some tick"
    using runs_trace [OF runs_cron assms(4)] assms(5) by (cases "creates (log s')") auto
  have m: "missed_spec (due T ?e now) = (Some tick, cnt, False)"
    using t(2) latest_tick [OF assms(1)] by simp
  have tick: "tick \<in> T" "?e < tick" "tick \<le> now" using missed_spec_Some(1) [OF m] by (auto simp: due_def)
  have new: "x \<le> tick" if "x \<in> T" "x \<le> now" for x
    using missed_spec_Some(2) [OF m, of x] that tick(2) by (cases "?e < x") (auto simp: due_def)
  have base: "(case sst_LastScheduleTime (sch_Status s) of Some t \<Rightarrow> t
           | None \<Rightarrow> om_CreationTimestamp (sch_Meta s)) < tick"
    using cron_earliest_after [OF assms(3), of now] tick by linarith
  have "d = d'" using assms(5) t(5) by simp
  then show ?thesis using tick(1,3) new base desiredRun_name [OF assms(2) t(4)] t(3,6)
    by (intro bexI [of _ tick]) (auto simp: findScheduleRun_def find_None_iff)
qed

lemma sample_keeps: "keeps_name sample_cronlib"
  by (auto simp: keeps_name_def sample_cronlib_def)

theorem cron_tick_once_witness:
  "\<exists>d tick. creates (log (snd (handleCronTick sample_klib sample_cronlib sample_sched_api sample_schedule ten_ticks [] [] 25
       \<lparr>world = 0, log = []\<rparr>))) = [d] \<and> 5 < tick \<and> tick \<le> 25 \<and>
     run_name d = tick_name sample_klib sample_cronlib sample_schedule tick"
proof -
  let ?run = "handleCronTick sample_klib sample_cronlib sample_sched_api sample_schedule ten_ticks [] [] 25
       \<lparr>world = 0, log = []\<rparr>"
  obtain r s' where e: "?run = (r, s')" by fastforce
  have "map run_name (creates (log (snd ?run))) = [''nightly-000000000020'']" by code_simp
  then obtain d where d: "creates (log s') = [d]" unfolding e snd_conv by (cases "creates (log s')") auto
  have dl: "case ss_StartingDeadlineSeconds (sch_Spec sample_schedule) of None \<Rightarrow> True | Some d \<Rightarrow> 0 \<le> d"
    by (simp add: sample_schedule_def)
  have "d \<in> set (creates (log s'))" using d by simp
  from cron_tick_once [OF ten_ticks_law sample_keeps dl e this]
  obtain tick where "(case sst_LastScheduleTime (sch_Status sample_schedule) of Some t \<Rightarrow> t
           | None \<Rightarrow> om_CreationTimestamp (sch_Meta sample_schedule)) < tick" "tick \<le> 25"
      "run_name d = tick_name sample_klib sample_cronlib sample_schedule tick" by blast
  then have "5 < tick" "tick \<le> 25" "run_name d = tick_name sample_klib sample_cronlib sample_schedule tick"
    by (simp_all add: sample_schedule_def)
  then show ?thesis using d unfolding e snd_conv by blast
qed

text \<open>C39 (liveness).  A due activation does start: where an activation is due and the backlog is not
  unusable, no run has its name yet, the policy does not hold it back and the server accepts the run,
  the trigger sends exactly that creation, succeeds, and records the activation.\<close>

theorem cron_tick_starts:
  assumes "cron_law T nxt" "due T (cron_earliest s now) now \<noteq> {}"
    and "finite (due T (cron_earliest s now) now)" "card (due T (cron_earliest s now) now) \<le> 100"
    and "tick = newest (due T (cron_earliest s now) now)"
    and "findScheduleRun owned (tick_name L K s tick) = None" "may_start s active"
    and "desiredRun L K s (tick_name L K s tick) fmempty = Inr d" "create_run A d w = (Inr c, w')"
  shows "\<exists>s2. handleCronTick L K A s nxt owned active now \<lparr>world = w, log = []\<rparr> =
       (Inr (0, s2), \<lparr>world = w', log = [RCreateRun d]\<rparr>)
     \<and> sst_LastScheduleTime (sch_Status s2) = Some tick \<and> sst_LastRunName (sch_Status s2) = run_name c"
proof -
  have le: "\<not> cron_earliest s now > now" using assms(2) by (auto simp: due_def)
  have m: "scheduleLatestMissedTick nxt (cron_earliest s now) now = (Some tick, card (due T (cron_earliest s now) now), False)"
    using assms(2-5) latest_tick [OF assms(1)] by (simp add: missed_spec_def)
  have c: "concurrency L A s active now a b z = (Inr None, z)" for a b z
    using assms(7) by (simp add: concurrency_def may_start_def ret_def Let_def)
  have lr: "sst_LastRunName (sch_Status (setScheduleReady L (setLastScheduleTime (recordScheduledRun L s c) t) now st re msg))
      = run_name c" for t st re msg
    by (simp add: setScheduleReady_def setLastScheduleTime_def recordScheduledRun_def Let_def)
  show ?thesis using le assms(6,8,9)
    by (simp add: handleCronTick_def m c andthen_def ret_def lift_def createRun_def attempt_def
        request_def tick_name_def last_time_simps lr Let_def)
qed

theorem cron_tick_starts_witness:
  "\<exists>d s2. handleCronTick sample_klib sample_cronlib sample_sched_api sample_schedule ten_ticks [] [] 25
       \<lparr>world = 0, log = []\<rparr> = (Inr (0, s2), \<lparr>world = 1, log = [RCreateRun d]\<rparr>) \<and>
     sst_LastScheduleTime (sch_Status s2) = Some 20"
proof -
  have e: "cron_earliest sample_schedule 25 = 5" by code_simp
  have due: "due {x. 10 dvd x \<and> 0 < x} 5 25 = {10, 20}"
    by (auto simp: due_def)
  obtain d where d: "desiredRun sample_klib sample_cronlib sample_schedule
      (tick_name sample_klib sample_cronlib sample_schedule 20) fmempty = Inr d"
    by (simp add: desiredRun_def sample_cronlib_def Let_def)
  have a: "create_run sample_sched_api d 0 = (Inr d, 1)" by (simp add: sample_sched_api_def)
  have f: "findScheduleRun [] (tick_name sample_klib sample_cronlib sample_schedule 20) = None"
    by (simp add: findScheduleRun_def)
  have s: "may_start sample_schedule []" by (simp add: may_start_def)
  show ?thesis
    using cron_tick_starts [OF ten_ticks_law, where s = sample_schedule and now = 25, unfolded e due,
        OF _ _ _ _ f s d a, simplified] by auto
qed

definition delete_requests :: "AnonymizationRun \<Rightarrow> request list" where
  "delete_requests x = (if deleting (run_Meta x) then [] else [RDeleteRun x (om_UID (run_Meta x))])"

lemma runs_deleteRun_exact: "runs (deleteRun A x) (\<lambda>l r. l = delete_requests x)"
  unfolding deleteRun_def delete_requests_def
  by (auto intro!: runs_ret runs_attempt [where P = "\<lambda>l r. l = [RDeleteRun x (om_UID (run_Meta x))]"]
      runs_request runs_fail split: sum.split)

lemma deletes_requests: "map fst (deletes (concat (map delete_requests xs))) = filter (\<lambda>x. \<not> deleting (run_Meta x)) xs"
  by (induction xs) (auto simp: delete_requests_def)

text \<open>Pruning a group of finished runs splits it into old runs and new ones, as
  many new ones as the limit allows, none of which completed before an old one; only old runs are
  deleted, and if pruning succeeds every old run that is not being deleted already has been.\<close>

theorem pruneGroup_keeps_newest:
  assumes "pruneGroup A rs limit \<lparr>world = w, log = []\<rparr> = (r, s')"
  shows "\<exists>old new. mset (old @ new) = mset rs \<and> length new = min (length rs) (nat limit)
    \<and> (\<forall>x \<in> set old. \<forall>y \<in> set new. \<not> scheduleRunCompletionOrder y x)
    \<and> creates (log s') = [] \<and> set (map fst (deletes (log s'))) \<subseteq> set old
    \<and> (is_ok r \<longrightarrow> map fst (deletes (log s')) = filter (\<lambda>x. \<not> deleting (run_Meta x)) old)"
proof -
  let ?n = "length rs - nat limit" and ?s = "sort_by scheduleRunCompletionOrder rs"
  have "runs (foreach (deleteRun A) (take ?n ?s)) (\<lambda>l r. set l \<subseteq> set (concat (map delete_requests (take ?n ?s))) \<and>
      (is_ok r \<longrightarrow> l = concat (map delete_requests (take ?n ?s))))"
    by (rule runs_foreach) (auto intro!: runs_conseq [OF runs_deleteRun_exact])
  moreover have "pruneGroup A rs limit = (if ?n = 0 then ret () else foreach (deleteRun A) (take ?n ?s))"
    by (auto simp: pruneGroup_def Let_def)
  ultimately have "runs (pruneGroup A rs limit) (\<lambda>l r. set l \<subseteq> set (concat (map delete_requests (take ?n ?s))) \<and>
      (is_ok r \<longrightarrow> l = concat (map delete_requests (take ?n ?s))))"
    by (auto intro: runs_ret)
  from runs_trace [OF this assms]
  have l: "set (log s') \<subseteq> set (concat (map delete_requests (take ?n ?s)))"
    "is_ok r \<Longrightarrow> log s' = concat (map delete_requests (take ?n ?s))" by auto
  have "creates (log s') = []" "set (map fst (deletes (log s'))) \<subseteq> set (take ?n ?s)"
    using l(1) by (auto simp: creates_def deletes_def delete_requests_def split: request.splits if_splits)
  moreover have "mset (take ?n ?s @ drop ?n ?s) = mset rs" by simp
  moreover have "length (drop ?n ?s) = min (length rs) (nat limit)" by simp
  moreover have "\<forall>x \<in> set (take ?n ?s). \<forall>y \<in> set (drop ?n ?s). \<not> scheduleRunCompletionOrder y x"
    using completion_rank.sort_by_prefix_oldest by blast
  moreover have "is_ok r \<longrightarrow> map fst (deletes (log s')) = filter (\<lambda>x. \<not> deleting (run_Meta x)) (take ?n ?s)"
    using l(2) deletes_requests by metis
  ultimately show ?thesis by blast
qed

definition finished_run :: "string \<Rightarrow> int \<Rightarrow> AnonymizationRun" where
  "finished_run name t = sample_run\<lparr>run_Meta := (run_Meta sample_run)\<lparr>om_Name := name\<rparr>,
     run_Status := empty_run_status\<lparr>rst_Phase := ''Completed'', rst_CompletedAt := Some t\<rparr>\<rparr>"

theorem pruneGroup_keeps_newest_witness:
  "\<exists>old new. mset (old @ new) = {#finished_run ''c'' 7, finished_run ''a'' 3, finished_run ''b'' 5#} \<and> length new = 2 \<and>
     deletes (log (snd (pruneGroup sample_sched_api [finished_run ''c'' 7, finished_run ''a'' 3, finished_run ''b'' 5] 2
       \<lparr>world = 0, log = []\<rparr>))) = map (\<lambda>x. (x, ''uid-1'')) old"
proof -
  let ?rs = "[finished_run ''c'' 7, finished_run ''a'' 3, finished_run ''b'' 5]"
  obtain r s' where e: "pruneGroup sample_sched_api ?rs 2 \<lparr>world = 0, log = []\<rparr> = (r, s')" by fastforce
  have v: "deletes (log s') = [(finished_run ''a'' 3, ''uid-1'')]" "is_ok r"
    using e by (auto simp: pruneGroup_def sort_by_def scheduleRunCompletionOrder_def scheduleRunCompletionTime_def
        finished_run_def deleteRun_def deleting_def sample_run_def empty_meta_def attempt_def request_def
        sample_sched_api_def ret_def andthen_def)
  obtain old new where o: "mset (old @ new) = mset ?rs" "length new = 2"
      "map fst (deletes (log s')) = filter (\<lambda>x. \<not> deleting (run_Meta x)) old"
    using pruneGroup_keeps_newest [OF e] v(2) by auto
  have "size (mset (old @ new)) = 3" unfolding o(1) by simp
  then have "length old = 1" using o(2) by simp
  then obtain x where x: "old = [x]" by (auto simp: length_Suc_conv)
  have "filter (\<lambda>x. \<not> deleting (run_Meta x)) [x] = [finished_run ''a'' 3]" using o(3) v(1) unfolding x by simp
  then have "x = finished_run ''a'' 3" by (simp split: if_splits)
  then have "deletes (log s') = map (\<lambda>x. (x, ''uid-1'')) old" using v(1) x by simp
  moreover have "mset ?rs = {#finished_run ''c'' 7, finished_run ''a'' 3, finished_run ''b'' 5#}" by simp
  ultimately show ?thesis using o(1,2) unfolding e snd_conv by metis
qed

text \<open>The name of a child run is at most 253 characters long, ends with its suffix, and
  is the plain name of the schedule and the suffix where that fits, for every suffix that the
  triggers use.\<close>

theorem scheduleChildName_bounds:
  assumes "\<And>x. length (sha256 L x) = 32" "length suf \<le> 240"
  shows "length (scheduleChildName L name suf) \<le> 253 \<and> has_suffix (scheduleChildName L name suf) (''-'' @ suf)
    \<and> (scheduleChildName L name suf = name @ ''-'' @ suf \<or> length (name @ ''-'' @ suf) > 253)"
proof (cases "length (name @ ''-'' @ suf) \<le> 253")
  case True
  then show ?thesis by (simp add: scheduleChildName_def scheduleMaxNameLength_def has_suffix_def)
next
  case False
  let ?d = "take 8 (scheduleTokenHash L name)" and ?k = "253 - length suf - 8 - 2"
  have d: "length ?d = 8" using assms(1) [of name] by (simp add: scheduleTokenHash_def)
  have e: "scheduleChildName L name suf = trim_right (take ?k name) ''-'' @ ''-'' @ ?d @ ''-'' @ suf"
    using False d by (simp add: scheduleChildName_def scheduleMaxNameLength_def Let_def)
  have t: "length (trim_right (take ?k name) ''-'') \<le> ?k"
    by (rule order_trans [OF trim_right_length]) simp
  have "length (scheduleChildName L name suf) \<le> 253" using t d assms(2) unfolding e by simp
  moreover have "has_suffix (scheduleChildName L name suf) (''-'' @ suf)"
    using d unfolding e has_suffix_def by simp
  ultimately show ?thesis using False by auto
qed

theorem scheduleChildName_bounds_witness:
  "length (scheduleChildName sample_klib (replicate 253 (CHR ''a'')) ''000000000020'') \<le> 253"
proof -
  have "\<And>x. length (sha256 sample_klib x) = 32" by (simp add: sample_klib_def)
  from scheduleChildName_bounds [OF this, of "''000000000020''" "replicate 253 (CHR ''a'')"] show ?thesis by simp
qed

end
