(* ===== verification/Run_Resources.thy ===== *)
theory Run_Resources
  imports Schedule Policy Report
begin

text \<open>
  \<open>internal/controller/run_resources.go\<close>, the part below the phase machine: the environment of
  the run controller, the ownership rules for its children, names, the immutable snapshot of
  everything a run depends on, the runner Job and the verdict on the runner's report.
\<close>

abbreviation (input) "runFinalizer \<equiv> ''pxc-anonymizer.io/temp-cluster-cleanup''"
abbreviation (input) "runUIDLabel \<equiv> ''pxc-anonymizer.io/run-uid''"
abbreviation (input) "anonymizationRunKind \<equiv> ''AnonymizationRun''"
abbreviation (input) "runContainerName \<equiv> ''anonymize''"
abbreviation (input) "runOutputStorage \<equiv> ''anonymized''"
abbreviation (input) "runPolicyVolume \<equiv> ''policy''"
abbreviation (input) "runPolicyFile \<equiv> ''policy.json''"
abbreviation (input) "runSpecFile \<equiv> ''run.json''"
abbreviation (input) "runSeedKey \<equiv> ''seed''"
abbreviation (input) "runSourceFile \<equiv> ''source.json''"
abbreviation (input) "runPolicyHashKey \<equiv> ''policy.hash''"
abbreviation (input) "runConditionSource \<equiv> ''SourceResolved''"
abbreviation (input) "runConditionPolicy \<equiv> ''PolicyValid''"
abbreviation (input) "runConditionCluster \<equiv> ''TempClusterReady''"
abbreviation (input) "runConditionRestored \<equiv> ''Restored''"
abbreviation (input) "runConditionCleaned \<equiv> ''CleanedUp''"
abbreviation (input) "runConditionComplete \<equiv> ''Complete''"
abbreviation (input) "runConditionFailed \<equiv> ''Failed''"
abbreviation (input) "runConditionRetained \<equiv> ''Retained''"
abbreviation (input) "runConditionAnonymized \<equiv> ''Anonymized''"
abbreviation (input) "runConditionBackedUp \<equiv> ''BackedUp''"
abbreviation (input) "runConditionPublished \<equiv> ''Published''"

section \<open>Objects\<close>

record ConfigMap =
  cm_Meta :: ObjectMeta
  cm_Immutable :: "bool option"
  cm_Data :: "(string, string) fmap"
  cm_BinaryData :: "(string, string) fmap"

record KeyToPath =
  kp_Key :: string
  kp_Path :: string

record VolumeMount =
  vm_Name :: string
  vm_MountPath :: string
  vm_ReadOnly :: bool

datatype VolumeSource =
    ConfigMapVolume string "KeyToPath list" int
  | SecretVolume string "KeyToPath list" int
  | EmptyDirVolume

record Container =
  ct_Name :: string
  ct_Image :: string
  ct_Command :: "string list"
  ct_Args :: "string list"
  ct_Resources :: json
  ct_TerminationMessagePath :: string
  ct_TerminationMessagePolicy :: string
  ct_AllowPrivilegeEscalation :: bool
  ct_ReadOnlyRootFilesystem :: bool
  ct_DropCapabilities :: "string list"
  ct_VolumeMounts :: "VolumeMount list"

record PodSpec =
  pod_AutomountServiceAccountToken :: bool
  pod_RestartPolicy :: string
  pod_RunAsNonRoot :: bool
  pod_RunAsUser :: int
  pod_RunAsGroup :: int
  pod_FSGroup :: int
  pod_SeccompProfile :: string
  pod_NodeSelector :: "(string, string) fmap"
  pod_Tolerations :: "json list"
  pod_Affinity :: "json option"
  pod_Containers :: "Container list"
  pod_Volumes :: "(string \<times> VolumeSource) list"

record JobSpec =
  js_BackoffLimit :: int
  js_ActiveDeadlineSeconds :: int
  js_TTLSecondsAfterFinished :: "int option"
  js_TemplateLabels :: "(string, string) fmap"
  js_Pod :: PodSpec

record Job =
  job_Meta :: ObjectMeta
  job_Spec :: JobSpec
  job_Conditions :: "(string \<times> string) list"

record Terminated =
  te_ExitCode :: int
  te_Message :: string

record Pod =
  pd_Meta :: ObjectMeta
  pd_ContainerStatuses :: "(string \<times> Terminated option) list"

text \<open>An \<open>unstructured.Unstructured\<close> as it is read: its kind, its metadata and its tree.\<close>

record Unstructured =
  un_GVK :: gvk
  un_Meta :: ObjectMeta
  un_Tree :: json

datatype child = ChSecret Secret | ChConfigMap ConfigMap | ChJob Job | ChObject Rendered

fun child_meta :: "child \<Rightarrow> ObjectMeta" where
  "child_meta (ChSecret s) = sec_Meta s"
| "child_meta (ChConfigMap c) = cm_Meta c"
| "child_meta (ChJob j) = job_Meta j"
| "child_meta (ChObject r) = re_Meta r"

fun child_with_meta :: "child \<Rightarrow> ObjectMeta \<Rightarrow> child" where
  "child_with_meta (ChSecret s) m = ChSecret (s\<lparr>sec_Meta := m\<rparr>)"
| "child_with_meta (ChConfigMap c) m = ChConfigMap (c\<lparr>cm_Meta := m\<rparr>)"
| "child_with_meta (ChJob j) m = ChJob (j\<lparr>job_Meta := m\<rparr>)"
| "child_with_meta (ChObject r) m = ChObject (r\<lparr>re_Meta := m\<rparr>)"

lemma child_meta_with [simp]: "child_meta (child_with_meta c m) = m"
  by (cases c) simp_all

text \<open>The kind of an object that is deleted.\<close>

datatype objkind = KindSecret | KindJob | KindObject gvk

section \<open>The environment\<close>

text \<open>The requests that change something.  A status patch carries the object before and after
  the change in memory; a deletion carries the metadata whose UID and resource version are its
  preconditions.\<close>

datatype rreq =
    QCreate child
  | QDelete objkind ObjectMeta
  | QPatchStatus AnonymizationRun AnonymizationRun
  | QPatchRun AnonymizationRun AnonymizationRun
  | QPutPointer PointerTarget Document
  | QEvent string string

text \<open>The API server over an arbitrary state.  A read that may be served by the cache or by the
  uncached reader takes a flag that is true for the latter; \<open>a_secrets\<close> is the uncached reader
  of Secrets, the only one that reads them, and \<open>a_has_reader\<close> says that it is not nil.
  \<open>a_tick\<close> is what else happens while Secrets are read.  A patch returns the object that is in
  memory after the call, where the response of the server has been decoded over it.\<close>

record 'w run_api =
  a_now :: "'w \<Rightarrow> int \<times> 'w"
  a_random :: "nat \<Rightarrow> 'w \<Rightarrow> (cerr + string) \<times> 'w"
  a_tick :: "'w \<Rightarrow> 'w"
  a_has_reader :: bool
  a_secrets :: "'w \<Rightarrow> string \<Rightarrow> string \<Rightarrow> kerr + Secret"
  a_get_run :: "string \<Rightarrow> string \<Rightarrow> 'w \<Rightarrow> (cerr + AnonymizationRun) \<times> 'w"
  a_get_policy :: "string \<Rightarrow> string \<Rightarrow> 'w \<Rightarrow> (cerr + AnonymizationPolicy) \<times> 'w"
  a_get_pointer :: "string \<Rightarrow> string \<Rightarrow> 'w \<Rightarrow> (cerr + BackupPointer) \<times> 'w"
  a_get_configmap :: "bool \<Rightarrow> string \<Rightarrow> string \<Rightarrow> 'w \<Rightarrow> (cerr + ConfigMap) \<times> 'w"
  a_get_job :: "bool \<Rightarrow> string \<Rightarrow> string \<Rightarrow> 'w \<Rightarrow> (cerr + Job) \<times> 'w"
  a_get_object :: "bool \<Rightarrow> gvk \<Rightarrow> string \<Rightarrow> string \<Rightarrow> 'w \<Rightarrow> (cerr + Unstructured) \<times> 'w"
  a_list_pods :: "string \<Rightarrow> string \<Rightarrow> 'w \<Rightarrow> (cerr + Pod list) \<times> 'w"
  a_list_backups :: "string \<Rightarrow> (string, string) fmap \<Rightarrow> 'w \<Rightarrow> (cerr + Unstructured list) \<times> 'w"
  a_list_runs :: "string \<Rightarrow> 'w \<Rightarrow> (cerr + AnonymizationRun list) \<times> 'w"
  a_create :: "child \<Rightarrow> 'w \<Rightarrow> (cerr + unit) \<times> 'w"
  a_delete :: "objkind \<Rightarrow> ObjectMeta \<Rightarrow> 'w \<Rightarrow> (cerr + unit) \<times> 'w"
  a_patch_status :: "AnonymizationRun \<Rightarrow> AnonymizationRun \<Rightarrow> 'w \<Rightarrow> (cerr + AnonymizationRun) \<times> 'w"
  a_patch_run :: "AnonymizationRun \<Rightarrow> AnonymizationRun \<Rightarrow> 'w \<Rightarrow> (cerr + AnonymizationRun) \<times> 'w"

record runSourceSnapshot =
  rss_Source :: ResolvedSource
  rss_Reason :: string
  rss_OutputGroup :: string

text \<open>A line of the runner's log that the controller reads.\<close>

record LogEntry =
  le_Msg :: string
  le_DB :: string
  le_Table :: string
  le_Step :: string
  le_TablesDone :: int
  le_TablesTotal :: int
  le_StepsDone :: int
  le_RowsDone :: int

text \<open>The libraries, the JSON codecs and the fields of the reconciler.  The duration of a report
  is the text of its number.\<close>

record 'w run_env =
  e_klib :: klib
  e_lib :: lib
  e_re_ok :: "string \<Rightarrow> bool"
  e_wire :: wire
  e_certs :: certlib
  e_minio :: "MinioOptions \<Rightarrow> serr option"
  e_http :: http_get
  e_s3 :: "'w s3lib"
  e_docwire :: docwire
  e_backup_conv :: "json \<Rightarrow> serr + BackupView"
  e_cluster_conv :: "json \<Rightarrow> serr + ClusterView"
  e_restore_conv :: "json \<Rightarrow> serr + RestoreView"
  e_spec_marshal :: "AnonymizationRunSpec \<Rightarrow> cerr + string"
  e_spec_unmarshal :: "string \<Rightarrow> cerr + AnonymizationRunSpec"
  e_source_marshal :: "runSourceSnapshot \<Rightarrow> cerr + string"
  e_source_unmarshal :: "string \<Rightarrow> cerr + runSourceSnapshot"
  e_report :: "string \<Rightarrow> string report option"
  e_log_entry :: "string \<Rightarrow> LogEntry option"
  e_minute_layout :: "int \<Rightarrow> string"
  e_rfc3339 :: "int \<Rightarrow> string"
  e_RunnerImage :: string
  e_Recorder :: bool
  e_fetchPointer :: "(string \<Rightarrow> PointerSource \<Rightarrow> 'w \<Rightarrow> (cerr + Document option) \<times> 'w) option"
  e_podLogs :: "(string \<Rightarrow> string \<Rightarrow> 'w \<Rightarrow> (cerr + string) \<times> 'w) option"
  e_putPointer :: "(string \<Rightarrow> PointerTarget \<Rightarrow> Document \<Rightarrow> 'w \<Rightarrow> (cerr + string) \<times> 'w) option"

type_synonym ('w, 'a) ract = "('w, rreq, cerr, 'a) eff"

definition not_found :: "cerr \<Rightarrow> bool" where
  "not_found e = (e = CKube KNotFound)"

definition runTime :: "'w run_api \<Rightarrow> ('w, int) ract" where
  "runTime A = query (\<lambda>w. case a_now A w of (t, w') \<Rightarrow> (Inr t, w'))"

definition get_secret :: "'w run_api \<Rightarrow> string \<Rightarrow> string \<Rightarrow> ('w, Secret) ract" where
  "get_secret A ns name = query (\<lambda>w. (map_sum CKube id (a_secrets A w ns name), a_tick A w))"

definition reader_at :: "'w run_api \<Rightarrow> 'w \<Rightarrow> reader" where
  "reader_at A w = (if a_has_reader A then Some (a_secrets A w) else None)"

definition resolve_storage ::
  "'w run_env \<Rightarrow> 'w run_api \<Rightarrow> string \<Rightarrow> ObjectStorageSpec \<Rightarrow> ('w, Client) ract" where
  "resolve_storage E A ns spec =
     query (\<lambda>w. (map_sum CStore id (Resolve (e_klib E) (e_certs E) (e_minio E) (reader_at A w) ns spec), a_tick A w))"

definition event :: "'w run_env \<Rightarrow> string \<Rightarrow> string \<Rightarrow> ('w, unit) ract" where
  "event E reason msg = (if e_Recorder E then request (QEvent reason msg) (\<lambda>w. (Inr (), w)) else ret ())"

section \<open>Ownership and children\<close>

definition runOwner :: "klib \<Rightarrow> AnonymizationRun \<Rightarrow> OwnerReference" where
  "runOwner L run = new_controller_ref L (run_Meta run) GroupVersion_String anonymizationRunKind"

definition run_ns :: "AnonymizationRun \<Rightarrow> string" where
  "run_ns run = om_Namespace (run_Meta run)"

definition run_uid :: "AnonymizationRun \<Rightarrow> string" where
  "run_uid run = om_UID (run_Meta run)"

definition has_finalizer :: "AnonymizationRun \<Rightarrow> bool" where
  "has_finalizer run \<longleftrightarrow> runFinalizer \<in> set (om_Finalizers (run_Meta run))"

definition owned_by_run :: "klib \<Rightarrow> AnonymizationRun \<Rightarrow> ObjectMeta \<Rightarrow> bool" where
  "owned_by_run L run om \<longleftrightarrow>
     om_Namespace om = run_ns run \<and>
     (case controller_of L om of
        None \<Rightarrow> False
      | Some o' \<Rightarrow> or_UID o' = run_uid run \<and> or_Kind o' = anonymizationRunKind \<and>
          or_Name o' = run_name run \<and> or_APIVersion o' = GroupVersion_String)"

definition runOwns :: "klib \<Rightarrow> AnonymizationRun \<Rightarrow> ObjectMeta \<Rightarrow> cerr + unit" where
  "runOwns L run om = guardr (owned_by_run L run om) (CText (''refusing foreign child '' @ om_Name om))"

definition label_child :: "AnonymizationRun \<Rightarrow> child \<Rightarrow> child" where
  "label_child run c =
     child_with_meta c ((child_meta c)\<lparr>om_Labels := fmupd runUIDLabel (run_uid run) (om_Labels (child_meta c))\<rparr>)"

text \<open>The current object under the name of a child: Secrets come from the uncached reader.\<close>

definition get_current :: "'w run_api \<Rightarrow> child \<Rightarrow> ('w, ObjectMeta) ract" where
  "get_current A c =
     (let ns = om_Namespace (child_meta c); name = om_Name (child_meta c) in
      case c of
        ChSecret _ \<Rightarrow> andthen (get_secret A ns name) (\<lambda>s. ret (sec_Meta s))
      | ChConfigMap _ \<Rightarrow> andthen (query (a_get_configmap A False ns name)) (\<lambda>m. ret (cm_Meta m))
      | ChJob _ \<Rightarrow> andthen (query (a_get_job A False ns name)) (\<lambda>j. ret (job_Meta j))
      | ChObject r \<Rightarrow> andthen (query (a_get_object A False (re_GVK r) ns name)) (\<lambda>u. ret (un_Meta u)))"

fun is_secret :: "child \<Rightarrow> bool" where
  "is_secret (ChSecret _) = True"
| "is_secret _ = False"

definition accept_current :: "klib \<Rightarrow> AnonymizationRun \<Rightarrow> ObjectMeta \<Rightarrow> ('w, unit) ract" where
  "accept_current L run cur =
     andthen (lift (runOwns L run cur)) (\<lambda>_.
       if deleting cur then fail (CText ''owned child is still deleting'') else ret ())"

definition createRunChild :: "'w run_env \<Rightarrow> 'w run_api \<Rightarrow> AnonymizationRun \<Rightarrow> child \<Rightarrow> ('w, unit) ract" where
  "createRunChild E A run desired =
     (if \<not> has_finalizer run then fail (CText ''run finalizer must precede child creation'')
      else andthen (lift (runOwns (e_klib E) run (child_meta desired))) (\<lambda>_.
        let d = label_child run desired in
        if is_secret d \<and> \<not> a_has_reader A then fail (CText ''uncached APIReader is required'')
        else attempt (get_current A d) (\<lambda>r. case r of
          Inr cur \<Rightarrow> accept_current (e_klib E) run cur
        | Inl e \<Rightarrow>
            if \<not> not_found e then fail e
            else attempt (request (QCreate d) (a_create A d)) (\<lambda>r. case r of
              Inr _ \<Rightarrow> ret ()
            | Inl e \<Rightarrow>
                if e \<noteq> CKube KAlreadyExists then fail e
                else andthen (get_current A d) (accept_current (e_klib E) run)))))"

text \<open>A deletion is preconditioned on the UID and the resource version that were read.\<close>

definition deleteRunObject :: "'w run_api \<Rightarrow> objkind \<Rightarrow> ObjectMeta \<Rightarrow> ('w, unit) ract" where
  "deleteRunObject A k om =
     (if om_UID om = [] then fail (CText ''owned child must have a persisted UID before deletion'')
      else attempt (request (QDelete k om) (a_delete A k om)) (\<lambda>r. case r of
        Inr _ \<Rightarrow> ret ()
      | Inl e \<Rightarrow> if not_found e then ret () else fail e))"

definition get_for_delete :: "'w run_api \<Rightarrow> objkind \<Rightarrow> string \<Rightarrow> string \<Rightarrow> ('w, ObjectMeta) ract" where
  "get_for_delete A k ns name =
     (case k of
        KindSecret \<Rightarrow>
          if \<not> a_has_reader A then fail (CText ''uncached APIReader is required for cleanup'')
          else andthen (get_secret A ns name) (\<lambda>s. ret (sec_Meta s))
      | KindJob \<Rightarrow> andthen (query (a_get_job A False ns name)) (\<lambda>j. ret (job_Meta j))
      | KindObject g \<Rightarrow> andthen (query (a_get_object A False g ns name)) (\<lambda>u. ret (un_Meta u)))"

text \<open>True when the object is gone.\<close>

definition deleteRunOwned ::
  "'w run_env \<Rightarrow> 'w run_api \<Rightarrow> AnonymizationRun \<Rightarrow> objkind \<Rightarrow> string \<Rightarrow> ('w, bool) ract" where
  "deleteRunOwned E A run k name =
     attempt (get_for_delete A k (run_ns run) name) (\<lambda>r. case r of
        Inl e \<Rightarrow> if not_found e then ret True else fail e
      | Inr om \<Rightarrow>
          andthen (lift (runOwns (e_klib E) run om)) (\<lambda>_.
          andthen (if deleting om then ret () else deleteRunObject A k om) (\<lambda>_. ret False)))"

section \<open>Names\<close>

definition runTempName :: "klib \<Rightarrow> AnonymizationRun \<Rightarrow> string" where
  "runTempName L run =
     (let prefix = tc_NamePrefix (rspec_TempCluster (run_Spec run));
          prefix = (if prefix = [] then ''anon'' else prefix);
          prefix = trim_right (take 13 prefix) ''-''
      in prefix @ ''-'' @ hex_encode (take 4 (sha256 L (run_uid run))))"

text \<open>The suffixes of the callers are \<open>seed\<close>, \<open>policy\<close> and \<open>anonymize-\<close> with a 32 bit number, so
  that the slice of the name has a length of at least 32.\<close>

definition runChildName :: "klib \<Rightarrow> AnonymizationRun \<Rightarrow> string \<Rightarrow> string" where
  "runChildName L run suf =
     (let name = run_name run;
          name = (if length name + length suf + 1 > 63
                  then trim_right (take (63 - length suf - 10) name) ''.-'' @ ''-'' @
                         hex_encode (take 4 (sha256 L (run_uid run)))
                  else name)
      in name @ ''-'' @ suf)"

definition runConstantKey :: "klib \<Rightarrow> KeySelector \<Rightarrow> string" where
  "runConstantKey L ref = ''constant-'' @ hex_encode (take 12 (sha256 L (sel_Name ref @ ''/'' @ sel_Key ref)))"

definition runOutputGroup :: "klib \<Rightarrow> AnonymizationRun \<Rightarrow> string" where
  "runOutputGroup L run =
     (case fmlookup (om_Labels (run_Meta run)) LabelOutputGroup of
        Some g \<Rightarrow> if g \<noteq> [] then LabelValue L g else LabelValue L (run_name run)
      | None \<Rightarrow> LabelValue L (run_name run))"

text \<open>The runs that a change of an output backup wakes.\<close>

definition runsForOutputBackup ::
  "klib \<Rightarrow> 'w run_api \<Rightarrow> ObjectMeta \<Rightarrow> ('w, (string \<times> string) list) ract" where
  "runsForOutputBackup L A object =
     (case fmlookup (om_Labels object) LabelRun of
        None \<Rightarrow> ret []
      | Some label \<Rightarrow>
          if label = [] then ret []
          else attempt (query (a_list_runs A (om_Namespace object))) (\<lambda>r. case r of
            Inl _ \<Rightarrow> ret []
          | Inr items \<Rightarrow> ret (map (\<lambda>x. (run_ns x, run_name x))
              (filter (\<lambda>x. LabelValue L (run_name x) = label) items))))"

section \<open>The snapshot\<close>

record runSnapshot =
  sn_Spec :: AnonymizationRunSpec
  sn_Policy :: PolicySpec
  sn_Source :: ResolvedSource
  sn_SourceReason :: string
  sn_OutputGroup :: string
  sn_PolicyHash :: string
  sn_SystemUsers :: Secret
  sn_Payload :: Secret

definition runSystemKeys :: "string list" where
  "runSystemKeys = [''root'', ''xtrabackup'', ''monitor'', ''proxyadmin'', ''operator'', ''replication'',
     ''xtrabackup-aes256-psk'']"

definition system_key :: "string \<Rightarrow> string" where
  "system_key k = ''system-'' @ k"

text \<open>The system users that a payload holds, under their own names.\<close>

definition decode_system_users :: "(string, string) fmap \<Rightarrow> (string, string) fmap" where
  "decode_system_users data =
     foldl (\<lambda>m k. case fmlookup data (system_key k) of None \<Rightarrow> m | Some v \<Rightarrow> fmupd k v m) fmempty runSystemKeys"

definition decodeRunSnapshot :: "'w run_env \<Rightarrow> AnonymizationRun \<Rightarrow> Secret \<Rightarrow> cerr + runSnapshot" where
  "decodeRunSnapshot E run seed =
     bindr (runOwns (e_klib E) run (sec_Meta seed)) (\<lambda>_.
     bindr (guardr (\<not> deleting (sec_Meta seed) \<and> sec_Immutable seed = Some True \<and> secret_data seed runSeedKey \<noteq> [])
       (CText ''run snapshot must be immutable and complete'')) (\<lambda>_.
     bindr (e_spec_unmarshal E (secret_data seed runSpecFile)) (\<lambda>spec.
     let hash = secret_data seed runPolicyHashKey in
     case Decode (e_lib E) (e_re_ok E) (e_wire E) (secret_data seed runPolicyFile) of
       Inl _ \<Rightarrow> Inl (CText ''run policy snapshot hash is invalid'')
     | Inr (policy, h) \<Rightarrow>
         if h \<noteq> hash then Inl (CText ''run policy snapshot hash is invalid'')
         else bindr (e_source_unmarshal E (secret_data seed runSourceFile)) (\<lambda>source.
           case tc_SystemUsersSecretRef (rspec_TempCluster spec) of
             None \<Rightarrow> Inl (CText ''snapshot source credentials reference is missing'')
           | Some ref \<Rightarrow> Inr \<lparr>sn_Spec = spec, sn_Policy = policy, sn_Source = rss_Source source,
               sn_SourceReason = rss_Reason source, sn_OutputGroup = rss_OutputGroup source, sn_PolicyHash = hash,
               sn_SystemUsers = \<lparr>sec_Meta = empty_meta\<lparr>om_Name := ref, om_Namespace := run_ns run\<rparr>,
                 sec_Type = [], sec_Immutable = None, sec_Data = decode_system_users (sec_Data seed)\<rparr>,
               sn_Payload = seed\<rparr>))))"

definition loadRunSnapshot :: "'w run_env \<Rightarrow> 'w run_api \<Rightarrow> AnonymizationRun \<Rightarrow> ('w, runSnapshot) ract" where
  "loadRunSnapshot E A run =
     (if \<not> a_has_reader A then fail (CText ''run snapshot requires APIReader'')
      else andthen (get_secret A (run_ns run) (runChildName (e_klib E) run ''seed'')) (\<lambda>secret.
        lift (decodeRunSnapshot E run secret)))"

definition snapshot_files :: "string list" where
  "snapshot_files = [runPolicyFile, runSpecFile, runSourceFile, runPolicyHashKey]"

definition policy_configmap :: "klib \<Rightarrow> AnonymizationRun \<Rightarrow> Secret \<Rightarrow> ConfigMap" where
  "policy_configmap L run seed =
     \<lparr>cm_Meta = empty_meta\<lparr>om_Name := runChildName L run runPolicyVolume, om_Namespace := run_ns run,
        om_OwnerReferences := [runOwner L run]\<rparr>,
      cm_Immutable = Some True, cm_Data = fmap_of_list (map (\<lambda>k. (k, secret_data seed k)) snapshot_files),
      cm_BinaryData = fmempty\<rparr>"

text \<open>\<open>current.Data[key] == value\<close> with the same number of keys; a missing key reads as empty.\<close>

definition same_data :: "(string, string) fmap \<Rightarrow> (string, string) fmap \<Rightarrow> bool" where
  "same_data cur data \<longleftrightarrow>
     list_all (\<lambda>k. (case fmlookup cur k of None \<Rightarrow> [] | Some v \<Rightarrow> v) =
       (case fmlookup data k of None \<Rightarrow> [] | Some v \<Rightarrow> v)) snapshot_files"

definition ensureRunPolicyConfigMap ::
  "'w run_env \<Rightarrow> 'w run_api \<Rightarrow> AnonymizationRun \<Rightarrow> Secret \<Rightarrow> ('w, unit) ract" where
  "ensureRunPolicyConfigMap E A run seed =
     (let cm = policy_configmap (e_klib E) run seed in
      andthen (createRunChild E A run (ChConfigMap cm)) (\<lambda>_.
      andthen (query (a_get_configmap A False (run_ns run) (om_Name (cm_Meta cm)))) (\<lambda>cur.
        if cm_Immutable cur \<noteq> Some True \<or> fcard (fmdom (cm_Data cur)) \<noteq> fcard (fmdom (cm_Data cm))
        then fail (CText ''policy ConfigMap snapshot was changed'')
        else if \<not> same_data (cm_Data cur) (cm_Data cm)
        then fail (CText ''policy ConfigMap differs from immutable snapshot'')
        else ret ())))"

definition invalid_policy :: "string \<Rightarrow> cerr" where
  "invalid_policy msg = CInvalid runConditionPolicy ''PolicyInvalid'' msg"

definition runSecretValue :: "'w run_api \<Rightarrow> string \<Rightarrow> KeySelector option \<Rightarrow> ('w, string) ract" where
  "runSecretValue A ns ref =
     (case ref of
        None \<Rightarrow> fail (invalid_policy ''a required Secret key selector is missing'')
      | Some sel \<Rightarrow>
          attempt (get_secret A ns (sel_Name sel)) (\<lambda>r. case r of
            Inl _ \<Rightarrow> fail (invalid_policy ''a referenced policy Secret is unavailable'')
          | Inr secret \<Rightarrow>
              (case fmlookup (sec_Data secret) (sel_Key sel) of
                 None \<Rightarrow> fail (invalid_policy ''a referenced policy Secret key is missing'')
               | Some v \<Rightarrow> ret v)))"

definition step_payload :: "'w run_api \<Rightarrow> string \<Rightarrow> SQLStep \<Rightarrow> ('w, string) ract" where
  "step_payload A ns step =
     (case st_ConfigMapKeyRef step of
        Some ref \<Rightarrow>
          attempt (query (a_get_configmap A True ns (sel_Name ref))) (\<lambda>r. case r of
            Inl _ \<Rightarrow> fail (invalid_policy ''a SQL ConfigMap is unavailable'')
          | Inr object \<Rightarrow>
              (case fmlookup (cm_Data object) (sel_Key ref) of
                 Some text' \<Rightarrow> ret text'
               | None \<Rightarrow>
                   (case fmlookup (cm_BinaryData object) (sel_Key ref) of
                      Some v \<Rightarrow> ret v
                    | None \<Rightarrow> fail (invalid_policy ''a SQL ConfigMap key is missing''))))
      | None \<Rightarrow> runSecretValue A ns (st_SecretKeyRef step))"

text \<open>The references of the constant columns, in the order of the policy.\<close>

definition constant_refs :: "PolicySpec \<Rightarrow> KeySelector list" where
  "constant_refs policy =
     concat (map (\<lambda>database. concat (map (\<lambda>table. concat (map (\<lambda>column.
       case cr_Params column of None \<Rightarrow> [] | Some p \<Rightarrow> (case ValueFrom p of None \<Rightarrow> [] | Some ref \<Rightarrow> [ref]))
       (tp_Columns table))) (dp_Tables database))) (ps_Databases policy))"

definition snapshotRunPolicyPayloads ::
  "'w run_env \<Rightarrow> 'w run_api \<Rightarrow> string \<Rightarrow> PolicySpec \<Rightarrow> (string, string) fmap \<Rightarrow> ('w, (string, string) fmap) ract" where
  "snapshotRunPolicyPayloads E A ns policy data =
     andthen (foldm (\<lambda>data step. andthen (step_payload A ns step) (\<lambda>v.
         ret (fmupd (''sql-'' @ st_Name step) v data))) data (ps_Steps policy)) (\<lambda>data.
     andthen (foldm (\<lambda>data ref. andthen (runSecretValue A ns (Some ref)) (\<lambda>v.
         ret (fmupd (runConstantKey (e_klib E) ref) v data))) data (constant_refs policy)) (\<lambda>data.
     if ps_Mode policy = ''Fixed''
     then andthen (runSecretValue A ns (ps_SeedSecretRef policy)) (\<lambda>v.
       if length v < 32 then fail (invalid_policy ''the fixed seed must contain at least 32 bytes'')
       else ret (fmupd runSeedKey v data))
     else andthen (query (a_random A 32)) (\<lambda>v. ret (fmupd runSeedKey v data))))"

section \<open>Inputs\<close>

definition invalid_cluster :: "string \<Rightarrow> cerr" where
  "invalid_cluster msg = CInvalid runConditionCluster ''ClusterError'' msg"

definition with_image :: "AnonymizationRunSpec \<Rightarrow> string \<Rightarrow> AnonymizationRunSpec" where
  "with_image spec img = spec\<lparr>rspec_Runner := (rspec_Runner spec)\<lparr>ru_PodSpec :=
     (ru_PodSpec (rspec_Runner spec))\<lparr>rp_Image := img\<rparr>\<rparr>\<rparr>"

definition with_output_storage :: "AnonymizationRunSpec \<Rightarrow> Client \<Rightarrow> AnonymizationRunSpec" where
  "with_output_storage spec storage = spec\<lparr>rspec_Output := (rspec_Output spec)\<lparr>out_ObjectStorage :=
     (out_ObjectStorage (rspec_Output spec))\<lparr>os_EndpointURL := c_EndpointURL storage, os_Region := c_Region storage\<rparr>\<rparr>\<rparr>"

definition with_restore :: "AnonymizationRunSpec \<Rightarrow> string \<Rightarrow> string \<Rightarrow> AnonymizationRunSpec" where
  "with_restore spec endpoint region = spec\<lparr>rspec_Source := (rspec_Source spec)\<lparr>rn_Restore :=
     (rn_Restore (rspec_Source spec))\<lparr>rc_EndpointURL := endpoint, rc_Region := region\<rparr>\<rparr>\<rparr>"

definition runner_settings_ok :: "AnonymizationRunSpec \<Rightarrow> bool" where
  "runner_settings_ok spec \<longleftrightarrow>
     rp_Image (ru_PodSpec (rspec_Runner spec)) \<noteq> [] \<and>
     0 \<le> ru_Workers (rspec_Runner spec) \<and> ru_Workers (rspec_Runner spec) \<le> 32 \<and>
     (case ru_PageSize (rspec_Runner spec) of None \<Rightarrow> True | Some n \<Rightarrow> 1 \<le> n) \<and> 0 \<le> rspec_BackoffLimit spec"

definition validateRunInputs ::
  "'w run_env \<Rightarrow> 'w run_api \<Rightarrow> AnonymizationRun \<Rightarrow> ('w, AnonymizationRun \<times> Secret) ract" where
  "validateRunInputs E A run =
     (let L = e_klib E; spec = run_Spec run;
          spec = (if rp_Image (ru_PodSpec (rspec_Runner spec)) = [] then with_image spec (e_RunnerImage E) else spec);
          frozen = run\<lparr>run_Spec := spec\<rparr>
      in if \<not> runner_settings_ok spec
         then fail (CInvalid runConditionAnonymized ''PolicyError'' ''runner image and execution settings must be valid'')
         else case tc_SystemUsersSecretRef (rspec_TempCluster spec) of
           None \<Rightarrow> fail (invalid_cluster ''tempCluster.systemUsersSecretRef is required for restore'')
         | Some ref \<Rightarrow>
             if ref = [] then fail (invalid_cluster ''tempCluster.systemUsersSecretRef is required for restore'')
             else attempt (get_secret A (run_ns run) ref) (\<lambda>r. case r of
               Inl e \<Rightarrow> if not_found e then fail (invalid_cluster ''the source system-users Secret does not exist'')
                 else fail e
             | Inr users \<Rightarrow>
                 (case RenderSystemUsersSecret L (Some frozen) (runTempName L run) (Some users) of
                    Inl _ \<Rightarrow> fail (invalid_cluster ''source system-users Secret requires root, xtrabackup, monitor, proxyadmin, operator and replication keys'')
                  | Inr copied \<Rightarrow>
                      (let storage_spec = out_ObjectStorage (rspec_Output spec) in
                       if \<not> storage_keys_ok (os_Keys storage_spec)
                       then fail (invalid_cluster ''Percona backups require standard AWS credential keys'')
                       else if os_CredentialsSecretRef storage_spec = None
                       then fail (invalid_cluster ''output storage requires a credentials Secret'')
                       else attempt (resolve_storage E A (run_ns run) storage_spec) (\<lambda>r. case r of
                         Inl _ \<Rightarrow> fail (invalid_cluster ''output object-storage credentials or endpoint are invalid'')
                       | Inr storage \<Rightarrow>
                           (let frozen = run\<lparr>run_Spec := with_output_storage spec storage\<rparr> in
                            case RenderTempCluster L (Some frozen) (runTempName L run) of
                              Inl _ \<Rightarrow> fail (invalid_cluster ''temporary cluster configuration is invalid'')
                            | Inr _ \<Rightarrow> ret (frozen, copied)))))))"

section \<open>The source\<close>

definition invalid_source :: "string \<Rightarrow> string \<Rightarrow> cerr" where
  "invalid_source reason msg = CInvalid runConditionSource reason msg"

text \<open>A document fetched by the injected function or by the fetcher; nil is \<open>None\<close>.\<close>

definition fetch_pointer ::
  "'w run_env \<Rightarrow> 'w run_api \<Rightarrow> string \<Rightarrow> PointerSource \<Rightarrow> ('w, Document option) ract" where
  "fetch_pointer E A ns source =
     (case e_fetchPointer E of
        Some f \<Rightarrow> query (f ns source)
      | None \<Rightarrow> query (\<lambda>w. (map_sum CStore Some (fst (Fetch (e_klib E) (e_docwire E) (e_certs E) (e_minio E)
          (e_http E) (e_s3 E) w (reader_at A w) ns source)), a_tick A w)))"

definition no_source :: ResolvedSource where
  "no_source = \<lparr>rs_BackupName = [], rs_Destination = [], rs_SourceCluster = [], rs_PointerPublishedAt = None,
     rs_PointerSchemaVersion = 0\<rparr>"

definition source_from_pointer ::
  "'w run_env \<Rightarrow> 'w run_api \<Rightarrow> AnonymizationRun \<Rightarrow> string \<Rightarrow> ('w, ResolvedSource \<times> string \<times> string \<times> string) ract" where
  "source_from_pointer E A run name =
     attempt (query (a_get_pointer A (run_ns run) name)) (\<lambda>r. case r of
        Inl _ \<Rightarrow> fail (invalid_source ''PointerNotReady'' ''the referenced BackupPointer is unavailable'')
      | Inr bp \<Rightarrow>
          (let cs = bpt_Conditions (bp_Status bp) in
           case (find_condition (e_klib E) cs ''Ready'', bpt_Current (bp_Status bp)) of
             (Some ready, Some cur) \<Rightarrow>
               if cond_Status ready \<noteq> ''True'' \<or> cond_ObservedGeneration ready \<noteq> om_Generation (bp_Meta bp)
               then fail (invalid_source ''PointerNotReady'' ''the BackupPointer is not ready at its current generation'')
               else andthen (if is_condition_false (e_klib E) cs ''Fresh''
                       then event E ''StaleBackup'' ''the selected BackupPointer is stale'' else ret ()) (\<lambda>_.
                 ret (no_source\<lparr>rs_BackupName := pb_BackupName cur, rs_Destination := pb_Destination cur,
                        rs_SourceCluster := bps_PXCCluster (bpp_Source (bp_Spec bp)),
                        rs_PointerPublishedAt := pb_PublishedAt cur,
                        rs_PointerSchemaVersion := pb_SchemaVersion cur\<rparr>, ''FromBackupPointer'', [], []))
           | _ \<Rightarrow> fail (invalid_source ''PointerNotReady'' ''the BackupPointer is not ready at its current generation'')))"

definition source_from_backup ::
  "'w run_env \<Rightarrow> 'w run_api \<Rightarrow> AnonymizationRun \<Rightarrow> string \<Rightarrow> ('w, ResolvedSource \<times> string \<times> string \<times> string) ract" where
  "source_from_backup E A run name =
     attempt (query (a_get_object A False BackupGVK (run_ns run) name)) (\<lambda>r. case r of
        Inl _ \<Rightarrow> fail (invalid_source ''BackupNotSucceeded'' ''the referenced backup is unavailable'')
      | Inr u \<Rightarrow>
          (case DecodeBackup (e_backup_conv E) (Some (un_GVK u, un_Tree u)) of
             Inl _ \<Rightarrow> fail (invalid_source ''BackupNotSucceeded'' ''the referenced backup must be Succeeded'')
           | Inr view \<Rightarrow>
               if \<not> Backup_Succeeded view
               then fail (invalid_source ''BackupNotSucceeded'' ''the referenced backup must be Succeeded'')
               else
                 (let source = no_source\<lparr>rs_BackupName := om_Name (bv_Meta view),
                        rs_Destination := bst_Destination (bv_Status view),
                        rs_SourceCluster := bs_PXCCluster (bv_Spec view)\<rparr>
                  in case bst_S3 (bv_Status view) of
                       None \<Rightarrow> ret (source, ''FromBackup'', [], [])
                     | Some s \<Rightarrow> ret (source, ''FromBackup'', b3_EndpointURL s, b3_Region s))))"

definition source_from_document ::
  "'w run_env \<Rightarrow> 'w run_api \<Rightarrow> AnonymizationRun \<Rightarrow> PointerSource \<Rightarrow> ('w, ResolvedSource \<times> string \<times> string \<times> string) ract" where
  "source_from_document E A run ps =
     attempt (fetch_pointer E A (run_ns run) ps) (\<lambda>r. case r of
        Inr (Some doc) \<Rightarrow>
          if \<not> is_ok (Validate_document (e_klib E) doc)
          then fail (invalid_source ''InvalidDestination'' ''the source pointer is invalid'')
          else
            (let source = no_source\<lparr>rs_BackupName := d_Name doc, rs_Destination := d_Destination doc,
                   rs_PointerSchemaVersion := wrap32 (d_SchemaVersion doc), rs_PointerPublishedAt := d_PublishedAt doc,
                   rs_SourceCluster := (case d_SourceCluster doc of None \<Rightarrow> [] | Some c \<Rightarrow> sc_Name c)\<rparr>
             in case d_S3 doc of
                  None \<Rightarrow> ret (source, ''FromPointer'', [], [])
                | Some s \<Rightarrow> ret (source, ''FromPointer'', s3_EndpointURL s, s3_Region s))
      | _ \<Rightarrow> fail (invalid_source ''PointerFetchFailed'' ''the source pointer could not be fetched''))"

definition source_literal :: "string \<Rightarrow> ResolvedSource" where
  "source_literal dest = no_source\<lparr>rs_Destination := dest,
     rs_BackupName := last (split_on (CHR ''/'') (trim_suffix dest ''/''))\<rparr>"

definition identity_document :: "string \<Rightarrow> string \<Rightarrow> Document" where
  "identity_document name dest =
     empty_document\<lparr>d_Name := name, d_Destination := dest, d_SchemaVersion := SchemaVersion\<rparr>"

text \<open>The source, the reason, and the endpoint and region that it implies.\<close>

definition resolveRunSource ::
  "'w run_env \<Rightarrow> 'w run_api \<Rightarrow> AnonymizationRun \<Rightarrow> ('w, ResolvedSource \<times> string \<times> string \<times> string) ract" where
  "resolveRunSource E A run =
     (let input = rspec_Source (run_Spec run) in
      andthen
        (case rn_BackupPointerRef input of
           Some name \<Rightarrow> source_from_pointer E A run name
         | None \<Rightarrow>
             (case rn_BackupRef input of
                Some name \<Rightarrow> source_from_backup E A run name
              | None \<Rightarrow>
                  (case rn_Pointer input of
                     Some ps \<Rightarrow> source_from_document E A run ps
                   | None \<Rightarrow> ret (source_literal (rn_Destination input), ''Literal'', [], []))))
        (\<lambda>(source, reason, endpoint, region).
           if \<not> is_ok (Validate_document (e_klib E) (identity_document (rs_BackupName source) (rs_Destination source)))
           then fail (invalid_source ''InvalidDestination'' ''the source must identify a valid S3 backup prefix'')
           else ret (source, reason, endpoint, region)))"

section \<open>Preparing the snapshot\<close>

definition system_entries :: "(string, string) fmap \<Rightarrow> (string, string) fmap" where
  "system_entries users = fmap_of_list (map (\<lambda>(k, v). (system_key k, v)) (sorted_list_of_fmap users))"

definition seed_secret :: "klib \<Rightarrow> AnonymizationRun \<Rightarrow> (string, string) fmap \<Rightarrow> Secret" where
  "seed_secret L run data =
     \<lparr>sec_Meta = empty_meta\<lparr>om_Name := runChildName L run ''seed'', om_Namespace := run_ns run,
        om_OwnerReferences := [runOwner L run]\<rparr>,
      sec_Type = ''Opaque'', sec_Immutable = Some True, sec_Data = data\<rparr>"

text \<open>The policy as it may be snapshotted: valid at its current generation and with the hash
  that the policy controller recorded.\<close>

definition policy_snapshot :: "'w run_env \<Rightarrow> AnonymizationPolicy \<Rightarrow> cerr + string \<times> string" where
  "policy_snapshot E policy =
     (let bad = invalid_policy ''the Policy must be valid at its current generation'' in
      case (Snapshot (e_lib E) (e_re_ok E) (e_wire E) (apo_Spec policy),
            find_condition (e_klib E) (apt_Conditions (apo_Status policy)) ''Valid'') of
        (Inr (canonical, hash), Some valid) \<Rightarrow>
          if cond_Status valid \<noteq> ''True'' \<or> cond_ObservedGeneration valid \<noteq> om_Generation (apo_Meta policy) \<or>
             apt_Hash (apo_Status policy) \<noteq> hash
          then Inl bad else Inr (canonical, hash)
      | _ \<Rightarrow> Inl bad)"

definition frozen_restore :: "AnonymizationRunSpec \<Rightarrow> string \<Rightarrow> string \<Rightarrow> AnonymizationRunSpec" where
  "frozen_restore spec endpoint region =
     (let rc = rn_Restore (rspec_Source spec)
      in with_restore spec (Objectstore.or_default (rc_EndpointURL rc) endpoint) (Objectstore.or_default (rc_Region rc) region))"

definition restore_storage :: "AnonymizationRunSpec \<Rightarrow> string \<Rightarrow> ObjectStorageSpec" where
  "restore_storage spec bucket =
     (let rc = rn_Restore (rspec_Source spec)
      in \<lparr>os_Bucket = bucket, os_Prefix = [], os_EndpointURL = rc_EndpointURL rc, os_Region = rc_Region rc,
          os_CredentialsSecretRef = Some (rc_CredentialsSecret rc), os_Keys = None, os_PathStyle = None, os_TLS = None\<rparr>)"

text \<open>The data of the snapshot, collected before anything is created.\<close>

definition snapshot_data ::
  "'w run_env \<Rightarrow> 'w run_api \<Rightarrow> AnonymizationRun \<Rightarrow> ('w, (string, string) fmap) ract" where
  "snapshot_data E A run =
     attempt (query (a_get_policy A (run_ns run) (rspec_PolicyRef (run_Spec run)))) (\<lambda>r. case r of
        Inl e \<Rightarrow> if not_found e
          then fail (CInvalid runConditionPolicy ''PolicyNotFound'' ''the referenced Policy does not exist'')
          else fail e
      | Inr policy \<Rightarrow>
     andthen (lift (policy_snapshot E policy)) (\<lambda>(canonical, hash).
     andthen (validateRunInputs E A run) (\<lambda>(frozen, copied).
     andthen (snapshotRunPolicyPayloads E A (run_ns run) (apo_Spec policy)
       (fmap_of_list [(runPolicyFile, canonical), (runPolicyHashKey, hash)] ++\<^sub>f system_entries (sec_Data copied))) (\<lambda>data.
     andthen (resolveRunSource E A run) (\<lambda>(source, reason, endpoint, region).
     let spec = frozen_restore (run_Spec frozen) endpoint region in
     case url_parse (e_klib E) (rs_Destination source) of
       None \<Rightarrow> fail (CText ''panic: invalid memory address'')
     | Some location \<Rightarrow>
     attempt (resolve_storage E A (run_ns run) (restore_storage spec (u_Host location))) (\<lambda>r. case r of
       Inl _ \<Rightarrow> fail (invalid_source ''InvalidDestination'' ''restore credentials or endpoint are invalid'')
     | Inr store \<Rightarrow>
     andthen (lift (e_spec_marshal E (with_restore spec (c_EndpointURL store) (c_Region store)))) (\<lambda>spec_text.
     andthen (lift (e_source_marshal E \<lparr>rss_Source = source, rss_Reason = reason,
       rss_OutputGroup = runOutputGroup (e_klib E) run\<rparr>)) (\<lambda>source_text.
     ret (fmupd runSourceFile source_text (fmupd runSpecFile spec_text data))))))))))"

definition prepareRunSnapshot :: "'w run_env \<Rightarrow> 'w run_api \<Rightarrow> AnonymizationRun \<Rightarrow> ('w, runSnapshot) ract" where
  "prepareRunSnapshot E A run =
     (if \<not> a_has_reader A then fail (CText ''run snapshot requires an uncached APIReader'')
      else attempt (get_secret A (run_ns run) (runChildName (e_klib E) run ''seed'')) (\<lambda>r. case r of
        Inr seed \<Rightarrow>
          andthen (lift (decodeRunSnapshot E run seed)) (\<lambda>sn.
          andthen (ensureRunPolicyConfigMap E A run seed) (\<lambda>_. ret sn))
      | Inl e \<Rightarrow>
          if \<not> not_found e then fail e
          else andthen (snapshot_data E A run) (\<lambda>data.
            andthen (createRunChild E A run (ChSecret (seed_secret (e_klib E) run data))) (\<lambda>_.
            andthen (loadRunSnapshot E A run) (\<lambda>sn.
            andthen (ensureRunPolicyConfigMap E A run (sn_Payload sn)) (\<lambda>_. ret sn))))))"

section \<open>The runner Job\<close>

definition runner_root :: string where
  "runner_root = ''/etc/pxc-anonymizer''"

definition bool_text :: "bool \<Rightarrow> string" where
  "bool_text b = (if b then ''true'' else ''false'')"

definition runner_args :: "'w run_env \<Rightarrow> AnonymizationRun \<Rightarrow> string \<Rightarrow> int \<Rightarrow> int \<Rightarrow> int \<Rightarrow> string list" where
  "runner_args E run cluster attempts workers pageSize =
     (let spec = rspec_Runner (run_Spec run) in
      [runContainerName, ''--policy='' @ runner_root @ ''/policy/policy.json'',
       ''--host='' @ cluster @ ''-pxc.'' @ run_ns run @ ''.svc'', ''--port=3306'', ''--user=root'',
       ''--password-file='' @ runner_root @ ''/creds/root'', ''--seed-file='' @ runner_root @ ''/seed/seed'',
       ''--run-uid='' @ run_uid run, ''--attempt='' @ int_dec attempts,
       ''--workers='' @ int_dec workers, ''--page-size='' @ int_dec pageSize,
       ''--disable-binlog='' @ bool_text (ru_DisableBinlog spec \<noteq> Some False),
       ''--progress-interval=10s'', ''--log-format=json'',
       ''--reference-time='' @ e_rfc3339 E (om_CreationTimestamp (run_Meta run)),
       ''--steps-dir='' @ runner_root @ ''/steps'', ''--constants-dir='' @ runner_root @ ''/constants'',
       ''--tls-mode=disabled'', ''--termination-file=/dev/termination-log''] @
      (if ru_DryRun spec then [''--dry-run''] else []))"

text \<open>The keys of the payload and where the runner finds them; a constant is mounted once.\<close>

definition key_path :: "string \<Rightarrow> string \<Rightarrow> KeyToPath" where
  "key_path k p = \<lparr>kp_Key = k, kp_Path = p\<rparr>"

definition constant_item :: "klib \<Rightarrow> KeyToPath list \<times> string list \<Rightarrow> KeySelector \<Rightarrow> KeyToPath list \<times> string list" where
  "constant_item L acc ref =
     (case acc of (items, seen) \<Rightarrow>
        let key = runConstantKey L ref in
        if key \<in> set seen then (items, seen)
        else (items @ [key_path key (''constants/'' @ sel_Name ref @ ''/'' @ sel_Key ref)], key # seen))"

definition payload_items :: "klib \<Rightarrow> PolicySpec \<Rightarrow> KeyToPath list" where
  "payload_items L policy =
     (let items = [key_path runSeedKey ''seed/seed'', key_path ''system-root'' ''creds/root''] @
            map (\<lambda>step. key_path (''sql-'' @ st_Name step) (''steps/'' @ st_Name step @ ''.sql'')) (ps_Steps policy)
      in sort_by (\<lambda>a b. kp_Path a < kp_Path b) (fst (foldl (constant_item L) (items, []) (constant_refs policy))))"

definition runner_container :: "AnonymizationRun \<Rightarrow> string \<Rightarrow> string list \<Rightarrow> Container" where
  "runner_container run img args =
     \<lparr>ct_Name = runContainerName, ct_Image = img, ct_Command = [''/manager''], ct_Args = args,
      ct_Resources = rp_Resources (ru_PodSpec (rspec_Runner (run_Spec run))),
      ct_TerminationMessagePath = ''/dev/termination-log'', ct_TerminationMessagePolicy = ''File'',
      ct_AllowPrivilegeEscalation = False, ct_ReadOnlyRootFilesystem = True, ct_DropCapabilities = [''ALL''],
      ct_VolumeMounts =
        [\<lparr>vm_Name = runPolicyVolume, vm_MountPath = runner_root @ ''/policy'', vm_ReadOnly = True\<rparr>,
         \<lparr>vm_Name = ''payload'', vm_MountPath = runner_root, vm_ReadOnly = True\<rparr>,
         \<lparr>vm_Name = ''tmp'', vm_MountPath = ''/tmp'', vm_ReadOnly = False\<rparr>]\<rparr>"

definition runner_pod :: "klib \<Rightarrow> AnonymizationRun \<Rightarrow> PolicySpec \<Rightarrow> Container \<Rightarrow> PodSpec" where
  "runner_pod L run policy container =
     (let ps = ru_PodSpec (rspec_Runner (run_Spec run)) in
      \<lparr>pod_AutomountServiceAccountToken = False, pod_RestartPolicy = ''Never'', pod_RunAsNonRoot = True,
       pod_RunAsUser = 65532, pod_RunAsGroup = 65532, pod_FSGroup = 65532, pod_SeccompProfile = ''RuntimeDefault'',
       pod_NodeSelector = rp_NodeSelector ps, pod_Tolerations = rp_Tolerations ps, pod_Affinity = rp_Affinity ps,
       pod_Containers = [container],
       pod_Volumes =
         [(runPolicyVolume, ConfigMapVolume (runChildName L run runPolicyVolume) [key_path runPolicyFile runPolicyFile] 256),
          (''payload'', SecretVolume (runChildName L run ''seed'') (payload_items L policy) 256),
          (''tmp'', EmptyDirVolume)]\<rparr>)"

definition renderRunJob :: "'w run_env \<Rightarrow> AnonymizationRun \<Rightarrow> runSnapshot \<Rightarrow> cerr + Job" where
  "renderRunJob E run snapshot =
     (let L = e_klib E; spec = rspec_Runner (run_Spec run);
          img = rp_Image (ru_PodSpec spec); img = (if img = [] then e_RunnerImage E else img)
      in if img = [] then Inl (CText ''runner image is required'')
         else case (rst_Anonymize (run_Status run), rst_TempCluster (run_Status run)) of
           (Some att, Some tc) \<Rightarrow>
             if om_CreationTimestamp (run_Meta run) = zero_time
             then Inl (CText ''durable runner identity and reference time are required'')
             else
               (let workers = (if ru_Workers spec = 0 then 4 else ru_Workers spec);
                    pageSize = (case ru_PageSize spec of None \<Rightarrow> 5000 | Some n \<Rightarrow> n)
                in if workers < 1 \<or> workers > 32 \<or> pageSize < 1
                   then Inl (CText ''runner workers or page size is invalid'')
                   else
                     (let args = runner_args E run (tcs_Name tc) (as_Attempts att) workers pageSize;
                          deadline = tm_Anonymize (rspec_Timeouts (run_Spec run));
                          deadline = (if deadline \<le> 0 then 21600000000000 else deadline)
                      in Inr \<lparr>job_Meta = empty_meta\<lparr>om_Name := as_JobName att, om_Namespace := run_ns run,
                             om_OwnerReferences := [runOwner L run]\<rparr>,
                           job_Spec = \<lparr>js_BackoffLimit = 0,
                             js_ActiveDeadlineSeconds = max 1 (tdiv deadline 1000000000),
                             js_TTLSecondsAfterFinished = rspec_TTLSecondsAfterFinished (run_Spec run),
                             js_TemplateLabels = fmap_of_list [(LabelRun, LabelValue L (run_name run))],
                             js_Pod = runner_pod L run (sn_Policy snapshot) (runner_container run img args)\<rparr>,
                           job_Conditions = []\<rparr>))
         | _ \<Rightarrow> Inl (CText ''durable runner identity and reference time are required''))"

section \<open>The verdict on a report\<close>

definition report_shape_ok :: "string report \<Rightarrow> bool" where
  "report_shape_ok r \<longleftrightarrow>
     (Report.Result r = ResultOK \<or> Report.Result r = ResultError) \<and>
     \<not> (Report.Result r = ResultOK \<and> rClass r \<noteq> []) \<and> 0 \<le> TablesDone r \<and> TablesDone r \<le> TablesTotal r \<and>
     TablesTotal r \<le> 2147483647 \<and> 0 \<le> RowsDoneR r \<and> 0 \<le> StepsDone r \<and> StepsDone r \<le> 2147483647"

text \<open>The report of a terminated container, where it is one that the runner can have written.\<close>

definition runReport :: "(string \<Rightarrow> string report option) \<Rightarrow> Terminated option \<Rightarrow> string \<Rightarrow> string report option" where
  "runReport um terminated hash =
     (case terminated of
        None \<Rightarrow> None
      | Some t \<Rightarrow>
          if length (te_Message t) > 4096 then None
          else case um (te_Message t) of
            None \<Rightarrow> None
          | Some r \<Rightarrow>
              if \<not> report_shape_ok r then None
              else if rPolicyHash r \<noteq> hash \<or> ExitCode r \<noteq> te_ExitCode t then None
              else if Report.Result r = ResultError \<and> rClass r \<notin> set known_classes then None
              else Some r)"

definition runReportReason :: "string \<Rightarrow> string" where
  "runReportReason c =
     (if c = Policy_class then ''PolicyError''
      else if c = Schema then ''SchemaMismatch''
      else if c = Permission then ''PermissionDenied''
      else if c = Unique then ''UniqueViolation''
      else ''RunnerFailed'')"

end
