(* ===== verification/Run.thy ===== *)
theory Run
  imports Run_Resources
begin

text \<open>
  \<open>internal/controller/anonymizationrun_controller.go\<close> and the cleanup of
  \<open>run_resources.go\<close>: one reconcile of an AnonymizationRun.  Every handler of a phase is a
  computation over the API server; a function that changes the run in memory returns the changed
  run.  Metrics, which the controller records beside the handlers, are left out.
\<close>

definition runPollInterval :: int where "runPollInterval = 10000000000"

definition nanosecond :: int where "nanosecond = 1"

definition minutes :: "int \<Rightarrow> int" where "minutes n = n * 60000000000"

section \<open>Clock, conditions and patches\<close>

definition effective :: "int \<Rightarrow> int \<Rightarrow> int" where
  "effective timeout fallback = (if timeout \<le> 0 then fallback else timeout)"

definition runExpired :: "'w run_api \<Rightarrow> int option \<Rightarrow> int \<Rightarrow> int \<Rightarrow> ('w, bool) ract" where
  "runExpired A start timeout fallback =
     (case start of
        None \<Rightarrow> ret True
      | Some t \<Rightarrow> andthen (runTime A) (\<lambda>now. ret (t + effective timeout fallback \<le> now)))"

definition runDelay :: "'w run_api \<Rightarrow> int option \<Rightarrow> int \<Rightarrow> int \<Rightarrow> ('w, int) ract" where
  "runDelay A start timeout fallback =
     (case start of
        None \<Rightarrow> ret nanosecond
      | Some t \<Rightarrow> andthen (runTime A) (\<lambda>now.
          let remaining = sat64 (t + effective timeout fallback - now)
          in ret (if remaining \<le> 0 then nanosecond else min runPollInterval remaining)))"

definition set_condition_at ::
  "klib \<Rightarrow> int \<Rightarrow> AnonymizationRun \<Rightarrow> string \<Rightarrow> string \<Rightarrow> string \<Rightarrow> string \<Rightarrow> AnonymizationRun" where
  "set_condition_at L now run kind st reason msg =
     run\<lparr>run_Status := (run_Status run)\<lparr>rst_Conditions :=
       Set_condition L (rst_Conditions (run_Status run)) (om_Generation (run_Meta run)) now
         (condition kind st reason msg)\<rparr>\<rparr>"

definition setRunCondition ::
  "'w run_env \<Rightarrow> 'w run_api \<Rightarrow> string \<Rightarrow> string \<Rightarrow> string \<Rightarrow> string \<Rightarrow> AnonymizationRun \<Rightarrow> ('w, AnonymizationRun) ract" where
  "setRunCondition E A kind st reason msg run =
     andthen (runTime A) (\<lambda>now. ret (set_condition_at (e_klib E) now run kind st reason msg))"

definition observed :: "AnonymizationRun \<Rightarrow> AnonymizationRun" where
  "observed run = run\<lparr>run_Status := (run_Status run)\<lparr>rst_ObservedGeneration := om_Generation (run_Meta run)\<rparr>\<rparr>"

text \<open>Nothing is sent when the status did not change; the run in memory is returned too.\<close>

definition patchRun ::
  "'w run_api \<Rightarrow> AnonymizationRun \<Rightarrow> AnonymizationRun \<Rightarrow> int \<Rightarrow> ('w, AnonymizationRun \<times> Result) ract" where
  "patchRun A run base delay =
     (let run = observed run in
      if run_Status run = run_Status base then ret (run, after delay)
      else andthen (request (QPatchStatus base run) (a_patch_status A base run)) (\<lambda>run'.
        ret (run', after delay)))"

definition patched :: "'w run_api \<Rightarrow> AnonymizationRun \<Rightarrow> AnonymizationRun \<Rightarrow> int \<Rightarrow> ('w, Result) ract" where
  "patched A run base delay = andthen (patchRun A run base delay) (\<lambda>(_, result). ret result)"

definition with_status ::
  "(AnonymizationRunStatus \<Rightarrow> AnonymizationRunStatus) \<Rightarrow> AnonymizationRun \<Rightarrow> AnonymizationRun" where
  "with_status f run = run\<lparr>run_Status := f (run_Status run)\<rparr>"

definition markRunFailed ::
  "'w run_env \<Rightarrow> 'w run_api \<Rightarrow> string \<Rightarrow> string \<Rightarrow> string \<Rightarrow> AnonymizationRun \<Rightarrow> ('w, AnonymizationRun) ract" where
  "markRunFailed E A kind reason msg run =
     andthen (runTime A) (\<lambda>now.
       let run = with_status (\<lambda>st. st\<lparr>rst_Phase := RunPhaseFailed,
             rst_CompletedAt := (case rst_CompletedAt st of None \<Rightarrow> Some now | Some t \<Rightarrow> Some t)\<rparr>) run
       in andthen (setRunCondition E A kind ''False'' reason msg run) (\<lambda>run.
          andthen (setRunCondition E A runConditionFailed ''True'' reason msg run) (\<lambda>run.
          setRunCondition E A runConditionComplete ''False'' reason ''the Run failed and cleanup must finish'' run)))"

definition failRun ::
  "'w run_env \<Rightarrow> 'w run_api \<Rightarrow> AnonymizationRun \<Rightarrow> string \<Rightarrow> string \<Rightarrow> string \<Rightarrow> ('w, Result) ract" where
  "failRun E A run kind reason msg =
     andthen (markRunFailed E A kind reason msg run) (\<lambda>failed. patched A failed run nanosecond)"

definition cond_true :: "'w run_env \<Rightarrow> AnonymizationRun \<Rightarrow> string \<Rightarrow> bool" where
  "cond_true E run ty = is_condition_true (e_klib E) (rst_Conditions (run_Status run)) ty"

definition cond_find :: "'w run_env \<Rightarrow> AnonymizationRun \<Rightarrow> string \<Rightarrow> Condition option" where
  "cond_find E run ty = find_condition (e_klib E) (rst_Conditions (run_Status run)) ty"

definition cond_since :: "'w run_env \<Rightarrow> AnonymizationRun \<Rightarrow> string \<Rightarrow> int option" where
  "cond_since E run ty = map_option cond_LastTransitionTime (cond_find E run ty)"

section \<open>Resolving and provisioning\<close>

definition resolveRun :: "'w run_env \<Rightarrow> 'w run_api \<Rightarrow> AnonymizationRun \<Rightarrow> ('w, Result) ract" where
  "resolveRun E A run =
     andthen (runExpired A (rst_StartedAt (run_Status run)) (tm_ClusterReady (rspec_Timeouts (run_Spec run))) (minutes 30)) (\<lambda>late.
     if late then failRun E A run runConditionSource ''Timeout'' ''source and snapshot resolution timed out''
     else attempt (prepareRunSnapshot E A run) (\<lambda>r. case r of
       Inl e \<Rightarrow> (case e of CInvalid cnd reason msg \<Rightarrow> failRun E A run cnd reason msg | _ \<Rightarrow> fail e)
     | Inr sn \<Rightarrow>
         andthen (runTime A) (\<lambda>now.
         let name = runTempName (e_klib E) run;
             run' = with_status (\<lambda>st. st\<lparr>rst_Source := Some (sn_Source sn), rst_PolicyHash := sn_PolicyHash sn,
               rst_TempCluster := Some \<lparr>tcs_Name = name, tcs_UID = [], tcs_SecretName = name @ ''-secrets'',
                 tcs_CreatedAt = Some now, tcs_ReadyAt = None, tcs_DeletedAt = None\<rparr>,
               rst_Phase := RunPhaseProvisioning\<rparr>) run
         in andthen (setRunCondition E A runConditionSource ''True'' (sn_SourceReason sn) ''the restore source is snapshotted'' run') (\<lambda>run'.
            andthen (setRunCondition E A runConditionPolicy ''True'' ''Snapshotted'' ''policy and referenced payloads are immutable'' run') (\<lambda>run'.
            andthen (setRunCondition E A runConditionCluster ''False'' ''Provisioning'' ''the temporary cluster is provisioning'' run') (\<lambda>run'.
            patched A run' run nanosecond))))))"

definition set_cluster_uid :: "string \<Rightarrow> AnonymizationRun \<Rightarrow> AnonymizationRun" where
  "set_cluster_uid uid run = with_status (\<lambda>st. st\<lparr>rst_TempCluster :=
     map_option (\<lambda>tc. tc\<lparr>tcs_UID := uid\<rparr>) (rst_TempCluster st)\<rparr>) run"

definition set_cluster_ready :: "int \<Rightarrow> AnonymizationRun \<Rightarrow> AnonymizationRun" where
  "set_cluster_ready now run = with_status (\<lambda>st. st\<lparr>rst_TempCluster :=
     map_option (\<lambda>tc. tc\<lparr>tcs_ReadyAt := Some now\<rparr>) (rst_TempCluster st), rst_Phase := RunPhaseRestoring\<rparr>) run"

text \<open>What follows once the cluster exists: its identity, then its readiness.\<close>

definition provision_cluster ::
  "'w run_env \<Rightarrow> 'w run_api \<Rightarrow> AnonymizationRun \<Rightarrow> TempClusterStatus \<Rightarrow> Unstructured \<Rightarrow> ('w, Result) ract" where
  "provision_cluster E A run tc cluster =
     andthen (lift (runOwns (e_klib E) run (un_Meta cluster))) (\<lambda>_.
     let uid = om_UID (un_Meta cluster); timeout = tm_ClusterReady (rspec_Timeouts (run_Spec run)) in
     if uid = [] then fail (CText ''temporary cluster must have a persisted UID'')
     else if tcs_UID tc = [] then patched A (set_cluster_uid uid run) run nanosecond
     else if tcs_UID tc \<noteq> uid
     then failRun E A run runConditionCluster ''ClusterError'' ''temporary cluster identity changed''
     else andthen (lift (map_sum CStore id (DecodeCluster (e_cluster_conv E) (Some (un_GVK cluster, un_Tree cluster))))) (\<lambda>view.
       if cst_State (cv_Status view) = ClusterError
       then failRun E A run runConditionCluster ''ClusterError'' ''the temporary cluster reports an error''
       else if \<not> Cluster_Ready view
       then andthen (runDelay A (tcs_CreatedAt tc) timeout (minutes 30)) (\<lambda>d. ret (after d))
       else andthen (runTime A) (\<lambda>now.
         andthen (setRunCondition E A runConditionCluster ''True'' ''Ready'' ''the temporary cluster is ready'' (set_cluster_ready now run)) (\<lambda>run'.
         andthen (setRunCondition E A runConditionRestored ''False'' ''Restoring'' ''the source backup is restoring'' run') (\<lambda>run'.
         patched A run' run nanosecond)))))"

definition provisionRun :: "'w run_env \<Rightarrow> 'w run_api \<Rightarrow> AnonymizationRun \<Rightarrow> runSnapshot \<Rightarrow> ('w, Result) ract" where
  "provisionRun E A run snapshot =
     (case rst_TempCluster (run_Status run) of
        None \<Rightarrow> failRun E A run runConditionCluster ''ClusterError'' ''temporary cluster identity is missing''
      | Some tc \<Rightarrow>
          if tcs_Name tc = [] then failRun E A run runConditionCluster ''ClusterError'' ''temporary cluster identity is missing''
          else andthen (runExpired A (tcs_CreatedAt tc) (tm_ClusterReady (rspec_Timeouts (run_Spec run))) (minutes 30)) (\<lambda>late.
          if late then failRun E A run runConditionCluster ''Timeout'' ''temporary cluster readiness timed out''
          else case RenderSystemUsersSecret (e_klib E) (Some run) (tcs_Name tc) (Some (sn_SystemUsers snapshot)) of
            Inl _ \<Rightarrow> failRun E A run runConditionCluster ''ClusterError'' ''source system-user credentials are invalid''
          | Inr secret \<Rightarrow>
              andthen (createRunChild E A run (ChSecret secret)) (\<lambda>_.
              case RenderTempCluster (e_klib E) (Some run) (tcs_Name tc) of
                Inl _ \<Rightarrow> failRun E A run runConditionCluster ''ClusterError'' ''temporary cluster configuration is invalid''
              | Inr cluster \<Rightarrow>
                  andthen (createRunChild E A run (ChObject cluster)) (\<lambda>_.
                  andthen (query (a_get_object A False ClusterGVK (run_ns run) (tcs_Name tc)))
                    (provision_cluster E A run tc)))))"

section \<open>Restoring\<close>

definition restore_options :: "'w run_env \<Rightarrow> AnonymizationRun \<Rightarrow> TempClusterStatus \<Rightarrow> ResolvedSource \<Rightarrow> string \<Rightarrow> RestoreRenderOptions" where
  "restore_options E run tc source name =
     \<lparr>ro_Namespace = run_ns run, ro_Name = name, ro_ClusterName = tcs_Name tc, ro_Destination = rs_Destination source,
      ro_Credentials = rn_Restore (rspec_Source (run_Spec run)), ro_ContainerOptions = None,
      ro_Owner = runOwner (e_klib E) run\<rparr>"

definition set_restore_name :: "string \<Rightarrow> AnonymizationRun \<Rightarrow> AnonymizationRun" where
  "set_restore_name name run = with_status (\<lambda>st. st\<lparr>rst_RestoreName := name\<rparr>) run"

definition start_restore ::
  "'w run_env \<Rightarrow> 'w run_api \<Rightarrow> AnonymizationRun \<Rightarrow> TempClusterStatus \<Rightarrow> ResolvedSource \<Rightarrow> string \<Rightarrow> ('w, Result) ract" where
  "start_restore E A run tc source name =
     (if rst_RestoreName (run_Status run) \<noteq> []
      then failRun E A run runConditionRestored ''RestoreVanished'' ''the recorded restore disappeared before success''
      else case RenderRestore (e_klib E) (restore_options E run tc source name) of
        Inl _ \<Rightarrow> failRun E A run runConditionRestored ''RestoreFailed'' ''inline restore configuration is invalid''
      | Inr restore \<Rightarrow>
          andthen (patchRun A (set_restore_name name run) run nanosecond) (\<lambda>(run', _).
          andthen (createRunChild E A run' (ChObject restore)) (\<lambda>_. ret (after runPollInterval))))"

definition watch_restore ::
  "'w run_env \<Rightarrow> 'w run_api \<Rightarrow> AnonymizationRun \<Rightarrow> string \<Rightarrow> int option \<Rightarrow> Unstructured \<Rightarrow> ('w, Result) ract" where
  "watch_restore E A run name started restore =
     andthen (lift (runOwns (e_klib E) run (un_Meta restore))) (\<lambda>_.
     if rst_RestoreName (run_Status run) = [] then patched A (set_restore_name name run) run nanosecond
     else andthen (lift (map_sum CStore id (DecodeRestore (e_restore_conv E) (Some (un_GVK restore, un_Tree restore))))) (\<lambda>view.
       if rest_State (rv_Status view) = RestoreFailed
       then failRun E A run runConditionRestored ''RestoreFailed'' ''the PXC restore failed; inspect its status for details''
       else if \<not> Restore_Succeeded view
       then andthen (runDelay A started (tm_Restore (rspec_Timeouts (run_Spec run))) (minutes 180)) (\<lambda>d. ret (after d))
       else andthen (setRunCondition E A runConditionRestored ''True'' ''Succeeded'' ''the PXC restore finished successfully'' run) (\<lambda>run'.
         andthen (setRunCondition E A runConditionAnonymized ''False'' ''Running'' ''the anonymization runner is starting''
           (with_status (\<lambda>st. st\<lparr>rst_Phase := RunPhaseAnonymizing\<rparr>) run')) (\<lambda>run'.
         patched A run' run nanosecond))))"

definition restore_in ::
  "'w run_env \<Rightarrow> 'w run_api \<Rightarrow> AnonymizationRun \<Rightarrow> TempClusterStatus \<Rightarrow> ResolvedSource \<Rightarrow> int option \<Rightarrow> ('w, Result) ract" where
  "restore_in E A run tc source started =
     (let name = (if rst_RestoreName (run_Status run) \<noteq> [] then Inr (rst_RestoreName (run_Status run))
            else RestoreName (e_klib E) (tcs_Name tc @ ''-restore'') (tcs_Name tc))
      in case name of
           Inl _ \<Rightarrow> failRun E A run runConditionRestored ''RestoreFailed'' ''restore name cannot fit the Percona Job labels''
         | Inr name \<Rightarrow>
             attempt (query (a_get_object A True RestoreGVK (run_ns run) name)) (\<lambda>r. case r of
               Inl e \<Rightarrow> if not_found e then start_restore E A run tc source name else fail e
             | Inr restore \<Rightarrow> watch_restore E A run name started restore))"

definition restoreRun :: "'w run_env \<Rightarrow> 'w run_api \<Rightarrow> AnonymizationRun \<Rightarrow> ('w, Result) ract" where
  "restoreRun E A run =
     (case (rst_Source (run_Status run), rst_TempCluster (run_Status run)) of
        (Some source, Some tc) \<Rightarrow>
          (let started = cond_since E run runConditionRestored in
           andthen (runExpired A started (tm_Restore (rspec_Timeouts (run_Spec run))) (minutes 180)) (\<lambda>late.
           if late then failRun E A run runConditionRestored ''Timeout'' ''restore timed out; cleanup will remove the temporary cluster''
           else attempt (query (a_get_object A False ClusterGVK (run_ns run) (tcs_Name tc))) (\<lambda>r. case r of
             Inl e \<Rightarrow> if not_found e
               then failRun E A run runConditionCluster ''ClusterError'' ''temporary cluster disappeared'' else fail e
           | Inr cluster \<Rightarrow>
               andthen (lift (runOwns (e_klib E) run (un_Meta cluster))) (\<lambda>_.
               if om_UID (un_Meta cluster) \<noteq> tcs_UID tc \<or> deleting (un_Meta cluster)
               then failRun E A run runConditionCluster ''ClusterError'' ''temporary cluster identity changed or is deleting''
               else restore_in E A run tc source started))))
      | _ \<Rightarrow> failRun E A run runConditionRestored ''RestoreFailed'' ''durable restore inputs are missing'')"

section \<open>Anonymizing\<close>

definition with_anonymize :: "(AnonymizeStatus \<Rightarrow> AnonymizeStatus) \<Rightarrow> AnonymizationRun \<Rightarrow> AnonymizationRun" where
  "with_anonymize f run = with_status (\<lambda>st. st\<lparr>rst_Anonymize := map_option f (rst_Anonymize st)\<rparr>) run"

definition run_progress :: "AnonymizationRun \<Rightarrow> AnonymizeProgress option" where
  "run_progress run = (case rst_Anonymize (run_Status run) of None \<Rightarrow> None | Some a \<Rightarrow> as_Progress a)"

definition no_progress :: AnonymizeProgress where
  "no_progress = \<lparr>ap_TablesTotal = 0, ap_TablesDone = 0, ap_RowsTotal = 0, ap_RowsDone = 0, ap_CurrentTable = [],
     ap_StepsDone = 0, ap_StepsTotal = 0\<rparr>"

text \<open>One line of the log: the progress it reports and the outcomes collected so far.\<close>

definition sample_line ::
  "(string \<Rightarrow> LogEntry option) \<Rightarrow> AnonymizeProgress option \<times> string list \<Rightarrow> string \<Rightarrow> AnonymizeProgress option \<times> string list" where
  "sample_line dec acc line =
     (case (dec line, acc) of
        (None, _) \<Rightarrow> acc
      | (Some e, (p, outcomes)) \<Rightarrow>
          ((if le_Msg e = ''progress'' \<and> 0 \<le> le_TablesDone e \<and> le_TablesDone e \<le> le_TablesTotal e \<and>
               0 \<le> le_RowsDone e \<and> 0 \<le> le_StepsDone e
            then Some (no_progress\<lparr>ap_TablesDone := le_TablesDone e, ap_TablesTotal := le_TablesTotal e,
              ap_RowsDone := le_RowsDone e, ap_StepsDone := le_StepsDone e,
              ap_CurrentTable := le_DB e @ ''.'' @ le_Table e\<rparr>)
            else p),
           (if (le_Msg e = ''ok'' \<or> le_Msg e = ''error'') \<and> (le_Step e = ''pre'' \<or> le_Step e = ''post'') \<and>
               length outcomes < 8
            then outcomes @ [''runner '' @ le_Step e @ '' step reported '' @ le_Msg e] else outcomes)))"

definition log_lines :: "string \<Rightarrow> string list" where
  "log_lines data = (let lines = split_on (CHR 0x0A) data in drop (length lines - 200) lines)"

definition progress_text :: "AnonymizeProgress \<Rightarrow> string" where
  "progress_text p = ''tables='' @ int_dec (ap_TablesDone p) @ ''/'' @ int_dec (ap_TablesTotal p) @
     '' rows='' @ int_dec (ap_RowsDone p) @ '' steps='' @ int_dec (ap_StepsDone p)"

definition sampleRunProgress ::
  "'w run_env \<Rightarrow> AnonymizationRun \<Rightarrow> Pod \<Rightarrow> ('w, AnonymizationRun) ract" where
  "sampleRunProgress E run pod =
     (case e_podLogs E of
        None \<Rightarrow> ret run
      | Some logs \<Rightarrow>
          attempt (query (logs (om_Namespace (pd_Meta pod)) (om_Name (pd_Meta pod)))) (\<lambda>r. case r of
            Inl _ \<Rightarrow> ret run
          | Inr data \<Rightarrow>
              if length data > 131072 then ret run
              else case foldl (sample_line (e_log_entry E)) (run_progress run, []) (log_lines data) of
                (cur, outcomes) \<Rightarrow>
                  (let run' = with_anonymize (\<lambda>a. a\<lparr>as_Progress := cur\<rparr>) run;
                       stale = (case (cur, run_progress run) of
                         (None, _) \<Rightarrow> True
                       | (Some c, Some p) \<Rightarrow> ap_StepsDone c \<le> ap_StepsDone p \<and> ap_RowsDone c \<le> ap_RowsDone p
                       | (Some c, None) \<Rightarrow> False)
                   in andthen (foreach (event E ''StepOutcome'') outcomes) (\<lambda>_.
                      andthen (if stale then ret () else event E ''Progress'' (progress_text (the cur))) (\<lambda>_.
                      ret run')))))"

text \<open>The terminations of the runner container in the statuses of one pod; \<open>None\<close> is a second one.\<close>

fun scan_statuses :: "Terminated option \<Rightarrow> (string \<times> Terminated option) list \<Rightarrow> Terminated option option" where
  "scan_statuses found [] = Some found"
| "scan_statuses found ((name, Some t) # sts) =
     (if name = runContainerName
      then (if found \<noteq> None then None else scan_statuses (Some t) sts)
      else scan_statuses found sts)"
| "scan_statuses found ((name, None) # sts) = scan_statuses found sts"

definition pod_of_job :: "klib \<Rightarrow> Job \<Rightarrow> Pod \<Rightarrow> bool" where
  "pod_of_job L job pod =
     (case controller_of L (pd_Meta pod) of
        None \<Rightarrow> False
      | Some o' \<Rightarrow> or_UID o' = om_UID (job_Meta job) \<and> or_Kind o' = ''Job'' \<and> or_Name o' = om_Name (job_Meta job))"

fun scan_pods ::
  "'w run_env \<Rightarrow> Job \<Rightarrow> AnonymizationRun \<Rightarrow> Terminated option \<Rightarrow> Pod list \<Rightarrow>
     ('w, AnonymizationRun \<times> Terminated option option) ract" where
  "scan_pods E job run found [] = ret (run, Some found)"
| "scan_pods E job run found (pod # pods) =
     (if \<not> pod_of_job (e_klib E) job pod then scan_pods E job run found pods
      else andthen (sampleRunProgress E run pod) (\<lambda>run'.
        case scan_statuses found (pd_ContainerStatuses pod) of
          None \<Rightarrow> ret (run', None)
        | Some found' \<Rightarrow> scan_pods E job run' found' pods))"

definition transient_result :: "string \<Rightarrow> AnonymizeResult" where
  "transient_result msg = \<lparr>ar_Class = Transient, ar_Message = msg\<rparr>"

definition settled_transient :: "AnonymizeStatus \<Rightarrow> bool" where
  "settled_transient a \<longleftrightarrow> as_CompletedAt a \<noteq> None \<and>
     (case as_LastResult a of None \<Rightarrow> False | Some r \<Rightarrow> ar_Class r = Transient)"

definition retryRunAttempt ::
  "'w run_env \<Rightarrow> 'w run_api \<Rightarrow> AnonymizationRun \<Rightarrow> AnonymizationRun \<Rightarrow> string \<Rightarrow> ('w, Result) ract" where
  "retryRunAttempt E A run base msg =
     (case (rst_Anonymize (run_Status run), rst_Anonymize (run_Status base)) of
        (Some att, Some batt) \<Rightarrow>
          if as_Attempts att > rspec_BackoffLimit (run_Spec run)
          then andthen (markRunFailed E A runConditionAnonymized ''RetryBudgetExhausted'' msg run) (\<lambda>run'.
            patched A run' base nanosecond)
          else if \<not> settled_transient batt
          then andthen (runTime A) (\<lambda>now.
            patched A (with_anonymize (\<lambda>a. a\<lparr>as_CompletedAt := Some now,
              as_LastResult := Some (transient_result msg)\<rparr>) run) base nanosecond)
          else andthen (deleteRunOwned E A run KindJob (as_JobName att)) (\<lambda>gone.
            if \<not> gone then ret (after runPollInterval)
            else patched A (with_anonymize (\<lambda>a. a\<lparr>as_JobName := [],
              as_LastResult := Some (transient_result msg)\<rparr>) run) base nanosecond)
      | _ \<Rightarrow> fail (CText ''panic: invalid memory address''))"

definition record_result :: "int \<Rightarrow> string report \<Rightarrow> AnonymizationRun \<Rightarrow> AnonymizationRun" where
  "record_result now r run = with_anonymize (\<lambda>a. a\<lparr>as_CompletedAt := Some now,
     as_LastResult := Some \<lparr>ar_Class = rClass r, ar_Message = ''runner reported '' @ Report.Result r\<rparr>,
     as_Progress := Some (no_progress\<lparr>ap_TablesTotal := wrap32 (TablesTotal r), ap_TablesDone := wrap32 (TablesDone r),
       ap_RowsDone := RowsDoneR r, ap_StepsDone := wrap32 (StepsDone r)\<rparr>)\<rparr>) run"

definition finishRunAttempt ::
  "'w run_env \<Rightarrow> 'w run_api \<Rightarrow> AnonymizationRun \<Rightarrow> AnonymizationRun \<Rightarrow> Terminated \<Rightarrow> ('w, Result) ract" where
  "finishRunAttempt E A run base t =
     (case runReport (e_report E) (Some t) (rst_PolicyHash (run_Status run)) of
        None \<Rightarrow> failRun E A run runConditionAnonymized ''RunnerFailed'' ''runner termination JSON or exit code is invalid; replay is unsafe''
      | Some r \<Rightarrow>
          andthen (runTime A) (\<lambda>now.
          let run = record_result now r run in
          if Report.Result r = ResultError
          then (if rClass r = Transient
            then retryRunAttempt E A run base ''the runner reported a transient failure''
            else andthen (markRunFailed E A runConditionAnonymized (runReportReason (rClass r))
                (''the runner reported an absorbing '' @ rClass r @ '' failure'') run) (\<lambda>run.
              patched A run base nanosecond))
          else
            andthen (setRunCondition E A runConditionBackedUp ''False'' ''Running'' ''the anonymized backup is starting''
              (with_status (\<lambda>st. st\<lparr>rst_Phase := RunPhaseBackingUp\<rparr>) run)) (\<lambda>run.
            let dry = ru_DryRun (rspec_Runner (run_Spec run)) in
            andthen (if dry
                then setRunCondition E A runConditionPublished ''True'' ''Skipped'' ''dry-run skips backup and publication''
                  (with_status (\<lambda>st. st\<lparr>rst_Phase := RunPhaseCleaningUp\<rparr>) run)
                else ret run) (\<lambda>run.
            andthen (setRunCondition E A runConditionAnonymized ''True'' (if dry then ''DryRun'' else ''Succeeded'')
              ''the runner completed successfully'' run) (\<lambda>run.
            patched A run base nanosecond)))))"

definition start_attempt :: "'w run_env \<Rightarrow> 'w run_api \<Rightarrow> AnonymizationRun \<Rightarrow> runSnapshot \<Rightarrow> ('w, Result) ract" where
  "start_attempt E A run snapshot =
     (let att = (case rst_Anonymize (run_Status run) of None \<Rightarrow> 1 | Some a \<Rightarrow> wrap32 (as_Attempts a + 1)) in
      andthen (runTime A) (\<lambda>now.
      let run' = with_status (\<lambda>st. st\<lparr>rst_Anonymize := Some \<lparr>as_JobName = runChildName (e_klib E) run (''anonymize-'' @ int_dec att),
            as_Attempts = att, as_StartedAt = Some now, as_CompletedAt = None, as_Progress = None, as_LastResult = None\<rparr>\<rparr>) run
      in andthen (patchRun A run' run nanosecond) (\<lambda>(run, _).
         case renderRunJob E run snapshot of
           Inl _ \<Rightarrow> failRun E A run runConditionAnonymized ''PolicyError'' ''runner image or configuration is invalid''
         | Inr job \<Rightarrow> andthen (createRunChild E A run (ChJob job)) (\<lambda>_. ret (after runPollInterval)))))"

definition job_ended :: "Job \<Rightarrow> bool" where
  "job_ended job = list_ex (\<lambda>(ty, st). st = ''True'' \<and> (ty = ''Failed'' \<or> ty = ''Complete'')) (job_Conditions job)"

definition watch_attempt ::
  "'w run_env \<Rightarrow> 'w run_api \<Rightarrow> AnonymizationRun \<Rightarrow> AnonymizeStatus \<Rightarrow> Job \<Rightarrow> ('w, Result) ract" where
  "watch_attempt E A run att job =
     andthen (lift (runOwns (e_klib E) run (job_Meta job))) (\<lambda>_.
     andthen (query (a_list_pods A (run_ns run) (om_Name (job_Meta job)))) (\<lambda>pods.
     andthen (scan_pods E job run None pods) (\<lambda>(run', found).
       case found of
         None \<Rightarrow> failRun E A run' runConditionAnonymized ''RunnerFailed'' ''multiple runner terminations are ambiguous''
       | Some (Some t) \<Rightarrow> finishRunAttempt E A run' run t
       | Some None \<Rightarrow>
           if job_ended job
           then failRun E A run' runConditionAnonymized ''RunnerFailed'' ''the Job ended without a valid runner report; replay is unsafe''
           else andthen (runDelay A (as_StartedAt att) (tm_Anonymize (rspec_Timeouts (run_Spec run))) (minutes 360)) (\<lambda>d.
             patched A run' run d))))"

definition anonymizeRun :: "'w run_env \<Rightarrow> 'w run_api \<Rightarrow> AnonymizationRun \<Rightarrow> runSnapshot \<Rightarrow> ('w, Result) ract" where
  "anonymizeRun E A run snapshot =
     (case rst_Anonymize (run_Status run) of
        None \<Rightarrow> start_attempt E A run snapshot
      | Some att \<Rightarrow>
          if as_JobName att = [] then start_attempt E A run snapshot
          else if settled_transient att
          then retryRunAttempt E A run run (case as_LastResult att of None \<Rightarrow> [] | Some r \<Rightarrow> ar_Message r)
          else andthen (runExpired A (as_StartedAt att) (tm_Anonymize (rspec_Timeouts (run_Spec run))) (minutes 360)) (\<lambda>late.
            if late then failRun E A run runConditionAnonymized ''Timeout'' ''the anonymization attempt timed out''
            else case renderRunJob E run snapshot of
              Inl _ \<Rightarrow> failRun E A run runConditionAnonymized ''PolicyError'' ''runner image or configuration is invalid''
            | Inr desired \<Rightarrow>
                attempt (query (a_get_job A True (run_ns run) (om_Name (job_Meta desired)))) (\<lambda>r. case r of
                  Inl e \<Rightarrow> if not_found e
                    then failRun E A run runConditionAnonymized ''RunnerFailed'' ''the recorded runner Job vanished; replay is unsafe''
                    else fail e
                | Inr job \<Rightarrow> watch_attempt E A run att job)))"

section \<open>Backing up and publishing\<close>

definition label_of :: "ObjectMeta \<Rightarrow> string \<Rightarrow> string" where
  "label_of om k = (case fmlookup (om_Labels om) k of None \<Rightarrow> [] | Some v \<Rightarrow> v)"

definition runOutputIdentity :: "klib \<Rightarrow> AnonymizationRun \<Rightarrow> ObjectMeta \<Rightarrow> cerr + unit" where
  "runOutputIdentity L run om =
     guardr (om_OwnerReferences om = [] \<and> annotation om runUIDLabel = run_uid run \<and>
         label_of om LabelRun = LabelValue L (run_name run) \<and>
         label_of om LabelOutputGroup = runOutputGroup L run \<and>
         label_of om LabelOutput = runOutputStorage \<and> \<not> deleting om)
       (CText ''output backup identity is foreign or deleting'')"

definition decode_backup :: "'w run_env \<Rightarrow> Unstructured \<Rightarrow> cerr + BackupView" where
  "decode_backup E u = map_sum CStore id (DecodeBackup (e_backup_conv E) (Some (un_GVK u, un_Tree u)))"

definition watch_backup ::
  "'w run_env \<Rightarrow> 'w run_api \<Rightarrow> AnonymizationRun \<Rightarrow> Unstructured \<Rightarrow> ('w, Result) ract" where
  "watch_backup E A run backup =
     andthen (lift (runOutputIdentity (e_klib E) run (un_Meta backup))) (\<lambda>_.
     andthen (lift (decode_backup E backup)) (\<lambda>view.
     if bst_State (bv_Status view) = BackupFailed
     then (if str_contains (to_lower (e_lib E) (bst_Error (bv_Status view))) ''deadline''
       then failRun E A run runConditionBackedUp ''BackupDeadlineExceeded'' ''the output backup deadline was exceeded; increase timeouts.backup''
       else failRun E A run runConditionBackedUp ''BackupFailed'' ''the output backup failed'')
     else if \<not> Backup_Succeeded view \<or> completed_at view = zero_time then ret (after runPollInterval)
     else if \<not> is_ok (Validate_document (e_klib E) (identity_document (om_Name (bv_Meta view)) (bst_Destination (bv_Status view))))
     then failRun E A run runConditionBackedUp ''BackupFailed'' ''successful backup lacks a valid destination''
     else
       (let run' = with_status (\<lambda>st. st\<lparr>rst_Output := map_option (\<lambda>ob. ob\<lparr>pb_Destination := bst_Destination (bv_Status view),
               pb_CompletedAt := bst_CompletedAt (bv_Status view)\<rparr>) (rst_Output st),
             rst_Phase := RunPhasePublishing\<rparr>) run
        in andthen (setRunCondition E A runConditionBackedUp ''True'' ''Succeeded'' ''the output backup succeeded'' run') (\<lambda>run'.
           andthen (setRunCondition E A runConditionPublished ''False'' ''UploadFailed'' ''the output pointer is pending publication'' run') (\<lambda>run'.
           patched A run' run nanosecond)))))"

definition annotated :: "AnonymizationRun \<Rightarrow> Rendered \<Rightarrow> Rendered" where
  "annotated run r = r\<lparr>re_Meta := (re_Meta r)\<lparr>om_Annotations := fmap_of_list [(runUIDLabel, run_uid run)]\<rparr>\<rparr>"

definition backupRun :: "'w run_env \<Rightarrow> 'w run_api \<Rightarrow> AnonymizationRun \<Rightarrow> ('w, Result) ract" where
  "backupRun E A run =
     (case rst_TempCluster (run_Status run) of
        None \<Rightarrow> failRun E A run runConditionBackedUp ''BackupFailed'' ''temporary cluster identity is missing''
      | Some tc \<Rightarrow>
          (case rst_Output (run_Status run) of
             None \<Rightarrow>
               (let prefix = out_BackupNamePrefix (rspec_Output (run_Spec run));
                    prefix = (if prefix = [] then tcs_Name tc @ ''-anonymized'' else prefix)
                in andthen (runTime A) (\<lambda>now.
                   patched A (with_status (\<lambda>st. st\<lparr>rst_Output := Some \<lparr>pb_BackupName = prefix @ ''-'' @ e_minute_layout E now,
                     pb_Destination = [], pb_StorageName = runOutputStorage, pb_CompletedAt = None, pb_PublishedAt = None,
                     pb_ETag = [], pb_SchemaVersion = 0\<rparr>\<rparr>) run) run nanosecond))
           | Some ob \<Rightarrow>
               andthen (runExpired A (cond_since E run runConditionBackedUp) (tm_Backup (rspec_Timeouts (run_Spec run))) (minutes 180)) (\<lambda>late.
               if late then failRun E A run runConditionBackedUp ''Timeout'' ''the output backup timed out''
               else case RenderOutputBackup (e_klib E) (Some run) (tcs_Name tc) (pb_BackupName ob) (runOutputGroup (e_klib E) run) of
                 Inl _ \<Rightarrow> failRun E A run runConditionBackedUp ''BackupFailed'' ''output backup configuration is invalid''
               | Inr rendered \<Rightarrow>
                   (let desired = annotated run rendered in
                    attempt (query (a_get_object A False BackupGVK (run_ns run) (pb_BackupName ob))) (\<lambda>r. case r of
                      Inl e \<Rightarrow>
                        if not_found e
                        then attempt (request (QCreate (ChObject desired)) (a_create A (ChObject desired))) (\<lambda>r. case r of
                          Inl e \<Rightarrow> if e \<noteq> CKube KAlreadyExists then fail e else ret (after runPollInterval)
                        | Inr _ \<Rightarrow> ret (after runPollInterval))
                        else fail e
                    | Inr backup \<Rightarrow> watch_backup E A run backup)))))"

definition output_document ::
  "'w run_env \<Rightarrow> AnonymizationRun \<Rightarrow> TempClusterStatus \<Rightarrow> PublishedBackup \<Rightarrow> PointerTarget \<Rightarrow> BackupView \<Rightarrow> int \<Rightarrow> Document" where
  "output_document E run tc ob target view now =
     \<lparr>d_Name = om_Name (bv_Meta view), d_Destination = bst_Destination (bv_Status view), d_SchemaVersion = SchemaVersion,
      d_PublishedAt = Some now,
      d_PublishedBy = Some \<lparr>pu_Kind = anonymizationRunKind, pu_Namespace = run_ns run, pu_Name = run_name run, pu_UID = run_uid run\<rparr>,
      d_SourceCluster = Some \<lparr>sc_Name = tcs_Name tc, sc_Namespace = run_ns run,
        sc_CRVersion = tc_CRVersion (rspec_TempCluster (run_Spec run))\<rparr>,
      d_Backup = Some \<lparr>bk_StorageName = pb_StorageName ob, bk_CompletedAt = bst_CompletedAt (bv_Status view), bk_State = BackupSucceeded\<rparr>,
      d_S3 = map_option (\<lambda>s. \<lparr>s3_Bucket = b3_Bucket s, s3_EndpointURL = b3_EndpointURL s, s3_Region = b3_Region s\<rparr>) (bst_S3 (bv_Status view)),
      d_Anonymized = Some \<lparr>an_Run = run_name run, an_Policy = rspec_PolicyRef (run_Spec run), an_PolicyHash = rst_PolicyHash (run_Status run)\<rparr>,
      d_PublicURL = pt_PublicURL target\<rparr>"

definition put_pointer ::
  "'w run_env \<Rightarrow> 'w run_api \<Rightarrow> string \<Rightarrow> PointerTarget \<Rightarrow> Document \<Rightarrow> ('w, string) ract" where
  "put_pointer E A ns target doc =
     (case e_putPointer E of
        Some f \<Rightarrow> request (QPutPointer target doc) (f ns target doc)
      | None \<Rightarrow>
          andthen (resolve_storage E A ns (pt_ObjectStorage target)) (\<lambda>store.
          request (QPutPointer target doc) (\<lambda>w. map_prod (map_sum CStore id) id
            (PutJSON (e_s3 E) store (pt_Key target) (MarshalJSON (e_klib E) (e_docwire E) doc) (Some (d_Name doc)) w))))"

definition publish_backup ::
  "'w run_env \<Rightarrow> 'w run_api \<Rightarrow> AnonymizationRun \<Rightarrow> PublishedBackup \<Rightarrow> PointerTarget \<Rightarrow> ('w, Result) ract" where
  "publish_backup E A run ob target =
     andthen (query (a_get_object A False BackupGVK (run_ns run) (pb_BackupName ob))) (\<lambda>backup.
     andthen (lift (runOutputIdentity (e_klib E) run (un_Meta backup))) (\<lambda>_.
     andthen (lift (decode_backup E backup)) (\<lambda>view.
     if \<not> Backup_Succeeded view \<or> bst_Destination (bv_Status view) \<noteq> pb_Destination ob
     then failRun E A run runConditionPublished ''UploadFailed'' ''the output backup no longer matches the recorded success''
     else andthen (runTime A) (\<lambda>now.
       case rst_TempCluster (run_Status run) of
         None \<Rightarrow> fail (CText ''panic: invalid memory address'')
       | Some tc \<Rightarrow>
           attempt (put_pointer E A (run_ns run) target (output_document E run tc ob target view now)) (\<lambda>r. case r of
             Inl _ \<Rightarrow>
               andthen (setRunCondition E A runConditionPublished ''False'' ''UploadFailed''
                 ''output pointer upload failed; the previous pointer is preserved'' run) (\<lambda>run'.
               patched A run' run runPollInterval)
           | Inr etag \<Rightarrow>
               (let run' = with_status (\<lambda>st. st\<lparr>rst_Output := map_option (\<lambda>ob. ob\<lparr>pb_PublishedAt := Some now, pb_ETag := etag,
                       pb_SchemaVersion := wrap32 SchemaVersion\<rparr>) (rst_Output st),
                     rst_Phase := RunPhasePruning\<rparr>) run
                in andthen (setRunCondition E A runConditionPublished ''True'' ''Uploaded'' ''the output pointer was uploaded'' run') (\<lambda>run'.
                   patched A run' run nanosecond)))))))"

definition publishRun :: "'w run_env \<Rightarrow> 'w run_api \<Rightarrow> AnonymizationRun \<Rightarrow> ('w, Result) ract" where
  "publishRun E A run =
     (case rst_Output (run_Status run) of
        None \<Rightarrow> failRun E A run runConditionPublished ''UploadFailed'' ''the successful output backup is missing''
      | Some ob \<Rightarrow>
          if pb_Destination ob = []
          then failRun E A run runConditionPublished ''UploadFailed'' ''the successful output backup is missing''
          else case out_Pointer (rspec_Output (run_Spec run)) of
            None \<Rightarrow>
              andthen (setRunCondition E A runConditionPublished ''True'' ''Skipped'' ''pointer publication is disabled'' run) (\<lambda>run'.
              patched A (with_status (\<lambda>st. st\<lparr>rst_Phase := RunPhasePruning\<rparr>) run') run nanosecond)
          | Some target \<Rightarrow>
              andthen (runExpired A (cond_since E run runConditionPublished) (tm_Publish (rspec_Timeouts (run_Spec run))) (minutes 10)) (\<lambda>late.
              if late then failRun E A run runConditionPublished ''UploadFailed'' ''output pointer publication timed out''
              else publish_backup E A run ob target))"

section \<open>Pruning\<close>

text \<open>The comparison of the sort: newest first, by completion where both have completed.\<close>

definition prune_before :: "BackupView \<Rightarrow> BackupView \<Rightarrow> bool" where
  "prune_before a b =
     (case (bst_CompletedAt (bv_Status a), bst_CompletedAt (bv_Status b)) of
        (Some s, Some t) \<Rightarrow>
          if s \<noteq> t then t < s
          else if om_CreationTimestamp (bv_Meta a) \<noteq> om_CreationTimestamp (bv_Meta b)
          then om_CreationTimestamp (bv_Meta b) < om_CreationTimestamp (bv_Meta a)
          else om_Name (bv_Meta a) < om_Name (bv_Meta b)
      | _ \<Rightarrow>
          if om_CreationTimestamp (bv_Meta a) \<noteq> om_CreationTimestamp (bv_Meta b)
          then om_CreationTimestamp (bv_Meta b) < om_CreationTimestamp (bv_Meta a)
          else om_Name (bv_Meta a) < om_Name (bv_Meta b))"

definition view_name :: "BackupView \<Rightarrow> string" where
  "view_name v = om_Name (bv_Meta v)"

text \<open>The views of the backups without an owner, with the objects they were decoded from.\<close>

definition prune_views :: "'w run_env \<Rightarrow> Unstructured list \<Rightarrow> cerr + (BackupView \<times> Unstructured) list" where
  "prune_views E items =
     bindr (mapr (\<lambda>u. bindr (decode_backup E u) (\<lambda>v. Inr (v, u))) items) (\<lambda>vs.
     Inr (filter (\<lambda>(v, u). om_OwnerReferences (un_Meta u) = []) vs))"

definition settled_runs :: "klib \<Rightarrow> AnonymizationRun list \<Rightarrow> string \<Rightarrow> bool" where
  "settled_runs L owners uid =
     (case find (\<lambda>r. run_uid r = uid) (rev owners) of None \<Rightarrow> False | Some r \<Rightarrow> scheduleRunSettled L r)"

definition keep_count :: "AnonymizationRun \<Rightarrow> int" where
  "keep_count run = (let k = re_KeepSucceeded (out_Retention (rspec_Output (run_Spec run))) in if k \<le> 0 then 2 else k)"

definition failed_after :: "AnonymizationRun \<Rightarrow> int" where
  "failed_after run =
     (let d = re_DeleteFailedAfter (out_Retention (rspec_Output (run_Spec run))) in if d \<le> 0 then minutes 1440 else d)"

definition pruned_names :: "string \<Rightarrow> AnonymizationRun \<Rightarrow> AnonymizationRun" where
  "pruned_names name run = with_status (\<lambda>st. if name \<in> set (rst_PrunedBackups st) then st
     else st\<lparr>rst_PrunedBackups := rst_PrunedBackups st @ [name]\<rparr>) run"

text \<open>Whether the retention asks for the removal of a backup; the clock is only read for a
  failed one.\<close>

definition prune_wanted :: "'w run_api \<Rightarrow> AnonymizationRun \<Rightarrow> int \<Rightarrow> BackupView \<Rightarrow> ('w, bool) ract" where
  "prune_wanted A run succeeded view =
     (if bst_State (bv_Status view) = BackupFailed \<and> om_CreationTimestamp (bv_Meta view) \<noteq> zero_time
      then andthen (runTime A) (\<lambda>now. ret (om_CreationTimestamp (bv_Meta view) + failed_after run \<le> now))
      else ret (Backup_Succeeded view \<and> succeeded > keep_count run))"

fun prune_loop ::
  "'w run_env \<Rightarrow> 'w run_api \<Rightarrow> AnonymizationRun list \<Rightarrow> string \<Rightarrow> (string, Unstructured) fmap \<Rightarrow> int \<Rightarrow> AnonymizationRun \<Rightarrow>
     BackupView list \<Rightarrow> ('w, AnonymizationRun) ract" where
  "prune_loop E A owners own objects succeeded run [] = ret run"
| "prune_loop E A owners own objects succeeded run (view # views) =
     (let succeeded = (if Backup_Succeeded view then succeeded + 1 else succeeded) in
      andthen (prune_wanted A run succeeded view) (\<lambda>remove.
      case fmlookup objects (view_name view) of
        None \<Rightarrow> prune_loop E A owners own objects succeeded run views
      | Some u \<Rightarrow>
          if \<not> remove \<or> view_name view = own \<or> \<not> settled_runs (e_klib E) owners (annotation (un_Meta u) runUIDLabel)
          then prune_loop E A owners own objects succeeded run views
          else andthen (deleteRunObject A (KindObject BackupGVK) (un_Meta u)) (\<lambda>_.
            prune_loop E A owners own objects succeeded (pruned_names (view_name view) run) views)))"

definition prune_labels :: "'w run_env \<Rightarrow> AnonymizationRun \<Rightarrow> (string, string) fmap" where
  "prune_labels E run =
     fmap_of_list [(LabelOutputGroup, runOutputGroup (e_klib E) run), (LabelOutput, runOutputStorage)]"

definition pruneRun :: "'w run_env \<Rightarrow> 'w run_api \<Rightarrow> AnonymizationRun \<Rightarrow> ('w, Result) ract" where
  "pruneRun E A run =
     (case rst_Output (run_Status run) of
        None \<Rightarrow> fail (CText ''publication must precede retention'')
      | Some ob \<Rightarrow>
          if \<not> cond_true E run runConditionPublished then fail (CText ''publication must precede retention'')
          else andthen (query (a_list_backups A (run_ns run) (prune_labels E run))) (\<lambda>items.
            andthen (query (a_list_runs A (run_ns run))) (\<lambda>owners.
            andthen (lift (prune_views E items)) (\<lambda>vs.
            let objects = fmap_of_list (rev (map (\<lambda>(v, u). (view_name v, u)) vs)) in
            andthen (prune_loop E A owners (pb_BackupName ob) objects 0 run (sort_by prune_before (map fst vs))) (\<lambda>run'.
            patched A (with_status (\<lambda>st. st\<lparr>rst_Phase := RunPhaseCleaningUp\<rparr>) run') run nanosecond)))))"

section \<open>Cleaning up\<close>

definition generated_secrets :: "string \<Rightarrow> string list" where
  "generated_secrets name = [''internal-'' @ name, name @ ''-ssl'', name @ ''-ssl-internal'', name @ ''-ca-cert'']"

definition cluster_generated :: "klib \<Rightarrow> TempClusterStatus \<Rightarrow> ObjectMeta \<Rightarrow> bool" where
  "cluster_generated L tc om =
     (case controller_of L om of
        None \<Rightarrow> False
      | Some o' \<Rightarrow> or_UID o' = tcs_UID tc \<and> or_Kind o' = snd (snd ClusterGVK) \<and> or_Name o' = tcs_Name tc)"

definition delete_generated ::
  "'w run_env \<Rightarrow> 'w run_api \<Rightarrow> string \<Rightarrow> TempClusterStatus \<Rightarrow> bool \<Rightarrow> string \<Rightarrow> ('w, bool) ract" where
  "delete_generated E A ns tc absent name =
     attempt (get_secret A ns name) (\<lambda>r. case r of
        Inl e \<Rightarrow> if not_found e then ret absent else fail e
      | Inr secret \<Rightarrow>
          if \<not> cluster_generated (e_klib E) tc (sec_Meta secret) then ret absent
          else andthen (deleteRunObject A KindSecret (sec_Meta secret)) (\<lambda>_. ret False))"

definition deleteRunGeneratedSecrets ::
  "'w run_env \<Rightarrow> 'w run_api \<Rightarrow> AnonymizationRun \<Rightarrow> TempClusterStatus \<Rightarrow> ('w, bool) ract" where
  "deleteRunGeneratedSecrets E A run tc =
     (if tcs_UID tc = [] then ret True
      else foldm (delete_generated E A (run_ns run) tc) True (generated_secrets (tcs_Name tc)))"

definition delete_cluster ::
  "'w run_env \<Rightarrow> 'w run_api \<Rightarrow> AnonymizationRun \<Rightarrow> TempClusterStatus \<Rightarrow> Unstructured \<Rightarrow> ('w, Result) ract" where
  "delete_cluster E A run tc cluster =
     andthen (lift (runOwns (e_klib E) run (un_Meta cluster))) (\<lambda>_.
     let uid = om_UID (un_Meta cluster) in
     if tcs_UID tc = [] then patched A (set_cluster_uid uid run) run nanosecond
     else if uid \<noteq> tcs_UID tc then fail (CText ''temporary cluster UID changed'')
     else andthen (if deleting (un_Meta cluster) then ret () else deleteRunObject A (KindObject ClusterGVK) (un_Meta cluster)) (\<lambda>_.
       andthen (case cond_since E run runConditionCleaned of
           None \<Rightarrow> ret False
         | Some t \<Rightarrow> runExpired A (Some t) (tm_Cleanup (rspec_Timeouts (run_Spec run))) (minutes 30)) (\<lambda>late.
       andthen (setRunCondition E A runConditionCleaned ''False'' ''Deleting''
         (if late then ''cleanup deadline exceeded; owned cluster deletion must still finish''
          else ''waiting for temporary cluster and volume deletion'') run) (\<lambda>run'.
       patched A run' run runPollInterval))))"

text \<open>\<open>None\<close> when the temporary cluster and its Secrets are gone.\<close>

definition cleanupRunCluster :: "'w run_env \<Rightarrow> 'w run_api \<Rightarrow> AnonymizationRun \<Rightarrow> ('w, Result option) ract" where
  "cleanupRunCluster E A run =
     (case rst_TempCluster (run_Status run) of
        None \<Rightarrow> ret None
      | Some tc \<Rightarrow>
          if tcs_Name tc = [] then ret None
          else attempt (query (a_get_object A False ClusterGVK (run_ns run) (tcs_Name tc))) (\<lambda>r. case r of
            Inr cluster \<Rightarrow> andthen (delete_cluster E A run tc cluster) (\<lambda>result. ret (Some result))
          | Inl e \<Rightarrow>
              if \<not> not_found e then fail e
              else andthen (if tcs_SecretName tc = [] then ret True
                  else deleteRunOwned E A run KindSecret (tcs_SecretName tc)) (\<lambda>gone.
                if \<not> gone then ret (Some (after runPollInterval))
                else andthen (deleteRunGeneratedSecrets E A run tc) (\<lambda>gone.
                  if \<not> gone then ret (Some (after runPollInterval)) else ret None))))"

definition cleanup_job :: "'w run_env \<Rightarrow> 'w run_api \<Rightarrow> AnonymizationRun \<Rightarrow> bool \<Rightarrow> ('w, bool) ract" where
  "cleanup_job E A run del =
     (case rst_Anonymize (run_Status run) of
        None \<Rightarrow> ret True
      | Some att \<Rightarrow>
          if (del \<or> cond_true E run runConditionFailed) \<and> as_JobName att \<noteq> []
          then deleteRunOwned E A run KindJob (as_JobName att) else ret True)"

definition set_cluster_deleted :: "int \<Rightarrow> AnonymizationRun \<Rightarrow> AnonymizationRun" where
  "set_cluster_deleted now run = with_status (\<lambda>st. st\<lparr>rst_TempCluster :=
     map_option (\<lambda>tc. case tcs_DeletedAt tc of None \<Rightarrow> tc\<lparr>tcs_DeletedAt := Some now\<rparr> | Some _ \<Rightarrow> tc) (rst_TempCluster st)\<rparr>) run"

definition remove_finalizer :: "AnonymizationRun \<Rightarrow> AnonymizationRun" where
  "remove_finalizer run = run\<lparr>run_Meta := (run_Meta run)\<lparr>om_Finalizers :=
     filter (\<lambda>f. f \<noteq> runFinalizer) (om_Finalizers (run_Meta run))\<rparr>\<rparr>"

text \<open>The status and the finalizer once nothing is left to delete.  The status patch sets the
  observed generation; the comparison before the removal of the finalizer does not.\<close>

definition cleanup_done :: "'w run_env \<Rightarrow> 'w run_api \<Rightarrow> AnonymizationRun \<Rightarrow> bool \<Rightarrow> ('w, Result) ract" where
  "cleanup_done E A base del =
     andthen (runTime A) (\<lambda>now.
     andthen (setRunCondition E A runConditionCleaned ''True'' ''TempClusterDeleted''
       ''the temporary cluster and owned credentials are absent'' (set_cluster_deleted now base)) (\<lambda>run.
     andthen (if \<not> del \<and> \<not> cond_true E run runConditionFailed
         then andthen (runTime A) (\<lambda>now.
           setRunCondition E A runConditionComplete ''True'' ''Succeeded'' ''the pipeline and temporary resource cleanup finished''
             (with_status (\<lambda>st. st\<lparr>rst_Phase := RunPhaseCompleted, rst_CompletedAt := Some now\<rparr>) run))
         else ret run) (\<lambda>run.
     if del
     then (if run_Status run \<noteq> run_Status base then patched A run base nanosecond
       else andthen (request (QPatchRun base (remove_finalizer run)) (a_patch_run A base (remove_finalizer run))) (\<lambda>_.
         ret no_result))
     else patched A run base 0)))"

definition cleanupRun :: "'w run_env \<Rightarrow> 'w run_api \<Rightarrow> AnonymizationRun \<Rightarrow> bool \<Rightarrow> ('w, Result) ract" where
  "cleanupRun E A run del =
     andthen (cleanup_job E A run del) (\<lambda>gone.
     if \<not> gone then ret (after runPollInterval)
     else if \<not> del \<and> cl_OnFailure (rspec_Cleanup (run_Spec run)) = ''Retain'' \<and> cond_true E run runConditionFailed
     then andthen (setRunCondition E A runConditionRetained ''True'' ''Retained'' ''the temporary cluster is retained until Run deletion'' run) (\<lambda>run'.
       patched A run' run 0)
     else andthen (cleanupRunCluster E A run) (\<lambda>handled.
       case handled of
         Some result \<Rightarrow> ret result
       | None \<Rightarrow> cleanup_done E A run del))"

definition finishRun :: "'w run_env \<Rightarrow> 'w run_api \<Rightarrow> AnonymizationRun \<Rightarrow> ('w, Result) ract" where
  "finishRun E A run =
     (let hold = cl_HoldTempClusterFor (rspec_Cleanup (run_Spec run)) in
      case (if 0 < hold then cond_since E run runConditionPublished else None) of
        None \<Rightarrow> cleanupRun E A run False
      | Some t \<Rightarrow>
          andthen (runTime A) (\<lambda>now.
          if now < t + hold then andthen (runTime A) (\<lambda>now. ret (after (sat64 (t + hold - now))))
          else cleanupRun E A run False))"

section \<open>Reconcile\<close>

definition add_finalizer :: "AnonymizationRun \<Rightarrow> AnonymizationRun" where
  "add_finalizer run = run\<lparr>run_Meta := (run_Meta run)\<lparr>om_Finalizers := om_Finalizers (run_Meta run) @ [runFinalizer]\<rparr>\<rparr>"

text \<open>The run in memory with the specification and the output group of the snapshot.\<close>

definition from_snapshot :: "AnonymizationRun \<Rightarrow> runSnapshot \<Rightarrow> AnonymizationRun" where
  "from_snapshot run sn = run\<lparr>run_Spec := sn_Spec sn, run_Meta := (run_Meta run)\<lparr>om_Labels :=
     fmupd LabelOutputGroup (sn_OutputGroup sn) (om_Labels (run_Meta run))\<rparr>\<rparr>"

definition dispatch :: "'w run_env \<Rightarrow> 'w run_api \<Rightarrow> AnonymizationRun \<Rightarrow> runSnapshot \<Rightarrow> ('w, Result) ract" where
  "dispatch E A run snapshot =
     (let phase = rst_Phase (run_Status run) in
      if phase = RunPhaseProvisioning then provisionRun E A run snapshot
      else if phase = RunPhaseRestoring then restoreRun E A run
      else if phase = RunPhaseAnonymizing then anonymizeRun E A run snapshot
      else if phase = RunPhaseBackingUp then backupRun E A run
      else if phase = RunPhasePublishing then publishRun E A run
      else if phase = RunPhasePruning then pruneRun E A run
      else if phase = RunPhaseCleaningUp then finishRun E A run
      else ret (after runPollInterval))"

definition settle_run :: "'w run_env \<Rightarrow> 'w run_api \<Rightarrow> AnonymizationRun \<Rightarrow> ('w, Result) ract" where
  "settle_run E A run =
     attempt (loadRunSnapshot E A run) (\<lambda>r.
       let run = (case r of Inr sn \<Rightarrow> run\<lparr>run_Spec := sn_Spec sn\<rparr> | Inl _ \<Rightarrow> run) in
       if cond_true E run runConditionCleaned \<or> cond_true E run runConditionRetained then ret no_result
       else cleanupRun E A run False)"

definition advance_run :: "'w run_env \<Rightarrow> 'w run_api \<Rightarrow> AnonymizationRun \<Rightarrow> ('w, Result) ract" where
  "advance_run E A run =
     (if rst_Phase (run_Status run) = []
      then andthen (runTime A) (\<lambda>now.
        patched A (with_status (\<lambda>st. st\<lparr>rst_Phase := RunPhasePending, rst_StartedAt := Some now\<rparr>) run) run nanosecond)
      else if \<not> has_finalizer run
      then andthen (request (QPatchRun run (add_finalizer run)) (a_patch_run A run (add_finalizer run))) (\<lambda>_.
        ret (after nanosecond))
      else if cond_true E run runConditionFailed \<or> rst_Phase (run_Status run) = RunPhaseCompleted then settle_run E A run
      else if rst_Phase (run_Status run) = RunPhasePending \<or> rst_Phase (run_Status run) = RunPhaseResolvingSource
      then resolveRun E A run
      else attempt (loadRunSnapshot E A run) (\<lambda>r. case r of
        Inl _ \<Rightarrow> failRun E A run runConditionPolicy ''PolicyInvalid'' ''the immutable Run snapshot is unavailable''
      | Inr sn \<Rightarrow> dispatch E A (from_snapshot run sn) sn))"

definition reconcileRun :: "'w run_env \<Rightarrow> 'w run_api \<Rightarrow> string \<Rightarrow> string \<Rightarrow> ('w, Result) ract" where
  "reconcileRun E A ns name =
     attempt (query (a_get_run A ns name)) (\<lambda>r. case r of
        Inl e \<Rightarrow> if not_found e then ret no_result else fail e
      | Inr run \<Rightarrow>
          if deleting (run_Meta run)
          then (if \<not> has_finalizer run then ret no_result else cleanupRun E A run True)
          else advance_run E A run)"

definition Reconcile_run :: "'w run_env \<Rightarrow> 'w run_api \<Rightarrow> string \<Rightarrow> string \<Rightarrow> ('w, Result) ract" where
  "Reconcile_run E A ns name =
     attempt (reconcileRun E A ns name) (\<lambda>r. case r of
        Inl e \<Rightarrow> if is_conflict e then ret (no_result\<lparr>Requeue := True\<rparr>) else fail e
      | Inr x \<Rightarrow> ret x)"

end
