(* ===== verification/Run_Safety.thy ===== *)
theory Run_Safety
  imports Run
begin

text \<open>
  What a reconcile of a run may do, whatever the API server answers.  Every request is justified:
  a child is created under the run's finalizer and owner reference, a deletion is of an owned
  object (or of a Secret that the temporary cluster generated, or of a settled output backup that
  the retention gives up), a pointer is published for the succeeded backup of the anonymized
  cluster, and the finalizer goes last.  Every status that is written is well typed, and its phase
  is the next one of the pipeline.
\<close>

section \<open>Rules for the steps that all handlers share\<close>

lemma emits_cerr [emits_rules]:
  "(\<And>k. emits (m1 k) P R) \<Longrightarrow> (\<And>t. emits (m2 t) P R) \<Longrightarrow> (\<And>s. emits (m3 s) P R) \<Longrightarrow>
     (\<And>a b c. emits (m4 a b c) P R) \<Longrightarrow>
     emits (case e of CKube k \<Rightarrow> m1 k | CText t \<Rightarrow> m2 t | CStore s \<Rightarrow> m3 s | CInvalid a b c \<Rightarrow> m4 a b c) P R"
  by (cases e) auto

lemma emits_andthen_runTime [emits_rules]:
  "(\<And>now. emits (f now) P R) \<Longrightarrow> emits (andthen (runTime A) f) P R"
  unfolding runTime_def by (rule emits_andthen_query) simp

lemma emits_setRunCondition [emits_rules]:
  "(\<And>now. R (set_condition_at (e_klib E) now run kind st reason msg)) \<Longrightarrow>
     emits (setRunCondition E A kind st reason msg run) P R"
  unfolding setRunCondition_def by (intro emits_rules)

lemma emits_andthen_setRunCondition [emits_rules]:
  "(\<And>now. emits (f (set_condition_at (e_klib E) now run kind st reason msg)) P R) \<Longrightarrow>
     emits (andthen (setRunCondition E A kind st reason msg run) f) P R"
  by (rule emits_andthen [OF emits_setRunCondition [where R = "\<lambda>r. emits (f r) P R"]])

lemma emits_andthen_ret [emits_rules]: "emits (f x) P R \<Longrightarrow> emits (andthen (ret x) f) P R"
  by (rule emits_andthen [OF emits_ret [where R = "\<lambda>r. r = x"]]) auto

lemma emits_andthen_fail [emits_rules]: "emits (andthen (fail e) f) P R"
  by (rule emits_andthen [OF emits_fail [where R = "\<lambda>_. False"]]) simp

lemma emits_andthen_if [emits_rules]:
  "(b \<Longrightarrow> emits (andthen m f) P R) \<Longrightarrow> (\<not> b \<Longrightarrow> emits (andthen n f) P R) \<Longrightarrow>
     emits (andthen (if b then m else n) f) P R"
  by simp

lemma emits_andthen_option [emits_rules]:
  "(x = None \<Longrightarrow> emits (andthen m f) P R) \<Longrightarrow> (\<And>y. x = Some y \<Longrightarrow> emits (andthen (n y) f) P R) \<Longrightarrow>
     emits (andthen (case x of None \<Rightarrow> m | Some y \<Rightarrow> n y) f) P R"
  by (cases x) auto

text \<open>Nested sequences are flattened, so that the rules above apply to their first step.\<close>

lemma emits_andthen_assoc [emits_rules]:
  "emits (andthen m (\<lambda>x. andthen (f x) g)) P R \<Longrightarrow> emits (andthen (andthen m f) g) P R"
proof -
  have "andthen (andthen m f) g = andthen m (\<lambda>x. andthen (f x) g)"
    by (rule ext) (simp add: andthen_def split: prod.splits sum.splits)
  then show "emits (andthen m (\<lambda>x. andthen (f x) g)) P R \<Longrightarrow> emits (andthen (andthen m f) g) P R" by simp
qed

lemma emits_patchRun:
  assumes "P (QPatchStatus base (observed run))"
    and "\<And>w run'. fst (a_patch_status A base (observed run) w) = Inr run' \<Longrightarrow> R (run', after d)"
    and "R (observed run, after d)"
  shows "emits (patchRun A run base d) P R"
  unfolding patchRun_def Let_def using assms by (intro emits_rules) auto

lemma emits_patched [emits_rules]:
  assumes "P (QPatchStatus base (observed run))" "\<And>r. R r"
  shows "emits (patched A run base d) P R"
  unfolding patched_def patchRun_def Let_def using assms by (intro emits_rules) auto

definition failed_status :: "AnonymizationRun \<Rightarrow> int option \<Rightarrow> Condition list \<Rightarrow> AnonymizationRun" where
  "failed_status run ca cs = run\<lparr>run_Status := (run_Status run)\<lparr>rst_Phase := RunPhaseFailed,
     rst_CompletedAt := ca, rst_Conditions := cs\<rparr>\<rparr>"

lemma emits_andthen_markRunFailed [emits_rules]:
  assumes "\<And>ca cs. emits (f (failed_status run ca cs)) P R"
  shows "emits (andthen (markRunFailed E A kind reason msg run) f) P R"
  unfolding markRunFailed_def Let_def
  by (intro emits_rules) (use assms in \<open>simp add: set_condition_at_def with_status_def failed_status_def\<close>)

lemma emits_failRun [emits_rules]:
  assumes "\<And>ca cs. P (QPatchStatus run (observed (failed_status run ca cs)))" "\<And>r. R r"
  shows "emits (failRun E A run kind reason msg) P R"
  unfolding failRun_def using assms by (intro emits_rules)

lemma emits_runExpired [emits_rules]:
  assumes "\<And>b. emits (f b) P R"
  shows "emits (andthen (runExpired A start timeout fallback) f) P R"
  unfolding runExpired_def by (cases start) (use assms in \<open>auto intro!: emits_rules\<close>)

lemma emits_runDelay [emits_rules]:
  assumes "\<And>b. emits (f b) P R"
  shows "emits (andthen (runDelay A start timeout fallback) f) P R"
  unfolding runDelay_def Let_def by (cases start) (use assms in \<open>auto intro!: emits_rules\<close>)

section \<open>Children\<close>

text \<open>An object of a kind was not found under a name.\<close>

definition seen_absent :: "'w run_api \<Rightarrow> objkind \<Rightarrow> string \<Rightarrow> string \<Rightarrow> bool" where
  "seen_absent A k ns name = (case k of
     KindSecret \<Rightarrow> \<exists>w. a_secrets A w ns name = Inl KNotFound
   | KindJob \<Rightarrow> \<exists>w. fst (a_get_job A False ns name w) = Inl (CKube KNotFound)
   | KindObject g \<Rightarrow> \<exists>w. fst (a_get_object A False g ns name w) = Inl (CKube KNotFound))"

lemma emits_get_current [emits_rules]:
  assumes "\<And>x. emits (f x) P R"
  shows "emits (attempt (get_current A c) f) P R" "emits (andthen (get_current A c) (\<lambda>x. f (Inr x))) P R"
proof -
  have "emits (get_current A c) P (\<lambda>_. True)"
    unfolding get_current_def Let_def get_secret_def by (cases c) (auto intro!: emits_rules)
  then show "emits (attempt (get_current A c) f) P R" "emits (andthen (get_current A c) (\<lambda>x. f (Inr x))) P R"
    by (auto intro!: emits_attempt [where R' = "\<lambda>_. True"] emits_andthen [where R' = "\<lambda>_. True"] assms)
qed

lemma runOwns_ok: "runOwns L run om = Inr u \<longleftrightarrow> owned_by_run L run om"
  by (simp add: runOwns_def ok_simps)

lemma emits_createRunChild:
  assumes "has_finalizer run \<Longrightarrow> owned_by_run (e_klib E) run (child_meta d) \<Longrightarrow> P (QCreate (label_child run d))"
    and "R ()"
  shows "emits (createRunChild E A run d) P R"
proof -
  have acc: "emits (accept_current (e_klib E) run cur) P R" for cur
    unfolding accept_current_def using assms(2) by (auto intro!: emits_rules)
  have acc': "emits (andthen (get_current A x) (accept_current (e_klib E) run)) P R" for x
    by (rule emits_andthen [where R' = "\<lambda>_. True"])
      (auto intro!: acc emits_rules simp: get_current_def Let_def get_secret_def split: child.split)
  show ?thesis unfolding createRunChild_def Let_def
    by (auto intro!: emits_rules assms acc acc' simp: runOwns_ok split: sum.split)
qed

lemma emits_andthen_createRunChild [emits_rules]:
  assumes "has_finalizer run \<Longrightarrow> owned_by_run (e_klib E) run (child_meta d) \<Longrightarrow> P (QCreate (label_child run d))"
    and "emits (f ()) P R"
  shows "emits (andthen (createRunChild E A run d) f) P R"
  by (rule emits_andthen [OF emits_createRunChild [where R = "\<lambda>_. True"]]) (use assms in auto)

lemma emits_deleteRunObject [emits_rules]:
  assumes "om_UID om \<noteq> [] \<Longrightarrow> P (QDelete k om)" "R ()"
  shows "emits (deleteRunObject A k om) P R"
  unfolding deleteRunObject_def using assms by (auto intro!: emits_rules split: sum.split)

lemma emits_andthen_deleteRunObject [emits_rules]:
  assumes "om_UID om \<noteq> [] \<Longrightarrow> P (QDelete k om)" "emits (f ()) P R"
  shows "emits (andthen (deleteRunObject A k om) f) P R"
  by (rule emits_andthen [OF emits_deleteRunObject [where R = "\<lambda>_. True"]]) (use assms in auto)

lemma emits_deleteRunOwned:
  assumes "\<And>om. owned_by_run (e_klib E) run om \<Longrightarrow> om_UID om \<noteq> [] \<Longrightarrow> P (QDelete k om)"
    and "seen_absent A k (run_ns run) name \<Longrightarrow> R True" "R False"
  shows "emits (deleteRunOwned E A run k name) P R"
proof -
  show ?thesis
  proof (cases k)
    case KindSecret
    have "a_secrets A w ns n = Inl KNotFound" if "map_sum CKube id (a_secrets A w ns n) = Inl e" "not_found e" for w ns n e
      using that by (cases "a_secrets A w ns n") (auto simp: not_found_def)
    then have "not_found e \<Longrightarrow> map_sum CKube id (a_secrets A w (run_ns run) name) = Inl e \<Longrightarrow> R True" for w e
      using assms(2) unfolding seen_absent_def KindSecret by auto
    then show ?thesis
      unfolding deleteRunOwned_def get_for_delete_def KindSecret objkind.case get_secret_def if_distrib [of "\<lambda>m. attempt m _"]
      using assms(1,3) by (intro emits_rules) (auto simp: KindSecret runOwns_ok not_found_def)
  next
    case KindJob
    then show ?thesis unfolding deleteRunOwned_def get_for_delete_def KindJob objkind.case
      using assms by (intro emits_rules) (auto simp: KindJob runOwns_ok seen_absent_def not_found_def)
  next
    case (KindObject g)
    then show ?thesis unfolding deleteRunOwned_def get_for_delete_def KindObject objkind.case
      using assms by (intro emits_rules) (auto simp: KindObject runOwns_ok seen_absent_def not_found_def)
  qed
qed

lemma emits_andthen_deleteRunOwned [emits_rules]:
  assumes "\<And>om. owned_by_run (e_klib E) run om \<Longrightarrow> om_UID om \<noteq> [] \<Longrightarrow> P (QDelete k om)"
    and "seen_absent A k (run_ns run) name \<Longrightarrow> emits (f True) P R" "emits (f False) P R"
  shows "emits (andthen (deleteRunOwned E A run k name) f) P R"
proof (rule emits_andthen [OF emits_deleteRunOwned [where R = "\<lambda>b. b \<longrightarrow> seen_absent A k (run_ns run) name"]])
  show "b \<longrightarrow> seen_absent A k (run_ns run) name \<Longrightarrow> emits (f b) P R" for b
    using assms(2,3) by (cases b) auto
qed (use assms(1) in auto)

section \<open>The snapshot\<close>

text \<open>A snapshot that was decoded from the seed Secret of the run.\<close>

definition snapshot_of :: "'w run_env \<Rightarrow> 'w run_api \<Rightarrow> AnonymizationRun \<Rightarrow> runSnapshot \<Rightarrow> bool" where
  "snapshot_of E A run sn \<longleftrightarrow> (\<exists>w seed.
     a_secrets A w (run_ns run) (runChildName (e_klib E) run ''seed'') = Inr seed \<and> decodeRunSnapshot E run seed = Inr sn)"

lemma emits_attempt_get_secret [emits_rules]:
  assumes "\<And>w s. a_secrets A w ns name = Inr s \<Longrightarrow> emits (f (Inr s)) P R"
    and "\<And>w e. a_secrets A w ns name = Inl e \<Longrightarrow> emits (f (Inl (CKube e))) P R"
  shows "emits (attempt (get_secret A ns name) f) P R"
proof -
  have "emits (f (map_sum CKube id (a_secrets A w ns name))) P R" for w
    using assms by (cases "a_secrets A w ns name") auto
  then show ?thesis unfolding get_secret_def by (intro emits_attempt_query) auto
qed

lemma emits_andthen_get_secret [emits_rules]:
  assumes "\<And>w s. a_secrets A w ns name = Inr s \<Longrightarrow> emits (f s) P R"
  shows "emits (andthen (get_secret A ns name) f) P R"
  unfolding get_secret_def
proof (rule emits_andthen_query)
  show "fst (map_sum CKube id (a_secrets A w ns name), a_tick A w) = Inr s \<Longrightarrow> emits (f s) P R" for w s
    using assms by (cases "a_secrets A w ns name") auto
qed

lemma emits_loadRunSnapshot:
  assumes "\<And>sn. snapshot_of E A run sn \<Longrightarrow> R sn"
  shows "emits (loadRunSnapshot E A run) P R"
  unfolding loadRunSnapshot_def by (intro emits_rules) (use assms in \<open>auto simp: snapshot_of_def\<close>)

lemma emits_attempt_loadRunSnapshot [emits_rules]:
  assumes "\<And>sn. snapshot_of E A run sn \<Longrightarrow> emits (f (Inr sn)) P R" "\<And>e. emits (f (Inl e)) P R"
  shows "emits (attempt (loadRunSnapshot E A run) f) P R"
  by (rule emits_attempt [OF emits_loadRunSnapshot]) (use assms in auto)

lemma emits_andthen_loadRunSnapshot [emits_rules]:
  assumes "\<And>sn. snapshot_of E A run sn \<Longrightarrow> emits (f sn) P R"
  shows "emits (andthen (loadRunSnapshot E A run) f) P R"
  by (rule emits_andthen [OF emits_loadRunSnapshot]) (use assms in auto)

lemma emits_event [emits_rules]:
  assumes "P (QEvent reason msg)" "R ()"
  shows "emits (event E reason msg) P R"
  unfolding event_def using assms by (auto intro!: emits_rules)

lemma emits_andthen_event [emits_rules]:
  assumes "P (QEvent reason msg)" "emits (f ()) P R"
  shows "emits (andthen (event E reason msg) f) P R"
  unfolding event_def using assms by (auto intro!: emits_rules)

lemma emits_resolve_storage [emits_rules]:
  "(\<And>x. emits (f x) P R) \<Longrightarrow> emits (attempt (resolve_storage E A ns spec) f) P R"
  "(\<And>x. emits (g x) P R) \<Longrightarrow> emits (andthen (resolve_storage E A ns spec) g) P R"
  unfolding resolve_storage_def by (auto intro!: emits_rules)

lemma emits_runSecretValue:
  "(\<And>v. R v) \<Longrightarrow> emits (runSecretValue A ns ref) P R"
  unfolding runSecretValue_def by (intro emits_rules) auto

lemma emits_step_payload:
  "(\<And>v. R v) \<Longrightarrow> emits (step_payload A ns step) P R"
  unfolding step_payload_def by (intro emits_rules emits_runSecretValue) auto

lemma emits_payloads: "emits (snapshotRunPolicyPayloads E A ns policy data) P (\<lambda>_. True)"
  unfolding snapshotRunPolicyPayloads_def
  by (intro emits_rules emits_andthen [OF emits_foldm [where I = "\<lambda>_. True"]] TrueI
      emits_andthen [OF emits_step_payload [where R = "\<lambda>_. True"]]
      emits_andthen [OF emits_runSecretValue [where R = "\<lambda>_. True"]])

lemma emits_validateRunInputs: "emits (validateRunInputs E A run) P (\<lambda>_. True)"
  unfolding validateRunInputs_def Let_def by (intro emits_rules TrueI)

lemma emits_resolveRunSource:
  assumes "\<And>r m. P (QEvent r m)"
  shows "emits (resolveRunSource E A run) P (\<lambda>_. True)"
proof -
  have f: "emits (attempt (fetch_pointer E A ns ps) h) P (\<lambda>_. True)" if "\<And>x. emits (h x) P (\<lambda>_. True)" for ns ps h
    unfolding fetch_pointer_def by (cases "e_fetchPointer E") (auto intro!: emits_rules that)
  have a: "emits (source_from_pointer E A run n) P (\<lambda>_. True)" for n
    unfolding source_from_pointer_def Let_def using assms
    by (intro emits_rules) (auto intro!: emits_rules split: option.split)
  have b: "emits (source_from_backup E A run n) P (\<lambda>_. True)" for n
    unfolding source_from_backup_def Let_def by (intro emits_rules TrueI)
  have c: "emits (source_from_document E A run ps) P (\<lambda>_. True)" for ps
    unfolding source_from_document_def Let_def
    by (rule f) (auto intro!: emits_rules split: sum.split option.split)
  show ?thesis unfolding resolveRunSource_def Let_def
    by (rule emits_andthen [where R' = "\<lambda>_. True"]) (auto intro!: emits_rules a b c split: option.split)
qed

lemma emits_snapshot_data:
  assumes "\<And>r m. P (QEvent r m)"
  shows "emits (snapshot_data E A run) P (\<lambda>_. True)"
  unfolding snapshot_data_def
  by (intro emits_rules TrueI emits_andthen [OF emits_validateRunInputs] emits_andthen [OF emits_payloads]
      emits_andthen [OF emits_resolveRunSource] assms)

lemma emits_ensureRunPolicyConfigMap:
  assumes "\<And>d. has_finalizer run \<Longrightarrow> owned_by_run (e_klib E) run (child_meta d) \<Longrightarrow> P (QCreate (label_child run d))"
    and "R ()"
  shows "emits (ensureRunPolicyConfigMap E A run seed) P R"
  unfolding ensureRunPolicyConfigMap_def Let_def by (intro emits_rules assms)

lemma emits_prepareRunSnapshot:
  assumes ev: "\<And>r m. P (QEvent r m)"
    and cr: "\<And>d. has_finalizer run \<Longrightarrow> owned_by_run (e_klib E) run (child_meta d) \<Longrightarrow> P (QCreate (label_child run d))"
    and R: "\<And>sn. snapshot_of E A run sn \<Longrightarrow> R sn"
  shows "emits (prepareRunSnapshot E A run) P R"
proof -
  have e: "emits (andthen (ensureRunPolicyConfigMap E A run seed) (\<lambda>_. ret sn)) P R" if "snapshot_of E A run sn" for seed sn
    by (rule emits_andthen [OF emits_ensureRunPolicyConfigMap [where R = "\<lambda>_. True"]])
      (use that R cr in \<open>auto intro!: emits_rules\<close>)
  show ?thesis unfolding prepareRunSnapshot_def
    by (intro emits_rules emits_andthen [OF emits_snapshot_data] ev cr e)
      (auto simp: snapshot_of_def intro: e)
qed

section \<open>Justified requests\<close>

text \<open>The response to a status patch is about the same object.\<close>

definition same_run :: "AnonymizationRun \<Rightarrow> AnonymizationRun \<Rightarrow> bool" where
  "same_run a b \<longleftrightarrow> run_ns a = run_ns b \<and> run_name a = run_name b \<and> run_uid a = run_uid b"

definition patch_keeps_identity :: "'w run_api \<Rightarrow> bool" where
  "patch_keeps_identity A \<longleftrightarrow>
     (\<forall>base run w run'. fst (a_patch_status A base run w) = Inr run' \<longrightarrow> same_run run' run)"

lemma same_run_simps [simp]:
  "same_run (observed r) r' = same_run r r'" "same_run (with_status f r) r' = same_run r r'"
  "same_run r' (observed r) = same_run r' r" "same_run r' (with_status f r) = same_run r' r" "same_run r r"
  by (simp_all add: same_run_def observed_def with_status_def set_condition_at_def run_ns_def run_name_def run_uid_def)

lemma patch_identity:
  "patch_keeps_identity A \<Longrightarrow> fst (a_patch_status A base (observed (with_status f run)) w) = Inr run' \<Longrightarrow> same_run run' run"
  unfolding patch_keeps_identity_def using same_run_simps by blast

lemma same_run_owned: "same_run a b \<Longrightarrow> owned_by_run L a om = owned_by_run L b om"
  "same_run a b \<Longrightarrow> label_child a c = label_child b c"
  by (auto simp: owned_by_run_def same_run_def label_child_def split: option.split)

text \<open>The output backup of a run that is backing up, with the run's UID.\<close>

definition output_backup :: "'w run_env \<Rightarrow> AnonymizationRun \<Rightarrow> child \<Rightarrow> bool" where
  "output_backup E run c \<longleftrightarrow> rst_Phase (run_Status run) = RunPhaseBackingUp \<and>
     (\<exists>tc ob rendered. rst_TempCluster (run_Status run) = Some tc \<and> rst_Output (run_Status run) = Some ob \<and>
       RenderOutputBackup (e_klib E) (Some run) (tcs_Name tc) (pb_BackupName ob) (runOutputGroup (e_klib E) run) = Inr rendered \<and>
       c = ChObject (annotated run rendered))"

text \<open>A backup that the retention may give up: it has no owner, its own run is settled and it is
  not the output of this run.\<close>

definition given_up :: "'w run_env \<Rightarrow> 'w run_api \<Rightarrow> AnonymizationRun \<Rightarrow> ObjectMeta \<Rightarrow> bool" where
  "given_up E A run om \<longleftrightarrow> rst_Phase (run_Status run) = RunPhasePruning \<and> om_OwnerReferences om = [] \<and>
     (\<exists>w owners. fst (a_list_runs A (run_ns run) w) = Inr owners \<and>
        settled_runs (e_klib E) owners (annotation om runUIDLabel)) \<and>
     (\<exists>u view ob. om = un_Meta u \<and> decode_backup E u = Inr view \<and> rst_Output (run_Status run) = Some ob \<and>
        view_name view \<noteq> pb_BackupName ob)"

definition published :: "'w run_env \<Rightarrow> 'w run_api \<Rightarrow> AnonymizationRun \<Rightarrow> PointerTarget \<Rightarrow> Document \<Rightarrow> bool" where
  "published E A run target doc \<longleftrightarrow> rst_Phase (run_Status run) = RunPhasePublishing \<and>
     out_Pointer (rspec_Output (run_Spec run)) = Some target \<and>
     (\<exists>w u view ob tc now. fst (a_get_object A False BackupGVK (run_ns run) (pb_BackupName ob) w) = Inr u \<and>
        runOutputIdentity (e_klib E) run (un_Meta u) = Inr () \<and> decode_backup E u = Inr view \<and>
        Backup_Succeeded view \<and> rst_Output (run_Status run) = Some ob \<and>
        bst_Destination (bv_Status view) = pb_Destination ob \<and> rst_TempCluster (run_Status run) = Some tc \<and>
        doc = output_document E run tc ob target view now)"

text \<open>No Secret of the temporary cluster was found under a name.\<close>

definition none_generated :: "'w run_env \<Rightarrow> 'w run_api \<Rightarrow> string \<Rightarrow> TempClusterStatus \<Rightarrow> string \<Rightarrow> bool" where
  "none_generated E A ns tc name \<longleftrightarrow> (\<exists>w. a_secrets A w ns name = Inl KNotFound \<or>
     (\<exists>s. a_secrets A w ns name = Inr s \<and> \<not> cluster_generated (e_klib E) tc (sec_Meta s)))"

text \<open>The temporary cluster and everything that belongs to it were not found.\<close>

definition cluster_gone :: "'w run_env \<Rightarrow> 'w run_api \<Rightarrow> AnonymizationRun \<Rightarrow> bool" where
  "cluster_gone E A run \<longleftrightarrow> (\<forall>tc. rst_TempCluster (run_Status run) = Some tc \<longrightarrow> tcs_Name tc \<noteq> [] \<longrightarrow>
     seen_absent A (KindObject ClusterGVK) (run_ns run) (tcs_Name tc) \<and>
     (tcs_SecretName tc \<noteq> [] \<longrightarrow> seen_absent A KindSecret (run_ns run) (tcs_SecretName tc)) \<and>
     (tcs_UID tc \<noteq> [] \<longrightarrow> list_all (none_generated E A (run_ns run) tc) (generated_secrets (tcs_Name tc))))"

definition job_gone :: "'w run_api \<Rightarrow> AnonymizationRun \<Rightarrow> bool" where
  "job_gone A run \<longleftrightarrow> (\<forall>att. rst_Anonymize (run_Status run) = Some att \<longrightarrow> as_JobName att \<noteq> [] \<longrightarrow>
     seen_absent A KindJob (run_ns run) (as_JobName att))"

definition justified :: "'w run_env \<Rightarrow> 'w run_api \<Rightarrow> AnonymizationRun \<Rightarrow> rreq \<Rightarrow> bool" where
  "justified E A run q = (case q of
     QCreate c \<Rightarrow>
       has_finalizer run \<and> (\<exists>d. c = label_child run d \<and> owned_by_run (e_klib E) run (child_meta d)) \<or>
       output_backup E run c
   | QDelete k om \<Rightarrow> om_UID om \<noteq> [] \<and>
       (owned_by_run (e_klib E) run om \<or>
        k = KindSecret \<and> (\<exists>tc. rst_TempCluster (run_Status run) = Some tc \<and> tcs_UID tc \<noteq> [] \<and>
          cluster_generated (e_klib E) tc om) \<or>
        k = KindObject BackupGVK \<and> given_up E A run om)
   | QPutPointer target doc \<Rightarrow> published E A run target doc
   | QPatchRun base run' \<Rightarrow>
       base = run \<and> (if deleting (run_Meta run) then cluster_gone E A run \<and> job_gone A run \<and> \<not> has_finalizer run'
         else run' = add_finalizer run)
   | QPatchStatus base run' \<Rightarrow> True
   | QEvent r m \<Rightarrow> True)"

lemma justified_simps [simp]:
  "justified E A run (QPatchStatus base run')" "justified E A run (QEvent r m)"
  by (simp_all add: justified_def)

lemma justified_child:
  "has_finalizer run \<Longrightarrow> owned_by_run (e_klib E) run (child_meta d) \<Longrightarrow> justified E A run (QCreate (label_child run d))"
  by (auto simp: justified_def)

lemma justified_child_of:
  assumes "same_run run' run" "has_finalizer run" "owned_by_run (e_klib E) run' (child_meta d)"
  shows "justified E A run (QCreate (label_child run' d))"
  using assms same_run_owned [OF assms(1)] by (auto simp: justified_def)

lemma justified_owned:
  "owned_by_run (e_klib E) run om \<Longrightarrow> om_UID om \<noteq> [] \<Longrightarrow> justified E A run (QDelete k om)"
  by (simp add: justified_def)

lemmas justified_intros = justified_simps justified_child justified_owned

section \<open>One lemma per handler\<close>

lemma resolveRun_justified: "emits (resolveRun E A run) (justified E A run) (\<lambda>_. True)"
proof -
  have p: "emits (prepareRunSnapshot E A run) (justified E A run) (\<lambda>_. True)"
    by (intro emits_prepareRunSnapshot justified_intros TrueI)
  show ?thesis unfolding resolveRun_def Let_def
    by (intro emits_rules emits_attempt [OF p] justified_intros TrueI)
qed

lemma provisionRun_justified: "emits (provisionRun E A run sn) (justified E A run) (\<lambda>_. True)"
  unfolding provisionRun_def provision_cluster_def Let_def by (intro emits_rules justified_intros TrueI)

lemma restoreRun_justified:
  assumes "patch_keeps_identity A" "has_finalizer run"
  shows "emits (restoreRun E A run) (justified E A run) (\<lambda>_. True)"
proof -
  have s: "emits (start_restore E A run tc source name) (justified E A run) (\<lambda>_. True)" for tc source name
    unfolding start_restore_def
    by (intro emits_rules justified_intros TrueI
        emits_andthen [OF emits_patchRun [where R = "\<lambda>(r, _). same_run r run"]])
      (use assms in \<open>auto simp: set_restore_name_def intro!: emits_rules dest: patch_identity intro: justified_child_of\<close>)
  show ?thesis unfolding restoreRun_def restore_in_def watch_restore_def Let_def
    by (auto intro!: emits_rules s justified_intros split: option.split)
qed

lemma emits_sampleRunProgress:
  assumes "\<And>r m. P (QEvent r m)" "\<And>p. R (with_anonymize (\<lambda>a. a\<lparr>as_Progress := p\<rparr>) run)" "R run"
  shows "emits (sampleRunProgress E run pod) P R"
  unfolding sampleRunProgress_def Let_def
  by (intro emits_rules emits_andthen [OF emits_foreach [where R = "\<lambda>_. True"]] assms TrueI)

text \<open>Sampling only changes the progress.\<close>

definition resampled :: "AnonymizationRun \<Rightarrow> AnonymizationRun \<Rightarrow> bool" where
  "resampled run run' \<longleftrightarrow> run' = run \<or> (\<exists>p. run' = with_anonymize (\<lambda>a. a\<lparr>as_Progress := p\<rparr>) run)"

lemma resampled_trans: "resampled a b \<Longrightarrow> resampled b c \<Longrightarrow> resampled a c"
  by (auto simp: resampled_def with_anonymize_def with_status_def option.map_comp comp_def)

lemma emits_scan_pods:
  assumes "\<And>r m. P (QEvent r m)"
  shows "emits (scan_pods E job run found pods) P (\<lambda>(run', _). resampled run run')"
proof (induction pods arbitrary: run found)
  case Nil
  then show ?case by (auto intro: emits_ret simp: resampled_def)
next
  case (Cons pod pods)
  have s: "emits (sampleRunProgress E run pod) P (resampled run)"
    by (rule emits_sampleRunProgress) (use assms in \<open>auto simp: resampled_def\<close>)
  show ?case unfolding scan_pods.simps
    by (intro emits_rules emits_andthen [OF s] Cons.IH)
      (auto intro: emits_mono [OF Cons.IH] resampled_trans)
qed

lemma retryRunAttempt_justified:
  assumes "same_run run' run"
  shows "emits (retryRunAttempt E A run' base msg) (justified E A run) (\<lambda>_. True)"
  unfolding retryRunAttempt_def
  by (intro emits_rules justified_intros TrueI)
    (use same_run_owned(1) [OF assms] in \<open>auto intro!: emits_rules justified_intros split: option.split\<close>)

lemma same_run_anonymize [simp]:
  "same_run (with_anonymize f r) r' = same_run r r'" "same_run (record_result now rep r) r' = same_run r r'"
  by (simp_all add: with_anonymize_def record_result_def)

lemma finishRunAttempt_justified:
  assumes "same_run run' run"
  shows "emits (finishRunAttempt E A run' base t) (justified E A run) (\<lambda>_. True)"
  unfolding finishRunAttempt_def Let_def
  by (intro emits_rules justified_intros TrueI retryRunAttempt_justified) (use assms in simp)

lemma anonymizeRun_justified:
  assumes "patch_keeps_identity A" "has_finalizer run"
  shows "emits (anonymizeRun E A run sn) (justified E A run) (\<lambda>_. True)"
proof -
  have s: "emits (start_attempt E A run sn) (justified E A run) (\<lambda>_. True)"
    unfolding start_attempt_def Let_def
    by (intro emits_rules justified_intros TrueI
        emits_andthen [OF emits_patchRun [where R = "\<lambda>(r, _). same_run r run"]])
      (use assms in \<open>auto intro!: emits_rules dest: patch_identity intro: justified_child_of\<close>)
  have w: "emits (watch_attempt E A run att job) (justified E A run) (\<lambda>_. True)" for att job
    unfolding watch_attempt_def
    by (intro emits_rules emits_andthen [OF emits_scan_pods] justified_intros TrueI finishRunAttempt_justified)
      (auto simp: resampled_def intro!: emits_rules finishRunAttempt_justified split: option.split)
  show ?thesis unfolding anonymizeRun_def
    by (intro emits_rules s w justified_intros TrueI retryRunAttempt_justified) simp_all
qed

lemma backupRun_justified:
  assumes "rst_Phase (run_Status run) = RunPhaseBackingUp"
  shows "emits (backupRun E A run) (justified E A run) (\<lambda>_. True)"
  unfolding backupRun_def watch_backup_def Let_def
  by (intro emits_rules justified_intros TrueI) (use assms in \<open>auto simp: justified_def output_backup_def\<close>)

lemma publishRun_justified:
  assumes "rst_Phase (run_Status run) = RunPhasePublishing"
  shows "emits (publishRun E A run) (justified E A run) (\<lambda>_. True)"
proof -
  have put: "emits (put_pointer E A ns target doc) (justified E A run) (\<lambda>_. True)" if "published E A run target doc" for ns target doc
    unfolding put_pointer_def by (intro emits_rules) (use that in \<open>auto simp: justified_def\<close>)
  show ?thesis
    unfolding publishRun_def publish_backup_def Let_def
    by (intro emits_rules emits_attempt [OF put] justified_intros TrueI)
      (use assms in \<open>auto simp: published_def intro!: emits_rules split: sum.split\<close>)
qed

lemma emits_prune_wanted [emits_rules]:
  assumes "\<And>b. (b \<Longrightarrow> Backup_Succeeded view \<or> bst_State (bv_Status view) = BackupFailed) \<Longrightarrow> emits (f b) P R"
  shows "emits (andthen (prune_wanted A run n view) f) P R"
  unfolding prune_wanted_def by (intro emits_rules assms) auto

text \<open>The loop only changes the list of pruned backups.\<close>

definition repruned :: "AnonymizationRun \<Rightarrow> AnonymizationRun \<Rightarrow> bool" where
  "repruned run run' \<longleftrightarrow> (\<exists>ns. run' = with_status (\<lambda>st. st\<lparr>rst_PrunedBackups := ns\<rparr>) run)"

lemma repruned_refl: "repruned run run"
  by (auto simp: repruned_def with_status_def intro!: exI [of _ "rst_PrunedBackups (run_Status run)"])

lemma repruned_step: "repruned (pruned_names n run) run' \<Longrightarrow> repruned run run'"
  by (auto simp: repruned_def with_status_def pruned_names_def)

lemma emits_prune_loop:
  assumes "\<And>view u. view \<in> set views \<Longrightarrow> fmlookup objects (view_name view) = Some u \<Longrightarrow> view_name view \<noteq> own \<Longrightarrow>
      settled_runs (e_klib E) owners (annotation (un_Meta u) runUIDLabel) \<Longrightarrow> om_UID (un_Meta u) \<noteq> [] \<Longrightarrow>
      P (QDelete (KindObject BackupGVK) (un_Meta u))"
  shows "emits (prune_loop E A owners own objects n run views) P (repruned run)"
  using assms
proof (induction views arbitrary: n run)
  case (Cons view views)
  have l: "emits (prune_loop E A owners own objects n run views) P (repruned run)" for n run
  proof (rule Cons.IH, goal_cases)
    case (1 v u)
    then show ?case using Cons.prems [of v u] by simp
  qed
  show ?case unfolding prune_loop.simps Let_def
    by (intro emits_rules l emits_conseq [OF l]) (use Cons.prems in \<open>auto intro: repruned_step\<close>)
qed (auto intro: emits_ret repruned_refl)

lemma mapr_pairs:
  assumes "mapr (\<lambda>u. bindr (f u) (\<lambda>v. Inr (v, u))) xs = Inr ys" "(v, u) \<in> set ys"
  shows "f u = Inr v \<and> u \<in> set xs"
proof -
  obtain i where i: "i < length ys" "ys ! i = (v, u)" using assms(2) by (metis in_set_conv_nth)
  then have "bindr (f (xs ! i)) (\<lambda>v. Inr (v, xs ! i)) = Inr (v, u)" "i < length xs"
    using assms(1) unfolding mapr_eq_Inr by (auto simp: list_all2_conv_all_nth)
  then show ?thesis by (cases "f (xs ! i)") auto
qed

lemma prune_views_ok:
  assumes "prune_views E items = Inr vs" "(v, u) \<in> set vs"
  shows "decode_backup E u = Inr v" "om_OwnerReferences (un_Meta u) = []" "u \<in> set items"
proof -
  obtain ws where ws: "mapr (\<lambda>u. bindr (decode_backup E u) (\<lambda>v. Inr (v, u))) items = Inr ws"
    and vs: "vs = filter (\<lambda>(v, u). om_OwnerReferences (un_Meta u) = []) ws"
    using assms(1) by (auto simp: prune_views_def bindr_eq_Inr)
  show "decode_backup E u = Inr v" "om_OwnerReferences (un_Meta u) = []" "u \<in> set items"
    using mapr_pairs [OF ws, of v u] assms(2) vs by auto
qed

lemma pruneRun_justified:
  assumes "rst_Phase (run_Status run) = RunPhasePruning"
  shows "emits (pruneRun E A run) (justified E A run) (\<lambda>_. True)"
proof -
  have d: "justified E A run (QDelete (KindObject BackupGVK) (un_Meta u))"
    if ob: "rst_Output (run_Status run) = Some ob" "fst (a_list_runs A (run_ns run) w) = Inr owners"
      and vs: "prune_views E items = Inr vs" and u: "fmlookup (fmap_of_list (rev (map (\<lambda>(v, u). (view_name v, u)) vs))) n = Some u"
      and n: "n \<noteq> pb_BackupName ob" "settled_runs (e_klib E) owners (annotation (un_Meta u) runUIDLabel)" "om_UID (un_Meta u) \<noteq> []"
    for ob w owners items vs n u
  proof -
    obtain v where v: "(v, u) \<in> set vs" "view_name v = n"
      using u by (auto simp: fmlookup_of_list dest!: map_of_SomeD)
    show ?thesis using ob n assms prune_views_ok [OF vs v(1)] v(2)
      unfolding justified_def given_up_def by auto
  qed
  show ?thesis unfolding pruneRun_def Let_def
    by (intro emits_rules emits_andthen [OF emits_prune_loop] justified_simps TrueI) (rule d)
qed

lemma emits_delete_generated:
  assumes tc: "rst_TempCluster (run_Status run) = Some tc" "tcs_UID tc \<noteq> []"
  shows "emits (foldm (delete_generated E A (run_ns run) tc) b names) (justified E A run)
     (\<lambda>absent. absent \<longrightarrow> b \<and> list_all (none_generated E A (run_ns run) tc) names)"
proof (induction names arbitrary: b)
  case (Cons name names)
  have step: "emits (delete_generated E A (run_ns run) tc b name) (justified E A run)
      (\<lambda>absent. absent \<longrightarrow> b \<and> none_generated E A (run_ns run) tc name)"
    unfolding delete_generated_def
    by (intro emits_rules) (use tc in \<open>auto simp: justified_def not_found_def none_generated_def\<close>)
  show ?case unfolding foldm.simps
    by (rule emits_andthen [OF step], rule emits_conseq [OF Cons]) auto
qed (auto intro: emits_ret)

lemma emits_cleanupRunCluster:
  "emits (cleanupRunCluster E A run) (justified E A run) (\<lambda>r. r = None \<longrightarrow> cluster_gone E A run)"
proof -
  have d: "emits (delete_cluster E A run tc u) (justified E A run) (\<lambda>_. True)" for tc u
    unfolding delete_cluster_def Let_def by (intro emits_rules justified_intros TrueI) (auto simp: runOwns_ok)
  have g: "emits (deleteRunGeneratedSecrets E A run tc) (justified E A run)
     (\<lambda>absent. absent \<longrightarrow> tcs_UID tc \<noteq> [] \<longrightarrow> list_all (none_generated E A (run_ns run) tc) (generated_secrets (tcs_Name tc)))"
    if "rst_TempCluster (run_Status run) = Some tc" for tc
    unfolding deleteRunGeneratedSecrets_def
    by (intro emits_rules emits_conseq [OF emits_delete_generated [OF that]]) auto
  show ?thesis unfolding cleanupRunCluster_def
    by (intro emits_rules emits_andthen [OF d] emits_andthen [OF g] justified_intros TrueI)
      (auto simp: cluster_gone_def seen_absent_def not_found_def)
qed

lemma cleanup_job_justified:
  "emits (cleanup_job E A run del) (justified E A run) (\<lambda>gone. gone \<longrightarrow> del \<longrightarrow> job_gone A run)"
  unfolding cleanup_job_def
  by (intro emits_rules emits_deleteRunOwned justified_intros) (auto simp: job_gone_def)

lemma has_finalizer_simps [simp]:
  "\<not> has_finalizer (remove_finalizer run)" "has_finalizer (from_snapshot run sn) = has_finalizer run"
  by (simp_all add: has_finalizer_def remove_finalizer_def from_snapshot_def)

lemma cleanupRun_justified:
  assumes "del = deleting (run_Meta run)"
  shows "emits (cleanupRun E A run del) (justified E A run) (\<lambda>_. True)"
  unfolding cleanupRun_def cleanup_done_def
  by (intro emits_rules emits_andthen [OF cleanup_job_justified] emits_andthen [OF emits_cleanupRunCluster] justified_intros TrueI)
    (auto simp: justified_def assms)

lemma dispatch_justified:
  assumes "patch_keeps_identity A" "has_finalizer run" "\<not> deleting (run_Meta run)"
  shows "emits (dispatch E A run sn) (justified E A run) (\<lambda>_. True)"
  unfolding dispatch_def Let_def finishRun_def
  by (intro emits_rules provisionRun_justified restoreRun_justified anonymizeRun_justified backupRun_justified
      publishRun_justified pruneRun_justified cleanupRun_justified TrueI) (use assms in auto)

text \<open>The run in memory while it is reconciled: as it was read, or with its snapshot.\<close>

definition seen_as :: "'w run_env \<Rightarrow> 'w run_api \<Rightarrow> AnonymizationRun \<Rightarrow> AnonymizationRun \<Rightarrow> bool" where
  "seen_as E A run run' \<longleftrightarrow> run' = run \<or> (\<exists>sn. snapshot_of E A run sn \<and>
     (run' = run\<lparr>run_Spec := sn_Spec sn\<rparr> \<or> run' = from_snapshot run sn))"

definition reads_run :: "'w run_api \<Rightarrow> string \<Rightarrow> string \<Rightarrow> AnonymizationRun \<Rightarrow> bool" where
  "reads_run A ns name run \<longleftrightarrow> (\<forall>w x. fst (a_get_run A ns name w) = Inr x \<longrightarrow> x = run)"

lemma seen_as_snapshot: "snapshot_of E A run sn \<Longrightarrow> seen_as E A run (from_snapshot run sn)"
  by (auto simp: seen_as_def)

definition justified_run :: "'w run_env \<Rightarrow> 'w run_api \<Rightarrow> AnonymizationRun \<Rightarrow> rreq \<Rightarrow> bool" where
  "justified_run E A run q \<longleftrightarrow> (\<exists>run'. seen_as E A run run' \<and> justified E A run' q)"

lemma justified_run_self: "justified E A run q \<Longrightarrow> justified_run E A run q"
  by (auto simp: justified_run_def seen_as_def)

lemma as_read: "emits m (justified E A run) R \<Longrightarrow> emits m (justified_run E A run) R"
  by (erule emits_mono) (auto intro: justified_run_self)

lemma as_snapshot:
  "snapshot_of E A run sn \<Longrightarrow> emits m (justified E A (from_snapshot run sn)) R \<Longrightarrow> emits m (justified_run E A run) R"
  by (rule emits_mono, assumption) (auto simp: justified_run_def seen_as_def)

lemma settle_run_justified:
  assumes "\<not> deleting (run_Meta run)"
  shows "emits (settle_run E A run) (justified_run E A run) (\<lambda>_. True)"
proof -
  have c: "emits (cleanupRun E A r False) (justified_run E A run) (\<lambda>_. True)"
    if "r = run \<or> (\<exists>sn. snapshot_of E A run sn \<and> r = run\<lparr>run_Spec := sn_Spec sn\<rparr>)" for r
  proof -
    have "run_Meta r = run_Meta run" using that by auto
    then have "emits (cleanupRun E A r False) (justified E A r) (\<lambda>_. True)"
      using assms by (intro cleanupRun_justified) simp
    then show ?thesis by (rule emits_mono) (use that in \<open>auto simp: justified_run_def seen_as_def\<close>)
  qed
  show ?thesis unfolding settle_run_def Let_def
    by (intro emits_rules c TrueI) auto
qed

lemma advance_run_justified:
  assumes "patch_keeps_identity A" "\<not> deleting (run_Meta run)"
  shows "emits (advance_run E A run) (justified_run E A run) (\<lambda>_. True)"
proof -
  have f: "justified_run E A run (QPatchRun run (add_finalizer run))"
    by (rule justified_run_self) (simp add: justified_def assms)
  have d: "emits (dispatch E A (from_snapshot run sn) sn) (justified_run E A run) (\<lambda>_. True)"
    if "snapshot_of E A run sn" "has_finalizer run" for sn
    by (rule as_snapshot [OF that(1)], rule dispatch_justified)
      (use assms that in \<open>auto simp: from_snapshot_def deleting_def has_finalizer_def\<close>)
  show ?thesis unfolding advance_run_def
    by (intro emits_rules settle_run_justified as_read [OF resolveRun_justified] f d justified_run_self
        justified_simps TrueI) (use assms in auto)
qed

lemma Reconcile_run_justified:
  assumes "patch_keeps_identity A" "reads_run A ns name run"
  shows "emits (Reconcile_run E A ns name) (justified_run E A run) (\<lambda>_. True)"
proof -
  have "emits (reconcileRun E A ns name) (justified_run E A run) (\<lambda>_. True)"
    unfolding reconcileRun_def
    by (intro emits_rules TrueI advance_run_justified as_read [OF cleanupRun_justified])
      (use assms in \<open>auto simp: reads_run_def intro!: advance_run_justified as_read [OF cleanupRun_justified]\<close>)
  then show ?thesis unfolding Reconcile_run_def
    by (rule emits_attempt) (auto intro!: emits_rules)
qed

section \<open>The pipeline\<close>

text \<open>The specification of the phases: each is followed by the next, by itself or by failure; a
  dry run skips the backup; nothing leaves the two terminal phases.\<close>

inductive pipeline :: "string \<Rightarrow> string \<Rightarrow> bool" where
  pl_stay: "pipeline p p"
| pl_start: "pipeline [] RunPhasePending"
| pl_fail: "p \<noteq> [] \<Longrightarrow> p \<noteq> RunPhaseCompleted \<Longrightarrow> pipeline p RunPhaseFailed"
| pl_resolve: "p = RunPhasePending \<or> p = RunPhaseResolvingSource \<Longrightarrow> pipeline p RunPhaseProvisioning"
| pl_provision: "pipeline RunPhaseProvisioning RunPhaseRestoring"
| pl_restore: "pipeline RunPhaseRestoring RunPhaseAnonymizing"
| pl_anonymize: "pipeline RunPhaseAnonymizing RunPhaseBackingUp"
| pl_dry_run: "pipeline RunPhaseAnonymizing RunPhaseCleaningUp"
| pl_backup: "pipeline RunPhaseBackingUp RunPhasePublishing"
| pl_publish: "pipeline RunPhasePublishing RunPhasePruning"
| pl_prune: "pipeline RunPhasePruning RunPhaseCleaningUp"
| pl_complete: "pipeline RunPhaseCleaningUp RunPhaseCompleted"

inductive_simps pipeline_from_completed: "pipeline ''Completed'' q"
inductive_simps pipeline_from_failed: "pipeline ''Failed'' q"

definition run_phases :: "string list" where
  "run_phases = [[], RunPhasePending, RunPhaseResolvingSource, RunPhaseProvisioning, RunPhaseRestoring,
     RunPhaseAnonymizing, RunPhaseBackingUp, RunPhasePublishing, RunPhasePruning, RunPhaseCleaningUp,
     RunPhaseCompleted, RunPhaseFailed]"

text \<open>The phases from which on a part of the status is there.\<close>

definition phases_from :: "string \<Rightarrow> string set" where
  "phases_from p = set (dropWhile (\<lambda>q. q \<noteq> p) [RunPhaseProvisioning, RunPhaseRestoring, RunPhaseAnonymizing,
     RunPhaseBackingUp, RunPhasePublishing, RunPhasePruning])"

definition finishing :: "string set" where
  "finishing = {RunPhaseCleaningUp, RunPhaseCompleted}"

definition reported_ok :: "AnonymizationRunStatus \<Rightarrow> bool" where
  "reported_ok st = (case rst_Anonymize st of None \<Rightarrow> False | Some a \<Rightarrow> as_CompletedAt a \<noteq> None \<and>
     as_LastResult a = Some \<lparr>ar_Class = [], ar_Message = ''runner reported ok''\<rparr>)"

definition cluster_named :: "AnonymizationRunStatus \<Rightarrow> bool" where
  "cluster_named st = (case rst_TempCluster st of None \<Rightarrow> False | Some tc \<Rightarrow> tcs_Name tc \<noteq> [])"

definition cluster_known :: "AnonymizationRunStatus \<Rightarrow> bool" where
  "cluster_known st = (case rst_TempCluster st of None \<Rightarrow> False | Some tc \<Rightarrow> tcs_UID tc \<noteq> [])"

definition output_known :: "klib \<Rightarrow> AnonymizationRunStatus \<Rightarrow> bool" where
  "output_known L st = (case rst_Output st of None \<Rightarrow> False | Some ob \<Rightarrow>
     \<exists>name. is_ok (Validate_document L (identity_document name (pb_Destination ob))))"

text \<open>The attempts stay within the retry budget: a Job is recorded for at most one attempt more
  than the limit, and none is pending beyond it.\<close>

definition attempts_ok :: "int \<Rightarrow> AnonymizationRunStatus \<Rightarrow> bool" where
  "attempts_ok limit st = (case rst_Anonymize st of None \<Rightarrow> True | Some a \<Rightarrow>
     1 \<le> as_Attempts a \<and> as_Attempts a \<le> limit + 1 \<and> (as_JobName a = [] \<longrightarrow> as_Attempts a \<le> limit))"

definition status_typed :: "klib \<Rightarrow> int \<Rightarrow> AnonymizationRunStatus \<Rightarrow> bool" where
  "status_typed L limit st \<longleftrightarrow>
     rst_Phase st \<in> set run_phases \<and>
     (rst_Phase st \<in> phases_from RunPhaseProvisioning \<union> finishing \<longrightarrow> rst_Source st \<noteq> None \<and> cluster_named st) \<and>
     (rst_Phase st \<in> phases_from RunPhaseRestoring \<union> finishing \<longrightarrow> cluster_known st) \<and>
     (rst_Phase st \<in> phases_from RunPhaseAnonymizing \<union> finishing \<longrightarrow> rst_RestoreName st \<noteq> []) \<and>
     (rst_Phase st \<in> phases_from RunPhaseBackingUp \<union> finishing \<longrightarrow> reported_ok st) \<and>
     (rst_Phase st \<in> phases_from RunPhasePublishing \<longrightarrow> output_known L st) \<and>
     attempts_ok limit st"

text \<open>A status patch from a phase: the base has the phase, the new one is the next of the pipeline
  and the new status is typed.\<close>

definition typed_patch :: "'w run_env \<Rightarrow> int \<Rightarrow> string \<Rightarrow> rreq \<Rightarrow> bool" where
  "typed_patch E limit phase q = (case q of
     QPatchStatus base run \<Rightarrow> rst_Phase (run_Status base) = phase \<and>
       pipeline phase (rst_Phase (run_Status run)) \<and> status_typed (e_klib E) limit (run_Status run)
   | _ \<Rightarrow> True)"

lemma typed_patch_simps [simp]:
  "typed_patch E limit p (QCreate c)" "typed_patch E limit p (QDelete k om)" "typed_patch E limit p (QPatchRun b r)"
  "typed_patch E limit p (QPutPointer t d)" "typed_patch E limit p (QEvent e m)"
  by (simp_all add: typed_patch_def)

text \<open>What a condition, the observed generation and the times do not change.\<close>

lemma status_typed_simps [simp]:
  "status_typed L n (st\<lparr>rst_Conditions := cs\<rparr>) = status_typed L n st"
  "status_typed L n (st\<lparr>rst_ObservedGeneration := g\<rparr>) = status_typed L n st"
  "status_typed L n (st\<lparr>rst_CompletedAt := t\<rparr>) = status_typed L n st"
  "status_typed L n (st\<lparr>rst_StartedAt := t\<rparr>) = status_typed L n st"
  "status_typed L n (st\<lparr>rst_PrunedBackups := ns\<rparr>) = status_typed L n st"
  by (simp_all add: status_typed_def cluster_named_def cluster_known_def output_known_def reported_ok_def attempts_ok_def)

lemma phase_set_simps [simp]:
  "phases_from ''Provisioning'' = {''Provisioning'', ''Restoring'', ''Anonymizing'', ''BackingUp'', ''Publishing'', ''Pruning''}"
  "phases_from ''Restoring'' = {''Restoring'', ''Anonymizing'', ''BackingUp'', ''Publishing'', ''Pruning''}"
  "phases_from ''Anonymizing'' = {''Anonymizing'', ''BackingUp'', ''Publishing'', ''Pruning''}"
  "phases_from ''BackingUp'' = {''BackingUp'', ''Publishing'', ''Pruning''}"
  "phases_from ''Publishing'' = {''Publishing'', ''Pruning''}"
  by (auto simp: phases_from_def)

lemmas status_simps = observed_def with_status_def set_condition_at_def failed_status_def with_anonymize_def
  set_cluster_uid_def set_cluster_ready_def set_restore_name_def set_cluster_deleted_def record_result_def

text \<open>What is typed in each phase.\<close>

lemma typed_at:
  "rst_Phase st = RunPhasePending \<or> rst_Phase st = RunPhaseResolvingSource \<or> rst_Phase st = RunPhaseFailed \<or>
     rst_Phase st = [] \<Longrightarrow> status_typed L n st \<longleftrightarrow> attempts_ok n st"
  "rst_Phase st = RunPhaseProvisioning \<Longrightarrow>
     status_typed L n st \<longleftrightarrow> rst_Source st \<noteq> None \<and> cluster_named st \<and> attempts_ok n st"
  "rst_Phase st = RunPhaseRestoring \<Longrightarrow>
     status_typed L n st \<longleftrightarrow> rst_Source st \<noteq> None \<and> cluster_named st \<and> cluster_known st \<and> attempts_ok n st"
  "rst_Phase st = RunPhaseAnonymizing \<Longrightarrow>
     status_typed L n st \<longleftrightarrow> rst_Source st \<noteq> None \<and> cluster_named st \<and> cluster_known st \<and> rst_RestoreName st \<noteq> [] \<and>
       attempts_ok n st"
  "rst_Phase st = RunPhaseBackingUp \<or> rst_Phase st = RunPhaseCleaningUp \<or> rst_Phase st = RunPhaseCompleted \<Longrightarrow>
     status_typed L n st \<longleftrightarrow> rst_Source st \<noteq> None \<and> cluster_named st \<and> cluster_known st \<and> rst_RestoreName st \<noteq> [] \<and>
       reported_ok st \<and> attempts_ok n st"
  "rst_Phase st = RunPhasePublishing \<or> rst_Phase st = RunPhasePruning \<Longrightarrow>
     status_typed L n st \<longleftrightarrow> rst_Source st \<noteq> None \<and> cluster_named st \<and> cluster_known st \<and> rst_RestoreName st \<noteq> [] \<and>
       reported_ok st \<and> output_known L st \<and> attempts_ok n st"
  by ((elim disjE)?; simp add: status_typed_def run_phases_def finishing_def)+

lemma status_typed_failed:
  "status_typed L n st \<Longrightarrow> status_typed L n (st\<lparr>rst_Phase := RunPhaseFailed\<rparr>)"
  by (simp add: typed_at) (simp add: status_typed_def attempts_ok_def)

lemma typed_failed:
  assumes "status_typed (e_klib E) n (run_Status run)" "rst_Phase (run_Status base) = p" "p \<noteq> []" "p \<noteq> RunPhaseCompleted"
  shows "typed_patch E n p (QPatchStatus base (observed (failed_status run ca cs)))"
  using assms status_typed_failed [OF assms(1)] by (auto simp: typed_patch_def status_simps intro: pl_fail)

lemma typed_patchI:
  assumes "rst_Phase (run_Status base) = p" "pipeline p (rst_Phase (run_Status run))" "status_typed (e_klib E) n (run_Status run)"
  shows "typed_patch E n p (QPatchStatus base run)"
  using assms by (simp add: typed_patch_def)

lemma part_simps [simp]:
  "cluster_named (st\<lparr>rst_Phase := p\<rparr>) = cluster_named st" "cluster_known (st\<lparr>rst_Phase := p\<rparr>) = cluster_known st"
  "output_known L (st\<lparr>rst_Phase := p\<rparr>) = output_known L st" "reported_ok (st\<lparr>rst_Phase := p\<rparr>) = reported_ok st"
  "attempts_ok n (st\<lparr>rst_Phase := p\<rparr>) = attempts_ok n st"
  "attempts_ok n (st\<lparr>rst_TempCluster := c\<rparr>) = attempts_ok n st" "attempts_ok n (st\<lparr>rst_PolicyHash := h\<rparr>) = attempts_ok n st"
  "attempts_ok n (st\<lparr>rst_Source := src\<rparr>) = attempts_ok n st" "attempts_ok n (st\<lparr>rst_RestoreName := r\<rparr>) = attempts_ok n st"
  "cluster_named (st\<lparr>rst_RestoreName := r\<rparr>) = cluster_named st" "cluster_known (st\<lparr>rst_RestoreName := r\<rparr>) = cluster_known st"
  "cluster_named (st\<lparr>rst_Output := ob\<rparr>) = cluster_named st" "cluster_known (st\<lparr>rst_Output := ob\<rparr>) = cluster_known st"
  "attempts_ok n (st\<lparr>rst_Output := ob\<rparr>) = attempts_ok n st" "reported_ok (st\<lparr>rst_Output := ob\<rparr>) = reported_ok st"
  "cluster_named (st\<lparr>rst_Anonymize := an\<rparr>) = cluster_named st" "cluster_known (st\<lparr>rst_Anonymize := an\<rparr>) = cluster_known st"
  "cluster_named (st\<lparr>rst_Conditions := cs\<rparr>) = cluster_named st" "cluster_known (st\<lparr>rst_Conditions := cs\<rparr>) = cluster_known st"
  "reported_ok (st\<lparr>rst_Conditions := cs\<rparr>) = reported_ok st" "attempts_ok n (st\<lparr>rst_Conditions := cs\<rparr>) = attempts_ok n st"
  "output_known L (st\<lparr>rst_Conditions := cs\<rparr>) = output_known L st"
  "cluster_named (st\<lparr>rst_PrunedBackups := ns\<rparr>) = cluster_named st" "cluster_known (st\<lparr>rst_PrunedBackups := ns\<rparr>) = cluster_known st"
  "reported_ok (st\<lparr>rst_PrunedBackups := ns\<rparr>) = reported_ok st" "attempts_ok n (st\<lparr>rst_PrunedBackups := ns\<rparr>) = attempts_ok n st"
  "cluster_named (st\<lparr>rst_TempCluster := Some tc\<rparr>) \<longleftrightarrow> tcs_Name tc \<noteq> []"
  "cluster_known (st\<lparr>rst_TempCluster := Some tc\<rparr>) \<longleftrightarrow> tcs_UID tc \<noteq> []"
  "reported_ok (st\<lparr>rst_TempCluster := c\<rparr>) = reported_ok st" "output_known L (st\<lparr>rst_TempCluster := c\<rparr>) = output_known L st"
  by (simp_all add: cluster_named_def cluster_known_def output_known_def reported_ok_def attempts_ok_def)

section \<open>The status that each handler writes\<close>

lemma resolveRun_typed:
  assumes "status_typed (e_klib E) n (run_Status run)" "rst_Phase (run_Status run) = p"
    "p = RunPhasePending \<or> p = RunPhaseResolvingSource"
  shows "emits (resolveRun E A run) (typed_patch E n p) (\<lambda>_. True)"
proof -
  have prep: "emits (prepareRunSnapshot E A run) (typed_patch E n p) (\<lambda>_. True)"
    by (intro emits_prepareRunSnapshot) auto
  show ?thesis unfolding resolveRun_def Let_def
    by (intro emits_rules emits_attempt [OF prep] typed_failed typed_patchI TrueI)
      (use assms in \<open>auto simp: status_simps typed_at runTempName_def Let_def intro: pl_resolve\<close>)
qed

lemma provisionRun_typed:
  assumes "status_typed (e_klib E) n (run_Status run)" "rst_Phase (run_Status run) = RunPhaseProvisioning"
  shows "emits (provisionRun E A run sn) (typed_patch E n RunPhaseProvisioning) (\<lambda>_. True)"
proof -
  have c: "emits (provision_cluster E A run tc u) (typed_patch E n RunPhaseProvisioning) (\<lambda>_. True)"
    if "rst_TempCluster (run_Status run) = Some tc" for tc u
    unfolding provision_cluster_def Let_def
    by (intro emits_rules typed_failed typed_patchI TrueI)
      (use assms that in \<open>auto simp: status_simps typed_at cluster_named_def cluster_known_def intro: pl_stay pl_provision\<close>)
  show ?thesis unfolding provisionRun_def
    by (intro emits_rules c typed_failed TrueI) (use assms in auto)
qed

text \<open>A status patch that succeeds stores the status that was sent.\<close>

definition patch_echoes_status :: "'w run_api \<Rightarrow> bool" where
  "patch_echoes_status A \<longleftrightarrow>
     (\<forall>base run w run'. fst (a_patch_status A base run w) = Inr run' \<longrightarrow> run_Status run' = run_Status run)"

lemma restoreRun_typed:
  assumes "status_typed (e_klib E) n (run_Status run)" "rst_Phase (run_Status run) = RunPhaseRestoring"
  shows "emits (restoreRun E A run) (typed_patch E n RunPhaseRestoring) (\<lambda>_. True)"
proof -
  have named: "name \<noteq> []" if "RestoreName L (c @ ''-restore'') c = Inr name" for L c name
    using that by (auto simp: RestoreName_def ok_simps Let_def split: if_splits)
  have s: "emits (start_restore E A run tc source name) (typed_patch E n RunPhaseRestoring) (\<lambda>_. True)"
    if "name \<noteq> []" for tc source name
    unfolding start_restore_def
    by (intro emits_rules typed_failed TrueI typed_patchI
        emits_andthen [OF emits_patchRun [where R = "\<lambda>_. True"]])
      (use assms in \<open>auto simp: status_simps typed_at intro: pl_stay intro!: emits_rules\<close>)
  have w: "emits (watch_restore E A run name started u) (typed_patch E n RunPhaseRestoring) (\<lambda>_. True)"
    if "name \<noteq> []" for name started u
    unfolding watch_restore_def
    by (intro emits_rules typed_failed typed_patchI TrueI)
      (use assms in \<open>auto simp: status_simps typed_at intro: pl_stay pl_restore\<close>)
  show ?thesis unfolding restoreRun_def restore_in_def Let_def
    by (intro emits_rules typed_failed TrueI s w) (use assms in \<open>auto split: if_splits dest: named\<close>)
qed

lemma run_progress_simps [simp]:
  "attempts_ok n (st\<lparr>rst_Anonymize := map_option (\<lambda>a. a\<lparr>as_Progress := p\<rparr>) (rst_Anonymize st)\<rparr>) = attempts_ok n st"
  "reported_ok (st\<lparr>rst_Anonymize := map_option (\<lambda>a. a\<lparr>as_Progress := p\<rparr>) (rst_Anonymize st)\<rparr>) = reported_ok st"
  "output_known L (st\<lparr>rst_Anonymize := x\<rparr>) = output_known L st"
  by (simp_all add: attempts_ok_def reported_ok_def output_known_def split: option.split)

lemma resampled_typed:
  assumes "resampled run run'"
  shows "status_typed L n (run_Status run') = status_typed L n (run_Status run)"
    "rst_Phase (run_Status run') = rst_Phase (run_Status run)" "run_Spec run' = run_Spec run"
    "map_option as_Attempts (rst_Anonymize (run_Status run')) = map_option as_Attempts (rst_Anonymize (run_Status run))"
    "map_option as_JobName (rst_Anonymize (run_Status run')) = map_option as_JobName (rst_Anonymize (run_Status run))"
    "rst_PolicyHash (run_Status run') = rst_PolicyHash (run_Status run)"
proof -
  have "status_typed L n (st\<lparr>rst_Anonymize := map_option (\<lambda>a. a\<lparr>as_Progress := p\<rparr>) (rst_Anonymize st)\<rparr>) =
      status_typed L n st" for st p by (simp add: status_typed_def)
  then show "status_typed L n (run_Status run') = status_typed L n (run_Status run)"
    using assms by (auto simp: resampled_def status_simps)
qed (use assms in \<open>auto simp: resampled_def status_simps option.map_comp comp_def\<close>)

text \<open>An attempt that was recorded has a Job.\<close>

definition recorded :: "AnonymizationRun \<Rightarrow> bool" where
  "recorded run = (case rst_Anonymize (run_Status run) of None \<Rightarrow> False | Some a \<Rightarrow> as_JobName a \<noteq> [])"

lemma retryRunAttempt_typed:
  assumes "status_typed (e_klib E) n (run_Status run)" "rst_Phase (run_Status run) = RunPhaseAnonymizing"
    "rst_Phase (run_Status base) = RunPhaseAnonymizing" "recorded run" "n = rspec_BackoffLimit (run_Spec run)"
  shows "emits (retryRunAttempt E A run base msg) (typed_patch E n RunPhaseAnonymizing) (\<lambda>_. True)"
  unfolding retryRunAttempt_def
  by (intro emits_rules typed_failed typed_patchI TrueI)
    (use assms in \<open>auto simp: status_simps recorded_def typed_at attempts_ok_def intro: pl_stay\<close>)

lemma finishRunAttempt_typed:
  assumes "status_typed (e_klib E) n (run_Status run)" "rst_Phase (run_Status run) = RunPhaseAnonymizing"
    "rst_Phase (run_Status base) = RunPhaseAnonymizing" "recorded run" "n = rspec_BackoffLimit (run_Spec run)"
  shows "emits (finishRunAttempt E A run base t) (typed_patch E n RunPhaseAnonymizing) (\<lambda>_. True)"
proof -
  obtain a where a: "rst_Anonymize (run_Status run) = Some a" "as_JobName a \<noteq> []"
    using assms(4) by (auto simp: recorded_def split: option.splits)
  have r: "status_typed (e_klib E) n (run_Status (record_result now r run))" "recorded (record_result now r run)"
    "rst_Phase (run_Status (record_result now r run)) = RunPhaseAnonymizing"
    "run_Spec (record_result now r run) = run_Spec run" for now r
    using assms(1,2) a by (auto simp: typed_at status_simps attempts_ok_def recorded_def)
  have ok: "reported_ok (run_Status (record_result now r run))" if "runReport (e_report E) (Some t) h = Some r" "Report.Result r \<noteq> ResultError" for now r h
    using that a by (auto simp: status_simps reported_ok_def runReport_def report_shape_ok_def split: if_splits option.splits)
  show ?thesis unfolding finishRunAttempt_def Let_def
    by (intro emits_rules retryRunAttempt_typed typed_failed typed_patchI TrueI)
      (use assms r in \<open>auto simp: typed_at observed_def with_status_def set_condition_at_def intro!: ok intro: pl_anonymize pl_dry_run\<close>)
qed

lemma start_attempt_typed:
  assumes "status_typed (e_klib E) n (run_Status run)" "rst_Phase (run_Status run) = RunPhaseAnonymizing"
    "rst_Anonymize (run_Status run) = None \<or> \<not> recorded run" "0 \<le> n" "n < 2147483647" "patch_echoes_status A"
  shows "emits (start_attempt E A run sn) (typed_patch E n RunPhaseAnonymizing) (\<lambda>_. True)"
proof -
  let ?att = "case rst_Anonymize (run_Status run) of None \<Rightarrow> 1 | Some a \<Rightarrow> wrap32 (as_Attempts a + 1)"
  have att: "1 \<le> ?att" "?att \<le> n + 1"
    using assms(1-5) by (auto simp: typed_at attempts_ok_def recorded_def wrap32_def split: option.splits)
  let ?run = "\<lambda>now. observed (with_status (\<lambda>st. st\<lparr>rst_Anonymize := Some \<lparr>as_JobName = runChildName (e_klib E) run (''anonymize-'' @ int_dec ?att),
            as_Attempts = ?att, as_StartedAt = Some now, as_CompletedAt = None, as_Progress = None, as_LastResult = None\<rparr>\<rparr>) run)"
  have t: "status_typed (e_klib E) n (run_Status (?run now))" "rst_Phase (run_Status (?run now)) = RunPhaseAnonymizing" for now
    using assms(1,2) att by (auto simp: typed_at status_simps attempts_ok_def runChildName_def Let_def)
  show ?thesis unfolding start_attempt_def Let_def
    by (intro emits_rules typed_failed typed_patchI TrueI emits_andthen [OF emits_patchRun [where
          R = "\<lambda>(r, _). status_typed (e_klib E) n (run_Status r) \<and> rst_Phase (run_Status r) = RunPhaseAnonymizing"]])
      (use t assms(2,6) in \<open>auto simp: patch_echoes_status_def intro: pl_stay intro!: emits_rules typed_failed\<close>)
qed

lemma anonymizeRun_typed:
  assumes "status_typed (e_klib E) n (run_Status run)" "rst_Phase (run_Status run) = RunPhaseAnonymizing"
    "n = rspec_BackoffLimit (run_Spec run)" "0 \<le> n" "n < 2147483647" "patch_echoes_status A"
  shows "emits (anonymizeRun E A run sn) (typed_patch E n RunPhaseAnonymizing) (\<lambda>_. True)"
proof -
  have w: "emits (watch_attempt E A run att job) (typed_patch E n RunPhaseAnonymizing) (\<lambda>_. True)" if "recorded run" for att job
  proof -
    have r: "status_typed (e_klib E) n (run_Status run')" "rst_Phase (run_Status run') = RunPhaseAnonymizing" "recorded run'"
      "run_Spec run' = run_Spec run" if "resampled run run'" for run'
      using resampled_typed [OF that] assms \<open>recorded run\<close> by (auto simp: recorded_def split: option.splits)
    show ?thesis unfolding watch_attempt_def
      by (intro emits_rules emits_andthen [OF emits_scan_pods] typed_failed typed_patchI TrueI finishRunAttempt_typed)
        (use assms r in \<open>auto simp: observed_def intro!: emits_rules finishRunAttempt_typed typed_failed typed_patchI intro: pl_stay split: option.split\<close>)
  qed
  show ?thesis unfolding anonymizeRun_def
    by (intro emits_rules start_attempt_typed w typed_failed TrueI retryRunAttempt_typed)
      (use assms in \<open>auto simp: recorded_def\<close>)
qed

lemma backupRun_typed:
  assumes "status_typed (e_klib E) n (run_Status run)" "rst_Phase (run_Status run) = RunPhaseBackingUp"
  shows "emits (backupRun E A run) (typed_patch E n RunPhaseBackingUp) (\<lambda>_. True)"
proof -
  have w: "emits (watch_backup E A run u) (typed_patch E n RunPhaseBackingUp) (\<lambda>_. True)"
    if "rst_Output (run_Status run) = Some ob" for ob u
    unfolding watch_backup_def Let_def
    by (intro emits_rules typed_failed typed_patchI TrueI)
      (use assms that in \<open>auto simp: status_simps typed_at output_known_def intro: pl_backup\<close>)
  show ?thesis unfolding backupRun_def Let_def
    by (intro emits_rules typed_failed typed_patchI TrueI w)
      (use assms in \<open>auto simp: status_simps typed_at intro: pl_stay\<close>)
qed

lemma publishRun_typed:
  assumes "status_typed (e_klib E) n (run_Status run)" "rst_Phase (run_Status run) = RunPhasePublishing"
  shows "emits (publishRun E A run) (typed_patch E n RunPhasePublishing) (\<lambda>_. True)"
proof -
  have put: "emits (put_pointer E A ns target doc) (typed_patch E n RunPhasePublishing) (\<lambda>_. True)" for ns target doc
    unfolding put_pointer_def by (intro emits_rules typed_patch_simps TrueI)
  have p: "emits (publish_backup E A run ob target) (typed_patch E n RunPhasePublishing) (\<lambda>_. True)"
    if "rst_Output (run_Status run) = Some ob" for ob target
    unfolding publish_backup_def Let_def
    by (intro emits_rules emits_attempt [OF put] typed_failed typed_patchI TrueI)
      (use assms that in \<open>auto simp: status_simps typed_at output_known_def intro: pl_stay pl_publish\<close>)
  show ?thesis unfolding publishRun_def Let_def
    by (intro emits_rules typed_failed typed_patchI TrueI p)
      (use assms in \<open>auto simp: status_simps typed_at intro: pl_publish\<close>)
qed

lemma pruneRun_typed:
  assumes "status_typed (e_klib E) n (run_Status run)" "rst_Phase (run_Status run) = RunPhasePruning"
  shows "emits (pruneRun E A run) (typed_patch E n RunPhasePruning) (\<lambda>_. True)"
  unfolding pruneRun_def Let_def
  by (intro emits_rules emits_andthen [OF emits_prune_loop] typed_patchI typed_patch_simps TrueI)
    (use assms in \<open>auto simp: repruned_def status_simps typed_at intro: pl_prune\<close>)

text \<open>Cleaning up keeps the phase, except that a run that is cleaning up completes.\<close>

lemma status_typed_cluster:
  assumes "rst_TempCluster st = Some tc" "tcs_Name tc' = tcs_Name tc" "tcs_UID tc \<noteq> [] \<longrightarrow> tcs_UID tc' \<noteq> []"
    "status_typed L n st"
  shows "status_typed L n (st\<lparr>rst_TempCluster := Some tc'\<rparr>)"
  using assms by (auto simp: status_typed_def cluster_named_def cluster_known_def)

lemma set_cluster_uid_typed:
  assumes "rst_TempCluster (run_Status run) = Some tc" "tcs_UID tc = []" "status_typed L n (run_Status run)"
  shows "status_typed L n (run_Status (set_cluster_uid uid run))"
  using assms status_typed_cluster [of "run_Status run" tc "tc\<lparr>tcs_UID := uid\<rparr>"] by (simp add: status_simps)

lemma status_typed_same_cluster:
  assumes "map_option (\<lambda>t. (tcs_Name t, tcs_UID t)) c = map_option (\<lambda>t. (tcs_Name t, tcs_UID t)) (rst_TempCluster st)"
  shows "status_typed L n (st\<lparr>rst_TempCluster := c\<rparr>) = status_typed L n st"
proof -
  have "cluster_named (st\<lparr>rst_TempCluster := c\<rparr>) = cluster_named st" "cluster_known (st\<lparr>rst_TempCluster := c\<rparr>) = cluster_known st"
    using assms by (cases c; cases "rst_TempCluster st"; auto simp: cluster_named_def cluster_known_def)+
  then show ?thesis by (simp add: status_typed_def del: phase_set_simps)
qed

lemma set_cluster_deleted_typed [simp]:
  "status_typed L n (run_Status (set_cluster_deleted now run)) = status_typed L n (run_Status run)"
  "rst_Phase (run_Status (set_cluster_deleted now run)) = rst_Phase (run_Status run)"
  unfolding set_cluster_deleted_def with_status_def
  by (simp, rule status_typed_same_cluster, cases "rst_TempCluster (run_Status run)") (auto split: option.split)

text \<open>Setting one condition leaves the others as they are.\<close>

definition keeps_other_conditions :: "klib \<Rightarrow> bool" where
  "keeps_other_conditions L \<longleftrightarrow> (\<forall>cs c ty. ty \<noteq> cond_Type c \<longrightarrow>
     is_condition_true L (set_status_condition L cs c) ty = is_condition_true L cs ty)"

lemma cond_true_other:
  assumes "keeps_other_conditions (e_klib E)" "ty \<noteq> kind"
  shows "cond_true E (set_condition_at (e_klib E) now run kind st reason msg) ty = cond_true E run ty"
  using assms by (simp add: keeps_other_conditions_def cond_true_def set_condition_at_def Set_condition_def condition_def)

lemma status_typed_completed:
  "rst_Phase st = RunPhaseCleaningUp \<or> rst_Phase st = RunPhaseCompleted \<Longrightarrow> status_typed L n st \<Longrightarrow>
     status_typed L n (st\<lparr>rst_Phase := RunPhaseCompleted\<rparr>)"
  by (auto simp: typed_at)

lemma set_condition_typed [simp]:
  "status_typed L n (run_Status (set_condition_at K now run k st re msg)) = status_typed L n (run_Status run)"
  "rst_Phase (run_Status (set_condition_at K now run k st re msg)) = rst_Phase (run_Status run)"
  "status_typed L n (run_Status (observed run)) = status_typed L n (run_Status run)"
  "rst_Phase (run_Status (observed run)) = rst_Phase (run_Status run)"
  "rst_Phase (run_Status (with_status f run)) = rst_Phase (f (run_Status run))"
  by (simp_all add: set_condition_at_def observed_def with_status_def)

lemma cleanup_done_typed:
  assumes typed: "status_typed (e_klib E) n (run_Status run)" and p: "rst_Phase (run_Status run) = p"
    and ph: "del \<or> cond_true E run runConditionFailed \<or> p = RunPhaseCleaningUp \<or> p = RunPhaseCompleted"
    and law: "keeps_other_conditions (e_klib E)"
  shows "emits (cleanup_done E A run del) (typed_patch E n p) (\<lambda>_. True)"
proof -
  have c: "cond_true E (set_condition_at (e_klib E) t (set_cluster_deleted now run) runConditionCleaned a b m) runConditionFailed =
      cond_true E run runConditionFailed" for t now a b m
    by (subst cond_true_other [OF law]) (auto simp: cond_true_def set_cluster_deleted_def with_status_def)
  have fin: "p = RunPhaseCleaningUp \<or> p = RunPhaseCompleted" if "\<not> del" "\<not> cond_true E run runConditionFailed"
    using ph that by blast
  have comp: "status_typed (e_klib E) n (run_Status (with_status (\<lambda>st. st\<lparr>rst_Phase := RunPhaseCompleted, rst_CompletedAt := t\<rparr>) r))"
    if "status_typed (e_klib E) n (run_Status r)" "rst_Phase (run_Status r) = RunPhaseCleaningUp \<or> rst_Phase (run_Status r) = RunPhaseCompleted" for t r
    using status_typed_completed [OF that(2,1)] by (simp add: with_status_def)
  show ?thesis unfolding cleanup_done_def
    by (intro emits_rules typed_patchI typed_patch_simps TrueI)
      (use p typed fin in \<open>auto simp: c intro!: comp intro: pl_stay pl_complete\<close>)
qed

lemma cleanupRun_typed:
  assumes typed: "status_typed (e_klib E) n (run_Status run)" and p: "rst_Phase (run_Status run) = p"
    and ph: "del \<or> cond_true E run runConditionFailed \<or> p = RunPhaseCleaningUp \<or> p = RunPhaseCompleted"
    and law: "keeps_other_conditions (e_klib E)"
  shows "emits (cleanupRun E A run del) (typed_patch E n p) (\<lambda>_. True)"
proof -
  have j: "emits (cleanup_job E A run del) (typed_patch E n p) (\<lambda>_. True)"
    unfolding cleanup_job_def by (intro emits_rules emits_deleteRunOwned typed_patch_simps TrueI)
  have g: "emits (deleteRunGeneratedSecrets E A run tc) (typed_patch E n p) (\<lambda>_. True)" for tc
    unfolding deleteRunGeneratedSecrets_def delete_generated_def
    by (intro emits_rules emits_foldm typed_patch_simps TrueI)
  have d: "emits (delete_cluster E A run tc u) (typed_patch E n p) (\<lambda>_. True)"
    if "rst_TempCluster (run_Status run) = Some tc" for tc u
    unfolding delete_cluster_def Let_def
    by (intro emits_rules typed_patchI typed_patch_simps TrueI)
      (use typed p that set_cluster_uid_typed [OF that] in \<open>auto simp: set_cluster_uid_def [THEN arg_cong, of "\<lambda>r. rst_Phase (run_Status r)"] intro: pl_stay\<close>)
  have c: "emits (cleanupRunCluster E A run) (typed_patch E n p) (\<lambda>_. True)"
    unfolding cleanupRunCluster_def
    by (intro emits_rules emits_andthen [OF d] emits_andthen [OF g] typed_patch_simps TrueI)
  show ?thesis unfolding cleanupRun_def
    by (intro emits_rules emits_andthen [OF j] emits_andthen [OF c] cleanup_done_typed typed_patchI TrueI)
      (use typed p ph law in \<open>auto intro: pl_stay\<close>)
qed

section \<open>A whole reconcile keeps the status typed\<close>

definition snapshot_limit :: "'w run_env \<Rightarrow> 'w run_api \<Rightarrow> AnonymizationRun \<Rightarrow> int \<Rightarrow> bool" where
  "snapshot_limit E A run n \<longleftrightarrow> 0 \<le> n \<and> n < 2147483647 \<and>
     (\<forall>sn. snapshot_of E A run sn \<longrightarrow> rspec_BackoffLimit (sn_Spec sn) = n)"

lemma dispatch_typed:
  assumes "status_typed (e_klib E) n (run_Status run)" "rst_Phase (run_Status run) = p"
    "n = rspec_BackoffLimit (run_Spec run)" "0 \<le> n" "n < 2147483647" "patch_echoes_status A" "keeps_other_conditions (e_klib E)"
  shows "emits (dispatch E A run sn) (typed_patch E n p) (\<lambda>_. True)"
  unfolding dispatch_def Let_def finishRun_def assms(2)
  by (intro emits_rules TrueI) (use assms in \<open>simp_all add: provisionRun_typed restoreRun_typed anonymizeRun_typed
      backupRun_typed publishRun_typed pruneRun_typed cleanupRun_typed\<close>)

lemma Reconcile_run_typed:
  assumes server: "patch_echoes_status A" "keeps_other_conditions (e_klib E)"
    and run: "reads_run A ns name run" "snapshot_limit E A run n" "status_typed (e_klib E) n (run_Status run)"
  shows "emits (Reconcile_run E A ns name) (typed_patch E n (rst_Phase (run_Status run))) (\<lambda>_. True)"
proof -
  let ?p = "rst_Phase (run_Status run)"
  have settle: "emits (settle_run E A run) (typed_patch E n ?p) (\<lambda>_. True)"
    if "cond_true E run runConditionFailed \<or> ?p = RunPhaseCompleted"
    unfolding settle_run_def Let_def
    by (intro emits_rules cleanupRun_typed TrueI) (use that run server in \<open>auto simp: cond_true_def split: sum.splits\<close>)
  have disp: "emits (dispatch E A (from_snapshot run sn) sn) (typed_patch E n ?p) (\<lambda>_. True)" if "snapshot_of E A run sn" for sn
    using run server that by (intro dispatch_typed) (auto simp: from_snapshot_def snapshot_limit_def)
  have adv: "emits (advance_run E A run) (typed_patch E n ?p) (\<lambda>_. True)"
    unfolding advance_run_def
    by (intro emits_rules settle disp resolveRun_typed typed_failed typed_patchI typed_patch_simps TrueI)
      (use run in \<open>auto simp: with_status_def typed_at intro: pl_start\<close>)
  have "emits (reconcileRun E A ns name) (typed_patch E n ?p) (\<lambda>_. True)"
    unfolding reconcileRun_def
    by (intro emits_rules TrueI) (use run server adv in \<open>auto simp: reads_run_def intro!: cleanupRun_typed\<close>)
  then show ?thesis unfolding Reconcile_run_def
    by (rule emits_attempt) (auto intro!: emits_rules)
qed

end
