(* ===== verification/Run_Properties.thy ===== *)
theory Run_Properties
  imports Run_Safety
begin

text \<open>
  The properties of the run controller, with a concrete API server on which each is exercised.
  The status properties are about every status that any history of reconciles can store.
\<close>

section \<open>Histories\<close>

text \<open>The statuses that the API server can hold: a fresh one, and what a reconcile of a run with
  a held status patches, on any server that stores what it is sent and for any behaviour of the
  rest of the cluster.\<close>

inductive reachable_status :: "'w run_env \<Rightarrow> int \<Rightarrow> AnonymizationRunStatus \<Rightarrow> bool" for E :: "'w run_env" and n where
  fresh: "reachable_status E n empty_run_status"
| reconciled: "reachable_status E n (run_Status run) \<Longrightarrow> patch_echoes_status A \<Longrightarrow> reads_run A ns name run \<Longrightarrow>
    snapshot_limit E A run n \<Longrightarrow> Reconcile_run E A ns name \<lparr>world = w, log = []\<rparr> = (r, s) \<Longrightarrow>
    QPatchStatus base run' \<in> set (log s) \<Longrightarrow> reachable_status E n (run_Status run')"

lemma reachable_typed:
  assumes "reachable_status E n st" "keeps_other_conditions (e_klib E)"
  shows "status_typed (e_klib E) n st"
  using assms(1)
proof induction
  case fresh
  then show ?case by (simp add: typed_at empty_run_status_def attempts_ok_def)
next
  case (reconciled run A ns name w r s base run')
  then have "typed_patch E n (rst_Phase (run_Status run)) (QPatchStatus base run')"
    using assms(2) by (intro emits_trace [OF Reconcile_run_typed]) auto
  then show ?case by (simp add: typed_patch_def)
qed

lemma seen_as_same:
  assumes "seen_as E A run run'"
  shows "run_Status run' = run_Status run" "run_ns run' = run_ns run" "run_uid run' = run_uid run" "run_name run' = run_name run"
    "deleting (run_Meta run') = deleting (run_Meta run)" "has_finalizer run' = has_finalizer run"
    "same_run run' run"
  using assms by (auto simp: seen_as_def from_snapshot_def run_ns_def run_uid_def run_name_def deleting_def
      has_finalizer_def same_run_def)

lemma reconcile_request:
  assumes "patch_keeps_identity A" "reads_run A ns name run"
    "Reconcile_run E A ns name \<lparr>world = w, log = []\<rparr> = (r, s)" "q \<in> set (log s)"
  obtains run' where "seen_as E A run run'" "justified E A run' q"
  using emits_trace [OF Reconcile_run_justified [OF assms(1,2)] assms(3,4)] unfolding justified_run_def by blast

section \<open>A concrete server\<close>

definition sample_env :: "unit run_env" where
  "sample_env = \<lparr>e_klib = sample_klib, e_lib = sample_lib, e_re_ok = (\<lambda>_. True), e_wire = demo_wire,
     e_certs = sample_certlib, e_minio = (\<lambda>_. None), e_http = sample_get,
     e_s3 = \<lparr>s3_put = (\<lambda>_ _ _ _ _ w. (Inr ''etag'', w)), s3_get = (\<lambda>_ _ _ _. Inl SNotFound), s3_stat = (\<lambda>_ _ _ _. Inl SNotFound)\<rparr>,
     e_docwire = tiny_wire,
     e_backup_conv = (\<lambda>_. Inl (SText ''conv'')), e_cluster_conv = (\<lambda>_. Inl (SText ''conv'')), e_restore_conv = (\<lambda>_. Inl (SText ''conv'')),
     e_spec_marshal = (\<lambda>_. Inr ''spec''), e_spec_unmarshal = (\<lambda>_. Inr sample_run_spec),
     e_source_marshal = (\<lambda>_. Inr ''source''), e_source_unmarshal = (\<lambda>_. Inr \<lparr>rss_Source = source_literal ''s3://backups/full'',
       rss_Reason = ''Literal'', rss_OutputGroup = ''nightly''\<rparr>),
     e_report = (\<lambda>_. None), e_log_entry = (\<lambda>_. None), e_minute_layout = (\<lambda>_. ''202601010000''), e_rfc3339 = (\<lambda>_. ''2026-01-01T00:00:00Z''),
     e_RunnerImage = ''runner:1'', e_Recorder = True, e_fetchPointer = None, e_podLogs = None, e_putPointer = None\<rparr>"

lemma sample_env_klib [simp]: "e_klib sample_env = sample_klib"
  by (simp add: sample_env_def)

text \<open>A server with one run and nothing else.\<close>

definition quiet_api :: "AnonymizationRun \<Rightarrow> unit run_api" where
  "quiet_api run = \<lparr>a_now = (\<lambda>w. (5, w)), a_random = (\<lambda>k w. (Inr (replicate k (CHR ''x'')), w)), a_tick = id, a_has_reader = True,
     a_secrets = (\<lambda>_ _ _. Inl KNotFound), a_get_run = (\<lambda>_ _ w. (Inr run, w)), a_get_policy = (\<lambda>_ _ w. (Inl (CKube KNotFound), w)),
     a_get_pointer = (\<lambda>_ _ w. (Inl (CKube KNotFound), w)), a_get_configmap = (\<lambda>_ _ _ w. (Inl (CKube KNotFound), w)),
     a_get_job = (\<lambda>_ _ _ w. (Inl (CKube KNotFound), w)), a_get_object = (\<lambda>_ _ _ _ w. (Inl (CKube KNotFound), w)),
     a_list_pods = (\<lambda>_ _ w. (Inr [], w)), a_list_backups = (\<lambda>_ _ w. (Inr [], w)), a_list_runs = (\<lambda>_ w. (Inr [], w)),
     a_create = (\<lambda>_ w. (Inr (), w)), a_delete = (\<lambda>_ _ w. (Inr (), w)), a_patch_status = (\<lambda>_ r w. (Inr r, w)),
     a_patch_run = (\<lambda>_ r w. (Inr r, w))\<rparr>"

lemma quiet_api_simps:
  "a_get_run (quiet_api run) ns name w = (Inr run, w)" "a_now (quiet_api run) u = (5, u)"
  "a_patch_run (quiet_api run) base run' u = (Inr run', u)" "a_patch_status (quiet_api run) base run' u = (Inr run', u)"
  by (simp_all add: quiet_api_def)

lemma upsert_other:
  "ty \<noteq> cond_Type c \<Longrightarrow> list_ex (\<lambda>d. cond_Type d = ty \<and> cond_Status d = ''True'') (upsert_condition cs c) =
     list_ex (\<lambda>d. cond_Type d = ty \<and> cond_Status d = ''True'') cs"
  by (auto simp: upsert_condition_def list_ex_iff split: if_splits)

lemma sample_server:
  "keeps_other_conditions (e_klib sample_env)" "patch_echoes_status (quiet_api run)" "patch_keeps_identity (quiet_api run)"
  "reads_run (quiet_api run) ns name run"
  by (auto simp: keeps_other_conditions_def sample_env_def sample_klib_def upsert_other patch_echoes_status_def
      patch_keeps_identity_def quiet_api_def reads_run_def)

section \<open>The status\<close>

text \<open>C7 (type).  Every status that any history of reconciles stores is well typed for its phase: the
  phase is one of the API's, the source and the temporary cluster are recorded from provisioning
  on and the cluster's UID from restoring on, the restore is named from anonymizing on, a report
  of success is recorded from backing up on, a valid destination is known while publishing and
  pruning, and the number of attempts stays within the retry budget of the snapshot.\<close>

theorem run_status_typed:
  assumes "reachable_status E n st" "keeps_other_conditions (e_klib E)"
  shows "status_typed (e_klib E) n st"
  using reachable_typed [OF assms] .

definition started_run :: AnonymizationRun where
  "started_run = observed (with_status (\<lambda>st. st\<lparr>rst_Phase := RunPhasePending, rst_StartedAt := Some 5\<rparr>) sample_run)"

lemma started_trace:
  "Reconcile_run sample_env (quiet_api sample_run) ns name \<lparr>world = (), log = []\<rparr> =
     (Inr (after 1), \<lparr>world = (), log = [QPatchStatus sample_run started_run]\<rparr>)"
  by (simp add: Reconcile_run_def reconcileRun_def advance_run_def quiet_api_def attempt_def query_def andthen_def ret_def
      runTime_def patched_def patchRun_def request_def sample_run_def empty_run_status_def empty_meta_def deleting_def
      with_status_def observed_def nanosecond_def started_run_def Let_def)

lemma no_snapshot: "\<not> snapshot_of E (quiet_api run) run sn"
  by (simp add: snapshot_of_def quiet_api_def)

theorem run_status_typed_witness:
  "rst_Phase (run_Status started_run) = RunPhasePending \<and> status_typed sample_klib 2 (run_Status started_run)"
proof -
  have "reachable_status sample_env 2 (run_Status sample_run)"
    using reachable_status.fresh [of sample_env 2] by (simp add: sample_run_def)
  then have "reachable_status sample_env 2 (run_Status started_run)"
    by (rule reachable_status.reconciled [OF _ sample_server(2,4) _ started_trace])
      (auto simp: snapshot_limit_def no_snapshot)
  from run_status_typed [OF this sample_server(1)] show ?thesis
    by (simp add: sample_env_def started_run_def with_status_def observed_def)
qed

text \<open>C6 (refinement).  A reconcile implements the pipeline: each status it patches, on a run whose
  stored status is typed, moves the phase from the stored one along an edge of the
  specification, or leaves it; in particular nothing leaves the completed and failed phases, and
  no phase is skipped but by a dry run.\<close>

theorem run_refines_pipeline:
  assumes "patch_echoes_status A" "keeps_other_conditions (e_klib E)" "reads_run A ns name run" "snapshot_limit E A run n"
    "reachable_status E n (run_Status run)"
    "Reconcile_run E A ns name \<lparr>world = w, log = []\<rparr> = (r, s)" "QPatchStatus base run' \<in> set (log s)"
  shows "rst_Phase (run_Status base) = rst_Phase (run_Status run) \<and>
    pipeline (rst_Phase (run_Status run)) (rst_Phase (run_Status run'))"
  using emits_trace [OF Reconcile_run_typed [OF assms(1-4) reachable_typed [OF assms(5,2)]] assms(6,7)]
  by (simp add: typed_patch_def)

theorem run_refines_pipeline_witness:
  "pipeline (rst_Phase (run_Status sample_run)) (rst_Phase (run_Status started_run))"
proof -
  have "reachable_status sample_env 2 (run_Status sample_run)"
    using reachable_status.fresh [of sample_env 2] by (simp add: sample_run_def)
  from run_refines_pipeline [OF sample_server(2,1,4) _ this started_trace, of sample_run started_run]
  show ?thesis by (simp add: snapshot_limit_def no_snapshot)
qed

section \<open>Requests\<close>

text \<open>C11 (safety).  Whatever the API server answers, a reconcile deletes an object only under its UID,
  and only one that the run controls, a Secret that the recorded temporary cluster controls, or,
  while pruning, an output backup without owner whose own run is settled and which is not the
  output of this run.\<close>

theorem run_deletes_only_own:
  assumes "patch_keeps_identity A" "reads_run A ns name run"
    "Reconcile_run E A ns name \<lparr>world = w, log = []\<rparr> = (r, s)" "QDelete k om \<in> set (log s)"
  shows "om_UID om \<noteq> [] \<and>
    (owned_by_run (e_klib E) run om \<or>
     k = KindSecret \<and> (\<exists>tc. rst_TempCluster (run_Status run) = Some tc \<and> tcs_UID tc \<noteq> [] \<and> cluster_generated (e_klib E) tc om) \<or>
     k = KindObject BackupGVK \<and> given_up E A run om)"
proof -
  obtain run' where s: "seen_as E A run run'" and j: "justified E A run' (QDelete k om)"
    using reconcile_request [OF assms] .
  then show ?thesis
    using seen_as_same [OF s] same_run_owned(1) [of run' run "e_klib E" om]
    by (auto simp: justified_def given_up_def)
qed

definition stored_job :: Job where
  "stored_job = \<lparr>job_Meta = empty_meta\<lparr>om_Name := ''nightly-anonymize-1'', om_Namespace := ''shop'', om_UID := ''job-1'',
       om_OwnerReferences := [runOwner sample_klib sample_run]\<rparr>,
     job_Spec = \<lparr>js_BackoffLimit = 0, js_ActiveDeadlineSeconds = 60, js_TTLSecondsAfterFinished = None, js_TemplateLabels = fmempty,
       js_Pod = runner_pod sample_klib sample_run demo_spec (runner_container sample_run ''runner:1'' [])\<rparr>, job_Conditions = []\<rparr>"

text \<open>A run that is being deleted while its runner Job exists.\<close>

definition deleted_run :: AnonymizationRun where
  "deleted_run = sample_run\<lparr>run_Meta := (run_Meta sample_run)\<lparr>om_DeletionTimestamp := Some 4, om_Finalizers := [runFinalizer]\<rparr>,
     run_Status := empty_run_status\<lparr>rst_Phase := RunPhaseAnonymizing, rst_Anonymize := Some \<lparr>as_JobName = ''nightly-anonymize-1'',
       as_Attempts = 1, as_StartedAt = Some 1, as_CompletedAt = None, as_Progress = None, as_LastResult = None\<rparr>\<rparr>\<rparr>"

definition job_api :: "unit run_api" where
  "job_api = (quiet_api deleted_run)\<lparr>a_get_job := (\<lambda>_ _ _ w. (Inr stored_job, w))\<rparr>"

lemma deleted_trace:
  "Reconcile_run sample_env job_api ''shop'' ''nightly'' \<lparr>world = (), log = []\<rparr> =
     (Inr (after runPollInterval), \<lparr>world = (), log = [QDelete KindJob (job_Meta stored_job)]\<rparr>)"
  by (simp add: Reconcile_run_def reconcileRun_def job_api_def quiet_api_def attempt_def query_def andthen_def ret_def
      deleted_run_def deleting_def zero_time_def has_finalizer_def cleanupRun_def cleanup_job_def deleteRunOwned_def get_for_delete_def
      lift_def runOwns_def owned_by_run_def stored_job_def sample_env_def sample_klib_def runOwner_def run_ns_def run_uid_def
      run_name_def sample_run_def empty_meta_def deleteRunObject_def request_def cond_true_def)

theorem run_deletes_only_own_witness:
  "QDelete KindJob (job_Meta stored_job) \<in> set (log (snd (Reconcile_run sample_env job_api ''shop'' ''nightly'' \<lparr>world = (), log = []\<rparr>))) \<and>
   owned_by_run sample_klib deleted_run (job_Meta stored_job)"
proof -
  have "patch_keeps_identity job_api" "reads_run job_api ''shop'' ''nightly'' deleted_run"
    by (simp_all add: patch_keeps_identity_def reads_run_def job_api_def quiet_api_def)
  from run_deletes_only_own [OF this deleted_trace, of KindJob "job_Meta stored_job"]
  show ?thesis by (simp add: deleted_trace)
qed

text \<open>C12 (safety).  Whatever the API server answers, a reconcile creates a child only while its
  finalizer is on the run, under the run's controller reference and labelled with the run's UID;
  the only other object it creates is the output backup of a run that is backing up, rendered
  from the snapshot and annotated with the run's UID.\<close>

theorem run_creates_only_owned:
  assumes "patch_keeps_identity A" "reads_run A ns name run"
    "Reconcile_run E A ns name \<lparr>world = w, log = []\<rparr> = (r, s)" "QCreate c \<in> set (log s)"
  shows "has_finalizer run \<and> (\<exists>d. c = label_child run d \<and> owned_by_run (e_klib E) run (child_meta d)) \<or>
    (\<exists>run'. seen_as E A run run' \<and> output_backup E run' c)"
proof -
  obtain run' where s: "seen_as E A run run'" and j: "justified E A run' (QCreate c)"
    using reconcile_request [OF assms] .
  then show ?thesis
    using seen_as_same [OF s] same_run_owned [of run' run] by (auto simp: justified_def)
qed

text \<open>A run whose snapshot is stored and whose first attempt is due.\<close>

definition ready_run :: AnonymizationRun where
  "ready_run = sample_run\<lparr>run_Meta := (run_Meta sample_run)\<lparr>om_Finalizers := [runFinalizer], om_CreationTimestamp := 1\<rparr>,
     run_Status := empty_run_status\<lparr>rst_Phase := RunPhaseAnonymizing, rst_RestoreName := ''anon-restore'',
       rst_PolicyHash := hash_text demo_wire ''{}'', rst_Source := Some (source_literal ''s3://backups/full''),
       rst_TempCluster := Some \<lparr>tcs_Name = ''anon'', tcs_UID = ''c-1'', tcs_SecretName = ''anon-secrets'', tcs_CreatedAt = Some 1,
         tcs_ReadyAt = Some 2, tcs_DeletedAt = None\<rparr>\<rparr>\<rparr>"

definition stored_seed :: Secret where
  "stored_seed = seed_secret sample_klib ready_run
     (fmap_of_list [(runSeedKey, ''s''), (runPolicyHashKey, hash_text demo_wire ''{}''), (''system-root'', ''pw'')])"

text \<open>The server returns to a status patch the object as it is stored, with its live specification.\<close>

definition seed_api :: "AnonymizationRunSpec \<Rightarrow> unit run_api" where
  "seed_api live = (quiet_api ready_run)\<lparr>a_secrets := (\<lambda>_ _ _. Inr stored_seed),
     a_patch_status := (\<lambda>_ r w. (Inr (r\<lparr>run_Spec := live\<rparr>), w))\<rparr>"

definition ready_snapshot :: runSnapshot where
  "ready_snapshot = \<lparr>sn_Spec = sample_run_spec, sn_Policy = demo_spec, sn_Source = source_literal ''s3://backups/full'',
     sn_SourceReason = ''Literal'', sn_OutputGroup = ''nightly'', sn_PolicyHash = hash_text demo_wire ''{}'',
     sn_SystemUsers = \<lparr>sec_Meta = empty_meta\<lparr>om_Name := ''shop-users'', om_Namespace := ''shop''\<rparr>, sec_Type = [],
       sec_Immutable = None, sec_Data = decode_system_users (sec_Data stored_seed)\<rparr>,
     sn_Payload = stored_seed\<rparr>"

lemma demo_decode:
  "length data \<le> 1048576 \<Longrightarrow> Decode sample_lib (\<lambda>_. True) demo_wire data = Inr (demo_spec, hash_text demo_wire ''{}'')"
proof -
  assume "length data \<le> 1048576"
  moreover have "Validate_policy sample_lib (\<lambda>_. True) demo_spec = Inr ()" by code_simp
  ultimately show ?thesis by (simp add: Decode_def Snapshot_def demo_wire_def)
qed

lemma stored_seed_decodes: "decodeRunSnapshot sample_env ready_run stored_seed = Inr ready_snapshot"
proof -
  have own: "runOwns sample_klib ready_run (sec_Meta stored_seed) = Inr ()"
    by (simp add: runOwns_def owned_by_run_def stored_seed_def seed_secret_def sample_klib_def runOwner_def run_ns_def
        run_uid_def run_name_def)
  have data: "secret_data stored_seed runPolicyFile = []" "secret_data stored_seed runSeedKey = ''s''" "secret_data stored_seed runPolicyHashKey = hash_text demo_wire ''{}''"
    by (simp_all add: secret_data_def stored_seed_def seed_secret_def fmlookup_of_list)
  have rest: "\<not> deleting (sec_Meta stored_seed)" "sec_Immutable stored_seed = Some True"
    by (simp_all add: stored_seed_def seed_secret_def deleting_def empty_meta_def)
  show ?thesis
    unfolding decodeRunSnapshot_def using own data rest demo_decode
    by (simp add: sample_env_def ready_snapshot_def Let_def sample_run_spec_def run_ns_def ready_run_def sample_run_def)
qed

definition first_attempt :: "AnonymizationRunSpec \<Rightarrow> AnonymizationRun" where
  "first_attempt live = (observed (with_status (\<lambda>st. st\<lparr>rst_Anonymize := Some
     \<lparr>as_JobName = runChildName sample_klib ready_run ''anonymize-1'', as_Attempts = 1, as_StartedAt = Some 5,
      as_CompletedAt = None, as_Progress = None, as_LastResult = None\<rparr>\<rparr>) (from_snapshot ready_run ready_snapshot)))\<lparr>run_Spec := live\<rparr>"

definition dry_spec :: "bool \<Rightarrow> AnonymizationRunSpec" where
  "dry_spec dry = sample_run_spec\<lparr>rspec_Runner := (rspec_Runner sample_run_spec)\<lparr>ru_DryRun := dry\<rparr>\<rparr>"

definition first_job :: "bool \<Rightarrow> Job" where
  "first_job dry = (case renderRunJob sample_env (first_attempt (dry_spec dry)) ready_snapshot of Inr job \<Rightarrow> job)"

lemma first_job_rendered:
  "renderRunJob sample_env (first_attempt (dry_spec dry)) ready_snapshot = Inr (first_job dry)"
  "om_OwnerReferences (job_Meta (first_job dry)) = [runOwner sample_klib ready_run]"
  "om_Namespace (job_Meta (first_job dry)) = ''shop''"
  by (simp_all add: first_job_def renderRunJob_def first_attempt_def dry_spec_def sample_run_spec_def sample_env_def Let_def
      observed_def with_status_def from_snapshot_def ready_run_def sample_run_def zero_time_def runOwner_def run_name_def
      run_uid_def run_ns_def sample_klib_def)

lemma first_attempt_run:
  "run_ns (first_attempt live) = ''shop''" "run_uid (first_attempt live) = ''uid-1''" "run_name (first_attempt live) = ''nightly''"
  "has_finalizer (first_attempt live)"
  by (simp_all add: first_attempt_def observed_def with_status_def from_snapshot_def ready_run_def sample_run_def run_ns_def
      run_uid_def run_name_def has_finalizer_def)

lemma first_attempt_trace:
  "Reconcile_run sample_env (seed_api (dry_spec dry)) ns name \<lparr>world = (), log = []\<rparr> =
     (Inr (after runPollInterval), \<lparr>world = (), log = [
       QPatchStatus (from_snapshot ready_run ready_snapshot) ((first_attempt (dry_spec dry))\<lparr>run_Spec := sample_run_spec\<rparr>),
       QCreate (label_child ready_run (ChJob (first_job dry)))]\<rparr>)"
proof -
  let ?A = "seed_api (dry_spec dry)" and ?run = "first_attempt (dry_spec dry)" and ?seen = "from_snapshot ready_run ready_snapshot"
  let ?sent = "?run\<lparr>run_Spec := sample_run_spec\<rparr>"
  have load: "loadRunSnapshot sample_env ?A ready_run s = (Inr ready_snapshot, s)" for s
    using stored_seed_decodes
    by (simp add: loadRunSnapshot_def seed_api_def quiet_api_def get_secret_def andthen_def lift_def query_def ret_def)
  have own: "runOwns sample_klib ?run (job_Meta (first_job dry)) = Inr ()"
    using first_job_rendered(2,3) first_attempt_run
    by (simp add: runOwns_def owned_by_run_def runOwner_def sample_klib_def ready_run_def sample_run_def)
  have child: "createRunChild sample_env ?A ?run (ChJob (first_job dry)) s =
      (Inr (), s\<lparr>log := log s @ [QCreate (label_child ready_run (ChJob (first_job dry)))]\<rparr>)" for s
    using own first_attempt_run
    by (simp add: createRunChild_def get_current_def label_child_def seed_api_def quiet_api_def andthen_def lift_def query_def
        ret_def attempt_def request_def not_found_def Let_def ready_run_def sample_run_def run_uid_def)
  have patch: "patchRun ?A (with_status (\<lambda>st. st\<lparr>rst_Anonymize := Some
     \<lparr>as_JobName = runChildName sample_klib ?seen ''anonymize-1'', as_Attempts = 1, as_StartedAt = Some 5,
      as_CompletedAt = None, as_Progress = None, as_LastResult = None\<rparr>\<rparr>) ?seen) ?seen nanosecond s =
     (Inr (?run, after nanosecond), s\<lparr>log := log s @ [QPatchStatus ?seen ?sent]\<rparr>)" for s
    by (simp add: patchRun_def seed_api_def quiet_api_def first_attempt_def Let_def andthen_def request_def ret_def
        observed_def with_status_def from_snapshot_def ready_run_def sample_run_def ready_snapshot_def runChildName_def
        run_uid_def run_name_def empty_run_status_def)
  have served: "a_get_run ?A ns name w = (Inr ready_run, w)" for w
    by (simp add: seed_api_def quiet_api_def)
  have time: "runTime ?A s = (Inr 5, s)" for s
    by (simp add: runTime_def query_def seed_api_def quiet_api_def)
  have none: "rst_Anonymize (run_Status ?seen) = None"
    by (simp add: from_snapshot_def ready_run_def empty_run_status_def)
  have dec: "int_dec 1 = ''1''"
    by code_simp
  have start: "start_attempt sample_env ?A ?seen ready_snapshot s =
     (Inr (after runPollInterval), s\<lparr>log := log s @ [QPatchStatus ?seen ?sent, QCreate (label_child ready_run (ChJob (first_job dry)))]\<rparr>)" for s
    using first_job_rendered(1) child patch
    by (simp add: start_attempt_def Let_def andthen_def time ret_def none dec)
  have "dispatch sample_env ?A ?seen ready_snapshot = start_attempt sample_env ?A ?seen ready_snapshot"
    by (simp add: dispatch_def anonymizeRun_def from_snapshot_def ready_run_def empty_run_status_def Let_def)
  moreover have "rst_Phase (run_Status ready_run) = RunPhaseAnonymizing" "has_finalizer ready_run"
    "\<not> cond_true sample_env ready_run runConditionFailed" "\<not> deleting (run_Meta ready_run)"
    by (simp_all add: ready_run_def has_finalizer_def cond_true_def empty_run_status_def sample_klib_def deleting_def
        sample_run_def empty_meta_def)
  ultimately show ?thesis
    using start load
    by (simp add: Reconcile_run_def reconcileRun_def advance_run_def attempt_def query_def served ret_def)
qed

theorem run_creates_only_owned_witness:
  "QCreate (label_child ready_run (ChJob (first_job False))) \<in>
     set (log (snd (Reconcile_run sample_env (seed_api (dry_spec False)) ''shop'' ''nightly'' \<lparr>world = (), log = []\<rparr>))) \<and>
   has_finalizer ready_run \<and> (\<exists>d. label_child ready_run (ChJob (first_job False)) = label_child ready_run d \<and>
      owned_by_run sample_klib ready_run (child_meta d))"
proof -
  have "patch_keeps_identity (seed_api (dry_spec False))" "reads_run (seed_api (dry_spec False)) ''shop'' ''nightly'' ready_run"
    by (auto simp: patch_keeps_identity_def reads_run_def seed_api_def quiet_api_def same_run_def run_ns_def run_name_def run_uid_def)
  from run_creates_only_owned [OF this first_attempt_trace, of "label_child ready_run (ChJob (first_job False))"]
  have "has_finalizer ready_run \<and> (\<exists>d. label_child ready_run (ChJob (first_job False)) = label_child ready_run d \<and>
      owned_by_run sample_klib ready_run (child_meta d)) \<or> rst_Phase (run_Status ready_run) = RunPhaseBackingUp"
    by (auto simp: output_backup_def dest: seen_as_same(1))
  then show ?thesis by (simp add: first_attempt_trace ready_run_def)
qed


text \<open>C8 (safety).  The finalizer is the last thing to go: whatever the API server answers, a reconcile
  writes the run without it only when the run is being deleted and the recorded temporary cluster,
  its Secret, the Secrets that the cluster generated and the runner Job were all found absent.\<close>

theorem run_finalizer_last:
  assumes "patch_keeps_identity A" "reads_run A ns name run"
    "Reconcile_run E A ns name \<lparr>world = w, log = []\<rparr> = (r, s)" "QPatchRun base run' \<in> set (log s)" "\<not> has_finalizer run'"
  shows "deleting (run_Meta run) \<and> cluster_gone E A run \<and> job_gone A run"
proof -
  obtain run'' where s: "seen_as E A run run''" and j: "justified E A run'' (QPatchRun base run')"
    using reconcile_request [OF assms(1-4)] .
  have "has_finalizer (add_finalizer run'')" by (simp add: has_finalizer_def add_finalizer_def)
  then show ?thesis
    using j assms(5) seen_as_same [OF s] by (auto simp: justified_def cluster_gone_def job_gone_def split: if_splits)
qed

text \<open>A run that is being deleted after its cluster and its Job are gone.\<close>

definition gone_run :: AnonymizationRun where
  "gone_run = set_condition_at sample_klib 4 (deleted_run\<lparr>run_Status := (run_Status ready_run)\<lparr>
       rst_TempCluster := Some \<lparr>tcs_Name = ''anon'', tcs_UID = ''c-1'', tcs_SecretName = ''anon-secrets'', tcs_CreatedAt = Some 1,
         tcs_ReadyAt = Some 2, tcs_DeletedAt = Some 4\<rparr>, rst_Anonymize := rst_Anonymize (run_Status deleted_run)\<rparr>\<rparr>)
     runConditionCleaned ''True'' ''TempClusterDeleted'' ''the temporary cluster and owned credentials are absent''"

lemma gone_trace:
  "Reconcile_run sample_env (quiet_api gone_run) ns name \<lparr>world = (), log = []\<rparr> =
     (Inr no_result, \<lparr>world = (), log = [QPatchRun gone_run (remove_finalizer gone_run)]\<rparr>)"
proof -
  let ?A = "quiet_api gone_run"
  have run: "deleting (run_Meta gone_run)" "has_finalizer gone_run"
    by (simp_all add: gone_run_def set_condition_at_def deleted_run_def deleting_def zero_time_def has_finalizer_def)
  have same: "set_condition_at sample_klib 5 (set_cluster_deleted 5 gone_run) runConditionCleaned ''True'' ''TempClusterDeleted''
      ''the temporary cluster and owned credentials are absent'' = gone_run"
    by (simp add: gone_run_def set_condition_at_def set_cluster_deleted_def with_status_def deleted_run_def ready_run_def
        empty_run_status_def Set_condition_def condition_def sample_klib_def upsert_condition_def)
  have job: "cleanup_job sample_env ?A gone_run True s = (Inr True, s)" for s
    by (simp add: cleanup_job_def gone_run_def set_condition_at_def deleted_run_def deleteRunOwned_def get_for_delete_def
        attempt_def query_def andthen_def ret_def quiet_api_def not_found_def)
  have cluster: "cleanupRunCluster sample_env ?A gone_run s = (Inr None, s)" for s
    by (simp add: cleanupRunCluster_def gone_run_def set_condition_at_def deleted_run_def deleteRunOwned_def get_for_delete_def
        attempt_def query_def andthen_def ret_def quiet_api_def not_found_def get_secret_def deleteRunGeneratedSecrets_def
        delete_generated_def generated_secrets_def)
  show ?thesis
    using run
    by (simp add: Reconcile_run_def reconcileRun_def cleanupRun_def cleanup_done_def attempt_def query_def andthen_def ret_def
        job cluster runTime_def setRunCondition_def same request_def quiet_api_simps)
qed

theorem run_finalizer_last_witness:
  "QPatchRun gone_run (remove_finalizer gone_run) \<in>
     set (log (snd (Reconcile_run sample_env (quiet_api gone_run) ''shop'' ''nightly'' \<lparr>world = (), log = []\<rparr>))) \<and>
   deleting (run_Meta gone_run) \<and> cluster_gone sample_env (quiet_api gone_run) gone_run \<and> job_gone (quiet_api gone_run) gone_run"
proof -
  have "\<not> has_finalizer (remove_finalizer gone_run)" by (simp add: has_finalizer_def remove_finalizer_def)
  from run_finalizer_last [OF sample_server(3,4) gone_trace _ this, of gone_run]
  show ?thesis by (simp add: gone_trace)
qed


text \<open>A run that is publishing, on a server that has its output backup.\<close>

definition pub_target :: PointerTarget where
  "pub_target = \<lparr>pt_ObjectStorage = sample_storage, pt_Key = ''latest.json'', pt_PublicURL = []\<rparr>"

definition pub_run :: AnonymizationRun where
  "pub_run = set_condition_at sample_klib 4 (ready_run\<lparr>run_Status := (run_Status ready_run)\<lparr>rst_Phase := RunPhasePublishing,
     rst_Anonymize := Some \<lparr>as_JobName = ''nightly-anonymize-1'', as_Attempts = 1, as_StartedAt = Some 1, as_CompletedAt = Some 2,
       as_Progress = None, as_LastResult = Some \<lparr>ar_Class = [], ar_Message = ''runner reported ok''\<rparr>\<rparr>,
     rst_Output := Some \<lparr>pb_BackupName = ''out'', pb_Destination = ''s3://backups/out'', pb_StorageName = runOutputStorage,
       pb_CompletedAt = Some 3, pb_PublishedAt = None, pb_ETag = [], pb_SchemaVersion = 0\<rparr>\<rparr>\<rparr>)
     runConditionPublished ''False'' ''Uploading'' ''the output pointer is uploaded''"

definition pub_view :: BackupView where
  "pub_view = \<lparr>bv_Meta = empty_meta\<lparr>om_Name := ''out'', om_Namespace := ''shop''\<rparr>,
     bv_Spec = \<lparr>bs_PXCCluster = ''anon'', bs_StorageName = runOutputStorage\<rparr>,
     bv_Status = \<lparr>bst_State = BackupSucceeded, bst_Destination = ''s3://backups/out'', bst_CompletedAt = Some 3,
       bst_Error = [], bst_StorageName = runOutputStorage, bst_S3 = None\<rparr>\<rparr>"

definition pub_env :: "unit run_env" where
  "pub_env = sample_env\<lparr>e_backup_conv := (\<lambda>_. Inr pub_view), e_putPointer := Some (\<lambda>_ _ _ w. (Inr ''etag'', w)),
     e_spec_unmarshal := (\<lambda>_. Inr (sample_run_spec\<lparr>rspec_Output := (rspec_Output sample_run_spec)\<lparr>out_Pointer := Some pub_target\<rparr>\<rparr>))\<rparr>"

definition pub_backup :: Unstructured where
  "pub_backup = \<lparr>un_GVK = BackupGVK, un_Meta = empty_meta\<lparr>om_Name := ''out'', om_Namespace := ''shop'', om_UID := ''b-1'',
     om_Annotations := fmap_of_list [(runUIDLabel, ''uid-1'')],
     om_Labels := fmap_of_list [(LabelRun, ''nightly''), (LabelOutputGroup, ''nightly''), (LabelOutput, runOutputStorage)]\<rparr>,
     un_Tree = jobj []\<rparr>"

definition pub_api :: "unit run_api" where
  "pub_api = (quiet_api pub_run)\<lparr>a_secrets := (\<lambda>_ _ _. Inr stored_seed), a_get_object := (\<lambda>_ _ _ _ w. (Inr pub_backup, w))\<rparr>"

definition pub_snapshot :: runSnapshot where
  "pub_snapshot = ready_snapshot\<lparr>sn_Spec := sample_run_spec\<lparr>rspec_Output := (rspec_Output sample_run_spec)\<lparr>out_Pointer := Some pub_target\<rparr>\<rparr>\<rparr>"

lemma pub_typed: "status_typed sample_klib 2 (run_Status pub_run)"
proof -
  have "is_ok (Validate_document sample_klib (identity_document ''out'' ''s3://backups/out''))" by code_simp
  then have "output_known sample_klib (run_Status pub_run)"
    by (auto simp: output_known_def pub_run_def set_condition_at_def)
  then show ?thesis
    by (simp add: typed_at pub_run_def set_condition_at_def ready_run_def attempts_ok_def reported_ok_def cluster_named_def
        cluster_known_def)
qed

definition pub_document :: Document where
  "pub_document = output_document pub_env (from_snapshot pub_run pub_snapshot) (the (rst_TempCluster (run_Status pub_run)))
     (the (rst_Output (run_Status pub_run))) pub_target pub_view 5"

lemma pub_seed_decodes: "decodeRunSnapshot pub_env pub_run stored_seed = Inr pub_snapshot"
proof -
  have "owned_by_run sample_klib pub_run om = owned_by_run sample_klib ready_run om" for om
    by (rule same_run_owned) (simp add: same_run_def pub_run_def set_condition_at_def run_ns_def run_name_def run_uid_def)
  then show ?thesis
    using stored_seed_decodes
    by (auto simp: decodeRunSnapshot_def pub_env_def sample_env_def pub_snapshot_def ready_snapshot_def ok_simps Let_def
        runOwns_def run_ns_def pub_run_def set_condition_at_def sample_run_spec_def split: sum.splits prod.splits if_splits option.splits)
qed

lemma pub_trace: "QPutPointer pub_target pub_document \<in>
   set (log (snd (Reconcile_run pub_env pub_api ''shop'' ''nightly'' \<lparr>world = (), log = []\<rparr>)))"
proof -
  let ?seen = "from_snapshot pub_run pub_snapshot"
  have load: "loadRunSnapshot pub_env pub_api pub_run s = (Inr pub_snapshot, s)" for s
    using pub_seed_decodes
    by (simp add: loadRunSnapshot_def pub_api_def quiet_api_def get_secret_def andthen_def lift_def query_def ret_def)
  have api: "a_get_run pub_api ns name w = (Inr pub_run, w)" "a_now pub_api w = (5, w)"
    "a_get_object pub_api b g ns name w = (Inr pub_backup, w)" "a_patch_status pub_api x y w = (Inr y, w)" for ns name b g x y w
    by (simp_all add: pub_api_def quiet_api_def)
  have run: "rst_Phase (run_Status pub_run) = RunPhasePublishing" "has_finalizer pub_run"
    "\<not> cond_true pub_env pub_run runConditionFailed" "\<not> deleting (run_Meta pub_run)"
    by (simp_all add: pub_run_def set_condition_at_def ready_run_def has_finalizer_def cond_true_def empty_run_status_def
        pub_env_def sample_klib_def deleting_def sample_run_def empty_meta_def Set_condition_def condition_def upsert_condition_def)
  have seen: "rst_Output (run_Status ?seen) = rst_Output (run_Status pub_run)" "run_Status ?seen = run_Status pub_run"
    "out_Pointer (rspec_Output (run_Spec ?seen)) = Some pub_target" "tm_Publish (rspec_Timeouts (run_Spec ?seen)) = 0"
    by (simp_all add: from_snapshot_def pub_snapshot_def sample_run_spec_def)
  have owner: "runOutputIdentity sample_klib ?seen (un_Meta pub_backup) = Inr ()"
    by (simp add: runOutputIdentity_def pub_backup_def from_snapshot_def annotation_def label_of_def runOutputGroup_def
        LabelValue_def pub_snapshot_def ready_snapshot_def run_uid_def run_name_def pub_run_def set_condition_at_def ready_run_def
        sample_run_def deleting_def empty_meta_def fmlookup_of_list guardr_def)
  have since: "cond_since pub_env ?seen runConditionPublished = Some 4"
    by (simp add: cond_since_def cond_find_def seen pub_run_def set_condition_at_def Set_condition_def condition_def sample_klib_def
        upsert_condition_def pub_env_def ready_run_def empty_run_status_def from_snapshot_def)
  have klib: "e_klib pub_env = sample_klib"
    by (simp add: pub_env_def)
  have decode: "decode_backup pub_env pub_backup = Inr pub_view" "Backup_Succeeded pub_view"
    by (simp_all add: decode_backup_def DecodeBackup_def decodeView_def pub_backup_def pub_env_def Backup_Succeeded_def pub_view_def)
  obtain ob tc where ob: "rst_Output (run_Status pub_run) = Some ob" "pb_Destination ob = ''s3://backups/out''"
    and tc: "rst_TempCluster (run_Status pub_run) = Some tc"
    by (simp add: pub_run_def set_condition_at_def ready_run_def)
  have put: "put_pointer pub_env pub_api ns pub_target d s = (Inr ''etag'', s\<lparr>log := log s @ [QPutPointer pub_target d]\<rparr>)" for ns d s
    by (simp add: put_pointer_def pub_env_def request_def)
  have "QPutPointer pub_target pub_document \<in> set (log (snd (publish_backup pub_env pub_api ?seen ob pub_target s)))" for s
    using owner decode ob seen tc
    by (simp add: publish_backup_def andthen_def query_def api lift_def ret_def klib attempt_def runTime_def put Let_def
        setRunCondition_def patched_def patchRun_def request_def pub_view_def pub_document_def)
  then obtain x s where "publish_backup pub_env pub_api ?seen ob pub_target \<lparr>world = (), log = []\<rparr> = (x, s)"
    "QPutPointer pub_target pub_document \<in> set (log s)"
    by (metis prod.collapse)
  then show ?thesis
    using run seen since api ob
    by (simp add: Reconcile_run_def reconcileRun_def advance_run_def attempt_def query_def load dispatch_def publishRun_def
       runExpired_def runTime_def andthen_def ret_def effective_def minutes_def fail_def split: sum.split)
qed


section \<open>What a late edit of the specification changes\<close>

text \<open>The specification of a run is taken from its snapshot before the phases are dispatched, so that an
  edit of the mutable fields cannot alter a running pipeline.  The first attempt renders its Job
  after a status patch has read the run back, and so with the live specification: an edit that
  turns on the dry run after the snapshot makes the Job a dry run, while the next reconcile, which
  again has the snapshot, takes its report for that of an anonymization.\<close>

lemma rendered_args:
  assumes "renderRunJob E run sn = Inr job"
  obtains tc att workers pageSize where "rst_TempCluster (run_Status run) = Some tc" "rst_Anonymize (run_Status run) = Some att"
    "1 \<le> workers" "workers \<le> 32" "1 \<le> pageSize"
    "workers = (if ru_Workers (rspec_Runner (run_Spec run)) = 0 then 4 else ru_Workers (rspec_Runner (run_Spec run)))"
    "pageSize = (case ru_PageSize (rspec_Runner (run_Spec run)) of None \<Rightarrow> 5000 | Some n \<Rightarrow> n)"
    "map ct_Args (pod_Containers (js_Pod (job_Spec job))) = [runner_args E run (tcs_Name tc) (as_Attempts att) workers pageSize]"
proof -
  obtain tc att where "rst_TempCluster (run_Status run) = Some tc" "rst_Anonymize (run_Status run) = Some att"
    using assms by (auto simp: renderRunJob_def Let_def split: option.splits if_splits)
  then show ?thesis
    using assms
    by (intro that [of tc att]) (auto simp: renderRunJob_def Let_def runner_pod_def runner_container_def split: if_splits)
qed

lemma job_follows_live_spec:
  "\<not> ru_DryRun (rspec_Runner (sn_Spec ready_snapshot)) \<and>
   decodeRunSnapshot sample_env ready_run stored_seed = Inr ready_snapshot \<and>
   QCreate (label_child ready_run (ChJob (first_job True))) \<in>
     set (log (snd (Reconcile_run sample_env (seed_api (dry_spec True)) ns name \<lparr>world = (), log = []\<rparr>))) \<and>
   list_all (\<lambda>ct. ''--dry-run'' \<in> set (ct_Args ct)) (pod_Containers (js_Pod (job_Spec (first_job True))))"
proof -
  have dry: "ru_DryRun (rspec_Runner (run_Spec (first_attempt (dry_spec True))))"
    by (simp add: first_attempt_def dry_spec_def)
  obtain args where "map ct_Args (pod_Containers (js_Pod (job_Spec (first_job True)))) = [args]" "''--dry-run'' \<in> set args"
    by (rule rendered_args [OF first_job_rendered(1) [of True]]) (simp add: runner_args_def dry Let_def)
  then have "list_all (\<lambda>ct. ''--dry-run'' \<in> set (ct_Args ct)) (pod_Containers (js_Pod (job_Spec (first_job True))))"
    by auto
  then show ?thesis
    using stored_seed_decodes first_attempt_trace [of True ns name] by (simp add: ready_snapshot_def sample_run_spec_def)
qed

end
