(* ===== verification/Run_Retention.thy ===== *)
theory Run_Retention
  imports Run_Properties
begin

text \<open>
  The retention of output backups.  Among the backups of an output group the newest succeeded
  ones are kept, as many as the specification asks for; the comparison ranks the backups where
  all of them have a completion time, and fails to where some do not.
\<close>

section \<open>The order of the backups\<close>

text \<open>The comparison where a completion time is known.\<close>

definition completed_before :: "BackupView \<Rightarrow> BackupView \<Rightarrow> bool" where
  "completed_before a b =
     (let s = the (bst_CompletedAt (bv_Status a)); t = the (bst_CompletedAt (bv_Status b)) in
      if s \<noteq> t then t < s
      else if om_CreationTimestamp (bv_Meta a) \<noteq> om_CreationTimestamp (bv_Meta b)
      then om_CreationTimestamp (bv_Meta b) < om_CreationTimestamp (bv_Meta a)
      else om_Name (bv_Meta a) < om_Name (bv_Meta b))"

interpretation backup_rank: ranking "\<lambda>a b. completed_before b a"
proof
  show "completed_before y x \<Longrightarrow> \<not> completed_before x y" for x y
    by (auto simp: completed_before_def Let_def split: if_splits)
  show "completed_before z x \<Longrightarrow> completed_before y x \<or> completed_before z y" for x y z
    using linorder_cases by (fastforce simp: completed_before_def Let_def split: if_splits)
qed

lemma insert_by_cong: "(\<And>y. y \<in> set ys \<Longrightarrow> f y x = g y x) \<Longrightarrow> insert_by f x ys = insert_by g x ys"
  by (induction ys) auto

lemma sort_by_cong: "(\<And>x y. x \<in> set xs \<Longrightarrow> y \<in> set xs \<Longrightarrow> f x y = g x y) \<Longrightarrow> sort_by f xs = sort_by g xs"
proof (induction xs)
  case (Cons x xs)
  then have "sort_by f xs = sort_by g xs" by simp
  moreover have "insert_by f x (sort_by g xs) = insert_by g x (sort_by g xs)"
    by (rule insert_by_cong) (use Cons.prems in auto)
  ultimately show ?case by (simp add: sort_by_def)
qed (simp add: sort_by_def)

definition all_completed :: "BackupView list \<Rightarrow> bool" where
  "all_completed vs = list_all (\<lambda>v. bst_CompletedAt (bv_Status v) \<noteq> None) vs"

lemma prune_before_completed:
  "all_completed vs \<Longrightarrow> x \<in> set vs \<Longrightarrow> y \<in> set vs \<Longrightarrow> prune_before x y = completed_before x y"
  by (auto simp: prune_before_def completed_before_def all_completed_def list_all_iff Let_def split: option.splits)

lemma prune_sorted:
  assumes "all_completed vs"
  shows "sorted_wrt (\<lambda>x y. \<not> prune_before y x) (sort_by prune_before vs)"
proof -
  have "sort_by prune_before vs = sort_by completed_before vs"
    by (rule sort_by_cong) (use assms prune_before_completed in blast)
  moreover have "sorted_wrt (\<lambda>x y. \<not> completed_before y x) (sort_by completed_before vs)"
    using backup_rank.sort_by_sorted [of vs] by simp
  ultimately have "sorted_wrt (\<lambda>x y. \<not> completed_before y x) (sort_by prune_before vs)" by simp
  then show ?thesis
    by (rule sorted_wrt_mono_rel [rotated]) (use assms prune_before_completed in \<open>auto simp: set_sort_by\<close>)
qed

section \<open>What the loop deletes\<close>

text \<open>A view that the loop may delete: it is not the run's own output, and if it succeeded, enough
  succeeded ones come before it.\<close>

definition victim :: "int \<Rightarrow> string \<Rightarrow> BackupView list \<Rightarrow> BackupView \<Rightarrow> bool" where
  "victim keep own vs v \<longleftrightarrow> view_name v \<noteq> own \<and> (\<exists>pre post. vs = pre @ v # post \<and>
     (if Backup_Succeeded v then keep \<le> int (length (filter Backup_Succeeded pre))
      else bst_State (bv_Status v) = BackupFailed))"

definition deletes_victim ::
  "int \<Rightarrow> string \<Rightarrow> (string, Unstructured) fmap \<Rightarrow> BackupView list \<Rightarrow> rreq \<Rightarrow> bool" where
  "deletes_victim keep own objects vs q = (case q of
     QDelete k om \<Rightarrow> \<exists>v u. victim keep own vs v \<and> fmlookup objects (view_name v) = Some u \<and> om = un_Meta u
   | _ \<Rightarrow> True)"

lemma emits_prune_wanted_rank [emits_rules]:
  assumes "\<And>b. (b \<Longrightarrow> (if Backup_Succeeded view then keep_count run < n else bst_State (bv_Status view) = BackupFailed)) \<Longrightarrow>
    emits (f b) P R"
  shows "emits (andthen (prune_wanted A run n view) f) P R"
  unfolding prune_wanted_def
  by (intro emits_rules) (auto intro!: assms simp: Backup_Succeeded_def split: if_splits)

lemma keep_count_pruned [simp]: "keep_count (pruned_names name run) = keep_count run"
  by (simp add: keep_count_def pruned_names_def with_status_def)

lemma prune_loop_victims:
  "emits (prune_loop E A owners own objects (int (length (filter Backup_Succeeded pre))) run views)
     (deletes_victim (keep_count run) own objects (pre @ views)) (\<lambda>_. True)"
proof (induction views arbitrary: pre run)
  case Nil
  then show ?case by (simp add: emits_ret)
next
  case (Cons view views)
  let ?n = "if Backup_Succeeded view then int (length (filter Backup_Succeeded pre)) + 1 else int (length (filter Backup_Succeeded pre))"
  have count: "?n = int (length (filter Backup_Succeeded (pre @ [view])))" by simp
  have next_view: "emits (prune_loop E A owners own objects ?n run' views) (deletes_victim (keep_count run) own objects (pre @ view # views)) (\<lambda>_. True)"
    if "keep_count run' = keep_count run" for run'
    using Cons.IH [of "pre @ [view]" run'] that unfolding count by simp
  have del: "deletes_victim (keep_count run) own objects (pre @ view # views) (QDelete k (un_Meta u))"
    if "fmlookup objects (view_name view) = Some u" "view_name view \<noteq> own"
      "if Backup_Succeeded view then keep_count run < ?n else bst_State (bv_Status view) = BackupFailed" for k u
    using that unfolding deletes_victim_def victim_def by (auto split: if_splits)
  show ?case
    unfolding prune_loop.simps Let_def
    by (intro emits_rules next_view) (auto intro!: del)
qed

lemma pruneRun_victims:
  assumes "\<And>w x. fst (a_list_backups A (run_ns run) (prune_labels E run) w) = Inr x \<Longrightarrow> x = items"
    and "prune_views E items = Inr vs" "rst_Output (run_Status run) = Some ob"
  shows "emits (pruneRun E A run)
    (deletes_victim (keep_count run) (pb_BackupName ob) (fmap_of_list (rev (map (\<lambda>(v, u). (view_name v, u)) vs)))
      (sort_by prune_before (map fst vs))) (\<lambda>_. True)"
proof -
  have keep: "emits (prune_loop E A owners own objects 0 run views) (deletes_victim (keep_count run) own objects views) (\<lambda>_. True)"
    for owners own objects views
    using prune_loop_victims [of E A owners own objects "[]" run views] by simp
  show ?thesis
    unfolding pruneRun_def Let_def assms(3) option.case
    by (intro emits_rules) (use assms in \<open>auto simp: deletes_victim_def intro!: emits_rules emits_andthen [OF keep]\<close>)
qed

lemma name_lookup:
  assumes "fmlookup (fmap_of_list (rev (map (\<lambda>(v, u). (view_name v, u)) vs))) name = Some u"
  obtains v where "(v, u) \<in> set vs" "view_name v = name"
  using map_of_SomeD [of "rev (map (\<lambda>(v, u). (view_name v, u)) vs)" name u] assms
  by (auto simp: fmlookup_of_list)


text \<open>Without completion times the comparison is not an order: a failed backup between two succeeded
  ones closes a cycle, so that the result of the sort, and with it which succeeded backups are
  kept, is not determined.\<close>

definition backup_at :: "string \<Rightarrow> string \<Rightarrow> int \<Rightarrow> int option \<Rightarrow> BackupView" where
  "backup_at name st created completed =
     \<lparr>bv_Meta = empty_meta\<lparr>om_Name := name, om_Namespace := ''shop'', om_CreationTimestamp := created\<rparr>,
      bv_Spec = \<lparr>bs_PXCCluster = ''anon'', bs_StorageName = runOutputStorage\<rparr>,
      bv_Status = \<lparr>bst_State = st, bst_Destination = ''s3://backups/'' @ name, bst_CompletedAt = completed,
        bst_Error = [], bst_StorageName = runOutputStorage, bst_S3 = None\<rparr>\<rparr>"

lemma prune_before_cycle:
  "let slow = backup_at ''slow'' BackupSucceeded 10 (Some 50); failed = backup_at ''failed'' BackupFailed 15 None;
       quick = backup_at ''quick'' BackupSucceeded 20 (Some 30)
   in prune_before slow quick \<and> prune_before quick failed \<and> prune_before failed slow"
  by (simp add: prune_before_def backup_at_def)

text \<open>A group with three succeeded backups of which two are kept.\<close>

definition group_views :: "BackupView list" where
  "group_views = [backup_at ''a'' BackupSucceeded 10 (Some 11), backup_at ''b'' BackupSucceeded 20 (Some 21),
     backup_at ''c'' BackupSucceeded 30 (Some 31)]"

definition group_items :: "Unstructured list" where
  "group_items = map (\<lambda>(i, name). \<lparr>un_GVK = BackupGVK, un_Meta = empty_meta\<lparr>om_Name := name, om_Namespace := ''shop'',
     om_UID := ''uid-'' @ name, om_Annotations := fmap_of_list [(runUIDLabel, ''old'')]\<rparr>, un_Tree = JInt i\<rparr>)
     [(0, ''a''), (1, ''b''), (2, ''c'')]"

definition group_env :: "unit run_env" where
  "group_env = sample_env\<lparr>e_backup_conv := (\<lambda>t. case t of JInt i \<Rightarrow> Inr (group_views ! nat i) | _ \<Rightarrow> Inl (SText ''conv''))\<rparr>"

definition settled_owner :: AnonymizationRun where
  "settled_owner = set_condition_at sample_klib 4 (sample_run\<lparr>run_Meta := (run_Meta sample_run)\<lparr>om_UID := ''old''\<rparr>,
     run_Status := empty_run_status\<lparr>rst_Phase := RunPhaseCompleted\<rparr>\<rparr>) runConditionCleaned ''True'' ''TempClusterDeleted'' ''gone''"

definition group_run :: AnonymizationRun where
  "group_run = set_condition_at sample_klib 4 (sample_run\<lparr>run_Status := empty_run_status\<lparr>rst_Phase := RunPhasePruning,
     rst_Output := Some \<lparr>pb_BackupName = ''c'', pb_Destination = ''s3://backups/c'', pb_StorageName = runOutputStorage,
       pb_CompletedAt = Some 31, pb_PublishedAt = Some 32, pb_ETag = ''e'', pb_SchemaVersion = 2\<rparr>\<rparr>\<rparr>)
     runConditionPublished ''True'' ''Uploaded'' ''the output pointer was uploaded''"

definition group_api :: "unit run_api" where
  "group_api = (quiet_api group_run)\<lparr>a_list_backups := (\<lambda>_ _ w. (Inr group_items, w)), a_list_runs := (\<lambda>_ w. (Inr [settled_owner], w))\<rparr>"

lemma group_decoded: "prune_views group_env group_items = Inr (zip group_views group_items)"
  by (simp add: prune_views_def group_items_def decode_backup_def DecodeBackup_def decodeView_def group_env_def group_views_def
      empty_meta_def)

lemma group_trace:
  "QDelete (KindObject BackupGVK) (un_Meta (group_items ! 0)) \<in> set (log (snd (pruneRun group_env group_api group_run \<lparr>world = (), log = []\<rparr>)))"
proof -
  have sorted: "sort_by prune_before group_views = rev group_views"
    by (simp add: group_views_def sort_by_def prune_before_def backup_at_def)
  have settled: "settled_runs sample_klib [settled_owner] ''old''"
    by (simp add: settled_runs_def settled_owner_def set_condition_at_def run_uid_def scheduleRunSettled_def deleting_def
        sample_run_def empty_meta_def sample_klib_def Set_condition_def condition_def upsert_condition_def empty_run_status_def)
  have api: "a_list_backups group_api ns ls w = (Inr group_items, w)" "a_list_runs group_api ns w = (Inr [settled_owner], w)"
    "a_delete group_api k om w = (Inr (), w)" "a_patch_status group_api base x w = (Inr x, w)" for ns ls w k om base x
    by (simp_all add: group_api_def quiet_api_def)
  have run: "rst_Output (run_Status group_run) = Some \<lparr>pb_BackupName = ''c'', pb_Destination = ''s3://backups/c'', pb_StorageName = runOutputStorage,
       pb_CompletedAt = Some 31, pb_PublishedAt = Some 32, pb_ETag = ''e'', pb_SchemaVersion = 2\<rparr>"
    "cond_true group_env group_run runConditionPublished" "keep_count group_run = 2"
    by (simp_all add: group_run_def set_condition_at_def cond_true_def group_env_def sample_klib_def Set_condition_def condition_def
        upsert_condition_def empty_run_status_def keep_count_def sample_run_def sample_run_spec_def)
  obtain a b c where views: "group_views = [a, b, c]" "view_name a = ''a''" "view_name b = ''b''" "view_name c = ''c''"
    "Backup_Succeeded a" "Backup_Succeeded b" "Backup_Succeeded c" "bst_State (bv_Status a) \<noteq> BackupFailed"
    "bst_State (bv_Status b) \<noteq> BackupFailed" "bst_State (bv_Status c) \<noteq> BackupFailed"
    by (simp add: group_views_def view_name_def backup_at_def Backup_Succeeded_def)
  obtain ia ib ic where items: "group_items = [ia, ib, ic]" "annotation (un_Meta ia) runUIDLabel = ''old''" "om_UID (un_Meta ia) \<noteq> []"
    by (simp add: group_items_def annotation_def fmlookup_of_list)
  have klib: "e_klib group_env = sample_klib" by (simp add: group_env_def)
  let ?objects = "fmap_of_list [(''c'', ic), (''b'', ib), (''a'', ia)]"
  have "QDelete (KindObject BackupGVK) (un_Meta ia) \<in> set (log (snd (prune_loop group_env group_api [settled_owner] ''c'' ?objects 0 group_run [c, b, a] s)))"
    "\<exists>x. fst (prune_loop group_env group_api [settled_owner] ''c'' ?objects 0 group_run [c, b, a] s) = Inr x" for s
    using views(2-10) items(2,3) run(3) settled klib
    by (simp_all add: prune_wanted_def andthen_def ret_def deleteRunObject_def attempt_def request_def api fmlookup_of_list)
  then obtain x s where "prune_loop group_env group_api [settled_owner] ''c'' ?objects 0 group_run [c, b, a] \<lparr>world = (), log = []\<rparr> = (Inr x, s)"
    "QDelete (KindObject BackupGVK) (un_Meta ia) \<in> set (log s)"
    by (metis prod.collapse)
  then show ?thesis
    using run(1,2) sorted group_decoded views(2-4) unfolding views(1) items(1)
    by (simp add: pruneRun_def andthen_def query_def api lift_def ret_def patched_def patchRun_def request_def Let_def items(1)
        del: prune_loop.simps)
qed


end
