(* ===== verification/Anonymize.thy ===== *)
theory Anonymize
  imports Engine
begin

text \<open>
  \<open>cmd/anonymize.go\<close>: the command that the runner Job starts.  It parses its flags, reads the
  projected files, prepares the database connection, runs the engine and leaves its report in
  the termination file; the exit code of the process is that of the report.  The flag syntax is
  that of Go's \<open>flag\<close> package; the formats of times and durations and the MySQL driver are
  parameters.
\<close>

section \<open>Flag values\<close>

text \<open>\<open>strconv.ParseInt(s, 0, 64)\<close>: the base comes from the prefix, and underscores separate
  digits.\<close>

definition lower_byte :: "char \<Rightarrow> nat" where
  "lower_byte c = (if 65 \<le> byte_of c \<and> byte_of c \<le> 90 then byte_of c + 32 else byte_of c)"

fun underscore_scan :: "bool \<Rightarrow> char \<Rightarrow> string \<Rightarrow> bool" where
  "underscore_scan hex saw [] = (saw \<noteq> CHR ''_'')"
| "underscore_scan hex saw (c # s) =
     (if is_digit_char c \<or> (hex \<and> 97 \<le> lower_byte c \<and> lower_byte c \<le> 102) then underscore_scan hex CHR ''0'' s
      else if c = CHR ''_'' then saw = CHR ''0'' \<and> underscore_scan hex CHR ''_'' s
      else saw \<noteq> CHR ''_'' \<and> underscore_scan hex CHR ''!'' s)"

definition base_prefix :: "string \<Rightarrow> nat \<times> string" where
  "base_prefix s =
     (case s of
        c # d # t \<Rightarrow>
          if c \<noteq> CHR ''0'' then (10, s)
          else if t \<noteq> [] \<and> lower_byte d = 120 then (16, t)
          else if t \<noteq> [] \<and> lower_byte d = 98 then (2, t)
          else if t \<noteq> [] \<and> lower_byte d = 111 then (8, t)
          else (8, d # t)
      | _ \<Rightarrow> (10, s))"

definition underscore_ok :: "string \<Rightarrow> bool" where
  "underscore_ok s =
     (case s of
        c # d # t \<Rightarrow>
          if c = CHR ''0'' \<and> lower_byte d \<in> set [98, 111, 120] then underscore_scan (lower_byte d = 120) CHR ''0'' t
          else underscore_scan False CHR ''^'' s
      | _ \<Rightarrow> underscore_scan False CHR ''^'' s)"

definition digit_in :: "nat \<Rightarrow> char \<Rightarrow> nat option" where
  "digit_in b c =
     (let v = (if is_digit_char c then byte_of c - 48
               else if 97 \<le> lower_byte c \<and> lower_byte c \<le> 122 then lower_byte c - 87 else b)
      in if v < b then Some v else None)"

fun digits_in :: "nat \<Rightarrow> nat \<Rightarrow> string \<Rightarrow> nat option" where
  "digits_in b n [] = Some n"
| "digits_in b n (c # s) =
     (if c = CHR ''_'' then digits_in b n s
      else case digit_in b c of None \<Rightarrow> None | Some v \<Rightarrow> digits_in b (b * n + v) s)"

definition parse_uint0 :: "string \<Rightarrow> nat option" where
  "parse_uint0 s =
     (if s = [] then None
      else case base_prefix s of (b, t) \<Rightarrow>
        (case digits_in b 0 t of
           None \<Rightarrow> None
         | Some n \<Rightarrow> if CHR ''_'' \<in> set t \<and> \<not> underscore_ok s then None else Some n))"

definition parse_int0 :: "string \<Rightarrow> int option" where
  "parse_int0 s =
     (case s of
        [] \<Rightarrow> None
      | c # t \<Rightarrow>
          (case parse_uint0 (if c = CHR ''-'' \<or> c = CHR ''+'' then t else s) of
             None \<Rightarrow> None
           | Some n \<Rightarrow>
               (let v = (if c = CHR ''-'' then - int n else int n)
                in if int64_range v then Some v else None)))"

definition parse_bool :: "string \<Rightarrow> bool option" where
  "parse_bool s =
     (if s \<in> set [''1'', ''t'', ''T'', ''true'', ''TRUE'', ''True''] then Some True
      else if s \<in> set [''0'', ''f'', ''F'', ''false'', ''FALSE'', ''False''] then Some False
      else None)"

section \<open>The flags\<close>

record anonymizeFlags =
  af_policy :: string
  af_host :: string
  af_user :: string
  af_passwordFile :: string
  af_seedFile :: string
  af_reference :: string
  af_logFormat :: string
  af_terminationFile :: string
  af_tlsMode :: string
  af_tlsCAFile :: string
  af_port :: int
  af_attempt :: int
  af_interval :: int
  af_options :: Options

text \<open>\<open>time.ParseDuration\<close>, \<open>time.Parse\<close> with the layout RFC 3339, \<open>mysql.NewConnector\<close> and the
  certificate pool.\<close>

record mysqlConfig =
  mc_Net :: string
  mc_Addr :: string
  mc_User :: string
  mc_Passwd :: string
  mc_MultiStatements :: bool
  mc_ParseTime :: bool
  mc_Timeout :: int
  mc_TLSConfig :: string
  mc_TLS :: "(string \<times> string option) option"

record clib =
  cl_duration :: "string \<Rightarrow> int option"
  cl_rfc3339 :: "string \<Rightarrow> int option"
  cl_pem_ok :: "string \<Rightarrow> bool"
  cl_connector :: "mysqlConfig \<Rightarrow> bool"

definition empty_options :: Options where
  "empty_options = \<lparr>o_PolicyJSON = [], o_Seed = [], o_RunUID = [], o_ReferenceTime = 0, o_Workers = 0, o_PageSize = 0,
     o_DisableBinlog = False, o_DryRun = False, o_StepsDir = [], o_ConstantsDir = []\<rparr>"

text \<open>The flag set with its defaults.\<close>

definition anonymizeFlagSet :: anonymizeFlags where
  "anonymizeFlagSet =
     \<lparr>af_policy = ''/etc/pxc-anonymizer/policy/policy.json'', af_host = [], af_user = ''root'',
      af_passwordFile = ''/etc/pxc-anonymizer/creds/root'', af_seedFile = ''/etc/pxc-anonymizer/seed/seed'',
      af_reference = [], af_logFormat = ''json'', af_terminationFile = ''/dev/termination-log'',
      af_tlsMode = ''verify-full'', af_tlsCAFile = [], af_port = 3306, af_attempt = 1, af_interval = 10000000000,
      af_options = empty_options\<lparr>o_Workers := 4, o_PageSize := 5000, o_DisableBinlog := True,
        o_StepsDir := ''/etc/pxc-anonymizer/steps'', o_ConstantsDir := ''/etc/pxc-anonymizer/constants''\<rparr>\<rparr>"

definition with_options :: "(Options \<Rightarrow> Options) \<Rightarrow> anonymizeFlags \<Rightarrow> anonymizeFlags" where
  "with_options f s = s\<lparr>af_options := f (af_options s)\<rparr>"

text \<open>What a flag does with its value, for settings of type \<open>'s\<close>; a name that is not defined has no
  entry.\<close>

datatype 's flag_setter =
    SetString "string \<Rightarrow> 's \<Rightarrow> 's"
  | SetInt "int \<Rightarrow> 's \<Rightarrow> 's"
  | SetBool "bool \<Rightarrow> 's \<Rightarrow> 's"
  | SetDuration "int \<Rightarrow> 's \<Rightarrow> 's"

definition flag_table :: "(string \<times> anonymizeFlags flag_setter) list" where
  "flag_table =
     [(''policy'', SetString (\<lambda>v s. s\<lparr>af_policy := v\<rparr>)),
      (''host'', SetString (\<lambda>v s. s\<lparr>af_host := v\<rparr>)),
      (''port'', SetInt (\<lambda>v s. s\<lparr>af_port := v\<rparr>)),
      (''user'', SetString (\<lambda>v s. s\<lparr>af_user := v\<rparr>)),
      (''password-file'', SetString (\<lambda>v s. s\<lparr>af_passwordFile := v\<rparr>)),
      (''seed-file'', SetString (\<lambda>v s. s\<lparr>af_seedFile := v\<rparr>)),
      (''run-uid'', SetString (\<lambda>v. with_options (\<lambda>opts. opts\<lparr>o_RunUID := v\<rparr>))),
      (''attempt'', SetInt (\<lambda>v s. s\<lparr>af_attempt := v\<rparr>)),
      (''workers'', SetInt (\<lambda>v. with_options (\<lambda>opts. opts\<lparr>o_Workers := v\<rparr>))),
      (''page-size'', SetInt (\<lambda>v. with_options (\<lambda>opts. opts\<lparr>o_PageSize := v\<rparr>))),
      (''disable-binlog'', SetBool (\<lambda>v. with_options (\<lambda>opts. opts\<lparr>o_DisableBinlog := v\<rparr>))),
      (''dry-run'', SetBool (\<lambda>v. with_options (\<lambda>opts. opts\<lparr>o_DryRun := v\<rparr>))),
      (''progress-interval'', SetDuration (\<lambda>v s. s\<lparr>af_interval := v\<rparr>)),
      (''log-format'', SetString (\<lambda>v s. s\<lparr>af_logFormat := v\<rparr>)),
      (''reference-time'', SetString (\<lambda>v s. s\<lparr>af_reference := v\<rparr>)),
      (''steps-dir'', SetString (\<lambda>v. with_options (\<lambda>opts. opts\<lparr>o_StepsDir := v\<rparr>))),
      (''constants-dir'', SetString (\<lambda>v. with_options (\<lambda>opts. opts\<lparr>o_ConstantsDir := v\<rparr>))),
      (''termination-file'', SetString (\<lambda>v s. s\<lparr>af_terminationFile := v\<rparr>)),
      (''tls-mode'', SetString (\<lambda>v s. s\<lparr>af_tlsMode := v\<rparr>)),
      (''tls-ca-file'', SetString (\<lambda>v s. s\<lparr>af_tlsCAFile := v\<rparr>))]"

definition set_flag :: "clib \<Rightarrow> 's flag_setter \<Rightarrow> string \<Rightarrow> 's \<Rightarrow> 's option" where
  "set_flag C k v s =
     (case k of
        SetString f \<Rightarrow> Some (f v s)
      | SetInt f \<Rightarrow> map_option (\<lambda>i. f i s) (parse_int0 v)
      | SetBool f \<Rightarrow> map_option (\<lambda>b. f b s) (parse_bool v)
      | SetDuration f \<Rightarrow> map_option (\<lambda>d. f d s) (cl_duration C v))"

fun is_bool_flag :: "'s flag_setter \<Rightarrow> bool" where
  "is_bool_flag (SetBool f) = True"
| "is_bool_flag _ = False"

section \<open>Parsing\<close>

datatype flag_error = ErrHelp | BadFlag

text \<open>An argument as its name and, after the first equals sign that is not in front, its value.\<close>

definition split_flag :: "string \<Rightarrow> string \<times> string option" where
  "split_flag name =
     (case name of
        [] \<Rightarrow> ([], None)
      | c # t \<Rightarrow>
          (let k = takeWhile (\<lambda>d. d \<noteq> CHR ''='') t
           in if length k = length t then (name, None) else (c # k, Some (drop (length k + 1) t))))"

text \<open>The name of an argument after its dashes: \<open>None\<close> ends the flags, and the boolean says
  whether the terminator is consumed.\<close>

definition flag_name :: "string \<Rightarrow> (bool + string)" where
  "flag_name s =
     (case s of
        c # d # t \<Rightarrow>
          if c \<noteq> CHR ''-'' then Inl False
          else if d = CHR ''-'' then (if t = [] then Inl True else Inr t) else Inr (d # t)
      | _ \<Rightarrow> Inl False)"

function (sequential) Parse_flags ::
  "clib \<Rightarrow> (string \<times> 's flag_setter) list \<Rightarrow> string list \<Rightarrow> 's \<Rightarrow> 's \<times> (flag_error + string list)" where
  "Parse_flags C flags [] s = (s, Inr [])"
| "Parse_flags C flags (arg # args) s =
     (case flag_name arg of
        Inl consumed \<Rightarrow> (s, Inr (if consumed then args else arg # args))
      | Inr name \<Rightarrow>
          if hd name = CHR ''-'' \<or> hd name = CHR ''='' then (s, Inl BadFlag)
          else case split_flag name of (name, v) \<Rightarrow>
            (case map_of flags name of
               None \<Rightarrow> (s, Inl (if name = ''help'' \<or> name = ''h'' then ErrHelp else BadFlag))
             | Some k \<Rightarrow>
                 (case (v, is_bool_flag k, args) of
                    (None, False, []) \<Rightarrow> (s, Inl BadFlag)
                  | (None, False, a # rest) \<Rightarrow>
                      (case set_flag C k a s of None \<Rightarrow> (s, Inl BadFlag) | Some s' \<Rightarrow> Parse_flags C flags rest s')
                  | _ \<Rightarrow>
                      (case set_flag C k (case v of None \<Rightarrow> ''true'' | Some x \<Rightarrow> x) s of
                         None \<Rightarrow> (s, Inl BadFlag) | Some s' \<Rightarrow> Parse_flags C flags args s'))))"
  by pat_completeness auto
termination by (relation "measure (\<lambda>(C, flags, args, s). length args)") auto

declare Parse_flags.simps(2) [simp del]

section \<open>Preparing\<close>

definition join_host_port :: "string \<Rightarrow> string \<Rightarrow> string" where
  "join_host_port host port = (if CHR '':'' \<in> set host then ''['' @ host @ '']:'' @ port else host @ '':'' @ port)"

definition configureAnonymizeTLS :: "clib \<Rightarrow> (string \<Rightarrow> projected) \<Rightarrow> anonymizeFlags \<Rightarrow> mysqlConfig \<Rightarrow> gerr + mysqlConfig" where
  "configureAnonymizeTLS C fs s cfg =
     (if af_tlsMode s = ''disabled''
      then (if af_tlsCAFile s \<noteq> [] then Inl (Fail Policy_class ''tls-ca-file requires verify-full TLS'')
            else Inr (cfg\<lparr>mc_TLSConfig := ''false''\<rparr>))
      else if af_tlsMode s = ''verify-full''
      then (if af_tlsCAFile s = [] then Inr (cfg\<lparr>mc_TLS := Some (af_host s, None)\<rparr>)
            else case ReadFile fs (af_tlsCAFile s) (2 ^ 20) of
              Inl _ \<Rightarrow> Inl (Fail Policy_class ''database CA file cannot be read'')
            | Inr data \<Rightarrow>
                if \<not> cl_pem_ok C data then Inl (Fail Policy_class ''database CA file contains no certificates'')
                else Inr (cfg\<lparr>mc_TLS := Some (af_host s, Some data)\<rparr>))
      else Inl (Fail Policy_class ''tls-mode must be verify-full or disabled''))"

definition address_ok :: "anonymizeFlags \<Rightarrow> bool" where
  "address_ok s \<longleftrightarrow> af_host s \<noteq> [] \<and>
     list_all (\<lambda>c. c \<notin> set [CHR 0x0D, CHR 0x0A, CHR '' '', CHR ''/'', CHR 0x5C]) (af_host s) \<and>
     1 \<le> af_port s \<and> af_port s \<le> 65535 \<and> af_user s \<noteq> [] \<and> 1 \<le> af_attempt s \<and> af_logFormat s = ''json''"

definition limits_ok :: "anonymizeFlags \<Rightarrow> bool" where
  "limits_ok s \<longleftrightarrow> 1 \<le> o_Workers (af_options s) \<and> o_Workers (af_options s) \<le> 32 \<and>
     1 \<le> o_PageSize (af_options s) \<and> o_PageSize (af_options s) \<le> 50000 \<and> 0 < af_interval s"

definition prepareAnonymize ::
  "clib \<Rightarrow> (string \<Rightarrow> projected) \<Rightarrow> anonymizeFlags \<Rightarrow> gerr + (anonymizeFlags \<times> mysqlConfig)" where
  "prepareAnonymize C fs s =
     (if \<not> address_ok s then Inl (Fail Policy_class ''invalid database address, attempt or log format'')
      else if \<not> limits_ok s then Inl (Fail Policy_class ''invalid worker, page size or progress interval'')
      else case cl_rfc3339 C (af_reference s) of
        None \<Rightarrow> Inl (Fail Policy_class ''reference-time must contain the immutable Run creation timestamp'')
      | Some reference \<Rightarrow>
          (case ReadFile fs (af_policy s) (2 ^ 20) of
             Inl _ \<Rightarrow> Inl (Fail Policy_class ''policy snapshot file cannot be read'')
           | Inr policy \<Rightarrow>
               (case ReadFile fs (af_seedFile s) (2 ^ 20) of
                  Inl _ \<Rightarrow> Inl (Fail Policy_class ''seed file must contain at least 32 raw bytes'')
                | Inr seed \<Rightarrow>
                    if length seed < 32 then Inl (Fail Policy_class ''seed file must contain at least 32 raw bytes'')
                    else (case ReadFile fs (af_passwordFile s) (2 ^ 20) of
                       Inl _ \<Rightarrow> Inl (Fail Policy_class ''password file must contain a nonempty value'')
                     | Inr password \<Rightarrow>
                         if password = [] then Inl (Fail Policy_class ''password file must contain a nonempty value'')
                         else
                           (let s' = with_options (\<lambda>opts. opts\<lparr>o_ReferenceTime := reference, o_PolicyJSON := policy,
                                  o_Seed := seed\<rparr>) s in
                            bindr (configureAnonymizeTLS C fs s'
                              \<lparr>mc_Net = ''tcp'', mc_Addr = join_host_port (af_host s) (int_dec (af_port s)), mc_User = af_user s,
                               mc_Passwd = password, mc_MultiStatements = True, mc_ParseTime = True, mc_Timeout = 10000000000,
                               mc_TLSConfig = [], mc_TLS = None\<rparr>) (\<lambda>cfg. Inr (s', cfg)))))))"

section \<open>Finishing\<close>

text \<open>What the process leaves: the text of the termination file, and the exit code.  The disk
  refuses a file that cannot be opened, written or closed.\<close>

record outcome =
  oc_file :: "(string \<times> string) option"
  oc_exit :: int

definition finishAnonymize ::
  "('f \<Rightarrow> string option) \<Rightarrow> (string \<Rightarrow> gerr option) \<Rightarrow> 'f report \<Rightarrow> string \<Rightarrow> outcome" where
  "finishAnonymize ff disk result path =
     (case disk path of
        Some _ \<Rightarrow> \<lparr>oc_file = None, oc_exit = 1\<rparr>
      | None \<Rightarrow>
          (case Write ff result of
             Inl _ \<Rightarrow> \<lparr>oc_file = Some (path, []), oc_exit = 1\<rparr>
           | Inr data \<Rightarrow> \<lparr>oc_file = Some (path, data), oc_exit = ExitCode result\<rparr>))"

definition error_report :: "'f \<Rightarrow> string \<Rightarrow> string \<Rightarrow> 'f report" where
  "error_report zero c msg =
     \<lparr>Result = ResultError, rClass = c, Message = msg, TablesDone = 0, TablesTotal = 0, RowsDoneR = 0, StepsDone = 0,
      DurationSeconds = zero, rPolicyHash = []\<rparr>"

text \<open>The engine is run on the database of the configuration; \<open>None\<close> only where its page loops
  are cut off by their fuel.\<close>

definition runAnonymize ::
  "clib \<Rightarrow> (string \<Rightarrow> projected) \<Rightarrow> ('f \<Rightarrow> string option) \<Rightarrow> 'f \<Rightarrow> (string \<Rightarrow> gerr option) \<Rightarrow>
     (mysqlConfig \<Rightarrow> Options \<Rightarrow> 'f report option) \<Rightarrow> string list \<Rightarrow> outcome option" where
  "runAnonymize C fs ff zero disk engine args =
     (case Parse_flags C flag_table args anonymizeFlagSet of
        (s, Inl ErrHelp) \<Rightarrow> Some \<lparr>oc_file = None, oc_exit = 0\<rparr>
      | (s, Inl BadFlag) \<Rightarrow> Some (finishAnonymize ff disk (error_report zero Policy_class ''invalid anonymize flags'') (af_terminationFile s))
      | (s, Inr rest) \<Rightarrow>
          if rest \<noteq> []
          then Some (finishAnonymize ff disk (error_report zero Policy_class ''anonymize accepts flags only'') (af_terminationFile s))
          else (case prepareAnonymize C fs s of
             Inl e \<Rightarrow> Some (finishAnonymize ff disk (error_report zero (fst (Classify e)) (snd (Classify e))) (af_terminationFile s))
           | Inr (s', cfg) \<Rightarrow>
               if \<not> cl_connector C cfg
               then Some (finishAnonymize ff disk (error_report zero Policy_class ''invalid database connection configuration'')
                 (af_terminationFile s'))
               else (case engine cfg (af_options s') of
                  None \<Rightarrow> None
                | Some r \<Rightarrow> Some (finishAnonymize ff disk r (af_terminationFile s')))))"

end
