(* ===== verification/Runner_Args.thy ===== *)
theory Runner_Args
  imports Run_Properties Anonymize
begin

text \<open>
  The controller and its runner together: the arguments and the projected files of the Job are
  what the command reads, and the report that the command leaves is what the controller accepts.
\<close>

section \<open>Numbers on the command line\<close>

lemma nat_dec_no_zero: "nat_dec n = c # d # t \<Longrightarrow> c \<noteq> CHR ''0''"
proof (induction n arbitrary: c d t rule: nat_dec.induct)
  case (1 n)
  show ?case
  proof (cases "n < 10")
    case True
    then show ?thesis using 1(2) by (simp add: nat_dec.simps)
  next
    case False
    then have n: "nat_dec (n div 10) @ [digit (n mod 10)] = c # d # t" using 1(2) by (simp add: nat_dec.simps [of n])
    show ?thesis
    proof (cases "nat_dec (n div 10)")
      case Nil
      then show ?thesis using n by simp
    next
      case (Cons c' t')
      then have c: "c' = c" using n by simp
      show ?thesis
      proof (cases t')
        case Nil
        have "n div 10 \<noteq> 0" using False by simp
        moreover have "digits_val [c] = n div 10" using Cons c Nil digits_val_nat_dec by metis
        ultimately show ?thesis by (auto simp: digits_val_def byte_of_def)
      next
        case (Cons d' t'')
        then show ?thesis using 1(1) [OF False] \<open>nat_dec (n div 10) = c' # t'\<close> c by blast
      qed
    qed
  qed
qed

lemma digits_in_dec: "list_all is_digit_char s \<Longrightarrow> digits_in 10 n s = Some (foldl (\<lambda>n c. 10 * n + (byte_of c - 48)) n s)"
proof (induction s arbitrary: n)
  case (Cons c s)
  then have "c \<noteq> CHR ''_''" "byte_of c - 48 < 10" by (auto simp: is_digit_char_def byte_of_def)
  then show ?case using Cons by (simp add: digit_in_def Let_def)
qed simp

lemma parse_int0_dec:
  assumes "0 \<le> i" "int64_range i"
  shows "parse_int0 (int_dec i) = Some i"
proof -
  obtain c t where ct: "nat_dec (nat i) = c # t" "c \<noteq> CHR ''-''" "c \<noteq> CHR ''+''"
    using nat_dec_Cons by blast
  have digits: "list_all is_digit_char (c # t)" using nat_dec_digits [of _ "nat i"] ct by (simp add: list_all_iff)
  have "base_prefix (c # t) = (10, c # t)"
    using nat_dec_no_zero [of "nat i"] ct by (auto simp: base_prefix_def split: list.splits)
  moreover have "digits_in 10 0 (c # t) = Some (nat i)"
    using digits_in_dec [OF digits, of 0] digits_val_nat_dec [of "nat i"] ct by (simp add: digits_val_def)
  moreover have "CHR ''_'' \<notin> set (c # t)"
    using digits by (auto simp: list_all_iff is_digit_char_def byte_of_def)
  ultimately have "parse_uint0 (c # t) = Some (nat i)" by (simp add: parse_uint0_def)
  then show ?thesis using assms ct by (simp add: int_dec_def parse_int0_def)
qed

section \<open>The arguments\<close>

text \<open>Arguments of the form \<open>--name=value\<close>, set one after the other.\<close>

fun set_flags :: "clib \<Rightarrow> (string \<times> string) list \<Rightarrow> anonymizeFlags \<Rightarrow> anonymizeFlags option" where
  "set_flags C [] s = Some s"
| "set_flags C ((name, v) # ps) s =
     (case map_of flag_table name of
        None \<Rightarrow> None
      | Some k \<Rightarrow> (case set_flag C k v s of None \<Rightarrow> None | Some s' \<Rightarrow> set_flags C ps s'))"

definition flag_arg :: "string \<times> string \<Rightarrow> string" where
  "flag_arg p = ''--'' @ fst p @ ''='' @ snd p"

lemma flag_table_names: "map_of flag_table name = Some k \<Longrightarrow> name \<noteq> [] \<and> CHR ''='' \<notin> set name \<and> hd name \<noteq> CHR ''-''"
proof -
  have names: "list_all (\<lambda>(n, _). n \<noteq> [] \<and> CHR ''='' \<notin> set n \<and> hd n \<noteq> CHR ''-'') flag_table"
    by (simp add: flag_table_def)
  assume "map_of flag_table name = Some k"
  then show ?thesis using map_of_SomeD names by (fastforce simp: list_all_iff)
qed

lemma split_flag_value: "name \<noteq> [] \<Longrightarrow> CHR ''='' \<notin> set name \<Longrightarrow> split_flag (name @ ''='' @ v) = (name, Some v)"
  by (cases name) (auto simp: split_flag_def takeWhile_append Let_def)

lemma Parse_set_flags:
  "set_flags C ps s = Some s' \<Longrightarrow> Parse_flags C flag_table (map flag_arg ps @ rest) s = Parse_flags C flag_table rest s'"
proof (induction ps arbitrary: s)
  case (Cons p ps)
  obtain name v where p: "p = (name, v)" by (cases p)
  then obtain k s1 where k: "map_of flag_table name = Some k" "set_flag C k v s = Some s1" "set_flags C ps s1 = Some s'"
    using Cons.prems by (auto split: option.splits)
  note n = flag_table_names [OF k(1)]
  have name: "flag_name (flag_arg p) = Inr (name @ ''='' @ v)" "hd (name @ ''='' @ v) = hd name" "hd name \<noteq> CHR ''=''"
    using n p by (cases name; auto simp: flag_arg_def flag_name_def)+
  have split: "split_flag (name @ ''='' @ v) = (name, Some v)" using n split_flag_value by blast
  have "Parse_flags C flag_table (flag_arg p # map flag_arg ps @ rest) s = Parse_flags C flag_table (map flag_arg ps @ rest) s1"
    using name n k split by (simp add: Parse_flags.simps(2) del: append.simps)
  then show ?case using Cons.IH [OF k(3)] by simp
qed simp

definition runner_pairs :: "'w run_env \<Rightarrow> AnonymizationRun \<Rightarrow> string \<Rightarrow> int \<Rightarrow> int \<Rightarrow> int \<Rightarrow> (string \<times> string) list" where
  "runner_pairs E ar cluster attempts workers pageSize =
     [(''policy'', runner_root @ ''/policy/policy.json''), (''host'', cluster @ ''-pxc.'' @ run_ns ar @ ''.svc''),
      (''port'', ''3306''), (''user'', ''root''), (''password-file'', runner_root @ ''/creds/root''),
      (''seed-file'', runner_root @ ''/seed/seed''), (''run-uid'', run_uid ar), (''attempt'', int_dec attempts),
      (''workers'', int_dec workers), (''page-size'', int_dec pageSize),
      (''disable-binlog'', bool_text (ru_DisableBinlog (rspec_Runner (run_Spec ar)) \<noteq> Some False)),
      (''progress-interval'', ''10s''), (''log-format'', ''json''),
      (''reference-time'', e_rfc3339 E (om_CreationTimestamp (run_Meta ar))),
      (''steps-dir'', runner_root @ ''/steps''), (''constants-dir'', runner_root @ ''/constants''), (''tls-mode'', ''disabled''),
      (''termination-file'', ''/dev/termination-log'')]"

lemma runner_args_pairs:
  "runner_args E ar cluster attempts workers pageSize =
     runContainerName # map flag_arg (runner_pairs E ar cluster attempts workers pageSize) @
       (if ru_DryRun (rspec_Runner (run_Spec ar)) then [''--dry-run''] else [])"
  by (simp add: runner_args_def runner_pairs_def flag_arg_def Let_def)

definition runner_flags :: "'w run_env \<Rightarrow> AnonymizationRun \<Rightarrow> string \<Rightarrow> int \<Rightarrow> int \<Rightarrow> int \<Rightarrow> bool \<Rightarrow> anonymizeFlags" where
  "runner_flags E ar cluster attempts workers pageSize dry =
     \<lparr>af_policy = runner_root @ ''/policy/policy.json'', af_host = cluster @ ''-pxc.'' @ run_ns ar @ ''.svc'', af_user = ''root'',
      af_passwordFile = runner_root @ ''/creds/root'', af_seedFile = runner_root @ ''/seed/seed'',
      af_reference = e_rfc3339 E (om_CreationTimestamp (run_Meta ar)), af_logFormat = ''json'',
      af_terminationFile = ''/dev/termination-log'', af_tlsMode = ''disabled'', af_tlsCAFile = [], af_port = 3306,
      af_attempt = attempts, af_interval = 10000000000,
      af_options = empty_options\<lparr>o_RunUID := run_uid ar, o_Workers := workers, o_PageSize := pageSize,
        o_DisableBinlog := (ru_DisableBinlog (rspec_Runner (run_Spec ar)) \<noteq> Some False), o_DryRun := dry,
        o_StepsDir := runner_root @ ''/steps'', o_ConstantsDir := runner_root @ ''/constants''\<rparr>\<rparr>"

lemma runner_pairs_set:
  assumes "0 \<le> attempts" "int64_range attempts" "1 \<le> workers" "workers \<le> 32" "1 \<le> pageSize" "int64_range pageSize"
    and "cl_duration C ''10s'' = Some 10000000000"
  shows "set_flags C (runner_pairs E ar cluster attempts workers pageSize) anonymizeFlagSet =
    Some (runner_flags E ar cluster attempts workers pageSize False)"
proof -
  have "parse_int0 ''3306'' = Some 3306" by code_simp
  moreover have "int64_range workers" using assms by (simp add: int64_range_def)
  moreover have "parse_bool (bool_text b) = Some b" for b by (simp add: parse_bool_def bool_text_def)
  ultimately show ?thesis
    using assms
    by (simp add: runner_pairs_def flag_table_def set_flag_def parse_int0_dec anonymizeFlagSet_def runner_flags_def with_options_def
        empty_options_def)
qed


lemma runner_args_parse:
  assumes "0 \<le> attempts" "int64_range attempts" "1 \<le> workers" "workers \<le> 32" "1 \<le> pageSize" "int64_range pageSize"
    and "cl_duration C ''10s'' = Some 10000000000"
  shows "Parse_flags C flag_table (tl (runner_args E ar cluster attempts workers pageSize)) anonymizeFlagSet =
    (runner_flags E ar cluster attempts workers pageSize (ru_DryRun (rspec_Runner (run_Spec ar))), Inr [])"
proof -
  have "Parse_flags C flag_table [''--dry-run''] (runner_flags E ar cluster attempts workers pageSize False) =
      (runner_flags E ar cluster attempts workers pageSize True, Inr [])"
    by (simp add: Parse_flags.simps(2) flag_name_def split_flag_def flag_table_def set_flag_def Anonymize.parse_bool_def
        runner_flags_def with_options_def empty_options_def)
  then show ?thesis
    using Parse_set_flags [OF runner_pairs_set [OF assms, of E ar cluster], of "[]"]
      Parse_set_flags [OF runner_pairs_set [OF assms, of E ar cluster], of "[''--dry-run'']"]
    by (simp add: runner_args_pairs)
qed

text \<open>C17 (roundtrip).  The runner reads what the controller wrote: for every Job that the controller
  renders, the flag parser of the command accepts the arguments completely and recovers from them
  the temporary cluster's host, the UID and the creation time of the run, the attempt, the number
  of workers, the page size, the binlog and dry-run switches and the mounted paths.\<close>

theorem runner_args_roundtrip:
  assumes "renderRunJob E ar sn = Inr job" "cl_duration C ''10s'' = Some 10000000000"
    and "rst_Anonymize (run_Status ar) = Some att" "1 \<le> as_Attempts att" "as_Attempts att \<le> 2147483647"
    and "\<forall>n. ru_PageSize (rspec_Runner (run_Spec ar)) = Some n \<longrightarrow> n \<le> 2147483647"
  shows "\<exists>tc workers pageSize. rst_TempCluster (run_Status ar) = Some tc \<and>
    workers = (if ru_Workers (rspec_Runner (run_Spec ar)) = 0 then 4 else ru_Workers (rspec_Runner (run_Spec ar))) \<and>
    pageSize = (case ru_PageSize (rspec_Runner (run_Spec ar)) of None \<Rightarrow> 5000 | Some n \<Rightarrow> n) \<and>
    map (\<lambda>ct. hd (ct_Args ct)) (pod_Containers (js_Pod (job_Spec job))) = [''anonymize''] \<and>
    map (\<lambda>ct. Parse_flags C flag_table (tl (ct_Args ct)) anonymizeFlagSet) (pod_Containers (js_Pod (job_Spec job))) =
      [(runner_flags E ar (tcs_Name tc) (as_Attempts att) workers pageSize (ru_DryRun (rspec_Runner (run_Spec ar))), Inr [])]"
proof -
  obtain tc workers pageSize where r: "rst_TempCluster (run_Status ar) = Some tc" "1 \<le> workers" "workers \<le> 32" "1 \<le> pageSize"
      "workers = (if ru_Workers (rspec_Runner (run_Spec ar)) = 0 then 4 else ru_Workers (rspec_Runner (run_Spec ar)))"
      "pageSize = (case ru_PageSize (rspec_Runner (run_Spec ar)) of None \<Rightarrow> 5000 | Some n \<Rightarrow> n)"
    and args: "map ct_Args (pod_Containers (js_Pod (job_Spec job))) = [runner_args E ar (tcs_Name tc) (as_Attempts att) workers pageSize]"
    using rendered_args [OF assms(1)] assms(3) by (metis option.inject)
  have "int64_range (as_Attempts att)" "int64_range pageSize"
    using assms r by (auto simp: int64_range_def split: option.splits)
  note parse = runner_args_parse [OF _ this(1) r(2-4) this(2) assms(2), of E ar "tcs_Name tc"]
  have "map (\<lambda>ct. Parse_flags C flag_table (tl (ct_Args ct)) anonymizeFlagSet) (pod_Containers (js_Pod (job_Spec job))) =
      map (\<lambda>as. Parse_flags C flag_table (tl as) anonymizeFlagSet) (map ct_Args (pod_Containers (js_Pod (job_Spec job))))"
    "map (\<lambda>ct. hd (ct_Args ct)) (pod_Containers (js_Pod (job_Spec job))) = map hd (map ct_Args (pod_Containers (js_Pod (job_Spec job))))"
    by simp_all
  then show ?thesis using r args parse assms(4) by (simp add: runner_args_pairs)
qed

definition sample_clib :: clib where
  "sample_clib = \<lparr>cl_duration = (\<lambda>s. if s = ''10s'' then Some 10000000000 else None), cl_rfc3339 = (\<lambda>_. Some 1),
     cl_pem_ok = (\<lambda>_. True), cl_connector = (\<lambda>_. True)\<rparr>"

theorem runner_args_roundtrip_witness:
  "map (\<lambda>ct. snd (Parse_flags sample_clib flag_table (tl (ct_Args ct)) anonymizeFlagSet)) (pod_Containers (js_Pod (job_Spec (first_job False)))) =
     [Inr []] \<and>
   map (\<lambda>ct. o_RunUID (af_options (fst (Parse_flags sample_clib flag_table (tl (ct_Args ct)) anonymizeFlagSet))))
     (pod_Containers (js_Pod (job_Spec (first_job False)))) = [''uid-1'']"
proof -
  let ?ar = "first_attempt (dry_spec False)"
  obtain att where "rst_Anonymize (run_Status ?ar) = Some att" "as_Attempts att = 1"
    by (simp add: first_attempt_def observed_def with_status_def)
  moreover have "ru_PageSize (rspec_Runner (run_Spec ?ar)) = Some 5000"
    by (simp add: first_attempt_def dry_spec_def sample_run_spec_def)
  moreover have "cl_duration sample_clib ''10s'' = Some 10000000000" by (simp add: sample_clib_def)
  ultimately obtain x where "map (\<lambda>ct. Parse_flags sample_clib flag_table (tl (ct_Args ct)) anonymizeFlagSet)
      (pod_Containers (js_Pod (job_Spec (first_job False)))) = [(x, Inr [])]" "o_RunUID (af_options x) = run_uid ?ar"
    using runner_args_roundtrip [OF first_job_rendered(1) [of False], of sample_clib att] by (auto simp: runner_flags_def)
  then show ?thesis
    using first_attempt_run(2) by (auto simp: map_eq_Cons_conv)
qed

end
