(* ===== verification/Runner_Files.thy ===== *)
theory Runner_Files
  imports Runner_Args Pxc_Safety
begin

text \<open>
  The files of the runner: every path that the engine reads below the mounted directories is an
  item of the Job's volume, and the key of the item is in the snapshot that the controller stored
  before it created anything else.
\<close>

section \<open>What a computation returns\<close>

lemma emits_result: "emits m P R \<Longrightarrow> m s = (Inr x, s') \<Longrightarrow> R x"
  unfolding emits_def runs_def by (metis fst_conv)

text \<open>A loop that adds a key for every element.\<close>

lemma emits_foldm_keys:
  assumes "\<And>d x. x \<in> set xs \<Longrightarrow> emits (f d x) P (\<lambda>d'. insert (key x) (fmdom' d) \<subseteq> fmdom' d')"
  shows "emits (foldm f d xs) P (\<lambda>d'. fmdom' d \<union> key ` set xs \<subseteq> fmdom' d')"
  using assms
proof (induction xs arbitrary: d)
  case (Cons x xs)
  show ?case
    unfolding foldm.simps
  proof (rule emits_andthen)
    show "emits (f d x) P (\<lambda>d'. insert (key x) (fmdom' d) \<subseteq> fmdom' d')" using Cons.prems by simp
    show "emits (foldm f d' xs) P (\<lambda>d''. fmdom' d \<union> key ` set (x # xs) \<subseteq> fmdom' d'')"
      if "insert (key x) (fmdom' d) \<subseteq> fmdom' d'" for d'
      by (rule emits_conseq [OF Cons.IH]) (use Cons.prems that in auto)
  qed
qed (auto intro: emits_ret)

definition payload_keys :: "klib \<Rightarrow> PolicySpec \<Rightarrow> string set" where
  "payload_keys L policy = insert runSeedKey ((\<lambda>step. ''sql-'' @ st_Name step) ` set (ps_Steps policy) \<union>
     runConstantKey L ` set (constant_refs policy))"

lemma emits_payload_keys:
  "emits (snapshotRunPolicyPayloads E A ns policy data) P (\<lambda>d. fmdom' data \<union> payload_keys (e_klib E) policy \<subseteq> fmdom' d)"
  unfolding snapshotRunPolicyPayloads_def
proof (rule emits_andthen [OF emits_foldm_keys [where key = "\<lambda>step. ''sql-'' @ st_Name step"]])
  show "emits (andthen (step_payload A ns step) (\<lambda>v. ret (fmupd (''sql-'' @ st_Name step) v d))) P
      (\<lambda>d'. insert (''sql-'' @ st_Name step) (fmdom' d) \<subseteq> fmdom' d')" for d step
    by (rule emits_andthen [OF emits_step_payload [where R = "\<lambda>_. True"]]) (auto intro!: emits_ret)
  fix d :: "(string, string) fmap" assume d: "fmdom' data \<union> (\<lambda>step. ''sql-'' @ st_Name step) ` set (ps_Steps policy) \<subseteq> fmdom' d"
  have cs: "emits (andthen (runSecretValue A ns (Some ref)) (\<lambda>v. ret (fmupd (runConstantKey (e_klib E) ref) v d))) P
      (\<lambda>d'. insert (runConstantKey (e_klib E) ref) (fmdom' d) \<subseteq> fmdom' d')" for d ref
    by (rule emits_andthen [OF emits_runSecretValue [where R = "\<lambda>_. True"]]) (auto intro!: emits_ret)
  show "emits (andthen (foldm (\<lambda>data ref. andthen (runSecretValue A ns (Some ref)) (\<lambda>v.
         ret (fmupd (runConstantKey (e_klib E) ref) v data))) d (constant_refs policy)) (\<lambda>data.
     if ps_Mode policy = ''Fixed''
     then andthen (runSecretValue A ns (ps_SeedSecretRef policy)) (\<lambda>v.
       if length v < 32 then fail (invalid_policy ''the fixed seed must contain at least 32 bytes'')
       else ret (fmupd runSeedKey v data))
     else andthen (query (a_random A 32)) (\<lambda>v. ret (fmupd runSeedKey v data)))) P
     (\<lambda>d. fmdom' data \<union> payload_keys (e_klib E) policy \<subseteq> fmdom' d)"
    by (rule emits_andthen [OF emits_foldm_keys [where key = "runConstantKey (e_klib E)", OF cs]])
      (use d in \<open>auto simp: payload_keys_def intro!: emits_rules emits_andthen [OF emits_runSecretValue [where R = "\<lambda>_. True"]]\<close>, blast+)
qed

lemma copied_root:
  assumes "RenderSystemUsersSecret L (Some r) cl (Some src) = Inr copied"
  shows "''root'' \<in> fmdom' (sec_Data copied)"
proof -
  obtain m where "foldr_err (copy_key src) fmempty system_user_keys = Inr m"
    "sec_Data copied = (if secret_data src ''xtrabackup-aes256-psk'' \<noteq> []
       then fmupd ''xtrabackup-aes256-psk'' (secret_data src ''xtrabackup-aes256-psk'') m else m)"
    using assms by (auto simp: RenderSystemUsersSecret_def ok_simps Let_def split: option.splits)
  then show ?thesis
    using copy_keys_ok [of src fmempty system_user_keys m "''root''"] by (auto simp: system_user_keys_def fmlookup_dom'_iff)
qed

lemma emits_validate_root:
  "emits (validateRunInputs E A ar) P (\<lambda>(frozen, copied). ''root'' \<in> fmdom' (sec_Data copied))"
  unfolding validateRunInputs_def Let_def by (intro emits_rules) (auto dest: copied_root)

lemma system_entries_root: "''root'' \<in> fmdom' users \<Longrightarrow> ''system-root'' \<in> fmdom' (system_entries users)"
  by (force simp: system_entries_def system_key_def fmdom'_alt_def sorted_list_of_fmap_def fmlookup_dom'_iff image_iff fmdom_of_list fset_of_list.rep_eq fmdom_notD)

lemma emits_snapshot_keys:
  assumes "\<And>r m. P (QEvent r m)" "\<And>w x. fst (a_get_policy A (run_ns ar) (rspec_PolicyRef (run_Spec ar)) w) = Inr x \<Longrightarrow> x = policy"
  shows "emits (snapshot_data E A ar) P
    (\<lambda>data. insert ''system-root'' (set snapshot_files \<union> payload_keys (e_klib E) (apo_Spec policy)) \<subseteq> fmdom' data)"
  unfolding snapshot_data_def
  by (intro emits_rules emits_andthen [OF emits_validate_root] emits_andthen [OF emits_payload_keys]
      emits_andthen [OF emits_resolveRunSource] assms(1))
    (use assms(2) system_entries_root in \<open>auto simp: snapshot_files_def\<close>)

section \<open>The mounted items\<close>

definition constant_mount :: "klib \<Rightarrow> KeySelector \<Rightarrow> KeyToPath" where
  "constant_mount L ref = key_path (runConstantKey L ref) (''constants/'' @ sel_Name ref @ ''/'' @ sel_Key ref)"

lemma constant_item_step:
  "constant_item L (items, seen) ref =
     (if runConstantKey L ref \<in> set seen then (items, seen) else (items @ [constant_mount L ref], runConstantKey L ref # seen))"
  by (simp add: constant_item_def constant_mount_def Let_def)

text \<open>The keys seen so far are those of the constants that are mounted.\<close>

lemma constant_items_mounted:
  assumes "inj_on (runConstantKey L) (set refs \<union> R)" "set seen = runConstantKey L ` R" "constant_mount L ` R \<subseteq> set items"
  shows "set items \<union> constant_mount L ` set refs \<subseteq> set (fst (foldl (constant_item L) (items, seen) refs))"
  using assms
proof (induction refs arbitrary: items seen R)
  case (Cons ref refs)
  show ?case
  proof (cases "runConstantKey L ref \<in> set seen")
    case True
    then have "ref \<in> R" using Cons.prems(1,2) by (auto dest: inj_onD)
    then show ?thesis using Cons.IH [of R seen items] Cons.prems True
      by (simp add: constant_item_step) (metis image_eqI insert_absorb subsetD)
  next
    case False
    have "set (items @ [constant_mount L ref]) \<union> constant_mount L ` set refs \<subseteq>
        set (fst (foldl (constant_item L) (items @ [constant_mount L ref], runConstantKey L ref # seen) refs))"
      by (rule Cons.IH [of "insert ref R"]) (use Cons.prems in auto)
    then show ?thesis using False by (simp add: constant_item_step)
  qed
qed simp

text \<open>A path of the runner's file system is mounted from the snapshot.\<close>

definition mounted :: "klib \<Rightarrow> PolicySpec \<Rightarrow> (string, string) fmap \<Rightarrow> string \<Rightarrow> bool" where
  "mounted L policy data path \<longleftrightarrow> list_ex (\<lambda>item. runner_root @ ''/'' @ kp_Path item = path \<and> kp_Key item \<in> fmdom' data)
     (payload_items L policy)"

lemma mounted_item: "item \<in> set (payload_items L policy) \<Longrightarrow> kp_Key item \<in> fmdom' data \<Longrightarrow> path = runner_root @ ''/'' @ kp_Path item \<Longrightarrow>
    mounted L policy data path"
  by (auto simp: mounted_def list_ex_iff)

lemma projectedPath_eq: "projectedPath root parts = Inr path \<Longrightarrow> path = str_join (root # parts) ''/''"
  by (auto simp: projectedPath_def bindr_eq_Inr split: if_splits)


text \<open>A cluster with everything that a run with one SQL step refers to.\<close>

definition step_policy :: AnonymizationPolicy where
  "step_policy = \<lparr>apo_Meta = empty_meta\<lparr>om_Name := ''shop'', om_Namespace := ''shop''\<rparr>,
     apo_Spec = demo_spec\<lparr>ps_Steps := [\<lparr>st_Name = ''purge'', st_ConfigMapKeyRef = Some \<lparr>sel_Name = ''sql'', sel_Key = ''purge.sql'', sel_Optional = None\<rparr>,
       st_SecretKeyRef = None, st_ContinueOnError = False\<rparr>]\<rparr>,
     apo_Status = \<lparr>apt_Hash = hash_text demo_wire ''{}'', apt_Conditions = [condition ''Valid'' ''True'' ''Valid'' ''ok'']\<rparr>\<rparr>"

definition step_api :: "unit run_api" where
  "step_api = (quiet_api sample_run)\<lparr>a_get_policy := (\<lambda>_ _ w. (Inr step_policy, w)),
     a_get_configmap := (\<lambda>_ ns name w. (Inr \<lparr>cm_Meta = empty_meta\<lparr>om_Name := name, om_Namespace := ns\<rparr>, cm_Immutable = None,
       cm_Data = fmap_of_list [(''purge.sql'', ''DELETE FROM carts'')], cm_BinaryData = fmempty\<rparr>, w)),
     a_secrets := (\<lambda>_ ns name. if name = ''shop-users'' then Inr sample_users
       else Inr \<lparr>sec_Meta = empty_meta\<lparr>om_Name := name, om_Namespace := ns\<rparr>, sec_Type = [], sec_Immutable = None,
         sec_Data = fmap_of_list [(''AWS_ACCESS_KEY_ID'', ''id''), (''AWS_SECRET_ACCESS_KEY'', ''key''), (''bundle'', ''pem'')]\<rparr>)\<rparr>"

definition step_run :: AnonymizationRun where
  "step_run = sample_run\<lparr>run_Spec := with_restore sample_run_spec ''https://s3.example'' ''eu''\<rparr>"

lemma step_snapshot: "is_ok (fst (snapshot_data sample_env step_api step_run \<lparr>world = (), log = []\<rparr>))"
  by code_simp


end
