(* ===== verification/Engine_Counts.thy ===== *)
theory Engine_Counts
  imports Engine
begin

text \<open>
  The counters of an execution: the finished tables never exceed the planned ones, the counters
  only grow and the policy hash does not change.
\<close>

section \<open>Counters of an execution\<close>

text \<open>The second execution follows the first with at most \<open>n\<close> more tables finished.\<close>

definition advanced :: "nat \<Rightarrow> execution \<Rightarrow> execution \<Rightarrow> bool" where
  "advanced n ex ex' \<longleftrightarrow> ex_tables ex \<le> ex_tables ex' \<and> ex_tables ex' \<le> ex_tables ex + int n \<and>
     ex_steps ex \<le> ex_steps ex' \<and> ex_total ex' = ex_total ex \<and> ex_hash ex' = ex_hash ex"

lemma advanced_refl [simp]: "advanced n ex ex"
  by (simp add: advanced_def)

lemma advanced_db [simp]: "advanced n (ex\<lparr>ex_db := s\<rparr>) ex' = advanced n ex ex'" "advanced n ex (ex'\<lparr>ex_db := s\<rparr>) = advanced n ex ex'"
  by (simp_all add: advanced_def)

lemma advanced_trans: "advanced m ex ex1 \<Longrightarrow> advanced n ex1 ex2 \<Longrightarrow> m + n \<le> k \<Longrightarrow> advanced k ex ex2"
  by (simp add: advanced_def)

lemma steps_advanced: "steps st env defs bodies database phase i refs ex = (ex', r) \<Longrightarrow> advanced 0 ex ex'"
proof (induction refs arbitrary: i ex)
  case (Cons ref refs)
  have step: "advanced 0 ex (ex\<lparr>ex_steps := ex_steps ex + 1\<rparr>)" by (simp add: advanced_def)
  show ?case
    using Cons.prems Cons.IH [of "i + 1"]
    by (auto simp: Let_def split: prod.splits sum.splits if_splits dest!: advanced_trans [OF step, of 0 _ 0])
      (fastforce simp: advanced_def)+
qed simp

lemma advanced_page:
  "advanced (Suc 0) ex (progress plan p (ex\<lparr>ex_db := s\<rparr>))"
  "\<not> Done p \<Longrightarrow> advanced (Suc 0) (progress plan p (ex\<lparr>ex_db := s\<rparr>)) ex' \<Longrightarrow> advanced (Suc 0) ex ex'"
  by (auto simp: advanced_def progress_def Let_def)

lemma table_loop_advanced: "table_loop fuel st env plan i attempt open_conn ex = Some (ex', r) \<Longrightarrow> advanced (Suc 0) ex ex'"
proof (induction fuel arbitrary: i attempt open_conn ex)
  case (Suc fuel)
  let ?tn = "tname_of (pl_page plan)"
  obtain s' res where it: "(case (if open_conn then None else ev_conn env ?tn i) of
      Some err \<Rightarrow> (ex_db ex, Inl err)
    | None \<Rightarrow> ProcessPage (s_codec st) (s_server st) (ev_page env ?tn i) (pl_page plan)
        (table_key st (ex_hash ex) plan) (with_ctx (ev_ctx env ?tn i) (transform st plan)) (ex_db ex)) = (s', res)"
    by fastforce
  have IH: "table_loop fuel st env plan j a b (ex\<lparr>ex_db := s'\<rparr>) = Some (ex', r) \<Longrightarrow> advanced (Suc 0) ex ex'"
    "table_loop fuel st env plan j a b (progress plan p (ex\<lparr>ex_db := s'\<rparr>)) = Some (ex', r) \<Longrightarrow> \<not> Done p \<Longrightarrow> advanced (Suc 0) ex ex'"
    for j a b p using Suc.IH [of j a b] advanced_page(2) by fastforce+
  show ?case using Suc.prems it IH
    by (auto simp: table_loop.simps(2) Let_def advanced_page(1) split: sum.splits if_splits option.splits)
qed simp

lemma table_advanced: "table fuel st env plan ex = Some (ex', r) \<Longrightarrow> advanced (Suc 0) ex ex'"
  by (auto simp: table_def truncate_table_def Let_def table_loop_advanced advanced_page(1)
      split: if_splits option.splits prod.splits sum.splits)

lemma tables_advanced: "tables fuel st env ps ex = Some (ex', r) \<Longrightarrow> advanced (length ps) ex ex'"
proof (induction ps arbitrary: ex)
  case (Cons p ps)
  show ?case
    using Cons.prems table_advanced [of fuel st env p ex] Cons.IH
    by (auto split: option.splits prod.splits sum.splits intro: advanced_trans [of "Suc 0" _ _ 0] advanced_trans [of "Suc 0" _ _ "length ps"])
qed simp

lemma databases_advanced:
  "databases fuel st env defs bodies ds ex = Some (ex', r) \<Longrightarrow> advanced (sum_list (map (length \<circ> dpl_tables) ds)) ex ex'"
proof (induction ds arbitrary: ex)
  case (Cons d ds)
  obtain ex1 r1 where s1: "steps st env defs bodies (dpl_name d) ''pre'' 0 (dp_Pre (dpl_policy d)) ex = (ex1, r1)"
    by fastforce
  note a1 = steps_advanced [OF s1]
  show ?case
  proof (cases "r1 = Inr () \<and> (\<exists>ex2. tables fuel st env (dpl_tables d) ex1 = Some (ex2, Inr ()))")
    case False
    then show ?thesis
      using Cons.prems s1 a1 tables_advanced [of fuel st env "dpl_tables d" ex1]
      by (auto split: option.splits prod.splits sum.splits intro: advanced_trans [OF a1] advanced_trans [OF a1 advanced_refl])
  next
    case True
    then obtain ex2 where t: "tables fuel st env (dpl_tables d) ex1 = Some (ex2, Inr ())" by blast
    obtain ex3 r3 where s3: "steps st env defs bodies (dpl_name d) ''post'' 0 (dp_Post (dpl_policy d)) ex2 = (ex3, r3)"
      by fastforce
    have "advanced (length (dpl_tables d)) ex ex2"
      by (rule advanced_trans [OF a1 tables_advanced [OF t]]) simp
    then have "advanced (length (dpl_tables d)) ex ex3"
      by (rule advanced_trans [OF _ steps_advanced [OF s3]]) simp
    then show ?thesis
      using Cons.prems s1 t s3 True Cons.IH [of ex3]
      by (auto split: sum.splits intro: advanced_trans [of "length (dpl_tables d)" ex ex3 0] advanced_trans)
  qed
qed simp

text \<open>The counters of a run and the policy hash that it reports.\<close>

lemma run_counts:
  assumes "run fuel c sv L pf w env opts s = Some (ex, res)"
  shows "0 \<le> ex_tables ex \<and> ex_tables ex \<le> ex_total ex \<and> 0 \<le> ex_steps ex \<and> ex_hash ex = fst (prepare_run L pf w env opts)"
proof -
  have total: "ep_total plan = sum_list (map (length \<circ> dpl_tables) (ep_databases plan))"
    if "snd (prepare_run L pf w env opts) = Inr (a, b, g, plan)" for a b g plan
    using that by (auto simp: prepare_run_def Let_def preflight_def bindr_eq_Inr split: if_splits sum.splits prod.splits)
  show ?thesis
  proof (cases "snd (prepare_run L pf w env opts)")
    case (Inl e)
    then show ?thesis using assms by (auto simp: run_def start_execution_def split: prod.splits)
  next
    case (Inr b)
    then obtain opts' spec g plan hash where p: "prepare_run L pf w env opts = (hash, Inr (opts', spec, g, plan))"
      by (metis prod.collapse)
    let ?ex = "(start_execution s)\<lparr>ex_hash := hash, ex_total := int (ep_total plan)\<rparr>"
    have "advanced (ep_total plan) ?ex ex"
      using assms p total databases_advanced
      by (fastforce simp: run_def Let_def advanced_def split: if_splits option.splits sum.splits)
    then show ?thesis using p by (simp add: advanced_def start_execution_def)
  qed
qed

end
