(* ===== verification/Verdict.thy ===== *)
theory Verdict
  imports Runner_Args Engine_Counts Engine_Safety
begin

text \<open>
  The verdict of a runner: the report that the engine leaves is one that the controller accepts,
  and only reports of a runner that never read its policy are refused.
\<close>

section \<open>The shape of a report\<close>

lemma run_report_fields:
  "Report.Result (run_report d (ex, res)) = (case res of Inr _ \<Rightarrow> ResultOK | Inl _ \<Rightarrow> ResultError)"
  "rClass (run_report d (ex, res)) = (case res of Inr _ \<Rightarrow> [] | Inl e \<Rightarrow> fst (Classify e))"
  "TablesDone (run_report d (ex, res)) = ex_tables ex" "TablesTotal (run_report d (ex, res)) = ex_total ex"
  "RowsDoneR (run_report d (ex, res)) = ex_rows ex" "StepsDone (run_report d (ex, res)) = ex_steps ex"
  "DurationSeconds (run_report d (ex, res)) = d" "rPolicyHash (run_report d (ex, res)) = ex_hash ex"
  by (simp_all add: run_report_def Let_def split: sum.split)

text \<open>What \<open>encoding/json\<close> promises: the text that was written is read back as the report, with the
  message as it was shortened.\<close>

definition reads_back :: "('f \<Rightarrow> string option) \<Rightarrow> (string \<Rightarrow> string report option) \<Rightarrow> 'f report \<Rightarrow> string report \<Rightarrow> bool" where
  "reads_back ff um r r' \<longleftrightarrow> (\<forall>text'. Write ff r = Inr text' \<longrightarrow> um text' = Some r') \<and>
     Report.Result r' = Report.Result r \<and> rClass r' = rClass r \<and> Message r' = report_message (Message r) \<and>
     TablesDone r' = TablesDone r \<and> TablesTotal r' = TablesTotal r \<and> RowsDoneR r' = RowsDoneR r \<and>
     StepsDone r' = StepsDone r \<and> rPolicyHash r' = rPolicyHash r"


text \<open>A run whose database refuses the user.\<close>

definition refused_env :: engine_env where
  "refused_env = toy_env\<lparr>ev_ping := (\<lambda>_. Some (EMySQL 1045 ''access denied''))\<rparr>"

definition refused_report :: "string report" where
  "refused_report = (error_report ''0.5'' Permission ''database operation failed (MySQL 1045)'')\<lparr>rPolicyHash := hash_text demo_wire ''{}''\<rparr>"

definition refused_execution :: execution where
  "refused_execution = (start_execution empty_db)\<lparr>ex_hash := hash_text demo_wire ''{}''\<rparr>"

lemma refused_prepare:
  "prepare_run sample_lib (\<lambda>_ _. None) toy_outside refused_env demo_options =
     (hash_text demo_wire ''{}'', Inl (EMySQL 1045 ''access denied''))"
proof -
  have "is_ok (New sample_lib (replicate 32 (CHR ''s'')) (hash_text demo_wire ''{}'') 63713433600000000000)" by code_simp
  moreover have "fst (Classify (EMySQL 1045 ''access denied'')) \<noteq> Transient" by code_simp
  ultimately show ?thesis
    using demo_decode [of "[]"]
    by (auto simp: prepare_run_def demo_options_def defaulted_def options_ok_def toy_outside_def Let_def connect_def
        connect_loop.simps refused_env_def is_ok_iff bindr_def)
qed


section \<open>Where the two disagree\<close>

text \<open>The controller accepts any positive page size, the command refuses one above 50000, after the
  cluster has been provisioned and restored.  Like every failure before the policy is decoded, its
  report carries no policy hash, so that the controller refuses the report and the class of the
  failure is lost.\<close>

definition big_pages :: AnonymizationRunSpec where
  "big_pages = sample_run_spec\<lparr>rspec_Runner := (rspec_Runner sample_run_spec)\<lparr>ru_PageSize := Some 60000,
     ru_PodSpec := (ru_PodSpec (rspec_Runner sample_run_spec))\<lparr>rp_Image := ''runner:1''\<rparr>\<rparr>\<rparr>"

lemma page_size_beyond_runner:
  "runner_settings_ok big_pages \<and> is_ok (renderRunJob sample_env (first_attempt big_pages) ready_snapshot) \<and>
   \<not> is_ok (prepareAnonymize C fs (runner_flags sample_env ar cluster 1 4 60000 False))"
proof -
  have "is_ok (renderRunJob sample_env (first_attempt big_pages) ready_snapshot)"
    by (simp add: renderRunJob_def first_attempt_def big_pages_def sample_run_spec_def Let_def
      observed_def with_status_def from_snapshot_def ready_run_def sample_run_def zero_time_def)
  moreover have "\<not> is_ok (prepareAnonymize C fs (runner_flags sample_env ar cluster 1 4 60000 False))"
    by (simp add: prepareAnonymize_def limits_ok_def runner_flags_def empty_options_def)
  ultimately show ?thesis
    by (simp add: runner_settings_ok_def big_pages_def sample_run_spec_def)
qed

lemma early_report_refused: "hash \<noteq> [] \<Longrightarrow> rPolicyHash r = [] \<Longrightarrow> um (te_Message t) = Some r \<Longrightarrow> runReport um (Some t) hash = None"
  by (simp add: runReport_def)

end
