(* ===== verification/Crossplane.thy ===== *)
theory Crossplane
  imports Controller
begin

text \<open>
  \<open>internal/crossplane\<close>: the client that pauses, resumes and recreates the managed resources
  of Crossplane.  The dynamic client is a parameter (the record \<open>xapi\<close>), as in the
  controllers; a patch carries the JSON patch operations, which the code encodes before it sends them.  An operation
  that returns a list beside its error returns a pair of a list and an optional error.
\<close>

section \<open>Data\<close>

abbreviation (input) "PausedAnnotation \<equiv> ''crossplane.io/paused''"
abbreviation (input) "OwnerAnnotation \<equiv> ''pxc-anonymizer.io/bootstrap-pause-owner''"
abbreviation (input) "annotationTrue \<equiv> ''true''"
abbreviation (input) "statusField \<equiv> ''status''"

abbreviation (input) "ErrEmptySelection \<equiv> CText ''crossplane selection must not be empty''"

record Reference =
  rf_Kind :: string
  rf_Name :: string
  rf_UID :: string

text \<open>A group, a version and a resource.\<close>

type_synonym gvr = "string \<times> string \<times> string"

record Client =
  cl_Group :: string
  cl_Version :: string

text \<open>An \<open>unstructured.Unstructured\<close> as its accessors read it: the metadata and the tree.\<close>

record Managed =
  mg_Meta :: ObjectMeta
  mg_Tree :: json

record patchOperation =
  po_Op :: string
  po_Path :: string
  po_Value :: json

definition patch_json :: "patchOperation list \<Rightarrow> json" where
  "patch_json ops = JList (map (\<lambda>p. jobj
     [(''op'', JStr (po_Op p)), (''path'', JStr (po_Path p)), (''value'', po_Value p)]) ops)"

text \<open>The requests that change something: a patch with its operations, and a deletion with the
  UID and the resource version that are its preconditions.\<close>

datatype xreq = XPatch gvr string "patchOperation list" | XDelete gvr string string string

text \<open>The dynamic client, the label selector syntax and \<open>unstructured.NestedSlice\<close>, with
  \<open>Inr None\<close> for a field that is not found.\<close>

record 'w xapi =
  xa_list :: "gvr \<Rightarrow> string \<Rightarrow> 'w \<Rightarrow> (cerr + Managed list) \<times> 'w"
  xa_get :: "gvr \<Rightarrow> string \<Rightarrow> 'w \<Rightarrow> (cerr + Managed) \<times> 'w"
  xa_patch :: "gvr \<Rightarrow> string \<Rightarrow> patchOperation list \<Rightarrow> 'w \<Rightarrow> (cerr + Managed) \<times> 'w"
  xa_delete :: "gvr \<Rightarrow> string \<Rightarrow> string \<Rightarrow> string \<Rightarrow> 'w \<Rightarrow> (cerr + unit) \<times> 'w"
  xa_klib :: klib
  xa_selector :: "json \<Rightarrow> cerr + string"
  xa_nested_slice :: "json \<Rightarrow> string list \<Rightarrow> gerr + json list option"

type_synonym ('w, 'a) xact = "('w, xreq, cerr, 'a) eff"

definition NewClient :: "klib \<Rightarrow> bool \<Rightarrow> string \<Rightarrow> string \<Rightarrow> cerr + Client" where
  "NewClient L present grp version =
     (if \<not> present \<or> \<not> dns_subdomain L grp \<or> version = [] \<or> CHR ''/'' \<in> set version
      then Inl (CText ''crossplane client requires a client, API group and version'')
      else Inr \<lparr>cl_Group = grp, cl_Version = version\<rparr>)"

definition resource :: "Client \<Rightarrow> string \<Rightarrow> gvr" where
  "resource c kind = (cl_Group c, cl_Version c, kind)"

section \<open>Validation\<close>

definition validateKind :: "klib \<Rightarrow> string \<Rightarrow> cerr + unit" where
  "validateKind L kind = guardr (dns_1035_label L kind) (CText ''invalid crossplane resource kind'')"

definition ref_key :: "Reference \<Rightarrow> string" where
  "ref_key ref = rf_Kind ref @ ''/'' @ rf_Name ref"

fun refs_loop :: "klib \<Rightarrow> string set \<Rightarrow> Reference list \<Rightarrow> cerr + unit" where
  "refs_loop L seen [] = Inr ()"
| "refs_loop L seen (ref # refs) = bindr (validateKind L (rf_Kind ref)) (\<lambda>_.
     if rf_Name ref = [] \<or> rf_UID ref = [] \<or> ref_key ref \<in> seen
     then Inl (CText ''crossplane reference requires a unique name and UID'')
     else refs_loop L (insert (ref_key ref) seen) refs)"

definition validateRefs :: "klib \<Rightarrow> Reference list \<Rightarrow> cerr + unit" where
  "validateRefs L refs = (if refs = [] then Inl ErrEmptySelection else refs_loop L {} refs)"

definition validateOperation :: "klib \<Rightarrow> string \<Rightarrow> Reference list \<Rightarrow> cerr + unit" where
  "validateOperation L owner refs =
     (if owner = [] then Inl (CText ''crossplane pause owner must not be empty'') else validateRefs L refs)"

definition ownershipError :: cerr where
  "ownershipError = CText ''pause is not owned by this Bootstrap''"

text \<open>\<open>annotations[key]\<close>: a missing key reads as the empty string.\<close>

definition annotation_of :: "Managed \<Rightarrow> string \<Rightarrow> string" where
  "annotation_of ob k = (case fmlookup (om_Annotations (mg_Meta ob)) k of None \<Rightarrow> [] | Some v \<Rightarrow> v)"

text \<open>The loop of \<open>isReady\<close> over the conditions: a condition that is not an object ends it, and
  the last condition of a type decides.\<close>

fun ready_loop :: "bool \<Rightarrow> bool \<Rightarrow> json list \<Rightarrow> bool" where
  "ready_loop ready synced [] = (ready \<and> synced)"
| "ready_loop ready synced (JObj v # cs) =
     (let true = (fmlookup v statusField = Some (JStr ''True''))
      in if fmlookup v ''type'' = Some (JStr ''Ready'') then ready_loop true synced cs
         else if fmlookup v ''type'' = Some (JStr ''Synced'') then ready_loop ready true cs
         else ready_loop ready synced cs)"
| "ready_loop ready synced (_ # cs) = False"

definition isReady :: "'w xapi \<Rightarrow> Managed \<Rightarrow> bool" where
  "isReady A ob =
     (if om_DeletionTimestamp (mg_Meta ob) \<noteq> None then False
      else case xa_nested_slice A (mg_Tree ob) [statusField, ''conditions''] of
        Inr (Some cs) \<Rightarrow> ready_loop False False cs
      | _ \<Rightarrow> False)"

section \<open>Selection\<close>

definition select_refs :: "string \<Rightarrow> Managed list \<Rightarrow> Reference list" where
  "select_refs kind items =
     map (\<lambda>ob. \<lparr>rf_Kind = kind, rf_Name = om_Name (mg_Meta ob), rf_UID = om_UID (mg_Meta ob)\<rparr>)
       (sort_key (\<lambda>ob. om_Name (mg_Meta ob)) items)"

fun select_loop ::
  "'w xapi \<Rightarrow> Client \<Rightarrow> string \<Rightarrow> string set \<Rightarrow> Reference list \<Rightarrow> string list \<Rightarrow> ('w, Reference list) xact" where
  "select_loop A c labels seen refs [] = ret refs"
| "select_loop A c labels seen refs (kind # kinds) =
     andthen (lift (validateKind (xa_klib A) kind)) (\<lambda>_.
     if kind \<in> seen then fail (CText ''duplicate crossplane kind'')
     else andthen (query (xa_list A (resource c kind) labels)) (\<lambda>items.
       select_loop A c labels (insert kind seen) (refs @ select_refs kind items) kinds))"

text \<open>The references are returned together with the verdict on them, and with nothing on any
  earlier error.\<close>

definition Select ::
  "'w xapi \<Rightarrow> Client \<Rightarrow> string list \<Rightarrow> json option \<Rightarrow> ('w, Reference list \<times> cerr option) xact" where
  "Select A c kinds selector =
     (if kinds = [] then ret ([], Some ErrEmptySelection)
      else attempt (andthen (lift (case selector of None \<Rightarrow> Inr [] | Some s \<Rightarrow> xa_selector A s))
          (\<lambda>labels. select_loop A c labels {} [] kinds))
        (\<lambda>r. case r of
           Inl e \<Rightarrow> ret ([], Some e)
         | Inr refs \<Rightarrow> ret (refs, case validateRefs (xa_klib A) refs of Inl e \<Rightarrow> Some e | Inr _ \<Rightarrow> None)))"

section \<open>Reading and patching\<close>

definition getOriginal :: "'w xapi \<Rightarrow> Client \<Rightarrow> Reference \<Rightarrow> ('w, Managed) xact" where
  "getOriginal A c ref =
     andthen (query (xa_get A (resource c (rf_Kind ref)) (rf_Name ref))) (\<lambda>ob.
     if om_UID (mg_Meta ob) \<noteq> rf_UID ref then fail (CText ''UID changed'') else ret ob)"

definition patch_ops :: "Managed \<Rightarrow> string \<Rightarrow> json \<Rightarrow> patchOperation list" where
  "patch_ops ob path v =
     [\<lparr>po_Op = ''test'', po_Path = ''/metadata/uid'', po_Value = JStr (om_UID (mg_Meta ob))\<rparr>] @
     (if om_ResourceVersion (mg_Meta ob) = [] then []
      else [\<lparr>po_Op = ''test'', po_Path = ''/metadata/resourceVersion'',
             po_Value = JStr (om_ResourceVersion (mg_Meta ob))\<rparr>]) @
     [\<lparr>po_Op = ''add'', po_Path = path, po_Value = v\<rparr>]"

definition patch :: "'w xapi \<Rightarrow> Client \<Rightarrow> string \<Rightarrow> Managed \<Rightarrow> string \<Rightarrow> json \<Rightarrow> ('w, Managed) xact" where
  "patch A c kind ob path v =
     (case json_marshal (xa_klib A) (patch_json (patch_ops ob path v)) of
        None \<Rightarrow> fail (CText ''encode crossplane patch'')
      | Some _ \<Rightarrow> request (XPatch (resource c kind) (om_Name (mg_Meta ob)) (patch_ops ob path v))
          (xa_patch A (resource c kind) (om_Name (mg_Meta ob)) (patch_ops ob path v)))"

definition annotations_json :: "(string, string) fmap \<Rightarrow> json" where
  "annotations_json an = JObj (fmmap JStr an)"

section \<open>Pausing and resuming\<close>

definition paused_annotations :: "string \<Rightarrow> Managed \<Rightarrow> (string, string) fmap" where
  "paused_annotations owner ob =
     fmupd OwnerAnnotation owner (fmupd PausedAnnotation annotationTrue (om_Annotations (mg_Meta ob)))"

fun pause_loop ::
  "'w xapi \<Rightarrow> Client \<Rightarrow> string \<Rightarrow> Reference list \<Rightarrow> Reference list \<Rightarrow> ('w, Reference list \<times> cerr option) xact" where
  "pause_loop A c owner paused [] = ret (paused, None)"
| "pause_loop A c owner paused (ref # refs) =
     attempt (getOriginal A c ref) (\<lambda>r. case r of
       Inl e \<Rightarrow> ret (paused, Some e)
     | Inr ob \<Rightarrow>
        if annotation_of ob PausedAnnotation = annotationTrue
        then pause_loop A c owner (if annotation_of ob OwnerAnnotation = owner then paused @ [ref] else paused) refs
        else if annotation_of ob OwnerAnnotation \<noteq> [] \<and> annotation_of ob OwnerAnnotation \<noteq> owner
        then ret (paused, Some ownershipError)
        else attempt (patch A c (rf_Kind ref) ob ''/metadata/annotations''
            (annotations_json (paused_annotations owner ob))) (\<lambda>r. case r of
          Inl e \<Rightarrow> ret (paused, Some e)
        | Inr _ \<Rightarrow> pause_loop A c owner (paused @ [ref]) refs))"

definition Pause :: "'w xapi \<Rightarrow> Client \<Rightarrow> string \<Rightarrow> Reference list \<Rightarrow> ('w, Reference list \<times> cerr option) xact" where
  "Pause A c owner refs = (case validateOperation (xa_klib A) owner refs of
     Inl e \<Rightarrow> ret ([], Some e) | Inr _ \<Rightarrow> pause_loop A c owner [] refs)"

definition resumed_annotations :: "Managed \<Rightarrow> (string, string) fmap" where
  "resumed_annotations ob = fmdrop OwnerAnnotation (fmdrop PausedAnnotation (om_Annotations (mg_Meta ob)))"

fun resume_loop ::
  "'w xapi \<Rightarrow> Client \<Rightarrow> string \<Rightarrow> Reference list \<Rightarrow> Reference list \<Rightarrow> ('w, Reference list \<times> cerr option) xact" where
  "resume_loop A c owner resumed [] = ret (resumed, None)"
| "resume_loop A c owner resumed (ref # refs) =
     attempt (getOriginal A c ref) (\<lambda>r. case r of
       Inl e \<Rightarrow> ret (resumed, Some e)
     | Inr ob \<Rightarrow>
        if annotation_of ob OwnerAnnotation = [] \<and> annotation_of ob PausedAnnotation \<noteq> annotationTrue
        then resume_loop A c owner (resumed @ [ref]) refs
        else if annotation_of ob OwnerAnnotation \<noteq> owner then ret (resumed, Some ownershipError)
        else attempt (patch A c (rf_Kind ref) ob ''/metadata/annotations''
            (annotations_json (resumed_annotations ob))) (\<lambda>r. case r of
          Inl e \<Rightarrow> ret (resumed, Some e)
        | Inr _ \<Rightarrow> resume_loop A c owner (resumed @ [ref]) refs))"

definition Resume :: "'w xapi \<Rightarrow> Client \<Rightarrow> string \<Rightarrow> Reference list \<Rightarrow> ('w, Reference list \<times> cerr option) xact" where
  "Resume A c owner recorded = (case validateOperation (xa_klib A) owner recorded of
     Inl e \<Rightarrow> ret ([], Some e) | Inr _ \<Rightarrow> resume_loop A c owner [] recorded)"

fun pending_loop ::
  "'w xapi \<Rightarrow> Client \<Rightarrow> Reference list \<Rightarrow> Reference list \<Rightarrow> ('w, Reference list \<times> cerr option) xact" where
  "pending_loop A c pending [] = ret (pending, None)"
| "pending_loop A c pending (ref # refs) =
     attempt (query (xa_get A (resource c (rf_Kind ref)) (rf_Name ref))) (\<lambda>r. case r of
       Inl e \<Rightarrow> if e = CKube KNotFound then pending_loop A c (pending @ [ref]) refs else ret (pending, Some e)
     | Inr ob \<Rightarrow> pending_loop A c
         (if om_UID (mg_Meta ob) \<noteq> rf_UID ref \<or> \<not> isReady A ob then pending @ [ref] else pending) refs)"

definition Ready :: "'w xapi \<Rightarrow> Client \<Rightarrow> Reference list \<Rightarrow> ('w, Reference list \<times> cerr option) xact" where
  "Ready A c refs = (case validateRefs (xa_klib A) refs of
     Inl e \<Rightarrow> ret ([], Some e) | Inr _ \<Rightarrow> pending_loop A c [] refs)"

section \<open>Recreation\<close>

record Recreation =
  rr_Reference :: Reference
  rr_DeletionObserved :: bool
  rr_Complete :: bool

record RecreateOptions =
  ro_RemoveFinalizers :: bool
  ro_WaitForRecreation :: "bool option"

definition waitForRecreation :: "RecreateOptions \<Rightarrow> bool" where
  "waitForRecreation opts = (case ro_WaitForRecreation opts of None \<Rightarrow> True | Some b \<Rightarrow> b)"

definition allowRecreation :: "'w xapi \<Rightarrow> Reference \<Rightarrow> Managed \<Rightarrow> cerr + unit" where
  "allowRecreation A ref ob =
     (if rf_Kind ref \<noteq> ''databases'' then Inr ()
      else guardr (nested_string (xa_klib A) (mg_Tree ob) [''spec'', ''deletionPolicy''] = Inr ''Orphan'')
        (CText ''recreation requires deletionPolicy Orphan''))"

definition validateProgress :: "Reference list \<Rightarrow> Recreation list \<Rightarrow> cerr + unit" where
  "validateProgress refs progress =
     (if length refs \<noteq> length progress
      then Inl (CText ''crossplane recreation checkpoint does not match the expected set'')
      else guardr (list_all2 (\<lambda>ref p. rr_Reference p = ref \<and> (rr_Complete p \<longrightarrow> rr_DeletionObserved p)) refs progress)
        (CText ''crossplane recreation checkpoint identity or deletion state is invalid''))"

fun initialize_loop :: "'w xapi \<Rightarrow> Client \<Rightarrow> Recreation list \<Rightarrow> Reference list \<Rightarrow> ('w, Recreation list) xact" where
  "initialize_loop A c progress [] = ret progress"
| "initialize_loop A c progress (ref # refs) =
     andthen (getOriginal A c ref) (\<lambda>ob.
     andthen (lift (allowRecreation A ref ob)) (\<lambda>_.
     initialize_loop A c
       (progress @ [\<lparr>rr_Reference = ref, rr_DeletionObserved = False, rr_Complete = False\<rparr>]) refs))"

text \<open>The results are the checkpoint, whether everything is complete, and the error.\<close>

definition initializeRecreation ::
  "'w xapi \<Rightarrow> Client \<Rightarrow> Reference list \<Rightarrow> ('w, Recreation list \<times> bool \<times> cerr option) xact" where
  "initializeRecreation A c refs = attempt (initialize_loop A c [] refs) (\<lambda>r. case r of
     Inl e \<Rightarrow> ret ([], False, Some e) | Inr progress \<Rightarrow> ret (progress, False, None))"

definition remove_finalizers ::
  "'w xapi \<Rightarrow> Client \<Rightarrow> RecreateOptions \<Rightarrow> Recreation \<Rightarrow> Managed \<Rightarrow> ('w, Managed) xact" where
  "remove_finalizers A c opts st ob =
     (if ro_RemoveFinalizers opts \<and> om_Finalizers (mg_Meta ob) \<noteq> []
      then patch A c (rf_Kind (rr_Reference st)) ob ''/metadata/finalizers'' (JList []) else ret ob)"

definition delete_original :: "'w xapi \<Rightarrow> Client \<Rightarrow> Recreation \<Rightarrow> Managed \<Rightarrow> ('w, unit) xact" where
  "delete_original A c st ob =
     (let ref = rr_Reference st; g = resource c (rf_Kind ref); version = om_ResourceVersion (mg_Meta ob)
      in if om_DeletionTimestamp (mg_Meta ob) \<noteq> None then ret ()
         else attempt (request (XDelete g (rf_Name ref) (rf_UID ref) version)
                (xa_delete A g (rf_Name ref) (rf_UID ref) version)) (\<lambda>r. case r of
           Inl e \<Rightarrow> if e = CKube KNotFound then ret () else fail e
         | Inr _ \<Rightarrow> ret ()))"

text \<open>The state is returned beside the error, as it was read.\<close>

definition recreateOne ::
  "'w xapi \<Rightarrow> Client \<Rightarrow> RecreateOptions \<Rightarrow> Recreation \<Rightarrow> ('w, Recreation \<times> cerr option) xact" where
  "recreateOne A c opts st =
     attempt (query (xa_get A (resource c (rf_Kind (rr_Reference st))) (rf_Name (rr_Reference st)))) (\<lambda>r. case r of
       Inl e \<Rightarrow> if e = CKube KNotFound
         then ret (st\<lparr>rr_DeletionObserved := True, rr_Complete := \<not> waitForRecreation opts\<rparr>, None)
         else ret (st, Some e)
     | Inr ob \<Rightarrow>
        if om_UID (mg_Meta ob) \<noteq> rf_UID (rr_Reference st)
        then if om_UID (mg_Meta ob) = [] then ret (st, Some (CText ''replacement crossplane object has no UID''))
             else ret (st\<lparr>rr_DeletionObserved := True,
               rr_Complete := (\<not> waitForRecreation opts \<or> isReady A ob)\<rparr>, None)
        else if rr_DeletionObserved st then ret (st, Some (CText ''original UID remains after recorded deletion''))
        else attempt (andthen (lift (allowRecreation A (rr_Reference st) ob)) (\<lambda>_.
               andthen (remove_finalizers A c opts st ob) (\<lambda>ob. delete_original A c st ob)))
             (\<lambda>r. case r of Inl e \<Rightarrow> ret (st, Some e) | Inr _ \<Rightarrow> ret (st, None)))"

text \<open>The loop over the checkpoint: the first argument is the kind that is still pending, if
  any; the items from the first one of another kind on are left.\<close>

fun recreate_loop ::
  "'w xapi \<Rightarrow> Client \<Rightarrow> RecreateOptions \<Rightarrow> string \<Rightarrow> Recreation list \<Rightarrow> Recreation list \<Rightarrow>
     ('w, Recreation list \<times> cerr option) xact" where
  "recreate_loop A c opts pending done_items [] = ret (done_items, None)"
| "recreate_loop A c opts pending done_items (st # rest) =
     (if pending \<noteq> [] \<and> rf_Kind (rr_Reference st) \<noteq> pending then ret (done_items @ st # rest, None)
      else if rr_Complete st then recreate_loop A c opts pending (done_items @ [st]) rest
      else andthen (recreateOne A c opts st) (\<lambda>(upd, err). case err of
          Some e \<Rightarrow> ret (done_items @ upd # rest, Some e)
        | None \<Rightarrow> recreate_loop A c opts
            (if rr_Complete upd then pending else rf_Kind (rr_Reference upd)) (done_items @ [upd]) rest))"

definition Recreate ::
  "'w xapi \<Rightarrow> Client \<Rightarrow> Reference list \<Rightarrow> Recreation list \<Rightarrow> RecreateOptions \<Rightarrow>
     ('w, Recreation list \<times> bool \<times> cerr option) xact" where
  "Recreate A c refs progress opts =
     (case validateRefs (xa_klib A) refs of
        Inl e \<Rightarrow> ret (progress, False, Some e)
      | Inr _ \<Rightarrow>
         if progress = [] then initializeRecreation A c refs
         else case validateProgress refs progress of
           Inl e \<Rightarrow> ret (progress, False, Some e)
         | Inr _ \<Rightarrow> andthen (recreate_loop A c opts [] [] progress) (\<lambda>(next, err).
             ret (next, err = None \<and> list_all rr_Complete next, err)))"

end
