(* ===== verification/Api_Bootstrap.thy ===== *)
theory Api_Bootstrap
  imports Api_Run
begin

text \<open>
  The data of \<open>api/v1alpha1/bootstrap_types.go\<close>, with the conventions of \<open>Api_Run\<close>: pointers
  are options, durations and times are nanoseconds, the label selector is a tree.
\<close>

abbreviation (input) "BootstrapPhasePending \<equiv> ''Pending''"
abbreviation (input) "BootstrapPhaseWaitingForClusters \<equiv> ''WaitingForClusters''"
abbreviation (input) "BootstrapPhaseResolvingPointer \<equiv> ''ResolvingPointer''"
abbreviation (input) "BootstrapPhasePausingCrossplane \<equiv> ''PausingCrossplane''"
abbreviation (input) "BootstrapPhaseRestoring \<equiv> ''Restoring''"
abbreviation (input) "BootstrapPhaseResumingCrossplane \<equiv> ''ResumingCrossplane''"
abbreviation (input) "BootstrapPhaseRecreatingCrossplane \<equiv> ''RecreatingCrossplane''"
abbreviation (input) "BootstrapPhaseCompleted \<equiv> ''Completed''"
abbreviation (input) "BootstrapPhaseFailed \<equiv> ''Failed''"

record BootstrapSource =
  bso_HTTP :: "HTTPPointerSource option"
  bso_S3 :: "S3PointerSource option"
  bso_Destination :: string
  bso_MaxAge :: "int option"

record BootstrapTarget =
  bta_PXCCluster :: string
  bta_ContainerOptions :: "XtrabackupContainerOptions option"
  bta_Restore :: "RestoreS3Credentials option"

record BootstrapTimeouts =
  bti_ClustersReady :: "int option"
  bti_Pointer :: "int option"
  bti_Restore :: "int option"
  bti_Crossplane :: "int option"

record CrossplaneRecreate =
  cre_Kinds :: "string list"
  cre_RemoveFinalizers :: bool
  cre_WaitForRecreation :: "bool option"

record CrossplaneSpec =
  csp_Group :: string
  csp_Version :: string
  csp_Kinds :: "string list"
  csp_Selector :: "json option"
  csp_Pause :: "bool option"
  csp_Resume :: "bool option"
  csp_Recreate :: "CrossplaneRecreate option"
  csp_ReadinessTimeout :: "int option"

record BootstrapSpec =
  bsp_Pointer :: BootstrapSource
  bsp_Restore :: RestoreS3Credentials
  bsp_Targets :: "BootstrapTarget list"
  bsp_Crossplane :: "CrossplaneSpec option"
  bsp_Timeouts :: BootstrapTimeouts
  bsp_Trigger :: string

record BootstrapTargetStatus =
  bts_PXCCluster :: string
  bts_RestoreName :: string
  bts_State :: string
  bts_StartedAt :: "int option"
  bts_CompletedAt :: "int option"
  bts_Message :: string

record CrossplaneObjectReference =
  cor_Kind :: string
  cor_Name :: string
  cor_UID :: string

record CrossplaneRecreation =
  crn_Kind :: string
  crn_Name :: string
  crn_UID :: string
  crn_DeletionObserved :: bool
  crn_Complete :: bool

record CrossplaneStatus =
  xst_Paused :: "CrossplaneObjectReference list"
  xst_Resumed :: "CrossplaneObjectReference list"
  xst_Recreated :: "CrossplaneObjectReference list"
  xst_Pending :: "CrossplaneObjectReference list"
  xst_Recreating :: "CrossplaneRecreation list"

record BootstrapTargetExecution =
  bte_PXCCluster :: string
  bte_UID :: string
  bte_RestoreUID :: string
  bte_RestoreAttempted :: bool
  bte_Restore :: RestoreS3Credentials

record BootstrapExecutionStatus =
  bex_ID :: string
  bex_SpecHash :: string
  bex_CrossplaneGroup :: string
  bex_CrossplaneVersion :: string
  bex_Selected :: "CrossplaneObjectReference list"
  bex_Targets :: "BootstrapTargetExecution list"

record BootstrapRunRecord =
  brr_Trigger :: string
  brr_StartedAt :: "int option"
  brr_CompletedAt :: "int option"
  brr_Outcome :: string
  brr_Destination :: string

record BootstrapStatus =
  bos_Execution :: "BootstrapExecutionStatus option"
  bos_ObservedGeneration :: int
  bos_ObservedTrigger :: string
  bos_Phase :: string
  bos_Conditions :: "Condition list"
  bos_Source :: "ResolvedSource option"
  bos_Targets :: "BootstrapTargetStatus list"
  bos_TargetsSummary :: string
  bos_Crossplane :: "CrossplaneStatus option"
  bos_History :: "BootstrapRunRecord list"
  bos_StartedAt :: "int option"
  bos_CompletedAt :: "int option"

record Bootstrap =
  bo_Meta :: ObjectMeta
  bo_Spec :: BootstrapSpec
  bo_Status :: BootstrapStatus

definition empty_bootstrap_status :: BootstrapStatus where
  "empty_bootstrap_status = \<lparr>bos_Execution = None, bos_ObservedGeneration = 0, bos_ObservedTrigger = [],
     bos_Phase = [], bos_Conditions = [], bos_Source = None, bos_Targets = [], bos_TargetsSummary = [],
     bos_Crossplane = None, bos_History = [], bos_StartedAt = None, bos_CompletedAt = None\<rparr>"

definition empty_crossplane_status :: CrossplaneStatus where
  "empty_crossplane_status = \<lparr>xst_Paused = [], xst_Resumed = [], xst_Recreated = [], xst_Pending = [],
     xst_Recreating = []\<rparr>"

end
