(* ===== verification/Joins.thy ===== *)
theory Joins
  imports Controller
begin

text \<open>
  Joined errors, as the reconcilers return them when a status write follows another error.
\<close>

text \<open>\<open>errors.Join\<close>: the errors that are there, in order.  \<open>apierrors.IsConflict\<close> looks at the first
  error of the API server among them.\<close>

definition join_errs :: "cerr option \<Rightarrow> cerr option \<Rightarrow> cerr list" where
  "join_errs a b = (case a of None \<Rightarrow> [] | Some e \<Rightarrow> [e]) @ (case b of None \<Rightarrow> [] | Some e \<Rightarrow> [e])"

fun is_kube :: "cerr \<Rightarrow> bool" where
  "is_kube (CKube k) = True"
| "is_kube _ = False"

definition errs_conflict :: "cerr list \<Rightarrow> bool" where
  "errs_conflict es = (case find is_kube es of None \<Rightarrow> False | Some e \<Rightarrow> is_conflict e)"

lemma join_errs_None [simp]: "join_errs None None = []"
  by (simp add: join_errs_def)

end
