(* ===== verification/Bootstrap.thy ===== *)
theory Bootstrap
  imports Run_Resources Crossplane Api_Bootstrap Joins
begin

text \<open>
  \<open>internal/controller/bootstrap_controller.go\<close>: one reconcile of a Bootstrap, which restores a
  published backup into its target clusters, one after the other, with the managed resources
  of Crossplane paused meanwhile.  A handler returns the Bootstrap in memory, the delay and
  the error, because the code writes the status after an error too.  Reading through a nil
  pointer or beyond a slice ends the reconcile with \<open>panic\<close>.
\<close>

abbreviation (input) "bootstrapFinalizer \<equiv> ''pxc-anonymizer.io/bootstrap-cleanup''"
abbreviation (input) "bootstrapExecutionAnnotation \<equiv> ''pxc-anonymizer.io/bootstrap-execution''"
abbreviation (input) "bootstrapClustersReady \<equiv> ''ClustersReady''"
abbreviation (input) "bootstrapPointerResolved \<equiv> ''PointerResolved''"
abbreviation (input) "bootstrapCrossplanePaused \<equiv> ''CrossplanePaused''"
abbreviation (input) "bootstrapRestored \<equiv> ''Restored''"
abbreviation (input) "bootstrapCrossplaneResumed \<equiv> ''CrossplaneResumed''"
abbreviation (input) "bootstrapCrossplaneRecreated \<equiv> ''CrossplaneRecreated''"
abbreviation (input) "bootstrapComplete \<equiv> ''Complete''"
abbreviation (input) "bootstrapFailed \<equiv> ''Failed''"

definition bootstrapPoll :: int where "bootstrapPoll = 10000000000"
definition bootstrapImmediate :: int where "bootstrapImmediate = 1"
definition boot_minutes :: "int \<Rightarrow> int" where "boot_minutes n = n * 60000000000"

section \<open>The environment\<close>

text \<open>The requests that change something.  A patch of a Bootstrap or of a cluster carries the
  object before and after the change.\<close>

datatype breq =
    BPatchStatus Bootstrap Bootstrap
  | BPatch Bootstrap Bootstrap
  | BCreate Rendered
  | BPatchCluster Unstructured Unstructured
  | BEvent string string string
  | BCross xreq

text \<open>The API server; \<open>ba_secrets\<close> is the uncached reader of Secrets and \<open>ba_tick\<close> what else
  happens while Secrets are read.  A patch returns the object in memory after the call, a
  creation the metadata of the created object, and the list of Jobs their metadata.\<close>

record 'w boot_api =
  ba_now :: "'w \<Rightarrow> int \<times> 'w"
  ba_random_text :: "'w \<Rightarrow> string \<times> 'w"
  ba_get :: "string \<Rightarrow> string \<Rightarrow> 'w \<Rightarrow> (cerr + Bootstrap) \<times> 'w"
  ba_list :: "string \<Rightarrow> 'w \<Rightarrow> (cerr + Bootstrap list) \<times> 'w"
  ba_get_object :: "gvk \<Rightarrow> string \<Rightarrow> string \<Rightarrow> 'w \<Rightarrow> (cerr + Unstructured) \<times> 'w"
  ba_secrets :: "'w \<Rightarrow> string \<Rightarrow> string \<Rightarrow> kerr + Secret"
  ba_tick :: "'w \<Rightarrow> 'w"
  ba_list_jobs :: "string \<Rightarrow> 'w \<Rightarrow> (cerr + ObjectMeta list) \<times> 'w"
  ba_patch_status :: "Bootstrap \<Rightarrow> Bootstrap \<Rightarrow> 'w \<Rightarrow> (cerr + Bootstrap) \<times> 'w"
  ba_patch :: "Bootstrap \<Rightarrow> Bootstrap \<Rightarrow> 'w \<Rightarrow> (cerr + unit) \<times> 'w"
  ba_create :: "Rendered \<Rightarrow> 'w \<Rightarrow> (cerr + ObjectMeta) \<times> 'w"
  ba_patch_cluster :: "Unstructured \<Rightarrow> Unstructured \<Rightarrow> 'w \<Rightarrow> (cerr + unit) \<times> 'w"

record 'w boot_env =
  be_klib :: klib
  be_docwire :: docwire
  be_certs :: certlib
  be_minio :: "MinioOptions \<Rightarrow> serr option"
  be_http :: http_get
  be_s3 :: "'w s3lib"
  be_cluster_conv :: "json \<Rightarrow> serr + ClusterView"
  be_restore_conv :: "json \<Rightarrow> serr + RestoreView"
  be_spec_marshal :: "BootstrapSpec \<Rightarrow> cerr + string"
  be_nested_bool :: "json \<Rightarrow> string list \<Rightarrow> cerr + bool"
  be_set_nested :: "json \<Rightarrow> json \<Rightarrow> string list \<Rightarrow> cerr + json"
  be_error_text :: "cerr \<Rightarrow> string"
  be_Recorder :: bool
  be_fetchPointer :: "(string \<Rightarrow> PointerSource \<Rightarrow> 'w \<Rightarrow> (cerr + Document option) \<times> 'w) option"
  be_DynamicClient :: bool
  be_xapi :: "'w xapi"

type_synonym ('w, 'a) bact = "('w, breq, cerr, 'a) eff"

text \<open>What a handler returns: the Bootstrap in memory, the delay, the error.\<close>

type_synonym 'w hact = "('w, Bootstrap \<times> int \<times> cerr option) bact"

definition panic :: cerr where "panic = CText ''panic''"

text \<open>A computation of the Crossplane client within a reconcile.\<close>

definition embed :: "('r \<Rightarrow> 'q) \<Rightarrow> ('w, 'r, 'e, 'a) eff \<Rightarrow> ('w, 'q, 'e, 'a) eff" where
  "embed g m s = (case m \<lparr>world = world s, log = []\<rparr> of
     (r, s') \<Rightarrow> (r, s\<lparr>world := world s', log := log s @ map g (log s')\<rparr>))"

section \<open>Clock, conditions and status\<close>

definition bootstrapTime :: "'w boot_api \<Rightarrow> ('w, int) bact" where
  "bootstrapTime A = query (\<lambda>w. case ba_now A w of (t, w') \<Rightarrow> (Inr t, w'))"

definition with_bstatus :: "(BootstrapStatus \<Rightarrow> BootstrapStatus) \<Rightarrow> Bootstrap \<Rightarrow> Bootstrap" where
  "with_bstatus f bs = bs\<lparr>bo_Status := f (bo_Status bs)\<rparr>"

definition set_bcondition :: "klib \<Rightarrow> int \<Rightarrow> string \<Rightarrow> string \<Rightarrow> string \<Rightarrow> string \<Rightarrow> Bootstrap \<Rightarrow> Bootstrap" where
  "set_bcondition L now kind st reason msg bs = with_bstatus (\<lambda>s. s\<lparr>bos_Conditions :=
     Set_condition L (bos_Conditions s) (om_Generation (bo_Meta bs)) now (condition kind st reason msg)\<rparr>) bs"

definition bootstrapCondition ::
  "'w boot_env \<Rightarrow> 'w boot_api \<Rightarrow> string \<Rightarrow> string \<Rightarrow> string \<Rightarrow> string \<Rightarrow> Bootstrap \<Rightarrow> ('w, Bootstrap) bact" where
  "bootstrapCondition E A kind st reason msg bs =
     andthen (bootstrapTime A) (\<lambda>now. ret (set_bcondition (be_klib E) now kind st reason msg bs))"

definition targets_summary :: "BootstrapTargetStatus list \<Rightarrow> string" where
  "targets_summary ts = nat_dec (length (filter (\<lambda>t. bts_CompletedAt t \<noteq> None) ts)) @ ''/'' @ nat_dec (length ts)"

definition bobserved :: "Bootstrap \<Rightarrow> Bootstrap" where
  "bobserved bs = with_bstatus (\<lambda>s. s\<lparr>bos_ObservedGeneration := om_Generation (bo_Meta bs),
     bos_TargetsSummary := targets_summary (bos_Targets s)\<rparr>) bs"

definition bootstrapStatus :: "'w boot_api \<Rightarrow> Bootstrap \<Rightarrow> Bootstrap \<Rightarrow> ('w, Bootstrap \<times> cerr option) bact" where
  "bootstrapStatus A bs base =
     (let bs = bobserved bs in
      if bo_Status bs = bo_Status base then ret (bs, None)
      else attempt (request (BPatchStatus base bs) (ba_patch_status A base bs)) (\<lambda>r. case r of
        Inl e \<Rightarrow> ret (bs, Some e) | Inr bs' \<Rightarrow> ret (bs', None)))"

definition bootstrapEvent :: "'w boot_env \<Rightarrow> string \<Rightarrow> string \<Rightarrow> string \<Rightarrow> ('w, unit) bact" where
  "bootstrapEvent E kind reason msg =
     (if be_Recorder E then request (BEvent kind reason msg) (\<lambda>w. (Inr (), w)) else ret ())"

definition bootstrapDuration :: "int option \<Rightarrow> int \<Rightarrow> int" where
  "bootstrapDuration v fallback = (case v of None \<Rightarrow> fallback | Some d \<Rightarrow> d)"

definition bootstrapExpired :: "'w boot_api \<Rightarrow> int option \<Rightarrow> int \<Rightarrow> ('w, bool) bact" where
  "bootstrapExpired A start timeout =
     (case start of
        Some t \<Rightarrow> if timeout > 0 then andthen (bootstrapTime A) (\<lambda>now. ret (t + timeout \<le> now)) else ret False
      | None \<Rightarrow> ret False)"

definition bootstrapConditionStart :: "'w boot_env \<Rightarrow> Bootstrap \<Rightarrow> string \<Rightarrow> int option" where
  "bootstrapConditionStart E bs name =
     map_option cond_LastTransitionTime (find_condition (be_klib E) (bos_Conditions (bo_Status bs)) name)"

definition bootstrapFail :: "'w boot_env \<Rightarrow> 'w boot_api \<Rightarrow> string \<Rightarrow> string \<Rightarrow> Bootstrap \<Rightarrow> ('w, Bootstrap) bact" where
  "bootstrapFail E A reason msg bs =
     (let bs = with_bstatus (\<lambda>s. s\<lparr>bos_Phase := BootstrapPhaseFailed\<rparr>) bs in
      andthen (case bos_CompletedAt (bo_Status bs) of
          Some _ \<Rightarrow> ret bs
        | None \<Rightarrow> andthen (bootstrapTime A) (\<lambda>now. ret (with_bstatus (\<lambda>s. s\<lparr>bos_CompletedAt := Some now\<rparr>) bs))) (\<lambda>bs.
      andthen (bootstrapCondition E A bootstrapFailed ''True'' reason msg bs) (\<lambda>bs.
      bootstrapCondition E A bootstrapComplete ''False'' reason ''Bootstrap did not complete; compensation remains active'' bs)))"

definition failed_now :: "'w boot_env \<Rightarrow> 'w boot_api \<Rightarrow> Bootstrap \<Rightarrow> string \<Rightarrow> string \<Rightarrow> 'w hact" where
  "failed_now E A bs reason msg = andthen (bootstrapFail E A reason msg bs) (\<lambda>bs. ret (bs, bootstrapImmediate, None))"

definition bootstrapFinish :: "'w boot_env \<Rightarrow> 'w boot_api \<Rightarrow> Bootstrap \<Rightarrow> ('w, Bootstrap) bact" where
  "bootstrapFinish E A bs =
     andthen (bootstrapTime A) (\<lambda>now.
     andthen (bootstrapCondition E A bootstrapComplete ''True'' ''Completed''
        ''All target restores and configured Crossplane operations completed''
        (with_bstatus (\<lambda>s. s\<lparr>bos_Phase := BootstrapPhaseCompleted, bos_CompletedAt := Some now\<rparr>) bs)) (\<lambda>bs.
     bootstrapCondition E A bootstrapFailed ''False'' ''Completed'' ''Bootstrap completed'' bs))"

section \<open>Reading\<close>

definition bo_ns :: "Bootstrap \<Rightarrow> string" where
  "bo_ns bs = om_Namespace (bo_Meta bs)"

definition bootstrapReadCluster :: "'w boot_env \<Rightarrow> 'w boot_api \<Rightarrow> string \<Rightarrow> string \<Rightarrow> ('w, ClusterView) bact" where
  "bootstrapReadCluster E A ns name =
     andthen (query (ba_get_object A ClusterGVK ns name)) (\<lambda>object.
     andthen (lift (map_sum CStore id (DecodeCluster (be_cluster_conv E) (Some (un_GVK object, un_Tree object))))) (\<lambda>view.
     if om_UID (cv_Meta view) = [] \<or> deleting (cv_Meta view)
     then fail (CText ''target cluster is deleting or has no UID'') else ret view))"

definition boot_reader :: "'w boot_api \<Rightarrow> 'w \<Rightarrow> reader" where
  "boot_reader A w = Some (ba_secrets A w)"

definition boot_fetch_call :: "'w boot_env \<Rightarrow> 'w boot_api \<Rightarrow> string \<Rightarrow> PointerSource \<Rightarrow> ('w, Document option) bact" where
  "boot_fetch_call E A ns source =
     (case be_fetchPointer E of
        Some f \<Rightarrow> query (f ns source)
      | None \<Rightarrow> query (\<lambda>w. (map_sum CStore Some (fst (Fetch (be_klib E) (be_docwire E) (be_certs E) (be_minio E)
          (be_http E) (be_s3 E) w (boot_reader A w) ns source)), ba_tick A w)))"

text \<open>The age check: a document without a publication time passes only in the first schema, with
  an event.\<close>

definition check_age :: "'w boot_env \<Rightarrow> 'w boot_api \<Rightarrow> Document \<Rightarrow> int \<Rightarrow> ('w, Document) bact" where
  "check_age E A doc age =
     (if age \<le> 0 then fail (CText ''pointer maxAge must be positive'')
      else case (if d_PublishedAt doc = Some zero_time then None else d_PublishedAt doc) of
        Some t \<Rightarrow> andthen (bootstrapTime A) (\<lambda>now.
          if sat64 (now - t) > age then fail (CText ''pointer publication timestamp is outside maxAge'')
          else andthen (bootstrapTime A) (\<lambda>now.
            if t > now then fail (CText ''pointer publication timestamp is outside maxAge'') else ret doc))
      | None \<Rightarrow>
          if d_SchemaVersion doc \<noteq> 1 then fail (CText ''pointer publishedAt is required for maxAge'')
          else andthen (bootstrapEvent E ''Warning'' ''LegacyPointerAgeUnknown''
            ''Legacy pointer has no publishedAt; maxAge cannot be evaluated'') (\<lambda>_. ret doc))"

definition bootstrapFetch :: "'w boot_env \<Rightarrow> 'w boot_api \<Rightarrow> Bootstrap \<Rightarrow> ('w, Document) bact" where
  "bootstrapFetch E A bs =
     (let source = bsp_Pointer (bo_Spec bs) in
      if bso_Destination source \<noteq> [] then
        if bso_MaxAge source \<noteq> None
        then fail (CText ''maxAge requires a pointer publication timestamp and cannot be used with a literal destination'')
        else if bso_HTTP source \<noteq> None \<or> bso_S3 source \<noteq> None
        then fail (CText ''literal pointer cannot also use a transport'')
        else let doc = empty_document\<lparr>d_Name := ''literal'', d_Destination := bso_Destination source,
                   d_SchemaVersion := SchemaVersion\<rparr>
             in andthen (lift (map_sum CStore id (Validate_document (be_klib E) doc))) (\<lambda>_. ret doc)
      else andthen (boot_fetch_call E A (bo_ns bs) \<lparr>ps_HTTP = bso_HTTP source, ps_S3 = bso_S3 source\<rparr>) (\<lambda>r. case r of
        None \<Rightarrow> fail (CText ''pointer response was empty'')
      | Some doc \<Rightarrow> andthen (lift (map_sum CStore id (Validate_document (be_klib E) doc))) (\<lambda>_.
          case bso_MaxAge source of None \<Rightarrow> ret doc | Some age \<Rightarrow> check_age E A doc age)))"

definition bootstrapResolvedSource :: "Document \<Rightarrow> ResolvedSource" where
  "bootstrapResolvedSource doc = \<lparr>rs_BackupName = d_Name doc, rs_Destination = d_Destination doc,
     rs_SourceCluster = (case d_SourceCluster doc of None \<Rightarrow> [] | Some c \<Rightarrow> sc_Name c),
     rs_PointerPublishedAt = d_PublishedAt doc, rs_PointerSchemaVersion = wrap32 (d_SchemaVersion doc)\<rparr>"

definition restore_prefix :: "Bootstrap \<Rightarrow> string \<Rightarrow> string" where
  "restore_prefix bs target =
     (let p = om_Name (bo_Meta bs) @ ''-'' @ target in if length p > 56 then trim_right (take 56 p) ''-.'' else p)"

definition bootstrapRestoreName :: "klib \<Rightarrow> Bootstrap \<Rightarrow> string \<Rightarrow> string \<Rightarrow> cerr + string" where
  "bootstrapRestoreName L bs exec_id target =
     (let sum = sha256 L (om_UID (bo_Meta bs) @ ''/'' @ exec_id @ ''/'' @ bos_ObservedTrigger (bo_Status bs) @ ''/'' @ target)
      in map_sum CStore id (RestoreName L (restore_prefix bs target @ ''-'' @ hex_encode (take 3 sum)) target))"

definition bootstrapCredentials :: "'w boot_api \<Rightarrow> string \<Rightarrow> RestoreS3Credentials \<Rightarrow> ('w, unit) bact" where
  "bootstrapCredentials A ns cr =
     attempt (query (\<lambda>w. (map_sum CKube id (ba_secrets A w ns (rc_CredentialsSecret cr)), ba_tick A w))) (\<lambda>r. case r of
       Inl _ \<Rightarrow> fail (CText ''restore credentials Secret is unavailable'')
     | Inr secret \<Rightarrow>
         if secret_data secret ''AWS_ACCESS_KEY_ID'' = [] \<or> secret_data secret ''AWS_SECRET_ACCESS_KEY'' = []
         then fail (CText ''restore credentials Secret requires standard AWS credential keys'') else ret ())"

definition mapClusterToBootstraps :: "'w boot_api \<Rightarrow> string \<Rightarrow> string \<Rightarrow> ('w, (string \<times> string) list) bact" where
  "mapClusterToBootstraps A ns name =
     attempt (query (ba_list A ns)) (\<lambda>r. case r of
       Inl _ \<Rightarrow> ret []
     | Inr items \<Rightarrow> ret (map (\<lambda>bs. (bo_ns bs, om_Name (bo_Meta bs)))
         (filter (\<lambda>bs. list_ex (\<lambda>t. bta_PXCCluster t = name) (bsp_Targets (bo_Spec bs))) items)))"

section \<open>Starting and archiving an execution\<close>

definition bootstrapSpecHash :: "'w boot_env \<Rightarrow> BootstrapSpec \<Rightarrow> cerr + string" where
  "bootstrapSpecHash E spec =
     bindr (be_spec_marshal E (spec\<lparr>bsp_Trigger := []\<rparr>)) (\<lambda>data. Inr (hex_encode (sha256 (be_klib E) data)))"

text \<open>The targets are appended one by one; the loop stops at an empty or repeated name and keeps
  what it has appended.\<close>

fun init_targets ::
  "RestoreS3Credentials \<Rightarrow> string set \<Rightarrow> BootstrapTarget list \<Rightarrow>
     BootstrapTargetStatus list \<times> BootstrapTargetExecution list \<times> cerr option" where
  "init_targets defaults seen_names [] = ([], [], None)"
| "init_targets defaults seen_names (t # ts) =
     (let name = bta_PXCCluster t in
      if name = [] \<or> name \<in> seen_names then ([], [], Some (CText ''target clusters must be nonempty and unique''))
      else case init_targets defaults (insert name seen_names) ts of (sts, exs, err) \<Rightarrow>
        (\<lparr>bts_PXCCluster = name, bts_RestoreName = [], bts_State = [], bts_StartedAt = None, bts_CompletedAt = None,
          bts_Message = []\<rparr> # sts,
         \<lparr>bte_PXCCluster = name, bte_UID = [], bte_RestoreUID = [], bte_RestoreAttempted = False,
          bte_Restore = (case bta_Restore t of None \<Rightarrow> defaults | Some c \<Rightarrow> c)\<rparr> # exs, err))"

definition bootstrapInitialize :: "'w boot_env \<Rightarrow> 'w boot_api \<Rightarrow> Bootstrap \<Rightarrow> ('w, Bootstrap \<times> cerr option) bact" where
  "bootstrapInitialize E A bs =
     (let spec = bo_Spec bs; bs = with_bstatus (\<lambda>s. s\<lparr>bos_ObservedTrigger := bsp_Trigger spec\<rparr>) bs in
      if bso_Destination (bsp_Pointer spec) \<noteq> [] \<and> bso_MaxAge (bsp_Pointer spec) \<noteq> None
      then ret (bs, Some (CText ''maxAge requires a pointer publication timestamp and cannot be used with a literal destination''))
      else if om_UID (bo_Meta bs) = [] \<or> bsp_Targets spec = []
      then ret (bs, Some (CText ''a persisted Bootstrap with at least one target is required''))
      else case bootstrapSpecHash E spec of
        Inl e \<Rightarrow> ret (bs, Some e)
      | Inr hash \<Rightarrow>
          andthen (bootstrapTime A) (\<lambda>now.
          andthen (query (\<lambda>w. case ba_random_text A w of (t, w') \<Rightarrow> (Inr t, w'))) (\<lambda>exec_id.
          case init_targets (bsp_Restore spec) {} (bsp_Targets spec) of (sts, exs, err) \<Rightarrow>
            let bs = with_bstatus (\<lambda>s. s\<lparr>bos_Phase := BootstrapPhaseWaitingForClusters, bos_StartedAt := Some now,
                  bos_Execution := Some \<lparr>bex_ID = exec_id, bex_SpecHash = hash, bex_CrossplaneGroup = [],
                    bex_CrossplaneVersion = [], bex_Selected = [], bex_Targets = exs\<rparr>,
                  bos_Targets := bos_Targets s @ sts\<rparr>) bs
            in case err of
                 Some e \<Rightarrow> ret (bs, Some e)
               | None \<Rightarrow> andthen (bootstrapCondition E A bootstrapClustersReady ''False'' ''WaitingForClusters''
                   ''Waiting for all target clusters'' bs) (\<lambda>bs. ret (bs, None)))))"

definition bootstrapArchive :: "Bootstrap \<Rightarrow> Bootstrap" where
  "bootstrapArchive bs =
     (let s = bo_Status bs;
          history = bos_History s @ [\<lparr>brr_Trigger = bos_ObservedTrigger s, brr_StartedAt = bos_StartedAt s,
            brr_CompletedAt = bos_CompletedAt s, brr_Outcome = bos_Phase s,
            brr_Destination = (case bos_Source s of None \<Rightarrow> [] | Some src \<Rightarrow> rs_Destination src)\<rparr>]
      in bs\<lparr>bo_Status := empty_bootstrap_status\<lparr>bos_History := drop (length history - 5) history\<rparr>\<rparr>)"

section \<open>Waiting for the clusters and resolving the pointer\<close>

definition with_exec :: "(BootstrapExecutionStatus \<Rightarrow> BootstrapExecutionStatus) \<Rightarrow> Bootstrap \<Rightarrow> Bootstrap" where
  "with_exec f bs = with_bstatus (\<lambda>s. s\<lparr>bos_Execution := map_option f (bos_Execution s)\<rparr>) bs"

definition set_exec_targets :: "BootstrapTargetExecution list \<Rightarrow> Bootstrap \<Rightarrow> Bootstrap" where
  "set_exec_targets ts = with_exec (\<lambda>ex. ex\<lparr>bex_Targets := ts\<rparr>)"

datatype wait_outcome = AllReady | NotReady | Replaced

text \<open>The identities found so far are kept when the loop stops.\<close>

fun wait_loop ::
  "'w boot_env \<Rightarrow> 'w boot_api \<Rightarrow> string \<Rightarrow> BootstrapTargetExecution list \<Rightarrow> BootstrapTargetExecution list \<Rightarrow>
     ('w, BootstrapTargetExecution list \<times> wait_outcome) bact" where
  "wait_loop E A ns pre [] = ret (pre, AllReady)"
| "wait_loop E A ns pre (t # ts) =
     attempt (bootstrapReadCluster E A ns (bte_PXCCluster t)) (\<lambda>r. case r of
       Inl _ \<Rightarrow> ret (pre @ t # ts, NotReady)
     | Inr cluster \<Rightarrow>
         if \<not> Cluster_Ready cluster then ret (pre @ t # ts, NotReady)
         else if bte_UID t \<noteq> [] \<and> bte_UID t \<noteq> om_UID (cv_Meta cluster) then ret (pre @ t # ts, Replaced)
         else wait_loop E A ns (pre @ [t\<lparr>bte_UID := om_UID (cv_Meta cluster)\<rparr>]) ts)"

definition wait_delay :: "'w boot_api \<Rightarrow> Bootstrap \<Rightarrow> ('w, int) bact" where
  "wait_delay A bs =
     (case bos_StartedAt (bo_Status bs) of
        None \<Rightarrow> ret (min 15000000000 (boot_minutes 5))
      | Some t \<Rightarrow> andthen (bootstrapTime A) (\<lambda>now.
          ret (min (15000000000 + max 0 (sat64 (now - t)) div 10) (boot_minutes 5))))"

definition bootstrapWaitClusters ::
  "'w boot_env \<Rightarrow> 'w boot_api \<Rightarrow> Bootstrap \<Rightarrow> BootstrapExecutionStatus \<Rightarrow> 'w hact" where
  "bootstrapWaitClusters E A bs ex =
     andthen (bootstrapExpired A (bos_StartedAt (bo_Status bs))
       (bootstrapDuration (bti_ClustersReady (bsp_Timeouts (bo_Spec bs))) 0)) (\<lambda>late.
     if late then failed_now E A bs ''ClustersNotReady'' ''Target clusters did not become ready within the configured timeout''
     else andthen (wait_loop E A (bo_ns bs) [] (bex_Targets ex)) (\<lambda>(ts, outcome).
       let bs = set_exec_targets ts bs in
       case outcome of
         NotReady \<Rightarrow> andthen (wait_delay A bs) (\<lambda>d. ret (bs, d, None))
       | Replaced \<Rightarrow> failed_now E A bs ''TargetReplaced'' ''A target cluster UID changed''
       | AllReady \<Rightarrow>
           andthen (bootstrapCondition E A bootstrapClustersReady ''True'' ''Ready'' ''All target clusters are ready'' bs) (\<lambda>bs.
           andthen (bootstrapCondition E A bootstrapPointerResolved ''False'' ''ResolvingPointer''
             ''Resolving the immutable backup source'' bs) (\<lambda>bs.
           ret (with_bstatus (\<lambda>s. s\<lparr>bos_Phase := BootstrapPhaseResolvingPointer\<rparr>) bs, bootstrapImmediate, None)))))"

definition bootstrapOwner :: "klib \<Rightarrow> Bootstrap \<Rightarrow> OwnerReference" where
  "bootstrapOwner L bs = new_controller_ref L (bo_Meta bs) GroupVersion_String ''Bootstrap''"

definition fill_credentials :: "Document \<Rightarrow> RestoreS3Credentials \<Rightarrow> RestoreS3Credentials" where
  "fill_credentials doc cr =
     (case d_S3 doc of
        None \<Rightarrow> cr
      | Some s \<Rightarrow>
          (let cr = (if rc_EndpointURL cr = [] then cr\<lparr>rc_EndpointURL := s3_EndpointURL s\<rparr> else cr)
           in if rc_Region cr = [] then cr\<lparr>rc_Region := s3_Region s\<rparr> else cr))"

text \<open>Every target is tried out before anything is paused or restored; the first failure is
  returned with its reason.\<close>

fun resolve_loop ::
  "'w boot_env \<Rightarrow> 'w boot_api \<Rightarrow> Bootstrap \<Rightarrow> string \<Rightarrow> Document \<Rightarrow> BootstrapTargetExecution list \<Rightarrow>
     BootstrapTargetExecution list \<Rightarrow> ('w, BootstrapTargetExecution list \<times> (string \<times> cerr) option) bact" where
  "resolve_loop E A bs exec_id doc pre [] = ret (pre, None)"
| "resolve_loop E A bs exec_id doc pre (t # ts) =
     (let t = t\<lparr>bte_Restore := fill_credentials doc (bte_Restore t)\<rparr> in
      attempt (bootstrapCredentials A (bo_ns bs) (bte_Restore t)) (\<lambda>r. case r of
        Inl e \<Rightarrow> ret (pre @ t # ts, Some (''CredentialsUnavailable'', e))
      | Inr _ \<Rightarrow>
        (case bindr (bootstrapRestoreName (be_klib E) bs exec_id (bte_PXCCluster t)) (\<lambda>name.
                map_sum CStore id (RenderRestore (be_klib E) \<lparr>ro_Namespace = bo_ns bs, ro_Name = name,
                  ro_ClusterName = bte_PXCCluster t, ro_Destination = d_Destination doc, ro_Credentials = bte_Restore t,
                  ro_ContainerOptions = None, ro_Owner = bootstrapOwner (be_klib E) bs\<rparr>)) of
           Inl e \<Rightarrow> ret (pre @ t # ts, Some (''InvalidRestoreConfiguration'', e))
         | Inr _ \<Rightarrow> resolve_loop E A bs exec_id doc (pre @ [t]) ts)))"

definition bootstrapResolvePointer ::
  "'w boot_env \<Rightarrow> 'w boot_api \<Rightarrow> Bootstrap \<Rightarrow> BootstrapExecutionStatus \<Rightarrow> 'w hact" where
  "bootstrapResolvePointer E A bs ex =
     attempt (bootstrapFetch E A bs) (\<lambda>r. case r of
       Inl _ \<Rightarrow>
         andthen (bootstrapExpired A (bootstrapConditionStart E bs bootstrapPointerResolved)
           (bootstrapDuration (bti_Pointer (bsp_Timeouts (bo_Spec bs))) (boot_minutes 15))) (\<lambda>late.
         if late then failed_now E A bs ''PointerUnavailable'' ''A valid, sufficiently recent pointer was unavailable within the timeout''
         else ret (bs, bootstrapPoll, None))
     | Inr doc \<Rightarrow>
         andthen (resolve_loop E A bs (bex_ID ex) doc [] (bex_Targets ex)) (\<lambda>(ts, problem).
         let bs = set_exec_targets ts bs in
         case problem of
           Some (reason, e) \<Rightarrow> failed_now E A bs reason (be_error_text E e)
         | None \<Rightarrow>
           andthen (bootstrapCondition E A bootstrapPointerResolved ''True'' ''Resolved''
             ''Backup source and restore credentials are resolved''
             (with_bstatus (\<lambda>s. s\<lparr>bos_Source := Some (bootstrapResolvedSource doc)\<rparr>) bs)) (\<lambda>bs.
           if bsp_Crossplane (bo_Spec bs) = None
           then ret (with_bstatus (\<lambda>s. s\<lparr>bos_Phase := BootstrapPhaseRestoring\<rparr>) bs, bootstrapImmediate, None)
           else andthen (bootstrapCondition E A bootstrapCrossplanePaused ''False'' ''Pausing''
             ''Pausing selected Crossplane resources''
             (with_bstatus (\<lambda>s. s\<lparr>bos_Crossplane := Some empty_crossplane_status, bos_Phase := BootstrapPhasePausingCrossplane\<rparr>) bs)) (\<lambda>bs.
             ret (bs, bootstrapImmediate, None)))))"

section \<open>Pausing the managed resources\<close>

definition bootstrapRefs :: "CrossplaneObjectReference list \<Rightarrow> Reference list" where
  "bootstrapRefs refs = map (\<lambda>r. \<lparr>rf_Kind = cor_Kind r, rf_Name = cor_Name r, rf_UID = cor_UID r\<rparr>) refs"

definition bootstrapAPIRefs :: "Reference list \<Rightarrow> CrossplaneObjectReference list" where
  "bootstrapAPIRefs refs = map (\<lambda>r. \<lparr>cor_Kind = rf_Kind r, cor_Name = rf_Name r, cor_UID = rf_UID r\<rparr>) refs"

definition merge_ref :: "CrossplaneObjectReference list \<Rightarrow> CrossplaneObjectReference \<Rightarrow> CrossplaneObjectReference list" where
  "merge_ref old r = (if r \<in> set old then old else old @ [r])"

definition bootstrapMergeRefs :: "CrossplaneObjectReference list \<Rightarrow> Reference list \<Rightarrow> CrossplaneObjectReference list" where
  "bootstrapMergeRefs old refs = foldl merge_ref old (bootstrapAPIRefs refs)"

definition with_cross :: "(CrossplaneStatus \<Rightarrow> CrossplaneStatus) \<Rightarrow> Bootstrap \<Rightarrow> Bootstrap" where
  "with_cross f bs = with_bstatus (\<lambda>s. s\<lparr>bos_Crossplane := map_option f (bos_Crossplane s)\<rparr>) bs"

definition bootstrapCrossplaneClient :: "'w boot_env \<Rightarrow> BootstrapExecutionStatus \<Rightarrow> cerr + Client" where
  "bootstrapCrossplaneClient E ex =
     NewClient (be_klib E) (be_DynamicClient E) (bex_CrossplaneGroup ex) (bex_CrossplaneVersion ex)"

text \<open>The selection is stored before anything is paused.\<close>

definition select_managed ::
  "'w boot_env \<Rightarrow> Bootstrap \<Rightarrow> CrossplaneSpec \<Rightarrow> 'w hact" where
  "select_managed E bs cs =
     (let grp = Objectstore.or_default (csp_Group cs) ''mysql.sql.crossplane.io''; version = Objectstore.or_default (csp_Version cs) ''v1alpha1''
      in case NewClient (be_klib E) (be_DynamicClient E) grp version of
           Inl e \<Rightarrow> ret (bs, bootstrapPoll, Some e)
         | Inr cp \<Rightarrow>
             andthen (embed BCross (Select (be_xapi E) cp
               (if csp_Kinds cs = [] then [''databases'', ''users'', ''grants''] else csp_Kinds cs) (csp_Selector cs)))
               (\<lambda>(selected, err). case err of
                  Some _ \<Rightarrow> ret (bs, bootstrapPoll, None)
                | None \<Rightarrow> ret (with_exec (\<lambda>ex. ex\<lparr>bex_CrossplaneGroup := grp, bex_CrossplaneVersion := version,
                    bex_Selected := bootstrapAPIRefs selected\<rparr>) bs, bootstrapImmediate, None)))"

definition paused_now :: "'w boot_env \<Rightarrow> 'w boot_api \<Rightarrow> Bootstrap \<Rightarrow> 'w hact" where
  "paused_now E A bs =
     andthen (bootstrapCondition E A bootstrapCrossplanePaused ''True'' ''Paused'' ''The selected pause operation is complete'' bs) (\<lambda>bs.
     ret (with_bstatus (\<lambda>s. s\<lparr>bos_Phase := BootstrapPhaseRestoring\<rparr>) bs, bootstrapImmediate, None))"

definition bootstrapPause ::
  "'w boot_env \<Rightarrow> 'w boot_api \<Rightarrow> Bootstrap \<Rightarrow> BootstrapExecutionStatus \<Rightarrow> 'w hact" where
  "bootstrapPause E A bs ex =
     andthen (bootstrapExpired A (bootstrapConditionStart E bs bootstrapCrossplanePaused)
       (bootstrapDuration (bti_Crossplane (bsp_Timeouts (bo_Spec bs))) (boot_minutes 15))) (\<lambda>late.
     if late then failed_now E A bs ''CrossplanePauseTimeout'' ''Crossplane pause did not finish within the timeout''
     else case bsp_Crossplane (bo_Spec bs) of
       None \<Rightarrow> (if bex_Selected ex = [] then fail panic else
         case bootstrapCrossplaneClient E ex of Inl e \<Rightarrow> ret (bs, bootstrapPoll, Some e) | Inr _ \<Rightarrow> fail panic)
     | Some cs \<Rightarrow>
        if bex_Selected ex = [] then select_managed E bs cs
        else case bootstrapCrossplaneClient E ex of
          Inl e \<Rightarrow> ret (bs, bootstrapPoll, Some e)
        | Inr cp \<Rightarrow>
            if csp_Pause cs = Some False then paused_now E A bs
            else andthen (embed BCross (Pause (be_xapi E) cp (om_UID (bo_Meta bs)) (bootstrapRefs (bex_Selected ex))))
              (\<lambda>(paused, err).
                if bos_Crossplane (bo_Status bs) = None then fail panic
                else let bs = with_cross (\<lambda>x. x\<lparr>xst_Paused := bootstrapMergeRefs (xst_Paused x) paused\<rparr>) bs
                  in if err \<noteq> None then ret (bs, bootstrapPoll, None) else paused_now E A bs))"

section \<open>Restoring the targets\<close>

definition meta_annotation :: "ObjectMeta \<Rightarrow> string \<Rightarrow> string" where
  "meta_annotation m k = (case fmlookup (om_Annotations m) k of None \<Rightarrow> [] | Some v \<Rightarrow> v)"

definition controlled_by :: "klib \<Rightarrow> ObjectMeta \<Rightarrow> Bootstrap \<Rightarrow> bool" where
  "controlled_by L m bs = (case controller_of L m of None \<Rightarrow> False | Some r \<Rightarrow> or_UID r = om_UID (bo_Meta bs))"

definition bootstrapReadRestore ::
  "'w boot_env \<Rightarrow> 'w boot_api \<Rightarrow> Bootstrap \<Rightarrow> BootstrapExecutionStatus \<Rightarrow> BootstrapTargetStatus \<Rightarrow> BootstrapTargetExecution \<Rightarrow>
     ('w, Unstructured \<times> RestoreView) bact" where
  "bootstrapReadRestore E A bs ex target te =
     andthen (query (ba_get_object A RestoreGVK (bo_ns bs) (bts_RestoreName target))) (\<lambda>object.
     let m = un_Meta object in
     if bex_ID ex \<noteq> [] \<and> meta_annotation m bootstrapExecutionAnnotation \<noteq> bex_ID ex
     then fail (CText ''restore execution identity changed'')
     else if \<not> controlled_by (be_klib E) m bs \<or> om_UID m = [] \<or>
        (bte_RestoreUID te \<noteq> [] \<and> bte_RestoreUID te \<noteq> om_UID m) \<or> deleting m
     then fail (CText ''restore identity or ownership changed'')
     else andthen (lift (map_sum CStore id (DecodeRestore (be_restore_conv E) (Some (un_GVK object, un_Tree object))))) (\<lambda>view.
       case (res_BackupSource (rv_Spec view), bos_Source (bo_Status bs)) of
         (Some src, Some resolved) \<Rightarrow>
           if res_PXCCluster (rv_Spec view) \<noteq> bts_PXCCluster target \<or> bst_Destination src \<noteq> rs_Destination resolved
           then fail (CText ''restore source or target changed'') else ret (object, view)
       | _ \<Rightarrow> fail (CText ''restore source or target changed'')))"

definition set_target :: "nat \<Rightarrow> (BootstrapTargetStatus \<Rightarrow> BootstrapTargetStatus) \<Rightarrow> Bootstrap \<Rightarrow> Bootstrap" where
  "set_target i f bs = with_bstatus (\<lambda>s. s\<lparr>bos_Targets := (bos_Targets s)[i := f (bos_Targets s ! i)]\<rparr>) bs"

definition set_exec_target :: "nat \<Rightarrow> (BootstrapTargetExecution \<Rightarrow> BootstrapTargetExecution) \<Rightarrow> Bootstrap \<Rightarrow> Bootstrap" where
  "set_exec_target i f bs = with_exec (\<lambda>ex. ex\<lparr>bex_Targets := (bex_Targets ex)[i := f (bex_Targets ex ! i)]\<rparr>) bs"

definition completed_now :: "'w boot_api \<Rightarrow> Bootstrap \<Rightarrow> nat \<Rightarrow> 'w hact" where
  "completed_now A bs i =
     andthen (bootstrapTime A) (\<lambda>now. ret (set_target i (\<lambda>t. t\<lparr>bts_CompletedAt := Some now\<rparr>) bs, bootstrapImmediate, None))"

text \<open>The restore that is created, with its annotations.\<close>

definition render_restore :: "klib \<Rightarrow> Bootstrap \<Rightarrow> BootstrapExecutionStatus \<Rightarrow> string \<Rightarrow> BootstrapTargetStatus \<Rightarrow>
    BootstrapTargetExecution \<Rightarrow> XtrabackupContainerOptions option \<Rightarrow> cerr + Rendered" where
  "render_restore L bs ex destination target te options =
     bindr (map_sum CStore id (RenderRestore L \<lparr>ro_Namespace = bo_ns bs, ro_Name = bts_RestoreName target,
       ro_ClusterName = bts_PXCCluster target, ro_Destination = destination, ro_Credentials = bte_Restore te,
       ro_ContainerOptions = options, ro_Owner = bootstrapOwner L bs\<rparr>)) (\<lambda>ob.
     Inr (ob\<lparr>re_Meta := (re_Meta ob)\<lparr>om_Annotations := fmap_of_list
       [(''argocd.argoproj.io/compare-options'', ''IgnoreExtraneous''), (bootstrapExecutionAnnotation, bex_ID ex)]\<rparr>\<rparr>))"

text \<open>The intent is stored before the restore is created; when it cannot be stored the status in
  memory is taken back.\<close>

definition create_restore :: "'w boot_env \<Rightarrow> 'w boot_api \<Rightarrow> Bootstrap \<Rightarrow> nat \<Rightarrow> Rendered \<Rightarrow> 'w hact" where
  "create_restore E A bs i ob =
     andthen (bootstrapStatus A (set_exec_target i (\<lambda>te. te\<lparr>bte_RestoreAttempted := True\<rparr>) bs) bs) (\<lambda>(stored, err).
     case err of
       Some e \<Rightarrow> ret (stored\<lparr>bo_Status := bo_Status bs\<rparr>, bootstrapPoll, Some e)
     | None \<Rightarrow> attempt (request (BCreate ob) (ba_create A ob)) (\<lambda>r. case r of
         Inl e \<Rightarrow> if e = CKube KAlreadyExists then ret (stored, bootstrapImmediate, None)
                  else ret (stored, bootstrapPoll, Some e)
       | Inr m \<Rightarrow>
           (case bos_Execution (bo_Status stored) of
              None \<Rightarrow> fail panic
            | Some ex \<Rightarrow> if i \<ge> length (bex_Targets ex) then fail panic
                else ret (set_exec_target i (\<lambda>te. te\<lparr>bte_RestoreUID := om_UID m\<rparr>) stored, bootstrapImmediate, None))))"

definition restore_absent :: "'w boot_env \<Rightarrow> 'w boot_api \<Rightarrow> Bootstrap \<Rightarrow> BootstrapExecutionStatus \<Rightarrow> nat \<Rightarrow> BootstrapTargetStatus \<Rightarrow>
    BootstrapTargetExecution \<Rightarrow> ClusterView \<Rightarrow> 'w hact" where
  "restore_absent E A bs ex i target te cluster =
     (if bts_State target = RestoreSucceeded
      then if Cluster_Ready cluster then completed_now A bs i else ret (bs, bootstrapPoll, None)
      else if bte_RestoreAttempted te \<or> bte_RestoreUID te \<noteq> []
      then failed_now E A bs ''RestoreVanished'' ''The restore is absent after a durable creation attempt; refusing to repeat it''
      else if \<not> Cluster_Ready cluster then ret (bs, bootstrapPoll, None)
      else case bos_Source (bo_Status bs) of
        None \<Rightarrow> fail panic
      | Some src \<Rightarrow>
          if i \<ge> length (bsp_Targets (bo_Spec bs)) then fail panic
          else case render_restore (be_klib E) bs ex (rs_Destination src) target te
              (bta_ContainerOptions (bsp_Targets (bo_Spec bs) ! i)) of
            Inl e \<Rightarrow> failed_now E A bs ''InvalidRestoreConfiguration'' (be_error_text E e)
          | Inr ob \<Rightarrow> create_restore E A bs i ob)"

definition restore_present :: "'w boot_env \<Rightarrow> 'w boot_api \<Rightarrow> Bootstrap \<Rightarrow> nat \<Rightarrow> ClusterView \<Rightarrow> Unstructured \<Rightarrow> RestoreView \<Rightarrow> 'w hact" where
  "restore_present E A bs i cluster object view =
     (let bs = set_target i (\<lambda>t. t\<lparr>bts_State := rest_State (rv_Status view)\<rparr>)
            (set_exec_target i (\<lambda>te. te\<lparr>bte_RestoreAttempted := True, bte_RestoreUID := om_UID (un_Meta object)\<rparr>) bs)
      in if rest_State (rv_Status view) = RestoreFailed
         then failed_now E A (set_target i (\<lambda>t. t\<lparr>bts_Message := ''PXC restore failed''\<rparr>) bs) ''RestoreFailed'' ''PXC restore failed''
         else if \<not> Restore_Succeeded view \<or> \<not> Cluster_Ready cluster then ret (bs, bootstrapPoll, None)
         else completed_now A bs i)"

definition bootstrapRestoreTarget ::
  "'w boot_env \<Rightarrow> 'w boot_api \<Rightarrow> Bootstrap \<Rightarrow> BootstrapExecutionStatus \<Rightarrow> nat \<Rightarrow> 'w hact" where
  "bootstrapRestoreTarget E A bs ex i =
     (let target = bos_Targets (bo_Status bs) ! i; te = bex_Targets ex ! i in
      if i \<ge> length (bex_Targets ex) then fail panic
      else andthen (bootstrapExpired A (bts_StartedAt target)
        (bootstrapDuration (bti_Restore (bsp_Timeouts (bo_Spec bs))) (boot_minutes 180))) (\<lambda>late.
      if late then failed_now E A bs ''RestoreTimeout'' ''The target restore and readiness wait exceeded its timeout''
      else attempt (bootstrapReadCluster E A (bo_ns bs) (bts_PXCCluster target)) (\<lambda>r. case r of
        Inl _ \<Rightarrow> failed_now E A bs ''TargetUnavailable'' ''The original target cluster is unavailable''
      | Inr cluster \<Rightarrow>
          if om_UID (cv_Meta cluster) \<noteq> bte_UID te
          then failed_now E A bs ''TargetUnavailable'' ''The original target cluster is unavailable''
          else attempt (bootstrapReadRestore E A bs ex target te) (\<lambda>r. case r of
            Inr (object, view) \<Rightarrow> restore_present E A bs i cluster object view
          | Inl e \<Rightarrow>
              if e = CKube KNotFound then restore_absent E A bs ex i target te cluster
              else failed_now E A bs ''RestoreIdentityChanged'' ''The recorded restore no longer matches this execution''))))"

text \<open>The first target that is not completed.\<close>

fun next_target :: "nat \<Rightarrow> BootstrapTargetStatus list \<Rightarrow> nat option" where
  "next_target i [] = None"
| "next_target i (t # ts) = (if bts_CompletedAt t = None then Some i else next_target (Suc i) ts)"

definition bootstrapRestoreTargets ::
  "'w boot_env \<Rightarrow> 'w boot_api \<Rightarrow> Bootstrap \<Rightarrow> BootstrapExecutionStatus \<Rightarrow> 'w hact" where
  "bootstrapRestoreTargets E A bs ex =
     (case next_target 0 (bos_Targets (bo_Status bs)) of
        Some i \<Rightarrow>
          (let target = bos_Targets (bo_Status bs) ! i in
           if bts_StartedAt target = None
           then case bootstrapRestoreName (be_klib E) bs (bex_ID ex) (bts_PXCCluster target) of
                  Inl e \<Rightarrow> failed_now E A bs ''InvalidRestoreConfiguration'' (be_error_text E e)
                | Inr name \<Rightarrow> andthen (bootstrapTime A) (\<lambda>now.
                    ret (set_target i (\<lambda>t. t\<lparr>bts_StartedAt := Some now, bts_RestoreName := name\<rparr>) bs, bootstrapImmediate, None))
           else bootstrapRestoreTarget E A bs ex i)
      | None \<Rightarrow>
          andthen (bootstrapCondition E A bootstrapRestored ''True'' ''Restored''
            ''Every target restore succeeded and its cluster became ready'' bs) (\<lambda>bs.
          if bsp_Crossplane (bo_Spec bs) = None
          then andthen (bootstrapFinish E A bs) (\<lambda>bs. ret (bs, 0, None))
          else andthen (bootstrapCondition E A bootstrapCrossplaneResumed ''False'' ''Resuming''
            ''Resuming our paused Crossplane resources and waiting for readiness''
            (with_bstatus (\<lambda>s. s\<lparr>bos_Phase := BootstrapPhaseResumingCrossplane\<rparr>) bs)) (\<lambda>bs.
            ret (bs, bootstrapImmediate, None))))"

section \<open>Resuming and recreating the managed resources\<close>

definition bootstrapUnresumed :: "CrossplaneStatus option \<Rightarrow> CrossplaneObjectReference list" where
  "bootstrapUnresumed st = (case st of None \<Rightarrow> [] | Some x \<Rightarrow> filter (\<lambda>r. r \<notin> set (xst_Resumed x)) (xst_Paused x))"

text \<open>What follows once nothing is left to resume: readiness of everything selected.\<close>

definition await_ready ::
  "'w boot_env \<Rightarrow> 'w boot_api \<Rightarrow> Bootstrap \<Rightarrow> BootstrapExecutionStatus \<Rightarrow> CrossplaneSpec \<Rightarrow> Client \<Rightarrow> 'w hact" where
  "await_ready E A bs ex cs cp =
     andthen (embed BCross (Ready (be_xapi E) cp (bootstrapRefs (bex_Selected ex)))) (\<lambda>(pending, err).
     if bos_Crossplane (bo_Status bs) = None then fail panic
     else let bs = with_cross (\<lambda>x. x\<lparr>xst_Pending := bootstrapAPIRefs pending\<rparr>) bs in
     if err \<noteq> None \<or> pending \<noteq> [] then ret (bs, bootstrapPoll, None)
     else andthen (bootstrapCondition E A bootstrapCrossplaneResumed ''True'' ''ReadyAndSynced''
        ''Selected Crossplane resources are Ready and Synced'' bs) (\<lambda>bs.
     if csp_Recreate cs = None then andthen (bootstrapFinish E A bs) (\<lambda>bs. ret (bs, 0, None))
     else andthen (bootstrapCondition E A bootstrapCrossplaneRecreated ''False'' ''Recreating''
        ''Recreating the configured managed resources''
        (with_bstatus (\<lambda>s. s\<lparr>bos_Phase := BootstrapPhaseRecreatingCrossplane\<rparr>) bs)) (\<lambda>bs.
        ret (bs, bootstrapImmediate, None))))"

definition bootstrapResume ::
  "'w boot_env \<Rightarrow> 'w boot_api \<Rightarrow> Bootstrap \<Rightarrow> BootstrapExecutionStatus \<Rightarrow> 'w hact" where
  "bootstrapResume E A bs ex =
     (case bootstrapCrossplaneClient E ex of
        Inl e \<Rightarrow> ret (bs, bootstrapPoll, Some e)
      | Inr cp \<Rightarrow>
        (case bsp_Crossplane (bo_Spec bs) of
          None \<Rightarrow> fail panic
        | Some cs \<Rightarrow>
          andthen (bootstrapExpired A (bootstrapConditionStart E bs bootstrapCrossplaneResumed)
            (bootstrapDuration (csp_ReadinessTimeout cs) (boot_minutes 15))) (\<lambda>late.
          if late then failed_now E A bs ''CrossplaneReadinessTimeout''
            ''Crossplane resources did not become Ready and Synced within the timeout''
          else let pending = bootstrapUnresumed (bos_Crossplane (bo_Status bs)) in
            if csp_Resume cs \<noteq> Some False \<and> pending \<noteq> []
            then andthen (embed BCross (Resume (be_xapi E) cp (om_UID (bo_Meta bs)) (bootstrapRefs pending))) (\<lambda>(resumed, err).
              ret (with_cross (\<lambda>x. x\<lparr>xst_Resumed := bootstrapMergeRefs (xst_Resumed x) resumed\<rparr>) bs,
                if err \<noteq> None then bootstrapPoll else bootstrapImmediate, None))
            else await_ready E A bs ex cs cp)))"

definition recreate_refs :: "string list \<Rightarrow> Reference list \<Rightarrow> Reference list" where
  "recreate_refs kinds refs = concat (map (\<lambda>kind. filter (\<lambda>r. rf_Kind r = kind) refs) kinds)"

definition to_recreation :: "CrossplaneRecreation \<Rightarrow> Recreation" where
  "to_recreation st = \<lparr>rr_Reference = \<lparr>rf_Kind = crn_Kind st, rf_Name = crn_Name st, rf_UID = crn_UID st\<rparr>,
     rr_DeletionObserved = crn_DeletionObserved st, rr_Complete = crn_Complete st\<rparr>"

definition of_recreation :: "Recreation \<Rightarrow> CrossplaneRecreation" where
  "of_recreation p = \<lparr>crn_Kind = rf_Kind (rr_Reference p), crn_Name = rf_Name (rr_Reference p), crn_UID = rf_UID (rr_Reference p),
     crn_DeletionObserved = rr_DeletionObserved p, crn_Complete = rr_Complete p\<rparr>"

definition record_recreation :: "Recreation list \<Rightarrow> CrossplaneStatus \<Rightarrow> CrossplaneStatus" where
  "record_recreation next x = x\<lparr>xst_Recreating := map of_recreation next,
     xst_Recreated := foldl (\<lambda>old p. if rr_Complete p then bootstrapMergeRefs old [rr_Reference p] else old)
       (xst_Recreated x) next\<rparr>"

definition bootstrapRecreate ::
  "'w boot_env \<Rightarrow> 'w boot_api \<Rightarrow> Bootstrap \<Rightarrow> BootstrapExecutionStatus \<Rightarrow> 'w hact" where
  "bootstrapRecreate E A bs ex =
     (case bootstrapCrossplaneClient E ex of
        Inl e \<Rightarrow> ret (bs, bootstrapPoll, Some e)
      | Inr cp \<Rightarrow>
        (case bsp_Crossplane (bo_Spec bs) of
          None \<Rightarrow> fail panic
        | Some cs \<Rightarrow>
          andthen (bootstrapExpired A (bootstrapConditionStart E bs bootstrapCrossplaneRecreated)
            (bootstrapDuration (csp_ReadinessTimeout cs) (boot_minutes 15))) (\<lambda>late.
          if late then failed_now E A bs ''CrossplaneRecreationTimeout''
            ''Managed resource recreation did not finish within the timeout''
          else case (csp_Recreate cs, bos_Crossplane (bo_Status bs)) of
            (Some config, Some x) \<Rightarrow>
              andthen (embed BCross (Recreate (be_xapi E) cp
                (recreate_refs (if cre_Kinds config = [] then [''users'', ''grants''] else cre_Kinds config)
                  (bootstrapRefs (bex_Selected ex)))
                (map to_recreation (xst_Recreating x))
                \<lparr>ro_RemoveFinalizers = cre_RemoveFinalizers config, ro_WaitForRecreation = cre_WaitForRecreation config\<rparr>))
              (\<lambda>(next, complete, err).
                let bs = with_cross (record_recreation next) bs in
                if err \<noteq> None then failed_now E A bs ''CrossplaneRecreationFailed'' ''Managed resource recreation was rejected or failed''
                else if \<not> complete then ret (bs, bootstrapPoll, None)
                else andthen (bootstrapCondition E A bootstrapCrossplaneRecreated ''True'' ''Recreated''
                  ''Configured managed resources completed recreation'' bs) (\<lambda>bs.
                  andthen (bootstrapFinish E A bs) (\<lambda>bs. ret (bs, 0, None))))
          | _ \<Rightarrow> fail panic)))"

definition bootstrapAdvance ::
  "'w boot_env \<Rightarrow> 'w boot_api \<Rightarrow> Bootstrap \<Rightarrow> BootstrapExecutionStatus \<Rightarrow> 'w hact" where
  "bootstrapAdvance E A bs ex =
     (let phase = bos_Phase (bo_Status bs) in
      if phase = BootstrapPhaseWaitingForClusters then bootstrapWaitClusters E A bs ex
      else if phase = BootstrapPhaseResolvingPointer then bootstrapResolvePointer E A bs ex
      else if phase = BootstrapPhasePausingCrossplane then bootstrapPause E A bs ex
      else if phase = BootstrapPhaseRestoring then bootstrapRestoreTargets E A bs ex
      else if phase = BootstrapPhaseResumingCrossplane then bootstrapResume E A bs ex
      else if phase = BootstrapPhaseRecreatingCrossplane then bootstrapRecreate E A bs ex
      else failed_now E A bs ''InvalidPhase'' ''Bootstrap phase is unsupported'')"

section \<open>Compensation\<close>

definition bootstrapManagedResource ::
  "'w boot_env \<Rightarrow> BootstrapExecutionStatus \<Rightarrow> CrossplaneObjectReference \<Rightarrow> ('w, Managed) bact" where
  "bootstrapManagedResource E ex ref =
     (if \<not> be_DynamicClient E then fail (CText ''crossplane dynamic client is unavailable'')
      else query (xa_get (be_xapi E) (bex_CrossplaneGroup ex, bex_CrossplaneVersion ex, cor_Kind ref) (cor_Name ref)))"

text \<open>Pauses that carry our token but were never recorded; the records made before an error are
  kept.  The result says whether something was added.\<close>

fun recover_loop ::
  "'w boot_env \<Rightarrow> string \<Rightarrow> BootstrapExecutionStatus \<Rightarrow> CrossplaneObjectReference list \<Rightarrow> bool \<Rightarrow> CrossplaneObjectReference list \<Rightarrow>
     ('w, CrossplaneObjectReference list \<times> bool \<times> cerr option) bact" where
  "recover_loop E owner ex paused changed [] = ret (paused, changed, None)"
| "recover_loop E owner ex paused changed (ref # refs) =
     attempt (bootstrapManagedResource E ex ref) (\<lambda>r. case r of
       Inl e \<Rightarrow> if e = CKube KNotFound then recover_loop E owner ex paused changed refs else ret (paused, False, Some e)
     | Inr ob \<Rightarrow>
         if annotation_of ob OwnerAnnotation \<noteq> owner then recover_loop E owner ex paused changed refs
         else if om_UID (mg_Meta ob) \<noteq> cor_UID ref
         then ret (paused, False, Some (CText ''pause ownership is attached to a replacement managed resource''))
         else if ref \<in> set paused then recover_loop E owner ex paused changed refs
         else recover_loop E owner ex (paused @ [ref]) True refs)"

definition bootstrapRecoverPauses ::
  "'w boot_env \<Rightarrow> Bootstrap \<Rightarrow> BootstrapExecutionStatus \<Rightarrow> CrossplaneStatus \<Rightarrow> ('w, Bootstrap \<times> bool \<times> cerr option) bact" where
  "bootstrapRecoverPauses E bs ex x =
     andthen (recover_loop E (om_UID (bo_Meta bs)) ex (xst_Paused x) False (bex_Selected ex)) (\<lambda>(paused, changed, err).
     ret (with_cross (\<lambda>x. x\<lparr>xst_Paused := paused\<rparr>) bs, changed, err))"

text \<open>A Job of the restore that still exists, by its name or by its owner.\<close>

definition restore_job :: "BootstrapTargetStatus \<Rightarrow> ObjectMeta \<Rightarrow> bool" where
  "restore_job target m \<longleftrightarrow>
     om_Name m = ''restore-job-'' @ bts_RestoreName target @ ''-'' @ bts_PXCCluster target \<or>
     list_ex (\<lambda>r. or_APIVersion r = GroupName @ ''/v1'' \<and> or_Kind r = ''PerconaXtraDBClusterRestore'' \<and>
       or_Name r = bts_RestoreName target) (om_OwnerReferences m)"

definition bootstrapUnpauseCluster ::
  "'w boot_env \<Rightarrow> 'w boot_api \<Rightarrow> Bootstrap \<Rightarrow> BootstrapTargetStatus \<Rightarrow> BootstrapTargetExecution \<Rightarrow> ('w, bool) bact" where
  "bootstrapUnpauseCluster E A bs target te =
     (if bte_UID te = [] then ret True
      else attempt (query (ba_get_object A ClusterGVK (bo_ns bs) (bts_PXCCluster target))) (\<lambda>r. case r of
        Inl e \<Rightarrow> if e = CKube KNotFound then ret True else fail e
      | Inr cluster \<Rightarrow>
          if om_UID (un_Meta cluster) \<noteq> bte_UID te then fail (CText ''cannot compensate a replacement target cluster'')
          else andthen (lift (be_nested_bool E (un_Tree cluster) [''spec'', ''pause''])) (\<lambda>paused.
            if \<not> paused then ret True
            else andthen (query (ba_list_jobs A (bo_ns bs))) (\<lambda>jobs.
              if list_ex (restore_job target) jobs then ret False
              else andthen (lift (be_set_nested E (un_Tree cluster) (JBool False) [''spec'', ''pause''])) (\<lambda>tree.
                andthen (request (BPatchCluster cluster (cluster\<lparr>un_Tree := tree\<rparr>))
                  (ba_patch_cluster A cluster (cluster\<lparr>un_Tree := tree\<rparr>))) (\<lambda>_.
                andthen (bootstrapEvent E ''Normal'' ''ClusterUnpaused''
                  ''Unpaused target cluster after the restore ended or vanished'') (\<lambda>_. ret True)))))))"

text \<open>The loop over the targets returns whether the compensation may go on; it stops at a restore
  that is still running, and after it has recorded the identity of one that it found.\<close>

fun comp_loop ::
  "'w boot_env \<Rightarrow> 'w boot_api \<Rightarrow> Bootstrap \<Rightarrow> BootstrapExecutionStatus \<Rightarrow> nat \<Rightarrow> BootstrapTargetStatus list \<Rightarrow>
     ('w, Bootstrap \<times> bool \<times> cerr option) bact" where
  "comp_loop E A bs ex i [] = ret (bs, True, None)"
| "comp_loop E A bs ex i (target # ts) =
     (if bts_RestoreName target = [] \<or> bts_CompletedAt target \<noteq> None then comp_loop E A bs ex (Suc i) ts
      else if i \<ge> length (bex_Targets ex) then ret (bs, False, Some (CText ''target execution checkpoint is incomplete''))
      else
       (let te = bex_Targets ex ! i;
            unpause = attempt (bootstrapUnpauseCluster E A bs target te) (\<lambda>r. case r of
              Inl e \<Rightarrow> ret (bs, False, Some e)
            | Inr ready \<Rightarrow> if \<not> ready then ret (bs, False, None) else comp_loop E A bs ex (Suc i) ts)
        in attempt (bootstrapReadRestore E A bs ex target te) (\<lambda>r. case r of
          Inl e \<Rightarrow>
            if e \<noteq> CKube KNotFound then ret (bs, False, Some e)
            else if bte_RestoreUID te = [] \<and> \<not> bte_RestoreAttempted te then comp_loop E A bs ex (Suc i) ts
            else unpause
        | Inr (_, view) \<Rightarrow>
            if \<not> Restore_IsTerminal view then ret (bs, False, None)
            else if bte_RestoreUID te = []
            then ret (set_exec_target i (\<lambda>te. te\<lparr>bte_RestoreUID := om_UID (rv_Meta view)\<rparr>) bs, False, None)
            else unpause)))"

fun present_loop ::
  "'w boot_env \<Rightarrow> string \<Rightarrow> BootstrapExecutionStatus \<Rightarrow> Reference list \<Rightarrow> CrossplaneObjectReference list \<Rightarrow> ('w, Reference list) bact" where
  "present_loop E owner ex present [] = ret present"
| "present_loop E owner ex present (ref # refs) =
     attempt (bootstrapManagedResource E ex ref) (\<lambda>r. case r of
       Inl e \<Rightarrow> if e = CKube KNotFound then present_loop E owner ex present refs else fail e
     | Inr ob \<Rightarrow>
         if om_UID (mg_Meta ob) \<noteq> cor_UID ref
         then if annotation_of ob OwnerAnnotation = owner
              then fail (CText ''replacement managed resource retains the pause owner token'')
              else present_loop E owner ex present refs
         else present_loop E owner ex (present @ bootstrapRefs [ref]) refs)"

definition resume_present ::
  "'w boot_env \<Rightarrow> Bootstrap \<Rightarrow> BootstrapExecutionStatus \<Rightarrow> ('w, Bootstrap \<times> bool \<times> cerr option) bact" where
  "resume_present E bs ex =
     (let refs = bootstrapUnresumed (bos_Crossplane (bo_Status bs)); owner = om_UID (bo_Meta bs) in
      if refs = [] then ret (bs, True, None)
      else attempt (present_loop E owner ex [] refs) (\<lambda>r. case r of
        Inl e \<Rightarrow> ret (bs, False, Some e)
      | Inr present \<Rightarrow>
          if present = [] then ret (bs, True, None)
          else case bootstrapCrossplaneClient E ex of
            Inl e \<Rightarrow> ret (bs, False, Some e)
          | Inr cp \<Rightarrow> andthen (embed BCross (Resume (be_xapi E) cp owner present)) (\<lambda>(resumed, err).
              ret (with_cross (\<lambda>x. x\<lparr>xst_Resumed := bootstrapMergeRefs (xst_Resumed x) resumed\<rparr>) bs, err = None, err))))"

text \<open>The results are the Bootstrap in memory, whether the compensation is done, and the error.\<close>

definition bootstrapCompensate ::
  "'w boot_env \<Rightarrow> 'w boot_api \<Rightarrow> Bootstrap \<Rightarrow> ('w, Bootstrap \<times> bool \<times> cerr option) bact" where
  "bootstrapCompensate E A bs =
     (case bos_Execution (bo_Status bs) of
        None \<Rightarrow> ret (bs, True, None)
      | Some ex \<Rightarrow>
          andthen (comp_loop E A bs ex 0 (bos_Targets (bo_Status bs))) (\<lambda>(bs, go_on, err).
          if \<not> go_on then ret (bs, False, err)
          else if bex_Selected ex = [] then ret (bs, True, None)
          else
           (let x = (case bos_Crossplane (bo_Status bs) of None \<Rightarrow> empty_crossplane_status | Some x \<Rightarrow> x);
                bs = with_bstatus (\<lambda>s. s\<lparr>bos_Crossplane := Some x\<rparr>) bs
            in andthen (bootstrapRecoverPauses E bs ex x) (\<lambda>(bs, recovered, err).
               if err \<noteq> None then ret (bs, False, err)
               else if recovered then ret (bs, False, None)
               else resume_present E bs ex))))"

section \<open>The reconcile\<close>

definition finalizer_removed :: "Bootstrap \<Rightarrow> Bootstrap" where
  "finalizer_removed bs = bs\<lparr>bo_Meta := (bo_Meta bs)\<lparr>om_Finalizers :=
     filter (\<lambda>f. f \<noteq> bootstrapFinalizer) (om_Finalizers (bo_Meta bs))\<rparr>\<rparr>"

definition finalizer_added :: "Bootstrap \<Rightarrow> Bootstrap" where
  "finalizer_added bs = bs\<lparr>bo_Meta := (bo_Meta bs)\<lparr>om_Finalizers := om_Finalizers (bo_Meta bs) @ [bootstrapFinalizer]\<rparr>\<rparr>"

definition patch_meta :: "'w boot_api \<Rightarrow> Bootstrap \<Rightarrow> Bootstrap \<Rightarrow> int \<Rightarrow> ('w, Result \<times> cerr list) bact" where
  "patch_meta A before bs delay =
     attempt (request (BPatch before bs) (ba_patch A before bs)) (\<lambda>r. case r of
       Inl e \<Rightarrow> ret (after delay, [e]) | Inr _ \<Rightarrow> ret (after delay, []))"

text \<open>The compensation with its status write; \<open>Inl\<close> ends the reconcile.\<close>

definition compensated ::
  "'w boot_env \<Rightarrow> 'w boot_api \<Rightarrow> Bootstrap \<Rightarrow> Bootstrap \<Rightarrow> ('w, (Result \<times> cerr list) + Bootstrap) bact" where
  "compensated E A bs base =
     andthen (bootstrapCompensate E A bs) (\<lambda>(bs, finished, err).
     andthen (bootstrapStatus A bs base) (\<lambda>(bs, status_err).
     if status_err \<noteq> None then ret (Inl (no_result, join_errs err status_err))
     else if err \<noteq> None \<or> \<not> finished then ret (Inl (after bootstrapPoll, join_errs err None))
     else ret (Inr bs)))"

definition write_status ::
  "'w boot_api \<Rightarrow> Bootstrap \<Rightarrow> Bootstrap \<Rightarrow> int \<Rightarrow> cerr option \<Rightarrow> ('w, Result \<times> cerr list) bact" where
  "write_status A bs base delay err =
     andthen (bootstrapStatus A bs base) (\<lambda>(_, status_err). ret (after delay, join_errs err status_err))"

definition delete_bootstrap :: "'w boot_env \<Rightarrow> 'w boot_api \<Rightarrow> Bootstrap \<Rightarrow> ('w, Result \<times> cerr list) bact" where
  "delete_bootstrap E A bs =
     (if bootstrapFinalizer \<notin> set (om_Finalizers (bo_Meta bs)) then ret (no_result, [])
      else andthen (compensated E A bs bs) (\<lambda>r. case r of
        Inl stop \<Rightarrow> ret stop
      | Inr bs \<Rightarrow> patch_meta A bs (finalizer_removed bs) 0))"

text \<open>An execution in progress: its identity and its settings are checked before it advances.\<close>

definition execute_bootstrap :: "'w boot_env \<Rightarrow> 'w boot_api \<Rightarrow> Bootstrap \<Rightarrow> Bootstrap \<Rightarrow> ('w, Result \<times> cerr list) bact" where
  "execute_bootstrap E A bs base =
     (if bos_Phase (bo_Status bs) = [] \<or> bos_Phase (bo_Status bs) = BootstrapPhasePending
      then andthen (bootstrapInitialize E A bs) (\<lambda>(bs, err).
        andthen (case err of None \<Rightarrow> ret bs | Some e \<Rightarrow> bootstrapFail E A ''InvalidSpec'' (be_error_text E e) bs) (\<lambda>bs.
        write_status A bs base bootstrapImmediate None))
      else case bos_Execution (bo_Status bs) of
        None \<Rightarrow> andthen (bootstrapFail E A ''CheckpointMissing'' ''Execution checkpoint identity is missing'' bs) (\<lambda>bs.
          write_status A bs base bootstrapImmediate None)
      | Some ex \<Rightarrow>
          if bex_ID ex = []
          then andthen (bootstrapFail E A ''CheckpointMissing'' ''Execution checkpoint identity is missing'' bs) (\<lambda>bs.
            write_status A bs base bootstrapImmediate None)
          else case bootstrapSpecHash E (bo_Spec bs) of
            Inl e \<Rightarrow> ret (no_result, [e])
          | Inr hash \<Rightarrow>
              if hash \<noteq> bex_SpecHash ex
              then andthen (bootstrapFail E A ''SpecChanged''
                  ''Active execution settings changed; compensation must finish before re-arming'' bs) (\<lambda>bs.
                write_status A bs base bootstrapImmediate None)
              else andthen (bootstrapAdvance E A bs ex) (\<lambda>(bs, delay, err). write_status A bs base delay err))"

text \<open>An execution that has ended starts again when the trigger has changed; after a failure or a
  changed trigger the compensation comes first.\<close>

definition rearm :: "'w boot_env \<Rightarrow> 'w boot_api \<Rightarrow> Bootstrap \<Rightarrow> ('w, Result \<times> cerr list) bact" where
  "rearm E A bs =
     (if bsp_Trigger (bo_Spec bs) = bos_ObservedTrigger (bo_Status bs) then ret (no_result, [])
      else execute_bootstrap E A (bootstrapArchive bs) bs)"

definition reconcile_found :: "'w boot_env \<Rightarrow> 'w boot_api \<Rightarrow> Bootstrap \<Rightarrow> ('w, Result \<times> cerr list) bact" where
  "reconcile_found E A bs =
     (let phase = bos_Phase (bo_Status bs) in
      if deleting (bo_Meta bs) then delete_bootstrap E A bs
      else if bootstrapFinalizer \<notin> set (om_Finalizers (bo_Meta bs))
      then patch_meta A bs (finalizer_added bs) bootstrapImmediate
      else if phase = BootstrapPhaseCompleted \<or> phase = BootstrapPhaseFailed
      then if phase = BootstrapPhaseFailed \<or> bsp_Trigger (bo_Spec bs) \<noteq> bos_ObservedTrigger (bo_Status bs)
           then andthen (compensated E A bs bs) (\<lambda>r. case r of Inl stop \<Rightarrow> ret stop | Inr bs \<Rightarrow> rearm E A bs)
           else rearm E A bs
      else execute_bootstrap E A bs bs)"

definition reconcileBootstrap ::
  "'w boot_env \<Rightarrow> 'w boot_api \<Rightarrow> string \<Rightarrow> string \<Rightarrow> ('w, Result \<times> cerr list) bact" where
  "reconcileBootstrap E A ns name =
     attempt (query (ba_get A ns name)) (\<lambda>r. case r of
       Inl e \<Rightarrow> ret (no_result, if e = CKube KNotFound then [] else [e])
     | Inr bs \<Rightarrow> reconcile_found E A bs)"

definition Reconcile_bootstrap ::
  "'w boot_env \<Rightarrow> 'w boot_api \<Rightarrow> string \<Rightarrow> string \<Rightarrow> ('w, Result \<times> cerr list) bact" where
  "Reconcile_bootstrap E A ns name =
     andthen (reconcileBootstrap E A ns name) (\<lambda>(result, errs).
     if errs_conflict errs then ret (after bootstrapImmediate, []) else ret (result, errs))"

end
