(* ===== verification/Crossplane_Safety.thy ===== *)
theory Crossplane_Safety
  imports Crossplane
begin

text \<open>
  What the Crossplane client guarantees.  Against any API server: a pause or a resumption
  patches only the recorded objects, under their UID, and never the pause of another owner; a
  recreation deletes only the recorded objects, a database only where its deletion policy keeps
  the data, kind by kind, and its checkpoint only advances.  Against a server that applies the
  patches it accepts: a pause can be repeated without effect, and a resumption restores the
  annotations.
\<close>

section \<open>Readiness, validation and selection\<close>

fun has_type :: "string \<Rightarrow> json \<Rightarrow> bool" where
  "has_type ty (JObj v) = (fmlookup v ''type'' = Some (JStr ty))"
| "has_type ty _ = False"

fun is_true :: "json \<Rightarrow> bool" where
  "is_true (JObj v) = (fmlookup v ''status'' = Some (JStr ''True''))"
| "is_true _ = False"

fun is_obj :: "json \<Rightarrow> bool" where
  "is_obj (JObj v) = True"
| "is_obj _ = False"

text \<open>The status of the last condition of a type, or the given one where there is none.\<close>

definition last_true :: "bool \<Rightarrow> string \<Rightarrow> json list \<Rightarrow> bool" where
  "last_true b ty cs = (case filter (has_type ty) cs of [] \<Rightarrow> b | x # xs \<Rightarrow> is_true (last (x # xs)))"

lemma last_true_Nil [simp]: "last_true b ty [] = b"
  by (simp add: last_true_def)

lemma last_true_Cons:
  "last_true b ty (c # cs) = last_true (if has_type ty c then is_true c else b) ty cs"
  by (auto simp: last_true_def split: list.splits)

lemma ready_loop_iff:
  "ready_loop r s cs \<longleftrightarrow> list_all is_obj cs \<and> last_true r ''Ready'' cs \<and> last_true s ''Synced'' cs"
proof (induction cs arbitrary: r s)
  case (Cons c cs)
  then show ?case by (cases c) (simp_all add: last_true_Cons Let_def)
qed simp

lemma isReady_iff:
  "isReady A ob \<longleftrightarrow> om_DeletionTimestamp (mg_Meta ob) = None \<and>
     (\<exists>cs. xa_nested_slice A (mg_Tree ob) [''status'', ''conditions''] = Inr (Some cs) \<and>
       list_all is_obj cs \<and> last_true False ''Ready'' cs \<and> last_true False ''Synced'' cs)"
  by (auto simp: isReady_def ready_loop_iff split: sum.splits option.splits)

definition good_ref :: "klib \<Rightarrow> Reference \<Rightarrow> bool" where
  "good_ref L ref \<longleftrightarrow> dns_1035_label L (rf_Kind ref) \<and> rf_Name ref \<noteq> [] \<and> rf_UID ref \<noteq> []"

lemma refs_loop_ok:
  "refs_loop L seen refs = Inr () \<longleftrightarrow>
     list_all (good_ref L) refs \<and> distinct (map ref_key refs) \<and> set (map ref_key refs) \<inter> seen = {}"
  by (induction refs arbitrary: seen)
    (auto simp: validateKind_def good_ref_def result_simps)

lemma validateRefs_ok:
  "validateRefs L refs = Inr () \<longleftrightarrow> refs \<noteq> [] \<and> list_all (good_ref L) refs \<and> distinct (map ref_key refs)"
  by (auto simp: validateRefs_def refs_loop_ok)

lemma validateOperation_ok:
  "validateOperation L owner refs = Inr () \<longleftrightarrow> owner \<noteq> [] \<and> validateRefs L refs = Inr ()"
  by (auto simp: validateOperation_def)

lemma validateProgress_ok:
  "validateProgress refs progress = Inr () \<longleftrightarrow>
     map rr_Reference progress = refs \<and> (\<forall>p \<in> set progress. rr_Complete p \<longrightarrow> rr_DeletionObserved p)"
proof -
  have "list_all2 (\<lambda>ref p. rr_Reference p = ref \<and> (rr_Complete p \<longrightarrow> rr_DeletionObserved p)) refs progress \<longleftrightarrow>
      map rr_Reference progress = refs \<and> (\<forall>p \<in> set progress. rr_Complete p \<longrightarrow> rr_DeletionObserved p)"
    by (induction progress arbitrary: refs) (auto simp: list_all2_Cons2)
  then show ?thesis by (auto simp: validateProgress_def guardr_def)
qed

section \<open>Every request against any server\<close>

definition fetched :: "'w xapi \<Rightarrow> Client \<Rightarrow> Reference \<Rightarrow> Managed \<Rightarrow> bool" where
  "fetched A c ref ob \<longleftrightarrow> om_UID (mg_Meta ob) = rf_UID ref \<and>
     (\<exists>w. fst (xa_get A (resource c (rf_Kind ref)) (rf_Name ref) w) = Inr ob)"

text \<open>A patch of the annotations of a recorded object, as it was read under its UID.\<close>

definition annotates :: "'w xapi \<Rightarrow> Client \<Rightarrow> (Managed \<Rightarrow> bool) \<Rightarrow> (Managed \<Rightarrow> (string, string) fmap) \<Rightarrow>
    Reference list \<Rightarrow> xreq \<Rightarrow> bool" where
  "annotates A c ok f refs q \<longleftrightarrow> (\<exists>ref \<in> set refs. \<exists>ob. fetched A c ref ob \<and> ok ob \<and>
     q = XPatch (resource c (rf_Kind ref)) (om_Name (mg_Meta ob))
       (patch_ops ob ''/metadata/annotations'' (annotations_json (f ob))))"

definition may_pause :: "string \<Rightarrow> Managed \<Rightarrow> bool" where
  "may_pause owner ob \<longleftrightarrow> annotation_of ob PausedAnnotation \<noteq> annotationTrue \<and>
     annotation_of ob OwnerAnnotation \<in> {[], owner}"

definition may_resume :: "string \<Rightarrow> Managed \<Rightarrow> bool" where
  "may_resume owner ob \<longleftrightarrow> annotation_of ob OwnerAnnotation = owner"

lemma getOriginal_emits: "emits (getOriginal A c ref) P (fetched A c ref)"
  unfolding getOriginal_def by (intro emits_rules) (auto simp: fetched_def)

lemma patch_emits:
  "P (XPatch (resource c kind) (om_Name (mg_Meta ob)) (patch_ops ob path v)) \<Longrightarrow>
     emits (patch A c kind ob path v) P (\<lambda>_. True)"
  unfolding patch_def by (intro emits_rules) auto

lemma annotates_mono: "set refs \<subseteq> set refs' \<Longrightarrow> annotates A c ok f refs q \<Longrightarrow> annotates A c ok f refs' q"
  unfolding annotates_def by blast

lemma annotates_intro:
  "ref \<in> set refs \<Longrightarrow> fetched A c ref ob \<Longrightarrow> ok ob \<Longrightarrow>
     annotates A c ok f refs (XPatch (resource c (rf_Kind ref)) (om_Name (mg_Meta ob))
       (patch_ops ob ''/metadata/annotations'' (annotations_json (f ob))))"
  unfolding annotates_def by blast

lemma pause_loop_emits:
  assumes "set refs \<subseteq> set all"
  shows "emits (pause_loop A c owner paused refs)
     (annotates A c (may_pause owner) (paused_annotations owner) all)
     (\<lambda>r. \<exists>more. fst r = paused @ more \<and> subseq more refs)"
  using assms
proof (induction refs arbitrary: paused)
  case Nil
  then show ?case by (auto intro!: emits_ret)
next
  case (Cons ref refs)
  note IH = Cons.IH [OF subset_trans [OF _ Cons.prems]]
  show ?case unfolding pause_loop.simps
  proof (rule emits_attempt [OF getOriginal_emits], unfold sum.case)
    fix ob assume ob: "fetched A c ref ob"
    have *: "emits (pause_loop A c owner (if b then paused @ [ref] else paused) refs)
        (annotates A c (may_pause owner) (paused_annotations owner) all)
        (\<lambda>r. \<exists>more. fst r = paused @ more \<and> subseq more (ref # refs))" for b
      by (rule emits_conseq [OF IH]) (auto split: if_splits)
    show "emits (if annotation_of ob PausedAnnotation = annotationTrue
        then pause_loop A c owner (if annotation_of ob OwnerAnnotation = owner then paused @ [ref] else paused) refs
        else if annotation_of ob OwnerAnnotation \<noteq> [] \<and> annotation_of ob OwnerAnnotation \<noteq> owner
        then ret (paused, Some ownershipError)
        else attempt (patch A c (rf_Kind ref) ob ''/metadata/annotations''
            (annotations_json (paused_annotations owner ob))) (\<lambda>r. case r of
          Inl e \<Rightarrow> ret (paused, Some e)
        | Inr _ \<Rightarrow> pause_loop A c owner (paused @ [ref]) refs))
        (annotates A c (may_pause owner) (paused_annotations owner) all)
        (\<lambda>r. \<exists>more. fst r = paused @ more \<and> subseq more (ref # refs))"
      using Cons.prems ob * [of True] *
      by (intro emits_if emits_attempt [OF patch_emits] annotates_intro)
        (auto simp: may_pause_def intro!: emits_ret)
  qed (auto intro!: emits_ret)
qed

lemma resume_loop_emits:
  assumes "set refs \<subseteq> set all"
  shows "emits (resume_loop A c owner resumed refs)
     (annotates A c (may_resume owner) resumed_annotations all)
     (\<lambda>r. \<exists>more. fst r = resumed @ more \<and> prefix more refs)"
  using assms
proof (induction refs arbitrary: resumed)
  case Nil
  then show ?case by (auto intro!: emits_ret)
next
  case (Cons ref refs)
  have *: "emits (resume_loop A c owner (resumed @ [ref]) refs)
      (annotates A c (may_resume owner) resumed_annotations all)
      (\<lambda>r. \<exists>more. fst r = resumed @ more \<and> prefix more (ref # refs))"
    by (rule emits_conseq [OF Cons.IH]) (use Cons.prems in auto)
  show ?case unfolding resume_loop.simps
  proof (rule emits_attempt [OF getOriginal_emits], unfold sum.case)
    fix ob assume ob: "fetched A c ref ob"
    show "emits (if annotation_of ob OwnerAnnotation = [] \<and> annotation_of ob PausedAnnotation \<noteq> annotationTrue
        then resume_loop A c owner (resumed @ [ref]) refs
        else if annotation_of ob OwnerAnnotation \<noteq> owner then ret (resumed, Some ownershipError)
        else attempt (patch A c (rf_Kind ref) ob ''/metadata/annotations''
            (annotations_json (resumed_annotations ob))) (\<lambda>r. case r of
          Inl e \<Rightarrow> ret (resumed, Some e)
        | Inr _ \<Rightarrow> resume_loop A c owner (resumed @ [ref]) refs))
        (annotates A c (may_resume owner) resumed_annotations all)
        (\<lambda>r. \<exists>more. fst r = resumed @ more \<and> prefix more (ref # refs))"
      using Cons.prems ob *
      by (intro emits_if emits_attempt [OF patch_emits] annotates_intro)
        (auto simp: may_resume_def intro!: emits_ret)
  qed (auto intro!: emits_ret)
qed

lemma Pause_emits:
  "emits (Pause A c owner refs)
     (\<lambda>q. owner \<noteq> [] \<and> annotates A c (may_pause owner) (paused_annotations owner) refs q)
     (\<lambda>r. subseq (fst r) refs)"
proof (cases "validateOperation (xa_klib A) owner refs")
  case (Inr u)
  then have "owner \<noteq> []" by (simp add: validateOperation_ok)
  moreover have "Pause A c owner refs = pause_loop A c owner [] refs" using Inr by (simp add: Pause_def)
  ultimately show ?thesis by (auto intro!: emits_mono [OF pause_loop_emits [OF subset_refl]])
qed (auto simp: Pause_def intro!: emits_ret)

lemma Resume_emits:
  "emits (Resume A c owner refs)
     (\<lambda>q. owner \<noteq> [] \<and> annotates A c (may_resume owner) resumed_annotations refs q)
     (\<lambda>r. prefix (fst r) refs)"
proof (cases "validateOperation (xa_klib A) owner refs")
  case (Inr u)
  then have "owner \<noteq> []" by (simp add: validateOperation_ok)
  moreover have "Resume A c owner refs = resume_loop A c owner [] refs" using Inr by (simp add: Resume_def)
  ultimately show ?thesis by (auto intro!: emits_mono [OF resume_loop_emits [OF subset_refl]])
qed (auto simp: Resume_def intro!: emits_ret)

section \<open>Recreation against any server\<close>

text \<open>A checkpoint entry only advances: its identity is kept, an observed deletion and a
  completion are never taken back, and a completion implies an observed deletion.\<close>

definition advances :: "Recreation \<Rightarrow> Recreation \<Rightarrow> bool" where
  "advances p p' \<longleftrightarrow> rr_Reference p' = rr_Reference p \<and>
     (rr_DeletionObserved p \<longrightarrow> rr_DeletionObserved p') \<and> (rr_Complete p \<longrightarrow> p' = p) \<and>
     (rr_Complete p' \<longrightarrow> rr_DeletionObserved p' \<or> rr_Complete p)"

text \<open>The requests that a recreation may send for one entry: the finalizers of the original
  object are removed, where the options ask for it, or the original object is deleted; in both
  cases it was read under the recorded UID and, for a database, with the policy that keeps its data.\<close>

definition recreates :: "'w xapi \<Rightarrow> Client \<Rightarrow> RecreateOptions \<Rightarrow> Recreation \<Rightarrow> xreq \<Rightarrow> bool" where
  "recreates A c opts p q \<longleftrightarrow> \<not> rr_Complete p \<and> \<not> rr_DeletionObserved p \<and>
     (\<exists>ob. fetched A c (rr_Reference p) ob \<and> allowRecreation A (rr_Reference p) ob = Inr () \<and>
        (ro_RemoveFinalizers opts \<and> om_Finalizers (mg_Meta ob) \<noteq> [] \<and>
           q = XPatch (resource c (rf_Kind (rr_Reference p))) (om_Name (mg_Meta ob))
             (patch_ops ob ''/metadata/finalizers'' (JList [])) \<or>
         (\<exists>v. q = XDelete (resource c (rf_Kind (rr_Reference p))) (rf_Name (rr_Reference p))
             (rf_UID (rr_Reference p)) v)))"

lemma delete_original_emits:
  "(\<And>v. P (XDelete (resource c (rf_Kind (rr_Reference st))) (rf_Name (rr_Reference st))
     (rf_UID (rr_Reference st)) v)) \<Longrightarrow> emits (delete_original A c st ob) P (\<lambda>_. True)"
  unfolding delete_original_def Let_def by (intro emits_rules) auto

lemma remove_finalizers_emits:
  "(ro_RemoveFinalizers opts \<and> om_Finalizers (mg_Meta ob) \<noteq> [] \<Longrightarrow>
     P (XPatch (resource c (rf_Kind (rr_Reference st))) (om_Name (mg_Meta ob))
       (patch_ops ob ''/metadata/finalizers'' (JList [])))) \<Longrightarrow>
   emits (remove_finalizers A c opts st ob) P (\<lambda>_. True)"
  unfolding remove_finalizers_def by (intro emits_if patch_emits) (auto intro: emits_ret)

lemma recreateOne_emits:
  assumes "\<not> rr_Complete st"
  shows "emits (recreateOne A c opts st) (recreates A c opts st) (\<lambda>r. advances st (fst r))"
  unfolding recreateOne_def using assms
  by (intro emits_attempt_query emits_sum emits_if emits_attempt [where R' = "\<lambda>_. True"] emits_andthen_lift
      emits_andthen [where R' = "\<lambda>_. True"] remove_finalizers_emits delete_original_emits emits_ret)
    (auto simp: advances_def recreates_def fetched_def)

lemma recreateOne_ok: "\<exists>x. fst (recreateOne A c opts st s) = Inr x"
  by (auto simp: recreateOne_def attempt_def ret_def split: prod.splits sum.splits)

lemma recreateOne_returns:
  assumes "\<not> rr_Complete st"
  shows "runs (recreateOne A c opts st)
    (\<lambda>l r. \<exists>upd err. r = Inr (upd, err) \<and> advances st upd \<and> list_all (recreates A c opts st) l)"
  using recreateOne_emits [OF assms, of A c opts] recreateOne_ok [of A c opts st]
  unfolding emits_def runs_def by (metis fst_conv surj_pair)

text \<open>The loop keeps the checkpoint aligned with what is left to do, and works on an entry only
  while every earlier entry is complete or of the same kind.\<close>

definition in_turn :: "Recreation list \<Rightarrow> nat \<Rightarrow> bool" where
  "in_turn next i \<longleftrightarrow> (\<forall>j<i. rr_Complete (next ! j) \<or>
     rf_Kind (rr_Reference (next ! j)) = rf_Kind (rr_Reference (next ! i)))"

definition recreate_spec :: "'w xapi \<Rightarrow> Client \<Rightarrow> RecreateOptions \<Rightarrow> string \<Rightarrow> Recreation list \<Rightarrow> Recreation list \<Rightarrow>
    xreq list \<Rightarrow> cerr + (Recreation list \<times> cerr option) \<Rightarrow> bool" where
  "recreate_spec A c opts pending pre rest l r \<longleftrightarrow> (\<exists>next err. r = Inr (pre @ next, err) \<and>
     list_all2 advances rest next \<and>
     (\<forall>q \<in> set l. \<exists>i<length rest. recreates A c opts (rest ! i) q \<and> in_turn next i \<and>
        (pending \<noteq> [] \<longrightarrow> rf_Kind (rr_Reference (rest ! i)) = pending)))"

lemma advances_refl [simp]: "advances p p"
  by (simp add: advances_def)

lemma recreate_loop_runs:
  assumes "\<forall>p \<in> set rest. rf_Kind (rr_Reference p) \<noteq> []"
  shows "runs (recreate_loop A c opts pending pre rest) (recreate_spec A c opts pending pre rest)"
  using assms
proof (induction rest arbitrary: pending pre)
  case Nil
  show ?case by (auto intro!: runs_ret simp: recreate_spec_def)
next
  case (Cons st rest)
  have kinds: "\<forall>p \<in> set rest. rf_Kind (rr_Reference p) \<noteq> []" using Cons.prems by simp
  have shift: "recreate_spec A c opts pending pre (st # rest) (l @ l') r"
    if h: "list_all (recreates A c opts st) l" "advances st upd" "recreate_spec A c opts pend (pre @ [upd]) rest l' r"
      and turn: "pending \<noteq> [] \<longrightarrow> rf_Kind (rr_Reference st) = pending"
        "pend = (if rr_Complete upd then pending else rf_Kind (rr_Reference upd))" for l l' r upd pend
  proof -
    obtain "next" err where n: "r = Inr (pre @ upd # next, err)" "list_all2 advances rest next"
      and q: "\<And>q. q \<in> set l' \<Longrightarrow> \<exists>i<length rest. recreates A c opts (rest ! i) q \<and> in_turn next i \<and>
        (pend \<noteq> [] \<longrightarrow> rf_Kind (rr_Reference (rest ! i)) = pend)"
      using h(3) unfolding recreate_spec_def by auto
    have same: "rr_Reference (next ! i) = rr_Reference (rest ! i)" if "i < length rest" for i
      using list_all2_nthD [OF n(2) that] by (simp add: advances_def)
    have ref: "rr_Reference upd = rr_Reference st" using h(2) by (simp add: advances_def)
    have "\<exists>i<length (st # rest). recreates A c opts ((st # rest) ! i) q \<and> in_turn (upd # next) i \<and>
        (pending \<noteq> [] \<longrightarrow> rf_Kind (rr_Reference ((st # rest) ! i)) = pending)" if "q \<in> set (l @ l')" for q
    proof (cases "q \<in> set l")
      case True
      then show ?thesis using h(1) turn(1)
        by (intro exI [of _ 0]) (auto simp: list_all_iff in_turn_def)
    next
      case False
      then obtain i where i: "i < length rest" "recreates A c opts (rest ! i) q" "in_turn next i"
          "pend \<noteq> [] \<longrightarrow> rf_Kind (rr_Reference (rest ! i)) = pend" using \<open>q \<in> set (l @ l')\<close> q by auto
      have "in_turn (upd # next) (Suc i)"
        using i(3,4) turn(2) same [OF i(1)] ref Cons.prems
        by (auto simp: in_turn_def nth_Cons split: nat.splits if_splits)
      moreover have "pending \<noteq> [] \<longrightarrow> rf_Kind (rr_Reference (rest ! i)) = pending"
        using i(4) turn ref by (auto split: if_splits)
      ultimately show ?thesis using i by (intro exI [of _ "Suc i"]) auto
    qed
    then show ?thesis using n h(2) unfolding recreate_spec_def
      by (intro exI [of _ "upd # next"] exI [of _ err]) auto
  qed
  show ?case
  proof (cases "pending \<noteq> [] \<and> rf_Kind (rr_Reference st) \<noteq> pending")
    case True
    then show ?thesis
      by (auto intro!: runs_ret exI [of _ "st # rest"] list_all2_refl simp: recreate_spec_def list.rel_refl)
  next
    case pending: False
    show ?thesis
    proof (cases "rr_Complete st")
      case True
      have "runs (recreate_loop A c opts pending (pre @ [st]) rest) (recreate_spec A c opts pending pre (st # rest))"
        by (rule runs_conseq [OF Cons.IH [OF kinds]])
          (use shift [of "[]" st pending] pending True in auto)
      then show ?thesis using pending True by auto
    next
      case False
      have "runs (andthen (recreateOne A c opts st) (\<lambda>(upd, err). case err of
          Some e \<Rightarrow> ret (pre @ upd # rest, Some e)
        | None \<Rightarrow> recreate_loop A c opts
            (if rr_Complete upd then pending else rf_Kind (rr_Reference upd)) (pre @ [upd]) rest))
          (recreate_spec A c opts pending pre (st # rest))"
      proof (rule runs_andthen [OF recreateOne_returns [OF False]], goal_cases)
        case (2 l x)
        then obtain upd err where x: "x = (upd, err)" "advances st upd" "list_all (recreates A c opts st) l" by auto
        have stop: "recreate_spec A c opts p (pre @ [upd]) rest [] (Inr (pre @ upd # rest, Some e))" for p e
          by (auto simp: recreate_spec_def list.rel_refl)
        show ?case
        proof (cases err)
          case None
          have "runs (recreate_loop A c opts (if rr_Complete upd then pending else rf_Kind (rr_Reference upd))
              (pre @ [upd]) rest) (\<lambda>l' r. recreate_spec A c opts pending pre (st # rest) (l @ l') r)"
            by (rule runs_conseq [OF Cons.IH [OF kinds]], rule shift [OF x(3,2)]) (use pending in auto)
          then show ?thesis using x None by simp
        next
          case (Some e)
          then show ?thesis using x pending shift [OF x(3,2) stop [where e = e]] by (auto intro!: runs_ret)
        qed
      qed auto
      then show ?thesis using pending False by auto
    qed
  qed
qed

lemma initialize_loop_quiet:
  "emits (initialize_loop A c progress refs) (\<lambda>_. False)
     (\<lambda>p. p = progress @ map (\<lambda>ref. \<lparr>rr_Reference = ref, rr_DeletionObserved = False, rr_Complete = False\<rparr>) refs)"
proof (induction refs arbitrary: progress)
  case (Cons ref refs)
  show ?case unfolding initialize_loop.simps
    by (intro emits_andthen [OF getOriginal_emits] emits_andthen_lift emits_conseq [OF Cons.IH]) auto
qed (auto intro: emits_ret)

lemma initializeRecreation_runs:
  "runs (initializeRecreation A c refs) (\<lambda>l r. l = [] \<and> (\<exists>next err. r = Inr (next, False, err) \<and>
     (err = None \<longrightarrow> next = map (\<lambda>ref. \<lparr>rr_Reference = ref, rr_DeletionObserved = False, rr_Complete = False\<rparr>) refs) \<and>
     (err \<noteq> None \<longrightarrow> next = [])))"
  unfolding initializeRecreation_def
  by (rule runs_attempt [OF initialize_loop_quiet [of A c "[]" refs, unfolded emits_def]])
    (auto simp: list_all_iff intro!: runs_ret split: sum.splits)

lemma nonempty_kind:
  "\<not> dns_1035_label L [] \<Longrightarrow> validateRefs L refs = Inr () \<Longrightarrow> ref \<in> set refs \<Longrightarrow> rf_Kind ref \<noteq> []"
  by (auto simp: validateRefs_ok list_all_iff good_ref_def)

text \<open>The two stages of a call: the first checkpoint is taken without a request, and a later call
  follows the checkpoint.\<close>

lemma Recreate_runs:
  assumes "\<not> dns_1035_label (xa_klib A) []"
  shows "runs (Recreate A c refs progress opts) (\<lambda>l r. \<exists>next done_all err. r = Inr (next, done_all, err) \<and>
     (done_all \<longrightarrow> err = None \<and> list_all rr_Complete next \<and> progress \<noteq> []) \<and>
     (\<forall>q \<in> set l. validateProgress refs progress = Inr () \<and>
        (\<exists>i<length progress. recreates A c opts (progress ! i) q \<and> in_turn next i)) \<and>
     (if progress = [] then err = None \<longrightarrow> validateProgress refs next = Inr () \<and> list_all (\<lambda>p. \<not> rr_Complete p) next
      else list_all2 advances progress next))"
proof (cases "validateRefs (xa_klib A) refs")
  case (Inl e)
  then show ?thesis by (cases "progress = []") (auto simp: Recreate_def list.rel_refl intro!: runs_ret)
next
  case refs: (Inr u)
  show ?thesis
  proof (cases "progress = []")
    case True
    then show ?thesis using refs
      by (auto simp: Recreate_def validateProgress_ok list_all_iff comp_def
          intro!: runs_conseq [OF initializeRecreation_runs])
  next
    case progress: False
    show ?thesis
    proof (cases "validateProgress refs progress")
      case (Inl e)
      then show ?thesis using refs progress by (auto simp: Recreate_def list.rel_refl intro!: runs_ret)
    next
      case (Inr u)
      then have "\<forall>p \<in> set progress. rf_Kind (rr_Reference p) \<noteq> []"
        using nonempty_kind [OF assms] refs by (auto simp: validateProgress_ok)
      from recreate_loop_runs [OF this, of A c opts "[]" "[]"]
      have "runs (andthen (recreate_loop A c opts [] [] progress) (\<lambda>(next, err).
             ret (next, err = None \<and> list_all rr_Complete next, err)))
          (\<lambda>l r. \<exists>next done_all err. r = Inr (next, done_all, err) \<and>
             (done_all \<longrightarrow> err = None \<and> list_all rr_Complete next) \<and> list_all2 advances progress next \<and>
             (\<forall>q \<in> set l. \<exists>i<length progress. recreates A c opts (progress ! i) q \<and> in_turn next i))"
        by (rule runs_andthen) (force simp: recreate_spec_def intro!: runs_ret)+
      then show ?thesis using refs progress Inr by (auto simp: Recreate_def elim!: runs_conseq)
    qed
  qed
qed

section \<open>A server that applies what it accepts\<close>

text \<open>The documented behaviour of the API server while nobody else writes: it returns the object
  at a place, and a JSON patch whose tests hold replaces the annotations there and nothing
  else that is looked at.\<close>

definition serves :: "'w xapi \<Rightarrow> ('w \<Rightarrow> gvr \<Rightarrow> string \<Rightarrow> Managed option) \<Rightarrow> bool" where
  "serves A view \<longleftrightarrow>
     (\<forall>w g n. xa_get A g n w = (case view w g n of None \<Rightarrow> (Inl (CKube KNotFound), w) | Some ob \<Rightarrow> (Inr ob, w))) \<and>
     (\<forall>w g n ob. view w g n = Some ob \<longrightarrow> om_Name (mg_Meta ob) = n) \<and>
     (\<forall>w g n ob an. view w g n = Some ob \<longrightarrow>
        json_marshal (xa_klib A) (patch_json (patch_ops ob ''/metadata/annotations'' (annotations_json an))) \<noteq> None \<and>
        (\<exists>ob' w'. xa_patch A g n (patch_ops ob ''/metadata/annotations'' (annotations_json an)) w = (Inr ob', w') \<and>
           om_UID (mg_Meta ob') = om_UID (mg_Meta ob) \<and> om_Annotations (mg_Meta ob') = an \<and>
           view w' = (view w)(g := (view w g)(n := Some ob'))))"

abbreviation place :: "Client \<Rightarrow> Reference \<Rightarrow> gvr \<times> string" where
  "place c ref \<equiv> (resource c (rf_Kind ref), rf_Name ref)"

definition seen :: "('w \<Rightarrow> gvr \<Rightarrow> string \<Rightarrow> Managed option) \<Rightarrow> Client \<Rightarrow> 'w \<Rightarrow> Reference \<Rightarrow> (Managed \<Rightarrow> bool) \<Rightarrow> bool" where
  "seen view c w ref ok \<longleftrightarrow> (\<exists>ob. view w (resource c (rf_Kind ref)) (rf_Name ref) = Some ob \<and>
     om_UID (mg_Meta ob) = rf_UID ref \<and> ok ob)"

definition unpaused :: "Managed \<Rightarrow> bool" where
  "unpaused ob \<longleftrightarrow> fmlookup (om_Annotations (mg_Meta ob)) PausedAnnotation = None \<and>
     fmlookup (om_Annotations (mg_Meta ob)) OwnerAnnotation = None"

definition held_by :: "string \<Rightarrow> Managed \<Rightarrow> bool" where
  "held_by owner ob \<longleftrightarrow> annotation_of ob PausedAnnotation = annotationTrue \<and> annotation_of ob OwnerAnnotation = owner"

lemma distinct_places: "distinct (map ref_key refs) \<Longrightarrow> distinct (map (place c) refs)"
  by (induction refs) (auto simp: ref_key_def resource_def)

lemma serves_get:
  "serves A view \<Longrightarrow> view w g n = Some ob \<Longrightarrow> xa_get A g n w = (Inr ob, w)"
  unfolding serves_def by (metis option.case(2))

lemma serves_patch:
  assumes "serves A view" "view w g n = Some ob"
  shows "json_marshal (xa_klib A) (patch_json (patch_ops ob ''/metadata/annotations'' (annotations_json an))) \<noteq> None \<and>
    (\<exists>ob' w'. xa_patch A g n (patch_ops ob ''/metadata/annotations'' (annotations_json an)) w = (Inr ob', w') \<and>
       om_UID (mg_Meta ob') = om_UID (mg_Meta ob) \<and> om_Annotations (mg_Meta ob') = an \<and>
       view w' = (view w)(g := (view w g)(n := Some ob')))"
  using assms unfolding serves_def by blast

lemma getOriginal_serves:
  assumes "serves A view" "seen view c w ref ok"
  obtains ob where "view w (resource c (rf_Kind ref)) (rf_Name ref) = Some ob" "ok ob" "om_UID (mg_Meta ob) = rf_UID ref"
    "getOriginal A c ref \<lparr>world = w, log = l\<rparr> = (Inr ob, \<lparr>world = w, log = l\<rparr>)"
  using assms(2) by (auto simp: serves_get [OF assms(1)] seen_def getOriginal_def andthen_def query_def ret_def)

lemma patch_serves:
  assumes "serves A view" "view w (resource c kind) n = Some ob"
  obtains ob' w' q where "patch A c kind ob ''/metadata/annotations'' (annotations_json an) \<lparr>world = w, log = l\<rparr> =
      (Inr ob', \<lparr>world = w', log = l @ [q]\<rparr>)" "om_UID (mg_Meta ob') = om_UID (mg_Meta ob)"
    "om_Annotations (mg_Meta ob') = an"
    "view w' = (view w)(resource c kind := (view w (resource c kind))(n := Some ob'))"
proof -
  have "om_Name (mg_Meta ob) = n" using assms unfolding serves_def by blast
  moreover obtain ob' w' where "xa_patch A (resource c kind) n (patch_ops ob ''/metadata/annotations'' (annotations_json an)) w = (Inr ob', w')"
      "om_UID (mg_Meta ob') = om_UID (mg_Meta ob)" "om_Annotations (mg_Meta ob') = an"
      "view w' = (view w)(resource c kind := (view w (resource c kind))(n := Some ob'))"
    using serves_patch [OF assms] by blast
  ultimately show ?thesis using that serves_patch [OF assms, of an] by (auto simp: patch_def request_def)
qed

text \<open>The common shape of both loops: one step patches the object at the head, and the objects at
  other places are unchanged.\<close>

definition rewritten :: "('w \<Rightarrow> gvr \<Rightarrow> string \<Rightarrow> Managed option) \<Rightarrow> Client \<Rightarrow> (Managed \<Rightarrow> (string, string) fmap) \<Rightarrow>
    Reference list \<Rightarrow> 'w \<Rightarrow> 'w \<Rightarrow> bool" where
  "rewritten view c f refs w w' \<longleftrightarrow>
     (\<forall>ref \<in> set refs. \<exists>ob. view w (resource c (rf_Kind ref)) (rf_Name ref) = Some ob \<and>
        seen view c w' ref (\<lambda>ob'. om_Annotations (mg_Meta ob') = f ob)) \<and>
     (\<forall>g n. (g, n) \<notin> place c ` set refs \<longrightarrow> view w' g n = view w g n)"

lemma other_place:
  "distinct (map (place c) (ref # refs)) \<Longrightarrow> r \<in> set refs \<Longrightarrow>
     resource c (rf_Kind r) = resource c (rf_Kind ref) \<Longrightarrow> rf_Name r \<noteq> rf_Name ref"
  by (auto simp: image_iff)

lemma rewritten_Nil [simp]: "rewritten view c f [] w w"
  by (simp add: rewritten_def)

lemma rewritten_Cons:
  assumes "view w (resource c (rf_Kind ref)) (rf_Name ref) = Some ob" "om_UID (mg_Meta ob') = rf_UID ref"
    "om_Annotations (mg_Meta ob') = f ob"
    "view w1 = (view w)(resource c (rf_Kind ref) := (view w (resource c (rf_Kind ref)))(rf_Name ref := Some ob'))"
    "distinct (map (place c) (ref # refs))" "rewritten view c f refs w1 w2"
  shows "rewritten view c f (ref # refs) w w2"
proof -
  have other: "view w1 g n = view w g n" if "(g, n) \<noteq> place c ref" for g n using assms(4) that by auto
  have "\<forall>r \<in> set refs. place c r \<noteq> place c ref" using other_place [OF assms(5)] by blast
  then have "\<forall>r \<in> set refs. view w1 (resource c (rf_Kind r)) (rf_Name r) = view w (resource c (rf_Kind r)) (rf_Name r)"
    using other by auto
  moreover have "view w2 (resource c (rf_Kind ref)) (rf_Name ref) = Some ob'"
  proof -
    have "place c ref \<notin> place c ` set refs" using assms(5) by simp
    then have "view w2 (resource c (rf_Kind ref)) (rf_Name ref) = view w1 (resource c (rf_Kind ref)) (rf_Name ref)"
      using assms(6) unfolding rewritten_def by blast
    then show ?thesis using assms(4) by simp
  qed
  ultimately show ?thesis using assms(1,2,3,6) other unfolding rewritten_def
    by (auto simp: seen_def simp del: split_paired_All)
qed

lemma seen_elsewhere:
  assumes "\<forall>r \<in> set (ref # refs). seen view c w r ok" "distinct (map (place c) (ref # refs))"
    "view w1 = (view w)(resource c (rf_Kind ref) := (view w (resource c (rf_Kind ref)))(rf_Name ref := Some ob'))"
  shows "\<forall>r \<in> set refs. seen view c w1 r ok"
  using assms(1,3) other_place [OF assms(2)] by (fastforce simp: seen_def)

lemma pause_all:
  assumes "serves A view" "distinct (map (place c) refs)" "\<forall>ref \<in> set refs. seen view c w ref unpaused"
  shows "\<exists>w' l'. pause_loop A c owner paused refs \<lparr>world = w, log = l\<rparr> =
      (Inr (paused @ refs, None), \<lparr>world = w', log = l'\<rparr>) \<and> rewritten view c (paused_annotations owner) refs w w'"
  using assms(2,3)
proof (induction refs arbitrary: w l paused)
  case (Cons ref refs)
  have head: "seen view c w ref unpaused" and tail: "distinct (map (place c) refs)" using Cons.prems by simp_all
  obtain ob where ob: "view w (resource c (rf_Kind ref)) (rf_Name ref) = Some ob" "unpaused ob" "om_UID (mg_Meta ob) = rf_UID ref"
      "getOriginal A c ref \<lparr>world = w, log = l\<rparr> = (Inr ob, \<lparr>world = w, log = l\<rparr>)"
    by (rule getOriginal_serves [OF assms(1) head, where l = l])
  obtain ob' w1 q where p: "patch A c (rf_Kind ref) ob ''/metadata/annotations'' (annotations_json (paused_annotations owner ob))
        \<lparr>world = w, log = l\<rparr> = (Inr ob', \<lparr>world = w1, log = l @ [q]\<rparr>)" "om_UID (mg_Meta ob') = om_UID (mg_Meta ob)"
      "om_Annotations (mg_Meta ob') = paused_annotations owner ob"
      "view w1 = (view w)(resource c (rf_Kind ref) := (view w (resource c (rf_Kind ref)))(rf_Name ref := Some ob'))"
    by (rule patch_serves [OF assms(1) ob(1), where l = l and an = "paused_annotations owner ob"])
  obtain w2 l' where "pause_loop A c owner (paused @ [ref]) refs \<lparr>world = w1, log = l @ [q]\<rparr> =
      (Inr ((paused @ [ref]) @ refs, None), \<lparr>world = w2, log = l'\<rparr>)" "rewritten view c (paused_annotations owner) refs w1 w2"
    using Cons.IH [OF tail seen_elsewhere [OF Cons.prems(2,1) p(4)]] by blast
  moreover have "annotation_of ob PausedAnnotation = []" "annotation_of ob OwnerAnnotation = []"
    using ob(2) by (auto simp: unpaused_def annotation_of_def)
  ultimately show ?case
    using ob(3,4) p rewritten_Cons [where f = "paused_annotations owner", OF ob(1) _ p(3,4) Cons.prems(1)]
    by (auto simp: attempt_def)
qed (auto simp: ret_def)

lemma pause_again:
  assumes "serves A view" "\<forall>ref \<in> set refs. seen view c w ref (held_by owner)"
  shows "pause_loop A c owner paused refs \<lparr>world = w, log = l\<rparr> = (Inr (paused @ refs, None), \<lparr>world = w, log = l\<rparr>)"
  using assms(2)
proof (induction refs arbitrary: paused)
  case (Cons ref refs)
  have head: "seen view c w ref (held_by owner)" using Cons.prems by simp
  obtain ob where "held_by owner ob"
      "getOriginal A c ref \<lparr>world = w, log = l\<rparr> = (Inr ob, \<lparr>world = w, log = l\<rparr>)"
    by (rule getOriginal_serves [OF assms(1) head, where l = l])
  then show ?case using Cons by (simp add: attempt_def held_by_def)
qed (simp add: ret_def)

lemma resume_all:
  assumes "serves A view" "owner \<noteq> []" "distinct (map (place c) refs)" "\<forall>ref \<in> set refs. seen view c w ref (held_by owner)"
  shows "\<exists>w' l'. resume_loop A c owner resumed refs \<lparr>world = w, log = l\<rparr> =
      (Inr (resumed @ refs, None), \<lparr>world = w', log = l'\<rparr>) \<and> rewritten view c resumed_annotations refs w w'"
  using assms(3,4)
proof (induction refs arbitrary: w l resumed)
  case (Cons ref refs)
  have head: "seen view c w ref (held_by owner)" and tail: "distinct (map (place c) refs)" using Cons.prems by simp_all
  obtain ob where ob: "view w (resource c (rf_Kind ref)) (rf_Name ref) = Some ob" "held_by owner ob" "om_UID (mg_Meta ob) = rf_UID ref"
      "getOriginal A c ref \<lparr>world = w, log = l\<rparr> = (Inr ob, \<lparr>world = w, log = l\<rparr>)"
    by (rule getOriginal_serves [OF assms(1) head, where l = l])
  obtain ob' w1 q where p: "patch A c (rf_Kind ref) ob ''/metadata/annotations'' (annotations_json (resumed_annotations ob))
        \<lparr>world = w, log = l\<rparr> = (Inr ob', \<lparr>world = w1, log = l @ [q]\<rparr>)" "om_UID (mg_Meta ob') = om_UID (mg_Meta ob)"
      "om_Annotations (mg_Meta ob') = resumed_annotations ob"
      "view w1 = (view w)(resource c (rf_Kind ref) := (view w (resource c (rf_Kind ref)))(rf_Name ref := Some ob'))"
    by (rule patch_serves [OF assms(1) ob(1), where l = l and an = "resumed_annotations ob"])
  obtain w2 l' where "resume_loop A c owner (resumed @ [ref]) refs \<lparr>world = w1, log = l @ [q]\<rparr> =
      (Inr ((resumed @ [ref]) @ refs, None), \<lparr>world = w2, log = l'\<rparr>)" "rewritten view c resumed_annotations refs w1 w2"
    using Cons.IH [OF tail seen_elsewhere [OF Cons.prems(2,1) p(4)]] by blast
  then show ?case
    using ob(2,3,4) p rewritten_Cons [where f = resumed_annotations, OF ob(1) _ p(3,4) Cons.prems(1)] assms(2)
    by (auto simp: attempt_def held_by_def)
qed (auto simp: ret_def)

lemma resumed_paused:
  assumes "unpaused ob" "om_Annotations (mg_Meta ob') = paused_annotations owner ob"
  shows "resumed_annotations ob' = om_Annotations (mg_Meta ob)"
  using assms by (intro fmap_ext) (auto simp: resumed_annotations_def paused_annotations_def unpaused_def)

lemma paused_held: "om_Annotations (mg_Meta ob') = paused_annotations owner ob \<Longrightarrow> held_by owner ob'"
  by (simp add: held_by_def annotation_of_def paused_annotations_def)

section \<open>Properties\<close>

text \<open>C23 (safety).  Whatever the API server answers, a pause or a resumption patches only the
  recorded objects, each under the UID that was recorded and as it was read; a pause takes over
  no object that another owner holds or that is paused already, and a resumption touches only
  objects that carry the owner's token.\<close>

theorem crossplane_respects_owners:
  assumes "(if resume then Resume A c owner refs else Pause A c owner refs) \<lparr>world = w, log = []\<rparr> = (r, s')"
    and "q \<in> set (log s')"
  shows "owner \<noteq> [] \<and> (\<exists>ref \<in> set refs. \<exists>ob. fetched A c ref ob \<and>
     (if resume then annotation_of ob OwnerAnnotation = owner
      else annotation_of ob PausedAnnotation \<noteq> annotationTrue \<and> annotation_of ob OwnerAnnotation \<in> {[], owner}) \<and>
     q = XPatch (resource c (rf_Kind ref)) (om_Name (mg_Meta ob)) (patch_ops ob ''/metadata/annotations''
       (annotations_json (if resume then resumed_annotations ob else paused_annotations owner ob))))"
proof (cases resume)
  case True
  then show ?thesis using emits_trace [OF Resume_emits _ assms(2)] assms(1)
    by (auto simp: annotates_def may_resume_def)
next
  case False
  then show ?thesis using emits_trace [OF Pause_emits _ assms(2)] assms(1)
    by (auto simp: annotates_def may_pause_def)
qed


text \<open>C22 (invariant).  A checkpoint that a recreation accepted is followed by one that it accepts
  again, for the same objects: no observed deletion and no completion is taken back, and
  everything is reported complete only when the deletion of every object was observed.\<close>

theorem recreate_checkpoint_advances:
  assumes "\<not> dns_1035_label (xa_klib A) []" and "progress \<noteq> []" and "validateProgress refs progress = Inr ()"
    and "Recreate A c refs progress opts \<lparr>world = w, log = []\<rparr> = (Inr (next, done_all, err), s')"
  shows "validateProgress refs next = Inr () \<and> list_all2 advances progress next \<and>
     (done_all \<longrightarrow> list_all (\<lambda>p. rr_Complete p \<and> rr_DeletionObserved p) next)"
proof -
  have adv: "list_all2 advances progress next" and fin: "done_all \<longrightarrow> list_all rr_Complete next"
    using runs_trace [OF Recreate_runs [OF assms(1)] assms(4)] assms(2) by auto
  have "map rr_Reference next = map rr_Reference progress"
    using adv by induction (auto simp: advances_def)
  moreover have "\<forall>p \<in> set next. rr_Complete p \<longrightarrow> rr_DeletionObserved p"
    using adv assms(3) unfolding validateProgress_ok
    by (auto simp: list_all2_conv_all_nth advances_def in_set_conv_nth) (metis nth_mem)
  ultimately show ?thesis using adv fin assms(3) by (auto simp: validateProgress_ok list_all_iff)
qed

text \<open>C24 (roundtrip).  While nobody else writes, pausing objects that nobody has paused succeeds
  for all of them; repeating it, as after a lost status write, changes nothing and reports the
  same objects; and resuming the recorded objects gives every object of the server the
  annotations it had before.\<close>

theorem pause_resume_roundtrip:
  assumes "serves A view" and "validateOperation (xa_klib A) owner refs = Inr ()"
    and "\<forall>ref \<in> set refs. seen view c w ref unpaused"
  shows "\<exists>s1 s2. Pause A c owner refs \<lparr>world = w, log = []\<rparr> = (Inr (refs, None), s1) \<and>
     (\<forall>ref \<in> set refs. seen view c (world s1) ref (held_by owner)) \<and>
     Pause A c owner refs s1 = (Inr (refs, None), s1) \<and>
     Resume A c owner refs s1 = (Inr (refs, None), s2) \<and>
     (\<forall>g n. map_option (\<lambda>ob. om_Annotations (mg_Meta ob)) (view (world s2) g n) =
        map_option (\<lambda>ob. om_Annotations (mg_Meta ob)) (view w g n))"
proof -
  have d: "distinct (map (place c) refs)" and owner: "owner \<noteq> []"
    using assms(2) distinct_places by (auto simp: validateOperation_ok validateRefs_ok)
  obtain w1 l1 where p: "pause_loop A c owner [] refs \<lparr>world = w, log = []\<rparr> = (Inr (refs, None), \<lparr>world = w1, log = l1\<rparr>)"
      "rewritten view c (paused_annotations owner) refs w w1"
    using pause_all [OF assms(1) d assms(3), of owner "[]" "[]"] by auto
  have held: "\<forall>ref \<in> set refs. seen view c w1 ref (held_by owner)"
    using p(2) unfolding rewritten_def seen_def by (metis paused_held)
  obtain w2 l2 where r: "resume_loop A c owner [] refs \<lparr>world = w1, log = l1\<rparr> = (Inr (refs, None), \<lparr>world = w2, log = l2\<rparr>)"
      "rewritten view c resumed_annotations refs w1 w2"
    using resume_all [OF assms(1) owner d held, of "[]" l1] by auto
  have same: "map_option (\<lambda>ob. om_Annotations (mg_Meta ob)) (view w2 g n) =
      map_option (\<lambda>ob. om_Annotations (mg_Meta ob)) (view w g n)" for g n
  proof (cases "(g, n) \<in> place c ` set refs")
    case True
    then obtain ref where ref: "ref \<in> set refs" "g = resource c (rf_Kind ref)" "n = rf_Name ref" by auto
    obtain ob ob1 where p': "view w g n = Some ob" "view w1 g n = Some ob1"
        "om_Annotations (mg_Meta ob1) = paused_annotations owner ob"
      using p(2) ref unfolding rewritten_def seen_def by meson
    moreover obtain ob2 where "view w2 g n = Some ob2" "om_Annotations (mg_Meta ob2) = resumed_annotations ob1"
      using r(2) ref p'(2) unfolding rewritten_def seen_def by (metis option.inject)
    moreover have "unpaused ob" using assms(3) ref p'(1) by (auto simp: seen_def)
    ultimately show ?thesis using resumed_paused by simp
  next
    case False
    have "view w1 g n = view w g n" using False p(2) unfolding rewritten_def by blast
    moreover have "view w2 g n = view w1 g n" using False r(2) unfolding rewritten_def by blast
    ultimately show ?thesis by simp
  qed
  have eqs: "Pause A c owner refs = pause_loop A c owner [] refs" "Resume A c owner refs = resume_loop A c owner [] refs"
    using assms(2) by (simp_all add: Pause_def Resume_def)
  have again: "pause_loop A c owner [] refs \<lparr>world = w1, log = l1\<rparr> = (Inr (refs, None), \<lparr>world = w1, log = l1\<rparr>)"
    using pause_again [OF assms(1) held, of "[]"] by simp
  show ?thesis unfolding eqs
    by (intro exI [of _ "\<lparr>world = w1, log = l1\<rparr>"] exI [of _ "\<lparr>world = w2, log = l2\<rparr>"] conjI p(1) again r(1))
      (use held same in simp_all)
qed

section \<open>Witnesses\<close>

text \<open>A server that keeps the objects in a function and applies the last operation of a patch.\<close>

fun json_string :: "json \<Rightarrow> string" where
  "json_string (JStr s) = s"
| "json_string _ = []"

fun apply_patch :: "patchOperation list \<Rightarrow> Managed \<Rightarrow> Managed" where
  "apply_patch ops ob = (case po_Value (last ops) of
     JObj m \<Rightarrow> ob\<lparr>mg_Meta := mg_Meta ob\<lparr>om_Annotations := fmmap json_string m\<rparr>\<rparr>
   | _ \<Rightarrow> ob\<lparr>mg_Meta := mg_Meta ob\<lparr>om_Finalizers := []\<rparr>\<rparr>)"

type_synonym shelf = "gvr \<Rightarrow> string \<Rightarrow> Managed option"

definition tidy :: "shelf \<Rightarrow> shelf" where
  "tidy sh g n = (case sh g n of None \<Rightarrow> None | Some ob \<Rightarrow> if om_Name (mg_Meta ob) = n then Some ob else None)"

definition sample_xapi :: "shelf xapi" where
  "sample_xapi = \<lparr>xa_list = (\<lambda>g l w. (Inr [], w)),
     xa_get = (\<lambda>g n w. case tidy w g n of None \<Rightarrow> (Inl (CKube KNotFound), w) | Some ob \<Rightarrow> (Inr ob, w)),
     xa_patch = (\<lambda>g n ops w. case tidy w g n of None \<Rightarrow> (Inl (CKube KNotFound), w)
       | Some ob \<Rightarrow> (Inr (apply_patch ops ob), w(g := (w g)(n := Some (apply_patch ops ob))))),
     xa_delete = (\<lambda>g n u v w. (Inr (), w(g := (w g)(n := None)))),
     xa_klib = sample_klib, xa_selector = (\<lambda>_. Inr []),
     xa_nested_slice = (\<lambda>t p. case walk t p of Inr (Some (JList l)) \<Rightarrow> Inr (Some l) | _ \<Rightarrow> Inr None)\<rparr>"

lemma fmmap_json_string [simp]: "fmmap json_string (fmmap JStr an) = an"
  by (rule fmap_ext) (simp add: option.map_comp comp_def option.map_ident)

lemma tidy_upd:
  "om_Name (mg_Meta ob) = n \<Longrightarrow> tidy (w(g := (w g)(n := Some ob))) = (tidy w)(g := (tidy w g)(n := Some ob))"
  by (intro ext) (simp add: tidy_def)

lemma sample_xapi_serves: "serves sample_xapi tidy"
proof -
  have 1: "xa_get sample_xapi g n w = (case tidy w g n of None \<Rightarrow> (Inl (CKube KNotFound), w) | Some ob \<Rightarrow> (Inr ob, w))" for w g n
    by (simp add: sample_xapi_def)
  have 2: "om_Name (mg_Meta ob) = n" if "tidy w g n = Some ob" for w g n ob
    using that by (auto simp: tidy_def split: option.splits if_splits)
  have 3: "\<exists>ob' w'. xa_patch sample_xapi g n (patch_ops ob ''/metadata/annotations'' (annotations_json an)) w = (Inr ob', w') \<and>
      om_UID (mg_Meta ob') = om_UID (mg_Meta ob) \<and> om_Annotations (mg_Meta ob') = an \<and>
      tidy w' = (tidy w)(g := (tidy w g)(n := Some ob'))" if "tidy w g n = Some ob" for w g n ob an
  proof -
    let ?ob = "ob\<lparr>mg_Meta := mg_Meta ob\<lparr>om_Annotations := an\<rparr>\<rparr>"
    have "xa_patch sample_xapi g n (patch_ops ob ''/metadata/annotations'' (annotations_json an)) w =
        (Inr ?ob, w(g := (w g)(n := Some ?ob)))"
      using that by (simp add: sample_xapi_def patch_ops_def annotations_json_def)
    moreover have "tidy (w(g := (w g)(n := Some ?ob))) = (tidy w)(g := (tidy w g)(n := Some ?ob))"
      using 2 [OF that] by (intro tidy_upd) simp
    ultimately show ?thesis by (intro exI [of _ ?ob] exI [of _ "w(g := (w g)(n := Some ?ob))"]) simp
  qed
  have 4: "json_marshal (xa_klib sample_xapi) t \<noteq> None" for t
    by (simp add: sample_xapi_def sample_klib_def)
  show ?thesis unfolding serves_def using 1 2 3 4 by blast
qed

definition sample_client :: Client where
  "sample_client = \<lparr>cl_Group = ''mysql.sql.crossplane.io'', cl_Version = ''v1alpha1''\<rparr>"

definition sample_ref :: Reference where
  "sample_ref = \<lparr>rf_Kind = ''databases'', rf_Name = ''shop'', rf_UID = ''u-1''\<rparr>"

definition sample_managed :: Managed where
  "sample_managed = \<lparr>mg_Meta = empty_meta\<lparr>om_Name := ''shop'', om_UID := ''u-1'', om_ResourceVersion := ''7''\<rparr>,
     mg_Tree = jobj [(''spec'', jobj [(''deletionPolicy'', JStr ''Orphan'')])]\<rparr>"

definition sample_shelf :: shelf where
  "sample_shelf g n = (if g = (''mysql.sql.crossplane.io'', ''v1alpha1'', ''databases'') \<and> n = ''shop''
     then Some sample_managed else None)"

theorem pause_resume_roundtrip_witness:
  "\<exists>s1 s2. Pause sample_xapi sample_client ''owner'' [sample_ref] \<lparr>world = sample_shelf, log = []\<rparr> = (Inr ([sample_ref], None), s1) \<and>
     Resume sample_xapi sample_client ''owner'' [sample_ref] s1 = (Inr ([sample_ref], None), s2)"
proof -
  have "validateOperation (xa_klib sample_xapi) ''owner'' [sample_ref] = Inr ()" by code_simp
  moreover have "seen tidy sample_client sample_shelf sample_ref unpaused"
    by (simp add: seen_def tidy_def sample_shelf_def sample_client_def sample_ref_def resource_def
        sample_managed_def unpaused_def empty_meta_def)
  ultimately show ?thesis
    using pause_resume_roundtrip [OF sample_xapi_serves, of "''owner''" "[sample_ref]" sample_client sample_shelf] by auto
qed

definition sample_progress :: "Recreation list" where
  "sample_progress = [\<lparr>rr_Reference = sample_ref, rr_DeletionObserved = False, rr_Complete = False\<rparr>]"

definition sample_opts :: RecreateOptions where
  "sample_opts = \<lparr>ro_RemoveFinalizers = False, ro_WaitForRecreation = None\<rparr>"

lemma sample_not_label: "\<not> dns_1035_label (xa_klib sample_xapi) []"
  by code_simp

lemma sample_recreate:
  "fst (Recreate sample_xapi sample_client [sample_ref] sample_progress sample_opts \<lparr>world = sample_shelf, log = []\<rparr>) =
     Inr (sample_progress, False, None)"
  "log (snd (Recreate sample_xapi sample_client [sample_ref] sample_progress sample_opts \<lparr>world = sample_shelf, log = []\<rparr>)) =
     [XDelete (''mysql.sql.crossplane.io'', ''v1alpha1'', ''databases'') ''shop'' ''u-1'' ''7'']"
  "validateProgress [sample_ref] sample_progress = Inr ()"
  by code_simp+

lemma sample_recreate_pair:
  "Recreate sample_xapi sample_client [sample_ref] sample_progress sample_opts \<lparr>world = sample_shelf, log = []\<rparr> =
     (Inr (sample_progress, False, None),
      snd (Recreate sample_xapi sample_client [sample_ref] sample_progress sample_opts \<lparr>world = sample_shelf, log = []\<rparr>))"
  using sample_recreate(1) by (simp add: prod_eq_iff)


theorem recreate_checkpoint_advances_witness:
  "validateProgress [sample_ref] sample_progress = Inr () \<and> list_all2 advances sample_progress sample_progress"
  using recreate_checkpoint_advances [OF sample_not_label _ sample_recreate(3) sample_recreate_pair]
  by (simp add: sample_progress_def)

lemma sample_pause_log:
  "log (snd (Pause sample_xapi sample_client ''owner'' [sample_ref] \<lparr>world = sample_shelf, log = []\<rparr>)) =
     [XPatch (''mysql.sql.crossplane.io'', ''v1alpha1'', ''databases'') ''shop''
        (patch_ops sample_managed ''/metadata/annotations'' (annotations_json (paused_annotations ''owner'' sample_managed)))]"
  by code_simp

theorem crossplane_respects_owners_witness:
  "\<exists>ob. fetched sample_xapi sample_client sample_ref ob \<and> annotation_of ob PausedAnnotation \<noteq> annotationTrue"
proof -
  define m where "m = Pause sample_xapi sample_client ''owner'' [sample_ref] \<lparr>world = sample_shelf, log = []\<rparr>"
  have "(if False then Resume sample_xapi sample_client ''owner'' [sample_ref] else Pause sample_xapi sample_client ''owner'' [sample_ref])
      \<lparr>world = sample_shelf, log = []\<rparr> = (fst m, snd m)" by (simp add: m_def)
  from crossplane_respects_owners [OF this] sample_pause_log show ?thesis
    unfolding m_def by fastforce
qed

end
