(* ===== verification/Bootstrap_Safety.thy ===== *)
theory Bootstrap_Safety
  imports Bootstrap Crossplane_Safety
begin

text \<open>
  What a reconcile of a Bootstrap may send, against any API server.  One lemma per handler
  bounds its requests by \<open>boot_request\<close>; the order of the intent and of the creation of a restore
  is a property of whole logs, for which the locale \<open>log_inv\<close> gives the rules once.
\<close>

section \<open>Shared rules\<close>

lemma emits_embed:
  fixes m :: "('w, 'r, 'e, 'a) eff" and g :: "'r \<Rightarrow> 'q"
  assumes "emits m P R" "\<And>q. P q \<Longrightarrow> Q (g q)"
  shows "emits (embed g m) Q R"
  unfolding emits_def runs_def
proof
  fix s :: "('w, 'q) sys"
  obtain r s' where m: "m \<lparr>world = world s, log = []\<rparr> = (r, s')" by fastforce
  then have "list_all P (log s') \<and> (\<forall>x. r = Inr x \<longrightarrow> R x)"
    using runs_trace [OF assms(1) [unfolded emits_def] m] by blast
  then show "\<exists>l. log (snd (embed g m s)) = log s @ l \<and> list_all Q l \<and> (\<forall>x. fst (embed g m s) = Inr x \<longrightarrow> R x)"
    using m assms(2) by (auto simp: embed_def list_all_iff)
qed

lemma emits_andthen_embed [emits_rules]:
  "emits m P' (\<lambda>_. True) \<Longrightarrow> (\<And>q. P' q \<Longrightarrow> P (g q)) \<Longrightarrow> (\<And>x. emits (f x) P R) \<Longrightarrow> emits (andthen (embed g m) f) P R"
  by (rule emits_andthen [OF emits_embed [where P = P' and R = "\<lambda>_. True"]]) auto

lemma emits_True: "emits m P R \<Longrightarrow> emits m P (\<lambda>_. True)"
  by (rule emits_conseq) auto

text \<open>An operation of the Crossplane client that sends nothing.\<close>

lemma select_loop_quiet: "emits (select_loop A c labels sn refs kinds) (\<lambda>_. False) (\<lambda>_. True)"
proof (induction kinds arbitrary: sn refs)
  case (Cons k kinds)
  then show ?case by (auto intro!: emits_rules)
qed (simp add: emits_ret)

lemma Select_quiet: "emits (Select A c kinds selector) (\<lambda>_. False) (\<lambda>_. True)"
  unfolding Select_def
  by (intro emits_if emits_attempt [where R' = "\<lambda>_. True"] emits_andthen_lift select_loop_quiet)
    (auto intro!: emits_ret)

lemma pending_loop_quiet: "emits (pending_loop A c pending refs) (\<lambda>_. False) (\<lambda>_. True)"
proof (induction refs arbitrary: pending)
  case (Cons r refs)
  show ?case unfolding pending_loop.simps
    by (intro emits_attempt_query emits_sum emits_if Cons.IH) (auto intro!: emits_ret)
qed (simp add: emits_ret)

lemma Ready_quiet: "emits (Ready A c refs) (\<lambda>_. False) (\<lambda>_. True)"
  unfolding Ready_def by (intro emits_sum pending_loop_quiet emits_ret) simp

section \<open>The phase machine\<close>

abbreviation phase_of :: "Bootstrap \<Rightarrow> string" where
  "phase_of bs \<equiv> bos_Phase (bo_Status bs)"

text \<open>The abstract machine: the stages follow each other, every stage may fail, and an execution
  that has ended may start again.\<close>

definition boot_edges :: "(string \<times> string) set" where
  "boot_edges = {([], BootstrapPhaseWaitingForClusters), (BootstrapPhasePending, BootstrapPhaseWaitingForClusters),
     (BootstrapPhaseWaitingForClusters, BootstrapPhaseResolvingPointer),
     (BootstrapPhaseResolvingPointer, BootstrapPhasePausingCrossplane), (BootstrapPhaseResolvingPointer, BootstrapPhaseRestoring),
     (BootstrapPhasePausingCrossplane, BootstrapPhaseRestoring),
     (BootstrapPhaseRestoring, BootstrapPhaseResumingCrossplane), (BootstrapPhaseRestoring, BootstrapPhaseCompleted),
     (BootstrapPhaseResumingCrossplane, BootstrapPhaseRecreatingCrossplane), (BootstrapPhaseResumingCrossplane, BootstrapPhaseCompleted),
     (BootstrapPhaseRecreatingCrossplane, BootstrapPhaseCompleted),
     (BootstrapPhaseCompleted, BootstrapPhaseWaitingForClusters), (BootstrapPhaseFailed, BootstrapPhaseWaitingForClusters)}"

definition boot_step :: "string \<Rightarrow> string \<Rightarrow> bool" where
  "boot_step p p' \<longleftrightarrow> p' = p \<or> p' = BootstrapPhaseFailed \<or> (p, p') \<in> boot_edges"

text \<open>A status patch that succeeds leaves the status that was sent in memory: the documented
  response of the server while nobody else writes the status.\<close>

definition stores :: "'w boot_api \<Rightarrow> bool" where
  "stores A \<longleftrightarrow> (\<forall>base bs w bs'. fst (ba_patch_status A base bs w) = Inr bs' \<longrightarrow> bo_Status bs' = bo_Status bs)"

text \<open>What a change in memory keeps.\<close>

definition alike :: "Bootstrap \<Rightarrow> Bootstrap \<Rightarrow> bool" where
  "alike bs bs' \<longleftrightarrow> phase_of bs' = phase_of bs \<and> bo_Spec bs' = bo_Spec bs \<and> bo_Meta bs' = bo_Meta bs"

lemma alike_refl [simp]: "alike bs bs" and
  alike_trans: "alike a b \<Longrightarrow> alike b c \<Longrightarrow> alike a c"
  by (simp_all add: alike_def)

lemma with_bstatus_simps [simp]:
  "bo_Status (with_bstatus f bs) = f (bo_Status bs)" "bo_Spec (with_bstatus f bs) = bo_Spec bs"
  "bo_Meta (with_bstatus f bs) = bo_Meta bs"
  by (simp_all add: with_bstatus_def)

lemma phase_kept [simp]:
  "phase_of (with_exec f bs) = phase_of bs" "phase_of (set_exec_targets ts bs) = phase_of bs"
  "phase_of (set_target i g bs) = phase_of bs" "phase_of (set_exec_target i h bs) = phase_of bs"
  "phase_of (with_cross k bs) = phase_of bs" "phase_of (bobserved bs) = phase_of bs"
  by (simp_all add: with_exec_def set_exec_targets_def set_target_def set_exec_target_def with_cross_def bobserved_def)

lemma spec_kept [simp]:
  "bo_Spec (with_exec f bs) = bo_Spec bs" "bo_Spec (set_exec_targets ts bs) = bo_Spec bs"
  "bo_Spec (with_cross k bs) = bo_Spec bs" "bo_Spec (set_target i g bs) = bo_Spec bs"
  "bo_Spec (set_exec_target i h bs) = bo_Spec bs"
  by (simp_all add: with_exec_def set_exec_targets_def with_cross_def set_target_def set_exec_target_def)

lemma bootstrapTime_emits: "emits (bootstrapTime A) P (\<lambda>_. True)"
  unfolding bootstrapTime_def by (rule emits_query) simp

lemma emits_time [emits_rules]: "(\<And>t. emits (f t) P R) \<Longrightarrow> emits (andthen (bootstrapTime A) f) P R"
  by (rule emits_andthen [OF bootstrapTime_emits])

lemma bootstrapExpired_emits: "emits (bootstrapExpired A start timeout) P (\<lambda>_. True)"
  unfolding bootstrapExpired_def by (intro emits_rules) auto

lemma emits_expired [emits_rules]:
  "(\<And>late. emits (f late) P R) \<Longrightarrow> emits (andthen (bootstrapExpired A start timeout) f) P R"
  by (rule emits_andthen [OF bootstrapExpired_emits])

lemma emits_condition [emits_rules]:
  assumes "\<And>bs'. alike bs bs' \<Longrightarrow> emits (f bs') P R"
  shows "emits (andthen (bootstrapCondition E A kind st reason msg bs) f) P R"
proof (rule emits_andthen)
  show "emits (bootstrapCondition E A kind st reason msg bs) P (alike bs)"
    unfolding bootstrapCondition_def by (intro emits_rules) (simp add: set_bcondition_def alike_def)
qed (use assms in blast)

lemma emits_condition_last:
  assumes "\<And>bs'. alike bs bs' \<Longrightarrow> R bs'"
  shows "emits (bootstrapCondition E A kind st reason msg bs) P R"
  unfolding bootstrapCondition_def by (intro emits_rules) (simp add: set_bcondition_def alike_def assms)

lemma bootstrapFail_emits:
  "emits (bootstrapFail E A reason msg bs) P (\<lambda>bs'. phase_of bs' = BootstrapPhaseFailed \<and> bo_Spec bs' = bo_Spec bs)"
  unfolding bootstrapFail_def Let_def
  by (rule emits_andthen [where R' = "\<lambda>bs'. phase_of bs' = BootstrapPhaseFailed \<and> bo_Spec bs' = bo_Spec bs"])
    (auto intro!: emits_rules emits_condition_last simp: alike_def split: option.splits)

lemma failed_now_emits:
  "emits (failed_now E A bs reason msg) P (\<lambda>r. phase_of (fst r) = BootstrapPhaseFailed)"
  unfolding failed_now_def by (rule emits_andthen [OF bootstrapFail_emits]) (auto intro: emits_ret)

lemma bootstrapFinish_emits: "emits (bootstrapFinish E A bs) P (\<lambda>bs'. phase_of bs' = BootstrapPhaseCompleted)"
  unfolding bootstrapFinish_def by (intro emits_rules emits_condition_last) (auto simp: alike_def)

lemma bootstrapEvent_emits: "(\<And>a b c. P (BEvent a b c)) \<Longrightarrow> emits (bootstrapEvent E k r m) P (\<lambda>_. True)"
  unfolding bootstrapEvent_def by (intro emits_rules) auto

lemma bootstrapStatus_emits:
  assumes "P (BPatchStatus base (bobserved bs))"
  shows "emits (bootstrapStatus A bs base) P (\<lambda>(bs', err). stores A \<longrightarrow> bo_Status bs' = bo_Status (bobserved bs))"
  unfolding bootstrapStatus_def Let_def using assms
  by (intro emits_if emits_attempt_request emits_sum emits_ret) (auto simp: stores_def)

section \<open>What a reconcile may send\<close>

definition restore_seen :: "'w boot_env \<Rightarrow> 'w boot_api \<Rightarrow> Bootstrap \<Rightarrow> BootstrapExecutionStatus \<Rightarrow> BootstrapTargetStatus \<Rightarrow>
    BootstrapTargetExecution \<Rightarrow> Unstructured \<Rightarrow> RestoreView \<Rightarrow> bool" where
  "restore_seen E A bs ex target te ob view \<longleftrightarrow>
     (\<exists>w. fst (ba_get_object A RestoreGVK (bo_ns bs) (bts_RestoreName target) w) = Inr ob) \<and>
     DecodeRestore (be_restore_conv E) (Some (un_GVK ob, un_Tree ob)) = Inr view \<and>
     controlled_by (be_klib E) (un_Meta ob) bs \<and> (bte_RestoreUID te \<noteq> [] \<longrightarrow> om_UID (un_Meta ob) = bte_RestoreUID te) \<and>
     res_PXCCluster (rv_Spec view) = bts_PXCCluster target"

definition restore_missing :: "'w boot_api \<Rightarrow> Bootstrap \<Rightarrow> BootstrapTargetStatus \<Rightarrow> bool" where
  "restore_missing A bs target \<longleftrightarrow>
     (\<exists>w. fst (ba_get_object A RestoreGVK (bo_ns bs) (bts_RestoreName target) w) = Inl (CKube KNotFound))"

text \<open>A restore is over when it was found absent, or as our own object in a terminal state.\<close>

definition restore_over :: "'w boot_env \<Rightarrow> 'w boot_api \<Rightarrow> Bootstrap \<Rightarrow> BootstrapExecutionStatus \<Rightarrow> BootstrapTargetStatus \<Rightarrow>
    BootstrapTargetExecution \<Rightarrow> bool" where
  "restore_over E A bs ex target te \<longleftrightarrow> restore_missing A bs target \<or>
     (\<exists>ob view. restore_seen E A bs ex target te ob view \<and> Restore_IsTerminal view)"

definition target_settled :: "'w boot_env \<Rightarrow> 'w boot_api \<Rightarrow> Bootstrap \<Rightarrow> BootstrapExecutionStatus \<Rightarrow> nat \<Rightarrow> BootstrapTargetStatus \<Rightarrow> bool" where
  "target_settled E A bs ex i target \<longleftrightarrow> bts_RestoreName target = [] \<or> bts_CompletedAt target \<noteq> None \<or>
     i < length (bex_Targets ex) \<and> restore_over E A bs ex target (bex_Targets ex ! i)"

definition compensation_done :: "'w boot_env \<Rightarrow> 'w boot_api \<Rightarrow> Bootstrap \<Rightarrow> bool" where
  "compensation_done E A bs \<longleftrightarrow> (\<forall>ex. bos_Execution (bo_Status bs) = Some ex \<longrightarrow>
     (\<forall>i<length (bos_Targets (bo_Status bs)). target_settled E A bs ex i (bos_Targets (bo_Status bs) ! i)))"

text \<open>Compensation runs for a Bootstrap that is deleted or whose execution has ended.\<close>

definition compensating :: "Bootstrap \<Rightarrow> bool" where
  "compensating bs \<longleftrightarrow> deleting (bo_Meta bs) \<or> phase_of bs = BootstrapPhaseFailed \<or> phase_of bs = BootstrapPhaseCompleted"

definition cluster_seen :: "'w boot_env \<Rightarrow> 'w boot_api \<Rightarrow> string \<Rightarrow> string \<Rightarrow> ClusterView \<Rightarrow> bool" where
  "cluster_seen E A ns name view \<longleftrightarrow> (\<exists>w ob. fst (ba_get_object A ClusterGVK ns name w) = Inr ob \<and>
     DecodeCluster (be_cluster_conv E) (Some (un_GVK ob, un_Tree ob)) = Inr view)"

definition may_restore :: "'w boot_env \<Rightarrow> 'w boot_api \<Rightarrow> Bootstrap \<Rightarrow> BootstrapExecutionStatus \<Rightarrow> nat \<Rightarrow> Rendered \<Rightarrow> bool" where
  "may_restore E A bs ex i ob \<longleftrightarrow>
     (let targets = bos_Targets (bo_Status bs); target = targets ! i; te = bex_Targets ex ! i in
      i < length targets \<and> i < length (bex_Targets ex) \<and> (\<forall>j<i. bts_CompletedAt (targets ! j) \<noteq> None) \<and>
      bts_CompletedAt target = None \<and> \<not> bte_RestoreAttempted te \<and> bte_RestoreUID te = [] \<and>
      (\<exists>cluster. cluster_seen E A (bo_ns bs) (bts_PXCCluster target) cluster \<and> Cluster_Ready cluster \<and>
         om_UID (cv_Meta cluster) = bte_UID te) \<and> restore_missing A bs target \<and>
      (\<exists>src options. bos_Source (bo_Status bs) = Some src \<and>
         render_restore (be_klib E) bs ex (rs_Destination src) target te options = Inr ob))"

definition executing :: "'w boot_env \<Rightarrow> Bootstrap \<Rightarrow> BootstrapExecutionStatus \<Rightarrow> bool" where
  "executing E bs ex \<longleftrightarrow> \<not> deleting (bo_Meta bs) \<and> bos_Execution (bo_Status bs) = Some ex \<and> bex_ID ex \<noteq> [] \<and>
     bootstrapSpecHash E (bo_Spec bs) = Inr (bex_SpecHash ex)"

definition may_unpause :: "'w boot_env \<Rightarrow> 'w boot_api \<Rightarrow> Bootstrap \<Rightarrow> Unstructured \<Rightarrow> Unstructured \<Rightarrow> bool" where
  "may_unpause E A bs cl cl' \<longleftrightarrow> (\<exists>ex i. bos_Execution (bo_Status bs) = Some ex \<and>
     i < length (bos_Targets (bo_Status bs)) \<and> i < length (bex_Targets ex) \<and>
     (let target = bos_Targets (bo_Status bs) ! i; te = bex_Targets ex ! i in
      bts_CompletedAt target = None \<and> bte_UID te \<noteq> [] \<and> om_UID (un_Meta cl) = bte_UID te \<and>
      (bte_RestoreUID te \<noteq> [] \<or> bte_RestoreAttempted te) \<and> restore_over E A bs ex target te \<and>
      (\<exists>w jobs. fst (ba_list_jobs A (bo_ns bs) w) = Inr jobs \<and> \<not> list_ex (restore_job target) jobs) \<and>
      (\<exists>tree. be_set_nested E (un_Tree cl) (JBool False) [''spec'', ''pause''] = Inr tree \<and> cl' = cl\<lparr>un_Tree := tree\<rparr>)))"

definition may_touch :: "'w boot_env \<Rightarrow> Bootstrap \<Rightarrow> xreq \<Rightarrow> bool" where
  "may_touch E bs q \<longleftrightarrow> (\<exists>ex cp. bos_Execution (bo_Status bs) = Some ex \<and> bootstrapCrossplaneClient E ex = Inr cp \<and>
     (let owner = om_UID (bo_Meta bs); selected = bootstrapRefs (bex_Selected ex) in
      owner \<noteq> [] \<and> phase_of bs = BootstrapPhasePausingCrossplane \<and>
        annotates (be_xapi E) cp (may_pause owner) (paused_annotations owner) selected q \<or>
      owner \<noteq> [] \<and> (phase_of bs = BootstrapPhaseResumingCrossplane \<or> compensating bs) \<and>
        (\<exists>refs. annotates (be_xapi E) cp (may_resume owner) resumed_annotations refs q) \<or>
      phase_of bs = BootstrapPhaseRecreatingCrossplane \<and>
        (\<exists>opts p. recreates (be_xapi E) cp opts p q \<and> rr_Reference p \<in> set selected)))"

fun boot_request :: "'w boot_env \<Rightarrow> 'w boot_api \<Rightarrow> Bootstrap \<Rightarrow> breq \<Rightarrow> bool" where
  "boot_request E A bs (BPatchStatus base bs') = (stores A \<longrightarrow> boot_step (phase_of base) (phase_of bs'))"
| "boot_request E A bs (BPatch before aft) =
     (if deleting (bo_Meta bs) then aft = finalizer_removed before \<and> compensation_done E A bs
      else before = bs \<and> aft = finalizer_added bs)"
| "boot_request E A bs (BCreate ob) =
     (phase_of bs = BootstrapPhaseRestoring \<and> (\<exists>ex i. executing E bs ex \<and> may_restore E A bs ex i ob))"
| "boot_request E A bs (BPatchCluster cl cl') = (compensating bs \<and> may_unpause E A bs cl cl')"
| "boot_request E A bs (BEvent k r msg) = True"
| "boot_request E A bs (BCross q) = may_touch E bs q"

section \<open>The handlers of the phases\<close>

lemma emits_attempt_quiet:
  assumes "runs m (\<lambda>l r. l = [] \<and> Q r)" "\<And>r. Q r \<Longrightarrow> emits (f r) P R"
  shows "emits (attempt m f) P R"
  unfolding emits_def
  by (rule runs_attempt [OF assms(1)]) (use assms(2) in \<open>auto simp: emits_def\<close>)

lemma readCluster_runs:
  "runs (bootstrapReadCluster E A ns name) (\<lambda>l r. l = [] \<and> (\<forall>view. r = Inr view \<longrightarrow> cluster_seen E A ns name view))"
  unfolding bootstrapReadCluster_def
proof (rule runs_andthen [OF runs_query_result], goal_cases)
  case (2 l ob)
  show ?case
    by (cases "DecodeCluster (be_cluster_conv E) (Some (un_GVK ob, un_Tree ob))")
      (use 2 in \<open>auto simp: lift_def andthen_def ret_def fail_def runs_def cluster_seen_def, metis\<close>)
qed auto

lemma readRestore_runs:
  "runs (bootstrapReadRestore E A bs ex target te) (\<lambda>l r. l = [] \<and>
     (r = Inl (CKube KNotFound) \<longrightarrow> restore_missing A bs target) \<and>
     (\<forall>ob view. r = Inr (ob, view) \<longrightarrow> restore_seen E A bs ex target te ob view))"
  unfolding bootstrapReadRestore_def Let_def
proof (rule runs_andthen [OF runs_query_result], goal_cases)
  case (2 l ob)
  show ?case
    by (cases "DecodeRestore (be_restore_conv E) (Some (un_GVK ob, un_Tree ob))")
      (use 2 in \<open>auto simp: lift_def andthen_def ret_def fail_def runs_def restore_seen_def split: option.splits\<close>)
qed (auto simp: restore_missing_def)

lemmas readCluster_quiet = emits_attempt_quiet [OF readCluster_runs]
  and readRestore_quiet = emits_attempt_quiet [OF readRestore_runs]

abbreviation steps_to :: "'w boot_api \<Rightarrow> Bootstrap \<Rightarrow> Bootstrap \<times> int \<times> cerr option \<Rightarrow> bool" where
  "steps_to A bs r \<equiv> stores A \<longrightarrow> boot_step (phase_of bs) (phase_of (fst r))"

lemma boot_step_refl [simp]: "boot_step p p" and boot_step_failed [simp]: "boot_step p BootstrapPhaseFailed"
  by (simp_all add: boot_step_def)

lemma boot_steps [simp]:
  "boot_step BootstrapPhaseWaitingForClusters BootstrapPhaseResolvingPointer"
  "boot_step BootstrapPhaseResolvingPointer BootstrapPhasePausingCrossplane"
  "boot_step BootstrapPhaseResolvingPointer BootstrapPhaseRestoring"
  "boot_step BootstrapPhasePausingCrossplane BootstrapPhaseRestoring"
  "boot_step BootstrapPhaseRestoring BootstrapPhaseResumingCrossplane"
  "boot_step BootstrapPhaseRestoring BootstrapPhaseCompleted"
  "boot_step BootstrapPhaseResumingCrossplane BootstrapPhaseRecreatingCrossplane"
  "boot_step BootstrapPhaseResumingCrossplane BootstrapPhaseCompleted"
  "boot_step BootstrapPhaseRecreatingCrossplane BootstrapPhaseCompleted"
  "boot_step [] BootstrapPhaseWaitingForClusters" "boot_step BootstrapPhasePending BootstrapPhaseWaitingForClusters"
  "boot_step BootstrapPhaseCompleted BootstrapPhaseWaitingForClusters"
  "boot_step BootstrapPhaseFailed BootstrapPhaseWaitingForClusters"
  by (simp_all add: boot_step_def boot_edges_def)

lemma failed_now_steps [emits_rules]:
  "emits (failed_now E A bs' reason msg) P (\<lambda>r. stores A \<longrightarrow> boot_step p (phase_of (fst r)))"
  by (rule emits_conseq [OF failed_now_emits]) simp

lemma finish_steps:
  "boot_step p BootstrapPhaseCompleted \<Longrightarrow>
     emits (andthen (bootstrapFinish E A bs') (\<lambda>bs. ret (bs, d, err))) P (\<lambda>r. stores A \<longrightarrow> boot_step p (phase_of (fst r)))"
  by (rule emits_andthen [OF bootstrapFinish_emits]) (auto intro!: emits_ret)

lemma wait_loop_quiet: "emits (wait_loop E A ns pre ts) P (\<lambda>_. True)"
proof (induction ts arbitrary: pre)
  case (Cons t ts)
  show ?case unfolding wait_loop.simps
    by (intro readCluster_quiet emits_sum emits_if Cons.IH) (auto intro!: emits_ret)
qed (simp add: emits_ret)

lemma emits_outcome:
  "(x = AllReady \<Longrightarrow> emits a P R) \<Longrightarrow> (x = NotReady \<Longrightarrow> emits b P R) \<Longrightarrow> (x = Replaced \<Longrightarrow> emits c P R) \<Longrightarrow>
     emits (case x of AllReady \<Rightarrow> a | NotReady \<Rightarrow> b | Replaced \<Rightarrow> c) P R"
  by (cases x) auto

lemma waitClusters_emits:
  assumes "phase_of bs = BootstrapPhaseWaitingForClusters"
  shows "emits (bootstrapWaitClusters E A bs ex) (boot_request E A b) (steps_to A bs)"
  unfolding bootstrapWaitClusters_def wait_delay_def
  by (intro emits_expired emits_if failed_now_steps emits_andthen [OF wait_loop_quiet] emits_prod emits_let
      emits_outcome emits_condition emits_ret emits_andthen [where R' = "\<lambda>_. True"] emits_option emits_time)
    (auto simp: assms)

lemma fetch_emits: "(\<And>a b c. P (BEvent a b c)) \<Longrightarrow> emits (bootstrapFetch E A bs) P (\<lambda>_. True)"
proof -
  assume P: "\<And>a b c. P (BEvent a b c)"
  have age: "emits (check_age E A doc age) P (\<lambda>_. True)" for doc age
    unfolding check_age_def using bootstrapEvent_emits [of P, OF P]
    by (intro emits_if emits_option emits_fail emits_time emits_andthen [where R' = "\<lambda>_. True"] emits_ret) auto
  have call: "emits (boot_fetch_call E A ns src) P (\<lambda>_. True)" for ns src
    unfolding boot_fetch_call_def by (intro emits_option emits_query) auto
  show ?thesis unfolding bootstrapFetch_def Let_def
    by (intro emits_if emits_fail emits_andthen_lift emits_ret emits_andthen [OF call] emits_option age) simp_all
qed

lemma resolve_loop_quiet: "emits (resolve_loop E A bs exec_id doc pre ts) P (\<lambda>_. True)"
proof (induction ts arbitrary: pre)
  case (Cons t ts)
  have cred: "emits (bootstrapCredentials A ns cr) P (\<lambda>_. True)" for ns cr
    unfolding bootstrapCredentials_def by (intro emits_rules) auto
  show ?case unfolding resolve_loop.simps Let_def
    by (intro emits_attempt [OF cred]) (auto intro!: emits_ret Cons.IH split: sum.splits)
qed (simp add: emits_ret)

lemma resolvePointer_emits:
  assumes "phase_of bs = BootstrapPhaseResolvingPointer"
  shows "emits (bootstrapResolvePointer E A bs ex) (boot_request E A b) (steps_to A bs)"
  unfolding bootstrapResolvePointer_def
  by (intro emits_attempt [OF fetch_emits] emits_sum emits_prod emits_let emits_option emits_if emits_expired
      failed_now_steps emits_condition emits_ret emits_andthen [OF resolve_loop_quiet])
    (auto simp: assms alike_def)

lemma Pause_touch:
  assumes "bos_Execution (bo_Status bs) = Some ex" "bootstrapCrossplaneClient E ex = Inr cp"
    "phase_of bs = BootstrapPhasePausingCrossplane"
  shows "emits (Pause (be_xapi E) cp (om_UID (bo_Meta bs)) (bootstrapRefs (bex_Selected ex))) (may_touch E bs) (\<lambda>_. True)"
  by (rule emits_mono [OF Pause_emits]) (use assms in \<open>auto simp: may_touch_def Let_def\<close>)

lemma Resume_touch:
  assumes "bos_Execution (bo_Status bs) = Some ex" "bootstrapCrossplaneClient E ex = Inr cp"
    "phase_of bs = BootstrapPhaseResumingCrossplane \<or> compensating bs"
  shows "emits (Resume (be_xapi E) cp (om_UID (bo_Meta bs)) refs) (may_touch E bs) (\<lambda>_. True)"
  by (rule emits_mono [OF Resume_emits]) (use assms in \<open>auto simp: may_touch_def Let_def\<close>)

lemma Recreate_touch:
  assumes "\<not> dns_1035_label (xa_klib (be_xapi E)) []"
    "bos_Execution (bo_Status bs) = Some ex" "bootstrapCrossplaneClient E ex = Inr cp"
    "phase_of bs = BootstrapPhaseRecreatingCrossplane" "set refs \<subseteq> set (bootstrapRefs (bex_Selected ex))"
  shows "emits (Recreate (be_xapi E) cp refs progress opts) (may_touch E bs) (\<lambda>_. True)"
  unfolding emits_def
proof (rule runs_conseq [OF Recreate_runs [OF assms(1)]], goal_cases)
  case (1 l r)
  have "may_touch E bs q" if mem: "q \<in> set l" for q
  proof -
    obtain i where i: "validateProgress refs progress = Inr ()" "i < length progress" "recreates (be_xapi E) cp opts (progress ! i) q"
      using 1 mem by auto
    then have "rr_Reference (progress ! i) \<in> set refs" by (auto simp: validateProgress_ok)
    then show ?thesis using i(3) assms(2-5) unfolding may_touch_def Let_def by blast
  qed
  then show ?case by (simp add: list_all_iff)
qed

lemma recreate_refs_subset: "set (recreate_refs kinds refs) \<subseteq> set refs"
  by (auto simp: recreate_refs_def)

lemma emits_cross:
  "emits m (may_touch E b) (\<lambda>_. True) \<Longrightarrow> (\<And>x. emits (f x) (boot_request E A b) R) \<Longrightarrow>
     emits (andthen (embed BCross m) f) (boot_request E A b) R"
  by (rule emits_andthen_embed) auto

lemma emits_quiet_cross:
  "emits m (\<lambda>_. False) (\<lambda>_. True) \<Longrightarrow> (\<And>x. emits (f x) P R) \<Longrightarrow> emits (andthen (embed BCross m) f) P R"
  by (rule emits_andthen_embed [where P' = "\<lambda>_. False"]) auto

lemma pause_emits:
  assumes "bos_Execution (bo_Status bs) = Some ex" "phase_of bs = BootstrapPhasePausingCrossplane"
  shows "emits (bootstrapPause E A bs ex) (boot_request E A bs) (steps_to A bs)"
proof -
  have done_now: "emits (paused_now E A bs') (boot_request E A bs) (steps_to A bs)" for bs'
    unfolding paused_now_def by (intro emits_condition emits_ret) (auto simp: assms(2))
  have select: "emits (select_managed E bs cs) (boot_request E A bs) (steps_to A bs)" for cs
    unfolding select_managed_def Let_def
    by (intro emits_sum emits_ret emits_quiet_cross [OF Select_quiet] emits_prod emits_option) (auto simp: assms(2))
  show ?thesis unfolding bootstrapPause_def Let_def
    by (intro emits_expired emits_if failed_now_steps emits_option emits_fail emits_sum emits_ret select done_now
        emits_cross [OF Pause_touch [OF assms(1) _ assms(2)]] emits_prod)
      (auto simp: assms(2))
qed

lemma resume_emits:
  assumes "bos_Execution (bo_Status bs) = Some ex" "phase_of bs = BootstrapPhaseResumingCrossplane"
  shows "emits (bootstrapResume E A bs ex) (boot_request E A bs) (steps_to A bs)"
proof -
  have wait: "emits (await_ready E A bs ex cs cp) (boot_request E A bs) (steps_to A bs)" for cs cp
    unfolding await_ready_def Let_def
    by (intro emits_quiet_cross [OF Ready_quiet] emits_prod emits_if emits_fail emits_ret emits_condition finish_steps)
      (auto simp: assms(2) alike_def)
  show ?thesis unfolding bootstrapResume_def Let_def
    by (intro emits_sum emits_ret emits_option emits_fail emits_expired emits_if failed_now_steps wait
        emits_cross [OF Resume_touch [OF assms(1) _ disjI1 [OF assms(2)]]] emits_prod)
      (auto simp: assms(2))
qed

lemma recreate_emits:
  assumes "\<not> dns_1035_label (xa_klib (be_xapi E)) []"
    "bos_Execution (bo_Status bs) = Some ex" "phase_of bs = BootstrapPhaseRecreatingCrossplane"
  shows "emits (bootstrapRecreate E A bs ex) (boot_request E A bs) (steps_to A bs)"
  unfolding bootstrapRecreate_def Let_def
  by (intro emits_sum emits_ret emits_option emits_fail emits_expired emits_if failed_now_steps emits_prod
      emits_cross [OF Recreate_touch [OF assms(1,2) _ assms(3) recreate_refs_subset]]
      emits_condition finish_steps)
    (auto simp: assms(3))

lemma next_target_Some:
  "next_target i ts = Some j \<Longrightarrow> \<exists>k<length ts. j = i + k \<and> bts_CompletedAt (ts ! k) = None \<and>
     (\<forall>m<k. bts_CompletedAt (ts ! m) \<noteq> None)"
proof (induction ts arbitrary: i)
  case (Cons t ts)
  show ?case
  proof (cases "bts_CompletedAt t = None")
    case False
    then have "next_target (Suc i) ts = Some j" using Cons.prems by (auto split: if_splits)
    from Cons.IH [OF this] obtain k where k: "k < length ts" "j = Suc i + k" "bts_CompletedAt (ts ! k) = None"
        "\<forall>m<k. bts_CompletedAt (ts ! m) \<noteq> None" by blast
    then show ?thesis using False by (intro exI [of _ "Suc k"]) (auto simp: less_Suc_eq_0_disj)
  qed (use Cons.prems in auto)
qed simp

section \<open>The intent and the creation of a restore\<close>

text \<open>An invariant of logs that holds for the empty one and is kept by appending has the same
  rules as \<open>emits\<close>.\<close>

definition keeps :: "('r list \<Rightarrow> bool) \<Rightarrow> ('w, 'r, 'e, 'a) eff \<Rightarrow> bool" where
  "keeps I m \<longleftrightarrow> runs m (\<lambda>l _. I l)"

locale log_inv =
  fixes I :: "'r list \<Rightarrow> bool"
  assumes Nil: "I []" and append: "I l \<Longrightarrow> I l' \<Longrightarrow> I (l @ l')"
begin

lemma keeps_quiet: "emits m P R \<Longrightarrow> (\<And>l. list_all P l \<Longrightarrow> I l) \<Longrightarrow> keeps I m"
  unfolding keeps_def emits_def by (erule runs_conseq) auto

lemma keeps_andthen:
  assumes "keeps I m" "\<And>x. keeps I (f x)"
  shows "keeps I (andthen m f)"
  unfolding keeps_def
  by (rule runs_andthen [OF assms(1) [unfolded keeps_def]])
    (auto intro: append runs_conseq [OF assms(2) [unfolded keeps_def]])

lemma keeps_after:
  assumes "runs m (\<lambda>l r. l = [] \<and> Q r)" "\<And>r. Q r \<Longrightarrow> keeps I (f r)"
  shows "keeps I (attempt m f)"
  unfolding keeps_def
  by (rule runs_attempt [OF assms(1)]) (use assms(2) in \<open>auto simp: keeps_def\<close>)

lemma keeps_trace: "keeps I m \<Longrightarrow> m \<lparr>world = w, log = []\<rparr> = (r, s') \<Longrightarrow> I (log s')"
  unfolding keeps_def by (rule runs_trace)

end

text \<open>Every creation directly follows the status patch that records its intent, for a target that
  may be restored.\<close>

definition attempted :: "Bootstrap \<Rightarrow> nat \<Rightarrow> bool" where
  "attempted bs i \<longleftrightarrow> (\<exists>ex. bos_Execution (bo_Status bs) = Some ex \<and> i < length (bex_Targets ex) \<and>
     bte_RestoreAttempted (bex_Targets ex ! i))"

definition intended :: "'w boot_env \<Rightarrow> 'w boot_api \<Rightarrow> Bootstrap \<Rightarrow> breq \<Rightarrow> Rendered \<Rightarrow> bool" where
  "intended E A bs q ob \<longleftrightarrow> (\<exists>bs' ex i. q = BPatchStatus bs bs' \<and> phase_of bs = BootstrapPhaseRestoring \<and>
     executing E bs ex \<and> may_restore E A bs ex i ob \<and> \<not> attempted bs i \<and> attempted bs' i)"

definition intent_first :: "'w boot_env \<Rightarrow> 'w boot_api \<Rightarrow> Bootstrap \<Rightarrow> breq list \<Rightarrow> bool" where
  "intent_first E A bs l \<longleftrightarrow> (\<forall>pre ob post. l = pre @ BCreate ob # post \<longrightarrow> pre \<noteq> [] \<and> intended E A bs (last pre) ob)"

lemma intent_first_append: "intent_first E A bs l \<Longrightarrow> intent_first E A bs l' \<Longrightarrow> intent_first E A bs (l @ l')"
  unfolding intent_first_def
proof (intro allI impI)
  fix pre ob post
  assume l: "\<forall>pre ob post. l = pre @ BCreate ob # post \<longrightarrow> pre \<noteq> [] \<and> intended E A bs (last pre) ob"
    and l': "\<forall>pre ob post. l' = pre @ BCreate ob # post \<longrightarrow> pre \<noteq> [] \<and> intended E A bs (last pre) ob"
    and eq: "l @ l' = pre @ BCreate ob # post"
  consider us where "l = pre @ BCreate ob # us" | us where "pre = l @ us" "l' = us @ BCreate ob # post"
    using eq [unfolded append_eq_append_conv2] by (metis Cons_eq_append_conv append_Nil append_Nil2)
  then show "pre \<noteq> [] \<and> intended E A bs (last pre) ob" by cases (use l l' in auto)
qed

interpretation boot: log_inv "intent_first E A bs" for E A bs
  by unfold_locales (simp add: intent_first_def, rule intent_first_append)

definition no_create :: "breq \<Rightarrow> bool" where
  "no_create q \<longleftrightarrow> (\<forall>ob. q \<noteq> BCreate ob)"

lemma intent_first_quiet: "list_all no_create l \<Longrightarrow> intent_first E A bs l"
  by (auto simp: intent_first_def no_create_def list_all_iff)

lemmas quiet_keeps = boot.keeps_quiet [OF _ intent_first_quiet]

lemma create_restore_keeps:
  assumes "phase_of bs = BootstrapPhaseRestoring" "executing E bs ex" "may_restore E A bs ex i ob"
  shows "keeps (intent_first E A bs) (create_restore E A bs i ob)"
proof -
  let ?b = "bobserved (set_exec_target i (\<lambda>te. te\<lparr>bte_RestoreAttempted := True\<rparr>) bs)"
  have i: "i < length (bex_Targets ex)" "\<not> bte_RestoreAttempted (bex_Targets ex ! i)"
    using assms(3) by (auto simp: may_restore_def Let_def)
  have ex: "bos_Execution (bo_Status bs) = Some ex" using assms(2) by (simp add: executing_def)
  have changed: "bos_Execution (bo_Status ?b) = Some (ex\<lparr>bex_Targets := (bex_Targets ex)[i := (bex_Targets ex ! i)\<lparr>bte_RestoreAttempted := True\<rparr>]\<rparr>)"
    using ex by (simp add: bobserved_def set_exec_target_def with_exec_def)
  have now: "attempted ?b i" and before: "\<not> attempted bs i"
    using i ex changed by (auto simp: attempted_def)
  then have "bo_Status ?b \<noteq> bo_Status bs" by (auto simp: attempted_def)
  have int: "intended E A bs (BPatchStatus bs ?b) ob" unfolding intended_def using assms now before by blast
  have "runs (bootstrapStatus A (set_exec_target i (\<lambda>te. te\<lparr>bte_RestoreAttempted := True\<rparr>) bs) bs)
      (\<lambda>l r. l = [BPatchStatus bs ?b])"
    unfolding bootstrapStatus_def Let_def using \<open>bo_Status ?b \<noteq> bo_Status bs\<close>
    by (auto intro!: runs_attempt [OF runs_request [where Q = "\<lambda>l _. l = [BPatchStatus bs ?b]"]] runs_ret split: sum.splits)
  then show ?thesis unfolding create_restore_def keeps_def
  proof (rule runs_andthen, goal_cases)
    case (2 l x)
    obtain stored err where x: "x = (stored, err)" by fastforce
    have *: "runs (attempt (request (BCreate ob) (ba_create A ob)) h) (\<lambda>l' _. intent_first E A bs (l @ l'))"
      if "\<And>r. \<exists>y. h r = ret y \<or> h r = fail panic" for h
    proof (rule runs_attempt [OF runs_request [where Q = "\<lambda>l _. l = [BCreate ob]"]], goal_cases)
      case (2 l' r)
      have "intent_first E A bs (l @ l')" using int \<open>l = _\<close> 2
        by (auto simp: intent_first_def Cons_eq_append_conv append_eq_Cons_conv)
      then show ?case using that [of r] by (auto simp: runs_def ret_def fail_def)
    qed simp
    show ?case
    proof (cases err)
      case None
      show ?thesis unfolding x None prod.case option.case by (rule *) (auto split: sum.splits option.splits)
    next
      case (Some e)
      then show ?thesis using 2 x by (auto simp: runs_def ret_def no_create_def intro!: intent_first_quiet)
    qed
  qed (auto intro: intent_first_quiet simp: no_create_def)
qed

text \<open>The handlers around the creation: what they send besides it, and that they keep the order.\<close>

lemma create_restore_emits:
  assumes "phase_of bs = BootstrapPhaseRestoring" "executing E bs ex" "may_restore E A bs ex i ob"
  shows "emits (create_restore E A bs i ob) (boot_request E A bs) (steps_to A bs)"
  unfolding create_restore_def
proof (rule emits_andthen [OF bootstrapStatus_emits], goal_cases)
  case 1
  then show ?case by simp
next
  case (2 x)
  then show ?case using assms
    by (intro emits_prod emits_option emits_ret emits_attempt_request emits_sum emits_if emits_fail)
      (auto simp: alike_def)
qed

definition absent_case :: "'w boot_env \<Rightarrow> 'w boot_api \<Rightarrow> Bootstrap \<Rightarrow> BootstrapExecutionStatus \<Rightarrow> nat \<Rightarrow> ClusterView \<Rightarrow> bool" where
  "absent_case E A bs ex i cluster \<longleftrightarrow>
     (let targets = bos_Targets (bo_Status bs); target = targets ! i in
      phase_of bs = BootstrapPhaseRestoring \<and> executing E bs ex \<and> i < length targets \<and> i < length (bex_Targets ex) \<and>
      (\<forall>j<i. bts_CompletedAt (targets ! j) \<noteq> None) \<and> bts_CompletedAt target = None \<and>
      cluster_seen E A (bo_ns bs) (bts_PXCCluster target) cluster \<and> om_UID (cv_Meta cluster) = bte_UID (bex_Targets ex ! i) \<and>
      restore_missing A bs target)"

lemma absent_may_restore:
  "absent_case E A bs ex i cluster \<Longrightarrow> \<not> (bte_RestoreAttempted (bex_Targets ex ! i) \<or> bte_RestoreUID (bex_Targets ex ! i) \<noteq> []) \<Longrightarrow>
     Cluster_Ready cluster \<Longrightarrow> bos_Source (bo_Status bs) = Some src \<Longrightarrow>
     render_restore (be_klib E) bs ex (rs_Destination src) (bos_Targets (bo_Status bs) ! i) (bex_Targets ex ! i) options = Inr ob \<Longrightarrow>
     may_restore E A bs ex i ob"
  unfolding absent_case_def may_restore_def Let_def by blast

lemma completed_now_emits: "emits (completed_now A bs i) P (steps_to A bs)"
  unfolding completed_now_def by (intro emits_time emits_ret) simp

lemma restore_absent_emits:
  assumes "absent_case E A bs ex i cluster"
  shows "emits (restore_absent E A bs ex i (bos_Targets (bo_Status bs) ! i) (bex_Targets ex ! i) cluster)
     (boot_request E A bs) (steps_to A bs)"
  unfolding restore_absent_def
  by (intro emits_if completed_now_emits emits_ret failed_now_steps emits_option emits_fail emits_sum
      create_restore_emits [OF _ _ absent_may_restore [OF assms]])
    (use assms in \<open>auto simp: absent_case_def Let_def\<close>)

lemma failed_now_keeps: "keeps (intent_first E A b) (failed_now E' A' bs reason msg)"
  by (rule quiet_keeps [OF failed_now_emits [where P = no_create]])

lemma ret_keeps: "keeps (intent_first E A b) (ret x)" and fail_keeps: "keeps (intent_first E A b) (fail e)"
  by (auto simp: keeps_def runs_def ret_def fail_def intent_first_def)

lemma completed_now_keeps: "keeps (intent_first E A b) (completed_now A' bs i)"
  by (rule quiet_keeps [OF completed_now_emits [where P = no_create]])

lemma restore_absent_keeps:
  assumes "absent_case E A bs ex i cluster"
  shows "keeps (intent_first E A bs) (restore_absent E A bs ex i (bos_Targets (bo_Status bs) ! i) (bex_Targets ex ! i) cluster)"
  unfolding restore_absent_def
  by (auto split: option.splits sum.splits
      intro!: failed_now_keeps ret_keeps fail_keeps completed_now_keeps create_restore_keeps [OF _ _ absent_may_restore [OF assms]])
    (use assms in \<open>auto simp: absent_case_def Let_def\<close>)

lemma restore_present_emits:
  "emits (restore_present E A bs i cluster ob view) P (steps_to A bs)"
  unfolding restore_present_def Let_def
  by (intro emits_if failed_now_steps emits_ret emits_conseq [OF completed_now_emits]) auto

lemma restore_present_keeps: "keeps (intent_first E A b) (restore_present E' A' bs i cluster ob view)"
  by (rule quiet_keeps [OF restore_present_emits [where P = no_create]])

lemma restoreTarget_both:
  assumes "phase_of bs = BootstrapPhaseRestoring" "executing E bs ex" "i < length (bos_Targets (bo_Status bs))"
    "\<forall>j<i. bts_CompletedAt (bos_Targets (bo_Status bs) ! j) \<noteq> None" "bts_CompletedAt (bos_Targets (bo_Status bs) ! i) = None"
  shows restoreTarget_emits: "emits (bootstrapRestoreTarget E A bs ex i) (boot_request E A bs) (steps_to A bs)"
    and restoreTarget_keeps: "keeps (intent_first E A bs) (bootstrapRestoreTarget E A bs ex i)"
proof -
  let ?t = "bos_Targets (bo_Status bs) ! i" and ?te = "bex_Targets ex ! i"
  have absent: "absent_case E A bs ex i cluster"
    if "\<not> i \<ge> length (bex_Targets ex)" "cluster_seen E A (bo_ns bs) (bts_PXCCluster ?t) cluster"
      "\<not> om_UID (cv_Meta cluster) \<noteq> bte_UID ?te" "restore_missing A bs ?t" for cluster
    using that assms by (auto simp: absent_case_def Let_def)
  show "emits (bootstrapRestoreTarget E A bs ex i) (boot_request E A bs) (steps_to A bs)"
    unfolding bootstrapRestoreTarget_def Let_def
    by (intro emits_if emits_fail emits_expired failed_now_steps readCluster_quiet emits_sum readRestore_quiet emits_prod
        restore_present_emits restore_absent_emits) (auto intro: absent)
  show "keeps (intent_first E A bs) (bootstrapRestoreTarget E A bs ex i)"
    unfolding bootstrapRestoreTarget_def Let_def
    by (auto intro!: fail_keeps boot.keeps_andthen quiet_keeps [OF bootstrapExpired_emits] failed_now_keeps
        boot.keeps_after [OF readCluster_runs] boot.keeps_after [OF readRestore_runs] restore_present_keeps restore_absent_keeps absent
        split: sum.splits)
qed

lemma restoreTargets_both:
  assumes "phase_of bs = BootstrapPhaseRestoring" "executing E bs ex"
  shows restoreTargets_emits: "emits (bootstrapRestoreTargets E A bs ex) (boot_request E A bs) (steps_to A bs)"
    and restoreTargets_keeps: "keeps (intent_first E A bs) (bootstrapRestoreTargets E A bs ex)"
proof -
  have finish: "emits (andthen (bootstrapCondition E A bootstrapRestored ''True'' ''Restored''
            ''Every target restore succeeded and its cluster became ready'' bs) (\<lambda>bs.
          if bsp_Crossplane (bo_Spec bs) = None
          then andthen (bootstrapFinish E A bs) (\<lambda>bs. ret (bs, 0, None))
          else andthen (bootstrapCondition E A bootstrapCrossplaneResumed ''False'' ''Resuming''
            ''Resuming our paused Crossplane resources and waiting for readiness''
            (with_bstatus (\<lambda>s. s\<lparr>bos_Phase := BootstrapPhaseResumingCrossplane\<rparr>) bs)) (\<lambda>bs.
            ret (bs, bootstrapImmediate, None)))) P (steps_to A bs)" for P
    by (intro emits_condition emits_if finish_steps emits_ret) (auto simp: assms(1) alike_def)
  have start: "emits (andthen (bootstrapTime A) (\<lambda>now.
      ret (set_target i (\<lambda>t. t\<lparr>bts_StartedAt := Some now, bts_RestoreName := name\<rparr>) bs, bootstrapImmediate, None)))
      P (steps_to A bs)" for P i name by (intro emits_time emits_ret) simp
  have target: "i < length (bos_Targets (bo_Status bs)) \<and> bts_CompletedAt (bos_Targets (bo_Status bs) ! i) = None \<and>
      (\<forall>j<i. bts_CompletedAt (bos_Targets (bo_Status bs) ! j) \<noteq> None)"
    if "next_target 0 (bos_Targets (bo_Status bs)) = Some i" for i
    using next_target_Some [OF that] by auto
  show "emits (bootstrapRestoreTargets E A bs ex) (boot_request E A bs) (steps_to A bs)"
    unfolding bootstrapRestoreTargets_def Let_def
    by (intro emits_option emits_if emits_sum failed_now_steps start finish restoreTarget_emits [OF assms])
      (use target in auto)
  show "keeps (intent_first E A bs) (bootstrapRestoreTargets E A bs ex)"
    unfolding bootstrapRestoreTargets_def Let_def
    using quiet_keeps [OF finish] quiet_keeps [OF start]
    by (auto split: option.splits sum.splits intro!: failed_now_keeps restoreTarget_keeps [OF assms] dest: target)
qed

lemma advance_both:
  assumes label: "\<not> dns_1035_label (xa_klib (be_xapi E)) []" and ex: "executing E bs ex"
  shows advance_emits: "emits (bootstrapAdvance E A bs ex) (boot_request E A bs) (steps_to A bs)"
    and advance_keeps: "keeps (intent_first E A bs) (bootstrapAdvance E A bs ex)"
proof -
  have some: "bos_Execution (bo_Status bs) = Some ex" using ex by (simp add: executing_def)
  show 1: "emits (bootstrapAdvance E A bs ex) (boot_request E A bs) (steps_to A bs)"
    unfolding bootstrapAdvance_def Let_def
    by (intro emits_if waitClusters_emits resolvePointer_emits pause_emits [OF some] restoreTargets_emits [OF _ ex]
        resume_emits [OF some] recreate_emits [OF label some] failed_now_steps)
  show "keeps (intent_first E A bs) (bootstrapAdvance E A bs ex)"
  proof (cases "phase_of bs = BootstrapPhaseRestoring")
    case True
    then show ?thesis by (simp add: bootstrapAdvance_def restoreTargets_keeps [OF _ ex])
  next
    case False
    have "boot_request E A bs q \<Longrightarrow> no_create q" for q using False by (cases q) (auto simp: no_create_def)
    then show ?thesis by (rule quiet_keeps [OF emits_mono [OF 1]]) auto
  qed
qed

section \<open>Compensation\<close>

lemma unpauseCluster_emits:
  assumes "\<And>cl tree jobs w. bte_UID te \<noteq> [] \<Longrightarrow> om_UID (un_Meta cl) = bte_UID te \<Longrightarrow> fst (ba_list_jobs A (bo_ns bs) w) = Inr jobs \<Longrightarrow>
      \<not> list_ex (restore_job target) jobs \<Longrightarrow> be_set_nested E (un_Tree cl) (JBool False) [''spec'', ''pause''] = Inr tree \<Longrightarrow>
      P (BPatchCluster cl (cl\<lparr>un_Tree := tree\<rparr>))"
    and "\<And>a b c. P (BEvent a b c)"
  shows "emits (bootstrapUnpauseCluster E A bs target te) P (\<lambda>_. True)"
  unfolding bootstrapUnpauseCluster_def
  by (intro emits_if emits_ret emits_attempt_query emits_sum emits_fail emits_andthen_lift emits_andthen_query
      emits_andthen_request emits_andthen [OF bootstrapEvent_emits [where P = P]] assms) auto

lemma comp_loop_emits:
  assumes "bos_Execution (bo_Status bs) = Some ex" "compensating bs" "drop i (bos_Targets (bo_Status bs)) = ts"
  shows "emits (comp_loop E A bs ex i ts) (boot_request E A bs) (\<lambda>(bs', go_on, err). alike bs bs' \<and>
     (go_on \<longrightarrow> bs' = bs \<and> (\<forall>k<length ts. target_settled E A bs ex (i + k) (ts ! k))))"
  using assms(3)
proof (induction ts arbitrary: i)
  case Nil
  then show ?case by (auto intro!: emits_ret)
next
  case (Cons target ts)
  let ?te = "bex_Targets ex ! i"
  have i: "i < length (bos_Targets (bo_Status bs))" "bos_Targets (bo_Status bs) ! i = target"
    "drop (Suc i) (bos_Targets (bo_Status bs)) = ts"
    using Cons.prems by (metis drop_all leI list.distinct(1), metis nth_via_drop, metis drop_Suc list.sel(3) tl_drop)
  have rest: "emits (comp_loop E A bs ex (Suc i) ts) (boot_request E A bs) (\<lambda>(bs', go_on, err). alike bs bs' \<and>
      (go_on \<longrightarrow> bs' = bs \<and> (\<forall>k<length (target # ts). target_settled E A bs ex (i + k) ((target # ts) ! k))))"
    if "target_settled E A bs ex i target"
    by (rule emits_conseq [OF Cons.IH [OF i(3)]]) (use that in \<open>auto simp: nth_Cons split: nat.splits\<close>)
  have unpause: "emits (attempt (bootstrapUnpauseCluster E A bs target ?te) (\<lambda>r. case r of
              Inl e \<Rightarrow> ret (bs, False, Some e)
            | Inr ready \<Rightarrow> if \<not> ready then ret (bs, False, None) else comp_loop E A bs ex (Suc i) ts)) (boot_request E A bs)
      (\<lambda>(bs', go_on, err). alike bs bs' \<and>
      (go_on \<longrightarrow> bs' = bs \<and> (\<forall>k<length (target # ts). target_settled E A bs ex (i + k) ((target # ts) ! k))))"
    if "i < length (bex_Targets ex)" "bts_CompletedAt target = None" "restore_over E A bs ex target ?te"
      "bte_RestoreUID ?te \<noteq> [] \<or> bte_RestoreAttempted ?te"
  proof (rule emits_attempt [OF unpauseCluster_emits])
    show "boot_request E A bs (BPatchCluster cl (cl\<lparr>un_Tree := tree\<rparr>))"
      if "bte_UID ?te \<noteq> []" "om_UID (un_Meta cl) = bte_UID ?te" "fst (ba_list_jobs A (bo_ns bs) w) = Inr jobs"
        "\<not> list_ex (restore_job target) jobs" "be_set_nested E (un_Tree cl) (JBool False) [''spec'', ''pause''] = Inr tree"
      for cl tree jobs w
      using that \<open>i < length (bex_Targets ex)\<close> \<open>bts_CompletedAt target = None\<close> \<open>restore_over E A bs ex target ?te\<close>
        \<open>bte_RestoreUID ?te \<noteq> [] \<or> bte_RestoreAttempted ?te\<close> i assms(1,2)
      by (auto simp: may_unpause_def Let_def intro!: exI [of _ i])
  next
    show "emits (case Inr ready of Inl e \<Rightarrow> ret (bs, False, Some e)
          | Inr ready \<Rightarrow> if \<not> ready then ret (bs, False, None) else comp_loop E A bs ex (Suc i) ts) (boot_request E A bs)
        (\<lambda>(bs', go_on, err). alike bs bs' \<and>
        (go_on \<longrightarrow> bs' = bs \<and> (\<forall>k<length (target # ts). target_settled E A bs ex (i + k) ((target # ts) ! k))))" for ready
      unfolding sum.case by (intro emits_if emits_ret rest) (use that in \<open>auto simp: target_settled_def\<close>)
  qed (auto intro!: emits_ret)
  show ?case unfolding comp_loop.simps Let_def
    by (intro emits_if rest emits_ret readRestore_quiet emits_sum emits_prod unpause)
      (auto simp: target_settled_def restore_over_def alike_def set_exec_target_def with_exec_def)
qed

lemma managedResource_quiet: "emits (bootstrapManagedResource E ex ref) P (\<lambda>_. True)"
  unfolding bootstrapManagedResource_def by (intro emits_if emits_fail emits_query) simp

lemma recover_loop_quiet: "emits (recover_loop E owner ex paused changed refs) P (\<lambda>_. True)"
proof (induction refs arbitrary: paused changed)
  case (Cons ref refs)
  show ?case unfolding recover_loop.simps
    by (intro emits_attempt [OF managedResource_quiet] emits_sum emits_if Cons.IH emits_ret) simp_all
qed (simp add: emits_ret)

lemma present_loop_quiet: "emits (present_loop E owner ex present refs) P (\<lambda>_. True)"
proof (induction refs arbitrary: present)
  case (Cons ref refs)
  show ?case unfolding present_loop.simps
    by (intro emits_attempt [OF managedResource_quiet] emits_sum emits_if Cons.IH emits_fail)
qed (simp add: emits_ret)

lemma alike_cross [simp]: "alike bs (with_cross f bs)" "alike bs (with_bstatus (bos_Crossplane_update g) bs)"
  by (simp_all add: alike_def with_cross_def)

lemma exec_with_cross [simp]: "bos_Execution (bo_Status (with_cross f bs)) = bos_Execution (bo_Status bs)"
  by (simp add: with_cross_def)

lemma may_touch_alike:
  "alike bs bs' \<Longrightarrow> bos_Execution (bo_Status bs') = bos_Execution (bo_Status bs) \<Longrightarrow> may_touch E bs' q \<Longrightarrow> may_touch E bs q"
  by (simp add: may_touch_def alike_def compensating_def)

lemma resume_present_emits:
  assumes "bos_Execution (bo_Status bs) = Some ex" "compensating bs" "alike bs bs'"
    "bos_Execution (bo_Status bs') = Some ex"
  shows "emits (resume_present E bs' ex) (boot_request E A bs) (\<lambda>r. alike bs (fst r))"
proof -
  have "compensating bs'" using assms(2,3) by (simp add: compensating_def alike_def)
  then have resume: "emits (Resume (be_xapi E) cp (om_UID (bo_Meta bs')) refs) (may_touch E bs) (\<lambda>_. True)"
    if "bootstrapCrossplaneClient E ex = Inr cp" for cp refs
    by (intro emits_mono [OF Resume_touch [OF assms(4) that]] may_touch_alike [OF assms(3)]) (simp_all add: assms)
  show ?thesis unfolding resume_present_def Let_def
    by (intro emits_if emits_ret emits_attempt [OF present_loop_quiet] emits_sum emits_cross [OF resume] emits_prod)
      (auto intro: assms(3) alike_trans [OF assms(3)])
qed

lemma compensate_emits:
  assumes "compensating bs"
  shows "emits (bootstrapCompensate E A bs) (boot_request E A bs)
     (\<lambda>(bs', finished, err). alike bs bs' \<and> (finished \<longrightarrow> compensation_done E A bs))"
proof (cases "bos_Execution (bo_Status bs)")
  case None
  then show ?thesis by (auto simp: bootstrapCompensate_def compensation_done_def intro!: emits_ret)
next
  case (Some ex)
  let ?R = "\<lambda>(bs', finished, err). alike bs bs' \<and> (finished \<longrightarrow> compensation_done E A bs)"
  have settled: "compensation_done E A bs"
    if "\<forall>k<length (bos_Targets (bo_Status bs)). target_settled E A bs ex (0 + k) (bos_Targets (bo_Status bs) ! k)"
    using that Some by (simp add: compensation_done_def)
  have cross: "emits (andthen (bootstrapRecoverPauses E b ex x) (\<lambda>(bs, recovered, err).
        if err \<noteq> None then ret (bs, False, err)
        else if recovered then ret (bs, False, None) else resume_present E bs ex)) (boot_request E A bs) ?R"
    if "compensation_done E A bs" "alike bs b" "bos_Execution (bo_Status b) = Some ex" for b x
  proof (rule emits_andthen)
    show "emits (bootstrapRecoverPauses E b ex x) (boot_request E A bs)
        (\<lambda>r. alike bs (fst r) \<and> bos_Execution (bo_Status (fst r)) = Some ex)"
      unfolding bootstrapRecoverPauses_def
      by (intro emits_andthen [OF recover_loop_quiet] emits_prod emits_ret)
        (use that in \<open>auto intro: alike_trans\<close>)
  next
    fix r :: "Bootstrap \<times> bool \<times> cerr option"
    assume r: "alike bs (fst r) \<and> bos_Execution (bo_Status (fst r)) = Some ex"
    show "emits (case r of (bs, recovered, err) \<Rightarrow> if err \<noteq> None then ret (bs, False, err)
        else if recovered then ret (bs, False, None) else resume_present E bs ex) (boot_request E A bs) ?R"
      using r that(1) by (intro emits_prod emits_if emits_ret emits_conseq [OF resume_present_emits [OF Some assms]])
        (auto simp: split_def)
  qed
  show ?thesis unfolding bootstrapCompensate_def Some option.case Let_def
    by (rule emits_andthen [OF comp_loop_emits [OF Some assms, of 0 "bos_Targets (bo_Status bs)"]], simp)
      (intro emits_prod emits_if emits_ret cross, auto simp: Some settled)
qed

lemma compensated_emits:
  assumes "compensating bs"
  shows "emits (compensated E A bs bs) (boot_request E A bs) (\<lambda>r. \<forall>bs'. r = Inr bs' \<longrightarrow>
     compensation_done E A bs \<and> (stores A \<longrightarrow> phase_of bs' = phase_of bs))"
  unfolding compensated_def
proof (rule emits_andthen [OF compensate_emits [OF assms]], goal_cases)
  case (1 x)
  obtain b finished err where x: "x = (b, finished, err)" by (metis prod_cases3)
  have "emits (bootstrapStatus A b bs) (boot_request E A bs)
      (\<lambda>(bs', err). stores A \<longrightarrow> bo_Status bs' = bo_Status (bobserved b))"
    using 1 x by (intro bootstrapStatus_emits) (simp add: alike_def)
  then show ?case unfolding x prod.case
    by (rule emits_andthen, intro emits_prod emits_if emits_ret) (use 1 x in \<open>auto simp: alike_def\<close>)
qed

lemma patch_meta_emits: "P (BPatch before bs) \<Longrightarrow> emits (patch_meta A before bs delay) P (\<lambda>_. True)"
  unfolding patch_meta_def by (intro emits_attempt_request emits_sum emits_ret) simp_all

lemma write_status_emits:
  "P (BPatchStatus base (bobserved bs)) \<Longrightarrow> emits (write_status A bs base delay err) P (\<lambda>_. True)"
  unfolding write_status_def by (rule emits_andthen [OF bootstrapStatus_emits]) (auto intro!: emits_ret)

lemma delete_emits:
  assumes "deleting (bo_Meta bs)"
  shows "emits (delete_bootstrap E A bs) (boot_request E A bs) (\<lambda>_. True)"
proof -
  have comp: "compensating bs" using assms by (simp add: compensating_def)
  show ?thesis unfolding delete_bootstrap_def
    by (intro emits_if emits_ret emits_andthen [OF compensated_emits [OF comp]] emits_sum patch_meta_emits)
      (auto simp: assms)
qed

section \<open>The reconcile\<close>

lemma initialize_emits:
  assumes "phase_of bs = [] \<or> phase_of bs = BootstrapPhasePending"
  shows "emits (bootstrapInitialize E A bs) P (\<lambda>(bs', err). err = None \<longrightarrow> phase_of bs' = BootstrapPhaseWaitingForClusters)"
  unfolding bootstrapInitialize_def Let_def
  by (intro emits_if emits_ret emits_sum emits_time emits_andthen_query emits_prod emits_option emits_condition)
    (auto simp: alike_def)

lemma execute_fresh_emits:
  assumes "phase_of bs = [] \<or> phase_of bs = BootstrapPhasePending"
    and "stores A \<longrightarrow> boot_step (phase_of base) BootstrapPhaseWaitingForClusters"
  shows "emits (execute_bootstrap E A bs base) (boot_request E A b) (\<lambda>_. True)"
proof -
  have "emits (andthen (bootstrapInitialize E A bs) (\<lambda>(bs, err).
      andthen (case err of None \<Rightarrow> ret bs | Some e \<Rightarrow> bootstrapFail E A ''InvalidSpec'' (be_error_text E e) bs) (\<lambda>bs.
      write_status A bs base bootstrapImmediate None))) (boot_request E A b) (\<lambda>_. True)"
  proof (rule emits_andthen [OF initialize_emits [OF assms(1)]], goal_cases)
    case (1 x)
    obtain bs' err where x: "x = (bs', err)" by fastforce
    have "emits (case err of None \<Rightarrow> ret bs' | Some e \<Rightarrow> bootstrapFail E A ''InvalidSpec'' (be_error_text E e) bs') (boot_request E A b)
        (\<lambda>b. phase_of b = BootstrapPhaseWaitingForClusters \<or> phase_of b = BootstrapPhaseFailed)"
      using 1 x by (intro emits_option emits_ret emits_conseq [OF bootstrapFail_emits]) auto
    then show ?case unfolding x prod.case
      by (rule emits_andthen) (use assms(2) in \<open>auto intro!: write_status_emits\<close>)
  qed
  then show ?thesis using assms(1) by (simp add: execute_bootstrap_def)
qed

lemma execute_running_emits:
  assumes label: "\<not> dns_1035_label (xa_klib (be_xapi E)) []" and live: "\<not> deleting (bo_Meta bs)"
    and "phase_of bs \<noteq> []" "phase_of bs \<noteq> BootstrapPhasePending"
  shows execute_emits: "emits (execute_bootstrap E A bs bs) (boot_request E A bs) (\<lambda>_. True)"
    and execute_keeps: "keeps (intent_first E A bs) (execute_bootstrap E A bs bs)"
proof -
  have fail_write: "emits (andthen (bootstrapFail E A reason msg bs) (\<lambda>bs'. write_status A bs' bs bootstrapImmediate None))
      (boot_request E A b) (\<lambda>_. True)" for reason msg b
    by (rule emits_andthen [OF bootstrapFail_emits]) (auto intro!: write_status_emits)
  have quiet_write: "emits (write_status A b' base d err) no_create (\<lambda>_. True)" for b' base d err
    by (rule write_status_emits) (simp add: no_create_def)
  have fail_keep: "keeps (intent_first E A bs) (andthen (bootstrapFail E A reason msg bs) (\<lambda>bs'. write_status A bs' bs bootstrapImmediate None))"
    for reason msg
    by (rule quiet_keeps, rule emits_andthen [OF bootstrapFail_emits], rule quiet_write)
  have run: "emits (andthen (bootstrapAdvance E A bs ex) (\<lambda>(bs', delay, err). write_status A bs' bs delay err))
        (boot_request E A bs) (\<lambda>_. True)"
      "keeps (intent_first E A bs) (andthen (bootstrapAdvance E A bs ex) (\<lambda>(bs', delay, err). write_status A bs' bs delay err))"
    if "executing E bs ex" for ex
    by (rule emits_andthen [OF advance_emits [OF label that]], auto intro!: write_status_emits)
      (rule boot.keeps_andthen [OF advance_keeps [OF label that]], auto intro: quiet_keeps [OF quiet_write])
  show "emits (execute_bootstrap E A bs bs) (boot_request E A bs) (\<lambda>_. True)"
    using assms(3,4) run(1) fail_write
    by (auto simp: execute_bootstrap_def executing_def live intro!: emits_ret split: option.splits sum.splits)
  show "keeps (intent_first E A bs) (execute_bootstrap E A bs bs)"
    using assms(3,4) run(2) fail_keep
    by (auto simp: execute_bootstrap_def executing_def live intro!: ret_keeps split: option.splits sum.splits)
qed

lemma rearm_emits:
  assumes "stores A \<longrightarrow> phase_of bs = BootstrapPhaseCompleted \<or> phase_of bs = BootstrapPhaseFailed"
  shows "emits (rearm E A bs) (boot_request E A b) (\<lambda>_. True)"
  unfolding rearm_def
  by (intro emits_if emits_ret execute_fresh_emits) (use assms in \<open>auto simp: bootstrapArchive_def Let_def empty_bootstrap_status_def\<close>)

lemma found_emits:
  assumes label: "\<not> dns_1035_label (xa_klib (be_xapi E)) []"
  shows "emits (reconcile_found E A bs) (boot_request E A bs) (\<lambda>_. True)"
proof -
  have fresh: "emits (execute_bootstrap E A bs bs) (boot_request E A bs) (\<lambda>_. True)" if "\<not> deleting (bo_Meta bs)"
  proof (cases "phase_of bs = [] \<or> phase_of bs = BootstrapPhasePending")
    case True
    then show ?thesis by (rule execute_fresh_emits) (use True in auto)
  next
    case False
    then show ?thesis using execute_emits [OF label that] by auto
  qed
  show ?thesis unfolding reconcile_found_def Let_def
    by (intro emits_if delete_emits patch_meta_emits emits_andthen [OF compensated_emits] emits_sum emits_ret rearm_emits fresh)
      (auto simp: compensating_def)
qed

lemma found_keeps:
  assumes label: "\<not> dns_1035_label (xa_klib (be_xapi E)) []"
  shows "keeps (intent_first E A bs) (reconcile_found E A bs)"
proof (cases "\<not> deleting (bo_Meta bs) \<and> phase_of bs = BootstrapPhaseRestoring \<and> bootstrapFinalizer \<in> set (om_Finalizers (bo_Meta bs))")
  case True
  then have "reconcile_found E A bs = execute_bootstrap E A bs bs" by (simp add: reconcile_found_def Let_def)
  then show ?thesis using execute_keeps [OF label, of bs A] True by simp
next
  case False
  have "emits (reconcile_found E A bs) no_create (\<lambda>_. True)"
  proof (cases "\<not> deleting (bo_Meta bs) \<and> phase_of bs = BootstrapPhaseRestoring")
    case True
    then have "reconcile_found E A bs = patch_meta A bs (finalizer_added bs) bootstrapImmediate"
      using False by (simp add: reconcile_found_def Let_def)
    then show ?thesis by (simp add: patch_meta_emits no_create_def)
  next
    case False
    have "boot_request E A bs q \<Longrightarrow> no_create q" for q
      using False by (cases q) (auto simp: no_create_def executing_def)
    then show ?thesis by (rule emits_mono [OF found_emits [OF label]]) auto
  qed
  then show ?thesis by (rule quiet_keeps)
qed

text \<open>A reconcile reads the Bootstrap and goes on with what it read.\<close>

lemma Reconcile_reads:
  assumes "Reconcile_bootstrap E A ns name \<lparr>world = w, log = []\<rparr> = (r, s')" "q \<in> set (log s')"
  obtains bs r' s'' where "fst (ba_get A ns name w) = Inr bs"
    "reconcile_found E A bs \<lparr>world = snd (ba_get A ns name w), log = []\<rparr> = (r', s'')" "log s'' = log s'"
proof (cases "ba_get A ns name w")
  case (Pair x w')
  show ?thesis
  proof (cases x)
    case (Inl e)
    then have "log s' = []" using assms(1) Pair
      by (auto simp: Reconcile_bootstrap_def reconcileBootstrap_def andthen_def attempt_def query_def ret_def split: if_splits prod.splits)
    then show ?thesis using assms(2) by simp
  next
    case (Inr bs)
    obtain r' s'' where found: "reconcile_found E A bs \<lparr>world = w', log = []\<rparr> = (r', s'')" by fastforce
    then have "log s'' = log s'" using assms(1) Pair Inr
      by (cases r') (auto simp: Reconcile_bootstrap_def reconcileBootstrap_def andthen_def attempt_def query_def ret_def
          split: if_splits prod.splits)
    then show ?thesis using that found Pair Inr by simp
  qed
qed

section \<open>Properties\<close>

text \<open>C4 (safety).  A reconcile creates a restore only directly after the status patch that records
  the attempt, for a target whose attempt was not recorded before; every earlier target is
  completed, the target cluster was just read as ready under its recorded UID, the restore was
  just found absent, the specification is the one the execution began with, and the object is
  the one rendered for that target and the resolved backup.\<close>

theorem restore_only_after_intent:
  assumes "\<not> dns_1035_label (xa_klib (be_xapi E)) []"
    and "Reconcile_bootstrap E A ns name \<lparr>world = w, log = []\<rparr> = (r, s')"
    and "log s' = pre @ BCreate ob # post"
  shows "\<exists>bs bs' ex i. fst (ba_get A ns name w) = Inr bs \<and> pre \<noteq> [] \<and> last pre = BPatchStatus bs bs' \<and>
     phase_of bs = BootstrapPhaseRestoring \<and> executing E bs ex \<and> \<not> attempted bs i \<and> attempted bs' i \<and>
     may_restore E A bs ex i ob"
proof -
  have "BCreate ob \<in> set (log s')" using assms(3) by simp
  then obtain bs r' s'' where found: "fst (ba_get A ns name w) = Inr bs"
      "reconcile_found E A bs \<lparr>world = snd (ba_get A ns name w), log = []\<rparr> = (r', s'')" "log s'' = log s'"
    using Reconcile_reads [OF assms(2)] by metis
  have "intent_first E A bs (log s')"
    using boot.keeps_trace [OF found_keeps [OF assms(1)] found(2)] found(3) by simp
  then have "pre \<noteq> [] \<and> intended E A bs (last pre) ob" unfolding intent_first_def using assms(3) by blast
  then show ?thesis using found(1) unfolding intended_def by blast
qed

text \<open>C10 (refinement).  Where a successful status patch leaves the sent status in memory, every status
  patch of a reconcile moves the phase along an edge of the abstract machine, to \<open>Failed\<close>, or
  not at all.\<close>

theorem bootstrap_refines_phases:
  assumes "\<not> dns_1035_label (xa_klib (be_xapi E)) []" and "stores A"
    and "Reconcile_bootstrap E A ns name \<lparr>world = w, log = []\<rparr> = (r, s')"
    and "BPatchStatus base bs' \<in> set (log s')"
  shows "boot_step (phase_of base) (phase_of bs')"
proof -
  obtain bs r' s'' where found: "fst (ba_get A ns name w) = Inr bs"
      "reconcile_found E A bs \<lparr>world = snd (ba_get A ns name w), log = []\<rparr> = (r', s'')" "log s'' = log s'"
    using Reconcile_reads [OF assms(3,4)] by metis
  have "boot_request E A bs (BPatchStatus base bs')"
    using emits_trace [OF found_emits [OF assms(1)] found(2)] assms(4) found(3) by metis
  then show ?thesis using assms(2) by simp
qed


section \<open>Witnesses\<close>

definition boot_xapi :: "unit xapi" where
  "boot_xapi = \<lparr>xa_list = (\<lambda>g l w. (Inr [], w)), xa_get = (\<lambda>g n w. (Inl (CKube KNotFound), w)),
     xa_patch = (\<lambda>g n ops w. (Inl (CKube KNotFound), w)), xa_delete = (\<lambda>g n u v w. (Inr (), w)),
     xa_klib = sample_klib, xa_selector = (\<lambda>_. Inr []), xa_nested_slice = (\<lambda>t p. Inr None)\<rparr>"

definition boot_cluster :: ClusterView where
  "boot_cluster = \<lparr>cv_Meta = empty_meta\<lparr>om_Name := ''shop'', om_UID := ''uc''\<rparr>,
     cv_Spec = \<lparr>cs_CRVersion = ''1.18.0'', cs_Pause = False, cs_PXCSize = 1\<rparr>,
     cv_Status = \<lparr>cst_State = ClusterReady, cst_PXCState = ClusterReady, cst_PXCSize = 1, cst_PXCReady = 1\<rparr>\<rparr>"

definition boot_sample_env :: "unit boot_env" where
  "boot_sample_env = \<lparr>be_klib = sample_klib, be_docwire = tiny_wire, be_certs = sample_certlib, be_minio = (\<lambda>_. None),
     be_http = sample_get,
     be_s3 = \<lparr>s3_put = (\<lambda>_ _ _ _ _ w. (Inr ''etag'', w)), s3_get = (\<lambda>_ _ _ _. Inl SNotFound), s3_stat = (\<lambda>_ _ _ _. Inl SNotFound)\<rparr>,
     be_cluster_conv = (\<lambda>_. Inr boot_cluster), be_restore_conv = (\<lambda>_. Inl (SText ''conv'')), be_spec_marshal = (\<lambda>_. Inr ''spec''),
     be_nested_bool = (\<lambda>_ _. Inr False), be_set_nested = (\<lambda>t _ _. Inr t), be_error_text = (\<lambda>_. ''error''),
     be_Recorder = False, be_fetchPointer = None, be_DynamicClient = True, be_xapi = boot_xapi\<rparr>"

definition boot_sample_api :: "Bootstrap \<Rightarrow> unit boot_api" where
  "boot_sample_api bs = \<lparr>ba_now = (\<lambda>w. (5, w)), ba_random_text = (\<lambda>w. (''id'', w)), ba_get = (\<lambda>_ _ w. (Inr bs, w)),
     ba_list = (\<lambda>_ w. (Inr [bs], w)),
     ba_get_object = (\<lambda>g ns n w. if g = ClusterGVK then (Inr \<lparr>un_GVK = g, un_Meta = empty_meta, un_Tree = JNull\<rparr>, w)
       else (Inl (CKube KNotFound), w)),
     ba_secrets = (\<lambda>_ _ _. Inl KNotFound), ba_tick = id, ba_list_jobs = (\<lambda>_ w. (Inr [], w)),
     ba_patch_status = (\<lambda>_ b w. (Inr b, w)), ba_patch = (\<lambda>_ _ w. (Inr (), w)),
     ba_create = (\<lambda>r w. (Inr ((re_Meta r)\<lparr>om_UID := ''ur''\<rparr>), w)), ba_patch_cluster = (\<lambda>_ _ w. (Inr (), w))\<rparr>"

definition boot_credentials :: RestoreS3Credentials where
  "boot_credentials = \<lparr>rc_CredentialsSecret = ''creds'', rc_EndpointURL = [], rc_Region = [], rc_VerifyTLS = None\<rparr>"

definition boot_spec :: BootstrapSpec where
  "boot_spec = \<lparr>bsp_Pointer = \<lparr>bso_HTTP = None, bso_S3 = None, bso_Destination = ''s3://backups/full'', bso_MaxAge = None\<rparr>,
     bsp_Restore = boot_credentials,
     bsp_Targets = [\<lparr>bta_PXCCluster = ''shop'', bta_ContainerOptions = None, bta_Restore = None\<rparr>], bsp_Crossplane = None,
     bsp_Timeouts = \<lparr>bti_ClustersReady = None, bti_Pointer = None, bti_Restore = None, bti_Crossplane = None\<rparr>, bsp_Trigger = []\<rparr>"

definition boot_sample :: Bootstrap where
  "boot_sample = \<lparr>bo_Meta = empty_meta\<lparr>om_Name := ''boot'', om_Namespace := ''db'', om_UID := ''ub'', om_Finalizers := [bootstrapFinalizer]\<rparr>,
     bo_Spec = boot_spec,
     bo_Status = empty_bootstrap_status\<lparr>bos_Phase := BootstrapPhaseRestoring,
       bos_Execution := Some \<lparr>bex_ID = ''id'', bex_SpecHash = hex_encode (sha256 sample_klib ''spec''), bex_CrossplaneGroup = [],
         bex_CrossplaneVersion = [], bex_Selected = [],
         bex_Targets = [\<lparr>bte_PXCCluster = ''shop'', bte_UID = ''uc'', bte_RestoreUID = [], bte_RestoreAttempted = False,
           bte_Restore = boot_credentials\<rparr>]\<rparr>,
       bos_Source := Some \<lparr>rs_BackupName = ''full'', rs_Destination = ''s3://backups/full'', rs_SourceCluster = [],
         rs_PointerPublishedAt = None, rs_PointerSchemaVersion = 1\<rparr>,
       bos_Targets := [\<lparr>bts_PXCCluster = ''shop'', bts_RestoreName = ''boot-shop'', bts_State = [], bts_StartedAt = Some 1,
         bts_CompletedAt = None, bts_Message = []\<rparr>]\<rparr>\<rparr>"

definition boot_deleted :: Bootstrap where
  "boot_deleted = boot_sample\<lparr>bo_Meta := (bo_Meta boot_sample)\<lparr>om_DeletionTimestamp := Some 1\<rparr>\<rparr>"

fun is_create :: "breq \<Rightarrow> bool" where
  "is_create (BCreate ob) = True"
| "is_create _ = False"

fun is_meta_patch :: "breq \<Rightarrow> bool" where
  "is_meta_patch (BPatch b a) = True"
| "is_meta_patch _ = False"

fun is_status_patch :: "breq \<Rightarrow> bool" where
  "is_status_patch (BPatchStatus b a) = True"
| "is_status_patch _ = False"

definition boot_run :: "Bootstrap \<Rightarrow> (cerr + Result \<times> cerr list) \<times> (unit, breq) sys" where
  "boot_run bs = Reconcile_bootstrap boot_sample_env (boot_sample_api bs) ''db'' ''boot'' \<lparr>world = (), log = []\<rparr>"

lemma boot_run_logs:
  "map is_create (log (snd (boot_run boot_sample))) = [False, True, False]"
  "map is_meta_patch (log (snd (boot_run boot_deleted))) = [False, True]"
  "map is_status_patch (log (snd (boot_run boot_sample))) = [True, False, True]"
  by code_simp+

lemma boot_run_eq:
  "Reconcile_bootstrap boot_sample_env (boot_sample_api bs) ''db'' ''boot'' \<lparr>world = (), log = []\<rparr> = (fst (boot_run bs), snd (boot_run bs))"
  by (simp add: boot_run_def)

lemma boot_env_label: "\<not> dns_1035_label (xa_klib (be_xapi boot_sample_env)) []"
  by code_simp

lemma boot_api_get: "fst (ba_get (boot_sample_api bs) ns name w) = Inr bs"
  by (simp add: boot_sample_api_def)

theorem restore_only_after_intent_witness:
  "\<exists>ob ex i. may_restore boot_sample_env (boot_sample_api boot_sample) boot_sample ex i ob \<and> \<not> attempted boot_sample i"
proof -
  obtain q ob post where "log (snd (boot_run boot_sample)) = [q] @ BCreate ob # post"
    using boot_run_logs(1) by (auto simp: map_eq_Cons_conv elim!: is_create.elims(2))
  from restore_only_after_intent [OF boot_env_label boot_run_eq this] boot_api_get show ?thesis by fastforce
qed

theorem bootstrap_refines_phases_witness:
  "\<exists>base bs'. BPatchStatus base bs' \<in> set (log (snd (boot_run boot_sample))) \<and> boot_step (phase_of base) (phase_of bs')"
proof -
  obtain base bs' where mem: "BPatchStatus base bs' \<in> set (log (snd (boot_run boot_sample)))"
    using boot_run_logs(3) by (fastforce simp: map_eq_Cons_conv elim!: is_status_patch.elims(2))
  have "stores (boot_sample_api boot_sample)" by (simp add: stores_def boot_sample_api_def)
  from bootstrap_refines_phases [OF boot_env_label this boot_run_eq mem] mem show ?thesis by blast
qed


text \<open>A restore that cannot be read for any reason but its absence counts as one that changed its
  identity: a single failed read of the API server ends the execution.\<close>

lemma failed_read_ends_execution:
  "case log (snd (Reconcile_bootstrap boot_sample_env ((boot_sample_api boot_sample)\<lparr>ba_get_object :=
       (\<lambda>g ns n w. if g = ClusterGVK then (Inr \<lparr>un_GVK = g, un_Meta = empty_meta, un_Tree = JNull\<rparr>, w)
          else (Inl (CKube (KOther ''timeout'')), w))\<rparr>) ''db'' ''boot'' \<lparr>world = (), log = []\<rparr>)) of
     [BPatchStatus base bs'] \<Rightarrow> phase_of base = BootstrapPhaseRestoring \<and> phase_of bs' = BootstrapPhaseFailed \<and>
       list_ex (\<lambda>c. cond_Type c = bootstrapFailed \<and> cond_Reason c = ''RestoreIdentityChanged'') (bos_Conditions (bo_Status bs'))
   | _ \<Rightarrow> False"
  by code_simp

end
