(* ===== verification/Pointer_Controller.thy ===== *)
theory Pointer_Controller
  imports Run_Resources Joins
begin

text \<open>
  \<open>internal/controller/backuppointer_controller.go\<close>: one reconcile of a BackupPointer, which
  publishes the newest successful backup of a cluster as a pointer document and verifies that
  the published object is still the one it wrote.  The object store is an interface of two
  operations, of which the resolved client of \<open>Objectstore\<close> is one.  Logs and the calls that record metrics are left
  out.
\<close>

abbreviation (input) "conditionBackupSelected \<equiv> ''BackupSelected''"
abbreviation (input) "conditionPublished \<equiv> ''Published''"
abbreviation (input) "conditionFresh \<equiv> ''Fresh''"
abbreviation (input) "conditionReady \<equiv> ''Ready''"

definition pointerRetryInterval :: int where "pointerRetryInterval = 10000000000"
definition one_hour :: int where "one_hour = 3600000000000"

datatype preq = PPatchStatus BackupPointer BackupPointer | PPut PointerTarget Document

record 'w store =
  sto_Head :: "string \<Rightarrow> 'w \<Rightarrow> (serr + Metadata) \<times> 'w"
  sto_PutJSON :: "string \<Rightarrow> Document \<Rightarrow> 'w \<Rightarrow> (serr + string) \<times> 'w"

text \<open>The API server.  \<open>pa_list_backups\<close> takes the parsed label selector, \<open>None\<close> where everything is
  selected; \<open>pa_tick\<close> is what else happens while the storage Secrets are read.\<close>

record 'w ptr_api =
  pa_now :: "'w \<Rightarrow> int \<times> 'w"
  pa_get :: "string \<Rightarrow> string \<Rightarrow> 'w \<Rightarrow> (cerr + BackupPointer) \<times> 'w"
  pa_list :: "string \<Rightarrow> 'w \<Rightarrow> (cerr + BackupPointer list) \<times> 'w"
  pa_selector :: "json \<Rightarrow> cerr + string"
  pa_list_backups :: "string \<Rightarrow> string option \<Rightarrow> 'w \<Rightarrow> (cerr + Unstructured list) \<times> 'w"
  pa_reader :: "'w \<Rightarrow> reader"
  pa_tick :: "'w \<Rightarrow> 'w"
  pa_patch_status :: "BackupPointer \<Rightarrow> BackupPointer \<Rightarrow> 'w \<Rightarrow> (cerr + unit) \<times> 'w"

record 'w ptr_env =
  pe_klib :: klib
  pe_certs :: certlib
  pe_minio :: "MinioOptions \<Rightarrow> serr option"
  pe_s3 :: "'w s3lib"
  pe_docwire :: docwire
  pe_backup_conv :: "json \<Rightarrow> serr + BackupView"
  pe_deadline :: "serr \<Rightarrow> bool"
  pe_resolveStore :: "(string \<Rightarrow> ObjectStorageSpec \<Rightarrow> 'w \<Rightarrow> (serr + 'w store) \<times> 'w) option"

type_synonym ('w, 'a) pact = "('w, preq, cerr, 'a) eff"

section \<open>Clock, conditions and status\<close>

definition pointerTime :: "'w ptr_api \<Rightarrow> ('w, int) pact" where
  "pointerTime A = query (\<lambda>w. case pa_now A w of (t, w') \<Rightarrow> (Inr t, w'))"

definition with_pstatus :: "(BackupPointerStatus \<Rightarrow> BackupPointerStatus) \<Rightarrow> BackupPointer \<Rightarrow> BackupPointer" where
  "with_pstatus f bp = bp\<lparr>bp_Status := f (bp_Status bp)\<rparr>"

definition setPointerCondition ::
  "'w ptr_env \<Rightarrow> 'w ptr_api \<Rightarrow> string \<Rightarrow> string \<Rightarrow> string \<Rightarrow> string \<Rightarrow> BackupPointer \<Rightarrow> ('w, BackupPointer) pact" where
  "setPointerCondition E A ty st reason msg bp =
     andthen (pointerTime A) (\<lambda>now. ret (with_pstatus (\<lambda>s. s\<lparr>bpt_Conditions :=
       Set_condition (pe_klib E) (bpt_Conditions s) (om_Generation (bp_Meta bp)) now (condition ty st reason msg)\<rparr>) bp))"

definition patchPointerStatus :: "'w ptr_api \<Rightarrow> BackupPointer \<Rightarrow> BackupPointer \<Rightarrow> ('w, cerr option) pact" where
  "patchPointerStatus A bp base =
     (let bp = with_pstatus (\<lambda>s. s\<lparr>bpt_ObservedGeneration := om_Generation (bp_Meta bp)\<rparr>) bp in
      if bp_Status bp = bp_Status base then ret None
      else attempt (request (PPatchStatus base bp) (pa_patch_status A base bp)) (\<lambda>r. case r of
        Inl e \<Rightarrow> ret (Some e) | Inr _ \<Rightarrow> ret None))"

definition written :: "'w ptr_api \<Rightarrow> BackupPointer \<Rightarrow> BackupPointer \<Rightarrow> Result \<Rightarrow> ('w, Result \<times> cerr list) pact" where
  "written A bp base result = andthen (patchPointerStatus A bp base) (\<lambda>e. ret (result, join_errs None e))"

section \<open>Freshness and delays\<close>

definition stale_after :: "BackupPointer \<Rightarrow> int" where
  "stale_after bp = (case bpp_StaleAfter (bp_Spec bp) of None \<Rightarrow> 36 * one_hour | Some d \<Rightarrow> d)"

definition pointerStaleDelay :: "'w ptr_api \<Rightarrow> BackupPointer \<Rightarrow> ('w, int) pact" where
  "pointerStaleDelay A bp =
     (case bpt_Current (bp_Status bp) of
        None \<Rightarrow> ret 0
      | Some cur \<Rightarrow>
          (case pb_CompletedAt cur of
             None \<Rightarrow> ret 0
           | Some t \<Rightarrow> andthen (pointerTime A) (\<lambda>now.
               ret (max 0 (sat64 (t + stale_after bp - now))))))"

definition pointerFreshness :: "'w ptr_env \<Rightarrow> 'w ptr_api \<Rightarrow> BackupPointer \<Rightarrow> ('w, BackupPointer) pact" where
  "pointerFreshness E A bp =
     andthen (pointerStaleDelay A bp) (\<lambda>d.
     if d = 0 then setPointerCondition E A conditionFresh ''False'' ''StaleBackup'' ''no published backup is within staleAfter'' bp
     else setPointerCondition E A conditionFresh ''True'' ''WithinStaleAfter'' ''the published backup completed within staleAfter'' bp)"

definition pointerVerifyInterval :: "BackupPointer \<Rightarrow> int" where
  "pointerVerifyInterval bp =
     (case bpp_VerifyInterval (bp_Spec bp) of None \<Rightarrow> one_hour | Some d \<Rightarrow> if d > 0 then d else one_hour)"

definition next_delay :: "int \<Rightarrow> int \<Rightarrow> int" where
  "next_delay remaining staleIn =
     (let delay = (if staleIn > 0 \<and> staleIn < remaining then staleIn else remaining) in if delay \<le> 0 then 1 else delay)"

text \<open>The next verification time is set when the delay is computed.\<close>

definition pointerNextDelay :: "'w ptr_api \<Rightarrow> BackupPointer \<Rightarrow> ('w, int) pact" where
  "pointerNextDelay A bp =
     (case bpt_NextVerifyTime (bp_Status bp) of
        None \<Rightarrow> fail (CText ''panic'')
      | Some t \<Rightarrow> andthen (pointerTime A) (\<lambda>now.
          andthen (pointerStaleDelay A bp) (\<lambda>staleIn. ret (next_delay (sat64 (t - now)) staleIn))))"

section \<open>The candidates\<close>

definition pointerStorageName :: "BackupView \<Rightarrow> string" where
  "pointerStorageName b =
     (if bs_StorageName (bv_Spec b) \<noteq> [] then bs_StorageName (bv_Spec b) else bst_StorageName (bv_Status b))"

fun decode_backups ::
  "'w ptr_env \<Rightarrow> BackupPointerSource \<Rightarrow> Unstructured list \<Rightarrow> cerr + BackupView list" where
  "decode_backups E source [] = Inr []"
| "decode_backups E source (item # items) =
     (if nested_string (pe_klib E) (un_Tree item) [''spec'', ''pxcCluster''] \<noteq> Inr (bps_PXCCluster source)
      then decode_backups E source items
      else bindr (map_sum CStore id (DecodeBackup (pe_backup_conv E) (Some (un_GVK item, un_Tree item)))) (\<lambda>b.
        bindr (decode_backups E source items) (\<lambda>bs.
        Inr (if bps_StorageNames source \<noteq> [] \<and> pointerStorageName b \<notin> set (bps_StorageNames source) then bs else b # bs))))"

definition pointerBackups :: "'w ptr_env \<Rightarrow> 'w ptr_api \<Rightarrow> BackupPointer \<Rightarrow> ('w, BackupView list) pact" where
  "pointerBackups E A bp =
     (let source = bpp_Source (bp_Spec bp) in
      andthen (lift (case bps_Selector source of None \<Rightarrow> Inr None | Some s \<Rightarrow> map_sum id Some (pa_selector A s))) (\<lambda>selector.
      andthen (query (pa_list_backups A (om_Namespace (bp_Meta bp)) selector)) (\<lambda>items.
      lift (decode_backups E source items))))"

definition count_state :: "string \<Rightarrow> BackupView list \<Rightarrow> int" where
  "count_state st bs = int (length (filter (\<lambda>b. bst_State (bv_Status b) = st) bs))"

definition countPointerBackups :: "BackupView list \<Rightarrow> BackupCounts" where
  "countPointerBackups bs = \<lparr>bc_Succeeded = count_state BackupSucceeded bs, bc_Failed = count_state BackupFailed bs,
     bc_Running = count_state BackupRunning bs, bc_Starting = count_state BackupStarting bs\<rparr>"

text \<open>The loop of \<open>selectedPointerReason\<close>: failed newer backups, and the newest one in progress with the
  smaller name on a tie.\<close>

definition reason_step :: "BackupView \<Rightarrow> nat \<times> BackupView option \<Rightarrow> BackupView \<Rightarrow> nat \<times> BackupView option" where
  "reason_step selected acc b =
     (case acc of (failed, running) \<Rightarrow>
        if om_CreationTimestamp (bv_Meta b) \<le> om_CreationTimestamp (bv_Meta selected) then acc
        else if bst_State (bv_Status b) = BackupFailed then (failed + 1, running)
        else if bst_State (bv_Status b) = BackupRunning \<or> bst_State (bv_Status b) = BackupStarting
        then (case running of
                None \<Rightarrow> (failed, Some b)
              | Some r \<Rightarrow>
                  if om_CreationTimestamp (bv_Meta b) > om_CreationTimestamp (bv_Meta r) \<or>
                     om_CreationTimestamp (bv_Meta b) = om_CreationTimestamp (bv_Meta r) \<and> om_Name (bv_Meta b) < om_Name (bv_Meta r)
                  then (failed, Some b) else acc)
        else acc)"

definition selectedPointerReason :: "BackupView list \<Rightarrow> BackupView \<Rightarrow> string \<times> string" where
  "selectedPointerReason backups selected =
     (case foldl (reason_step selected) (0, None) backups of (failed, running) \<Rightarrow>
        if failed > 0 then (''NewerBackupFailed'',
          nat_dec failed @ '' newer backups failed; selected successful backup '' @ om_Name (bv_Meta selected))
        else case running of
          Some r \<Rightarrow> (''NewerBackupInProgress'', ''newer backup '' @ om_Name (bv_Meta r) @
            '' is in progress; selected successful backup '' @ om_Name (bv_Meta selected))
        | None \<Rightarrow> (''LatestSucceeded'', ''selected the latest successful backup '' @ om_Name (bv_Meta selected)))"

definition noPointerCandidate ::
  "'w ptr_env \<Rightarrow> 'w ptr_api \<Rightarrow> BackupView list \<Rightarrow> nat \<Rightarrow> BackupPointer \<Rightarrow> ('w, BackupPointer) pact" where
  "noPointerCandidate E A backups missing bp =
     (let dangling = (case bpt_Current (bp_Status bp) of None \<Rightarrow> False
            | Some cur \<Rightarrow> \<not> list_ex (\<lambda>b. om_Name (bv_Meta b) = pb_BackupName cur) backups);
          reason = (if dangling then ''SelectedBackupDeleted'' else ''NoSucceededBackup'');
          msg = (if dangling then ''the selected backup was deleted and no replacement is available''
            else if missing > 0 then nat_dec missing @ '' successful backups have no completion timestamp''
            else ''no successful S3 backup with a completion timestamp is available'');
          bp = with_pstatus (\<lambda>s. s\<lparr>bpt_Phase := (if dangling then BackupPointerPhaseDangling else BackupPointerPhaseNoCandidate)\<rparr>) bp
      in andthen (setPointerCondition E A conditionBackupSelected ''False'' reason msg bp) (\<lambda>bp.
         andthen (setPointerCondition E A conditionReady ''False'' (if dangling then ''Dangling'' else ''PointerCurrent'') msg bp) (\<lambda>bp.
         pointerFreshness E A bp)))"

section \<open>Publication\<close>

definition client_store :: "'w ptr_env \<Rightarrow> Objectstore.Client \<Rightarrow> 'w store" where
  "client_store E c = \<lparr>sto_Head = (\<lambda>key w. (Head (pe_s3 E) c key w, w)),
     sto_PutJSON = (\<lambda>key doc w. PutJSON (pe_s3 E) c key (MarshalJSON (pe_klib E) (pe_docwire E) doc) (Some (d_Name doc)) w)\<rparr>"

definition pointerStore :: "'w ptr_env \<Rightarrow> 'w ptr_api \<Rightarrow> BackupPointer \<Rightarrow> 'w \<Rightarrow> (serr + 'w store) \<times> 'w" where
  "pointerStore E A bp w =
     (let ns = om_Namespace (bp_Meta bp); spec = pt_ObjectStorage (bpp_Target (bp_Spec bp)) in
      case pe_resolveStore E of
        Some f \<Rightarrow> f ns spec w
      | None \<Rightarrow> (map_sum id (client_store E) (Resolve (pe_klib E) (pe_certs E) (pe_minio E) (pa_reader A w) ns spec), pa_tick A w))"

text \<open>The document of a selected backup; a missing bucket is the host of its destination.\<close>

definition pointer_document :: "klib \<Rightarrow> BackupPointer \<Rightarrow> BackupView \<Rightarrow> int \<Rightarrow> serr + Document" where
  "pointer_document L bp selected now =
     (let st = bv_Status selected;
          s3 = map_option (\<lambda>b. \<lparr>s3_Bucket = b3_Bucket b, s3_EndpointURL = b3_EndpointURL b, s3_Region = b3_Region b\<rparr>) (bst_S3 st);
          base = (case s3 of None \<Rightarrow> \<lparr>s3_Bucket = [], s3_EndpointURL = [], s3_Region = []\<rparr> | Some s \<Rightarrow> s);
          doc = empty_document\<lparr>d_Name := om_Name (bv_Meta selected), d_Destination := bst_Destination st,
            d_SchemaVersion := SchemaVersion, d_PublishedAt := Some now,
            d_PublishedBy := Some \<lparr>pu_Kind = ''BackupPointer'', pu_Namespace = om_Namespace (bp_Meta bp),
              pu_Name = om_Name (bp_Meta bp), pu_UID = om_UID (bp_Meta bp)\<rparr>,
            d_SourceCluster := Some \<lparr>sc_Name = bs_PXCCluster (bv_Spec selected), sc_Namespace = om_Namespace (bv_Meta selected),
              sc_CRVersion = []\<rparr>,
            d_Backup := Some \<lparr>bk_StorageName = pointerStorageName selected, bk_CompletedAt = bst_CompletedAt st, bk_State = bst_State st\<rparr>,
            d_PublicURL := pt_PublicURL (bpp_Target (bp_Spec bp))\<rparr>
      in bindr (if s3_Bucket base = []
             then case url_parse L (bst_Destination st) of
                    None \<Rightarrow> Inl (SText ''backup destination is invalid'')
                  | Some u \<Rightarrow> Inr (base\<lparr>s3_Bucket := u_Host u\<rparr>)
             else Inr base) (\<lambda>s3.
         let doc = doc\<lparr>d_S3 := Some s3\<rparr> in bindr (Validate_document L doc) (\<lambda>_. Inr doc)))"

text \<open>The result is the pointer in memory, or the error of the document or of the upload.\<close>

definition publishPointer ::
  "'w ptr_env \<Rightarrow> 'w ptr_api \<Rightarrow> BackupPointer \<Rightarrow> BackupView \<Rightarrow> 'w store \<Rightarrow> ('w, serr + BackupPointer) pact" where
  "publishPointer E A bp selected sto =
     andthen (pointerTime A) (\<lambda>now.
     case pointer_document (pe_klib E) bp selected now of
       Inl e \<Rightarrow> ret (Inl e)
     | Inr doc \<Rightarrow>
         andthen (request (PPut (bpp_Target (bp_Spec bp)) doc)
           (\<lambda>w. case sto_PutJSON sto (pt_Key (bpp_Target (bp_Spec bp))) doc w of (r, w') \<Rightarrow> (Inr r, w'))) (\<lambda>r. case r of
           Inl e \<Rightarrow> ret (Inl e)
         | Inr etag \<Rightarrow>
             andthen (setPointerCondition E A conditionPublished ''True'' ''Uploaded'' ''the selected backup pointer was uploaded''
               (with_pstatus (\<lambda>s. s\<lparr>bpt_Previous := (case bpt_Current s of None \<Rightarrow> bpt_Previous s | Some c \<Rightarrow> Some c),
                 bpt_Current := Some \<lparr>pb_BackupName = om_Name (bv_Meta selected), pb_Destination = bst_Destination (bv_Status selected),
                   pb_StorageName = pointerStorageName selected, pb_CompletedAt = bst_CompletedAt (bv_Status selected),
                   pb_PublishedAt = Some now, pb_ETag = etag, pb_SchemaVersion = SchemaVersion\<rparr>\<rparr>) bp)) (\<lambda>bp. ret (Inr bp))))"

definition store_not_found :: "serr \<Rightarrow> bool" where
  "store_not_found e = (first_some (\<lambda>x. case x of SKube k \<Rightarrow> Some k | _ \<Rightarrow> None) (serr_tree e) = Some KNotFound)"

definition failure_reason :: "'w ptr_env \<Rightarrow> serr \<Rightarrow> string \<times> string" where
  "failure_reason E e =
     (if store_not_found e then (''CredentialsUnavailable'', ''an object storage credentials or CA Secret is unavailable'')
      else if serr_is SCredentialsInvalid e then (''CredentialsInvalid'', ''object storage credentials are incomplete or were rejected'')
      else if serr_is SEndpointUnreachable e \<or> pe_deadline E e
      then (''EndpointUnreachable'', ''the object storage endpoint is invalid or unreachable'')
      else (''UploadFailed'', ''pointer upload or verification failed''))"

definition pointerPublicationFailed ::
  "'w ptr_env \<Rightarrow> 'w ptr_api \<Rightarrow> BackupPointer \<Rightarrow> BackupPointer \<Rightarrow> serr \<Rightarrow> ('w, Result \<times> cerr list) pact" where
  "pointerPublicationFailed E A bp base e =
     (case failure_reason E e of (reason, msg) \<Rightarrow>
      andthen (setPointerCondition E A conditionPublished ''False'' reason msg
        (with_pstatus (\<lambda>s. s\<lparr>bpt_Phase := BackupPointerPhaseError\<rparr>) bp)) (\<lambda>bp.
      andthen (setPointerCondition E A conditionReady ''False'' ''PointerCurrent'' msg bp) (\<lambda>bp.
      andthen (pointerFreshness E A bp) (\<lambda>bp.
      written A bp base (after pointerRetryInterval)))))"

section \<open>The reconcile\<close>

definition needs_publish :: "'w ptr_env \<Rightarrow> BackupPointer \<Rightarrow> BackupPointer \<Rightarrow> BackupView \<Rightarrow> bool" where
  "needs_publish E bp base selected =
     (case bpt_Current (bp_Status bp) of
        None \<Rightarrow> True
      | Some cur \<Rightarrow> pb_BackupName cur \<noteq> om_Name (bv_Meta selected) \<or> pb_Destination cur \<noteq> bst_Destination (bv_Status selected) \<or>
          pb_SchemaVersion cur \<noteq> SchemaVersion \<or> bpt_ObservedGeneration (bp_Status base) \<noteq> om_Generation (bp_Meta bp) \<or>
          \<not> is_condition_true (pe_klib E) (bpt_Conditions (bp_Status bp)) conditionPublished)"

definition verify_due :: "'w ptr_api \<Rightarrow> BackupPointer \<Rightarrow> ('w, bool) pact" where
  "verify_due A bp = (case bpt_NextVerifyTime (bp_Status bp) of
     None \<Rightarrow> ret True | Some t \<Rightarrow> andthen (pointerTime A) (\<lambda>now. ret (t \<le> now)))"

definition pointer_current :: "'w ptr_env \<Rightarrow> 'w ptr_api \<Rightarrow> BackupPointer \<Rightarrow> BackupPointer \<Rightarrow> ('w, Result \<times> cerr list) pact" where
  "pointer_current E A bp base =
     andthen (pointerFreshness E A bp) (\<lambda>bp.
     let bp = with_pstatus (\<lambda>s. s\<lparr>bpt_Phase :=
       (if is_condition_false (pe_klib E) (bpt_Conditions s) conditionFresh then BackupPointerPhaseStale else BackupPointerPhasePublished)\<rparr>) bp
     in andthen (setPointerCondition E A conditionReady ''True'' ''PointerCurrent'' ''the selected successful backup is published'' bp) (\<lambda>bp.
        andthen (pointerNextDelay A bp) (\<lambda>d. written A bp base (after d))))"

definition verified :: "'w ptr_env \<Rightarrow> 'w ptr_api \<Rightarrow> BackupPointer \<Rightarrow> BackupPointer \<Rightarrow> ('w, Result \<times> cerr list) pact" where
  "verified E A bp base =
     andthen (pointerTime A) (\<lambda>now.
     pointer_current E A (with_pstatus (\<lambda>s. s\<lparr>bpt_NextVerifyTime := Some (now + pointerVerifyInterval bp)\<rparr>) bp) base)"

definition publish_or_verify ::
  "'w ptr_env \<Rightarrow> 'w ptr_api \<Rightarrow> BackupPointer \<Rightarrow> BackupPointer \<Rightarrow> BackupView \<Rightarrow> bool \<Rightarrow> ('w, Result \<times> cerr list) pact" where
  "publish_or_verify E A bp base selected needs =
     andthen (query (\<lambda>w. case pointerStore E A bp w of (r, w') \<Rightarrow> (Inr r, w'))) (\<lambda>r. case r of
       Inl e \<Rightarrow> pointerPublicationFailed E A bp base e
     | Inr sto \<Rightarrow>
         andthen (if needs then ret (Inr True)
           else andthen (query (\<lambda>w. case sto_Head sto (pt_Key (bpp_Target (bp_Spec bp))) w of (r, w') \<Rightarrow> (Inr r, w'))) (\<lambda>r. case r of
             Inl e \<Rightarrow> ret (Inl e)
           | Inr md \<Rightarrow> ret (Inr (\<not> md_Found md \<or>
               (case bpt_Current (bp_Status bp) of None \<Rightarrow> True | Some cur \<Rightarrow> md_ETag md \<noteq> pb_ETag cur))))) (\<lambda>r. case r of
           Inl e \<Rightarrow> pointerPublicationFailed E A bp base e
         | Inr True \<Rightarrow> andthen (publishPointer E A bp selected sto) (\<lambda>r. case r of
             Inl e \<Rightarrow> pointerPublicationFailed E A bp base e | Inr bp \<Rightarrow> verified E A bp base)
         | Inr False \<Rightarrow> andthen (setPointerCondition E A conditionPublished ''True'' ''Verified''
             ''the published pointer object matches its recorded ETag'' bp) (\<lambda>bp. verified E A bp base)))"

definition s3_candidates :: "BackupView list \<Rightarrow> BackupView list" where
  "s3_candidates bs = filter (\<lambda>b. \<not> Backup_Succeeded b \<or> has_prefix (bst_Destination (bv_Status b)) ''s3://'') bs"

definition select_pointer ::
  "'w ptr_env \<Rightarrow> 'w ptr_api \<Rightarrow> BackupPointer \<Rightarrow> BackupPointer \<Rightarrow> BackupView list \<Rightarrow> ('w, Result \<times> cerr list) pact" where
  "select_pointer E A bp base backups =
     (let bp = with_pstatus (\<lambda>s. s\<lparr>bpt_Backups := countPointerBackups backups\<rparr>) bp;
          selection = LatestSucceeded (s3_candidates backups)
      in case sel_Backup selection of
           None \<Rightarrow> andthen (noPointerCandidate E A backups (sel_MissingCompletion selection) bp) (\<lambda>bp.
             andthen (pointerStaleDelay A bp) (\<lambda>d. written A bp base (after d)))
         | Some selected \<Rightarrow>
             (case selectedPointerReason backups selected of (reason, msg) \<Rightarrow>
              andthen (setPointerCondition E A conditionBackupSelected ''True'' reason msg bp) (\<lambda>bp.
              let needs = needs_publish E bp base selected
              in andthen (verify_due A bp) (\<lambda>due.
                 if needs \<or> due then publish_or_verify E A bp base selected needs else pointer_current E A bp base))))"

definition reconcile_pointer_found :: "'w ptr_env \<Rightarrow> 'w ptr_api \<Rightarrow> BackupPointer \<Rightarrow> ('w, Result \<times> cerr list) pact" where
  "reconcile_pointer_found E A bp =
     (if deleting (bp_Meta bp) then ret (no_result, [])
      else if bpp_Suspend (bp_Spec bp)
      then andthen (setPointerCondition E A conditionReady ''False'' ''Suspended'' ''pointer reconciliation is suspended''
          (with_pstatus (\<lambda>s. s\<lparr>bpt_Phase := BackupPointerPhaseSuspended\<rparr>) bp)) (\<lambda>bp'. written A bp' bp no_result)
      else attempt (pointerBackups E A bp) (\<lambda>r. case r of
        Inl e \<Rightarrow>
          andthen (setPointerCondition E A conditionBackupSelected ''False'' ''NoSucceededBackup'' ''backup selection could not be completed''
            (with_pstatus (\<lambda>s. s\<lparr>bpt_Phase := BackupPointerPhaseError\<rparr>) bp)) (\<lambda>bp'.
          andthen (setPointerCondition E A conditionReady ''False'' ''PointerCurrent'' ''no backup selection is available'' bp') (\<lambda>bp'.
          andthen (patchPointerStatus A bp' bp) (\<lambda>pe. ret (no_result, join_errs (Some e) pe))))
      | Inr backups \<Rightarrow> select_pointer E A bp bp backups))"

definition reconcilePointer :: "'w ptr_env \<Rightarrow> 'w ptr_api \<Rightarrow> string \<Rightarrow> string \<Rightarrow> ('w, Result \<times> cerr list) pact" where
  "reconcilePointer E A ns name =
     attempt (query (pa_get A ns name)) (\<lambda>r. case r of
       Inl e \<Rightarrow> ret (no_result, if e = CKube KNotFound then [] else [e])
     | Inr bp \<Rightarrow> reconcile_pointer_found E A bp)"

definition Reconcile_pointer :: "'w ptr_env \<Rightarrow> 'w ptr_api \<Rightarrow> string \<Rightarrow> string \<Rightarrow> ('w, Result \<times> cerr list) pact" where
  "Reconcile_pointer E A ns name =
     andthen (reconcilePointer E A ns name) (\<lambda>(result, errs).
     if errs_conflict errs then ret (no_result\<lparr>Requeue := True\<rparr>, []) else ret (result, errs))"

section \<open>Watches\<close>

definition mapBackupToPointers :: "'w ptr_env \<Rightarrow> 'w ptr_api \<Rightarrow> Unstructured \<Rightarrow> ('w, (string \<times> string) list) pact" where
  "mapBackupToPointers E A backup =
     (case nested_string (pe_klib E) (un_Tree backup) [''spec'', ''pxcCluster''] of
        Inl _ \<Rightarrow> ret []
      | Inr cluster \<Rightarrow>
          if cluster = [] then ret []
          else attempt (query (pa_list A (om_Namespace (un_Meta backup)))) (\<lambda>r. case r of
            Inl _ \<Rightarrow> ret []
          | Inr items \<Rightarrow> ret (map (\<lambda>bp. (om_Namespace (bp_Meta bp), om_Name (bp_Meta bp)))
              (filter (\<lambda>bp. bps_PXCCluster (bpp_Source (bp_Spec bp)) = cluster) items))))"

definition backupPointerBackupChanged :: "klib \<Rightarrow> Unstructured \<Rightarrow> Unstructured \<Rightarrow> bool" where
  "backupPointerBackupChanged L before aft \<longleftrightarrow>
     list_ex (\<lambda>field. case (nested_string L (un_Tree before) [''status'', field], nested_string L (un_Tree aft) [''status'', field]) of
         (Inr a, Inr b) \<Rightarrow> a \<noteq> b | _ \<Rightarrow> True) [''state'', ''completed'', ''destination''] \<or>
     om_Labels (un_Meta before) \<noteq> om_Labels (un_Meta aft) \<or> om_Generation (un_Meta before) \<noteq> om_Generation (un_Meta aft)"

end
