(* ===== verification/Pointer_Controller_Safety.thy ===== *)
theory Pointer_Controller_Safety
  imports Pointer_Controller
begin

text \<open>
  What a reconcile of a BackupPointer may upload and write, against any API server and any store.
  The pointer in memory is followed through the steps by \<open>advanced\<close>: its published backup is the
  one that was read, or the one this reconcile has uploaded.
\<close>

section \<open>What is selected\<close>

text \<open>The backups that the server listed for the pointer, and the choice among them.\<close>

definition listed :: "'w ptr_env \<Rightarrow> 'w ptr_api \<Rightarrow> BackupPointer \<Rightarrow> BackupView list \<Rightarrow> bool" where
  "listed E A bp backups \<longleftrightarrow> (\<exists>selector w items.
     fst (pa_list_backups A (om_Namespace (bp_Meta bp)) selector w) = Inr items \<and>
     (case bps_Selector (bpp_Source (bp_Spec bp)) of None \<Rightarrow> selector = None
        | Some s \<Rightarrow> \<exists>t. pa_selector A s = Inr t \<and> selector = Some t) \<and>
     decode_backups E (bpp_Source (bp_Spec bp)) items = Inr backups)"

definition chosen :: "'w ptr_env \<Rightarrow> 'w ptr_api \<Rightarrow> BackupPointer \<Rightarrow> BackupView \<Rightarrow> bool" where
  "chosen E A bp selected \<longleftrightarrow>
     (\<exists>backups. listed E A bp backups \<and> sel_Backup (LatestSucceeded (s3_candidates backups)) = Some selected)"

definition publishable :: "BackupView \<Rightarrow> bool" where
  "publishable b \<longleftrightarrow> candidate b \<and> has_prefix (bst_Destination (bv_Status b)) ''s3://''"

lemma candidates_publishable: "filter candidate (s3_candidates bs) = filter publishable bs"
  by (induction bs) (auto simp: s3_candidates_def publishable_def candidate_def)

lemma chosen_newest:
  assumes "chosen E A bp selected"
  shows "\<exists>backups. listed E A bp backups \<and> selected \<in> set backups \<and> publishable selected \<and>
    list_all (\<lambda>b. publishable b \<longrightarrow> \<not> newerBackup b selected) backups"
proof -
  obtain backups where backups: "listed E A bp backups" "pick newerBackup (filter publishable backups) = Some selected"
    using assms by (auto simp: chosen_def LatestSucceeded_pick candidates_publishable)
  show ?thesis using backups(1) backup_rank.pick_max [OF backups(2)]
    by (intro exI [of _ backups]) (auto simp: list_all_iff)
qed

lemma decode_backups_from:
  assumes "decode_backups E source items = Inr backups" "b \<in> set backups"
  shows "\<exists>item\<in>set items. nested_string (pe_klib E) (un_Tree item) [''spec'', ''pxcCluster''] = Inr (bps_PXCCluster source) \<and>
    DecodeBackup (pe_backup_conv E) (Some (un_GVK item, un_Tree item)) = Inr b \<and>
    (bps_StorageNames source = [] \<or> pointerStorageName b \<in> set (bps_StorageNames source))"
  using assms
proof (induction items arbitrary: backups)
  case (Cons item items)
  show ?case
  proof (cases "nested_string (pe_klib E) (un_Tree item) [''spec'', ''pxcCluster''] = Inr (bps_PXCCluster source)")
    case True
    then obtain v bs where "DecodeBackup (pe_backup_conv E) (Some (un_GVK item, un_Tree item)) = Inr v"
        "decode_backups E source items = Inr bs"
        "backups = (if bps_StorageNames source \<noteq> [] \<and> pointerStorageName v \<notin> set (bps_StorageNames source) then bs else v # bs)"
      using Cons.prems(1)
      by (cases "DecodeBackup (pe_backup_conv E) (Some (un_GVK item, un_Tree item))") (auto simp: bindr_def split: sum.splits)
    then show ?thesis using True Cons.prems(2) Cons.IH [of bs] by (auto split: if_splits)
  next
    case False
    then have "decode_backups E source items = Inr backups" using Cons.prems(1) by simp
    then show ?thesis using Cons.IH Cons.prems(2) by auto
  qed
qed simp

section \<open>The pointer in memory\<close>

definition names_backup :: "BackupPointer \<Rightarrow> BackupView \<Rightarrow> bool" where
  "names_backup bp b \<longleftrightarrow> (\<exists>cur. bpt_Current (bp_Status bp) = Some cur \<and> pb_BackupName cur = om_Name (bv_Meta b) \<and>
     pb_Destination cur = bst_Destination (bv_Status b) \<and> pb_SchemaVersion cur = SchemaVersion)"

text \<open>The replacement of the published backup after an upload that the resolved store answered with an
  ETag.\<close>

definition replaced :: "'w ptr_env \<Rightarrow> 'w ptr_api \<Rightarrow> BackupPointer \<Rightarrow> BackupView \<Rightarrow> BackupPointer \<Rightarrow> bool" where
  "replaced E A bp b bp' \<longleftrightarrow> names_backup bp' b \<and>
     bpt_Previous (bp_Status bp') = (case bpt_Current (bp_Status bp) of None \<Rightarrow> bpt_Previous (bp_Status bp) | Some c \<Rightarrow> Some c) \<and>
     (\<exists>sto doc v w now. fst (pointerStore E A bp v) = Inr sto \<and> pointer_document (pe_klib E) bp b now = Inr doc \<and>
        fst (sto_PutJSON sto (pt_Key (bpp_Target (bp_Spec bp))) doc w) =
          Inr (case bpt_Current (bp_Status bp') of None \<Rightarrow> [] | Some c \<Rightarrow> pb_ETag c))"

definition advanced :: "'w ptr_env \<Rightarrow> 'w ptr_api \<Rightarrow> BackupPointer \<Rightarrow> BackupPointer \<Rightarrow> bool" where
  "advanced E A bp bp' \<longleftrightarrow> bp_Meta bp' = bp_Meta bp \<and> bp_Spec bp' = bp_Spec bp \<and>
     (bpt_Current (bp_Status bp') = bpt_Current (bp_Status bp) \<and> bpt_Previous (bp_Status bp') = bpt_Previous (bp_Status bp) \<or>
      (\<exists>b. chosen E A bp b \<and> replaced E A bp b bp'))"

text \<open>The phases that say that the selected backup is published.\<close>

definition shows_current :: "BackupPointer \<Rightarrow> bool" where
  "shows_current bp \<longleftrightarrow> bpt_Phase (bp_Status bp) = BackupPointerPhasePublished \<or> bpt_Phase (bp_Status bp) = BackupPointerPhaseStale"

fun pointer_request :: "'w ptr_env \<Rightarrow> 'w ptr_api \<Rightarrow> BackupPointer \<Rightarrow> preq \<Rightarrow> bool" where
  "pointer_request E A bp (PPut target doc) \<longleftrightarrow> \<not> deleting (bp_Meta bp) \<and> \<not> bpp_Suspend (bp_Spec bp) \<and>
     target = bpp_Target (bp_Spec bp) \<and> (\<exists>b now. chosen E A bp b \<and> pointer_document (pe_klib E) bp b now = Inr doc)"
| "pointer_request E A bp (PPatchStatus base bp') \<longleftrightarrow> base = bp \<and> \<not> deleting (bp_Meta bp) \<and> advanced E A bp bp' \<and>
     bpt_ObservedGeneration (bp_Status bp') = om_Generation (bp_Meta bp) \<and>
     (shows_current bp' \<longrightarrow> \<not> bpp_Suspend (bp_Spec bp) \<and> (\<exists>b. chosen E A bp b \<and> names_backup bp' b))"

lemma with_pstatus_simps [simp]:
  "bp_Status (with_pstatus f bp) = f (bp_Status bp)" "bp_Spec (with_pstatus f bp) = bp_Spec bp"
  "bp_Meta (with_pstatus f bp) = bp_Meta bp"
  by (simp_all add: with_pstatus_def)

definition calike :: "BackupPointer \<Rightarrow> BackupPointer \<Rightarrow> bool" where
  "calike bp bp' \<longleftrightarrow> bp_Meta bp' = bp_Meta bp \<and> bp_Spec bp' = bp_Spec bp \<and>
     bpt_Current (bp_Status bp') = bpt_Current (bp_Status bp) \<and> bpt_Previous (bp_Status bp') = bpt_Previous (bp_Status bp) \<and>
     bpt_Phase (bp_Status bp') = bpt_Phase (bp_Status bp) \<and> bpt_NextVerifyTime (bp_Status bp') = bpt_NextVerifyTime (bp_Status bp)"

lemma advanced_alike:
  "advanced E A bp b \<Longrightarrow> bp_Meta b' = bp_Meta b \<Longrightarrow> bp_Spec b' = bp_Spec b \<Longrightarrow>
     bpt_Current (bp_Status b') = bpt_Current (bp_Status b) \<Longrightarrow> bpt_Previous (bp_Status b') = bpt_Previous (bp_Status b) \<Longrightarrow>
     advanced E A bp b'"
  by (auto simp: advanced_def replaced_def names_backup_def)

lemma names_alike:
  "names_backup b x \<Longrightarrow> bpt_Current (bp_Status b') = bpt_Current (bp_Status b) \<Longrightarrow> names_backup b' x"
  by (simp add: names_backup_def)

section \<open>Rules for the steps\<close>

lemma pointerTime_quiet [emits_rules]: "(\<And>t. emits (f t) P R) \<Longrightarrow> emits (andthen (pointerTime A) f) P R"
  unfolding pointerTime_def by (rule emits_andthen_query) blast

lemma emits_pcondition [emits_rules]:
  assumes "\<And>bp'. calike bp bp' \<Longrightarrow> emits (f bp') P R"
  shows "emits (andthen (setPointerCondition E A ty st reason msg bp) f) P R"
proof (rule emits_andthen)
  show "emits (setPointerCondition E A ty st reason msg bp) P (calike bp)"
    unfolding setPointerCondition_def by (intro emits_rules) (simp add: calike_def)
qed (use assms in blast)

lemma pcondition_last: "emits (setPointerCondition E A ty st reason msg bp) P (calike bp)"
  unfolding setPointerCondition_def by (intro emits_rules) (simp add: calike_def)

lemma staleDelay_quiet [emits_rules]: "(\<And>d. emits (f d) P R) \<Longrightarrow> emits (andthen (pointerStaleDelay A bp) f) P R"
  unfolding pointerStaleDelay_def
  by (rule emits_andthen [where R' = "\<lambda>_. True"]) (auto intro!: emits_rules split: option.splits)

lemma freshness_alike: "emits (pointerFreshness E A bp) P (calike bp)"
  unfolding pointerFreshness_def by (intro staleDelay_quiet emits_if pcondition_last)

lemma emits_freshness [emits_rules]:
  "(\<And>bp'. calike bp bp' \<Longrightarrow> emits (f bp') P R) \<Longrightarrow> emits (andthen (pointerFreshness E A bp) f) P R"
  by (rule emits_andthen [OF freshness_alike])

lemma nextDelay_quiet [emits_rules]: "(\<And>d. emits (f d) P R) \<Longrightarrow> emits (andthen (pointerNextDelay A bp) f) P R"
  unfolding pointerNextDelay_def
  by (rule emits_andthen [where R' = "\<lambda>_. True"]) (auto intro!: emits_rules split: option.splits)

lemma verify_due_quiet [emits_rules]: "(\<And>d. emits (f d) P R) \<Longrightarrow> emits (andthen (verify_due A bp) f) P R"
  unfolding verify_due_def
  by (rule emits_andthen [where R' = "\<lambda>_. True"]) (auto intro!: emits_rules split: option.splits)

lemma noCandidate_alike:
  "emits (noPointerCandidate E A backups missing bp) P (\<lambda>bp'. bp_Meta bp' = bp_Meta bp \<and> bp_Spec bp' = bp_Spec bp \<and>
     bpt_Current (bp_Status bp') = bpt_Current (bp_Status bp) \<and> bpt_Previous (bp_Status bp') = bpt_Previous (bp_Status bp) \<and>
     \<not> shows_current bp')"
  unfolding noPointerCandidate_def Let_def
  by (intro emits_pcondition emits_conseq [OF freshness_alike]) (auto simp: calike_def shows_current_def)

text \<open>A status write of a pointer that has advanced.\<close>

lemma written_request:
  assumes "advanced E A bp bp'" "\<not> deleting (bp_Meta bp)"
    "shows_current bp' \<Longrightarrow> \<not> bpp_Suspend (bp_Spec bp) \<and> (\<exists>b. chosen E A bp b \<and> names_backup bp' b)"
  shows "emits (written A bp' bp result) (pointer_request E A bp) (\<lambda>_. True)"
    and "emits (patchPointerStatus A bp' bp) (pointer_request E A bp) (\<lambda>_. True)"
proof -
  let ?b = "with_pstatus (\<lambda>s. s\<lparr>bpt_ObservedGeneration := om_Generation (bp_Meta bp')\<rparr>) bp'"
  have "pointer_request E A bp (PPatchStatus bp ?b)"
    using assms advanced_alike [OF assms(1), of ?b] by (auto simp: shows_current_def names_backup_def advanced_def)
  then show patch: "emits (patchPointerStatus A bp' bp) (pointer_request E A bp) (\<lambda>_. True)"
    unfolding patchPointerStatus_def Let_def by (intro emits_if emits_attempt_request emits_sum emits_ret) auto
  show "emits (written A bp' bp result) (pointer_request E A bp) (\<lambda>_. True)"
    unfolding written_def by (intro emits_andthen [OF patch] emits_ret) simp
qed

lemma pointer_document_alike:
  "bp_Meta b = bp_Meta b' \<Longrightarrow> bp_Spec b = bp_Spec b' \<Longrightarrow> pointer_document L b x now = pointer_document L b' x now"
  by (simp add: pointer_document_def)

section \<open>The handlers\<close>

text \<open>The pointer in memory before an upload: only the phase, the counters and the conditions differ
  from what was read.\<close>

definition before_upload :: "BackupPointer \<Rightarrow> BackupPointer \<Rightarrow> bool" where
  "before_upload bp b \<longleftrightarrow> bp_Meta b = bp_Meta bp \<and> bp_Spec b = bp_Spec bp \<and>
     bpt_Current (bp_Status b) = bpt_Current (bp_Status bp) \<and> bpt_Previous (bp_Status b) = bpt_Previous (bp_Status bp)"

lemma before_advanced: "before_upload bp b \<Longrightarrow> advanced E A bp b"
  by (simp add: before_upload_def advanced_def)

lemma before_alike: "before_upload bp b \<Longrightarrow> calike b b' \<Longrightarrow> before_upload bp b'"
  by (simp add: before_upload_def calike_def)

lemma advanced_calike: "advanced E A bp b \<Longrightarrow> calike b b' \<Longrightarrow> advanced E A bp b'"
  by (rule advanced_alike) (auto simp: calike_def)

lemma publish_emits:
  assumes "\<not> deleting (bp_Meta bp)" "\<not> bpp_Suspend (bp_Spec bp)" "before_upload bp b" "chosen E A bp selected"
    and sto: "\<exists>v. fst (pointerStore E A bp v) = Inr sto"
  shows "emits (publishPointer E A b selected sto) (pointer_request E A bp)
    (\<lambda>r. \<forall>b'. r = Inr b' \<longrightarrow> advanced E A bp b' \<and> names_backup b' selected)"
proof -
  have doc: "pointer_document (pe_klib E) b selected now = pointer_document (pe_klib E) bp selected now" for now
    using assms(3) by (intro pointer_document_alike) (auto simp: before_upload_def)
  show ?thesis unfolding publishPointer_def doc
  proof (intro pointerTime_quiet emits_sum emits_ret emits_andthen_request emits_pcondition, goal_cases)
    case (2 now docu)
    then show ?case using assms by (auto simp: before_upload_def)
  next
    case (4 now docu w x etag b')
    have "fst (sto_PutJSON sto (pt_Key (bpp_Target (bp_Spec bp))) docu w) = Inr etag"
      using 4 assms(3) by (auto simp: before_upload_def split: prod.splits)
    moreover have "names_backup b' selected" using 4 by (auto simp: names_backup_def calike_def)
    moreover have "bpt_Previous (bp_Status b') =
        (case bpt_Current (bp_Status bp) of None \<Rightarrow> bpt_Previous (bp_Status bp) | Some c \<Rightarrow> Some c)"
      "bp_Meta b' = bp_Meta bp" "bp_Spec b' = bp_Spec bp" "(case bpt_Current (bp_Status b') of None \<Rightarrow> [] | Some c \<Rightarrow> pb_ETag c) = etag"
      using 4 assms(3) by (auto simp: calike_def before_upload_def split: option.splits)
    ultimately have "replaced E A bp selected b'" unfolding replaced_def using 4(1) sto by metis
    then show ?case using assms(4) \<open>names_backup b' selected\<close> \<open>bp_Meta b' = bp_Meta bp\<close> \<open>bp_Spec b' = bp_Spec bp\<close>
      by (auto simp: advanced_def)
  qed auto
qed

lemma failed_emits:
  assumes "before_upload bp b" "\<not> deleting (bp_Meta bp)"
  shows "emits (pointerPublicationFailed E A b bp e) (pointer_request E A bp) (\<lambda>_. True)"
  unfolding pointerPublicationFailed_def
  by (intro emits_prod emits_pcondition emits_freshness written_request before_advanced)
    (use assms in \<open>auto simp: before_upload_def calike_def shows_current_def\<close>)

lemma current_emits:
  assumes "advanced E A bp b" "names_backup b selected" "chosen E A bp selected"
    "\<not> deleting (bp_Meta bp)" "\<not> bpp_Suspend (bp_Spec bp)"
  shows "emits (pointer_current E A b bp) (pointer_request E A bp) (\<lambda>_. True)"
  unfolding pointer_current_def Let_def
proof (intro emits_freshness emits_pcondition nextDelay_quiet written_request)
  fix b1 b2 :: BackupPointer
  assume "calike b b1" and c: "calike (with_pstatus (\<lambda>s. s\<lparr>bpt_Phase := if is_condition_false (pe_klib E) (bpt_Conditions s) conditionFresh
    then BackupPointerPhaseStale else BackupPointerPhasePublished\<rparr>) b1) b2"
  then show "advanced E A bp b2" by (intro advanced_alike [OF assms(1)]) (auto simp: calike_def)
  have "names_backup b2 selected" by (rule names_alike [OF assms(2)]) (use \<open>calike b b1\<close> c in \<open>auto simp: calike_def\<close>)
  then show "\<not> bpp_Suspend (bp_Spec bp) \<and> (\<exists>b. chosen E A bp b \<and> names_backup b2 b)" using assms by blast
qed (simp add: assms)

lemma verified_emits:
  assumes "advanced E A bp b" "names_backup b selected" "chosen E A bp selected"
    "\<not> deleting (bp_Meta bp)" "\<not> bpp_Suspend (bp_Spec bp)"
  shows "emits (verified E A b bp) (pointer_request E A bp) (\<lambda>_. True)"
  unfolding verified_def
  by (intro pointerTime_quiet current_emits [where selected = selected] advanced_alike [OF assms(1)] names_alike [OF assms(2)])
    (simp_all add: assms)

lemma needs_names: "\<not> needs_publish E b base selected \<Longrightarrow> names_backup b selected"
  by (auto simp: needs_publish_def names_backup_def split: option.splits)

lemma emits_bool: "(x \<Longrightarrow> emits m P R) \<Longrightarrow> (\<not> x \<Longrightarrow> emits n P R) \<Longrightarrow> emits (case x of True \<Rightarrow> m | False \<Rightarrow> n) P R"
  by (cases x) auto

text \<open>Whether an upload is needed after the store has been asked.\<close>

lemma head_emits:
  "emits (if needs then ret (Inr True)
     else andthen (query g) (\<lambda>r. case r of Inl e \<Rightarrow> ret (Inl e) | Inr md \<Rightarrow> ret (Inr (f md)))) P
     (\<lambda>r. needs \<longrightarrow> r = Inr True)"
  by (intro emits_if emits_andthen_query emits_sum emits_ret) auto

lemma publish_or_verify_emits:
  assumes "\<not> deleting (bp_Meta bp)" "\<not> bpp_Suspend (bp_Spec bp)" "before_upload bp b" "chosen E A bp selected"
    and needs: "\<not> needs \<Longrightarrow> names_backup b selected"
  shows "emits (publish_or_verify E A b bp selected needs) (pointer_request E A bp) (\<lambda>_. True)"
proof -
  have now_verified: "emits (andthen (setPointerCondition E A conditionPublished ''True'' ''Verified''
      ''the published pointer object matches its recorded ETag'' b) (\<lambda>b. verified E A b bp)) (pointer_request E A bp) (\<lambda>_. True)"
    if "\<not> needs"
    by (intro emits_pcondition verified_emits [where selected = selected] advanced_calike [OF before_advanced [OF assms(3)]]
        names_alike [OF needs [OF that]]) (auto simp: assms calike_def)
  have published: "emits (andthen (publishPointer E A b selected sto) (\<lambda>r. case r of
      Inl e \<Rightarrow> pointerPublicationFailed E A b bp e | Inr b \<Rightarrow> verified E A b bp)) (pointer_request E A bp) (\<lambda>_. True)"
    if "\<exists>v. fst (pointerStore E A bp v) = Inr sto" for sto
    by (intro emits_andthen [OF publish_emits [OF assms(1-4) that]] emits_sum failed_emits verified_emits [where selected = selected])
      (auto simp: assms)
  have same: "pointerStore E A b = pointerStore E A bp"
    using assms(3) by (auto simp: pointerStore_def before_upload_def fun_eq_iff)
  show ?thesis unfolding publish_or_verify_def same
    by (intro emits_andthen_query emits_andthen [OF head_emits] emits_sum failed_emits emits_bool published now_verified)
      (auto simp: assms split: prod.splits, metis fst_conv)
qed

lemma select_emits:
  assumes "\<not> deleting (bp_Meta bp)" "\<not> bpp_Suspend (bp_Spec bp)" "listed E A bp backups"
  shows "emits (select_pointer E A bp bp backups) (pointer_request E A bp) (\<lambda>_. True)"
proof -
  have chosen: "chosen E A bp selected" if "sel_Backup (LatestSucceeded (s3_candidates backups)) = Some selected" for selected
    using assms(3) that by (auto simp: chosen_def)
  have before: "before_upload bp b" if "calike (with_pstatus (\<lambda>s. s\<lparr>bpt_Backups := c\<rparr>) bp) b" for b c
    using that by (auto simp: before_upload_def calike_def)
  show ?thesis unfolding select_pointer_def Let_def
  proof (intro emits_option emits_andthen [OF noCandidate_alike] staleDelay_quiet written_request emits_prod emits_pcondition
      verify_due_quiet emits_if, goal_cases)
    case (1 b)
    then show ?case by (intro before_advanced) (simp add: before_upload_def)
  next
    case (4 selected reason msg b due)
    then show ?case
      by (intro publish_or_verify_emits assms(1,2) chosen before needs_names)
  next
    case (5 selected reason msg b due)
    then show ?case
      by (intro current_emits [where selected = selected] assms(1,2) before_advanced chosen before needs_names) auto
  qed (auto simp: assms)
qed

lemma pointerBackups_listed: "emits (pointerBackups E A bp) P (listed E A bp)"
  unfolding pointerBackups_def Let_def
proof (intro emits_andthen_lift emits_andthen_query emits_lift)
  fix sel w items backups
  assume "(case bps_Selector (bpp_Source (bp_Spec bp)) of None \<Rightarrow> Inr None | Some s \<Rightarrow> map_sum id Some (pa_selector A s)) = Inr sel"
    "fst (pa_list_backups A (om_Namespace (bp_Meta bp)) sel w) = Inr items"
    "decode_backups E (bpp_Source (bp_Spec bp)) items = Inr backups"
  moreover from this(1) have "case bps_Selector (bpp_Source (bp_Spec bp)) of None \<Rightarrow> sel = None
      | Some s \<Rightarrow> \<exists>t. pa_selector A s = Inr t \<and> sel = Some t"
    by (cases "bps_Selector (bpp_Source (bp_Spec bp))") (auto split: option.splits simp: map_sum_def split: sum.splits)
  ultimately show "listed E A bp backups" unfolding listed_def by blast
qed

lemma pointer_found_emits: "emits (reconcile_pointer_found E A bp) (pointer_request E A bp) (\<lambda>_. True)"
  unfolding reconcile_pointer_found_def
proof (intro emits_if emits_ret emits_pcondition emits_attempt [OF pointerBackups_listed] written_request, goal_cases)
  case (4 b)
  then show ?case by (simp add: calike_def shows_current_def)
next
  case (5 backups)
  then show ?case by (simp add: select_emits)
next
  case (6 e)
  then show ?case unfolding sum.case
    by (intro emits_pcondition emits_andthen [OF written_request(2)] emits_ret)
      (auto simp: calike_def advanced_def shows_current_def)
qed (auto simp: calike_def advanced_def)

section \<open>One upload\<close>

fun is_put :: "preq \<Rightarrow> bool" where
  "is_put (PPut target doc) = True"
| "is_put _ = False"

definition puts_at_most :: "nat \<Rightarrow> ('w, preq, 'e, 'a) eff \<Rightarrow> bool" where
  "puts_at_most n m \<longleftrightarrow> runs m (\<lambda>l _. length (filter is_put l) \<le> n)"

lemma puts_quiet: "emits m (\<lambda>q. \<not> is_put q) R \<Longrightarrow> puts_at_most n m"
  unfolding puts_at_most_def emits_def by (erule runs_conseq) (simp add: list_all_iff)

lemma puts_then:
  "emits m (\<lambda>q. \<not> is_put q) R \<Longrightarrow> (\<And>x. puts_at_most n (f x)) \<Longrightarrow> puts_at_most n (andthen m f)"
  unfolding puts_at_most_def emits_def
  by (erule runs_andthen) (auto simp: list_all_iff elim!: runs_conseq)

lemma puts_attempt:
  "emits m (\<lambda>q. \<not> is_put q) R \<Longrightarrow> (\<And>x. puts_at_most n (f x)) \<Longrightarrow> puts_at_most n (attempt m f)"
  unfolding puts_at_most_def emits_def
  by (erule runs_attempt) (auto simp: list_all_iff elim!: runs_conseq)

lemma puts_last:
  assumes "puts_at_most n m" "\<And>x. emits (f x) (\<lambda>q. \<not> is_put q) (\<lambda>_. True)"
  shows "puts_at_most n (andthen m f)"
  unfolding puts_at_most_def
  by (rule runs_andthen [OF assms(1) [unfolded puts_at_most_def]])
    (auto simp: list_all_iff intro: runs_conseq [OF assms(2) [unfolded emits_def]])

lemma puts_cases:
  "(\<And>e. puts_at_most n (f e)) \<Longrightarrow> (\<And>y. puts_at_most n (g y)) \<Longrightarrow> puts_at_most n (case r of Inl e \<Rightarrow> f e | Inr y \<Rightarrow> g y)"
  "puts_at_most n m \<Longrightarrow> (\<And>y. puts_at_most n (h y)) \<Longrightarrow> puts_at_most n (case x of None \<Rightarrow> m | Some y \<Rightarrow> h y)"
  "(b \<Longrightarrow> puts_at_most n m) \<Longrightarrow> (\<not> b \<Longrightarrow> puts_at_most n m') \<Longrightarrow> puts_at_most n (if b then m else m')"
  "(\<And>a c. puts_at_most n (k a c)) \<Longrightarrow> puts_at_most n (case p of (a, c) \<Rightarrow> k a c)"
  "puts_at_most n m \<Longrightarrow> puts_at_most n m' \<Longrightarrow> puts_at_most n (case b of True \<Rightarrow> m | False \<Rightarrow> m')"
  by (cases r; cases x; cases b; cases p; simp)+

lemma status_only:
  "emits (patchPointerStatus A b base) (\<lambda>q. \<not> is_put q) (\<lambda>_. True)"
  "emits (written A b base result) (\<lambda>q. \<not> is_put q) (\<lambda>_. True)"
proof -
  show patch: "emits (patchPointerStatus A b base) (\<lambda>q. \<not> is_put q) (\<lambda>_. True)"
    unfolding patchPointerStatus_def Let_def by (intro emits_if emits_attempt_request emits_sum emits_ret) auto
  show "emits (written A b base result) (\<lambda>q. \<not> is_put q) (\<lambda>_. True)"
    unfolding written_def by (intro emits_andthen [OF patch] emits_ret) simp
qed

lemma closing_only:
  "emits (pointer_current E A b base) (\<lambda>q. \<not> is_put q) (\<lambda>_. True)"
  "emits (verified E A b base) (\<lambda>q. \<not> is_put q) (\<lambda>_. True)"
  "emits (pointerPublicationFailed E A b base e) (\<lambda>q. \<not> is_put q) (\<lambda>_. True)"
proof -
  show current: "emits (pointer_current E A b base) (\<lambda>q. \<not> is_put q) (\<lambda>_. True)" for b
    unfolding pointer_current_def Let_def by (intro emits_freshness emits_pcondition nextDelay_quiet status_only)
  show "emits (verified E A b base) (\<lambda>q. \<not> is_put q) (\<lambda>_. True)"
    unfolding verified_def by (intro pointerTime_quiet current)
  show "emits (pointerPublicationFailed E A b base e) (\<lambda>q. \<not> is_put q) (\<lambda>_. True)"
    unfolding pointerPublicationFailed_def by (intro emits_prod emits_pcondition emits_freshness status_only)
qed

lemma publish_once: "puts_at_most 1 (publishPointer E A b selected sto)"
proof -
  have one: "puts_at_most 1 (request q f)" for q and f :: "'a \<Rightarrow> ('e + 'b) \<times> 'a"
    unfolding puts_at_most_def by (rule runs_request) simp
  have "emits (pointerTime A) P (\<lambda>_. True)" for P :: "preq \<Rightarrow> bool"
    unfolding pointerTime_def by (rule emits_query) simp
  then show ?thesis unfolding publishPointer_def
    by (intro puts_then puts_cases puts_quiet [OF emits_ret] puts_last [OF one] emits_sum emits_ret emits_pcondition) auto
qed

lemma publish_or_verify_once: "puts_at_most 1 (publish_or_verify E A b base selected needs)"
  unfolding publish_or_verify_def
  by (intro puts_then [OF emits_query] puts_then [OF head_emits] puts_then [OF pcondition_last] puts_cases
      puts_quiet [OF closing_only(2)] puts_quiet [OF closing_only(3)] puts_last [OF publish_once] emits_sum closing_only) auto

lemma pointer_found_once: "puts_at_most 1 (reconcile_pointer_found E A bp)"
proof -
  have due: "emits (verify_due A b) P (\<lambda>_. True)" for b and P :: "preq \<Rightarrow> bool"
    unfolding verify_due_def pointerTime_def by (intro emits_option emits_ret emits_andthen_query) auto
  have "puts_at_most 1 (select_pointer E A bp bp backups)" for backups
    unfolding select_pointer_def Let_def
    by (intro puts_cases puts_then [OF pcondition_last] puts_then [OF due] publish_or_verify_once puts_quiet [OF closing_only(1)]
        puts_quiet [where R = "\<lambda>_. True"] emits_andthen [OF noCandidate_alike] staleDelay_quiet status_only)
  then show ?thesis unfolding reconcile_pointer_found_def
    by (intro puts_cases puts_attempt [OF pointerBackups_listed] puts_then [OF pcondition_last] puts_then [OF status_only(1)]
        puts_quiet [OF status_only(2)] puts_quiet [OF emits_ret]) auto
qed

lemma Reconcile_pointer_reads:
  assumes "Reconcile_pointer E A ns name \<lparr>world = w, log = []\<rparr> = (r, s')" "log s' \<noteq> []"
  obtains bp r' s'' where "fst (pa_get A ns name w) = Inr bp"
    "reconcile_pointer_found E A bp \<lparr>world = snd (pa_get A ns name w), log = []\<rparr> = (r', s'')" "log s'' = log s'"
proof (cases "pa_get A ns name w")
  case (Pair x w')
  note defs = Reconcile_pointer_def reconcilePointer_def andthen_def attempt_def query_def ret_def
  show ?thesis
  proof (cases x)
    case (Inl e)
    then have "log s' = []" using assms(1) Pair by (auto simp: defs split: if_splits prod.splits)
    then show ?thesis using assms(2) by simp
  next
    case (Inr bp)
    obtain r' s'' where found: "reconcile_pointer_found E A bp \<lparr>world = w', log = []\<rparr> = (r', s'')" by fastforce
    then have "log s'' = log s'" using assms(1) Pair Inr
      by (cases r') (auto simp: defs split: if_splits prod.splits)
    then show ?thesis using that found Pair Inr by simp
  qed
qed

lemma pointer_document_of:
  assumes "pointer_document L bp b now = Inr doc"
  shows "Validate_document L doc = Inr ()" "d_Name doc = om_Name (bv_Meta b)" "d_Destination doc = bst_Destination (bv_Status b)"
    "d_SchemaVersion doc = SchemaVersion"
  using assms by (auto simp: pointer_document_def Let_def bindr_def split: sum.splits if_splits option.splits)

lemma next_delay_bounds: "1 \<le> next_delay remaining staleIn \<and> (0 < remaining \<longrightarrow> next_delay remaining staleIn \<le> remaining) \<and>
    (0 < staleIn \<longrightarrow> next_delay remaining staleIn \<le> staleIn)"
  by (auto simp: next_delay_def Let_def)

lemma pointer_requests:
  assumes "Reconcile_pointer E A ns name \<lparr>world = w, log = []\<rparr> = (r, s')" "q \<in> set (log s')"
  shows "\<exists>bp. fst (pa_get A ns name w) = Inr bp \<and> pointer_request E A bp q \<and> length (filter is_put (log s')) \<le> 1"
proof -
  have "log s' \<noteq> []" using assms(2) by auto
  then obtain bp r' s'' where found: "fst (pa_get A ns name w) = Inr bp"
      "reconcile_pointer_found E A bp \<lparr>world = snd (pa_get A ns name w), log = []\<rparr> = (r', s'')" "log s'' = log s'"
    using Reconcile_pointer_reads [OF assms(1)] by metis
  have "pointer_request E A bp q"
    by (rule emits_trace [OF pointer_found_emits found(2)]) (simp add: found(3) assms(2))
  moreover have "length (filter is_put (log s')) \<le> 1"
    using runs_trace [OF pointer_found_once [unfolded puts_at_most_def] found(2)] found(3) by simp
  ultimately show ?thesis using found(1) by blast
qed

section \<open>Properties\<close>

text \<open>C15 (safety).  Whatever the API server and the store answer, a reconcile uploads at most one
  document, to the target of the BackupPointer it has read, which is neither deleted nor
  suspended.  The document passes validation and names a succeeded backup with an S3 destination
  and a completion time among the backups listed for the source cluster, none of which is newer.\<close>

theorem pointer_uploads_latest:
  assumes "Reconcile_pointer E A ns name \<lparr>world = w, log = []\<rparr> = (r, s')" "PPut target doc \<in> set (log s')"
  shows "\<exists>bp backups selected. fst (pa_get A ns name w) = Inr bp \<and> \<not> deleting (bp_Meta bp) \<and> \<not> bpp_Suspend (bp_Spec bp) \<and>
    target = bpp_Target (bp_Spec bp) \<and> length (filter is_put (log s')) = 1 \<and> Validate_document (pe_klib E) doc = Inr () \<and>
    d_Name doc = om_Name (bv_Meta selected) \<and> d_Destination doc = bst_Destination (bv_Status selected) \<and>
    listed E A bp backups \<and> selected \<in> set backups \<and> publishable selected \<and>
    list_all (\<lambda>b. publishable b \<longrightarrow> \<not> newerBackup b selected) backups"
proof -
  from pointer_requests [OF assms] obtain bp where bp: "fst (pa_get A ns name w) = Inr bp" "pointer_request E A bp (PPut target doc)"
      and once: "length (filter is_put (log s')) \<le> 1" by blast
  from bp(2) obtain selected now where req: "\<not> deleting (bp_Meta bp)" "\<not> bpp_Suspend (bp_Spec bp)" "target = bpp_Target (bp_Spec bp)"
      "chosen E A bp selected" "pointer_document (pe_klib E) bp selected now = Inr doc" by auto
  have "filter is_put (log s') \<noteq> []" using assms(2) by (force simp: filter_empty_conv)
  then have "length (filter is_put (log s')) = 1" using once by (simp add: le_Suc_eq)
  moreover obtain backups where "listed E A bp backups" "selected \<in> set backups" "publishable selected"
      "list_all (\<lambda>b. publishable b \<longrightarrow> \<not> newerBackup b selected) backups" using chosen_newest [OF req(4)] by blast
  ultimately show ?thesis using bp(1) req(1-3) pointer_document_of [OF req(5)]
    by (intro exI [of _ bp] exI [of _ backups] exI [of _ selected]) simp
qed

text \<open>C16 (functional).  Every status patch starts from the BackupPointer that was read and records its
  generation.  A status that says that the pointer is published names the newest listed backup; the
  published backup changes only to a chosen one whose document the store has accepted, under the
  returned ETag, and the one before becomes the previous one.\<close>

theorem pointer_status_sound:
  assumes "Reconcile_pointer E A ns name \<lparr>world = w, log = []\<rparr> = (r, s')" "PPatchStatus base bp' \<in> set (log s')"
  shows "fst (pa_get A ns name w) = Inr base \<and> bpt_ObservedGeneration (bp_Status bp') = om_Generation (bp_Meta base) \<and>
    (shows_current bp' \<longrightarrow> \<not> bpp_Suspend (bp_Spec base) \<and> (\<exists>b. chosen E A base b \<and> names_backup bp' b)) \<and>
    (bpt_Current (bp_Status bp') \<noteq> bpt_Current (bp_Status base) \<longrightarrow> (\<exists>b. chosen E A base b \<and> replaced E A base b bp'))"
proof -
  from pointer_requests [OF assms] obtain bp where "fst (pa_get A ns name w) = Inr bp" "pointer_request E A bp (PPatchStatus base bp')"
    by blast
  then show ?thesis by (auto simp: advanced_def)
qed

section \<open>Witnesses\<close>

definition ptr_backup :: BackupView where
  "ptr_backup = \<lparr>bv_Meta = empty_meta\<lparr>om_Name := ''full'', om_Namespace := ''db''\<rparr>,
     bv_Spec = \<lparr>bs_PXCCluster = ''shop'', bs_StorageName = ''s3''\<rparr>,
     bv_Status = \<lparr>bst_State = BackupSucceeded, bst_Destination = ''s3://backups/full'', bst_CompletedAt = Some 3,
       bst_Error = [], bst_StorageName = ''s3'', bst_S3 = None\<rparr>\<rparr>"

definition ptr_sample_env :: "unit ptr_env" where
  "ptr_sample_env = \<lparr>pe_klib = sample_klib\<lparr>nested_string := (\<lambda>_ _. Inr ''shop'')\<rparr>, pe_certs = sample_certlib, pe_minio = (\<lambda>_. None),
     pe_s3 = \<lparr>s3_put = (\<lambda>_ _ _ _ _ w. (Inr ''etag'', w)), s3_get = (\<lambda>_ _ _ _. Inl SNotFound), s3_stat = (\<lambda>_ _ _ _. Inl SNotFound)\<rparr>,
     pe_docwire = tiny_wire, pe_backup_conv = (\<lambda>_. Inr ptr_backup), pe_deadline = (\<lambda>_. False),
     pe_resolveStore = Some (\<lambda>_ _ w. (Inr \<lparr>sto_Head = (\<lambda>_ w. (Inl SNotFound, w)), sto_PutJSON = (\<lambda>_ _ w. (Inr ''etag'', w))\<rparr>, w))\<rparr>"

definition ptr_sample :: BackupPointer where
  "ptr_sample = \<lparr>bp_Meta = empty_meta\<lparr>om_Name := ''latest'', om_Namespace := ''db'', om_UID := ''up'', om_Generation := 1\<rparr>,
     bp_Spec = \<lparr>bpp_Source = \<lparr>bps_PXCCluster = ''shop'', bps_StorageNames = [], bps_Selector = None\<rparr>,
       bpp_Target = \<lparr>pt_ObjectStorage = sample_storage, pt_Key = ''latest.json'', pt_PublicURL = []\<rparr>,
       bpp_StaleAfter = None, bpp_VerifyInterval = None, bpp_Suspend = False\<rparr>,
     bp_Status = \<lparr>bpt_ObservedGeneration = 0, bpt_Phase = [], bpt_Conditions = [], bpt_Current = None, bpt_Previous = None,
       bpt_Backups = \<lparr>bc_Succeeded = 0, bc_Failed = 0, bc_Running = 0, bc_Starting = 0\<rparr>, bpt_NextVerifyTime = None\<rparr>\<rparr>"

definition ptr_sample_api :: "unit ptr_api" where
  "ptr_sample_api = \<lparr>pa_now = (\<lambda>w. (5, w)), pa_get = (\<lambda>_ _ w. (Inr ptr_sample, w)), pa_list = (\<lambda>_ w. (Inr [ptr_sample], w)),
     pa_selector = (\<lambda>_. Inr []),
     pa_list_backups = (\<lambda>_ _ w. (Inr [\<lparr>un_GVK = BackupGVK, un_Meta = bv_Meta ptr_backup, un_Tree = JNull\<rparr>], w)),
     pa_reader = (\<lambda>_. sample_reader), pa_tick = id, pa_patch_status = (\<lambda>_ _ w. (Inr (), w))\<rparr>"

definition ptr_run :: "(cerr + Result \<times> cerr list) \<times> (unit, preq) sys" where
  "ptr_run = Reconcile_pointer ptr_sample_env ptr_sample_api ''db'' ''latest'' \<lparr>world = (), log = []\<rparr>"

lemma ptr_run_eq:
  "Reconcile_pointer ptr_sample_env ptr_sample_api ''db'' ''latest'' \<lparr>world = (), log = []\<rparr> = (fst ptr_run, snd ptr_run)"
  by (simp add: ptr_run_def)

fun changes_current :: "preq \<Rightarrow> bool" where
  "changes_current (PPatchStatus base bp) \<longleftrightarrow> shows_current bp \<and> bpt_Current (bp_Status bp) \<noteq> bpt_Current (bp_Status base)"
| "changes_current _ = False"

lemma ptr_run_log:
  "map is_put (log (snd ptr_run)) = [True, False]" "map changes_current (log (snd ptr_run)) = [False, True]"
  by code_simp+

theorem pointer_uploads_latest_witness:
  "\<exists>backups selected. listed ptr_sample_env ptr_sample_api ptr_sample backups \<and> selected \<in> set backups \<and> publishable selected"
proof -
  obtain target doc where mem: "PPut target doc \<in> set (log (snd ptr_run))"
    using ptr_run_log(1) by (fastforce simp: map_eq_Cons_conv elim!: is_put.elims(2))
  have "fst (pa_get ptr_sample_api ''db'' ''latest'' ()) = Inr ptr_sample" by (simp add: ptr_sample_api_def)
  then show ?thesis using pointer_uploads_latest [OF ptr_run_eq mem] by auto
qed

theorem pointer_status_sound_witness:
  "\<exists>b bp'. chosen ptr_sample_env ptr_sample_api ptr_sample b \<and> replaced ptr_sample_env ptr_sample_api ptr_sample b bp'"
proof -
  obtain base bp' where mem: "PPatchStatus base bp' \<in> set (log (snd ptr_run))"
      "bpt_Current (bp_Status bp') \<noteq> bpt_Current (bp_Status base)"
    using ptr_run_log(2) by (fastforce simp: map_eq_Cons_conv elim!: changes_current.elims(2))
  have "fst (pa_get ptr_sample_api ''db'' ''latest'' ()) = Inr ptr_sample" by (simp add: ptr_sample_api_def)
  then show ?thesis using pointer_status_sound [OF ptr_run_eq mem(1)] mem(2) by auto
qed

end
