(* ===== verification/Policy_Controller.thy ===== *)
theory Policy_Controller
  imports Run_Resources
begin

text \<open>
  \<open>internal/controller/anonymizationpolicy_controller.go\<close>: one reconcile of an AnonymizationPolicy,
  which validates the policy and every object it refers to and records the verdict and the hash
  that a run later demands.  Objects are read with the uncached reader, which may be missing.
\<close>

abbreviation (input) "conditionPolicyValid \<equiv> ''Valid''"

definition policyRefreshInterval :: int where "policyRefreshInterval = 600000000000"

text \<open>An error of the packages below or of the API server.\<close>

datatype perr = PolGo gerr | PolKube kerr

datatype polreq = PolPatchStatus AnonymizationPolicy AnonymizationPolicy

record 'w pol_api =
  pl_now :: "'w \<Rightarrow> int \<times> 'w"
  pl_APIReader :: bool
  pl_get :: "string \<Rightarrow> string \<Rightarrow> 'w \<Rightarrow> (kerr + AnonymizationPolicy) \<times> 'w"
  pl_list :: "string \<Rightarrow> 'w \<Rightarrow> (kerr + AnonymizationPolicy list) \<times> 'w"
  pl_get_configmap :: "string \<Rightarrow> string \<Rightarrow> 'w \<Rightarrow> (kerr + ConfigMap) \<times> 'w"
  pl_get_secret :: "string \<Rightarrow> string \<Rightarrow> 'w \<Rightarrow> (kerr + Secret) \<times> 'w"
  pl_patch_status :: "AnonymizationPolicy \<Rightarrow> AnonymizationPolicy \<Rightarrow> 'w \<Rightarrow> (kerr + unit) \<times> 'w"

record pol_env =
  ple_klib :: klib
  ple_lib :: lib
  ple_re_ok :: "string \<Rightarrow> bool"
  ple_wire :: wire

type_synonym ('w, 'a) polact = "('w, polreq, perr, 'a) eff"

definition kube_call :: "('w \<Rightarrow> (kerr + 'a) \<times> 'w) \<Rightarrow> 'w \<Rightarrow> (perr + 'a) \<times> 'w" where
  "kube_call f w = (case f w of (r, w') \<Rightarrow> (map_sum PolKube id r, w'))"

fun is_ref_missing :: "perr \<Rightarrow> bool" where
  "is_ref_missing (PolGo e) = (ErrStepRefMissing \<in> set (err_tree e))"
| "is_ref_missing (PolKube k) = False"

definition perrs_conflict :: "perr list \<Rightarrow> bool" where
  "perrs_conflict es = (first_some (\<lambda>e. case e of PolKube k \<Rightarrow> Some k | PolGo _ \<Rightarrow> None) es = Some KConflict)"

section \<open>References\<close>

definition no_reader :: perr where
  "no_reader = PolGo (EPlain ''policy reference validation requires an APIReader'')"

definition ref_missing :: "string \<Rightarrow> perr" where
  "ref_missing msg = PolGo (EWrap msg ErrStepRefMissing)"

definition policyConfigMapKey :: "'w pol_api \<Rightarrow> string \<Rightarrow> KeySelector \<Rightarrow> ('w, unit) polact" where
  "policyConfigMapKey A ns ref =
     (if \<not> pl_APIReader A then fail no_reader
      else attempt (query (kube_call (pl_get_configmap A ns (sel_Name ref)))) (\<lambda>r. case r of
        Inl e \<Rightarrow> fail (if e = PolKube KNotFound then ref_missing ''ConfigMap not found'' else e)
      | Inr cm \<Rightarrow>
          if sel_Key ref |\<notin>| fmdom (cm_Data cm) \<and> sel_Key ref |\<notin>| fmdom (cm_BinaryData cm)
          then fail (ref_missing ''ConfigMap key not found'') else ret ()))"

definition policySecretKey :: "'w pol_api \<Rightarrow> string \<Rightarrow> KeySelector \<Rightarrow> ('w, unit) polact" where
  "policySecretKey A ns ref =
     (if \<not> pl_APIReader A then fail no_reader
      else attempt (query (kube_call (pl_get_secret A ns (sel_Name ref)))) (\<lambda>r. case r of
        Inl e \<Rightarrow> fail (if e = PolKube KNotFound then ref_missing ''Secret not found'' else e)
      | Inr secret \<Rightarrow>
          if sel_Key ref |\<notin>| fmdom (sec_Data secret) then fail (ref_missing ''Secret key not found'') else ret ()))"

definition when_some :: "('a \<Rightarrow> ('w, unit) polact) \<Rightarrow> 'a option \<Rightarrow> ('w, unit) polact" where
  "when_some f x = (case x of None \<Rightarrow> ret () | Some y \<Rightarrow> f y)"

definition column_value_from :: "ColumnRule \<Rightarrow> KeySelector option" where
  "column_value_from column = (case cr_Params column of None \<Rightarrow> None | Some p \<Rightarrow> ValueFrom p)"

definition validatePolicyReferences :: "'w pol_api \<Rightarrow> AnonymizationPolicy \<Rightarrow> ('w, unit) polact" where
  "validatePolicyReferences A policy =
     (let ns = om_Namespace (apo_Meta policy); spec = apo_Spec policy in
      andthen (foreach (\<lambda>step. andthen (when_some (policyConfigMapKey A ns) (st_ConfigMapKeyRef step)) (\<lambda>_.
        when_some (policySecretKey A ns) (st_SecretKeyRef step))) (ps_Steps spec)) (\<lambda>_.
      andthen (when_some (policySecretKey A ns) (ps_SeedSecretRef spec)) (\<lambda>_.
      foreach (\<lambda>database. foreach (\<lambda>table. foreach (\<lambda>column.
        when_some (policySecretKey A ns) (column_value_from column)) (tp_Columns table)) (dp_Tables database)) (ps_Databases spec))))"

section \<open>The reconcile\<close>

text \<open>Status, reason and message of the condition, from the validation error and the error that is
  returned for a retry.\<close>

definition policy_verdict :: "perr option \<Rightarrow> perr option \<Rightarrow> string \<times> string \<times> string" where
  "policy_verdict validationErr retryErr =
     (case validationErr of
        None \<Rightarrow> (''True'', ''SpecValid'', ''policy and all referenced keys are valid'')
      | Some e \<Rightarrow>
          if is_ref_missing e then (''False'', ''StepRefMissing'', ''a referenced step, object or key is unavailable'')
          else if retryErr \<noteq> None then (''False'', ''StepRefMissing'', ''referenced objects could not be checked'')
          else (''False'', ''PatternInvalid'', ''policy patterns or rules are invalid''))"

definition with_policy_status :: "klib \<Rightarrow> int \<Rightarrow> string \<Rightarrow> string \<times> string \<times> string \<Rightarrow> AnonymizationPolicy \<Rightarrow> AnonymizationPolicy" where
  "with_policy_status L now hash verdict policy =
     (case verdict of (st, reason, msg) \<Rightarrow> policy\<lparr>apo_Status := \<lparr>apt_Hash = hash,
        apt_Conditions = Set_condition L (apt_Conditions (apo_Status policy)) (om_Generation (apo_Meta policy)) now
          (condition conditionPolicyValid st reason msg)\<rparr>\<rparr>)"

definition write_policy_status ::
  "pol_env \<Rightarrow> 'w pol_api \<Rightarrow> AnonymizationPolicy \<Rightarrow> perr option \<Rightarrow> perr option \<Rightarrow> string \<Rightarrow> ('w, Result \<times> perr list) polact" where
  "write_policy_status E A base validationErr retryErr hash =
     andthen (query (\<lambda>w. case pl_now A w of (t, w') \<Rightarrow> (Inr t, w'))) (\<lambda>now.
     let policy = with_policy_status (ple_klib E) now hash (policy_verdict validationErr retryErr) base;
         retry = (case retryErr of None \<Rightarrow> [] | Some e \<Rightarrow> [e])
     in if apo_Status policy = apo_Status base then ret (after policyRefreshInterval, retry)
        else attempt (request (PolPatchStatus base policy) (kube_call (pl_patch_status A base policy))) (\<lambda>r.
          ret (after policyRefreshInterval, retry @ (case r of Inl e \<Rightarrow> [e] | Inr _ \<Rightarrow> []))))"

definition finish_policy ::
  "pol_env \<Rightarrow> 'w pol_api \<Rightarrow> AnonymizationPolicy \<Rightarrow> perr option \<Rightarrow> perr option \<Rightarrow> ('w, Result \<times> perr list) polact" where
  "finish_policy E A base validationErr retryErr =
     (case validationErr of
        Some _ \<Rightarrow> write_policy_status E A base validationErr retryErr []
      | None \<Rightarrow>
          (case Hash (ple_wire E) (apo_Spec base) of
             Inl e \<Rightarrow> ret (no_result, [PolGo e])
           | Inr h \<Rightarrow> write_policy_status E A base validationErr retryErr h))"

definition reconcile_policy_found :: "pol_env \<Rightarrow> 'w pol_api \<Rightarrow> AnonymizationPolicy \<Rightarrow> ('w, Result \<times> perr list) polact" where
  "reconcile_policy_found E A policy =
     (if deleting (apo_Meta policy) then ret (no_result, [])
      else case Validate_policy (ple_lib E) (ple_re_ok E) (apo_Spec policy) of
             Inl e \<Rightarrow> finish_policy E A policy (Some (PolGo e)) None
           | Inr _ \<Rightarrow>
               attempt (validatePolicyReferences A policy) (\<lambda>r. case r of
                 Inl e \<Rightarrow> finish_policy E A policy (Some e) (if is_ref_missing e then None else Some e)
               | Inr _ \<Rightarrow> finish_policy E A policy None None))"

definition reconcilePolicy :: "pol_env \<Rightarrow> 'w pol_api \<Rightarrow> string \<Rightarrow> string \<Rightarrow> ('w, Result \<times> perr list) polact" where
  "reconcilePolicy E A ns name =
     attempt (query (kube_call (pl_get A ns name))) (\<lambda>r. case r of
       Inl e \<Rightarrow> ret (no_result, if e = PolKube KNotFound then [] else [e])
     | Inr policy \<Rightarrow> reconcile_policy_found E A policy)"

definition Reconcile_policy :: "pol_env \<Rightarrow> 'w pol_api \<Rightarrow> string \<Rightarrow> string \<Rightarrow> ('w, Result \<times> perr list) polact" where
  "Reconcile_policy E A ns name =
     andthen (reconcilePolicy E A ns name) (\<lambda>(result, errs).
     if perrs_conflict errs then ret (no_result\<lparr>Requeue := True\<rparr>, []) else ret (result, errs))"

section \<open>Watches\<close>

definition uses_configmap :: "string \<Rightarrow> AnonymizationPolicy \<Rightarrow> bool" where
  "uses_configmap name policy =
     list_ex (\<lambda>step. case st_ConfigMapKeyRef step of None \<Rightarrow> False | Some ref \<Rightarrow> sel_Name ref = name) (ps_Steps (apo_Spec policy))"

definition mapConfigMapToPolicies :: "'w pol_api \<Rightarrow> ObjectMeta \<Rightarrow> ('w, (string \<times> string) list) polact" where
  "mapConfigMapToPolicies A obj =
     attempt (query (kube_call (pl_list A (om_Namespace obj)))) (\<lambda>r. case r of
       Inl _ \<Rightarrow> ret []
     | Inr items \<Rightarrow> ret (map (\<lambda>p. (om_Namespace (apo_Meta p), om_Name (apo_Meta p))) (filter (uses_configmap (om_Name obj)) items)))"

end
