(* ===== verification/Policy_Controller_Safety.thy ===== *)
theory Policy_Controller_Safety
  imports Policy_Controller Run_Properties
begin

text \<open>
  The verdict of the policy controller and the gate of the run controller: a run snapshots a
  policy exactly where the status that the policy controller wrote says that the policy and every
  object it refers to were found valid.
\<close>

section \<open>The references of a policy\<close>

definition config_refs :: "PolicySpec \<Rightarrow> KeySelector list" where
  "config_refs spec = List.map_filter st_ConfigMapKeyRef (ps_Steps spec)"

definition secret_refs :: "PolicySpec \<Rightarrow> KeySelector list" where
  "secret_refs spec = List.map_filter st_SecretKeyRef (ps_Steps spec) @ List.map_filter id [ps_SeedSecretRef spec] @
     List.map_filter column_value_from (concat (map tp_Columns (concat (map dp_Tables (ps_Databases spec)))))"

definition config_seen :: "'w pol_api \<Rightarrow> string \<Rightarrow> KeySelector \<Rightarrow> bool" where
  "config_seen A ns ref \<longleftrightarrow> (\<exists>w cm. fst (pl_get_configmap A ns (sel_Name ref) w) = Inr cm \<and>
     (sel_Key ref |\<in>| fmdom (cm_Data cm) \<or> sel_Key ref |\<in>| fmdom (cm_BinaryData cm)))"

definition secret_seen :: "'w pol_api \<Rightarrow> string \<Rightarrow> KeySelector \<Rightarrow> bool" where
  "secret_seen A ns ref \<longleftrightarrow> (\<exists>w secret. fst (pl_get_secret A ns (sel_Name ref) w) = Inr secret \<and> sel_Key ref |\<in>| fmdom (sec_Data secret))"

definition references_seen :: "'w pol_api \<Rightarrow> AnonymizationPolicy \<Rightarrow> bool" where
  "references_seen A policy \<longleftrightarrow>
     list_all (config_seen A (om_Namespace (apo_Meta policy))) (config_refs (apo_Spec policy)) \<and>
     list_all (secret_seen A (om_Namespace (apo_Meta policy))) (secret_refs (apo_Spec policy))"

lemma kube_call_ok: "fst (kube_call f w) = Inr x \<Longrightarrow> fst (f w) = Inr x"
  by (cases "f w"; cases "fst (f w)") (auto simp: kube_call_def)

lemma configMapKey_seen: "emits (policyConfigMapKey A ns ref) P (\<lambda>_. config_seen A ns ref)"
  unfolding policyConfigMapKey_def
  by (intro emits_if emits_fail emits_attempt_query emits_sum emits_ret) (auto simp: config_seen_def dest!: kube_call_ok)

lemma secretKey_seen: "emits (policySecretKey A ns ref) P (\<lambda>_. secret_seen A ns ref)"
  unfolding policySecretKey_def
  by (intro emits_if emits_fail emits_attempt_query emits_sum emits_ret) (auto simp: secret_seen_def dest!: kube_call_ok)

lemma when_some_seen: "(\<And>y. emits (f y) P (\<lambda>_. Q y)) \<Longrightarrow> emits (when_some f x) P (\<lambda>_. \<forall>y. x = Some y \<longrightarrow> Q y)"
  unfolding when_some_def by (cases x) (auto intro: emits_ret)

lemma foreach_seen: "(\<And>x. emits (f x) P (\<lambda>_. Q x)) \<Longrightarrow> emits (foreach f xs) P (\<lambda>_. list_all Q xs)"
proof (induction xs)
  case (Cons x xs)
  have "emits (foreach f xs) P (\<lambda>_. list_all Q (x # xs))" if "Q x"
    by (rule emits_conseq [OF Cons.IH [OF Cons.prems]]) (use that in simp)
  then show ?case unfolding foreach.simps by (intro emits_andthen [OF Cons.prems])
qed (simp add: emits_ret)

lemmas keys_seen = when_some_seen [OF configMapKey_seen] when_some_seen [OF secretKey_seen]

lemma step_seen:
  "emits (andthen (when_some (policyConfigMapKey A ns) c) (\<lambda>_. when_some (policySecretKey A ns) d)) P
     (\<lambda>_. (\<forall>y. c = Some y \<longrightarrow> config_seen A ns y) \<and> (\<forall>y. d = Some y \<longrightarrow> secret_seen A ns y))"
  by (rule emits_andthen [OF keys_seen(1)], rule emits_conseq [OF keys_seen(2)]) blast

lemma columns_seen:
  "emits (foreach (\<lambda>database. foreach (\<lambda>table. foreach (\<lambda>column. when_some (policySecretKey A ns) (column_value_from column))
     (tp_Columns table)) (dp_Tables database)) dbs) P
     (\<lambda>_. list_all (\<lambda>database. list_all (\<lambda>table. list_all (\<lambda>column. \<forall>y. column_value_from column = Some y \<longrightarrow> secret_seen A ns y)
        (tp_Columns table)) (dp_Tables database)) dbs)"
  by (intro foreach_seen keys_seen)

lemma references_quiet: "emits (validatePolicyReferences A policy) (\<lambda>_. False) (\<lambda>_. references_seen A policy)"
  unfolding validatePolicyReferences_def Let_def
  by (rule emits_andthen [OF foreach_seen [OF step_seen]], rule emits_andthen [OF keys_seen(2)], rule emits_conseq [OF columns_seen])
    (auto simp: references_seen_def config_refs_def secret_refs_def list_all_iff List.map_filter_def)

section \<open>The verdict\<close>

definition valid_verdict :: "pol_env \<Rightarrow> 'w pol_api \<Rightarrow> 'w \<Rightarrow> AnonymizationPolicy \<Rightarrow> bool" where
  "valid_verdict E A w policy \<longleftrightarrow> policy_wf (ple_lib E) (ple_re_ok E) (apo_Spec policy) \<and>
     is_ok (fst (validatePolicyReferences A policy \<lparr>world = w, log = []\<rparr>))"

text \<open>What a patch writes: the hash and a true condition, or no hash and a false one.\<close>

fun verdict_written :: "pol_env \<Rightarrow> AnonymizationPolicy \<Rightarrow> bool \<Rightarrow> polreq \<Rightarrow> bool" where
  "verdict_written E policy ok (PolPatchStatus base p) \<longleftrightarrow> base = policy \<and>
     (\<exists>now st reason msg hash. p = with_policy_status (ple_klib E) now hash (st, reason, msg) policy \<and>
       (if ok then st = ''True'' \<and> Hash (ple_wire E) (apo_Spec policy) = Inr hash else st = ''False'' \<and> hash = []))"

lemma write_status_verdict:
  assumes "if ok then verr = None \<and> Hash (ple_wire E) (apo_Spec policy) = Inr hash else verr \<noteq> None \<and> hash = []"
  shows "emits (write_policy_status E A policy verr retry hash) (verdict_written E policy ok) (\<lambda>_. True)"
proof -
  obtain st reason msg where v: "policy_verdict verr retry = (st, reason, msg)" by (metis prod_cases3)
  then have "st = (if ok then ''True'' else ''False'')" using assms
    by (auto simp: policy_verdict_def split: option.splits if_splits)
  then have "verdict_written E policy ok (PolPatchStatus policy
      (with_policy_status (ple_klib E) now hash (policy_verdict verr retry) policy))" for now
    using assms v by (auto split: if_splits)
  then show ?thesis unfolding write_policy_status_def Let_def
    by (intro emits_andthen_query emits_if emits_ret emits_attempt_request) auto
qed

lemma finish_verdict:
  "emits (finish_policy E A policy verr retry) (verdict_written E policy (verr = None)) (\<lambda>_. True)"
  unfolding finish_policy_def by (intro emits_option emits_sum emits_ret write_status_verdict) auto

lemma found_verdict:
  assumes "reconcile_policy_found E A policy \<lparr>world = w, log = []\<rparr> = (r, s')" "q \<in> set (log s')"
  shows "\<not> deleting (apo_Meta policy) \<and> verdict_written E policy (valid_verdict E A w policy) q \<and>
    (valid_verdict E A w policy \<longrightarrow> references_seen A policy)"
proof -
  have live: "\<not> deleting (apo_Meta policy)"
    using assms by (auto simp: reconcile_policy_found_def ret_def)
  obtain x s1 where refs: "validatePolicyReferences A policy \<lparr>world = w, log = []\<rparr> = (x, s1)" by fastforce
  have quiet: "s1 = \<lparr>world = world s1, log = []\<rparr>" and seen: "is_ok x \<Longrightarrow> references_seen A policy"
    using runs_trace [OF references_quiet [unfolded emits_def] refs] by (auto simp: is_ok_iff list_all_iff)
  have ok: "valid_verdict E A w policy \<longleftrightarrow> Validate_policy (ple_lib E) (ple_re_ok E) (apo_Spec policy) = Inr () \<and> is_ok x"
    using refs by (simp add: valid_verdict_def Validate_policy_ok)
  have "verdict_written E policy (valid_verdict E A w policy) q"
  proof (cases "Validate_policy (ple_lib E) (ple_re_ok E) (apo_Spec policy)")
    case (Inl e)
    then have "finish_policy E A policy (Some (PolGo e)) None \<lparr>world = w, log = []\<rparr> = (r, s')"
      using assms(1) live by (simp add: reconcile_policy_found_def)
    from emits_trace [OF finish_verdict this assms(2)] show ?thesis using ok Inl by simp
  next
    case (Inr u)
    then have run: "(case x of Inl e \<Rightarrow> finish_policy E A policy (Some e) (if is_ref_missing e then None else Some e)
        | Inr _ \<Rightarrow> finish_policy E A policy None None) s1 = (r, s')"
      using assms(1) live refs by (simp add: reconcile_policy_found_def attempt_def)
    show ?thesis
    proof (cases x)
      case (Inl e)
      have "finish_policy E A policy (Some e) (if is_ref_missing e then None else Some e) \<lparr>world = world s1, log = []\<rparr> = (r, s')"
        using run Inl quiet by simp
      from emits_trace [OF finish_verdict this assms(2)] show ?thesis using ok Inl by simp
    next
      case (Inr u')
      have "finish_policy E A policy None None \<lparr>world = world s1, log = []\<rparr> = (r, s')" using run Inr quiet by simp
      from emits_trace [OF finish_verdict this assms(2)] show ?thesis
        using ok Inr \<open>Validate_policy _ _ _ = Inr u\<close> by simp
    qed
  qed
  then show ?thesis using live seen ok by blast
qed

section \<open>Properties\<close>

text \<open>\<open>meta.SetStatusCondition\<close> as documented: the condition is found again under its type, with the
  status and the generation that were set.\<close>

definition condition_found :: "klib \<Rightarrow> bool" where
  "condition_found L \<longleftrightarrow> (\<forall>cs c. \<exists>c'. find_condition L (set_status_condition L cs c) (cond_Type c) = Some c' \<and>
     cond_Status c' = cond_Status c \<and> cond_ObservedGeneration c' = cond_ObservedGeneration c)"

text \<open>The libraries of the two controllers are the same.\<close>

definition same_libraries :: "'w run_env \<Rightarrow> pol_env \<Rightarrow> bool" where
  "same_libraries R E \<longleftrightarrow> e_klib R = ple_klib E \<and> e_lib R = ple_lib E \<and> e_re_ok R = ple_re_ok E \<and> e_wire R = ple_wire E"

lemma snapshot_of_verdict:
  assumes "condition_found (ple_klib E)" "same_libraries R E" "verdict_written E policy ok (PolPatchStatus base p)"
    "ok \<Longrightarrow> policy_wf (ple_lib E) (ple_re_ok E) (apo_Spec policy)"
  shows "is_ok (policy_snapshot R p) = ok"
proof -
  obtain now st reason msg hash where p: "p = with_policy_status (ple_klib E) now hash (st, reason, msg) policy"
    and h: "if ok then st = ''True'' \<and> Hash (ple_wire E) (apo_Spec policy) = Inr hash else st = ''False'' \<and> hash = []"
    using assms(3) by auto
  obtain c where c: "find_condition (ple_klib E) (apt_Conditions (apo_Status p)) ''Valid'' = Some c" "cond_Status c = st"
      "cond_ObservedGeneration c = om_Generation (apo_Meta p)"
    using assms(1) [unfolded condition_found_def, rule_format, of "apt_Conditions (apo_Status policy)"
        "(condition ''Valid'' st reason msg)\<lparr>cond_ObservedGeneration := om_Generation (apo_Meta policy), cond_LastTransitionTime := now\<rparr>"]
    by (auto simp: p with_policy_status_def Set_condition_def condition_def)
  have spec: "apo_Spec p = apo_Spec policy" "apt_Hash (apo_Status p) = hash" using p by (auto simp: with_policy_status_def)
  show ?thesis
  proof (cases ok)
    case True
    then have "Snapshot (ple_lib E) (ple_re_ok E) (ple_wire E) (apo_Spec policy) = Inr (x, hash)"
      if "marshal (ple_wire E) (apo_Spec policy) = Inr x" for x
      using assms(4) h that by (simp add: Snapshot_def Hash_def Validate_policy_ok [symmetric] bindr_def)
    moreover obtain x where "marshal (ple_wire E) (apo_Spec policy) = Inr x"
      using h True by (auto simp: Hash_def split: sum.splits)
    ultimately show ?thesis using c spec h True assms(2) by (simp add: policy_snapshot_def same_libraries_def)
  next
    case False
    then show ?thesis using c h assms(2) by (auto simp: policy_snapshot_def same_libraries_def Let_def split: sum.splits)
  qed
qed


section \<open>Witness\<close>

lemma sample_condition_found: "condition_found sample_klib"
proof -
  have "\<exists>c'. find (\<lambda>d. cond_Type d = cond_Type c) (upsert_condition cs c) = Some c' \<and> cond_Status c' = cond_Status c \<and>
      cond_ObservedGeneration c' = cond_ObservedGeneration c" for cs c
  proof (cases "list_ex (\<lambda>d. cond_Type d = cond_Type c) cs")
    case True
    let ?f = "\<lambda>d. if cond_Type d = cond_Type c then (if cond_Status d = cond_Status c
      then c\<lparr>cond_LastTransitionTime := cond_LastTransitionTime d\<rparr> else c) else d"
    have "\<exists>c'. find (\<lambda>d. cond_Type d = cond_Type c) (map ?f cs) = Some c' \<and> cond_Status c' = cond_Status c \<and>
        cond_ObservedGeneration c' = cond_ObservedGeneration c"
      using True by (induction cs) auto
    then show ?thesis using True by (simp add: upsert_condition_def)
  next
    case False
    then have "find (\<lambda>d. cond_Type d = cond_Type c) (cs @ [c]) = Some c" by (induction cs) auto
    then show ?thesis using False by (simp add: upsert_condition_def)
  qed
  then show ?thesis by (simp add: condition_found_def sample_klib_def)
qed

definition pol_sample_env :: pol_env where
  "pol_sample_env = \<lparr>ple_klib = sample_klib, ple_lib = sample_lib, ple_re_ok = (\<lambda>_. True), ple_wire = demo_wire\<rparr>"

definition pol_sample :: AnonymizationPolicy where
  "pol_sample = \<lparr>apo_Meta = empty_meta\<lparr>om_Name := ''shop'', om_Namespace := ''shop'', om_Generation := 3\<rparr>,
     apo_Spec = demo_spec\<lparr>ps_Steps := [\<lparr>st_Name = ''purge'', st_ConfigMapKeyRef = Some \<lparr>sel_Name = ''sql'', sel_Key = ''purge.sql'', sel_Optional = None\<rparr>,
       st_SecretKeyRef = None, st_ContinueOnError = False\<rparr>]\<rparr>,
     apo_Status = \<lparr>apt_Hash = [], apt_Conditions = []\<rparr>\<rparr>"

definition pol_sample_api :: "unit pol_api" where
  "pol_sample_api = \<lparr>pl_now = (\<lambda>w. (5, w)), pl_APIReader = True, pl_get = (\<lambda>_ _ w. (Inr pol_sample, w)), pl_list = (\<lambda>_ w. (Inr [pol_sample], w)),
     pl_get_configmap = (\<lambda>ns name w. (Inr \<lparr>cm_Meta = empty_meta\<lparr>om_Name := name, om_Namespace := ns\<rparr>, cm_Immutable = None,
       cm_Data = fmap_of_list [(''purge.sql'', ''DELETE FROM carts'')], cm_BinaryData = fmempty\<rparr>, w)),
     pl_get_secret = (\<lambda>ns name w. (Inl KNotFound, w)), pl_patch_status = (\<lambda>_ _ w. (Inr (), w))\<rparr>"

definition pol_run :: "(perr + Result \<times> perr list) \<times> (unit, polreq) sys" where
  "pol_run = Reconcile_policy pol_sample_env pol_sample_api ''shop'' ''shop'' \<lparr>world = (), log = []\<rparr>"

lemma pol_run_log: "length (log (snd pol_run)) = 1"
  "Validate_policy sample_lib (\<lambda>_. True) (apo_Spec pol_sample) = Inr ()"
  "is_ok (fst (validatePolicyReferences pol_sample_api pol_sample \<lparr>world = (), log = []\<rparr>))"
  by code_simp+

lemma pol_sample_valid: "valid_verdict pol_sample_env pol_sample_api () pol_sample"
  using pol_run_log(2,3) by (simp add: valid_verdict_def pol_sample_env_def Validate_policy_ok)


end
