(* ===== verification/Metrics.thy ===== *)
theory Metrics
  imports Run_Resources
begin

text \<open>
  \<open>internal/metrics\<close> and the observations that the run controller hands to it.  The registry is a
  finite map from a family with its label values to a value; the first two labels are the
  namespace and the name of the object.  A series is set, deleted by its labels, or deleted with all
  series of a family that share namespace and name, as the vectors of the Prometheus client do.
\<close>

section \<open>The registry\<close>

datatype family = PublishedTime | SourceBackupTime | Candidates | PointerConditionTransition | PublishAttempts
  | RunPhase | TablesDone | TablesExpected | RowsDone | RowsExpected | StepDuration | StartTime | CompletionTime
  | Attempts | RunConditionTransition | TempClusterPresent

text \<open>What a sample shows: an integer, or a duration in seconds.\<close>

datatype sample = FloatOf int | SecondsOf int

type_synonym series = "family \<times> string list"
type_synonym registry = "(series, sample) fmap"

definition set_sample :: "family \<Rightarrow> string list \<Rightarrow> sample \<Rightarrow> registry \<Rightarrow> registry" where
  "set_sample f labels v R = fmupd (f, labels) v R"

definition DeleteLabelValues :: "family \<Rightarrow> string list \<Rightarrow> registry \<Rightarrow> registry" where
  "DeleteLabelValues f labels R = fmdrop (f, labels) R"

definition belongs :: "string \<Rightarrow> string \<Rightarrow> series \<Rightarrow> bool" where
  "belongs ns name s \<longleftrightarrow> take 2 (snd s) = [ns, name]"

definition DeletePartialMatch :: "string \<Rightarrow> string \<Rightarrow> family \<Rightarrow> registry \<Rightarrow> registry" where
  "DeletePartialMatch ns name f R = fmfilter (\<lambda>s. \<not> (fst s = f \<and> belongs ns name s)) R"

definition pointerGauges :: "family list" where
  "pointerGauges = [PublishedTime, SourceBackupTime, Candidates, PointerConditionTransition]"

definition runGauges :: "family list" where
  "runGauges = [RunPhase, TablesDone, TablesExpected, RowsDone, RowsExpected, StepDuration, StartTime, CompletionTime, Attempts,
     RunConditionTransition, TempClusterPresent]"

definition unix :: "int \<Rightarrow> int" where
  "unix t = t div 1000000000"

section \<open>Backup pointers\<close>

definition recordPointerTimestamp :: "family \<Rightarrow> string \<Rightarrow> string \<Rightarrow> int option \<Rightarrow> registry \<Rightarrow> registry" where
  "recordPointerTimestamp f ns name timestamp R =
     (case timestamp of
        None \<Rightarrow> DeleteLabelValues f [ns, name] R
      | Some t \<Rightarrow> if t = zero_time then DeleteLabelValues f [ns, name] R else set_sample f [ns, name] (FloatOf (unix t)) R)"

text \<open>The loop over the conditions.\<close>

definition record_condition :: "family \<Rightarrow> string \<Rightarrow> string \<Rightarrow> registry \<Rightarrow> Condition \<Rightarrow> registry" where
  "record_condition f ns name R c =
     (if cond_LastTransitionTime c = zero_time then R
      else set_sample f [ns, name, cond_Type c, cond_Status c] (FloatOf (unix (cond_LastTransitionTime c))) R)"

definition RecordBackupPointer :: "BackupPointer \<Rightarrow> registry \<Rightarrow> registry" where
  "RecordBackupPointer bp R =
     (let ns = om_Namespace (bp_Meta bp); name = om_Name (bp_Meta bp); cur = bpt_Current (bp_Status bp);
          R = recordPointerTimestamp PublishedTime ns name (case cur of None \<Rightarrow> None | Some c \<Rightarrow> pb_PublishedAt c) R;
          R = recordPointerTimestamp SourceBackupTime ns name (case cur of None \<Rightarrow> None | Some c \<Rightarrow> pb_CompletedAt c) R;
          R = DeletePartialMatch ns name PointerConditionTransition R
      in foldl (record_condition PointerConditionTransition ns name) R (bpt_Conditions (bp_Status bp)))"

definition RecordBackupPointerCandidates :: "BackupPointer \<Rightarrow> registry \<Rightarrow> registry" where
  "RecordBackupPointerCandidates bp R =
     (let ns = om_Namespace (bp_Meta bp); name = om_Name (bp_Meta bp); counts = bpt_Backups (bp_Status bp)
      in foldl (\<lambda>R (st, n). set_sample Candidates [ns, name, st] (FloatOf n) R) R
           [(''Starting'', bc_Starting counts), (''Running'', bc_Running counts), (''Failed'', bc_Failed counts),
            (''Succeeded'', bc_Succeeded counts)])"

definition counter_value :: "sample option \<Rightarrow> int" where
  "counter_value v = (case v of Some (FloatOf n) \<Rightarrow> n | _ \<Rightarrow> 0)"

definition RecordBackupPointerPublish :: "string \<Rightarrow> string \<Rightarrow> bool \<Rightarrow> registry \<Rightarrow> registry" where
  "RecordBackupPointerPublish ns name success R =
     (let labels = [ns, name, if success then ''success'' else ''error'']
      in set_sample PublishAttempts labels (FloatOf (counter_value (fmlookup R (PublishAttempts, labels)) + 1)) R)"

definition ForgetBackupPointer :: "string \<Rightarrow> string \<Rightarrow> registry \<Rightarrow> registry" where
  "ForgetBackupPointer ns name R =
     DeletePartialMatch ns name PublishAttempts (foldl (\<lambda>R f. DeletePartialMatch ns name f R) R pointerGauges)"

section \<open>Runs\<close>

abbreviation (input) "RunStepRestore \<equiv> ''restore''"
abbreviation (input) "RunStepAnonymize \<equiv> ''anonymize''"
abbreviation (input) "RunStepBackup \<equiv> ''backup''"
abbreviation (input) "RunStepPublish \<equiv> ''publish''"
abbreviation (input) "RunStepCleanup \<equiv> ''cleanup''"

record RunObservation =
  ob_TempClusterPresent :: "bool option"
  ob_StepDurations :: "(string, int) fmap"
  ob_RowsTotal :: "int option"

definition ForgetRun :: "string \<Rightarrow> string \<Rightarrow> registry \<Rightarrow> registry" where
  "ForgetRun ns name R = foldl (\<lambda>R f. DeletePartialMatch ns name f R) R runGauges"

definition record_step :: "string \<Rightarrow> string \<Rightarrow> (string, int) fmap \<Rightarrow> registry \<Rightarrow> string \<Rightarrow> registry" where
  "record_step ns name durations R step =
     (case fmlookup durations step of
        None \<Rightarrow> R
      | Some d \<Rightarrow> if d \<ge> 0 then set_sample StepDuration [ns, name, step] (SecondsOf d) R else R)"

definition record_progress :: "string \<Rightarrow> string \<Rightarrow> AnonymizeStatus option \<Rightarrow> registry \<Rightarrow> registry" where
  "record_progress ns name anonymize R =
     (case anonymize of
        None \<Rightarrow> R
      | Some a \<Rightarrow>
          let R = set_sample Attempts [ns, name] (FloatOf (as_Attempts a)) R in
          case as_Progress a of
            None \<Rightarrow> R
          | Some p \<Rightarrow> set_sample RowsDone [ns, name] (FloatOf (ap_RowsDone p))
              (set_sample TablesExpected [ns, name] (FloatOf (ap_TablesTotal p))
                (set_sample TablesDone [ns, name] (FloatOf (ap_TablesDone p)) R)))"

definition RecordRun :: "AnonymizationRun \<Rightarrow> RunObservation \<Rightarrow> registry \<Rightarrow> registry" where
  "RecordRun run observation R =
     (let ns = om_Namespace (run_Meta run); name = om_Name (run_Meta run); st = run_Status run;
          R = ForgetRun ns name R;
          R = (if rst_Phase st \<noteq> [] then set_sample RunPhase [ns, name, rst_Phase st] (FloatOf 1) R else R);
          R = recordPointerTimestamp StartTime ns name (rst_StartedAt st) R;
          R = recordPointerTimestamp CompletionTime ns name (rst_CompletedAt st) R;
          R = foldl (record_condition RunConditionTransition ns name) R (rst_Conditions st);
          R = record_progress ns name (rst_Anonymize st) R;
          R = (case ob_RowsTotal observation of None \<Rightarrow> R | Some n \<Rightarrow> set_sample RowsExpected [ns, name] (FloatOf n) R);
          R = foldl (record_step ns name (ob_StepDurations observation)) R
                [RunStepRestore, RunStepAnonymize, RunStepBackup, RunStepPublish, RunStepCleanup]
      in case ob_TempClusterPresent observation of
           None \<Rightarrow> R
         | Some present \<Rightarrow> set_sample TempClusterPresent [ns, name] (FloatOf (if present then 1 else 0)) R)"

section \<open>The observations of the run controller\<close>

definition add_duration :: "string \<Rightarrow> int option \<Rightarrow> int option \<Rightarrow> (string, int) fmap \<Rightarrow> (string, int) fmap" where
  "add_duration step start stop durations =
     (case (start, stop) of
        (Some s, Some e) \<Rightarrow> if s \<noteq> zero_time \<and> e \<noteq> zero_time \<and> s \<le> e then fmupd step (sat64 (e - s)) durations else durations
      | _ \<Rightarrow> durations)"

definition true_since :: "klib \<Rightarrow> Condition list \<Rightarrow> string \<Rightarrow> int option" where
  "true_since L cs ty = (case find_condition L cs ty of
     None \<Rightarrow> None | Some c \<Rightarrow> if cond_Status c = ''True'' then Some (cond_LastTransitionTime c) else None)"

definition runMetricDurations :: "klib \<Rightarrow> AnonymizationRun \<Rightarrow> (string, int) fmap" where
  "runMetricDurations L run =
     (let st = run_Status run; cs = rst_Conditions st; out = rst_Output st;
          D = (case rst_TempCluster st of
                 None \<Rightarrow> fmempty
               | Some temp \<Rightarrow> add_duration RunStepRestore (tcs_ReadyAt temp) (true_since L cs runConditionRestored) fmempty);
          D = (case rst_Anonymize st of
                 None \<Rightarrow> D
               | Some a \<Rightarrow>
                   let D = add_duration RunStepAnonymize (as_StartedAt a) (as_CompletedAt a) D in
                   case out of None \<Rightarrow> D | Some pb \<Rightarrow> add_duration RunStepBackup (as_CompletedAt a) (pb_CompletedAt pb) D)
      in case out of
           None \<Rightarrow> D
         | Some pb \<Rightarrow> add_duration RunStepPublish (true_since L cs runConditionBackedUp) (pb_PublishedAt pb) D)"

definition temp_present :: "klib \<Rightarrow> 'w run_api \<Rightarrow> AnonymizationRun \<Rightarrow> 'w \<Rightarrow> bool option \<times> 'w" where
  "temp_present L A run w =
     (case rst_TempCluster (run_Status run) of
        None \<Rightarrow> (None, w)
      | Some temp \<Rightarrow>
          if tcs_Name temp = [] \<or> \<not> a_has_reader A then (None, w)
          else case a_get_object A True ClusterGVK (run_ns run) (tcs_Name temp) w of
            (Inl e, w') \<Rightarrow> (if e = CKube KNotFound then Some False else None, w')
          | (Inr cluster, w') \<Rightarrow>
              (if tcs_UID temp \<noteq> [] \<and> om_UID (un_Meta cluster) = tcs_UID temp \<and> is_ok (runOwns L run (un_Meta cluster))
               then Some True else None, w'))"

definition recordRunMetrics :: "klib \<Rightarrow> 'w run_api \<Rightarrow> AnonymizationRun \<Rightarrow> registry \<times> 'w \<Rightarrow> registry \<times> 'w" where
  "recordRunMetrics L A run s =
     (case temp_present L A run (snd s) of (present, w') \<Rightarrow>
        (RecordRun run \<lparr>ob_TempClusterPresent = present, ob_StepDurations = runMetricDurations L run, ob_RowsTotal = None\<rparr> (fst s), w'))"

end
