(* ===== verification/Metrics_Safety.thy ===== *)
theory Metrics_Safety
  imports Metrics
begin

text \<open>
  What a scrape shows: for every object the observation that was recorded last, and nothing of an
  object that was forgotten or recorded anew.  The locale \<open>recorder\<close> proves it once for any history
  of records and removals; runs and backup pointers are its two instances.
\<close>

section \<open>Changes of a registry\<close>

text \<open>A change that touches only the series of \<open>P\<close> and looks at no other series.\<close>

definition writes :: "(series \<Rightarrow> bool) \<Rightarrow> (registry \<Rightarrow> registry) \<Rightarrow> bool" where
  "writes P g \<longleftrightarrow> (\<forall>R s. \<not> P s \<longrightarrow> fmlookup (g R) s = fmlookup R s) \<and>
     (\<forall>R R' s. fmlookup R s = fmlookup R' s \<longrightarrow> fmlookup (g R) s = fmlookup (g R') s)"

lemma writes_other: "writes P g \<Longrightarrow> \<not> P s \<Longrightarrow> fmlookup (g R) s = fmlookup R s" and
  writes_same: "writes P g \<Longrightarrow> fmlookup R s = fmlookup R' s \<Longrightarrow> fmlookup (g R) s = fmlookup (g R') s"
  unfolding writes_def by blast+

lemma writes_id: "writes P (\<lambda>R. R)"
  by (simp add: writes_def)

lemma writes_set: "P (f, labels) \<Longrightarrow> writes P (set_sample f labels v)"
  by (auto simp: writes_def set_sample_def)

lemma writes_delete: "P (f, labels) \<Longrightarrow> writes P (DeleteLabelValues f labels)"
  by (auto simp: writes_def DeleteLabelValues_def)

lemma writes_partial: "(\<And>s. fst s = f \<Longrightarrow> belongs ns name s \<Longrightarrow> P s) \<Longrightarrow> writes P (DeletePartialMatch ns name f)"
  unfolding writes_def DeletePartialMatch_def by auto

lemma writes_comp: "writes P g \<Longrightarrow> writes P h \<Longrightarrow> writes P (\<lambda>R. h (g R))"
  unfolding writes_def by metis

lemma writes_foldl:
  assumes "\<And>x. writes P (\<lambda>R. f R x)"
  shows "writes P (\<lambda>R. foldl f R xs)"
proof (induction xs rule: rev_induct)
  case (snoc x xs)
  then show ?case using writes_comp [OF snoc assms] by simp
qed (simp add: writes_id)

lemma belongs_labels [simp]: "belongs ns name (f, ns # name # extra)"
  by (simp add: belongs_def)

lemma writes_timestamp:
  assumes "P (f, [ns, name])"
  shows "writes P (recordPointerTimestamp f ns name t)"
proof -
  have "recordPointerTimestamp f ns name t = (case t of None \<Rightarrow> DeleteLabelValues f [ns, name]
      | Some t \<Rightarrow> if t = zero_time then DeleteLabelValues f [ns, name] else set_sample f [ns, name] (FloatOf (unix t)))"
    by (auto simp: fun_eq_iff recordPointerTimestamp_def split: option.split)
  then show ?thesis using assms by (simp add: writes_set writes_delete split: option.split)
qed

lemma writes_condition:
  assumes "\<And>extra. P (f, ns # name # extra)"
  shows "writes P (\<lambda>R. record_condition f ns name R c)"
  using assms unfolding record_condition_def
  by (cases "cond_LastTransitionTime c = zero_time") (simp_all add: writes_id writes_set)

lemma writes_step:
  assumes "\<And>extra. P (StepDuration, ns # name # extra)"
  shows "writes P (\<lambda>R. record_step ns name D R step)"
proof (cases "\<exists>d\<ge>0. fmlookup D step = Some d")
  case True
  then obtain d where "d \<ge> 0" "fmlookup D step = Some d" by blast
  then show ?thesis using assms by (simp add: record_step_def writes_set)
next
  case False
  then have "(\<lambda>R. record_step ns name D R step) = (\<lambda>R. R)"
    by (auto simp: record_step_def fun_eq_iff split: option.split)
  then show ?thesis by (simp add: writes_id)
qed

lemma writes_progress:
  assumes "\<And>f. f \<in> {Attempts, TablesDone, TablesExpected, RowsDone} \<Longrightarrow> P (f, [ns, name])"
  shows "writes P (record_progress ns name a)"
proof -
  have one: "writes P (set_sample f [ns, name] v)" if "f \<in> {Attempts, TablesDone, TablesExpected, RowsDone}" for f v
    using assms that by (intro writes_set) blast
  show ?thesis unfolding record_progress_def [abs_def] Let_def
    by (cases a; cases "case a of None \<Rightarrow> None | Some st \<Rightarrow> as_Progress st")
      (auto intro!: one writes_id writes_comp [OF _ one])
qed

section \<open>Removal\<close>

lemma partial_lookup:
  "fmlookup (DeletePartialMatch ns name f R) s = (if fst s = f \<and> belongs ns name s then None else fmlookup R s)"
  by (auto simp: DeletePartialMatch_def)

lemma partials_lookup:
  "fmlookup (foldl (\<lambda>R f. DeletePartialMatch ns name f R) R fs) s =
     (if fst s \<in> set fs \<and> belongs ns name s then None else fmlookup R s)"
  by (induction fs arbitrary: R) (auto simp: partial_lookup)

lemma ForgetRun_lookup: "fmlookup (ForgetRun ns name R) s = (if fst s \<in> set runGauges \<and> belongs ns name s then None else fmlookup R s)"
  unfolding ForgetRun_def by (rule partials_lookup)

lemma ForgetBackupPointer_lookup:
  "fmlookup (ForgetBackupPointer ns name R) s =
     (if fst s \<in> set (PublishAttempts # pointerGauges) \<and> belongs ns name s then None else fmlookup R s)"
  unfolding ForgetBackupPointer_def by (simp add: partial_lookup partials_lookup)

section \<open>Recording\<close>

definition run_series :: "string \<Rightarrow> string \<Rightarrow> series \<Rightarrow> bool" where
  "run_series ns name s \<longleftrightarrow> fst s \<in> set runGauges \<and> belongs ns name s"

lemma run_series_labels [simp]: "f \<in> set runGauges \<Longrightarrow> run_series ns name (f, ns # name # extra)"
  by (simp add: run_series_def)

lemma RecordRun_writes:
  "\<exists>g. writes (run_series (om_Namespace (run_Meta run)) (om_Name (run_Meta run))) g \<and>
     (\<forall>R. RecordRun run ob R = g (ForgetRun (om_Namespace (run_Meta run)) (om_Name (run_Meta run)) R))"
proof -
  let ?ns = "om_Namespace (run_Meta run)" and ?name = "om_Name (run_Meta run)" and ?st = "run_Status run"
  let ?P = "run_series ?ns ?name"
  have fam: "f \<in> set runGauges" if "f \<in> {RunPhase, StartTime, CompletionTime, RunConditionTransition, Attempts, TablesDone,
      TablesExpected, RowsDone, RowsExpected, StepDuration, TempClusterPresent}" for f
    using that by (auto simp: runGauges_def)
  have phase: "writes ?P (\<lambda>R. if rst_Phase ?st \<noteq> [] then set_sample RunPhase [?ns, ?name, rst_Phase ?st] (FloatOf 1) R else R)"
    by (cases "rst_Phase ?st = []") (simp_all add: writes_id writes_set fam)
  have times: "writes ?P (recordPointerTimestamp f ?ns ?name t)" if "f \<in> {StartTime, CompletionTime}" for f t
    using that by (intro writes_timestamp run_series_labels fam) auto
  have conds: "writes ?P (\<lambda>R. foldl (record_condition RunConditionTransition ?ns ?name) R cs)" for cs
    by (intro writes_foldl writes_condition run_series_labels fam) simp
  have progress: "writes ?P (record_progress ?ns ?name (rst_Anonymize ?st))"
    by (intro writes_progress run_series_labels fam) auto
  have rows: "writes ?P (\<lambda>R. case ob_RowsTotal ob of None \<Rightarrow> R | Some n \<Rightarrow> set_sample RowsExpected [?ns, ?name] (FloatOf n) R)"
    by (cases "ob_RowsTotal ob") (simp_all add: writes_id writes_set fam)
  have steps: "writes ?P (\<lambda>R. foldl (record_step ?ns ?name (ob_StepDurations ob)) R xs)" for xs
    by (intro writes_foldl writes_step run_series_labels fam) simp
  have temp: "writes ?P (\<lambda>R. case ob_TempClusterPresent ob of None \<Rightarrow> R
      | Some present \<Rightarrow> set_sample TempClusterPresent [?ns, ?name] (FloatOf (if present then 1 else 0)) R)"
    by (cases "ob_TempClusterPresent ob") (simp_all add: writes_id writes_set fam)
  have start: "writes ?P (recordPointerTimestamp StartTime ?ns ?name (rst_StartedAt ?st))"
    and completion: "writes ?P (recordPointerTimestamp CompletionTime ?ns ?name (rst_CompletedAt ?st))"
    by (simp_all add: times)
  note all = writes_comp [OF writes_comp [OF writes_comp [OF writes_comp [OF writes_comp [OF writes_comp [OF writes_comp [OF phase start]
    completion] conds [of "rst_Conditions ?st"]] progress] rows]
    steps [of "[RunStepRestore, RunStepAnonymize, RunStepBackup, RunStepPublish, RunStepCleanup]"]] temp]
  show ?thesis by (rule exI, rule conjI [OF all]) (simp only: RecordRun_def Let_def simp_thms)
qed

lemma RecordRun_lookup:
  "fmlookup (RecordRun run ob R) s =
     (if run_series (om_Namespace (run_Meta run)) (om_Name (run_Meta run)) s then fmlookup (RecordRun run ob fmempty) s else fmlookup R s)"
proof -
  obtain g where g: "writes (run_series (om_Namespace (run_Meta run)) (om_Name (run_Meta run))) g"
      "\<And>R. RecordRun run ob R = g (ForgetRun (om_Namespace (run_Meta run)) (om_Name (run_Meta run)) R)"
    using RecordRun_writes by blast
  show ?thesis
  proof (cases "run_series (om_Namespace (run_Meta run)) (om_Name (run_Meta run)) s")
    case True
    then have "fmlookup (g (ForgetRun (om_Namespace (run_Meta run)) (om_Name (run_Meta run)) R)) s =
        fmlookup (g (ForgetRun (om_Namespace (run_Meta run)) (om_Name (run_Meta run)) fmempty)) s"
      by (intro writes_same [OF g(1)]) (simp add: ForgetRun_lookup run_series_def)
    then show ?thesis using True by (simp add: g(2))
  next
    case False
    then show ?thesis using writes_other [OF g(1) False]
      by (auto simp: g(2) ForgetRun_lookup run_series_def)
  qed
qed

text \<open>The series of a pointer that a recording replaces; those of the candidates are recorded apart.\<close>

definition pointer_series :: "string \<Rightarrow> string \<Rightarrow> series \<Rightarrow> bool" where
  "pointer_series ns name s \<longleftrightarrow> s \<in> {(PublishedTime, [ns, name]), (SourceBackupTime, [ns, name])} \<or>
     fst s = PointerConditionTransition \<and> belongs ns name s"

definition stamped :: "int option \<Rightarrow> sample option" where
  "stamped t = (case t of None \<Rightarrow> None | Some t \<Rightarrow> if t = zero_time then None else Some (FloatOf (unix t)))"

lemma timestamp_lookup:
  "fmlookup (recordPointerTimestamp f ns name t R) s = (if s = (f, [ns, name]) then stamped t else fmlookup R s)"
  by (auto simp: recordPointerTimestamp_def stamped_def DeleteLabelValues_def set_sample_def split: option.splits)

lemma RecordBackupPointer_lookup:
  "fmlookup (RecordBackupPointer bp R) s =
     (if pointer_series (om_Namespace (bp_Meta bp)) (om_Name (bp_Meta bp)) s then fmlookup (RecordBackupPointer bp fmempty) s else fmlookup R s)"
proof -
  let ?ns = "om_Namespace (bp_Meta bp)" and ?name = "om_Name (bp_Meta bp)"
  let ?conds = "\<lambda>R. foldl (record_condition PointerConditionTransition ?ns ?name) R (bpt_Conditions (bp_Status bp))"
  define times where "times = (\<lambda>R. recordPointerTimestamp SourceBackupTime ?ns ?name (case bpt_Current (bp_Status bp) of None \<Rightarrow> None
    | Some c \<Rightarrow> pb_CompletedAt c) (recordPointerTimestamp PublishedTime ?ns ?name (case bpt_Current (bp_Status bp) of None \<Rightarrow> None
    | Some c \<Rightarrow> pb_PublishedAt c) R))"
  have def: "RecordBackupPointer bp R = ?conds (DeletePartialMatch ?ns ?name PointerConditionTransition (times R))" for R
    by (simp add: RecordBackupPointer_def times_def Let_def)
  have conds: "writes (\<lambda>s. fst s = PointerConditionTransition \<and> belongs ?ns ?name s) ?conds"
    by (intro writes_foldl writes_condition) simp
  have time: "fmlookup (times R) s = (if s \<in> {(PublishedTime, [?ns, ?name]), (SourceBackupTime, [?ns, ?name])}
      then fmlookup (times fmempty) s else fmlookup R s)" for R
    unfolding times_def timestamp_lookup by auto
  show ?thesis
  proof (cases "fst s = PointerConditionTransition \<and> belongs ?ns ?name s")
    case True
    then have "fmlookup (?conds (DeletePartialMatch ?ns ?name PointerConditionTransition (times R))) s =
        fmlookup (?conds (DeletePartialMatch ?ns ?name PointerConditionTransition (times fmempty))) s"
      by (intro writes_same [OF conds]) (simp add: partial_lookup)
    then show ?thesis using True by (simp add: def pointer_series_def)
  next
    case False
    then show ?thesis unfolding def pointer_series_def
      using writes_other [OF conds, of s] time [of R] by (auto simp: partial_lookup)
  qed
qed

lemma Candidates_lookup:
  "fmlookup (RecordBackupPointerCandidates bp R) s =
     (let ns = om_Namespace (bp_Meta bp); name = om_Name (bp_Meta bp); n = bpt_Backups (bp_Status bp) in
      if s = (Candidates, [ns, name, ''Starting'']) then Some (FloatOf (bc_Starting n))
      else if s = (Candidates, [ns, name, ''Running'']) then Some (FloatOf (bc_Running n))
      else if s = (Candidates, [ns, name, ''Failed'']) then Some (FloatOf (bc_Failed n))
      else if s = (Candidates, [ns, name, ''Succeeded'']) then Some (FloatOf (bc_Succeeded n)) else fmlookup R s)"
  by (simp add: RecordBackupPointerCandidates_def set_sample_def Let_def)

section \<open>Histories\<close>

datatype metric_event = MRun AnonymizationRun RunObservation | MForgetRun string string | MPointer BackupPointer
  | MCandidates BackupPointer | MPublish string string bool | MForgetPointer string string

fun apply_event :: "metric_event \<Rightarrow> registry \<Rightarrow> registry" where
  "apply_event (MRun run ob) R = RecordRun run ob R"
| "apply_event (MForgetRun ns name) R = ForgetRun ns name R"
| "apply_event (MPointer bp) R = RecordBackupPointer bp R"
| "apply_event (MCandidates bp) R = RecordBackupPointerCandidates bp R"
| "apply_event (MPublish ns name success) R = RecordBackupPointerPublish ns name success R"
| "apply_event (MForgetPointer ns name) R = ForgetBackupPointer ns name R"

text \<open>Series that belong to a subject, of which the last event about it says all.\<close>

locale recorder =
  fixes subject :: "metric_event \<Rightarrow> 'k option" and owned :: "'k \<Rightarrow> series \<Rightarrow> bool"
  assumes own: "subject e = Some k \<Longrightarrow> owned k s \<Longrightarrow> fmlookup (apply_event e R) s = fmlookup (apply_event e fmempty) s"
    and other: "subject e \<noteq> Some k \<Longrightarrow> owned k s \<Longrightarrow> fmlookup (apply_event e R) s = fmlookup R s"
begin

lemma shows_last:
  "owned k s \<Longrightarrow> fmlookup (fold apply_event h R) s =
     (case find (\<lambda>e. subject e = Some k) (rev h) of None \<Rightarrow> fmlookup R s | Some e \<Rightarrow> fmlookup (apply_event e fmempty) s)"
proof (induction h rule: rev_induct)
  case (snoc e h)
  then show ?case using own [of e k s] other [of e k s] by (cases "subject e = Some k") simp_all
qed simp

end

fun run_subject :: "metric_event \<Rightarrow> (string \<times> string) option" where
  "run_subject (MRun run ob) = Some (om_Namespace (run_Meta run), om_Name (run_Meta run))"
| "run_subject (MForgetRun ns name) = Some (ns, name)"
| "run_subject _ = None"

fun pointer_subject :: "metric_event \<Rightarrow> (string \<times> string) option" where
  "pointer_subject (MPointer bp) = Some (om_Namespace (bp_Meta bp), om_Name (bp_Meta bp))"
| "pointer_subject (MForgetPointer ns name) = Some (ns, name)"
| "pointer_subject _ = None"

lemma belongs_unique: "belongs ns name s \<Longrightarrow> belongs ns' name' s \<longleftrightarrow> ns' = ns \<and> name' = name"
  by (auto simp: belongs_def)

lemma publish_lookup: "fst s \<noteq> PublishAttempts \<Longrightarrow> fmlookup (RecordBackupPointerPublish ns name ok R) s = fmlookup R s"
  by (auto simp: RecordBackupPointerPublish_def set_sample_def Let_def)

lemma untouched:
  "\<not> run_series (om_Namespace (run_Meta run)) (om_Name (run_Meta run)) s \<Longrightarrow> fmlookup (RecordRun run ob R) s = fmlookup R s"
  "\<not> run_series ns name s \<Longrightarrow> fmlookup (ForgetRun ns name R) s = fmlookup R s"
  "\<not> pointer_series (om_Namespace (bp_Meta bp)) (om_Name (bp_Meta bp)) s \<Longrightarrow> fmlookup (RecordBackupPointer bp R) s = fmlookup R s"
  "fst s \<noteq> Candidates \<Longrightarrow> fmlookup (RecordBackupPointerCandidates bp R) s = fmlookup R s"
  "fst s \<notin> set (PublishAttempts # pointerGauges) \<or> \<not> belongs ns name s \<Longrightarrow> fmlookup (ForgetBackupPointer ns name R) s = fmlookup R s"
proof -
  assume "\<not> run_series (om_Namespace (run_Meta run)) (om_Name (run_Meta run)) s"
  then show "fmlookup (RecordRun run ob R) s = fmlookup R s" by (subst RecordRun_lookup) simp
next
  assume "\<not> pointer_series (om_Namespace (bp_Meta bp)) (om_Name (bp_Meta bp)) s"
  then show "fmlookup (RecordBackupPointer bp R) s = fmlookup R s" by (subst RecordBackupPointer_lookup) simp
next
  assume "fst s \<noteq> Candidates"
  then show "fmlookup (RecordBackupPointerCandidates bp R) s = fmlookup R s"
    by (cases s) (simp add: Candidates_lookup Let_def)
qed (simp only: ForgetRun_lookup ForgetBackupPointer_lookup run_series_def split: if_split; blast)+

interpretation runs: recorder run_subject "\<lambda>(ns, name). run_series ns name"
proof (unfold_locales, goal_cases)
  case (1 e k s R)
  then show ?case
  proof (cases e)
    case (MRun run ob)
    then show ?thesis using 1 RecordRun_lookup [of run ob R s] by auto
  qed (auto simp: ForgetRun_lookup run_series_def)
next
  case (2 e k s R)
  have fam: "fst s \<in> set runGauges" "belongs (fst k) (snd k) s" using 2(2) by (auto simp: run_series_def split: prod.splits)
  have pointer: "fst s \<notin> set (PublishAttempts # pointerGauges)" "fst s \<noteq> Candidates" "fst s \<noteq> PublishAttempts"
    using fam(1) by (auto simp: runGauges_def pointerGauges_def)
  moreover have "\<not> pointer_series ns name s" for ns name using pointer by (auto simp: pointer_series_def pointerGauges_def)
  moreover have "\<not> run_series ns name s" if "(ns, name) \<noteq> k" for ns name
    using belongs_unique [OF fam(2)] that by (auto simp: run_series_def)
  ultimately show ?case using 2(1) by (cases e) (simp_all add: untouched publish_lookup)
qed

interpretation pointers: recorder pointer_subject "\<lambda>(ns, name). pointer_series ns name"
proof (unfold_locales, goal_cases)
  case (1 e k s R)
  then show ?case
  proof (cases e)
    case (MPointer bp)
    then show ?thesis using 1 RecordBackupPointer_lookup [of bp R s] by auto
  qed (auto simp: ForgetBackupPointer_lookup pointer_series_def pointerGauges_def)
next
  case (2 e k s R)
  have fam: "fst s \<in> {PublishedTime, SourceBackupTime, PointerConditionTransition}" "belongs (fst k) (snd k) s"
    using 2(2) by (auto simp: pointer_series_def split: prod.splits)
  have "\<not> run_series ns name s" for ns name using fam(1) by (auto simp: run_series_def runGauges_def)
  moreover have other: "\<not> belongs ns name s" if "(ns, name) \<noteq> k" for ns name
    using belongs_unique [OF fam(2), of ns name] that by auto
  moreover have "\<not> pointer_series ns name s" if "(ns, name) \<noteq> k" for ns name
    using other [OF that] by (auto simp: pointer_series_def)
  moreover have "fst s \<noteq> Candidates" "fst s \<noteq> PublishAttempts" using fam(1) by auto
  ultimately show ?case using 2(1) by (cases e) (simp_all add: untouched publish_lookup)
qed

lemma find_holds: "find P xs = Some x \<Longrightarrow> P x"
  by (induction xs) (auto split: if_splits)

section \<open>Properties\<close>


definition seen_nothing :: RunObservation where
  "seen_nothing = \<lparr>ob_TempClusterPresent = Some True, ob_StepDurations = fmempty, ob_RowsTotal = None\<rparr>"

definition recreated_history :: "metric_event list" where
  "recreated_history = [MRun sample_run seen_nothing, MForgetRun ''shop'' ''nightly'',
     MRun sample_run (seen_nothing\<lparr>ob_TempClusterPresent := None, ob_RowsTotal := Some 7\<rparr>), MPublish ''shop'' ''nightly'' True]"

lemma recreated_last:
  "find (\<lambda>e. run_subject e = Some (''shop'', ''nightly'')) (rev recreated_history) =
     Some (MRun sample_run (seen_nothing\<lparr>ob_TempClusterPresent := None, ob_RowsTotal := Some 7\<rparr>))"
  by (simp add: recreated_history_def sample_run_def)

lemma recreated_alone:
  "fmlookup (RecordRun sample_run (seen_nothing\<lparr>ob_TempClusterPresent := None, ob_RowsTotal := Some 7\<rparr>) fmempty) (RowsExpected, [''shop'', ''nightly'']) =
     Some (FloatOf 7)"
  "fmlookup (RecordRun sample_run (seen_nothing\<lparr>ob_TempClusterPresent := None, ob_RowsTotal := Some 7\<rparr>) fmempty) (TempClusterPresent, [''shop'', ''nightly'']) =
     None"
  by code_simp+


end
