(* ===== verification/Seed_Demo.thy ===== *)
theory Seed_Demo
  imports Anonymize Schedule "HOL-Library.Sublist"
begin

text \<open>
  \<open>cmd/seed_demo.go\<close>: the command that fills a demo cluster with fixtures, once.  The database is
  a parameter; the log of a run holds the statements that change something, in order.  The number
  of ticks before the readiness wait ends is the environment's choice.
\<close>

section \<open>Settings\<close>

definition seedProfile :: string where "seedProfile = ''demo-v1''"

definition seedTables :: "(string \<times> string) list" where
  "seedTables =
     [(''demo_users'', ''user''), (''demo_users'', ''organisation''), (''demo_users'', ''address''), (''demo_users'', ''email_blacklist''),
      (''demo_users'', ''seed_meta''), (''demo_orders'', ''commission''), (''demo_orders'', ''commission_identity''),
      (''demo_orders'', ''commission_details_message''), (''demo_orders'', ''audit_log''), (''demo_content'', ''message_property'')]"

record seedFlags =
  sf_host :: string
  sf_user :: string
  sf_passwordFile :: string
  sf_tlsMode :: string
  sf_tlsCAFile :: string
  sf_port :: int
  sf_scale :: int
  sf_wait :: int

definition seedDefaults :: seedFlags where
  "seedDefaults = \<lparr>sf_host = [], sf_user = ''root'', sf_passwordFile = ''/etc/pxc-anonymizer/creds/root'', sf_tlsMode = ''disabled'',
     sf_tlsCAFile = [], sf_port = 3306, sf_scale = 1, sf_wait = 1800000000000\<rparr>"

definition seedFlagSet :: "(string \<times> seedFlags flag_setter) list" where
  "seedFlagSet =
     [(''host'', SetString (\<lambda>v s. s\<lparr>sf_host := v\<rparr>)), (''port'', SetInt (\<lambda>v s. s\<lparr>sf_port := v\<rparr>)),
      (''user'', SetString (\<lambda>v s. s\<lparr>sf_user := v\<rparr>)), (''password-file'', SetString (\<lambda>v s. s\<lparr>sf_passwordFile := v\<rparr>)),
      (''wait'', SetDuration (\<lambda>v s. s\<lparr>sf_wait := v\<rparr>)), (''scale'', SetInt (\<lambda>v s. s\<lparr>sf_scale := v\<rparr>)),
      (''tls-mode'', SetString (\<lambda>v s. s\<lparr>sf_tlsMode := v\<rparr>)), (''tls-ca-file'', SetString (\<lambda>v s. s\<lparr>sf_tlsCAFile := v\<rparr>))]"

text \<open>The settings that the TLS configuration reads; the others keep their zero values.\<close>

definition tls_flags :: "seedFlags \<Rightarrow> anonymizeFlags" where
  "tls_flags s = \<lparr>af_policy = [], af_host = sf_host s, af_user = [], af_passwordFile = [], af_seedFile = [], af_reference = [],
     af_logFormat = [], af_terminationFile = [], af_tlsMode = sf_tlsMode s, af_tlsCAFile = sf_tlsCAFile s, af_port = 0,
     af_attempt = 0, af_interval = 0, af_options = empty_options\<rparr>"

definition prepareSeed :: "clib \<Rightarrow> (string \<Rightarrow> projected) \<Rightarrow> seedFlags \<Rightarrow> gerr + mysqlConfig" where
  "prepareSeed C fs s =
     (if sf_host s = [] \<or> list_ex (\<lambda>c. c \<in> set [CHR 0x0D, CHR 0x0A, CHR '' '', CHR ''/'', CHR 0x5C]) (sf_host s) \<or>
         sf_port s < 1 \<or> 65535 < sf_port s \<or> sf_user s = []
      then Inl (EPlain ''invalid database address or username'')
      else if sf_scale s < 1 \<or> 10 < sf_scale s \<or> sf_wait s \<le> 0
      then Inl (EPlain ''scale must be 1 through 10 and wait must be positive'')
      else case ReadFile fs (sf_passwordFile s) (2 ^ 20) of
        Inl _ \<Rightarrow> Inl (EPlain ''password file must contain a nonempty value'')
      | Inr password \<Rightarrow>
          if password = [] then Inl (EPlain ''password file must contain a nonempty value'')
          else configureAnonymizeTLS C fs (tls_flags s)
            \<lparr>mc_Net = ''tcp'', mc_Addr = join_host_port (sf_host s) (int_dec (sf_port s)), mc_User = sf_user s,
             mc_Passwd = password, mc_MultiStatements = True, mc_ParseTime = True, mc_Timeout = 10000000000,
             mc_TLSConfig = [], mc_TLS = None\<rparr>)"

section \<open>The database\<close>

datatype sreq = SExec string | SSetVars int string | SBegin | STx string | SCommit | SRollback

record 'w seed_db =
  sd_conn :: "'w \<Rightarrow> (gerr + unit) \<times> 'w"
  sd_ping :: "'w \<Rightarrow> (gerr + unit) \<times> 'w"
  sd_marker :: "'w \<Rightarrow> (gerr + string \<times> int) \<times> 'w"
  sd_nonempty :: "string \<times> string \<Rightarrow> 'w \<Rightarrow> (gerr + bool) \<times> 'w"
  sd_engine :: "string \<times> string \<Rightarrow> 'w \<Rightarrow> (gerr + string option) \<times> 'w"
  sd_exec :: "sreq \<Rightarrow> 'w \<Rightarrow> (gerr + unit) \<times> 'w"

type_synonym ('w, 'a) sact = "('w, sreq, gerr, 'a) eff"

definition ErrNoRows :: gerr where
  "ErrNoRows = EPlain ''sql: no rows in result set''"

definition seedTableAbsent :: "gerr \<Rightarrow> bool" where
  "seedTableAbsent e \<longleftrightarrow> as_mysql e = Some 1049 \<or> as_mysql e = Some 1146"

text \<open>A statement whose error is replaced by a message.\<close>

definition must :: "'w seed_db \<Rightarrow> sreq \<Rightarrow> string \<Rightarrow> ('w, unit) sact" where
  "must D q msg = attempt (request q (sd_exec D q)) (\<lambda>r. case r of Inl _ \<Rightarrow> fail (EPlain msg) | Inr _ \<Rightarrow> ret ())"

definition seedTablesEmpty :: "'w seed_db \<Rightarrow> ('w, unit) sact" where
  "seedTablesEmpty D = foreach (\<lambda>t. attempt (query (sd_nonempty D t)) (\<lambda>r. case r of
     Inl e \<Rightarrow> if seedTableAbsent e then ret () else fail (EPlain ''fixture table cannot be inspected'')
   | Inr nonempty \<Rightarrow> if nonempty then fail (EPlain ''unmarked fixture table contains data; refusing to append'') else ret ())) seedTables"

definition seedTablesTransactional :: "'w seed_db \<Rightarrow> ('w, unit) sact" where
  "seedTablesTransactional D = foreach (\<lambda>t. attempt (query (sd_engine D t)) (\<lambda>r. case r of
     Inr (Some eng) \<Rightarrow> if ascii_lower eng = ''innodb'' then ret ()
       else fail (EPlain ''every fixture table must exist and use InnoDB before seeding'')
   | _ \<Rightarrow> fail (EPlain ''every fixture table must exist and use InnoDB before seeding''))) seedTables"

section \<open>Seeding\<close>

definition fixture :: "(string \<Rightarrow> gerr + string) \<Rightarrow> string \<Rightarrow> gerr + string" where
  "fixture files name =
     (case files name of
        Inl _ \<Rightarrow> Inl (EPlain ''embedded seed fixture is missing or empty'')
      | Inr data \<Rightarrow> if trim_space data = [] then Inl (EPlain ''embedded seed fixture is missing or empty'') else Inr data)"

text \<open>A statement of the transaction: the deferred rollback follows a failure.  After a commit, even
  one that failed, it does nothing.\<close>

definition seed_statement :: "'w seed_db \<Rightarrow> string \<Rightarrow> ('w, unit) sact" where
  "seed_statement D stmt = attempt (request (STx stmt) (sd_exec D (STx stmt))) (\<lambda>r. case r of
     Inl _ \<Rightarrow> attempt (request SRollback (sd_exec D SRollback)) (\<lambda>_.
       fail (EPlain ''fixture or marker insert failed; seed transaction rolled back''))
   | Inr _ \<Rightarrow> ret ())"

definition seed_session :: "'w seed_db \<Rightarrow> int \<Rightarrow> string list \<Rightarrow> ('w, bool) sact" where
  "seed_session D scale files =
     andthen (must D (SExec (files ! 0)) ''fixture schema could not be created'') (\<lambda>_.
     andthen (seedTablesTransactional D) (\<lambda>_.
     andthen (must D (SExec ''SET SESSION cte_max_recursion_depth = 1000000'') ''fixture recursion limit could not be configured'') (\<lambda>_.
     andthen (must D (SSetVars scale seedProfile) ''fixture session variables could not be configured'') (\<lambda>_.
     andthen (must D SBegin ''seed transaction could not be started'') (\<lambda>_.
     andthen (foreach (seed_statement D) (tl files)) (\<lambda>_.
     andthen (must D SCommit ''seed commit could not be confirmed; inspect the marker before retrying'') (\<lambda>_.
     ret False)))))))"

definition applySeed :: "'w seed_db \<Rightarrow> (string \<Rightarrow> gerr + string) \<Rightarrow> int \<Rightarrow> ('w, bool) sact" where
  "applySeed D files scale =
     attempt (query (sd_marker D)) (\<lambda>r. case r of
       Inr (profile, recordedScale) \<Rightarrow>
         if profile \<noteq> seedProfile \<or> recordedScale \<noteq> scale
         then fail (EPlain ''seed marker profile or scale differs; refusing to overwrite'') else ret True
     | Inl e \<Rightarrow>
         if ErrNoRows \<notin> set (err_tree e) \<and> \<not> seedTableAbsent e then fail (EPlain ''seed marker cannot be read'')
         else andthen (seedTablesEmpty D) (\<lambda>_.
           andthen (lift (mapr (fixture files) [''schema.sql'', ''seed.sql'', ''finish.sql''])) (\<lambda>fs.
           seed_session D scale fs)))"

section \<open>The command\<close>

fun waitSeedConnection :: "'w seed_db \<Rightarrow> nat \<Rightarrow> ('w, unit) sact" where
  "waitSeedConnection D ticks =
     attempt (andthen (query (sd_conn D)) (\<lambda>_. query (sd_ping D))) (\<lambda>r. case r of
       Inr _ \<Rightarrow> ret ()
     | Inl e \<Rightarrow>
         if as_mysql e = Some 1044 \<or> as_mysql e = Some 1045 then fail (EPlain ''database authentication or access denied'')
         else case ticks of
           0 \<Rightarrow> fail (EPlain ''MySQL readiness wait expired or was canceled'')
         | Suc n \<Rightarrow> waitSeedConnection D n)"

text \<open>The exit code; the texts on the standard streams are left out.\<close>

definition runSeedDemo ::
  "clib \<Rightarrow> (string \<Rightarrow> projected) \<Rightarrow> (mysqlConfig \<Rightarrow> 'w seed_db) \<Rightarrow> nat \<Rightarrow> (string \<Rightarrow> gerr + string) \<Rightarrow> string list \<Rightarrow> ('w, int) sact" where
  "runSeedDemo C fs db ticks files args =
     (case Parse_flags C seedFlagSet args seedDefaults of
        (_, Inl ErrHelp) \<Rightarrow> ret 0
      | (_, Inl BadFlag) \<Rightarrow> ret 1
      | (s, Inr rest) \<Rightarrow>
          if rest \<noteq> [] then ret 1
          else case prepareSeed C fs s of
            Inl _ \<Rightarrow> ret 1
          | Inr cfg \<Rightarrow>
              if \<not> cl_connector C cfg then ret 1
              else attempt (waitSeedConnection (db cfg) ticks) (\<lambda>r. case r of
                Inl _ \<Rightarrow> ret 1
              | Inr _ \<Rightarrow> attempt (applySeed (db cfg) files (sf_scale s)) (\<lambda>r. case r of Inl _ \<Rightarrow> ret 1 | Inr _ \<Rightarrow> ret 0)))"

section \<open>What may be sent\<close>

text \<open>The statements of a seeding, and what a run that stops early leaves of them.\<close>

definition seed_script :: "int \<Rightarrow> string list \<Rightarrow> sreq list" where
  "seed_script scale files =
     [SExec (files ! 0), SExec ''SET SESSION cte_max_recursion_depth = 1000000'', SSetVars scale seedProfile, SBegin] @
     map STx (tl files) @ [SCommit]"

definition stopped_script :: "bool \<Rightarrow> sreq list \<Rightarrow> sreq list \<Rightarrow> bool" where
  "stopped_script begun script l \<longleftrightarrow> prefix l script \<or>
     (\<exists>l'. l = l' @ [SRollback] \<and> prefix l' (butlast script) \<and> (begun \<or> SBegin \<in> set l'))"

lemma must_runs: "runs (must D q msg) (\<lambda>l r. l = [q])"
  unfolding must_def by (rule runs_attempt [OF runs_request [where Q = "\<lambda>l _. l = [q]"]]) (auto intro: runs_ret runs_fail split: sum.split)

lemma statement_runs:
  "runs (seed_statement D stmt) (\<lambda>l r. (is_ok r \<longrightarrow> l = [STx stmt]) \<and> (l = [STx stmt] \<or> l = [STx stmt, SRollback]))"
  unfolding seed_statement_def
proof (rule runs_attempt [OF runs_request [where Q = "\<lambda>l _. l = [STx stmt]"]], simp, goal_cases)
  case (1 l x)
  show ?case
  proof (cases x)
    case (Inl e)
    show ?thesis unfolding Inl sum.case
      by (rule runs_attempt [OF runs_request [where Q = "\<lambda>l _. l = [SRollback]"]]) (use 1 in \<open>auto intro: runs_fail\<close>)
  qed (use 1 in \<open>auto intro: runs_ret\<close>)
qed

lemma statements_runs:
  "runs (foreach (seed_statement D) stmts) (\<lambda>l r. (is_ok r \<longrightarrow> l = map STx stmts) \<and>
     (prefix l (map STx stmts) \<or> (\<exists>l'. l = l' @ [SRollback] \<and> prefix l' (map STx stmts))))"
proof (induction stmts)
  case Nil
  then show ?case by (auto intro: runs_ret)
next
  case (Cons x xs)
  show ?case unfolding foreach.simps
  proof (rule runs_andthen [OF statement_runs], goal_cases)
    case (1 l e)
    then show ?case by auto
  next
    case (2 l u)
    then have "l = [STx x]" by simp
    then show ?case by (intro runs_conseq [OF Cons.IH]) (auto simp: Cons_eq_append_conv)
  qed
qed

lemma quiet_foreach: "(\<And>x. runs (f x) (\<lambda>l _. l = [])) \<Longrightarrow> runs (foreach f xs) (\<lambda>l _. l = [])"
proof (induction xs)
  case (Cons x xs)
  show ?case unfolding foreach.simps
    by (rule runs_andthen [OF Cons.prems]) (auto intro: runs_conseq [OF Cons.IH [OF Cons.prems]])
qed (auto intro: runs_ret)

lemma transactional_quiet: "runs (seedTablesTransactional D) (\<lambda>l _. l = [])"
  unfolding seedTablesTransactional_def
  by (rule quiet_foreach, rule runs_attempt [OF runs_query [where Q = "\<lambda>l _. l = []"]])
    (auto intro: runs_ret runs_fail split: sum.split option.split)

definition follows :: "bool \<Rightarrow> sreq list \<Rightarrow> ('w, 'a) sact \<Rightarrow> bool" where
  "follows begun script m \<longleftrightarrow> runs m (\<lambda>l r. stopped_script begun script l \<and> (is_ok r \<longrightarrow> l = script))"

lemma follows_quiet:
  "runs m (\<lambda>l _. l = []) \<Longrightarrow> (\<And>x. follows begun script (f x)) \<Longrightarrow> follows begun script (andthen m f)"
  unfolding follows_def by (erule runs_andthen) (auto simp: stopped_script_def)

lemma follows_step:
  assumes "\<And>x. follows begun' script (f x)" "begun' \<Longrightarrow> begun \<or> q = SBegin" "script \<noteq> []"
  shows "follows begun (q # script) (andthen (must D q msg) f)"
  unfolding follows_def
proof (rule runs_andthen [OF must_runs], goal_cases)
  case (2 l x)
  have "stopped_script begun (q # script) (q # l)" if "stopped_script begun' script l" for l
    using that assms(2,3) unfolding stopped_script_def by (auto simp: Cons_eq_append_conv)
  then show ?case using 2 assms(1) [of x, unfolded follows_def] by (auto elim: runs_conseq)
qed (simp add: stopped_script_def)

lemma follows_statements:
  assumes "\<And>x. follows True [SCommit] (f x)"
  shows "follows True (map STx stmts @ [SCommit]) (andthen (foreach (seed_statement D) stmts) f)"
  unfolding follows_def
proof (rule runs_andthen [OF statements_runs], goal_cases)
  case (1 l e)
  then show ?case by (auto simp: stopped_script_def butlast_append intro: prefix_prefix)
next
  case (2 l u)
  then have l: "l = map STx stmts" by simp
  show ?case by (rule runs_conseq [OF assms [of u, unfolded follows_def]])
    (auto simp: l stopped_script_def butlast_append prefix_Cons)
qed

lemma follows_commit: "follows True [SCommit] (andthen (must D SCommit msg) (\<lambda>_. ret False))"
  unfolding follows_def
  by (rule runs_andthen [OF must_runs]) (auto simp: stopped_script_def intro: runs_ret)

lemma session_follows: "follows False (seed_script scale files) (seed_session D scale files)"
  unfolding seed_session_def seed_script_def append.simps
  by (intro follows_step [where begun' = False] follows_step [where begun' = True] follows_quiet [OF transactional_quiet]
      follows_statements follows_commit) auto

definition unmarked :: "'w seed_db \<Rightarrow> bool" where
  "unmarked D \<longleftrightarrow> (\<exists>w e. fst (sd_marker D w) = Inl e \<and> (ErrNoRows \<in> set (err_tree e) \<or> seedTableAbsent e))"

definition table_clear :: "'w seed_db \<Rightarrow> string \<times> string \<Rightarrow> bool" where
  "table_clear D t \<longleftrightarrow> (\<exists>w. fst (sd_nonempty D t w) = Inr False \<or> (\<exists>e. fst (sd_nonempty D t w) = Inl e \<and> seedTableAbsent e))"

lemma tables_clear: "runs (seedTablesEmpty D) (\<lambda>l r. l = [] \<and> (is_ok r \<longrightarrow> list_all (table_clear D) seedTables))"
proof -
  let ?f = "\<lambda>t. attempt (query (sd_nonempty D t)) (\<lambda>r. case r of
     Inl e \<Rightarrow> if seedTableAbsent e then ret () else fail (EPlain ''fixture table cannot be inspected'')
   | Inr nonempty \<Rightarrow> if nonempty then fail (EPlain ''unmarked fixture table contains data; refusing to append'') else ret ())"
  have one: "runs (?f t) (\<lambda>l r. l = [] \<and> (is_ok r \<longrightarrow> table_clear D t))" for t
    by (rule runs_attempt [OF runs_query_result]) (auto simp: table_clear_def intro: runs_ret runs_fail split: sum.split)
  have "runs (foreach ?f ts) (\<lambda>l r. l = [] \<and> (is_ok r \<longrightarrow> list_all (table_clear D) ts))" for ts
  proof (induction ts)
    case (Cons t ts)
    show ?case unfolding foreach.simps
      by (rule runs_andthen [OF one]) (auto intro!: runs_conseq [OF Cons.IH])
  qed (auto intro: runs_ret)
  then show ?thesis unfolding seedTablesEmpty_def .
qed

lemma andthen_result: "fst (andthen m f s) = Inr x \<Longrightarrow> \<exists>y s'. fst (f y s') = Inr x"
  by (auto simp: andthen_def split: prod.splits sum.splits)

lemma session_false: "fst (seed_session D scale fs s) \<noteq> Inr True"
  by (auto simp: seed_session_def ret_def dest!: andthen_result)

lemma runs_andthen_fail: "Q [] (Inl e) \<Longrightarrow> runs (andthen (fail e) f) Q" and
  runs_andthen_ret: "runs (f x) Q \<Longrightarrow> runs (andthen (ret x) f) Q"
  by (simp_all add: runs_def andthen_def fail_def ret_def)

lemma runs_result: "runs m Q \<Longrightarrow> (\<And>s. R (fst (m s))) \<Longrightarrow> runs m (\<lambda>l r. Q l r \<and> R r)"
  unfolding runs_def by blast

text \<open>A seeding changes the database only where no marker was found and every fixture table was
  empty or absent; it sends the statements of the script in order, with a rollback where one of
  the transaction failed, and reports success only after the whole script, or with nothing sent
  where the marker matches.\<close>

theorem seed_never_overwrites:
  assumes "applySeed D files scale \<lparr>world = w, log = []\<rparr> = (r, s')"
  shows "(log s' \<noteq> [] \<longrightarrow> unmarked D \<and> list_all (table_clear D) seedTables \<and>
      (\<exists>fs. mapr (fixture files) [''schema.sql'', ''seed.sql'', ''finish.sql''] = Inr fs \<and> stopped_script False (seed_script scale fs) (log s'))) \<and>
    (r = Inr True \<longrightarrow> log s' = [] \<and> (\<exists>w. fst (sd_marker D w) = Inr (seedProfile, scale))) \<and>
    (r = Inr False \<longrightarrow> (\<exists>fs. mapr (fixture files) [''schema.sql'', ''seed.sql'', ''finish.sql''] = Inr fs \<and> log s' = seed_script scale fs))"
proof -
  let ?ok = "\<lambda>l r. (l \<noteq> [] \<longrightarrow> unmarked D \<and> list_all (table_clear D) seedTables \<and>
      (\<exists>fs. mapr (fixture files) [''schema.sql'', ''seed.sql'', ''finish.sql''] = Inr fs \<and> stopped_script False (seed_script scale fs) l)) \<and>
    (r = Inr True \<longrightarrow> l = [] \<and> (\<exists>w. fst (sd_marker D w) = Inr (seedProfile, scale))) \<and>
    (r = Inr False \<longrightarrow> (\<exists>fs. mapr (fixture files) [''schema.sql'', ''seed.sql'', ''finish.sql''] = Inr fs \<and> l = seed_script scale fs))"
  have session: "runs (seed_session D scale fs) ?ok" if "unmarked D" "list_all (table_clear D) seedTables"
      "mapr (fixture files) [''schema.sql'', ''seed.sql'', ''finish.sql''] = Inr fs" for fs
  proof -
    have "runs (seed_session D scale fs) (\<lambda>l r. stopped_script False (seed_script scale fs) l \<and>
        (is_ok r \<longrightarrow> l = seed_script scale fs) \<and> r \<noteq> Inr True)"
      using runs_result [OF session_follows [of scale fs D, unfolded follows_def], of "\<lambda>r. r \<noteq> Inr True"] session_false
      by (auto elim: runs_conseq)
    then show ?thesis by (rule runs_conseq) (use that in \<open>auto simp: is_ok_iff\<close>)
  qed
  have clear: "runs (andthen (seedTablesEmpty D) (\<lambda>_.
      andthen (lift (mapr (fixture files) [''schema.sql'', ''seed.sql'', ''finish.sql''])) (\<lambda>fs. seed_session D scale fs))) ?ok"
    if "unmarked D"
  proof (rule runs_andthen [OF tables_clear], simp, goal_cases)
    case (1 l u)
    then have l: "l = []" and c: "list_all (table_clear D) seedTables" by simp_all
    show ?case
    proof (cases "mapr (fixture files) [''schema.sql'', ''seed.sql'', ''finish.sql'']")
      case (Inl e)
      then show ?thesis using l by (simp add: lift_def runs_andthen_fail del: mapr.simps)
    next
      case (Inr fs)
      show ?thesis unfolding l append_Nil by (simp only: Inr lift_def sum.case) (rule runs_andthen_ret, use session [OF that c Inr] Inr in simp)
    qed
  qed
  have "runs (applySeed D files scale) ?ok" unfolding applySeed_def
  proof (rule runs_attempt [OF runs_query_result], goal_cases)
    case (1 l x)
    then obtain v where l: "l = []" and v: "fst (sd_marker D v) = x" by blast
    show ?case
    proof (cases x)
      case (Inl e)
      then have "unmarked D" if "ErrNoRows \<in> set (err_tree e) \<or> seedTableAbsent e"
        using v that unfolding unmarked_def by blast
      then show ?thesis using clear l Inl by (auto intro: runs_fail simp del: mapr.simps)
    next
      case (Inr m)
      then show ?thesis using v l by (cases m) (auto intro!: runs_fail runs_ret simp del: mapr.simps)
    qed
  qed
  from runs_trace [OF this assms] show ?thesis .
qed

end
