(* ===== verification/Manager.thy ===== *)
theory Manager
  imports Seed_Demo
begin

text \<open>
  \<open>cmd/main.go\<close> as far as it decides something: which command the arguments select and which
  namespaces the manager watches.  The rest of the file registers the controllers.
\<close>

datatype command = RunAnonymize "string list" | RunSeedDemo "string list" | RunManager "string list" | UsageError

definition main_command :: "string list \<Rightarrow> command" where
  "main_command args =
     (case args of
        [] \<Rightarrow> RunManager []
      | a # rest \<Rightarrow>
          if has_prefix a ''-'' then RunManager args
          else if a = ''anonymize'' then RunAnonymize rest
          else if a = ''seed-demo'' then RunSeedDemo rest
          else if a = ''manager'' then RunManager rest
          else UsageError)"

definition watch_namespace :: "klib \<Rightarrow> string \<Rightarrow> gerr + string" where
  "watch_namespace L name =
     (let name = trim_space name in
      if dns_label L name then Inr name else Inl (EPlain (''invalid namespace '' @ name)))"

text \<open>The namespaces of the cache, \<open>None\<close> for all of them.\<close>

definition managerOptions :: "klib \<Rightarrow> string \<Rightarrow> gerr + string list option" where
  "managerOptions L namespaces =
     (if namespaces = [] then Inr None
      else bindr (mapr (watch_namespace L) (split_on (CHR '','') namespaces)) (\<lambda>ns. Inr (Some ns)))"

text \<open>A list of namespaces never widens to all of them: what is watched is not empty and names, for
  every entry of the flag, a valid namespace.\<close>

theorem watch_confined:
  assumes "managerOptions L namespaces = Inr watched" "namespaces \<noteq> []"
  shows "\<exists>ns. watched = Some ns \<and> ns \<noteq> [] \<and> list_all (dns_label L) ns \<and> ns = map trim_space (split_on (CHR '','') namespaces)"
proof -
  obtain ns where ns: "mapr (watch_namespace L) (split_on (CHR '','') namespaces) = Inr ns" "watched = Some ns"
    using assms by (auto simp: managerOptions_def bindr_eq_Inr)
  have "mapr (watch_namespace L) xs = Inr ys \<Longrightarrow> list_all (dns_label L) ys \<and> ys = map trim_space xs" for xs ys
    by (induction xs arbitrary: ys) (auto simp: bindr_eq_Inr watch_namespace_def Let_def split: if_splits)
  then show ?thesis using ns split_on_nonempty by fastforce
qed

end
