(* ===== verification/Spec2Isabelle.thy ===== *)
theory Spec2Isabelle
  imports Engine_Safety Pxc_Safety Schedule_Safety Run_Retention Runner_Files Verdict
    Bootstrap_Safety Pointer_Controller_Safety Policy_Controller_Safety
    Metrics_Safety Manager
begin

text \<open>
  A verification library for pxc-anonymizer, a Kubernetes operator that restores a backup of a
  Percona XtraDB cluster into a temporary cluster, anonymizes it in place with a runner, takes
  a backup of the result and publishes a pointer to it.

  \<^bold>\<open>The parts and how they interact.\<close>  An \<open>AnonymizationSchedule\<close> creates
  \<open>AnonymizationRun\<close>s; the run controller freezes everything a run depends on in a
  snapshot, provisions and restores the temporary cluster, starts the runner as a Job, reads
  its report from the termination message, takes the output backup, uploads the pointer
  document, prunes old backups and cleans up.  The runner (\<open>cmd/anonymize.go\<close> and
  \<open>internal/runner\<close>) decodes the policy, plans every table, pages over the rows with a
  checkpoint per page, runs the SQL steps at most once and writes its report.  The packages
  \<open>internal/pxc\<close>, \<open>internal/objectstore\<close> and \<open>internal/pointer\<close> render the objects of
  the Percona operator, resolve storage credentials and read and write pointer documents;
  \<open>internal/crossplane\<close> pauses, resumes and recreates managed resources.  A \<open>Bootstrap\<close> restores
  the backup that a pointer names into existing clusters while their Crossplane resources are
  paused; a \<open>BackupPointer\<close> publishes the newest backup of a cluster; an \<open>AnonymizationPolicy\<close> is
  validated before a run may use it.

  \<^bold>\<open>Foundations.\<close>
  \<^item> \<open>Prelude\<close>: results with errors, Go's error trees, 64 bit arithmetic, Go strings.
  \<^item> \<open>Go_Strings\<close>: \<open>strings\<close>, \<open>strconv\<close>, UTF-8 and formatting as far as the sources
    use them.
  \<^item> \<open>Kube\<close>: JSON trees, object metadata, conditions, and the record \<open>klib\<close> of the library
    functions that the operator calls.
  \<^item> \<open>Effects\<close>, \<open>Controller\<close>: a reconciler is a function on a state that holds an
    arbitrary API server and the list of the requests sent.  \<open>runs\<close> relates requests and
    outcome, \<open>emits\<close> bounds the requests; both have one rule per combinator, so that what is
    proved holds for every server, every failure and every concurrent change.
    \<open>Joins\<close>: the errors of \<open>errors.Join\<close> as a reconciler returns them.
  \<^item> \<open>Api_Types\<close>, \<open>Api_Run\<close>, \<open>Api_Bootstrap\<close>: the data of \<open>api/v1alpha1\<close>.

  \<^bold>\<open>The runner.\<close>
  \<^item> \<open>Report\<close> (\<open>runner/report\<close>): error classes and the termination report.  The class and
    message of an error never depend on its text, and a report fits the termination file.
  \<^item> \<open>Database\<close>, \<open>Checkpoint\<close> (\<open>runner/checkpoint\<close>): the checkpoint rows.  Load after Save
    is a round trip, and a checkpoint of another policy is refused.
  \<^item> \<open>Pager\<close>, \<open>Paging\<close> (\<open>runner/pager\<close>): keyset paging.  Over any history of failures,
    ambiguous commits and steps of other workers every selected row is rewritten exactly once.
  \<^item> \<open>Sqlstep\<close> (\<open>runner/sqlstep\<close>): a step body is sent at most once, and an interrupted step
    is refused.
  \<^item> \<open>Strategy\<close>, \<open>Strategy_Safety\<close> (\<open>runner/strategy\<close>): the replacement generators; they
    never panic, respect the computed lengths, and depend on the original value only where
    consistency or masking asks for it.
  \<^item> \<open>Policy\<close> (\<open>runner/policy\<close>): decoding and validation, equivalent to a declarative
    description of well-formed policies.
  \<^item> \<open>Preflight\<close>, \<open>Engine\<close>, \<open>Engine_Counts\<close>, \<open>Engine_Safety\<close> (\<open>runner/engine\<close>): files,
    the plan of a table, retries, counters, the whole run.  The loop over a table ends within four
    iterations per row and four more; this is also the fuel of its definition, with the proof
    that it is enough.
  \<^item> \<open>Anonymize\<close> (\<open>cmd/anonymize.go\<close>): the flags with the syntax of the \<open>flag\<close> package, the
    connection settings and the exit code.
  \<^item> \<open>Seed_Demo\<close>, \<open>Manager\<close> (\<open>cmd/seed_demo.go\<close>, \<open>cmd/main.go\<close>): the other commands.  Seeding sends
    nothing where a marker or data exists; a list of watched namespaces never widens to all.

  \<^bold>\<open>The operator.\<close>
  \<^item> \<open>Objectstore\<close>, \<open>Pointer\<close>: storage settings and pointer documents; a published document is
    read back, and an HTTP fetch makes at most ten requests to URLs that passed the checks.
  \<^item> \<open>Pxc\<close>, \<open>Pxc_Safety\<close>, \<open>Ranking\<close>: rendering within the protected fields and the storage
    budget, and the selection of the newest backup over the locale of rankings.
  \<^item> \<open>Schedule\<close>, \<open>Schedule_Safety\<close>: cron ticks, concurrency, history.
  \<^item> \<open>Run_Resources\<close>, \<open>Run\<close>: the run controller, all phases.  \<open>Run_Safety\<close> proves one lemma
    per handler; \<open>Run_Properties\<close> states what follows: every status is well typed for its
    phase, the phases refine the abstract pipeline, children are created only as owned objects
    and only own objects are deleted, the finalizer goes last, and a pointer is published only
    for the run's own succeeded backup.  \<open>Run_Retention\<close>: what pruning keeps.
  \<^item> \<open>Crossplane\<close>, \<open>Crossplane_Safety\<close>: pauses respect owners and round trip; recreations
    delete only recorded originals, and their checkpoint only advances.
  \<^item> \<open>Bootstrap\<close>, \<open>Bootstrap_Safety\<close> (\<open>controller/bootstrap_controller.go\<close>): all phases and the
    compensation.  A restore is created only directly after its recorded intent, the phases refine
    an abstract machine, and a cluster is unpaused and the finalizer removed only when the
    restores are over.  The locale \<open>log_inv\<close> has the rules for invariants of whole logs.
  \<^item> \<open>Pointer_Controller\<close>, \<open>Pointer_Controller_Safety\<close> (\<open>controller/backuppointer_controller.go\<close>): at
    most one upload per reconcile, always of the newest succeeded S3 backup, and a status that names
    what the store accepted.
  \<^item> \<open>Policy_Controller\<close>, \<open>Policy_Controller_Safety\<close> (\<open>controller/anonymizationpolicy_controller.go\<close>):
    the status it writes opens the run controller's gate exactly for well-formed policies whose
    references were all found.
  \<^item> \<open>Metrics\<close>, \<open>Metrics_Safety\<close> (\<open>internal/metrics\<close>): the registry as a map of series; the locale
    \<open>recorder\<close> shows that a scrape sees the last observation of every object and nothing older.

  \<^bold>\<open>Across the process boundary.\<close>  \<open>Runner_Args\<close>: the command recovers from the arguments of
  the rendered Job what the controller put there.  \<open>Runner_Files\<close>: every file the runner opens
  is mounted from a key that the snapshot has.  \<open>Verdict\<close>: the controller accepts the report of
  every run that has decoded its policy, with the exit code of the process.

  \<^bold>\<open>Parameters.\<close>  The API server, clocks, random bytes, the JSON and YAML codecs, SHA-256, URL
  parsing, quantities, the minio and MySQL drivers and the regular expressions are arguments of the
  definitions.  A theorem that relies on their documented behaviour names it as a hypothesis, and
  its witness instantiates it.  \<open>slices.SortFunc\<close> is a stable insertion sort; workers of a
  table pool are steps that interleave between the calls of a page, and tables run in sequence.

  \<^bold>\<open>What the model showed.\<close>  \<open>Run_Properties.job_follows_live_spec\<close>: the runner Job is rendered
  from the live specification instead of the snapshot.  \<open>Run_Retention.prune_before_cycle\<close>: the
  comparison of backups in pruning is not transitive.  \<open>Verdict.page_size_beyond_runner\<close>: a page
  size that every validation accepts is refused only by the runner, with a report that the
  controller refuses.  \<open>Paging.null_predicate_rows_kept\<close>: rows on which an ignore predicate is
  null are never anonymized.  \<open>Bootstrap_Safety.failed_read_ends_execution\<close>: one failed read of a
  healthy restore ends a bootstrap.

  \<^bold>\<open>Not modelled.\<close>  Events and logs (no effect on the state; the events of a bootstrap and of a
  schedule are part of their logs), the calls that record metrics inside the controllers' models,
  the flags and the wiring of the manager in \<open>cmd/main.go\<close> and the \<open>SetupWithManager\<close> functions
  (calls of the controller runtime), the generated deep copies, and the defaulting and CEL rules of
  the API types, which the API server evaluates.
\<close>

end
